(* ===== verification/Connexa_Prelude.thy ===== *)
theory Connexa_Prelude
  imports Main "HOL-Library.Word" "HOL-Library.AList" "HOL-Library.Monad_Syntax"
begin

section \<open>Shared types and lemmas\<close>

text \<open>
  What every component of the development uses: Rust's machine integers, \<^verbatim>\<open>Result\<close> and its
  \<^verbatim>\<open>?\<close> operator, the identifiers of libp2p (opaque, with equality and an order), and the
  containers of the source as association lists.

  \<^item> \<^verbatim>\<open>HashMap\<close> and \<^verbatim>\<open>IndexMap\<close> are association lists with distinct keys, read with
    \<^const>\<open>map_of\<close> and changed with \<^const>\<open>AList.update\<close> (replace in place or append) and
    \<^const>\<open>AList.delete\<close> (the order of the rest is kept). For an \<^verbatim>\<open>IndexMap\<close> this is its
    documented order; for a \<^verbatim>\<open>HashMap\<close> the list stands for one possible iteration order.
  \<^item> \<^verbatim>\<open>BTreeMap\<close> is an association list sorted by key (\<open>bt_insert\<close>).
  \<^item> A panic of the source is the value \<^const>\<open>None\<close> of an option.
\<close>

named_theorems al_simps \<open>association lists as maps\<close>

type_synonym u8 = "8 word"
type_synonym u16 = "16 word"
type_synonym u32 = "32 word"
type_synonym u64 = "64 word"
type_synonym bytes = "8 word list"
type_synonym ('k, 'v) alist = "('k \<times> 'v) list"

subsection \<open>Result and the question mark operator\<close>

type_synonym ('a, 'e) result = "'e + 'a"

definition try_res :: "('a, 'e) result \<Rightarrow> ('a \<Rightarrow> ('b, 'e) result) \<Rightarrow> ('b, 'e) result" where
  "try_res r f = (case r of Inl e \<Rightarrow> Inl e | Inr x \<Rightarrow> f x)"

lemma try_res_simps [simp]:
  "try_res (Inl e) f = Inl e"
  "try_res (Inr x) f = f x"
  by (simp_all add: try_res_def)

lemma try_res_Inr_iff: "try_res r f = Inr y \<longleftrightarrow> (\<exists>x. r = Inr x \<and> f x = Inr y)"
  by (cases r) simp_all

lemma try_res_Inl_iff:
  "try_res r f = Inl e \<longleftrightarrow> r = Inl e \<or> (\<exists>x. r = Inr x \<and> f x = Inl e)"
  by (cases r) simp_all

definition ok_or :: "'e \<Rightarrow> 'a option \<Rightarrow> ('a, 'e) result" where
  "ok_or e x = (case x of None \<Rightarrow> Inl e | Some y \<Rightarrow> Inr y)"

lemma ok_or_simps [simp]:
  "ok_or e None = Inl e"
  "ok_or e (Some y) = Inr y"
  by (simp_all add: ok_or_def)

lemma ok_or_Inr_iff [simp]: "ok_or e x = Inr y \<longleftrightarrow> x = Some y"
  by (cases x) simp_all

subsection \<open>Saturating arithmetic\<close>

definition u32_saturating_add :: "u32 \<Rightarrow> u32 \<Rightarrow> u32" where
  "u32_saturating_add a b = (if unat a + unat b < 2 ^ 32 then a + b else - 1)"

definition u32_saturating_sub :: "u32 \<Rightarrow> u32 \<Rightarrow> u32" where
  "u32_saturating_sub a b = (if b \<le> a then a - b else 0)"

lemma unat_saturating_add_1: "unat (u32_saturating_add a 1) = min (Suc (unat a)) (2 ^ 32 - 1)"
proof (cases "unat a + unat (1 :: u32) < 2 ^ 32")
  case True
  then have "unat (a + 1) = unat a + 1" by (simp add: unat_word_ariths)
  with True show ?thesis by (simp add: u32_saturating_add_def)
next
  case False
  have "unat a < 2 ^ 32" using unsigned_less [of a] by simp
  with False have "unat a = 2 ^ 32 - 1" by simp
  with False show ?thesis by (simp add: u32_saturating_add_def unsigned_minus_1_eq_mask mask_eq_exp_minus_1)
qed

lemma unat_saturating_sub_1: "unat (u32_saturating_sub a 1) = unat a - 1"
proof (cases "a = 0")
  case True
  then show ?thesis by (simp add: u32_saturating_sub_def)
next
  case False
  then have "1 \<le> a" by (simp add: word_le_nat_alt unat_gt_0 Suc_le_eq)
  then show ?thesis by (simp add: u32_saturating_sub_def unat_sub)
qed

subsection \<open>Identifiers\<close>

text \<open>
  \<^verbatim>\<open>PeerId\<close>, \<^verbatim>\<open>ConnectionId\<close> and \<^verbatim>\<open>ListenerId\<close> are opaque to the program: it copies them, compares
  them for equality and, for \<^verbatim>\<open>PeerId\<close> and \<^verbatim>\<open>ConnectionId\<close>, orders them.
\<close>

datatype peer_id = PeerId (peer_num: nat)
datatype connection_id = ConnectionId (conn_num: nat)
datatype listener_id = ListenerId (listener_num: nat)

instantiation peer_id :: linorder
begin

definition less_eq_peer_id :: "peer_id \<Rightarrow> peer_id \<Rightarrow> bool" where
  "less_eq_peer_id p q \<longleftrightarrow> peer_num p \<le> peer_num q"

definition less_peer_id :: "peer_id \<Rightarrow> peer_id \<Rightarrow> bool" where
  "less_peer_id p q \<longleftrightarrow> peer_num p < peer_num q"

instance
  by standard (auto simp: less_eq_peer_id_def less_peer_id_def peer_id.expand)

end

instantiation connection_id :: linorder
begin

definition less_eq_connection_id :: "connection_id \<Rightarrow> connection_id \<Rightarrow> bool" where
  "less_eq_connection_id c d \<longleftrightarrow> conn_num c \<le> conn_num d"

definition less_connection_id :: "connection_id \<Rightarrow> connection_id \<Rightarrow> bool" where
  "less_connection_id c d \<longleftrightarrow> conn_num c < conn_num d"

instance
  by standard (auto simp: less_eq_connection_id_def less_connection_id_def connection_id.expand)

end

lemmas id_order_defs [simp] = less_eq_peer_id_def less_peer_id_def
  less_eq_connection_id_def less_connection_id_def

subsection \<open>Association lists\<close>

lemmas map_of_update [simp, al_simps] = update_conv'
lemmas map_of_delete [simp, al_simps] = delete_conv'

abbreviation keys :: "('k, 'v) alist \<Rightarrow> 'k list" where
  "keys m \<equiv> map fst m"

abbreviation al_values :: "('k, 'v) alist \<Rightarrow> 'v list" where
  "al_values m \<equiv> map snd m"

abbreviation wf_alist :: "('k, 'v) alist \<Rightarrow> bool" where
  "wf_alist m \<equiv> distinct (map fst m)"

definition contains_key :: "('k, 'v) alist \<Rightarrow> 'k \<Rightarrow> bool" where
  "contains_key m k \<longleftrightarrow> map_of m k \<noteq> None"

definition retain :: "('k \<Rightarrow> 'v \<Rightarrow> bool) \<Rightarrow> ('k, 'v) alist \<Rightarrow> ('k, 'v) alist" where
  "retain P m = filter (\<lambda>(k, v). P k v) m"

lemma contains_key_iff: "contains_key m k \<longleftrightarrow> k \<in> set (keys m)"
  by (auto simp: contains_key_def map_of_eq_None_iff)

lemma contains_key_set [simp]: "contains_key m k \<longleftrightarrow> k \<in> fst ` set m"
  by (simp add: contains_key_iff)

lemma wf_alist_update [simp]: "wf_alist m \<Longrightarrow> wf_alist (AList.update k v m)"
  by (rule distinct_update)

lemma wf_alist_delete [simp]: "wf_alist m \<Longrightarrow> wf_alist (AList.delete k m)"
  by (rule distinct_delete)

lemma wf_alist_retain [simp]: "wf_alist m \<Longrightarrow> wf_alist (retain P m)"
  by (auto simp: retain_def distinct_map inj_on_def)

lemma set_retain [simp]: "set (retain P m) = {(k, v) \<in> set m. P k v}"
  by (auto simp: retain_def)

lemma set_delete: "set (AList.delete k m) = {(k', v) \<in> set m. k' \<noteq> k}"
  by (auto simp: AList.delete_eq)

lemma set_update_wf: "wf_alist m \<Longrightarrow>
  set (AList.update k v m) = insert (k, v) {(k', v') \<in> set m. k' \<noteq> k}"
proof (induction m)
  case (Cons a m)
  obtain k' v' where a: "a = (k', v')" by (cases a)
  from Cons.prems a have "k' \<notin> fst ` set m" by auto
  then have other: "\<forall>x \<in> set m. fst x \<noteq> k'" by force
  show ?case
  proof (cases "k = k'")
    case True
    with a other show ?thesis by auto
  next
    case False
    with Cons a show ?thesis by auto
  qed
qed simp

lemma update_fresh: "k \<notin> fst ` set m \<Longrightarrow> AList.update k v m = m @ [(k, v)]"
  by (induction m) auto

lemma length_delete_in:
  "wf_alist m \<Longrightarrow> k \<in> fst ` set m \<Longrightarrow> Suc (length (AList.delete k m)) = length m"
proof (induction m)
  case (Cons a m)
  show ?case
  proof (cases "fst a = k")
    case True
    with Cons.prems have "k \<notin> fst ` set m" by auto
    then have "AList.delete k m = m"
      by (force simp: AList.delete_eq filter_id_conv)
    with True show ?thesis by (cases a) simp
  next
    case False
    with Cons show ?thesis by (cases a) auto
  qed
qed simp

lemma map_of_SomeD' : "map_of m k = Some v \<Longrightarrow> (k, v) \<in> set m"
  by (rule map_of_SomeD)

lemma map_of_wf_iff: "wf_alist m \<Longrightarrow> map_of m k = Some v \<longleftrightarrow> (k, v) \<in> set m"
  by auto

subsection \<open>Sorted maps\<close>

fun bt_insert :: "'k::linorder \<Rightarrow> 'v \<Rightarrow> ('k, 'v) alist \<Rightarrow> ('k, 'v) alist" where
  "bt_insert k v [] = [(k, v)]"
| "bt_insert k v ((k', v') # m) =
     (if k < k' then (k, v) # (k', v') # m
      else if k = k' then (k, v) # m
      else (k', v') # bt_insert k v m)"

abbreviation wf_btree :: "('k::linorder, 'v) alist \<Rightarrow> bool" where
  "wf_btree m \<equiv> sorted_wrt (<) (map fst m)"

lemma map_of_bt_insert [simp]: "map_of (bt_insert k v m) = (map_of m)(k \<mapsto> v)"
  by (induction m rule: bt_insert.induct) (auto simp: fun_eq_iff)

lemma fst_bt_insert [simp]: "fst ` set (bt_insert k v m) = insert k (fst ` set m)"
  by (induction m rule: bt_insert.induct) auto

lemma wf_btree_bt_insert [simp]: "wf_btree m \<Longrightarrow> wf_btree (bt_insert k v m)"
proof (induction k v m rule: bt_insert.induct)
  case (2 k v k' v' m)
  have keys: "set (map fst (bt_insert k v m)) = insert k (fst ` set m)" by simp
  show ?case
  proof (cases "k < k'")
    case True
    with 2 show ?thesis by (auto intro: less_trans)
  next
    case False
    show ?thesis
    proof (cases "k = k'")
      case True
      with 2 show ?thesis by simp
    next
      case neq: False
      with False have "k' < k" by simp
      with 2 False neq keys show ?thesis by auto
    qed
  qed
qed simp

lemma wf_btree_distinct: "wf_btree m \<Longrightarrow> wf_alist m"
  by (simp add: strict_sorted_iff)

lemma wf_btree_unique:
  assumes "wf_btree xs" and "wf_btree ys" and "map_of xs = map_of ys"
  shows "xs = ys"
proof (rule map_sorted_distinct_set_unique [where f = fst])
  from assms(1,2) have d: "wf_alist xs" "wf_alist ys"
    by (simp_all add: wf_btree_distinct)
  show "sorted (map fst xs)" "sorted (map fst ys)"
    using assms(1,2) by (simp_all add: strict_sorted_iff)
  show "distinct (map fst xs)" "distinct (map fst ys)" by (fact d)+
  show set_eq: "set xs = set ys"
    using assms(3) d by (simp add: map_of_inject_set)
  show "inj_on fst (set xs \<union> set ys)"
    using set_eq d(1) by (simp add: distinct_map)
qed

subsection \<open>Lists\<close>

lemma length_filter_Suc_le: "x \<in> set xs \<Longrightarrow> \<not> P x \<Longrightarrow> length (filter P xs) < length xs"
  by (rule length_filter_less)

lemma card_set_le_length: "card (set xs) \<le> length xs"
  by (rule card_length)

end
