(* ===== verification/Multiaddr_Ext.thy ===== *)
theory Multiaddr_Ext
  imports Connexa_Prelude
begin

unbundle bit_operations_syntax

section \<open>Address classification (\<^verbatim>\<open>src/src/multiaddr_ext.rs\<close>)\<close>

text \<open>
  A \<^verbatim>\<open>Multiaddr\<close> is the list of its protocol components, as \<^verbatim>\<open>Multiaddr::iter\<close> yields them. The
  trait \<^verbatim>\<open>MultiaddrExt\<close> classifies addresses with the predicates of \<^verbatim>\<open>std::net\<close>, which are
  modelled on octets and segments. The lemmas give the classification as address ranges and
  characterise \<^verbatim>\<open>relay_peer_id\<close> by the position of the first circuit component.
\<close>

datatype ipv4_addr = Ipv4Addr u8 u8 u8 u8
datatype ipv6_addr = Ipv6Addr u16 u16 u16 u16 u16 u16 u16 u16

datatype protocol =
    Ip4 ipv4_addr
  | Ip6 ipv6_addr
  | Tcp u16
  | Udp u16
  | Memory u64
  | P2p peer_id
  | P2pCircuit
  | Dns string
  | Dns4 string
  | Dns6 string
  | Dnsaddr string
  | WebRTCDirect
  | OtherProtocol string

type_synonym multiaddr = "protocol list"

subsection \<open>The predicates of the standard library\<close>

fun ipv4_is_loopback :: "ipv4_addr \<Rightarrow> bool" where
  "ipv4_is_loopback (Ipv4Addr a b c d) \<longleftrightarrow> a = 127"

fun ipv4_is_private :: "ipv4_addr \<Rightarrow> bool" where
  "ipv4_is_private (Ipv4Addr a b c d) \<longleftrightarrow>
     a = 10 \<or> (a = 172 \<and> 16 \<le> b \<and> b \<le> 31) \<or> (a = 192 \<and> b = 168)"

fun ipv4_is_unspecified :: "ipv4_addr \<Rightarrow> bool" where
  "ipv4_is_unspecified (Ipv4Addr a b c d) \<longleftrightarrow> a = 0 \<and> b = 0 \<and> c = 0 \<and> d = 0"

fun ipv6_segments :: "ipv6_addr \<Rightarrow> u16 list" where
  "ipv6_segments (Ipv6Addr a b c d e f g h) = [a, b, c, d, e, f, g, h]"

definition ipv6_is_loopback :: "ipv6_addr \<Rightarrow> bool" where
  "ipv6_is_loopback ip \<longleftrightarrow> ipv6_segments ip = [0, 0, 0, 0, 0, 0, 0, 1]"

definition ipv6_is_unspecified :: "ipv6_addr \<Rightarrow> bool" where
  "ipv6_is_unspecified ip \<longleftrightarrow> ipv6_segments ip = [0, 0, 0, 0, 0, 0, 0, 0]"

fun ipv6_segment0 :: "ipv6_addr \<Rightarrow> u16" where
  "ipv6_segment0 (Ipv6Addr a b c d e f g h) = a"

subsection \<open>The extension trait\<close>

definition is_relayed :: "multiaddr \<Rightarrow> bool" where
  "is_relayed addr \<longleftrightarrow> list_ex (\<lambda>protocol. protocol = P2pCircuit) addr"

definition is_loopback :: "multiaddr \<Rightarrow> bool" where
  "is_loopback addr \<longleftrightarrow> list_ex (\<lambda>proto. case proto of
       Ip4 ip \<Rightarrow> ipv4_is_loopback ip
     | Ip6 ip \<Rightarrow> ipv6_is_loopback ip
     | _ \<Rightarrow> False) addr"

definition is_private :: "multiaddr \<Rightarrow> bool" where
  "is_private addr \<longleftrightarrow> list_ex (\<lambda>proto. case proto of
       Ip4 ip \<Rightarrow> ipv4_is_private ip
     | Ip6 ip \<Rightarrow> (ipv6_segment0 ip AND 0xffc0) = 0xfe80 \<or> (ipv6_segment0 ip AND 0xfe00) = 0xfc00
     | _ \<Rightarrow> False) addr"

definition is_unspecified :: "multiaddr \<Rightarrow> bool" where
  "is_unspecified addr \<longleftrightarrow> list_ex (\<lambda>proto. case proto of
       Ip4 ip \<Rightarrow> ipv4_is_unspecified ip
     | Ip6 ip \<Rightarrow> ipv6_is_unspecified ip
     | _ \<Rightarrow> False) addr"

definition is_public :: "multiaddr \<Rightarrow> bool" where
  "is_public addr \<longleftrightarrow> \<not> is_private addr \<and> \<not> is_loopback addr \<and> \<not> is_unspecified addr"

fun relay_peer_id_loop :: "peer_id option \<Rightarrow> multiaddr \<Rightarrow> peer_id option" where
  "relay_peer_id_loop last_p2p [] = None"
| "relay_peer_id_loop last_p2p (P2p peer # rest) = relay_peer_id_loop (Some peer) rest"
| "relay_peer_id_loop last_p2p (P2pCircuit # rest) = last_p2p"
| "relay_peer_id_loop last_p2p (_ # rest) = relay_peer_id_loop last_p2p rest"

definition relay_peer_id :: "multiaddr \<Rightarrow> peer_id option" where
  "relay_peer_id addr = relay_peer_id_loop None addr"

subsection \<open>Lemmas\<close>

lemma is_relayed_iff [simp]: "is_relayed addr \<longleftrightarrow> P2pCircuit \<in> set addr"
  by (auto simp: is_relayed_def list_ex_iff)

definition last_peer :: "peer_id option \<Rightarrow> multiaddr \<Rightarrow> peer_id option" where
  "last_peer init addr = fold (\<lambda>proto acc. case proto of P2p p \<Rightarrow> Some p | _ \<Rightarrow> acc) addr init"

lemma relay_peer_id_loop_eq:
  "relay_peer_id_loop acc addr =
     (if P2pCircuit \<in> set addr
      then last_peer acc (takeWhile (\<lambda>p. p \<noteq> P2pCircuit) addr) else None)"
  by (induction acc addr rule: relay_peer_id_loop.induct) (auto simp: last_peer_def)

lemma takeWhile_circuit:
  "P2pCircuit \<notin> set a \<Longrightarrow> takeWhile (\<lambda>x. x \<noteq> P2pCircuit) (a @ P2pCircuit # c) = a"
  by (induction a) auto

lemma last_peer_append: "last_peer acc (a @ b) = last_peer (last_peer acc a) b"
  by (simp add: last_peer_def)

lemma last_peer_P2p: "last_peer acc (P2p p # b) = last_peer (Some p) b"
  by (simp add: last_peer_def)

lemma last_peer_no_peer: "\<forall>q. P2p q \<notin> set b \<Longrightarrow> last_peer acc b = acc"
  by (induction b arbitrary: acc) (auto simp: last_peer_def split: protocol.splits)

lemma last_peer_Some:
  assumes "last_peer None pre = Some p"
  shows "\<exists>a b. pre = a @ P2p p # b \<and> (\<forall>q. P2p q \<notin> set b)"
  using assms
proof (induction pre rule: rev_induct)
  case (snoc x xs)
  show ?case
  proof (cases "\<exists>q. x = P2p q")
    case True
    with snoc.prems have "x = P2p p" by (auto simp: last_peer_def)
    then show ?thesis by (intro exI [of _ xs] exI [of _ "[]"]) simp
  next
    case False
    with snoc.prems have "last_peer None xs = Some p"
      by (simp add: last_peer_def split: protocol.splits)
    with snoc.IH obtain a b where "xs = a @ P2p p # b" "\<forall>q. P2p q \<notin> set b" by blast
    with False show ?thesis by (intro exI [of _ a] exI [of _ "b @ [x]"]) auto
  qed
qed (simp add: last_peer_def)

lemma masked_prefix_eq:
  fixes s v :: "'a::len word"
  shows "s AND NOT (mask n) = v \<longleftrightarrow> v AND mask n = 0 \<and> drop_bit n s = drop_bit n v"
proof (intro iffI conjI)
  assume v: "s AND NOT (mask n) = v"
  then show "v AND mask n = 0" by (auto simp: bit_eq_iff bit_simps)
  from v show "drop_bit n s = drop_bit n v"
    by (auto simp: bit_eq_iff bit_simps dest: bit_imp_le_length)
next
  assume v: "v AND mask n = 0 \<and> drop_bit n s = drop_bit n v"
  show "s AND NOT (mask n) = v"
  proof (rule bit_word_eqI)
    fix k assume k: "k < LENGTH('a)"
    show "bit (s AND NOT (mask n)) k \<longleftrightarrow> bit v k"
    proof (cases "k < n")
      case True
      from v have "\<not> bit (v AND mask n) k" by simp
      with True k show ?thesis by (simp add: bit_simps)
    next
      case False
      from v have "bit (drop_bit n s) (k - n) \<longleftrightarrow> bit (drop_bit n v) (k - n)" by simp
      with False k show ?thesis by (simp add: bit_simps)
    qed
  qed
qed

lemma mask_6_u16: "NOT (mask 6) = (0xffc0 :: u16)" "mask 6 = (0x3f :: u16)"
  by (simp_all add: mask_eq_exp_minus_1 not_eq_complement)

lemma mask_9_u16: "NOT (mask 9) = (0xfe00 :: u16)" "mask 9 = (0x1ff :: u16)"
  by (simp_all add: mask_eq_exp_minus_1 not_eq_complement)

lemma ipv6_link_local_range: "(s AND 0xffc0 = (0xfe80 :: u16)) \<longleftrightarrow> 0xfe80 \<le> s \<and> s \<le> 0xfebf"
proof -
  have "(s AND 0xffc0 = (0xfe80 :: u16)) \<longleftrightarrow> drop_bit 6 s = drop_bit 6 (0xfe80 :: u16)"
    using masked_prefix_eq [of s 6 "0xfe80", unfolded mask_6_u16(1)] by (simp add: mask_6_u16(2))
  also have "\<dots> \<longleftrightarrow> unat s div 64 = 1018"
    by (simp add: word_unat_eq_iff unat_drop_bit_eq flip: drop_bit_eq_div) (simp add: drop_bit_eq_div)
  also have "\<dots> \<longleftrightarrow> 65152 \<le> unat s \<and> unat s \<le> 65215" by arith
  finally show ?thesis by (simp add: word_le_nat_alt)
qed

lemma ipv6_unique_local_range: "(s AND 0xfe00 = (0xfc00 :: u16)) \<longleftrightarrow> 0xfc00 \<le> s \<and> s \<le> 0xfdff"
proof -
  have "(s AND 0xfe00 = (0xfc00 :: u16)) \<longleftrightarrow> drop_bit 9 s = drop_bit 9 (0xfc00 :: u16)"
    using masked_prefix_eq [of s 9 "0xfc00", unfolded mask_9_u16(1)] by (simp add: mask_9_u16(2))
  also have "\<dots> \<longleftrightarrow> unat s div 512 = 126"
    by (simp add: word_unat_eq_iff unat_drop_bit_eq flip: drop_bit_eq_div) (simp add: drop_bit_eq_div)
  also have "\<dots> \<longleftrightarrow> 64512 \<le> unat s \<and> unat s \<le> 65023" by arith
  finally show ?thesis by (simp add: word_le_nat_alt)
qed

lemma is_relayed_prefix: "is_relayed (a @ P2pCircuit # b)"
  by simp

lemma relay_peer_id_append_circuit:
  "P2pCircuit \<notin> set a \<Longrightarrow> relay_peer_id (a @ [P2p p, P2pCircuit] @ b) = Some p"
  by (simp add: relay_peer_id_def relay_peer_id_loop_eq last_peer_def takeWhile_append)

subsection \<open>Classification against address blocks\<close>

text \<open>
  A reference definition of the reserved blocks, on the numeric value of an IPv4 address and the
  value of the first segment of an IPv6 address, in the notation of the standards (base address and
  prefix length).
\<close>

fun ipv4_value :: "ipv4_addr \<Rightarrow> nat" where
  "ipv4_value (Ipv4Addr a b c d) = ((unat a * 256 + unat b) * 256 + unat c) * 256 + unat d"

definition in_block :: "nat \<Rightarrow> nat \<Rightarrow> nat \<Rightarrow> nat \<Rightarrow> bool" where
  "in_block width base len v \<longleftrightarrow> v div 2 ^ (width - len) = base div 2 ^ (width - len)"

definition ipv4_reserved :: "ipv4_addr \<Rightarrow> bool" where
  "ipv4_reserved ip \<longleftrightarrow> list_ex (\<lambda>(base, len). in_block 32 (ipv4_value base) len (ipv4_value ip))
     [(Ipv4Addr 10 0 0 0, 8), (Ipv4Addr 172 16 0 0, 12), (Ipv4Addr 192 168 0 0, 16),
      (Ipv4Addr 127 0 0 0, 8), (Ipv4Addr 0 0 0 0, 32)]"

definition ipv6_reserved :: "ipv6_addr \<Rightarrow> bool" where
  "ipv6_reserved ip \<longleftrightarrow> in_block 16 0xfe80 10 (unat (ipv6_segment0 ip)) \<or>
     in_block 16 0xfc00 7 (unat (ipv6_segment0 ip)) \<or>
     ip = Ipv6Addr 0 0 0 0 0 0 0 1 \<or> ip = Ipv6Addr 0 0 0 0 0 0 0 0"

lemma u8_eq_iff: "(a :: u8) = b \<longleftrightarrow> unat a = unat b"
  by (rule word_unat_eq_iff)

lemma u8_bound: "unat (a :: u8) < 256"
  using unsigned_less [where w = a and ?'a = nat] by simp

lemma ipv4_reserved_iff:
  "ipv4_reserved ip \<longleftrightarrow> ipv4_is_private ip \<or> ipv4_is_loopback ip \<or> ipv4_is_unspecified ip"
proof (cases ip)
  case (Ipv4Addr a b c d)
  define x y z w where "x = unat a" and "y = unat b" and "z = unat c" and "w = unat d"
  note vars = x_def y_def z_def w_def
  have bound: "x < 256" "y < 256" "z < 256" "w < 256"
    by (simp_all add: vars u8_bound)
  have v: "ipv4_value ip = ((x * 256 + y) * 256 + z) * 256 + w"
    by (simp add: Ipv4Addr vars)
  have top: "ipv4_value ip div 2 ^ 24 = x" "ipv4_value ip div 2 ^ 20 = x * 16 + y div 16"
    "ipv4_value ip div 2 ^ 16 = x * 256 + y" "ipv4_value ip = 0 \<longleftrightarrow> x = 0 \<and> y = 0 \<and> z = 0 \<and> w = 0"
    unfolding v using bound by auto
  have digits: "m < n \<Longrightarrow> l < n \<Longrightarrow> i * n + m = k * n + l \<longleftrightarrow> i = k \<and> m = l" for i k l m n :: nat
    by (metis div_mult_self3 mod_mult_self3 div_less mod_less add_0_right bot_nat_0.not_eq_extremum not_less0)
  have "y div 16 < 16" using bound by auto
  from digits [OF this, of 1 x 172] digits [OF bound(2), of 168 x 192]
  have "x * 16 + y div 16 = 2753 \<longleftrightarrow> x = 172 \<and> y div 16 = 1"
    "x * 256 + y = 49320 \<longleftrightarrow> x = 192 \<and> y = 168" by simp_all
  moreover have "y div 16 = 1 \<longleftrightarrow> 16 \<le> y \<and> y \<le> 31" by auto
  ultimately have "x * 16 + y div 16 = 2753 \<longleftrightarrow> x = 172 \<and> 16 \<le> y \<and> y \<le> 31"
    "x * 256 + y = 49320 \<longleftrightarrow> x = 192 \<and> y = 168" by simp_all
  with top show ?thesis
    by (auto simp: ipv4_reserved_def in_block_def Ipv4Addr u8_eq_iff word_le_nat_alt vars)
qed

lemma ipv6_reserved_iff:
  "ipv6_reserved ip \<longleftrightarrow>
     (ipv6_segment0 ip AND 0xffc0) = 0xfe80 \<or> (ipv6_segment0 ip AND 0xfe00) = 0xfc00 \<or>
     ipv6_is_loopback ip \<or> ipv6_is_unspecified ip"
proof -
  have "in_block 16 0xfe80 10 n \<longleftrightarrow> 0xfe80 \<le> n \<and> n \<le> 0xfebf"
    "in_block 16 0xfc00 7 n \<longleftrightarrow> 0xfc00 \<le> n \<and> n \<le> 0xfdff" for n
    by (auto simp: in_block_def)
  then show ?thesis
    by (cases ip) (simp add: ipv6_reserved_def ipv6_link_local_range ipv6_unique_local_range
        ipv6_is_loopback_def ipv6_is_unspecified_def word_le_nat_alt)
qed

text \<open>
  C33: an address is public exactly when none of its components lies in a reserved block: for IPv4 the
  blocks 10/8, 172.16/12, 192.168/16, 127/8 and the unspecified address, for IPv6 the blocks
  fe80::/10 and fc00::/7, the loopback and the unspecified address. The masks and octet tests of the
  code are compared with the blocks on numeric values.
\<close>

theorem is_public_iff_unreserved:
  "is_public addr = list_all (\<lambda>proto. case proto of
      Ip4 ip \<Rightarrow> \<not> ipv4_reserved ip | Ip6 ip \<Rightarrow> \<not> ipv6_reserved ip | _ \<Rightarrow> True) addr"
proof -
  have "is_public (proto # addr) = ((case proto of Ip4 ip \<Rightarrow> \<not> ipv4_reserved ip
      | Ip6 ip \<Rightarrow> \<not> ipv6_reserved ip | _ \<Rightarrow> True) \<and> is_public addr)" for proto addr
    by (cases proto) (auto simp: is_public_def is_private_def is_loopback_def is_unspecified_def
        ipv4_reserved_iff ipv6_reserved_iff)
  moreover have "is_public []"
    by (simp add: is_public_def is_private_def is_loopback_def is_unspecified_def)
  ultimately show ?thesis by (induction addr) simp_all
qed

text \<open>
  C23: \<^verbatim>\<open>relay_peer_id\<close> returns the peer named last before the first circuit component. It is absent
  exactly when there is no circuit component or no peer before the first one.
\<close>

theorem relay_peer_id_iff:
  "relay_peer_id addr = Some p \<longleftrightarrow>
     (\<exists>a b c. addr = a @ P2p p # b @ P2pCircuit # c \<and> P2pCircuit \<notin> set (a @ b) \<and> (\<forall>q. P2p q \<notin> set b))"
proof
  assume r: "relay_peer_id addr = Some p"
  then have c: "P2pCircuit \<in> set addr"
    and l: "last_peer None (takeWhile (\<lambda>x. x \<noteq> P2pCircuit) addr) = Some p"
    by (auto simp: relay_peer_id_def relay_peer_id_loop_eq split: if_splits)
  from split_list_first [OF c] obtain pre c where addr: "addr = pre @ P2pCircuit # c"
    and pre: "P2pCircuit \<notin> set pre" by blast
  from l addr pre have "last_peer None pre = Some p" by (simp add: takeWhile_circuit)
  then obtain a b where "pre = a @ P2p p # b" "\<forall>q. P2p q \<notin> set b" by (auto dest: last_peer_Some)
  with addr pre show "\<exists>a b c. addr = a @ P2p p # b @ P2pCircuit # c \<and> P2pCircuit \<notin> set (a @ b)
      \<and> (\<forall>q. P2p q \<notin> set b)" by auto
next
  assume "\<exists>a b c. addr = a @ P2p p # b @ P2pCircuit # c \<and> P2pCircuit \<notin> set (a @ b) \<and> (\<forall>q. P2p q \<notin> set b)"
  then obtain a b c where addr: "addr = (a @ P2p p # b) @ P2pCircuit # c"
    and *: "P2pCircuit \<notin> set (a @ P2p p # b)" and b: "\<forall>q. P2p q \<notin> set b" by auto
  then show "relay_peer_id addr = Some p"
    by (simp add: relay_peer_id_def relay_peer_id_loop_eq takeWhile_circuit [OF *, simplified]
        last_peer_append last_peer_P2p last_peer_no_peer)
qed

end
