(* ===== verification/Autorelay.thy ===== *)
theory Autorelay
  imports Multiaddr_Ext
begin

section \<open>The automatic relay behaviour (\<^verbatim>\<open>src/src/behaviour/autorelay.rs\<close>)\<close>

text \<open>
  The behaviour watches connections, keeps reservations with relays up to a configured number,
  prefers static relays, backs off from relays that fail and reports whether relays are available.
  Each method of \<^verbatim>\<open>Behaviour\<close> is one definition over the record \<open>autorelay\<close>.

  \<^item> The queue \<open>events\<close> holds what \<^verbatim>\<open>poll\<close> will hand to the swarm.
  \<^item> \<open>autorelay_env\<close> gathers what a call reads from outside: the clocks, \<^verbatim>\<open>Multiaddr::with_p2p\<close> and
    \<^verbatim>\<open>ExternalAddresses::on_swarm_event\<close> of libp2p. All clock reads of one call see one instant.
  \<^item> \<open>next_connection_id\<close> and \<open>next_listener_id\<close> are libp2p's process-wide counters, from which
    \<^verbatim>\<open>DialOpts\<close> and \<^verbatim>\<open>ListenOpts\<close> draw their identifiers.
  \<^item> A \<^verbatim>\<open>ConnectedPoint\<close> is what the code observes of it: whether it is relayed, and its remote
    address. A \<^verbatim>\<open>Waker\<close> is a number; \<open>woken\<close> logs the calls of \<^verbatim>\<open>wake\<close>.
  \<^item> \<^const>\<open>None\<close> is a panic: an \<^verbatim>\<open>expect\<close>, the \<^verbatim>\<open>debug_assert\<close> of \<^verbatim>\<open>meet_reservation_target\<close>, or the sum of an
    \<^verbatim>\<open>Instant\<close> and a \<^verbatim>\<open>Duration\<close> beyond the last instant of the platform (\<open>instant_limit\<close>).
\<close>

type_synonym instant = nat
type_synonym duration = nat
type_synonym system_time = int

definition nanos_per_sec :: nat where
  "nanos_per_sec = 1000000000"

definition duration_max :: duration where
  "duration_max = (2 ^ 64 - 1) * nanos_per_sec + (nanos_per_sec - 1)"

definition duration_saturating_mul :: "duration \<Rightarrow> u32 \<Rightarrow> duration" where
  "duration_saturating_mul d k = min (d * unat k) duration_max"

subsection \<open>State\<close>

datatype status = Enable | Disable
datatype relay_status = Supported | NotSupported | RelayPending
datatype reservation_status = ReservationPending | Active

record connected_point =
  cp_is_relayed :: bool
  cp_remote_address :: multiaddr

record connection =
  endpoint :: connected_point
  conn_relay_status :: relay_status

record reservation =
  res_peer_id :: peer_id
  res_selected_connection_id :: connection_id
  res_address :: multiaddr
  res_status :: reservation_status

record config =
  max_reservations :: u8
  failure_cooldown :: duration
  failure_cooldown_max :: duration
  max_previous_relays :: nat
  cfg_static_relays :: "(peer_id, multiaddr list) alist"

datatype event = StatusChanged status | NoRelaysAvailable | RelaysAvailable

datatype peer_condition = Disconnected | NotDialing | DisconnectedAndNotDialing | Always

record dial_opts =
  dial_peer_id :: peer_id
  dial_condition :: peer_condition
  dial_addresses :: "multiaddr list"
  dial_connection_id :: connection_id

record listen_opts =
  listen_address :: multiaddr
  listen_listener_id :: listener_id

datatype to_swarm =
    GenerateEvent event
  | Dial dial_opts
  | ListenOn listen_opts
  | RemoveListener listener_id

record autorelay =
  config :: config
  status :: status
  auto_status_change :: bool
  external_addresses :: "multiaddr list"
  events :: "to_swarm list"
  connections :: "(peer_id \<times> connection_id, connection) alist"
  reservations :: "(listener_id, reservation) alist"
  pending_eviction :: "listener_id option"
  external_reservations :: "(listener_id, peer_id) alist"
  static_relays :: "(peer_id, multiaddr list) alist"
  pending_static_dials :: "(peer_id, connection_id) alist"
  static_dial_cooldowns :: "(peer_id, instant) alist"
  failure_counts :: "(peer_id, u32) alist"
  reservation_cooldowns :: "(peer_id, instant) alist"
  previous_relays :: "(peer_id \<times> multiaddr \<times> system_time) list"
  relays_available :: bool
  cooldown_wakeup :: "instant option"
  waker :: "nat option"
  woken :: "nat list"
  next_connection_id :: nat
  next_listener_id :: nat

datatype from_swarm =
    ConnectionEstablished peer_id connection_id connected_point
  | ConnectionClosed peer_id connection_id
  | AddressChange peer_id connection_id connected_point
  | NewListenAddr listener_id multiaddr
  | ListenerError listener_id
  | ListenerClosed listener_id bool \<comment> \<open>whether the reason is an error\<close>
  | DialFailure "peer_id option" connection_id
  | ExternalAddrConfirmed multiaddr
  | ExternalAddrExpired multiaddr
  | OtherSwarmEvent

record autorelay_env =
  now :: instant
  instant_limit :: instant
  system_now :: system_time
  with_p2p :: "multiaddr \<Rightarrow> peer_id \<Rightarrow> (multiaddr, multiaddr) result"
  external_on_swarm_event :: "from_swarm \<Rightarrow> multiaddr list \<Rightarrow> multiaddr list \<times> bool"

datatype out = OutSupported | OutUnsupported

datatype handler_kind = RelayHandler | DummyHandler

subsection \<open>Configuration\<close>

definition config_default :: config where
  "config_default = \<lparr>max_reservations = 2, failure_cooldown = 30 * nanos_per_sec,
     failure_cooldown_max = 10 * 60 * nanos_per_sec, max_previous_relays = 16,
     cfg_static_relays = []\<rparr>"

definition set_max_reservations :: "config \<Rightarrow> u8 \<Rightarrow> config" where
  "set_max_reservations cfg n = cfg\<lparr>max_reservations := n\<rparr>"

definition set_failure_cooldown :: "config \<Rightarrow> duration \<Rightarrow> config" where
  "set_failure_cooldown cfg d = cfg\<lparr>failure_cooldown := d\<rparr>"

definition set_failure_cooldown_max :: "config \<Rightarrow> duration \<Rightarrow> config" where
  "set_failure_cooldown_max cfg d = cfg\<lparr>failure_cooldown_max := d\<rparr>"

definition set_max_previous_relays :: "config \<Rightarrow> nat \<Rightarrow> config" where
  "set_max_previous_relays cfg n = cfg\<lparr>max_previous_relays := n\<rparr>"

definition push_unless_contained :: "'a \<Rightarrow> 'a list \<Rightarrow> 'a list" where
  "push_unless_contained x xs = (if x \<in> set xs then xs else xs @ [x])"

definition or_default :: "'v \<Rightarrow> 'k \<Rightarrow> ('k, 'v) alist \<Rightarrow> 'v" where
  "or_default d k m = (case map_of m k of None \<Rightarrow> d | Some v \<Rightarrow> v)"

definition config_add_static_relay :: "config \<Rightarrow> peer_id \<Rightarrow> multiaddr list \<Rightarrow> config" where
  "config_add_static_relay cfg peer addresses =
     cfg\<lparr>cfg_static_relays := AList.update peer
       (fold push_unless_contained addresses (or_default [] peer (cfg_static_relays cfg)))
       (cfg_static_relays cfg)\<rparr>"

definition autorelay_default :: autorelay where
  "autorelay_default = \<lparr>config = config_default, status = Enable, auto_status_change = True,
     external_addresses = [], events = [], connections = [], reservations = [],
     pending_eviction = None, external_reservations = [], static_relays = [],
     pending_static_dials = [], static_dial_cooldowns = [], failure_counts = [],
     reservation_cooldowns = [], previous_relays = [], relays_available = False,
     cooldown_wakeup = None, waker = None, woken = [],
     next_connection_id = 0, next_listener_id = 0\<rparr>"

subsection \<open>Helpers of the behaviour\<close>

text \<open>\<^verbatim>\<open>Instant::now() + duration\<close>.\<close>

definition now_plus :: "autorelay_env \<Rightarrow> duration \<Rightarrow> instant option" where
  "now_plus env d = (if now env + d \<le> instant_limit env then Some (now env + d) else None)"

definition push_event :: "to_swarm \<Rightarrow> autorelay \<Rightarrow> autorelay" where
  "push_event ev s = s\<lparr>events := events s @ [ev]\<rparr>"

definition disqualify_connection_if_relayed :: "connection \<Rightarrow> connection" where
  "disqualify_connection_if_relayed c =
     (if cp_is_relayed (endpoint c) then c\<lparr>conn_relay_status := NotSupported\<rparr> else c)"

definition connection_is_relayed :: "connection \<Rightarrow> bool" where
  "connection_is_relayed c = cp_is_relayed (endpoint c)"

definition connection_addr :: "connection \<Rightarrow> multiaddr" where
  "connection_addr c = cp_remote_address (endpoint c)"

definition in_cooldown :: "autorelay_env \<Rightarrow> (peer_id, instant) alist \<Rightarrow> peer_id \<Rightarrow> bool" where
  "in_cooldown env m peer =
     (case map_of m peer of None \<Rightarrow> False | Some deadline \<Rightarrow> now env < deadline)"

definition static_dial_in_cooldown :: "autorelay_env \<Rightarrow> autorelay \<Rightarrow> peer_id \<Rightarrow> bool" where
  "static_dial_in_cooldown env s peer = in_cooldown env (static_dial_cooldowns s) peer"

definition reservation_in_cooldown :: "autorelay_env \<Rightarrow> autorelay \<Rightarrow> peer_id \<Rightarrow> bool" where
  "reservation_in_cooldown env s peer = in_cooldown env (reservation_cooldowns s) peer"

definition has_direct_connection :: "autorelay \<Rightarrow> peer_id \<Rightarrow> bool" where
  "has_direct_connection s peer =
     list_ex (\<lambda>((pid, _), info). pid = peer \<and> \<not> connection_is_relayed info) (connections s)"

definition queue_static_dial ::
  "autorelay_env \<Rightarrow> peer_id \<Rightarrow> multiaddr list \<Rightarrow> autorelay \<Rightarrow> autorelay \<times> bool" where
  "queue_static_dial env peer addresses s =
     (if \<not> contains_key (static_relays s) peer
         \<or> addresses = []
         \<or> has_direct_connection s peer
         \<or> static_dial_in_cooldown env s peer
         \<or> contains_key (pending_static_dials s) peer
      then (s, False)
      else
        let cid = ConnectionId (next_connection_id s);
            opts = \<lparr>dial_peer_id = peer, dial_condition = NotDialing,
                    dial_addresses = addresses, dial_connection_id = cid\<rparr>
        in (push_event (Dial opts)
              (s\<lparr>next_connection_id := Suc (next_connection_id s),
                 pending_static_dials := AList.update peer cid (pending_static_dials s)\<rparr>), True))"

definition record_previous_relay ::
  "autorelay_env \<Rightarrow> peer_id \<Rightarrow> multiaddr \<Rightarrow> autorelay \<Rightarrow> autorelay" where
  "record_previous_relay env peer address s =
     (let mx = max_previous_relays (config s) in
      if mx = 0 then s
      else
        let kept = filter (\<lambda>(p, _, _). p \<noteq> peer) (previous_relays s);
            room = (if mx \<le> length kept then tl kept else kept)
        in s\<lparr>previous_relays := room @ [(peer, address, system_now env)]\<rparr>)"

definition forget_previous_relay :: "peer_id \<Rightarrow> autorelay \<Rightarrow> autorelay" where
  "forget_previous_relay peer s =
     s\<lparr>previous_relays := filter (\<lambda>(p, _, _). p \<noteq> peer) (previous_relays s)\<rparr>"

definition record_failure :: "peer_id \<Rightarrow> autorelay \<Rightarrow> autorelay \<times> duration" where
  "record_failure peer s =
     (let attempts = u32_saturating_add (or_default 0 peer (failure_counts s)) 1;
          exponent = min (u32_saturating_sub attempts 1) 20;
          scale = push_bit (unat exponent) (1 :: u32)
      in (s\<lparr>failure_counts := AList.update peer attempts (failure_counts s)\<rparr>,
          min (duration_saturating_mul (failure_cooldown (config s)) scale)
              (failure_cooldown_max (config s))))"

definition clear_failure :: "peer_id \<Rightarrow> autorelay \<Rightarrow> autorelay" where
  "clear_failure peer s =
     s\<lparr>failure_counts := AList.delete peer (failure_counts s),
       reservation_cooldowns := AList.delete peer (reservation_cooldowns s)\<rparr>"

definition make_room_for_static_relays :: "nat \<Rightarrow> autorelay \<Rightarrow> autorelay" where
  "make_room_for_static_relays needed s =
     (if needed = 0 \<or> pending_eviction s \<noteq> None then s
      else
        case find (\<lambda>(lid, r). \<not> contains_key (static_relays s) (res_peer_id r)
                        \<and> res_peer_id r \<notin> set (al_values (external_reservations s)))
               (reservations s) of
          None \<Rightarrow> s
        | Some (lid, r) \<Rightarrow> push_event (RemoveListener lid) (s\<lparr>pending_eviction := Some lid\<rparr>))"

definition remove_reservation :: "listener_id \<Rightarrow> autorelay \<Rightarrow> autorelay \<times> reservation option" where
  "remove_reservation lid s =
     (let s1 = (if pending_eviction s = Some lid then s\<lparr>pending_eviction := None\<rparr> else s)
      in (s1\<lparr>reservations := AList.delete lid (reservations s1)\<rparr>, map_of (reservations s1) lid))"

definition select_connection_for_reservation ::
  "autorelay_env \<Rightarrow> peer_id \<Rightarrow> connection_id \<Rightarrow> autorelay \<Rightarrow> autorelay option" where
  "select_connection_for_reservation env peer cid s =
     (case map_of (connections s) (peer, cid) of
        None \<Rightarrow> None
      | Some info \<Rightarrow>
          if conn_relay_status info \<noteq> Supported then Some s
          else
            let address = connection_addr info in
            (case with_p2p env address peer of
              Inl addr \<Rightarrow>
                Some (s\<lparr>connections := AList.update (peer, cid)
                          (info\<lparr>conn_relay_status := NotSupported\<rparr>) (connections s)\<rparr>)
            | Inr addr_with_peer_id \<Rightarrow>
                let lid = ListenerId (next_listener_id s);
                    opts = \<lparr>listen_address = addr_with_peer_id @ [P2pCircuit],
                            listen_listener_id = lid\<rparr>;
                    r = \<lparr>res_peer_id = peer, res_selected_connection_id = cid,
                         res_address = address, res_status = ReservationPending\<rparr>
                in Some (push_event (ListenOn opts)
                     (s\<lparr>next_listener_id := Suc (next_listener_id s),
                        reservations := AList.update lid r (reservations s)\<rparr>))))"

definition remove_all_reservations :: "autorelay \<Rightarrow> autorelay" where
  "remove_all_reservations s = fold (\<lambda>lid. push_event (RemoveListener lid)) (keys (reservations s)) s"

definition covered_peers :: "autorelay \<Rightarrow> peer_id list" where
  "covered_peers s =
     remdups (map res_peer_id (al_values (reservations s)) @ al_values (external_reservations s))"

subsection \<open>Meeting the reservation target\<close>

definition bucket_min ::
  "peer_id \<Rightarrow> connection_id \<Rightarrow> (peer_id, connection_id) alist \<Rightarrow> (peer_id, connection_id) alist" where
  "bucket_min peer cid m =
     (case map_of m peer of
        None \<Rightarrow> bt_insert peer cid m
      | Some existing \<Rightarrow> bt_insert peer (min existing cid) m)"

definition consider_candidate ::
  "autorelay_env \<Rightarrow> autorelay \<Rightarrow> (peer_id \<times> connection_id) \<times> connection \<Rightarrow>
   (peer_id, connection_id) alist \<times> (peer_id, connection_id) alist \<Rightarrow>
   (peer_id, connection_id) alist \<times> (peer_id, connection_id) alist" where
  "consider_candidate env s entry buckets =
     (case (entry, buckets) of (((peer, cid), info), (static_candidates, candidates)) \<Rightarrow>
        if peer \<in> set (covered_peers s) then buckets
        else if reservation_in_cooldown env s peer then buckets
        else if conn_relay_status info \<noteq> Supported then buckets
        else if contains_key (static_relays s) peer
        then (bucket_min peer cid static_candidates, candidates)
        else (static_candidates, bucket_min peer cid candidates))"

definition collect_candidates ::
  "autorelay_env \<Rightarrow> autorelay \<Rightarrow>
   (peer_id, connection_id) alist \<times> (peer_id, connection_id) alist" where
  "collect_candidates env s = fold (consider_candidate env s) (connections s) ([], [])"

fun select_connections ::
  "autorelay_env \<Rightarrow> (peer_id \<times> connection_id) list \<Rightarrow> autorelay \<Rightarrow> autorelay option" where
  "select_connections env [] s = Some s"
| "select_connections env ((peer, cid) # rest) s =
     do { s1 \<leftarrow> select_connection_for_reservation env peer cid s;
          select_connections env rest s1 }"

definition reservation_budget :: "autorelay \<Rightarrow> nat" where
  "reservation_budget s = unat (max_reservations (config s)) - length (covered_peers s)"

definition meet_reservation_target :: "autorelay_env \<Rightarrow> autorelay \<Rightarrow> autorelay option" where
  "meet_reservation_target env s =
     (if status s = Disable then Some s
      else
        let mx = unat (max_reservations (config s));
            budget = reservation_budget s;
            (static_candidates, candidates) = collect_candidates env s;
            s1 = make_room_for_static_relays (length static_candidates - budget) s
        in if budget = 0 then Some s1
           else do {
             s2 \<leftarrow> select_connections env (take budget (static_candidates @ candidates)) s1;
             if length (covered_peers s2) \<le> mx then Some s2 else None })"

definition update_relay_availability :: "autorelay \<Rightarrow> autorelay" where
  "update_relay_availability s =
     (let has_hop_peer = list_ex (\<lambda>info. conn_relay_status info = Supported)
                           (al_values (connections s))
      in if has_hop_peer \<and> \<not> relays_available s
         then push_event (GenerateEvent RelaysAvailable) (s\<lparr>relays_available := True\<rparr>)
         else if \<not> has_hop_peer \<and> relays_available s
         then push_event (GenerateEvent NoRelaysAvailable) (s\<lparr>relays_available := False\<rparr>)
         else s)"

definition disable_reservation ::
  "autorelay_env \<Rightarrow> listener_id \<Rightarrow> bool \<Rightarrow> autorelay \<Rightarrow> autorelay option" where
  "disable_reservation env lid failed s =
     (if contains_key (external_reservations s) lid
      then meet_reservation_target env
             (s\<lparr>external_reservations := AList.delete lid (external_reservations s)\<rparr>)
      else
        case remove_reservation lid s of
          (s1, None) \<Rightarrow> Some s1
        | (s1, Some r) \<Rightarrow>
            do { s2 \<leftarrow> (if failed
                        then case record_failure (res_peer_id r) s1 of (s', d) \<Rightarrow>
                          do { deadline \<leftarrow> now_plus env d;
                               Some (s'\<lparr>reservation_cooldowns :=
                                 AList.update (res_peer_id r) deadline (reservation_cooldowns s')\<rparr>) }
                        else Some s1);
                 meet_reservation_target env (record_previous_relay env (res_peer_id r) (res_address r) s2) })"

definition determine_status_from_external_addresses ::
  "autorelay_env \<Rightarrow> autorelay \<Rightarrow> autorelay option" where
  "determine_status_from_external_addresses env s =
     (let has_public_addr = list_ex (\<lambda>addr. \<not> is_relayed addr) (external_addresses s);
          new_status = (if has_public_addr then Disable else Enable)
      in if new_status \<noteq> status s
         then
           let s1 = push_event (GenerateEvent (StatusChanged new_status)) (s\<lparr>status := new_status\<rparr>)
           in case new_status of
                Enable \<Rightarrow> meet_reservation_target env s1
              | Disable \<Rightarrow> Some (remove_all_reservations s1)
         else Some s)"

definition take_and_wake :: "autorelay \<Rightarrow> autorelay" where
  "take_and_wake s =
     (case waker s of None \<Rightarrow> s | Some w \<Rightarrow> s\<lparr>waker := None, woken := woken s @ [w]\<rparr>)"

subsection \<open>Public operations\<close>

definition set_status :: "autorelay_env \<Rightarrow> status option \<Rightarrow> autorelay \<Rightarrow> autorelay option" where
  "set_status env st s =
     do { s1 \<leftarrow> (case st of
              Some new \<Rightarrow>
                let s0 = s\<lparr>auto_status_change := False\<rparr> in
                if status s0 \<noteq> new
                then
                  let s0' = push_event (GenerateEvent (StatusChanged new)) (s0\<lparr>status := new\<rparr>)
                  in if new = Enable then meet_reservation_target env s0' else Some s0'
                else Some s0
            | None \<Rightarrow>
                determine_status_from_external_addresses env (s\<lparr>auto_status_change := True\<rparr>));
          Some (take_and_wake s1) }"

definition add_static_relay ::
  "autorelay_env \<Rightarrow> peer_id \<Rightarrow> multiaddr \<Rightarrow> autorelay \<Rightarrow> (autorelay \<times> bool) option" where
  "add_static_relay env peer address s =
     (if is_relayed address then Some (s, False)
      else
        let combined = push_unless_contained address (or_default [] peer (static_relays s));
            s1 = s\<lparr>static_relays := AList.update peer combined (static_relays s)\<rparr>
        in case queue_static_dial env peer combined s1 of (s2, queued) \<Rightarrow>
             do { s3 \<leftarrow> (if queued then Some s2 else meet_reservation_target env s2);
                  Some (take_and_wake s3, True) })"

definition remove_static_relay :: "peer_id \<Rightarrow> autorelay \<Rightarrow> autorelay \<times> bool" where
  "remove_static_relay peer s =
     (s\<lparr>static_dial_cooldowns := AList.delete peer (static_dial_cooldowns s),
        static_relays := AList.delete peer (static_relays s)\<rparr>,
      contains_key (static_relays s) peer)"

fun add_static_relays ::
  "autorelay_env \<Rightarrow> (peer_id \<times> multiaddr) list \<Rightarrow> autorelay \<Rightarrow> autorelay option" where
  "add_static_relays env [] s = Some s"
| "add_static_relays env ((peer, address) # rest) s =
     do { (s1, _) \<leftarrow> add_static_relay env peer address s; add_static_relays env rest s1 }"

definition new_with_config :: "autorelay_env \<Rightarrow> config \<Rightarrow> autorelay option" where
  "new_with_config env cfg =
     add_static_relays env
       (concat (map (\<lambda>(peer, addresses). map (Pair peer) addresses) (cfg_static_relays cfg)))
       (autorelay_default\<lparr>config := cfg\<lparr>cfg_static_relays := []\<rparr>\<rparr>)"

subsection \<open>The network behaviour callbacks\<close>

definition handle_established_inbound_connection :: "multiaddr \<Rightarrow> handler_kind" where
  "handle_established_inbound_connection local_addr =
     (if is_relayed local_addr then DummyHandler else RelayHandler)"

definition handle_established_outbound_connection :: "multiaddr \<Rightarrow> handler_kind" where
  "handle_established_outbound_connection addr =
     (if is_relayed addr then DummyHandler else RelayHandler)"

definition on_connection_established ::
  "peer_id \<Rightarrow> connection_id \<Rightarrow> connected_point \<Rightarrow> autorelay \<Rightarrow> autorelay" where
  "on_connection_established peer cid ep s =
     (let c = disqualify_connection_if_relayed \<lparr>endpoint = ep, conn_relay_status = RelayPending\<rparr>;
          s1 = s\<lparr>connections := AList.update (peer, cid) c (connections s)\<rparr>;
          s2 = (if map_of (pending_static_dials s1) peer = Some cid
                then s1\<lparr>pending_static_dials := AList.delete peer (pending_static_dials s1)\<rparr>
                else s1)
      in if has_direct_connection s2 peer
         then s2\<lparr>static_dial_cooldowns := AList.delete peer (static_dial_cooldowns s2)\<rparr>
         else s2)"

definition redial_static_relay :: "autorelay_env \<Rightarrow> peer_id \<Rightarrow> autorelay \<Rightarrow> autorelay" where
  "redial_static_relay env peer s =
     (case map_of (static_relays s) peer of
        None \<Rightarrow> s
      | Some addresses \<Rightarrow> fst (queue_static_dial env peer addresses s))"

definition on_connection_closed ::
  "autorelay_env \<Rightarrow> peer_id \<Rightarrow> connection_id \<Rightarrow> autorelay \<Rightarrow> autorelay" where
  "on_connection_closed env peer cid s =
     (case map_of (connections s) (peer, cid) of
        None \<Rightarrow> s
      | Some c \<Rightarrow>
          let s1 = s\<lparr>connections := AList.delete (peer, cid) (connections s)\<rparr>;
              s2 = (if \<not> list_ex (\<lambda>(pid, _). pid = peer) (keys (connections s1))
                       \<and> \<not> reservation_in_cooldown env s1 peer
                    then clear_failure peer s1 else s1);
              s3 = (if \<not> connection_is_relayed c \<and> \<not> has_direct_connection s2 peer
                    then case find (\<lambda>r. res_peer_id r = peer) (al_values (reservations s2)) of
                           None \<Rightarrow> s2
                         | Some r \<Rightarrow> record_previous_relay env peer (res_address r) s2
                    else s2)
          in update_relay_availability (redial_static_relay env peer s3))"

definition on_address_change ::
  "peer_id \<Rightarrow> connection_id \<Rightarrow> connected_point \<Rightarrow> autorelay \<Rightarrow> autorelay" where
  "on_address_change peer cid new s =
     (case map_of (connections s) (peer, cid) of
        None \<Rightarrow> s
      | Some c \<Rightarrow>
          s\<lparr>connections := AList.update (peer, cid) (c\<lparr>endpoint := new\<rparr>) (connections s)\<rparr>)"

definition on_new_listen_addr :: "listener_id \<Rightarrow> multiaddr \<Rightarrow> autorelay \<Rightarrow> autorelay" where
  "on_new_listen_addr lid addr s =
     (if \<not> is_relayed addr then s
      else case map_of (reservations s) lid of
        Some r \<Rightarrow>
          if res_status r = ReservationPending
          then clear_failure (res_peer_id r) (forget_previous_relay (res_peer_id r)
                 (s\<lparr>reservations :=
                      AList.update lid (r\<lparr>res_status := Active\<rparr>) (reservations s)\<rparr>))
          else s
      | None \<Rightarrow>
          (case relay_peer_id addr of
             Some relay_peer \<Rightarrow>
               s\<lparr>external_reservations := AList.update lid relay_peer (external_reservations s)\<rparr>
           | None \<Rightarrow> s))"

definition on_dial_failure ::
  "autorelay_env \<Rightarrow> peer_id option \<Rightarrow> connection_id \<Rightarrow> autorelay \<Rightarrow> autorelay option" where
  "on_dial_failure env maybe_peer cid s =
     (case maybe_peer of
        None \<Rightarrow> Some s
      | Some peer \<Rightarrow>
          if map_of (pending_static_dials s) peer = Some cid
          then
            let s1 = s\<lparr>pending_static_dials := AList.delete peer (pending_static_dials s)\<rparr>
            in if contains_key (static_relays s1) peer \<and> \<not> has_direct_connection s1 peer
               then do { deadline \<leftarrow> now_plus env (failure_cooldown (config s1));
                         Some (s1\<lparr>static_dial_cooldowns :=
                           AList.update peer deadline (static_dial_cooldowns s1)\<rparr>) }
               else Some s1
          else Some s)"

definition on_swarm_event :: "autorelay_env \<Rightarrow> from_swarm \<Rightarrow> autorelay \<Rightarrow> autorelay option" where
  "on_swarm_event env ev s =
     (case external_on_swarm_event env ev (external_addresses s) of (addrs, change) \<Rightarrow>
        let s0 = s\<lparr>external_addresses := addrs\<rparr> in
        do { s1 \<leftarrow> (if auto_status_change s0 \<and> change
                  then determine_status_from_external_addresses env s0 else Some s0);
             (case ev of
                ConnectionEstablished peer cid ep \<Rightarrow> Some (on_connection_established peer cid ep s1)
              | ConnectionClosed peer cid \<Rightarrow> Some (on_connection_closed env peer cid s1)
              | AddressChange peer cid new \<Rightarrow> Some (on_address_change peer cid new s1)
              | NewListenAddr lid addr \<Rightarrow> Some (on_new_listen_addr lid addr s1)
              | ListenerError lid \<Rightarrow> disable_reservation env lid True s1
              | ListenerClosed lid is_err \<Rightarrow> disable_reservation env lid is_err s1
              | DialFailure maybe_peer cid \<Rightarrow> on_dial_failure env maybe_peer cid s1
              | _ \<Rightarrow> Some s1) })"

definition on_connection_handler_event ::
  "autorelay_env \<Rightarrow> peer_id \<Rightarrow> connection_id \<Rightarrow> out \<Rightarrow> autorelay \<Rightarrow> autorelay option" where
  "on_connection_handler_event env peer cid ev s =
     (case map_of (connections s) (peer, cid) of
        None \<Rightarrow> Some s
      | Some c \<Rightarrow>
          (case ev of
             OutSupported \<Rightarrow>
               if conn_relay_status c = RelayPending \<or> conn_relay_status c = NotSupported
               then do {
                 s1 \<leftarrow> meet_reservation_target env
                   (s\<lparr>connections := AList.update (peer, cid)
                        (c\<lparr>conn_relay_status := Supported\<rparr>) (connections s)\<rparr>);
                 Some (update_relay_availability s1) }
               else Some s
           | OutUnsupported \<Rightarrow>
               let s1 = s\<lparr>connections := AList.update (peer, cid)
                            (c\<lparr>conn_relay_status := NotSupported\<rparr>) (connections s)\<rparr>;
                   has_supported_connection =
                     list_ex (\<lambda>((p, _), info). p = peer \<and> \<not> connection_is_relayed info
                                \<and> conn_relay_status info = Supported) (connections s1);
                   s2 = (if \<not> has_supported_connection
                         then fold (\<lambda>(lid, r) t. if res_peer_id r = peer
                                                  then push_event (RemoveListener lid) t else t)
                                (reservations s1) s1
                         else s1)
               in Some (update_relay_availability s2)))"

subsection \<open>Polling\<close>

fun run_due_dials :: "autorelay_env \<Rightarrow> peer_id list \<Rightarrow> autorelay \<Rightarrow> autorelay" where
  "run_due_dials env [] s = s"
| "run_due_dials env (peer # rest) s =
     run_due_dials env rest
       (redial_static_relay env peer
          (s\<lparr>static_dial_cooldowns := AList.delete peer (static_dial_cooldowns s)\<rparr>))"

definition min_deadline :: "instant list \<Rightarrow> instant option" where
  "min_deadline ds = (case ds of [] \<Rightarrow> None | d # rest \<Rightarrow> Some (fold min rest d))"

text \<open>
  \<open>timer_ready d\<close> is the answer of the wake-up \<^verbatim>\<open>Delay\<close> (of the crate \<^verbatim>\<open>futures_timer\<close>) armed for the
  deadline \<open>d\<close> when it is polled, which is after the clock was read; it may be ready although the deadline was not reached at
  that reading.
\<close>

definition poll_cooldowns ::
  "autorelay_env \<Rightarrow> (instant \<Rightarrow> bool) \<Rightarrow> autorelay \<Rightarrow> (autorelay \<times> bool) option" where
  "poll_cooldowns env timer_ready s =
     (let reservations_expired =
            list_ex (\<lambda>deadline. deadline \<le> now env) (al_values (reservation_cooldowns s));
          due_dials = map fst (filter (\<lambda>(_, deadline). deadline \<le> now env)
                                 (static_dial_cooldowns s))
      in if reservations_expired \<or> due_dials \<noteq> []
         then
           let s1 = s\<lparr>reservation_cooldowns :=
                        retain (\<lambda>_ deadline. now env < deadline) (reservation_cooldowns s)\<rparr>;
               s2 = s1\<lparr>failure_counts := retain (\<lambda>peer _.
                          contains_key (reservation_cooldowns s1) peer
                          \<or> list_ex (\<lambda>(pid, _). pid = peer) (keys (connections s1)))
                          (failure_counts s1)\<rparr>;
               s3 = s2\<lparr>cooldown_wakeup := None\<rparr>;
               s4 = run_due_dials env due_dials s3
           in do { s5 \<leftarrow> (if reservations_expired then meet_reservation_target env s4 else Some s4);
                   Some (s5, True) }
         else
           case min_deadline (al_values (reservation_cooldowns s)
                              @ al_values (static_dial_cooldowns s)) of
             None \<Rightarrow> Some (s\<lparr>cooldown_wakeup := None\<rparr>, False)
           | Some deadline \<Rightarrow>
               Some (if cooldown_wakeup s \<noteq> Some deadline
                     then s\<lparr>cooldown_wakeup := Some deadline\<rparr> else s, timer_ready deadline))"

datatype 'a poll_result = Ready 'a | Pending

text \<open>
  The loop of \<^verbatim>\<open>poll\<close>. Each iteration that asks for the cooldowns reads the clock and the timer
  once; the list holds these readings, and running out of them is \<^const>\<open>None\<close>.
\<close>

fun poll ::
  "(autorelay_env \<times> (instant \<Rightarrow> bool)) list \<Rightarrow> nat \<Rightarrow> autorelay \<Rightarrow>
   (autorelay \<times> to_swarm poll_result) option" where
  "poll readings cx s =
     (case events s of
        ev # rest \<Rightarrow> Some (s\<lparr>events := rest\<rparr>, Ready ev)
      | [] \<Rightarrow>
          (case readings of
             [] \<Rightarrow> None
           | (env, timer_ready) # readings' \<Rightarrow>
               do { (s1, again) \<leftarrow> poll_cooldowns env timer_ready s;
                    if again then poll readings' cx s1
                    else Some (s1\<lparr>waker := Some cx\<rparr>, Pending) }))"

declare poll.simps [simp del]

end
