(* ===== verification/Autorelay_Target.thy ===== *)
theory Autorelay_Target
  imports Autorelay
begin

section \<open>Choosing relays: candidates, selection and the reservation budget\<close>

text \<open>
  Facts about \<^verbatim>\<open>meet_reservation_target\<close>. A bucket of the source (a \<^verbatim>\<open>BTreeMap\<close> from peer to the
  least connection id) represents the set of eligible pairs, so the choice does not depend on the
  iteration order of the connection table. Selecting never panics and never exceeds the budget.
\<close>

subsection \<open>Buckets as sets of eligible connections\<close>

definition represents :: "(peer_id, connection_id) alist \<Rightarrow> (peer_id \<times> connection_id) set \<Rightarrow> bool" where
  "represents m E \<longleftrightarrow> wf_btree m \<and> finite E \<and>
     (\<forall>p. map_of m p = (if p \<in> fst ` E then Some (Min {c. (p, c) \<in> E}) else None))"

definition eligible_in ::
  "autorelay_env \<Rightarrow> autorelay \<Rightarrow> (peer_id \<times> connection_id, connection) alist \<Rightarrow> bool \<Rightarrow>
   (peer_id \<times> connection_id) set" where
  "eligible_in env s xs is_static = {(p, c). \<exists>info. ((p, c), info) \<in> set xs
     \<and> p \<notin> set (covered_peers s) \<and> \<not> reservation_in_cooldown env s p
     \<and> conn_relay_status info = Supported \<and> contains_key (static_relays s) p = is_static}"

abbreviation eligible :: "autorelay_env \<Rightarrow> autorelay \<Rightarrow> bool \<Rightarrow> (peer_id \<times> connection_id) set" where
  "eligible env s is_static \<equiv> eligible_in env s (connections s) is_static"

lemma eligible_in_Nil [simp]: "eligible_in env s [] b = {}"
  by (simp add: eligible_in_def)

lemma eligible_in_Cons:
  "eligible_in env s (((p, c), info) # xs) b =
     (if p \<notin> set (covered_peers s) \<and> \<not> reservation_in_cooldown env s p
         \<and> conn_relay_status info = Supported \<and> contains_key (static_relays s) p = b
      then insert (p, c) (eligible_in env s xs b) else eligible_in env s xs b)"
  by (auto simp: eligible_in_def)

lemma finite_slice: "finite E \<Longrightarrow> finite {c. (p, c) \<in> E}"
  by (rule finite_subset [of _ "snd ` E"]) force+

lemma represents_empty [simp]: "represents [] {}"
  by (simp add: represents_def)

lemma Min_insert_slice:
  fixes c :: "'a::linorder"
  assumes "finite E" and "(p, d) \<in> E"
  shows "Min {x. x = c \<or> (p, x) \<in> E} = min (Min {c. (p, c) \<in> E}) c"
proof -
  have "{x. x = c \<or> (p, x) \<in> E} = insert c {c. (p, c) \<in> E}" by auto
  moreover have "Min (insert c {c. (p, c) \<in> E}) = min c (Min {c. (p, c) \<in> E})"
    using assms by (intro Min_insert) (auto simp: finite_slice)
  ultimately show ?thesis by (simp add: min.commute)
qed

lemma map_of_bucket_min:
  "map_of (bucket_min p c m) = (map_of m)(p \<mapsto> (case map_of m p of None \<Rightarrow> c | Some d \<Rightarrow> min d c))"
  by (simp add: bucket_min_def split: option.splits)

lemma represents_bucket_min:
  assumes "represents m E"
  shows "represents (bucket_min p c m) (insert (p, c) E)"
proof -
  have wf: "wf_btree (bucket_min p c m)"
    using assms by (auto simp: represents_def bucket_min_def split: option.split)
  have E: "finite E" and m: "\<And>q. map_of m q = (if q \<in> fst ` E then Some (Min {c. (q, c) \<in> E}) else None)"
    using assms by (auto simp: represents_def)
  have "map_of (bucket_min p c m) q = (if q \<in> fst ` insert (p, c) E
      then Some (Min {d. (q, d) \<in> insert (p, c) E}) else None)" for q
  proof (cases "q = p")
    case True
    show ?thesis
    proof (cases "p \<in> fst ` E")
      case in_E: True
      then obtain d where "(p, d) \<in> E" by force
      then show ?thesis using True E in_E by (simp add: map_of_bucket_min m Min_insert_slice)
    next
      case False
      then have "{d. d = c \<or> (p, d) \<in> E} = {c}" by force
      with True False show ?thesis by (simp add: map_of_bucket_min m)
    qed
  next
    case False
    then show ?thesis by (auto simp: map_of_bucket_min m)
  qed
  with wf E show ?thesis by (simp add: represents_def)
qed

lemma represents_in: assumes "represents m E" and "(p, c) \<in> set m" shows "(p, c) \<in> E"
proof -
  from assms(1) have "wf_alist m" by (simp add: represents_def wf_btree_distinct)
  with assms(2) have m: "map_of m p = Some c" by simp
  with assms(1) have "p \<in> fst ` E" and c: "c = Min {c. (p, c) \<in> E}"
    by (auto simp: represents_def split: if_splits)
  then have "{c. (p, c) \<in> E} \<noteq> {}" by force
  with assms(1) have "Min {c. (p, c) \<in> E} \<in> {c. (p, c) \<in> E}"
    by (intro Min_in) (auto simp: represents_def finite_slice)
  with c show ?thesis by simp
qed

lemma represents_keys: "represents m E \<Longrightarrow> fst ` set m = fst ` E"
  unfolding represents_def dom_map_of_conv_image_fst [symmetric]
  by (auto simp: dom_def)

lemma represents_unique: "represents m E \<Longrightarrow> represents m' E \<Longrightarrow> m = m'"
  by (rule wf_btree_unique) (auto simp: represents_def fun_eq_iff)

lemma fold_consider_represents:
  assumes "represents st S" and "represents ca C"
  shows "\<exists>st' ca'. fold (consider_candidate env s) xs (st, ca) = (st', ca')
    \<and> represents st' (S \<union> eligible_in env s xs True)
    \<and> represents ca' (C \<union> eligible_in env s xs False)"
  using assms
proof (induction xs arbitrary: st ca S C)
  case Nil
  then show ?case by simp
next
  case (Cons x xs)
  obtain p c info where x: "x = ((p, c), info)" by (metis surj_pair)
  note static = Cons.IH [OF represents_bucket_min [OF Cons.prems(1)] Cons.prems(2), of p c]
  note other = Cons.IH [OF Cons.prems(1) represents_bucket_min [OF Cons.prems(2)], of p c]
  show ?case
    using Cons.IH [OF Cons.prems] static other x
    by (simp add: consider_candidate_def eligible_in_Cons)
qed

lemma collect_candidates_represents:
  assumes "collect_candidates env s = (st, ca)"
  shows "represents st (eligible env s True)" and "represents ca (eligible env s False)"
  using fold_consider_represents [OF represents_empty represents_empty, of env s "connections s"]
    assms by (auto simp: collect_candidates_def)

lemma selected_distinct:
  assumes "collect_candidates env s = (st, ca)"
  shows "distinct (map fst (st @ ca))"
proof -
  note r = collect_candidates_represents [OF assms]
  have "distinct (map fst st)" "distinct (map fst ca)"
    using r by (auto simp: represents_def intro!: wf_btree_distinct)
  moreover have "fst ` set st \<inter> fst ` set ca = {}"
    unfolding represents_keys [OF r(1)] represents_keys [OF r(2)] by (force simp: eligible_in_def)
  ultimately show ?thesis by simp
qed

lemma selected_eligible:
  assumes "collect_candidates env s = (st, ca)" and "x \<in> set (st @ ca)"
  shows "x \<in> fst ` set (connections s)" and "fst x \<notin> set (covered_peers s)"
proof -
  from assms have "x \<in> eligible env s True \<union> eligible env s False"
    using collect_candidates_represents [OF assms(1)] represents_in by (cases x) auto
  then show "x \<in> fst ` set (connections s)" "fst x \<notin> set (covered_peers s)"
    by (auto simp: eligible_in_def image_iff) (metis fst_conv)+
qed

subsection \<open>Selecting connections\<close>

definition fresh_listener_ids :: "autorelay \<Rightarrow> bool" where
  "fresh_listener_ids s \<longleftrightarrow> (\<forall>lid \<in> fst ` set (reservations s). listener_num lid < next_listener_id s)"

definition reserved_peers :: "autorelay \<Rightarrow> peer_id list" where
  "reserved_peers s = map (\<lambda>(_, r). res_peer_id r) (reservations s)"

text \<open>The fields a round of \<^verbatim>\<open>meet_reservation_target\<close> never writes.\<close>

definition target_frame :: "autorelay \<Rightarrow> autorelay \<Rightarrow> bool" where
  "target_frame s s' \<longleftrightarrow>
     config s' = config s
     \<and> status s' = status s
     \<and> auto_status_change s' = auto_status_change s
     \<and> external_addresses s' = external_addresses s
     \<and> external_reservations s' = external_reservations s
     \<and> static_relays s' = static_relays s
     \<and> pending_static_dials s' = pending_static_dials s
     \<and> static_dial_cooldowns s' = static_dial_cooldowns s
     \<and> failure_counts s' = failure_counts s
     \<and> reservation_cooldowns s' = reservation_cooldowns s
     \<and> previous_relays s' = previous_relays s
     \<and> relays_available s' = relays_available s
     \<and> cooldown_wakeup s' = cooldown_wakeup s
     \<and> waker s' = waker s
     \<and> woken s' = woken s
     \<and> next_connection_id s' = next_connection_id s"

lemma target_frame_refl [simp]: "target_frame s s"
  by (simp add: target_frame_def)

lemma target_frame_trans: "target_frame s t \<Longrightarrow> target_frame t u \<Longrightarrow> target_frame s u"
  by (simp add: target_frame_def)

lemma set_covered_peers:
  "set (covered_peers s) = set (reserved_peers s) \<union> snd ` set (external_reservations s)"
  by (force simp: covered_peers_def reserved_peers_def)

lemma select_one:
  assumes key: "(p, c) \<in> fst ` set (connections s)" and fresh: "fresh_listener_ids s"
  obtains s' new where "select_connection_for_reservation env p c s = Some s'"
    and "reservations s' = reservations s @ new" and "reserved_peers s' = reserved_peers s @ map (\<lambda>_. p) new"
    and "length new \<le> 1" and "fresh_listener_ids s'" and "next_listener_id s \<le> next_listener_id s'"
    and "fst ` set (connections s') = fst ` set (connections s)"
    and "wf_alist (connections s) \<Longrightarrow> wf_alist (connections s')"
    and "wf_alist (reservations s) \<Longrightarrow> wf_alist (reservations s')"
    and "pending_eviction s' = pending_eviction s"
    and "target_frame s s'"
proof -
  from key obtain info where info: "map_of (connections s) (p, c) = Some info"
    by (metis weak_map_of_SomeI imageE prod.collapse)
  have upd: "fst ` set (AList.update (p, c) v (connections s)) = fst ` set (connections s)" for v
    using key by (metis dom_map_of_conv_image_fst dom_fun_upd insert_absorb map_of_update option.simps(3))
  have lid: "ListenerId (next_listener_id s) \<notin> fst ` set (reservations s)"
    using fresh by (force simp: fresh_listener_ids_def)
  show ?thesis
  proof (cases "conn_relay_status info = Supported")
    case False
    with info show ?thesis by (intro that [of s "[]"]) (simp_all add: select_connection_for_reservation_def fresh)
  next
    case sup: True
    show ?thesis
    proof (cases "with_p2p env (connection_addr info) p")
      case (Inl a)
      with info sup fresh upd show ?thesis
        by (intro that [of "s\<lparr>connections := AList.update (p, c)
             (info\<lparr>conn_relay_status := NotSupported\<rparr>) (connections s)\<rparr>" "[]"])
           (simp_all add: select_connection_for_reservation_def fresh_listener_ids_def
              reserved_peers_def target_frame_def)
    next
      case (Inr a)
      let ?r = "\<lparr>res_peer_id = p, res_selected_connection_id = c,
                 res_address = connection_addr info, res_status = ReservationPending\<rparr>"
      let ?l = "ListenerId (next_listener_id s)"
      from Inr info sup fresh lid show ?thesis
        by (intro that [of "push_event (ListenOn \<lparr>listen_address = a @ [P2pCircuit], listen_listener_id = ?l\<rparr>)
             (s\<lparr>next_listener_id := Suc (next_listener_id s),
                reservations := AList.update ?l ?r (reservations s)\<rparr>)" "[(?l, ?r)]"])
           (auto simp: select_connection_for_reservation_def fresh_listener_ids_def Let_def
              reserved_peers_def push_event_def target_frame_def update_fresh less_Suc_eq)
    qed
  qed
qed

lemma select_connections_ok:
  assumes "\<And>x. x \<in> set xs \<Longrightarrow> x \<in> fst ` set (connections s)" and "fresh_listener_ids s"
  shows "\<exists>s' new. select_connections env xs s = Some s'
    \<and> reserved_peers s' = reserved_peers s @ new
    \<and> length new \<le> length xs \<and> set new \<subseteq> fst ` set xs \<and> (distinct (map fst xs) \<longrightarrow> distinct new)
    \<and> fst ` set (reservations s) \<subseteq> fst ` set (reservations s')
    \<and> fresh_listener_ids s' \<and> next_listener_id s \<le> next_listener_id s'
    \<and> fst ` set (connections s') = fst ` set (connections s)
    \<and> (wf_alist (connections s) \<longrightarrow> wf_alist (connections s'))
    \<and> (wf_alist (reservations s) \<longrightarrow> wf_alist (reservations s'))
    \<and> pending_eviction s' = pending_eviction s \<and> target_frame s s'"
  using assms
proof (induction xs arbitrary: s)
  case Nil
  then show ?case by simp
next
  case (Cons x xs)
  obtain p c where x: "x = (p, c)" by (cases x)
  with Cons.prems have key: "(p, c) \<in> fst ` set (connections s)" by simp
  from select_one [OF key Cons.prems(2), of env] obtain s1 new1 where s1:
    "select_connection_for_reservation env p c s = Some s1"
    "reservations s1 = reservations s @ new1" "reserved_peers s1 = reserved_peers s @ map (\<lambda>_. p) new1"
    "length new1 \<le> 1" "fresh_listener_ids s1" "next_listener_id s \<le> next_listener_id s1"
    "fst ` set (connections s1) = fst ` set (connections s)"
    "wf_alist (connections s) \<Longrightarrow> wf_alist (connections s1)"
    "wf_alist (reservations s) \<Longrightarrow> wf_alist (reservations s1)"
    "pending_eviction s1 = pending_eviction s" "target_frame s s1" by metis
  have "\<And>y. y \<in> set xs \<Longrightarrow> y \<in> fst ` set (connections s1)"
    using Cons.prems(1) s1(7) by simp
  from Cons.IH [OF this s1(5)] obtain s2 new2 where s2: "select_connections env xs s1 = Some s2"
    "reserved_peers s2 = reserved_peers s1 @ new2" "length new2 \<le> length xs" "set new2 \<subseteq> fst ` set xs"
    "distinct (map fst xs) \<longrightarrow> distinct new2"
    "fst ` set (reservations s1) \<subseteq> fst ` set (reservations s2)"
    "fresh_listener_ids s2" "next_listener_id s1 \<le> next_listener_id s2"
    "fst ` set (connections s2) = fst ` set (connections s1)"
    "wf_alist (connections s1) \<longrightarrow> wf_alist (connections s2)"
    "wf_alist (reservations s1) \<longrightarrow> wf_alist (reservations s2)"
    "pending_eviction s2 = pending_eviction s1" "target_frame s1 s2" by metis
  have d: "distinct (map fst (x # xs)) \<longrightarrow> distinct (map (\<lambda>_. p) new1 @ new2)"
    using s1(4) s2(4,5) x by (cases new1) auto
  show ?case
    by (rule exI [of _ s2], rule exI [of _ "map (\<lambda>_. p) new1 @ new2"])
       (use s1 s2 x d in \<open>auto intro: target_frame_trans\<close>)
qed

end
