(* ===== verification/Edge_Log.thy ===== *)
theory Edge_Log
  imports Connexa_Prelude
begin

section \<open>Edge-triggered notifications\<close>

text \<open>
  Several components keep a value, and queue a notification exactly when it changes: the status and
  the relay availability of the relay behaviour, the protocol support seen by its connection
  handler. The contract is a locale: a step appends to the log what the change of the value calls
  for. Its consequence for a whole run is proved once: the notified values alternate, starting
  from a change of the initial value, and the last one is the current value.
\<close>

fun alternates :: "'a \<Rightarrow> 'a list \<Rightarrow> bool" where
  "alternates cur [] = True"
| "alternates cur (x # xs) = (x \<noteq> cur \<and> alternates x xs)"

fun final :: "'a \<Rightarrow> 'a list \<Rightarrow> 'a" where
  "final cur [] = cur"
| "final cur (x # xs) = final x xs"

definition observed :: "('ev \<Rightarrow> 'a option) \<Rightarrow> 'ev list \<Rightarrow> 'a list" where
  "observed obs evs = List.map_filter obs evs"

definition edge_ext :: "('ev \<Rightarrow> 'a option) \<Rightarrow> 'a \<Rightarrow> 'ev list \<Rightarrow> 'a \<Rightarrow> bool" where
  "edge_ext obs v ext w \<longleftrightarrow>
     alternates v (observed obs ext) \<and> final v (observed obs ext) = w"

lemma alternates_append [simp]:
  "alternates v (xs @ ys) \<longleftrightarrow> alternates v xs \<and> alternates (final v xs) ys"
  by (induction v xs rule: alternates.induct) auto

lemma final_append [simp]: "final v (xs @ ys) = final (final v xs) ys"
  by (induction v xs rule: final.induct) auto

lemma observed_simps [simp]:
  "observed obs [] = []"
  "observed obs (e # es) = (case obs e of None \<Rightarrow> observed obs es | Some a \<Rightarrow> a # observed obs es)"
  by (auto simp: observed_def List.map_filter_def split: option.splits)

lemma observed_append [simp]: "observed obs (xs @ ys) = observed obs xs @ observed obs ys"
  by (simp add: observed_def List.map_filter_def)

lemma observed_None: "(\<And>e. e \<in> set es \<Longrightarrow> obs e = None) \<Longrightarrow> observed obs es = []"
  by (induction es) auto

lemma edge_ext_trans:
  "edge_ext obs u xs v \<Longrightarrow> edge_ext obs v ys w \<Longrightarrow> edge_ext obs u (xs @ ys) w"
  by (auto simp: edge_ext_def)

lemma alternates_distinct_adj:
  "alternates v xs \<Longrightarrow> Suc i < length xs \<Longrightarrow> xs ! i \<noteq> xs ! Suc i"
proof (induction v xs arbitrary: i rule: alternates.induct)
  case (2 cur x xs)
  then show ?case by (cases i; cases xs) auto
qed simp

lemma final_last: "final v xs = (if xs = [] then v else last xs)"
  by (induction v xs rule: final.induct) auto

locale edge_log =
  fixes step :: "'s \<Rightarrow> 's \<Rightarrow> bool"
    and val :: "'s \<Rightarrow> 'a"
    and log :: "'s \<Rightarrow> 'ev list"
    and obs :: "'ev \<Rightarrow> 'a option"
  assumes step_edge: "step s t \<Longrightarrow> \<exists>ext. log t = log s @ ext \<and> edge_ext obs (val s) ext (val t)"
begin

lemma run_edge:
  assumes "step\<^sup>*\<^sup>* s t"
  shows "\<exists>ext. log t = log s @ ext \<and> edge_ext obs (val s) ext (val t)"
  using assms
proof (induction rule: rtranclp_induct)
  case base
  show ?case by (rule exI [of _ "[]"]) (simp add: edge_ext_def)
next
  case (step t u)
  then obtain ext ext' where "log t = log s @ ext" "edge_ext obs (val s) ext (val t)"
    and "log u = log t @ ext'" "edge_ext obs (val t) ext' (val u)"
    using step_edge by blast
  then show ?case by (intro exI [of _ "ext @ ext'"]) (simp add: edge_ext_trans)
qed

lemma run_alternates:
  assumes "step\<^sup>*\<^sup>* s t" and "log s = []"
  shows "alternates (val s) (observed obs (log t)) \<and>
         final (val s) (observed obs (log t)) = val t"
  using run_edge [OF assms(1)] assms(2) by (auto simp: edge_ext_def)

end

end
