(* ===== verification/Autorelay_Invariants.thy ===== *)
theory Autorelay_Invariants
  imports Autorelay_Target Edge_Log
begin

section \<open>Invariants of the relay behaviour\<close>

text \<open>
  Three groups of facts hold between calls: the reservation table (\<open>core_inv\<close>), the bounded list of
  previous relays (\<open>previous_inv\<close>) and the static relays (\<open>static_inv\<close>). Each operation preserves them
  and, because of them, none panics.
\<close>

definition core_inv :: "autorelay \<Rightarrow> bool" where
  "core_inv s \<longleftrightarrow> wf_alist (connections s) \<and> wf_alist (reservations s) \<and> fresh_listener_ids s
     \<and> distinct (reserved_peers s)
     \<and> length (reservations s) \<le> unat (max_reservations (config s))
     \<and> (\<forall>lid. pending_eviction s = Some lid \<longrightarrow> lid \<in> fst ` set (reservations s))"

definition previous_inv :: "autorelay \<Rightarrow> bool" where
  "previous_inv s \<longleftrightarrow> length (previous_relays s) \<le> max_previous_relays (config s)
     \<and> distinct (map fst (previous_relays s))"

definition static_inv :: "autorelay \<Rightarrow> bool" where
  "static_inv s \<longleftrightarrow> wf_alist (static_relays s)
     \<and> (\<forall>(p, addrs) \<in> set (static_relays s).
          addrs \<noteq> [] \<and> distinct addrs \<and> (\<forall>a \<in> set addrs. \<not> is_relayed a))"

definition autorelay_inv :: "autorelay \<Rightarrow> bool" where
  "autorelay_inv s \<longleftrightarrow> core_inv s \<and> previous_inv s \<and> static_inv s"

text \<open>Events a call appends that are not notifications.\<close>

fun is_request :: "to_swarm \<Rightarrow> bool" where
  "is_request (GenerateEvent ev) = False"
| "is_request _ = True"

definition requests_ext :: "autorelay \<Rightarrow> autorelay \<Rightarrow> bool" where
  "requests_ext s s' \<longleftrightarrow> (\<exists>ext. events s' = events s @ ext \<and> list_all is_request ext)"

lemma requests_ext_refl [simp]: "requests_ext s s"
  by (simp add: requests_ext_def)

lemma requests_ext_trans: "requests_ext s t \<Longrightarrow> requests_ext t u \<Longrightarrow> requests_ext s u"
  by (auto simp: requests_ext_def)

lemma requests_ext_same: "events s' = events s \<Longrightarrow> requests_ext s s'"
  by (simp add: requests_ext_def)

lemma requests_ext_push: "requests_ext s s' \<Longrightarrow> is_request e \<Longrightarrow> requests_ext s (push_event e s')"
  by (auto simp: requests_ext_def push_event_def)

lemmas push_event_simps [simp] = push_event_def

subsection \<open>Meeting the target\<close>

lemma make_room_effect:
  obtains ev pe where "make_room_for_static_relays n s = s\<lparr>events := events s @ ev, pending_eviction := pe\<rparr>"
    and "list_all is_request ev"
    and "pe = pending_eviction s \<or> (\<exists>lid. pe = Some lid \<and> lid \<in> fst ` set (reservations s))"
proof (cases "n = 0 \<or> pending_eviction s \<noteq> None")
  case True
  then show ?thesis by (intro that [where ev = "[]" and pe = "pending_eviction s"]) (simp_all add: make_room_for_static_relays_def)
next
  case room: False
  let ?P = "\<lambda>(lid, r). \<not> contains_key (static_relays s) (res_peer_id r)
       \<and> res_peer_id r \<notin> set (al_values (external_reservations s))"
  show ?thesis
  proof (cases "find ?P (reservations s)")
    case None
    with room show ?thesis
      by (intro that [where ev = "[]" and pe = "pending_eviction s"]) (simp_all add: make_room_for_static_relays_def)
  next
    case (Some x)
    obtain lid r where x: "x = (lid, r)" by (cases x)
    from Some have "x \<in> set (reservations s)" by (metis find_Some_iff nth_mem)
    with x have "lid \<in> fst ` set (reservations s)" by force
    with room Some x show ?thesis
      by (intro that [where ev = "[RemoveListener lid]" and pe = "Some lid"]) (simp_all add: make_room_for_static_relays_def)
  qed
qed

lemma make_room_core_inv [simp]: "core_inv s \<Longrightarrow> core_inv (make_room_for_static_relays n s)"
  by (rule make_room_effect [of n s])
     (auto simp: core_inv_def fresh_listener_ids_def reserved_peers_def)

lemma make_room_frame:
  "target_frame s (make_room_for_static_relays n s)"
  "requests_ext s (make_room_for_static_relays n s)"
  "connections (make_room_for_static_relays n s) = connections s"
  "reservations (make_room_for_static_relays n s) = reservations s"
  "fresh_listener_ids (make_room_for_static_relays n s) = fresh_listener_ids s"
  "reserved_peers (make_room_for_static_relays n s) = reserved_peers s"
  by (rule make_room_effect [of n s],
      simp add: target_frame_def requests_ext_def fresh_listener_ids_def reserved_peers_def)+

lemma length_covered_peers: "length (covered_peers s) = card (set (covered_peers s))"
  by (simp add: covered_peers_def distinct_card flip: distinct_card)

lemma length_reservations: "length (reserved_peers s) = length (reservations s)"
  by (simp add: reserved_peers_def)

lemma covered_peers_extend:
  assumes "reserved_peers s' = reserved_peers s @ new" and "external_reservations s' = external_reservations s"
  shows "length (covered_peers s') \<le> length (covered_peers s) + length new"
proof -
  have "set (covered_peers s') = set (covered_peers s) \<union> set new"
    using assms by (auto simp: set_covered_peers)
  then have "card (set (covered_peers s')) \<le> card (set (covered_peers s)) + card (set new)"
    by (simp add: card_Un_le)
  then show ?thesis using card_length [of new] by (simp add: length_covered_peers)
qed

lemma reservations_le_covered:
  assumes "distinct (reserved_peers s)"
  shows "length (reservations s) \<le> length (covered_peers s)"
proof -
  have "length (reservations s) = card (set (reserved_peers s))"
    using assms by (simp add: distinct_card length_reservations)
  also have "\<dots> \<le> card (set (covered_peers s))"
    by (rule card_mono) (auto simp: set_covered_peers)
  finally show ?thesis by (simp add: length_covered_peers)
qed

lemma select_requests_ext:
  "select_connection_for_reservation env p c s = Some s' \<Longrightarrow> requests_ext s s'"
  by (auto simp: select_connection_for_reservation_def requests_ext_def Let_def
      split: option.splits if_splits sum.splits)

lemma select_connections_requests_ext:
  "select_connections env xs s = Some s' \<Longrightarrow> requests_ext s s'"
proof (induction xs arbitrary: s)
  case (Cons x xs)
  obtain p c where "x = (p, c)" by (cases x)
  with Cons show ?case
    by (auto simp: Option.bind_eq_Some_conv intro: requests_ext_trans select_requests_ext)
qed simp

text \<open>
  The central lemma: from a state that satisfies the invariant, a round neither hits the
  \<^verbatim>\<open>expect\<close> nor the \<^verbatim>\<open>debug_assert\<close>, and it keeps the invariant.
\<close>

lemma meet_reservation_target_ok:
  assumes inv: "core_inv s"
  shows "\<exists>s'. meet_reservation_target env s = Some s' \<and> core_inv s' \<and> target_frame s s'
    \<and> requests_ext s s' \<and> fst ` set (connections s') = fst ` set (connections s)
    \<and> (length (covered_peers s') \<le> max (length (covered_peers s)) (unat (max_reservations (config s))))"
proof -
  obtain st ca where cand: "collect_candidates env s = (st, ca)" by (cases "collect_candidates env s")
  let ?b = "reservation_budget s" and ?mx = "unat (max_reservations (config s))"
  let ?s1 = "make_room_for_static_relays (length st - ?b) s"
  let ?xs = "take ?b (st @ ca)"
  have same: "covered_peers ?s1 = covered_peers s"
    using make_room_frame [where s = s and n = "length st - ?b"] by (simp add: covered_peers_def target_frame_def)
  show ?thesis
  proof (cases "status s = Disable \<or> ?b = 0")
    case True
    then show ?thesis
      using inv cand same by (auto simp: meet_reservation_target_def make_room_frame)
  next
    case False
    have keys: "x \<in> fst ` set (connections ?s1)" if "x \<in> set ?xs" for x
      using selected_eligible(1) [OF cand in_set_takeD [OF that]] by (simp add: make_room_frame)
    have fresh: "fresh_listener_ids ?s1" using inv by (simp add: make_room_frame core_inv_def)
    from select_connections_ok [where xs = ?xs and s = ?s1 and env = env, OF keys fresh] obtain s2 new where
      sel: "select_connections env ?xs ?s1 = Some s2" and
      rp: "reserved_peers s2 = reserved_peers ?s1 @ new" and
      new: "length new \<le> length ?xs" "set new \<subseteq> fst ` set ?xs" "distinct (map fst ?xs) \<longrightarrow> distinct new" and
      s2: "fst ` set (reservations ?s1) \<subseteq> fst ` set (reservations s2)" "fresh_listener_ids s2"
        "fst ` set (connections s2) = fst ` set (connections ?s1)"
        "wf_alist (connections ?s1) \<longrightarrow> wf_alist (connections s2)"
        "wf_alist (reservations ?s1) \<longrightarrow> wf_alist (reservations s2)"
        "pending_eviction s2 = pending_eviction ?s1" "target_frame ?s1 s2"
      by metis
    have frame: "target_frame s s2" using make_room_frame(1) s2(7) by (rule target_frame_trans)
    have "length new \<le> ?b" using new(1) by simp
    moreover have "length (covered_peers s2) \<le> length (covered_peers s) + length new"
      using covered_peers_extend [of s2 s new] rp frame by (simp add: make_room_frame target_frame_def)
    ultimately have cov: "length (covered_peers s2) \<le> ?mx"
      using False unfolding reservation_budget_def by linarith
    have dn: "distinct new"
      using new(3) distinct_take [OF selected_distinct [OF cand], of ?b] by (simp only: take_map)
    have disj: "set new \<inter> set (covered_peers s) = {}"
      using new(2) selected_eligible(2) [OF cand in_set_takeD] by blast
    have distinct: "distinct (reserved_peers s2)"
      using rp dn disj inv by (auto simp: make_room_frame core_inv_def set_covered_peers)
    have "core_inv ?s1" using inv by simp
    then have "core_inv s2"
      using s2 distinct cov reservations_le_covered [OF distinct] frame
      by (auto simp: core_inv_def target_frame_def make_room_frame)
    moreover have "meet_reservation_target env s = Some s2"
      using False sel cov cand by (simp add: meet_reservation_target_def)
    moreover have "requests_ext s s2"
      using make_room_frame(2) select_connections_requests_ext [OF sel] by (rule requests_ext_trans)
    ultimately show ?thesis using frame cov s2(3) by (auto simp: make_room_frame)
  qed
qed

lemma meet_reservation_target_Some:
  assumes "core_inv s" and "meet_reservation_target env s = Some s'"
  shows "core_inv s'" "target_frame s s'" "requests_ext s s'"
    "fst ` set (connections s') = fst ` set (connections s)"
    "length (covered_peers s') \<le> max (length (covered_peers s)) (unat (max_reservations (config s)))"
  using meet_reservation_target_ok [OF assms(1), of env] assms(2) by auto

subsection \<open>Operations that keep the invariant and notify on edges\<close>

fun obs_available :: "to_swarm \<Rightarrow> bool option" where
  "obs_available (GenerateEvent RelaysAvailable) = Some True"
| "obs_available (GenerateEvent NoRelaysAvailable) = Some False"
| "obs_available _ = None"

fun obs_status :: "to_swarm \<Rightarrow> status option" where
  "obs_status (GenerateEvent (StatusChanged st)) = Some st"
| "obs_status _ = None"

definition edge_step :: "autorelay \<Rightarrow> autorelay \<Rightarrow> bool" where
  "edge_step s s' \<longleftrightarrow> (\<exists>ext. events s' = events s @ ext
     \<and> edge_ext obs_available (relays_available s) ext (relays_available s')
     \<and> edge_ext obs_status (status s) ext (status s'))"

definition good :: "autorelay \<Rightarrow> autorelay \<Rightarrow> bool" where
  "good s s' \<longleftrightarrow> (autorelay_inv s \<longrightarrow> autorelay_inv s') \<and> config s' = config s \<and> edge_step s s'"

lemma request_quiet: "is_request e \<Longrightarrow> obs_available e = None \<and> obs_status e = None"
  by (cases e) auto

lemma requests_edge_step:
  assumes "requests_ext s s'" "relays_available s' = relays_available s" "status s' = status s"
  shows "edge_step s s'"
proof -
  from assms(1) obtain ext where ext: "events s' = events s @ ext" "list_all is_request ext"
    by (auto simp: requests_ext_def)
  then have "observed obs_available ext = []" "observed obs_status ext = []"
    by (auto simp: list_all_iff dest: request_quiet intro!: observed_None)
  with ext assms show ?thesis by (auto simp: edge_step_def edge_ext_def)
qed

lemma edge_step_refl [simp]: "edge_step s s"
  by (simp add: requests_edge_step)

lemma edge_step_trans: "edge_step s t \<Longrightarrow> edge_step t u \<Longrightarrow> edge_step s u"
  unfolding edge_step_def
proof (elim exE conjE)
  fix xs ys
  assume "events t = events s @ xs" "events u = events t @ ys"
    "edge_ext obs_available (relays_available s) xs (relays_available t)"
    "edge_ext obs_available (relays_available t) ys (relays_available u)"
    "edge_ext obs_status (status s) xs (status t)" "edge_ext obs_status (status t) ys (status u)"
  then show "\<exists>ext. events u = events s @ ext
      \<and> edge_ext obs_available (relays_available s) ext (relays_available u)
      \<and> edge_ext obs_status (status s) ext (status u)"
    by (intro exI [of _ "xs @ ys"]) (auto intro: edge_ext_trans)
qed

lemma good_refl [simp]: "good s s"
  by (simp add: good_def)

lemma good_trans [trans]: "good s t \<Longrightarrow> good t u \<Longrightarrow> good s u"
  by (auto simp: good_def intro: edge_step_trans)

text \<open>A call that leaves the fields of the invariant and both values alone, up to requests.\<close>

lemma good_frame:
  assumes "config s' = config s" "connections s' = connections s" "reservations s' = reservations s"
    "next_listener_id s' = next_listener_id s" "pending_eviction s' = pending_eviction s"
    "previous_relays s' = previous_relays s" "static_relays s' = static_relays s"
    "relays_available s' = relays_available s" "status s' = status s" "requests_ext s s'"
  shows "good s s'"
  using assms requests_edge_step [of s s']
  by (auto simp: good_def autorelay_inv_def core_inv_def previous_inv_def static_inv_def
      fresh_listener_ids_def reserved_peers_def)

lemma core_inv_connections:
  assumes "core_inv s" and "wf_alist cs"
  shows "core_inv (s\<lparr>connections := cs\<rparr>)"
  using assms by (auto simp: core_inv_def fresh_listener_ids_def reserved_peers_def)

lemma good_connections:
  assumes "wf_alist (connections s) \<Longrightarrow> wf_alist cs"
  shows "good s (s\<lparr>connections := cs\<rparr>)"
  using assms requests_edge_step [of s "s\<lparr>connections := cs\<rparr>"]
  by (auto simp: good_def autorelay_inv_def previous_inv_def static_inv_def requests_ext_same
      intro!: core_inv_connections) (simp add: core_inv_def)

lemma meet_reservation_target_good:
  assumes "autorelay_inv s"
  shows "\<exists>s'. meet_reservation_target env s = Some s' \<and> good s s'"
proof -
  from assms obtain s' where s': "meet_reservation_target env s = Some s'" "core_inv s'"
    "target_frame s s'" "requests_ext s s'"
    using meet_reservation_target_ok [of s env] by (auto simp: autorelay_inv_def)
  moreover have "edge_step s s'"
    using s'(3,4) by (auto simp: target_frame_def intro: requests_edge_step)
  ultimately show ?thesis using assms
    by (auto simp: good_def autorelay_inv_def previous_inv_def static_inv_def target_frame_def)
qed

lemma queue_static_dial_good: "good s (fst (queue_static_dial env p addrs s))"
  by (rule good_frame) (auto simp: queue_static_dial_def Let_def requests_ext_def)

lemma redial_static_relay_good: "good s (redial_static_relay env p s)"
  by (auto simp: redial_static_relay_def intro: queue_static_dial_good split: option.split)

lemma previous_relays_room:
  assumes "length ps \<le> mx" and "distinct (map fst ps)" and "mx \<noteq> 0"
  shows "let kept = filter (\<lambda>(q, _, _). q \<noteq> p) ps;
             room = (if mx \<le> length kept then tl kept else kept)
         in length (room @ [(p, a, t)]) \<le> mx \<and> distinct (map fst (room @ [(p, a, t)]))"
proof -
  define kept where "kept = filter (\<lambda>(q, _, _). q \<noteq> p) ps"
  define room where "room = (if mx \<le> length kept then tl kept else kept)"
  have "length kept \<le> mx" using assms(1) unfolding kept_def by (meson le_trans length_filter_le)
  then have len: "length room < mx" using assms(3) by (auto simp: room_def)
  have "distinct (map fst kept)" using assms(2) unfolding kept_def by (rule distinct_map_filter)
  then have d: "distinct (map fst room)" by (simp add: room_def distinct_tl map_tl)
  have "set room \<subseteq> set kept" by (cases kept) (auto simp: room_def)
  then have "p \<notin> fst ` set room" by (auto simp: kept_def)
  with len d show ?thesis unfolding kept_def [symmetric] Let_def room_def [symmetric] by simp
qed

lemma record_previous_relay_good: "good s (record_previous_relay env p a s)"
proof (cases "max_previous_relays (config s) = 0")
  case True
  then show ?thesis by (simp add: record_previous_relay_def)
next
  case False
  let ?s = "record_previous_relay env p a s"
  have "previous_inv ?s" if "previous_inv s"
    using that False previous_relays_room [of "previous_relays s" "max_previous_relays (config s)" p a]
    by (simp add: previous_inv_def record_previous_relay_def Let_def)
  moreover have "core_inv s \<Longrightarrow> core_inv ?s" "static_inv s \<Longrightarrow> static_inv ?s"
    by (auto simp: record_previous_relay_def Let_def core_inv_def static_inv_def
        fresh_listener_ids_def reserved_peers_def)
  moreover have "edge_step s ?s"
    by (rule requests_edge_step) (auto simp: record_previous_relay_def Let_def requests_ext_def)
  ultimately show ?thesis
    by (auto simp: good_def autorelay_inv_def record_previous_relay_def Let_def)
qed

lemma forget_previous_relay_good: "good s (forget_previous_relay p s)"
proof -
  have "edge_step s (forget_previous_relay p s)"
    by (rule requests_edge_step) (auto simp: forget_previous_relay_def requests_ext_def)
  then show ?thesis
    by (auto simp: good_def autorelay_inv_def core_inv_def previous_inv_def static_inv_def
      fresh_listener_ids_def reserved_peers_def forget_previous_relay_def distinct_map_filter
      intro: le_trans [OF length_filter_le])
qed

lemma clear_failure_good: "good s (clear_failure p s)"
  by (rule good_frame) (simp_all add: clear_failure_def requests_ext_same)

lemma update_relay_availability_good: "good s (update_relay_availability s)"
  by (auto simp: good_def update_relay_availability_def Let_def autorelay_inv_def core_inv_def
      previous_inv_def static_inv_def fresh_listener_ids_def reserved_peers_def edge_step_def
      edge_ext_def)

lemma distinct_map_delete:
  "distinct (map f m) \<Longrightarrow> distinct (map f (AList.delete k m))"
  by (simp add: AList.delete_eq distinct_map_filter)

lemma length_delete_le': "length (AList.delete k m) \<le> length m"
  by (simp add: AList.delete_eq)

lemma remove_reservation_good: "good s (fst (remove_reservation lid s))"
proof -
  have "edge_step s (fst (remove_reservation lid s))"
    by (rule requests_edge_step) (auto simp: remove_reservation_def Let_def requests_ext_def)
  moreover have "core_inv s \<Longrightarrow> core_inv (fst (remove_reservation lid s))"
    using length_delete_le' [of lid "reservations s"]
    by (auto simp: core_inv_def remove_reservation_def Let_def fresh_listener_ids_def
        reserved_peers_def set_delete distinct_map_delete image_iff split: if_splits) fastforce+
  ultimately show ?thesis
    by (auto simp: good_def autorelay_inv_def remove_reservation_def Let_def previous_inv_def static_inv_def)
qed

lemma push_requests_good:
  "list_all is_request (map f xs) \<Longrightarrow> good s (fold (\<lambda>x. push_event (f x)) xs s)"
proof (induction xs arbitrary: s)
  case (Cons x xs)
  have "good s (push_event (f x) s)"
    by (rule good_frame) (use Cons.prems in \<open>auto simp: requests_ext_def\<close>)
  with Cons show ?case by (auto intro: good_trans)
qed simp

lemma remove_all_reservations_good: "good s (remove_all_reservations s)"
  unfolding remove_all_reservations_def
  by (rule push_requests_good) (simp add: list_all_iff)

subsection \<open>Handlers\<close>

lemma good_inv: "good s t \<Longrightarrow> autorelay_inv s \<Longrightarrow> autorelay_inv t"
  by (simp add: good_def)

lemma meet_after:
  assumes "good s t" and "autorelay_inv s"
  shows "\<exists>s'. meet_reservation_target env t = Some s' \<and> good s s'"
  using meet_reservation_target_good [OF good_inv [OF assms], of env] assms(1)
  by (blast intro: good_trans)

lemma status_change_good:
  "new \<noteq> status s \<Longrightarrow> good s (push_event (GenerateEvent (StatusChanged new)) (s\<lparr>status := new\<rparr>))"
  by (auto simp: good_def autorelay_inv_def core_inv_def previous_inv_def static_inv_def
      fresh_listener_ids_def reserved_peers_def edge_step_def edge_ext_def)

lemma record_failure_good: "good s (fst (record_failure p s))"
  by (rule good_frame) (simp_all add: record_failure_def Let_def requests_ext_same)

lemma cooldown_good: "good s (s\<lparr>reservation_cooldowns := m\<rparr>)"
  by (rule good_frame) (simp_all add: requests_ext_same)

text \<open>
  The deadlines of cooldowns stay within the range of the clock. Only then can every call be relied on
  to return, because a sum beyond the last instant panics.
\<close>

definition cooldowns_fit :: "autorelay_env \<Rightarrow> config \<Rightarrow> bool" where
  "cooldowns_fit env cfg \<longleftrightarrow>
     now env + max (failure_cooldown cfg) (failure_cooldown_max cfg) \<le> instant_limit env"

definition good_result :: "autorelay_env \<Rightarrow> autorelay \<Rightarrow> autorelay option \<Rightarrow> bool" where
  "good_result env s r \<longleftrightarrow> (case r of None \<Rightarrow> \<not> cooldowns_fit env (config s) | Some s' \<Rightarrow> good s s')"

lemma good_config: "good s s' \<Longrightarrow> config s' = config s"
  by (simp add: good_def)

lemma good_resultI: "\<exists>s'. r = Some s' \<and> good s s' \<Longrightarrow> good_result env s r"
  by (auto simp: good_result_def)

lemma good_result_trans: "good s t \<Longrightarrow> good_result env t r \<Longrightarrow> good_result env s r"
  by (auto simp: good_result_def good_config intro: good_trans split: option.splits)

lemma record_failure_cooldown: "snd (record_failure p s) \<le> failure_cooldown_max (config s)"
  by (simp add: record_failure_def Let_def)

lemma record_failed_good:
  "good_result env s (case record_failure p s of (s', d) \<Rightarrow>
     do { deadline \<leftarrow> now_plus env d; Some (s'\<lparr>reservation_cooldowns := f s' deadline\<rparr>) })"
proof -
  obtain s' d where f: "record_failure p s = (s', d)" by (cases "record_failure p s")
  have "good s (s'\<lparr>reservation_cooldowns := m\<rparr>)" for m
    using record_failure_good [of s p] f by (auto intro: good_trans cooldown_good)
  moreover have "d \<le> failure_cooldown_max (config s)" using record_failure_cooldown [of p s] f by simp
  ultimately show ?thesis by (auto simp: f good_result_def now_plus_def cooldowns_fit_def)
qed

lemma disable_reservation_good:
  assumes "autorelay_inv s"
  shows "good_result env s (disable_reservation env lid failed s)"
proof (cases "contains_key (external_reservations s) lid")
  case True
  have "good s (s\<lparr>external_reservations := AList.delete lid (external_reservations s)\<rparr>)"
    by (rule good_frame) (simp_all add: requests_ext_same)
  from good_resultI [OF meet_after [OF this assms]] True show ?thesis by (simp add: disable_reservation_def)
next
  case False
  obtain s1 mr where rr: "remove_reservation lid s = (s1, mr)" by (cases "remove_reservation lid s")
  have s1: "good s s1" using remove_reservation_good [of s lid] rr by simp
  show ?thesis
  proof (cases mr)
    case None
    with False rr s1 show ?thesis by (simp add: disable_reservation_def good_result_def)
  next
    case (Some r)
    let ?p = "res_peer_id r"
    let ?s2 = "if failed then case record_failure ?p s1 of (s', d) \<Rightarrow>
        do { deadline \<leftarrow> now_plus env d;
             Some (s'\<lparr>reservation_cooldowns := AList.update ?p deadline (reservation_cooldowns s')\<rparr>) } else Some s1"
    have s2: "good_result env s ?s2"
      using good_result_trans [OF s1 record_failed_good [where p = ?p and
          f = "\<lambda>s' d. AList.update ?p d (reservation_cooldowns s')"]] s1
      by (simp add: good_result_def)
    have "\<exists>u. meet_reservation_target env (record_previous_relay env ?p (res_address r) t) = Some u \<and> good s u"
      if "good s t" for t
      using meet_after [OF good_trans [OF that record_previous_relay_good] assms] .
    then have "good_result env s (meet_reservation_target env (record_previous_relay env ?p (res_address r) t))"
      if "good s t" for t using that by (blast intro: good_resultI)
    with s2 have "good_result env s (do { t \<leftarrow> ?s2;
        meet_reservation_target env (record_previous_relay env ?p (res_address r) t) })"
      by (cases ?s2) (simp_all add: good_result_def)
    with False rr Some show ?thesis by (simp add: disable_reservation_def)
  qed
qed

lemma determine_status_good:
  assumes "autorelay_inv s"
  shows "\<exists>s'. determine_status_from_external_addresses env s = Some s' \<and> good s s'"
proof -
  let ?new = "if list_ex (\<lambda>addr. \<not> is_relayed addr) (external_addresses s) then Disable else Enable"
  let ?s1 = "push_event (GenerateEvent (StatusChanged ?new)) (s\<lparr>status := ?new\<rparr>)"
  show ?thesis
  proof (cases "?new = status s")
    case True
    then have "determine_status_from_external_addresses env s = Some s"
      by (simp only: determine_status_from_external_addresses_def Let_def) simp
    then show ?thesis by simp
  next
    case False
    then have s1: "good s ?s1" by (rule status_change_good)
    have eq: "determine_status_from_external_addresses env s =
        (case ?new of Enable \<Rightarrow> meet_reservation_target env ?s1
         | Disable \<Rightarrow> Some (remove_all_reservations ?s1))"
      using False by (simp only: determine_status_from_external_addresses_def Let_def) simp
    show ?thesis
    proof (cases ?new)
      case Enable
      with eq meet_after [OF s1 assms] show ?thesis by simp
    next
      case Disable
      with eq good_trans [OF s1 remove_all_reservations_good] show ?thesis by simp
    qed
  qed
qed

lemma take_and_wake_good: "good s (take_and_wake s)"
  by (rule good_frame) (auto simp: take_and_wake_def requests_ext_def split: option.split)

lemma auto_status_change_good: "good s (s\<lparr>auto_status_change := b\<rparr>)"
  by (rule good_frame) (simp_all add: requests_ext_same)

lemma set_status_good:
  assumes "autorelay_inv s"
  shows "\<exists>s'. set_status env st s = Some s' \<and> good s s'"
proof (cases st)
  case None
  have g: "good s (s\<lparr>auto_status_change := True\<rparr>)" by (rule auto_status_change_good)
  from determine_status_good [OF good_inv [OF g assms], of env] obtain s1 where
    "determine_status_from_external_addresses env (s\<lparr>auto_status_change := True\<rparr>) = Some s1"
    "good (s\<lparr>auto_status_change := True\<rparr>) s1" by blast
  with None g take_and_wake_good [of s1] show ?thesis
    by (auto simp: set_status_def intro: good_trans)
next
  case (Some new)
  let ?s0 = "s\<lparr>auto_status_change := False\<rparr>"
  have g: "good s ?s0" by (rule auto_status_change_good)
  show ?thesis
  proof (cases "status s = new")
    case True
    with Some g take_and_wake_good [of ?s0] show ?thesis
      by (auto simp: set_status_def intro: good_trans)
  next
    case False
    let ?s1 = "push_event (GenerateEvent (StatusChanged new)) (?s0\<lparr>status := new\<rparr>)"
    have s1: "good s ?s1" using False by (intro good_trans [OF g] status_change_good) simp
    from meet_after [OF s1 assms, of env] obtain s2 where
      "meet_reservation_target env ?s1 = Some s2" "good s s2" by blast
    with Some False s1 show ?thesis
      by (cases new) (auto simp: set_status_def Let_def intro: good_trans take_and_wake_good)
  qed
qed

lemma push_unless_contained_set [simp]: "set (push_unless_contained x xs) = insert x (set xs)"
  by (auto simp: push_unless_contained_def)

lemma push_unless_contained_distinct [simp]: "distinct xs \<Longrightarrow> distinct (push_unless_contained x xs)"
  by (auto simp: push_unless_contained_def)

lemma push_unless_contained_not_Nil [simp]: "push_unless_contained x xs \<noteq> []"
  by (auto simp: push_unless_contained_def)

lemma static_relays_update_good:
  assumes "\<not> is_relayed address"
  shows "good s (s\<lparr>static_relays := AList.update p
      (push_unless_contained address (or_default [] p (static_relays s))) (static_relays s)\<rparr>)"
    (is "good s ?s")
proof -
  have "static_inv ?s" if inv: "static_inv s"
  proof -
    have "distinct addrs \<and> (\<forall>a \<in> set addrs. \<not> is_relayed a)"
      if "addrs = or_default [] p (static_relays s)" for addrs
      using inv that by (auto simp: static_inv_def or_default_def split: option.splits dest!: map_of_SomeD)
    then show ?thesis
      using inv assms by (auto simp: static_inv_def set_update_wf)
  qed
  moreover have "edge_step s ?s" by (rule requests_edge_step) (simp_all add: requests_ext_same)
  ultimately show ?thesis
    by (auto simp: good_def autorelay_inv_def core_inv_def previous_inv_def
        fresh_listener_ids_def reserved_peers_def)
qed

lemma add_static_relay_good:
  assumes "autorelay_inv s"
  shows "\<exists>s' b. add_static_relay env p address s = Some (s', b) \<and> good s s'"
proof (cases "is_relayed address")
  case True
  then have "add_static_relay env p address s = Some (s, False)" by (simp add: add_static_relay_def)
  then show ?thesis by (intro exI) (rule conjI [OF _ good_refl])
next
  case False
  let ?c = "push_unless_contained address (or_default [] p (static_relays s))"
  let ?s1 = "s\<lparr>static_relays := AList.update p ?c (static_relays s)\<rparr>"
  obtain s2 q where q: "queue_static_dial env p ?c ?s1 = (s2, q)"
    by (cases "queue_static_dial env p ?c ?s1")
  have s2: "good s s2"
    using good_trans [OF static_relays_update_good [OF False] queue_static_dial_good [of _ env p ?c]] q
    by (metis fst_conv)
  from meet_after [OF s2 assms, of env] obtain s3 where
    "meet_reservation_target env s2 = Some s3" "good s s3" by blast
  with False q s2 show ?thesis
    by (auto simp: add_static_relay_def Let_def intro: good_trans take_and_wake_good)
qed

lemma remove_static_relay_good: "good s (fst (remove_static_relay p s))"
proof -
  have "edge_step s (fst (remove_static_relay p s))"
    by (rule requests_edge_step) (simp_all add: remove_static_relay_def requests_ext_same)
  then show ?thesis
    by (auto simp: good_def autorelay_inv_def core_inv_def previous_inv_def static_inv_def set_delete
        fresh_listener_ids_def reserved_peers_def remove_static_relay_def)
qed

lemma add_static_relays_good:
  "autorelay_inv s \<Longrightarrow> \<exists>s'. add_static_relays env xs s = Some s' \<and> good s s'"
proof (induction xs arbitrary: s)
  case (Cons x xs)
  obtain p a where x: "x = (p, a)" by (cases x)
  from add_static_relay_good [OF Cons.prems, of env p a] obtain s1 b where
    s1: "add_static_relay env p a s = Some (s1, b)" "good s s1" by blast
  from Cons.IH [OF good_inv [OF s1(2) Cons.prems]] s1 x show ?case
    by (auto intro: good_trans)
qed simp

lemma on_connection_established_good: "good s (on_connection_established p c ep s)"
proof -
  let ?cs = "AList.update (p, c) (disqualify_connection_if_relayed
               \<lparr>endpoint = ep, conn_relay_status = RelayPending\<rparr>) (connections s)"
  have "good s (s\<lparr>connections := ?cs\<rparr>)" by (rule good_connections) simp
  moreover have "good (s\<lparr>connections := ?cs\<rparr>) (on_connection_established p c ep s)"
    by (rule good_frame) (auto simp: on_connection_established_def Let_def requests_ext_def)
  ultimately show ?thesis by (rule good_trans)
qed

lemma maybe_record_good:
  "good t (if P then case mr of None \<Rightarrow> t | Some r \<Rightarrow> record_previous_relay env p (f r) t else t)"
  by (simp add: record_previous_relay_good split: option.split)

lemma on_connection_closed_good: "good s (on_connection_closed env p c s)"
proof (cases "map_of (connections s) (p, c)")
  case None
  then show ?thesis by (simp add: on_connection_closed_def)
next
  case (Some info)
  let ?s1 = "s\<lparr>connections := AList.delete (p, c) (connections s)\<rparr>"
  let ?s2 = "if \<not> list_ex (\<lambda>(pid, _). pid = p) (keys (connections ?s1))
       \<and> \<not> reservation_in_cooldown env ?s1 p then clear_failure p ?s1 else ?s1"
  let ?s3 = "if \<not> connection_is_relayed info \<and> \<not> has_direct_connection ?s2 p
       then case find (\<lambda>r. res_peer_id r = p) (al_values (reservations ?s2)) of
              None \<Rightarrow> ?s2 | Some r \<Rightarrow> record_previous_relay env p (res_address r) ?s2 else ?s2"
  have eq: "on_connection_closed env p c s = update_relay_availability (redial_static_relay env p ?s3)"
    by (simp only: on_connection_closed_def Some option.case Let_def)
  have "good s ?s1" by (rule good_connections) simp
  also have "good ?s1 ?s2" using clear_failure_good by simp
  also have "good ?s2 ?s3" by (rule maybe_record_good)
  also have "good ?s3 (on_connection_closed env p c s)"
    unfolding eq by (rule good_trans [OF redial_static_relay_good update_relay_availability_good])
  finally show ?thesis .
qed

lemma on_address_change_good: "good s (on_address_change p c new s)"
  by (auto simp: on_address_change_def intro: good_connections split: option.split)

lemma map_update_same:
  assumes "map_of m k = Some r" and "f r' = f r"
  shows "map (\<lambda>(_, r). f r) (AList.update k r' m) = map (\<lambda>(_, r). f r) m"
    and "fst ` set (AList.update k r' m) = fst ` set m"
    and "length (AList.update k r' m) = length m"
  using assms by (induction m) (auto split: if_splits)

lemma on_new_listen_addr_good: "good s (on_new_listen_addr lid addr s)"
proof (cases "map_of (reservations s) lid")
  case None
  show ?thesis
    by (rule good_frame) (auto simp: on_new_listen_addr_def None requests_ext_def split: option.split)
next
  case (Some r)
  let ?s = "s\<lparr>reservations := AList.update lid (r\<lparr>res_status := Active\<rparr>) (reservations s)\<rparr>"
  note same = map_update_same [OF Some, where f = res_peer_id and r' = "r\<lparr>res_status := Active\<rparr>"]
  have "core_inv s \<Longrightarrow> core_inv ?s"
    using same by (auto simp: core_inv_def fresh_listener_ids_def reserved_peers_def)
  moreover have "edge_step s ?s" by (rule requests_edge_step) (simp_all add: requests_ext_same)
  ultimately have "good s ?s"
    by (auto simp: good_def autorelay_inv_def previous_inv_def static_inv_def)
  from good_trans [OF this good_trans [OF forget_previous_relay_good clear_failure_good]] Some
  show ?thesis by (simp add: on_new_listen_addr_def)
qed

lemma on_dial_failure_good: "good_result env s (on_dial_failure env mp c s)"
proof -
  have "good s (s\<lparr>pending_static_dials := d\<rparr>)" "good s (s\<lparr>pending_static_dials := d, static_dial_cooldowns := m\<rparr>)" for d m
    by (rule good_frame; simp add: requests_ext_same)+
  then show ?thesis
    by (auto simp: on_dial_failure_def Let_def good_result_def now_plus_def cooldowns_fit_def split: option.split)
qed

lemma external_addresses_good: "good s (s\<lparr>external_addresses := a\<rparr>)"
  by (rule good_frame) (simp_all add: requests_ext_same)

lemma on_swarm_event_good:
  assumes "autorelay_inv s"
  shows "good_result env s (on_swarm_event env ev s)"
proof -
  obtain addrs ch where ext: "external_on_swarm_event env ev (external_addresses s) = (addrs, ch)"
    by (cases "external_on_swarm_event env ev (external_addresses s)")
  let ?s0 = "s\<lparr>external_addresses := addrs\<rparr>"
  have g0: "good s ?s0" by (rule external_addresses_good)
  from determine_status_good [OF good_inv [OF g0 assms], of env] obtain s' where
    "determine_status_from_external_addresses env ?s0 = Some s'" "good ?s0 s'" by blast
  with g0 obtain s1 where s1: "(if auto_status_change ?s0 \<and> ch
      then determine_status_from_external_addresses env ?s0 else Some ?s0) = Some s1" "good s s1"
    by (cases "auto_status_change ?s0 \<and> ch") (auto intro: good_trans)
  have inv: "autorelay_inv s1" using s1(2) assms by (rule good_inv)
  show ?thesis
  proof (rule good_result_trans [OF s1(2)], cases ev)
    case (ListenerError lid)
    with disable_reservation_good [OF inv, of env lid True] s1 ext
    show "good_result env s1 (on_swarm_event env ev s)" by (simp add: on_swarm_event_def Let_def)
  next
    case (ListenerClosed lid b)
    with disable_reservation_good [OF inv, of env lid b] s1 ext
    show "good_result env s1 (on_swarm_event env ev s)" by (simp add: on_swarm_event_def Let_def)
  next
    case (DialFailure mp c)
    with on_dial_failure_good [of env s1 mp c] s1 ext
    show "good_result env s1 (on_swarm_event env ev s)" by (simp add: on_swarm_event_def Let_def)
  qed (use s1 ext in \<open>auto simp: on_swarm_event_def Let_def good_result_def
    intro: on_connection_established_good on_connection_closed_good on_address_change_good on_new_listen_addr_good\<close>)
qed

lemma remove_peer_listeners_good:
  "good s (fold (\<lambda>(lid, r) t. if res_peer_id r = p then push_event (RemoveListener lid) t else t) rs s)"
proof (induction rs arbitrary: s)
  case (Cons x rs)
  obtain lid r where x: "x = (lid, r)" by (cases x)
  have "good s (push_event (RemoveListener lid) s)"
    by (rule good_frame) (auto simp: requests_ext_def)
  with Cons x show ?case by (auto intro: good_trans)
qed simp

lemma on_connection_handler_event_good:
  assumes "autorelay_inv s"
  shows "\<exists>s'. on_connection_handler_event env p c ev s = Some s' \<and> good s s'"
proof (cases "map_of (connections s) (p, c)")
  case None
  then show ?thesis by (simp add: on_connection_handler_event_def)
next
  case (Some info)
  let ?upd = "\<lambda>st. s\<lparr>connections := AList.update (p, c) (info\<lparr>conn_relay_status := st\<rparr>) (connections s)\<rparr>"
  have upd: "good s (?upd st)" for st by (rule good_connections) simp
  show ?thesis
  proof (cases ev)
    case OutSupported
    from meet_after [OF upd [of Supported] assms, of env] obtain s1 where
      "meet_reservation_target env (?upd Supported) = Some s1" "good s s1" by blast
    with Some OutSupported show ?thesis
      by (auto simp: on_connection_handler_event_def intro: good_trans update_relay_availability_good)
  next
    case OutUnsupported
    with Some upd [of NotSupported] show ?thesis
      by (auto simp: on_connection_handler_event_def Let_def
          intro!: good_trans [OF _ update_relay_availability_good]
          intro: good_trans remove_peer_listeners_good)
  qed
qed

end
