(* ===== verification/Autorelay_Run.thy ===== *)
theory Autorelay_Run
  imports Autorelay_Invariants
begin

section \<open>Polling and whole runs of the relay behaviour\<close>

text \<open>
  The poll loop ends after at most two clock readings per cooldown entry and one more. Runs are
  sequences of calls (swarm events, handler events, public operations, polls) in any order; the
  history holds what polls have handed out. The invariant and the edge-triggered notifications
  hold for every run.
\<close>

subsection \<open>The poll loop\<close>

lemma run_due_dials_good: "good s (run_due_dials env ps s)"
proof (induction ps arbitrary: s)
  case (Cons p ps)
  have "good s (s\<lparr>static_dial_cooldowns := AList.delete p (static_dial_cooldowns s)\<rparr>)"
    by (rule good_frame) (simp_all add: requests_ext_same)
  from good_trans [OF this good_trans [OF redial_static_relay_good Cons]] show ?case by simp
qed simp

lemma redial_cooldowns [simp]:
  "reservation_cooldowns (redial_static_relay env p s) = reservation_cooldowns s"
  "static_dial_cooldowns (redial_static_relay env p s) = static_dial_cooldowns s"
  by (auto simp: redial_static_relay_def queue_static_dial_def Let_def split: option.split)

lemma run_due_dials_cooldowns:
  "reservation_cooldowns (run_due_dials env ps s) = reservation_cooldowns s \<and>
   length (static_dial_cooldowns (run_due_dials env ps s)) \<le> length (static_dial_cooldowns s)"
proof (induction ps arbitrary: s)
  case (Cons p ps)
  let ?s = "s\<lparr>static_dial_cooldowns := AList.delete p (static_dial_cooldowns s)\<rparr>"
  from Cons [of "redial_static_relay env p ?s"] length_delete_le' [of p "static_dial_cooldowns s"]
  show ?case by (auto intro: le_trans)
qed simp

lemma run_due_dials_less:
  assumes "p \<in> fst ` set (static_dial_cooldowns s)"
  shows "length (static_dial_cooldowns (run_due_dials env (p # ps) s)) < length (static_dial_cooldowns s)"
proof -
  let ?s = "s\<lparr>static_dial_cooldowns := AList.delete p (static_dial_cooldowns s)\<rparr>"
  have "length (AList.delete p (static_dial_cooldowns s)) < length (static_dial_cooldowns s)"
    using assms by (auto simp: AList.delete_eq intro!: length_filter_less)
  moreover have "length (static_dial_cooldowns (run_due_dials env ps (redial_static_relay env p ?s)))
      \<le> length (AList.delete p (static_dial_cooldowns s))"
    using run_due_dials_cooldowns [of env ps "redial_static_relay env p ?s"] by simp
  ultimately show ?thesis by simp
qed

definition cooldown_entries :: "autorelay \<Rightarrow> nat" where
  "cooldown_entries s = length (reservation_cooldowns s) + length (static_dial_cooldowns s)"

lemma retain_shorter:
  "list_ex (\<lambda>d. d \<le> t) (al_values m) \<Longrightarrow> length (retain (\<lambda>_ d. t < d) m) < length (m :: ('k, nat) alist)"
  by (fastforce simp: retain_def list_ex_iff intro!: length_filter_less)

lemma retain_le: "length (retain P m) \<le> length m"
  by (simp add: retain_def)

lemma min_deadline_in: "min_deadline ds = Some d \<Longrightarrow> d \<in> set ds"
proof -
  have "fold min xs x \<in> set (x # xs)" for xs and x :: nat
  proof (induction xs arbitrary: x)
    case (Cons a xs)
    from Cons [of "min a x"] show ?case by (auto simp: min_def split: if_splits)
  qed simp
  then show "min_deadline ds = Some d \<Longrightarrow> d \<in> set ds"
    by (auto simp: min_deadline_def split: list.splits)
qed

abbreviation deadlines :: "autorelay \<Rightarrow> instant list" where
  "deadlines s \<equiv> al_values (reservation_cooldowns s) @ al_values (static_dial_cooldowns s)"

lemma poll_cooldowns_due:
  assumes inv: "autorelay_inv s" and due: "d \<in> set (deadlines s)" "d \<le> now env"
  shows "\<exists>s'. poll_cooldowns env timer_ready s = Some (s', True) \<and> good s s' \<and> cooldown_entries s' < cooldown_entries s"
proof -
  let ?exp = "list_ex (\<lambda>deadline. deadline \<le> now env) (al_values (reservation_cooldowns s))"
  let ?due = "map fst (filter (\<lambda>(_, deadline). deadline \<le> now env) (static_dial_cooldowns s))"
  let ?s1 = "s\<lparr>reservation_cooldowns := retain (\<lambda>_ deadline. now env < deadline) (reservation_cooldowns s)\<rparr>"
  let ?s3 = "?s1\<lparr>failure_counts := retain (\<lambda>peer _. contains_key (reservation_cooldowns ?s1) peer
       \<or> list_ex (\<lambda>(pid, _). pid = peer) (keys (connections ?s1))) (failure_counts ?s1),
       cooldown_wakeup := None\<rparr>"
  let ?s4 = "run_due_dials env ?due ?s3"
  have True: "?exp \<or> ?due \<noteq> []" using due by (auto simp: list_ex_iff filter_empty_conv)
  have "good s ?s3" by (rule good_frame) (simp_all add: requests_ext_same)
  then have s4: "good s ?s4" by (rule good_trans) (rule run_due_dials_good)
  have fewer: "cooldown_entries ?s4 < cooldown_entries s"
  proof (cases ?due)
    case Nil
    with True have "length (reservation_cooldowns ?s3) < length (reservation_cooldowns s)"
      by (simp add: retain_shorter)
    with Nil show ?thesis by (simp add: cooldown_entries_def)
  next
    case (Cons p ps)
    then have "p \<in> set ?due" by simp
    then have "p \<in> fst ` set (static_dial_cooldowns ?s3)" by auto
    from run_due_dials_less [OF this, of env ps] Cons
    have "length (static_dial_cooldowns ?s4) < length (static_dial_cooldowns s)" by simp
    moreover have "length (reservation_cooldowns ?s4) \<le> length (reservation_cooldowns s)"
      using run_due_dials_cooldowns [of env ?due ?s3] by (simp add: retain_le)
    ultimately show ?thesis by (simp add: cooldown_entries_def)
  qed
  have inv4: "core_inv ?s4" using good_inv [OF s4 inv] by (simp add: autorelay_inv_def)
  from meet_after [OF s4 inv, of env] obtain s5 where
    s5: "meet_reservation_target env ?s4 = Some s5" "good s s5" by blast
  have "cooldown_entries s5 = cooldown_entries ?s4"
    using meet_reservation_target_Some(2) [OF inv4 s5(1)] by (simp add: cooldown_entries_def target_frame_def)
  moreover have "poll_cooldowns env timer_ready s =
      do { s5 \<leftarrow> (if ?exp then meet_reservation_target env ?s4 else Some ?s4); Some (s5, True) }"
    by (simp only: poll_cooldowns_def Let_def True if_True)
  ultimately show ?thesis using s4 s5 fewer by (cases ?exp) (simp_all only: if_True if_False bind.bind_lunit, auto)
qed

lemma poll_cooldowns_idle:
  assumes "\<And>d. d \<in> set (deadlines s) \<Longrightarrow> \<not> d \<le> now env"
  obtains w again where "poll_cooldowns env timer_ready s = Some (s\<lparr>cooldown_wakeup := w\<rparr>, again)"
    and "again \<Longrightarrow> \<exists>d \<in> set (deadlines s). timer_ready d"
proof -
  have idle: "\<not> list_ex (\<lambda>deadline. deadline \<le> now env) (al_values (reservation_cooldowns s))"
    "map fst (filter (\<lambda>(_, deadline). deadline \<le> now env) (static_dial_cooldowns s)) = []"
    using assms by (force simp: list_ex_iff filter_empty_conv)+
  show ?thesis
  proof (cases "min_deadline (deadlines s)")
    case None
    with idle show ?thesis by (intro that [of None False]) (simp_all add: poll_cooldowns_def Let_def)
  next
    case (Some d)
    then have "d \<in> set (deadlines s)" by (rule min_deadline_in)
    with idle Some show ?thesis
      by (intro that [of "Some d" "timer_ready d"]) (auto simp: poll_cooldowns_def Let_def)
  qed
qed

lemma cooldown_wakeup_good: "good s (s\<lparr>cooldown_wakeup := w\<rparr>)"
  by (rule good_frame) (simp_all add: requests_ext_same)

lemma poll_cooldowns_good:
  assumes "autorelay_inv s"
  shows "\<exists>s' again. poll_cooldowns env timer_ready s = Some (s', again) \<and> good s s' \<and> (\<not> again \<longrightarrow> events s' = events s)"
proof (cases "\<exists>d \<in> set (deadlines s). d \<le> now env")
  case True
  with poll_cooldowns_due [OF assms] show ?thesis by blast
next
  case False
  from poll_cooldowns_idle [of s env timer_ready] False obtain w again where
    "poll_cooldowns env timer_ready s = Some (s\<lparr>cooldown_wakeup := w\<rparr>, again)" by blast
  with cooldown_wakeup_good show ?thesis by auto
qed

text \<open>What a poll that returns has done: it handed out the oldest event, or stored the waker.\<close>

definition polled :: "autorelay \<Rightarrow> nat \<Rightarrow> autorelay \<times> to_swarm poll_result \<Rightarrow> bool" where
  "polled s cx r \<longleftrightarrow> (\<exists>t. good s t \<and>
    (case r of (s', Ready ev) \<Rightarrow> \<exists>rest. events t = ev # rest \<and> s' = t\<lparr>events := rest\<rparr>
     | (s', Pending) \<Rightarrow> events t = [] \<and> s' = t\<lparr>waker := Some cx\<rparr>))"

lemma polled_trans: "good s t \<Longrightarrow> polled t cx r \<Longrightarrow> polled s cx r"
  by (auto simp: polled_def intro: good_trans)

lemma poll_ok:
  assumes "autorelay_inv s" and "poll readings cx s = Some r"
  shows "polled s cx r"
  using assms
proof (induction readings arbitrary: s)
  case Nil
  then show ?case by (cases "events s") (auto simp: poll.simps polled_def intro!: exI [of _ s])
next
  case (Cons x readings)
  obtain env tr where x: "x = (env, tr)" by (cases x)
  show ?case
  proof (cases "events s")
    case (Cons ev rest)
    with \<open>poll (x # readings) cx s = Some r\<close> show ?thesis
      by (auto simp: poll.simps polled_def intro!: exI [of _ s])
  next
    case Nil
    from poll_cooldowns_good [OF Cons.prems(1)] obtain s1 again where
      s1: "poll_cooldowns env tr s = Some (s1, again)" "good s s1" "\<not> again \<Longrightarrow> events s1 = events s" by blast
    have p: "(if again then poll readings cx s1 else Some (s1\<lparr>waker := Some cx\<rparr>, Pending)) = Some r"
      using Cons.prems(2) Nil s1(1) by (simp add: x poll.simps [of "(env, tr) # readings" cx s])
    show ?thesis
    proof (cases again)
      case True
      from Cons.IH [OF good_inv [OF s1(2) Cons.prems(1)]] p True show ?thesis
        by (auto intro: polled_trans [OF s1(2)])
    next
      case False
      with p s1(3) Nil have "r = (s1\<lparr>waker := Some cx\<rparr>, Pending)" "events s1 = []" by auto
      with s1(2) show ?thesis by (auto simp: polled_def)
    qed
  qed
qed

text \<open>
  What is relied on of clock and timer: a timer that is ready has reached its deadline by the next reading of the clock.
  It may fire between the reading of an iteration and its own poll.
\<close>

fun timer_law :: "(autorelay_env \<times> (instant \<Rightarrow> bool)) list \<Rightarrow> bool" where
  "timer_law ((env, timer_ready) # (env', timer_ready') # rest) \<longleftrightarrow>
     (\<forall>d. timer_ready d \<longrightarrow> d \<le> now env') \<and> timer_law ((env', timer_ready') # rest)"
| "timer_law _ \<longleftrightarrow> True"

lemma timer_law_tl: "timer_law (x # readings) \<Longrightarrow> timer_law readings"
  by (cases "x # readings" rule: timer_law.cases) auto

lemma poll_again:
  assumes "events s = []" and "poll_cooldowns env tr s = Some (s1, True)"
  shows "poll ((env, tr) # readings) cx s = poll readings cx s1"
  using assms by (simp add: poll.simps [of "(env, tr) # readings" cx s])

text \<open>Two readings suffice for each entry: one that finds the timer ready, and one that removes the entry.\<close>

lemma poll_returns:
  assumes "autorelay_inv s" and "timer_law readings" and "2 * cooldown_entries s < length readings"
  shows "\<exists>r. poll readings cx s = Some r"
  using assms
proof (induction "length readings" arbitrary: readings s rule: less_induct)
  case less
  then obtain env tr rest where r: "readings = (env, tr) # rest" by (cases readings) auto
  have removal: "\<exists>r. poll ((e, q) # l) cx u = Some r"
    if "events u = []" "autorelay_inv u" "d \<in> set (deadlines u)" "d \<le> now e" "timer_law l"
      "length l < length readings" "2 * cooldown_entries u \<le> Suc (length l)" for e q l u d
  proof -
    from poll_cooldowns_due [OF that(2-4), of q] obtain u1 where
      u1: "poll_cooldowns e q u = Some (u1, True)" "good u u1" "cooldown_entries u1 < cooldown_entries u" by blast
    from less.hyps [OF that(6) good_inv [OF u1(2) that(2)] that(5)] u1(3) that(7)
    show ?thesis by (simp add: poll_again [OF that(1) u1(1)])
  qed
  show ?case
  proof (cases "events s = [] \<and> (\<forall>d \<in> set (deadlines s). \<not> d \<le> now env)")
    case False
    show ?thesis
    proof (cases "events s")
      case Nil
      with False obtain d where d: "d \<in> set (deadlines s)" "d \<le> now env" by blast
      have "timer_law rest" using less.prems(2) timer_law_tl by (simp add: r)
      from removal [OF Nil less.prems(1) d this, of tr] less.prems(3) show ?thesis by (simp add: r)
    qed (simp add: poll.simps)
  next
    case True
    with poll_cooldowns_idle [of s env tr] obtain w again where
      i: "poll_cooldowns env tr s = Some (s\<lparr>cooldown_wakeup := w\<rparr>, again)"
      "again \<Longrightarrow> \<exists>d \<in> set (deadlines s). tr d" by metis
    show ?thesis
    proof (cases again)
      case False
      with True i(1) show ?thesis by (simp add: r poll.simps [of "(env, tr) # rest" cx s])
    next
      case again: True
      with i(2) obtain d where d: "d \<in> set (deadlines s)" "tr d" by blast
      then have "0 < cooldown_entries s" by (auto simp: cooldown_entries_def)
      with less.prems(3) r obtain env' tr' rest' where r': "rest = (env', tr') # rest'" by (cases rest) auto
      have "d \<le> now env'" "timer_law rest'" using less.prems(2) d(2) timer_law_tl by (auto simp: r r')
      with removal [of "s\<lparr>cooldown_wakeup := w\<rparr>" d env' rest' tr'] True d(1) less.prems(1,3)
        good_inv [OF cooldown_wakeup_good]
      have "\<exists>r. poll rest cx (s\<lparr>cooldown_wakeup := w\<rparr>) = Some r"
        by (auto simp: r r' cooldown_entries_def)
      with True i(1) again show ?thesis by (simp add: r poll_again)
    qed
  qed
qed

subsection \<open>Runs\<close>

text \<open>
  A configuration is the behaviour with the history of events its polls have returned. A poll may see any
  clock readings and timers with which its loop ends. \<open>other_ids\<close> is the rest of the process drawing identifiers from libp2p's counters.
\<close>

inductive ar_step :: "autorelay \<times> to_swarm list \<Rightarrow> autorelay \<times> to_swarm list \<Rightarrow> bool" where
  swarm_event: "on_swarm_event env ev s = Some s' \<Longrightarrow> ar_step (s, h) (s', h)"
| handler_event: "on_connection_handler_event env p c out s = Some s' \<Longrightarrow> ar_step (s, h) (s', h)"
| call_set_status: "set_status env st s = Some s' \<Longrightarrow> ar_step (s, h) (s', h)"
| call_add_static_relay: "add_static_relay env p a s = Some (s', b) \<Longrightarrow> ar_step (s, h) (s', h)"
| call_remove_static_relay: "remove_static_relay p s = (s', b) \<Longrightarrow> ar_step (s, h) (s', h)"
| call_remove_all_reservations: "ar_step (s, h) (remove_all_reservations s, h)"
| poll_ready: "poll readings cx s = Some (s', Ready ev) \<Longrightarrow> ar_step (s, h) (s', h @ [ev])"
| poll_pending: "poll readings cx s = Some (s', Pending) \<Longrightarrow> ar_step (s, h) (s', h)"
| other_ids: "next_connection_id s \<le> n \<Longrightarrow> next_listener_id s \<le> m \<Longrightarrow>
    ar_step (s, h) (s\<lparr>next_connection_id := n, next_listener_id := m\<rparr>, h)"

inductive ar_reachable :: "config \<Rightarrow> autorelay \<times> to_swarm list \<Rightarrow> bool" for cfg where
  start: "new_with_config env cfg = Some s \<Longrightarrow> ar_reachable cfg (s, [])"
| step: "ar_reachable cfg x \<Longrightarrow> ar_step x y \<Longrightarrow> ar_reachable cfg y"

definition emitted :: "autorelay \<times> to_swarm list \<Rightarrow> to_swarm list" where
  "emitted x = snd x @ events (fst x)"

definition good_run :: "autorelay \<times> to_swarm list \<Rightarrow> autorelay \<times> to_swarm list \<Rightarrow> bool" where
  "good_run x y \<longleftrightarrow> autorelay_inv (fst y) \<and> config (fst y) = config (fst x)
     \<and> (\<exists>ext. emitted y = emitted x @ ext
          \<and> edge_ext obs_available (relays_available (fst x)) ext (relays_available (fst y))
          \<and> edge_ext obs_status (status (fst x)) ext (status (fst y)))"

lemma good_run_of_good:
  "good s s' \<Longrightarrow> autorelay_inv s \<Longrightarrow> good_run (s, h) (s', h)"
  by (auto simp: good_def good_run_def edge_step_def emitted_def)

lemma inv_events_waker:
  "autorelay_inv t \<Longrightarrow> autorelay_inv (t\<lparr>events := es\<rparr>)"
  "autorelay_inv t \<Longrightarrow> autorelay_inv (t\<lparr>waker := w\<rparr>)"
  "autorelay_inv t \<Longrightarrow> next_listener_id t \<le> m \<Longrightarrow>
     autorelay_inv (t\<lparr>next_connection_id := n, next_listener_id := m\<rparr>)"
  by (auto simp: autorelay_inv_def core_inv_def previous_inv_def static_inv_def
      fresh_listener_ids_def reserved_peers_def intro: less_le_trans)

lemma ar_step_good_run:
  assumes "ar_step x y" and "autorelay_inv (fst x)"
  shows "good_run x y"
  using assms
proof (induction rule: ar_step.induct)
  case (swarm_event env ev s s' h)
  then show ?case using on_swarm_event_good [of s env ev] by (auto simp: good_result_def intro: good_run_of_good)
next
  case (handler_event env p c out s s' h)
  then show ?case using on_connection_handler_event_good [of s env p c out] by (auto intro: good_run_of_good)
next
  case (call_set_status env st s s' h)
  then show ?case using set_status_good [of s env st] by (auto intro: good_run_of_good)
next
  case (call_add_static_relay env p a s s' b h)
  then show ?case using add_static_relay_good [of s env p a] by (auto intro: good_run_of_good)
next
  case (call_remove_static_relay p s s' b h)
  then show ?case using remove_static_relay_good [of s p] by (auto intro: good_run_of_good)
next
  case (call_remove_all_reservations s h)
  then show ?case by (auto intro: good_run_of_good remove_all_reservations_good)
next
  case (poll_ready readings cx s s' ev h)
  then obtain t rest where "good s t" "events t = ev # rest" "s' = t\<lparr>events := rest\<rparr>"
    using poll_ok [of s readings cx "(s', Ready ev)"] by (auto simp: polled_def)
  with poll_ready.prems show ?case
    by (auto simp: good_def good_run_def edge_step_def emitted_def intro: inv_events_waker)
next
  case (poll_pending readings cx s s' h)
  then obtain t where "good s t" "s' = t\<lparr>waker := Some cx\<rparr>"
    using poll_ok [of s readings cx "(s', Pending)"] by (auto simp: polled_def)
  with poll_pending.prems show ?case
    by (auto simp: good_def good_run_def edge_step_def emitted_def intro: inv_events_waker)
next
  case (other_ids s n m h)
  then show ?case
    by (auto simp: good_run_def emitted_def edge_ext_def intro: inv_events_waker)
qed

lemma autorelay_default_inv: "autorelay_inv (autorelay_default\<lparr>config := cfg\<rparr>)"
  by (simp add: autorelay_inv_def core_inv_def previous_inv_def static_inv_def
      fresh_listener_ids_def reserved_peers_def autorelay_default_def)

lemma new_with_config_good:
  "\<exists>s. new_with_config env cfg = Some s \<and>
     good (autorelay_default\<lparr>config := cfg\<lparr>cfg_static_relays := []\<rparr>\<rparr>) s"
  unfolding new_with_config_def by (rule add_static_relays_good [OF autorelay_default_inv])

text \<open>The contract of edge-triggered notifications, on the steps of the behaviour.\<close>

definition ar_sound_step :: "autorelay \<times> to_swarm list \<Rightarrow> autorelay \<times> to_swarm list \<Rightarrow> bool" where
  "ar_sound_step x y \<longleftrightarrow> autorelay_inv (fst x) \<and> ar_step x y"

interpretation avail: edge_log ar_sound_step "\<lambda>x. relays_available (fst x)" emitted obs_available
  by unfold_locales (auto simp: ar_sound_step_def good_run_def dest!: ar_step_good_run)

interpretation stat: edge_log ar_sound_step "\<lambda>x. status (fst x)" emitted obs_status
  by unfold_locales (auto simp: ar_sound_step_def good_run_def dest!: ar_step_good_run)

lemma ar_reachable_sound:
  assumes "ar_reachable cfg x"
  shows "autorelay_inv (fst x) \<and> config (fst x) = cfg\<lparr>cfg_static_relays := []\<rparr>
    \<and> ar_sound_step\<^sup>*\<^sup>* x x
    \<and> (\<exists>s env. new_with_config env cfg = Some s \<and> ar_sound_step\<^sup>*\<^sup>* (s, []) x)"
  using assms
proof (induction rule: ar_reachable.induct)
  case (start env s)
  with new_with_config_good [of env cfg] show ?case
    by (auto simp: good_def autorelay_default_inv)
next
  case (step x y)
  then have "good_run x y" "ar_sound_step x y"
    by (auto simp: ar_step_good_run ar_sound_step_def)
  with step show ?case by (auto simp: good_run_def intro: rtranclp.rtrancl_into_rtrancl)
qed

lemma new_with_config_edges:
  assumes "new_with_config env cfg = Some s"
  shows "edge_ext obs_available False (emitted (s, [])) (relays_available s)"
    and "edge_ext obs_status Enable (emitted (s, [])) (status s)"
  using new_with_config_good [of env cfg] assms
  by (auto simp: good_def edge_step_def emitted_def autorelay_default_def)

end
