(* ===== verification/Autorelay_Properties.thy ===== *)
theory Autorelay_Properties
  imports Autorelay_Run
begin

section \<open>What the relay behaviour guarantees\<close>

text \<open>
  The properties of \<^verbatim>\<open>src/src/behaviour/autorelay.rs\<close> stated over its runs and its operations, each
  with a concrete instance. The instances use a run with one relay: it connects, its handler reports
  support for the hop protocol, and a reservation is requested.
\<close>

subsection \<open>Exact effect of a selection round\<close>








lemma map_filter_simps' [simp]:
  "List.map_filter f [] = []"
  "List.map_filter f (x # xs) = (case f x of None \<Rightarrow> List.map_filter f xs | Some y \<Rightarrow> y # List.map_filter f xs)"
  "List.map_filter f (xs @ ys) = List.map_filter f xs @ List.map_filter f ys"
  by (simp_all add: List.map_filter_def split: option.split)









lemma unat_scale: "k \<le> 20 \<Longrightarrow> unat (push_bit k (1 :: u32)) = 2 ^ k"
proof -
  assume "k \<le> 20"
  then have "(2 :: nat) ^ k < 2 ^ 32" by (intro power_strict_increasing) simp_all
  moreover have "push_bit k (1 :: u32) = of_nat (2 ^ k)" by (simp add: push_bit_eq_mult)
  ultimately show ?thesis
    by (simp only: unsigned_of_nat take_bit_eq_mod) simp
qed

lemma unat_min_u32: "unat (min a b :: u32) = min (unat a) (unat b)"
  by (simp add: min_def word_le_nat_alt)

subsection \<open>A run with one relay\<close>

definition example_env :: autorelay_env where
  "example_env = \<lparr>now = 5, instant_limit = 2 ^ 63 * nanos_per_sec - 1, system_now = 0, with_p2p = (\<lambda>a p. case last a of P2p q \<Rightarrow> if q = p then Inr a else Inl a | _ \<Rightarrow> Inr (a @ [P2p p])),
     external_on_swarm_event = (\<lambda>ev addrs. case ev of
         ExternalAddrConfirmed a \<Rightarrow> (addrs @ [a], True) | _ \<Rightarrow> (addrs, False))\<rparr>"

definition example_point :: connected_point where
  "example_point = \<lparr>cp_is_relayed = False, cp_remote_address = [Memory 1]\<rparr>"

definition example_connected :: autorelay where
  "example_connected = autorelay_default\<lparr>connections :=
     [((PeerId 1, ConnectionId 1), \<lparr>endpoint = example_point, conn_relay_status = RelayPending\<rparr>)]\<rparr>"

definition example_reserved :: autorelay where
  "example_reserved = autorelay_default\<lparr>
     events := [ListenOn \<lparr>listen_address = [Memory 1, P2p (PeerId 1), P2pCircuit],
                          listen_listener_id = ListenerId 0\<rparr>, GenerateEvent RelaysAvailable],
     connections := [((PeerId 1, ConnectionId 1),
        \<lparr>endpoint = example_point, conn_relay_status = Supported\<rparr>)],
     reservations := [(ListenerId 0, \<lparr>res_peer_id = PeerId 1,
        res_selected_connection_id = ConnectionId 1, res_address = [Memory 1],
        res_status = ReservationPending\<rparr>)],
     relays_available := True, next_listener_id := 1\<rparr>"

lemmas autorelay_eval = autorelay_default_def config_default_def example_env_def example_point_def
  example_connected_def example_reserved_def on_swarm_event_def on_connection_established_def
  disqualify_connection_if_relayed_def has_direct_connection_def connection_is_relayed_def
  on_connection_handler_event_def meet_reservation_target_def collect_candidates_def
  consider_candidate_def covered_peers_def reservation_in_cooldown_def in_cooldown_def
  bucket_min_def reservation_budget_def make_room_for_static_relays_def connection_addr_def
  select_connection_for_reservation_def update_relay_availability_def Let_def

lemma example_connect:
  "on_swarm_event example_env (ConnectionEstablished (PeerId 1) (ConnectionId 1) example_point)
     autorelay_default = Some example_connected"
  by (simp add: autorelay_eval)

lemma example_supported:
  "on_connection_handler_event example_env (PeerId 1) (ConnectionId 1) OutSupported example_connected
     = Some example_reserved"
  by (simp add: autorelay_eval)

lemma example_start: "new_with_config example_env config_default = Some autorelay_default"
  by (simp add: new_with_config_def config_default_def autorelay_default_def)

lemma example_reachable: "ar_reachable config_default (example_reserved, [])"
proof -
  have "ar_reachable config_default (autorelay_default, [])"
    using example_start by (rule ar_reachable.start)
  then have "ar_reachable config_default (example_connected, [])"
    by (rule ar_reachable.step) (rule ar_step.swarm_event [OF example_connect])
  then show ?thesis
    by (rule ar_reachable.step) (rule ar_step.handler_event [OF example_supported])
qed

lemma example_inv: "autorelay_inv example_reserved"
  using ar_reachable_sound [OF example_reachable] by simp

subsection \<open>Properties\<close>

text \<open>
  C12: no call panics while the clock can represent the deadlines of cooldowns. In every state a run can reach, each swarm event, each
  handler event, each public operation and each poll returns, if the current time plus the longer of the two configured
  cooldowns is within the range of \<^verbatim>\<open>Instant\<close>: the \<^verbatim>\<open>expect("connection is present")\<close> and the \<^verbatim>\<open>debug_assert\<close> on the
  number of covered peers never fire, and no sum of an instant and a cooldown overflows. (A poll makes as many clock
  readings as it needs, at most two per cooldown entry and one more.)
\<close>

theorem autorelay_never_panics:
  assumes "ar_reachable cfg (s, h)" and "cooldowns_fit env cfg"
    and "timer_law readings" and "2 * cooldown_entries s < length readings"
  shows "on_swarm_event env ev s \<noteq> None \<and> on_connection_handler_event env p c out s \<noteq> None
    \<and> set_status env st s \<noteq> None \<and> add_static_relay env q a s \<noteq> None \<and> poll readings cx s \<noteq> None"
proof -
  from ar_reachable_sound [OF assms(1)] have inv: "autorelay_inv s" and "config s = cfg\<lparr>cfg_static_relays := []\<rparr>" by simp_all
  with assms(2) have "cooldowns_fit env (config s)" by (simp add: cooldowns_fit_def)
  then show ?thesis
    using on_swarm_event_good [OF inv, of env ev] on_connection_handler_event_good [OF inv, of env p c out]
      set_status_good [OF inv, of env st] add_static_relay_good [OF inv, of env q a] poll_returns [OF inv assms(3,4), of cx]
    by (auto simp: good_result_def split: option.splits)
qed

lemma example_entries: "cooldown_entries example_reserved = 0"
  by (simp add: cooldown_entries_def example_reserved_def autorelay_default_def)

theorem autorelay_never_panics_witness:
  "on_swarm_event example_env (ListenerError (ListenerId 0)) example_reserved \<noteq> None
   \<and> poll [(example_env, \<lambda>d. d \<le> 6)] 7 example_reserved \<noteq> None"
proof -
  have "cooldowns_fit example_env config_default"
    by (simp add: cooldowns_fit_def example_env_def config_default_def nanos_per_sec_def)
  moreover have "timer_law [(example_env, \<lambda>d. d \<le> 6)]" "2 * cooldown_entries example_reserved < length [(example_env, \<lambda>d. d \<le> (6 :: nat))]"
    by (simp_all add: example_entries)
  ultimately show ?thesis using autorelay_never_panics [OF example_reachable] by blast
qed

text \<open>
  The condition is needed: with the largest duration as cooldown the first failed reservation panics.
\<close>

lemma huge_cooldown_panics:
  "on_swarm_event example_env (ListenerError (ListenerId 0))
     (example_reserved\<lparr>config := set_failure_cooldown (set_failure_cooldown_max config_default duration_max) duration_max\<rparr>) = None"
  by (simp add: autorelay_eval disable_reservation_def remove_reservation_def record_failure_def or_default_def now_plus_def
      duration_saturating_mul_def duration_max_def nanos_per_sec_def u32_saturating_add_def u32_saturating_sub_def set_failure_cooldown_def set_failure_cooldown_max_def)

text \<open>
  C3: the reservation table is bounded by the configuration. In every reachable state the behaviour
  holds at most \<^verbatim>\<open>max_reservations\<close> reservations, at most one per peer, and an eviction in progress
  names one of them.
\<close>

theorem autorelay_reservations_bounded:
  assumes "ar_reachable cfg (s, h)"
  shows "length (reservations s) \<le> unat (max_reservations cfg)
    \<and> distinct (map (\<lambda>(_, r). res_peer_id r) (reservations s))
    \<and> (\<forall>lid. pending_eviction s = Some lid \<longrightarrow> lid \<in> fst ` set (reservations s))"
proof -
  from ar_reachable_sound [OF assms] have "core_inv s" "config s = cfg\<lparr>cfg_static_relays := []\<rparr>"
    by (simp_all add: autorelay_inv_def)
  then show ?thesis by (simp add: core_inv_def reserved_peers_def)
qed

theorem autorelay_reservations_bounded_witness:
  "length (reservations example_reserved) \<le> unat (max_reservations config_default)"
  using autorelay_reservations_bounded [OF example_reachable] by blast

text \<open>
  C27: relay availability is reported on edges only. Over a whole run, delivered and queued events
  together, the notifications \<^verbatim>\<open>RelaysAvailable\<close> and \<^verbatim>\<open>NoRelaysAvailable\<close> alternate, the first one is
  \<^verbatim>\<open>RelaysAvailable\<close>, and the last one agrees with the field \<open>relays_available\<close>.
\<close>

theorem autorelay_availability_alternates:
  assumes "ar_reachable cfg (s, h)"
  shows "alternates False (observed obs_available (h @ events s))
    \<and> final False (observed obs_available (h @ events s)) = relays_available s"
proof -
  from ar_reachable_sound [OF assms] obtain s0 env where
    s0: "new_with_config env cfg = Some s0" and run: "ar_sound_step\<^sup>*\<^sup>* (s0, []) (s, h)" by auto
  from avail.run_edge [OF run] obtain ext where
    "emitted (s, h) = emitted (s0, []) @ ext"
    "edge_ext obs_available (relays_available s0) ext (relays_available s)" by auto
  with edge_ext_trans [OF new_with_config_edges(1) [OF s0]]
  have "edge_ext obs_available False (emitted (s, h)) (relays_available s)" by simp
  then show ?thesis by (simp add: edge_ext_def emitted_def)
qed

theorem autorelay_availability_alternates_witness:
  "final False (observed obs_available ([] @ events example_reserved)) = True"
  using autorelay_availability_alternates [OF example_reachable]
  by (simp add: example_reserved_def)

text \<open>
  Status changes are reported on edges only. Over a whole run the values of the
  \<^verbatim>\<open>StatusChanged\<close> notifications alternate, the first one is \<^verbatim>\<open>Disable\<close>, and the last one is the current
  status.
\<close>

theorem autorelay_status_alternates:
  assumes "ar_reachable cfg (s, h)"
  shows "alternates Enable (observed obs_status (h @ events s))
    \<and> final Enable (observed obs_status (h @ events s)) = status s"
proof -
  from ar_reachable_sound [OF assms] obtain s0 env where
    s0: "new_with_config env cfg = Some s0" and run: "ar_sound_step\<^sup>*\<^sup>* (s0, []) (s, h)" by auto
  from stat.run_edge [OF run] obtain ext where
    "emitted (s, h) = emitted (s0, []) @ ext"
    "edge_ext obs_status (status s0) ext (status s)" by auto
  with edge_ext_trans [OF new_with_config_edges(2) [OF s0]]
  have "edge_ext obs_status Enable (emitted (s, h)) (status s)" by simp
  then show ?thesis by (simp add: edge_ext_def emitted_def)
qed

theorem autorelay_status_alternates_witness:
  "final Enable (observed obs_status ([] @ events example_reserved)) = Enable"
  using autorelay_status_alternates [OF example_reachable]
  by (simp add: example_reserved_def)

text \<open>
  The memory of previous relays is bounded and static relays stay direct. In every reachable
  state \<open>previous_relays\<close> has at most \<^verbatim>\<open>max_previous_relays\<close> entries with distinct peers, and every
  static relay has a non-empty list of distinct addresses, none of them through another relay.
\<close>

theorem autorelay_tables_wellformed:
  assumes "ar_reachable cfg (s, h)"
  shows "length (previous_relays s) \<le> max_previous_relays cfg
    \<and> distinct (map fst (previous_relays s))
    \<and> (\<forall>(p, addrs) \<in> set (static_relays s).
          addrs \<noteq> [] \<and> distinct addrs \<and> (\<forall>a \<in> set addrs. \<not> is_relayed a))"
proof -
  from ar_reachable_sound [OF assms] have
    "previous_inv s" "static_inv s" "config s = cfg\<lparr>cfg_static_relays := []\<rparr>"
    by (simp_all add: autorelay_inv_def)
  then show ?thesis by (simp add: previous_inv_def static_inv_def)
qed

theorem autorelay_tables_wellformed_witness:
  "length (previous_relays example_reserved) \<le> max_previous_relays config_default"
  using autorelay_tables_wellformed [OF example_reachable] by blast


text \<open>
  An instance with room for two reservations and three eligible relays: the static one (peer 3) is taken first, then peer 1, whose address
  ends in the identifier of another peer and is refused; peer 2 is not reached.
\<close>

definition example_connection :: "multiaddr \<Rightarrow> connection" where
  "example_connection a = \<lparr>endpoint = \<lparr>cp_is_relayed = False, cp_remote_address = a\<rparr>, conn_relay_status = Supported\<rparr>"

definition example_three_relays :: autorelay where
  "example_three_relays = autorelay_default\<lparr>
     connections := [((PeerId 2, ConnectionId 2), example_connection [Memory 2]),
                     ((PeerId 3, ConnectionId 4), example_connection [Memory 3]),
                     ((PeerId 1, ConnectionId 1), example_connection [Memory 1, P2p (PeerId 9)]),
                     ((PeerId 3, ConnectionId 3), example_connection [Memory 3])],
     static_relays := [(PeerId 3, [[Memory 3]])]\<rparr>"




text \<open>
  C39: the choice does not depend on the iteration order of the connection table. Two tables with the
  same entries, in any order, give the same candidate maps, hence the same selection.
\<close>

theorem collect_candidates_order_independent:
  assumes "set cs = set (connections s)"
  shows "collect_candidates env (s\<lparr>connections := cs\<rparr>) = collect_candidates env s"
proof -
  obtain st ca where cand: "collect_candidates env s = (st, ca)" by (cases "collect_candidates env s")
  obtain st' ca' where cand': "collect_candidates env (s\<lparr>connections := cs\<rparr>) = (st', ca')"
    by (cases "collect_candidates env (s\<lparr>connections := cs\<rparr>)")
  have "eligible env (s\<lparr>connections := cs\<rparr>) b = eligible env s b" for b
    using assms by (simp add: eligible_in_def covered_peers_def reservation_in_cooldown_def)
  with collect_candidates_represents [OF cand] collect_candidates_represents [OF cand']
  have "st' = st" "ca' = ca" by (auto intro: represents_unique)
  with cand cand' show ?thesis by simp
qed

theorem collect_candidates_order_independent_witness:
  "collect_candidates example_env (example_three_relays\<lparr>connections := rev (connections example_three_relays)\<rparr>)
     = collect_candidates example_env example_three_relays"
  by (rule collect_candidates_order_independent) simp

text \<open>
  C20: failures back off exponentially and never overflow. The cooldown after the next failure of a
  peer with \<open>n\<close> recorded failures is \<^verbatim>\<open>failure_cooldown\<close> times two to the power of \<open>n\<close> (at most
  twenty), cut at the largest duration and at \<^verbatim>\<open>failure_cooldown_max\<close>; the counter of attempts goes up by
  one and saturates.
\<close>

theorem record_failure_backoff:
  "snd (record_failure p s) =
     min (min (failure_cooldown (config s) * 2 ^ min (unat (or_default 0 p (failure_counts s))) 20)
              duration_max)
         (failure_cooldown_max (config s))
   \<and> map_option unat (map_of (failure_counts (fst (record_failure p s))) p)
       = Some (min (Suc (unat (or_default 0 p (failure_counts s)))) (2 ^ 32 - 1))"
proof -
  let ?n = "or_default 0 p (failure_counts s)"
  let ?e = "min (u32_saturating_sub (u32_saturating_add ?n 1) 1) 20"
  have "unat ?n < 2 ^ 32" using unsigned_less [where w = ?n and ?'a = nat] by simp
  then have e: "unat ?e = min (unat ?n) 20"
    by (simp add: unat_min_u32 unat_saturating_sub_1 unat_saturating_add_1)
  then have "unat (push_bit (unat ?e) (1 :: u32)) = 2 ^ min (unat ?n) 20"
    using unat_scale [of "min (unat ?n) 20"] by simp
  then show ?thesis
    by (simp add: record_failure_def Let_def duration_saturating_mul_def unat_saturating_add_1)
qed

text \<open>
  C28: polling always returns. If a timer that is ready has reached its deadline by the next reading of the clock, the loop of \<^verbatim>\<open>poll\<close>
  ends after at most two clock readings per cooldown entry and one more, with the oldest queued event or with the waker stored.
\<close>

theorem autorelay_poll_terminates:
  assumes "ar_reachable cfg (s, h)" and "timer_law readings" and "2 * cooldown_entries s < length readings"
  shows "\<exists>s' r. poll readings cx s = Some (s', r) \<and>
    (case r of Ready ev \<Rightarrow> events s \<noteq> [] \<longrightarrow> ev = hd (events s)
     | Pending \<Rightarrow> events s = [] \<and> events s' = [] \<and> waker s' = Some cx)"
proof -
  from ar_reachable_sound [OF assms(1)] have inv: "autorelay_inv s" by simp
  from poll_returns [OF inv assms(2,3), of cx] obtain s' r where r: "poll readings cx s = Some (s', r)" by auto
  from poll_ok [OF inv r] obtain t where g: "good s t" and
    c: "case (s', r) of (s', Ready ev) \<Rightarrow> \<exists>rest. events t = ev # rest \<and> s' = t\<lparr>events := rest\<rparr>
     | (s', Pending) \<Rightarrow> events t = [] \<and> s' = t\<lparr>waker := Some cx\<rparr>" by (auto simp: polled_def)
  from g obtain ext where "events t = events s @ ext" by (auto simp: good_def edge_step_def)
  with c have "case r of Ready ev \<Rightarrow> events s \<noteq> [] \<longrightarrow> ev = hd (events s)
     | Pending \<Rightarrow> events s = [] \<and> events s' = [] \<and> waker s' = Some cx"
    by (cases r) (auto simp: append_eq_Cons_conv)
  with r show ?thesis by blast
qed

text \<open>
  An instance where the timer of a relay in its cooldown fires after the clock was read: the relay's listener fails, the
  queued events are polled, the first iteration of the next poll finds the timer ready and the second one removes the entry.
\<close>

definition example_cooling :: autorelay where
  "example_cooling = autorelay_default\<lparr>
     connections := [((PeerId 1, ConnectionId 1), \<lparr>endpoint = example_point, conn_relay_status = Supported\<rparr>)],
     failure_counts := [(PeerId 1, 1)], reservation_cooldowns := [(PeerId 1, 30000000005)],
     previous_relays := [(PeerId 1, [Memory 1], 0)], relays_available := True, next_listener_id := 1\<rparr>"

lemma example_cooling_reachable:
  "ar_reachable config_default (example_cooling, events example_reserved)"
proof -
  have f: "on_swarm_event example_env (ListenerError (ListenerId 0)) example_reserved =
      Some (example_cooling\<lparr>events := events example_reserved\<rparr>)"
    by (simp add: autorelay_eval example_cooling_def disable_reservation_def remove_reservation_def record_failure_def
        or_default_def now_plus_def duration_saturating_mul_def duration_max_def nanos_per_sec_def record_previous_relay_def
        u32_saturating_add_def u32_saturating_sub_def)
  have r: "ar_reachable config_default (example_cooling\<lparr>events := events example_reserved\<rparr>, [])"
    by (rule ar_reachable.step [OF example_reachable]) (rule ar_step.swarm_event [OF f])
  have p: "ar_step (s\<lparr>events := ev # rest\<rparr>, h) (s\<lparr>events := rest\<rparr>, h @ [ev])" for s ev rest h
    by (rule ar_step.poll_ready [where readings = "[]" and cx = 0]) (simp add: poll.simps)
  obtain e1 e2 where e: "events example_reserved = [e1, e2]" by (simp add: example_reserved_def)
  have "ar_reachable config_default (example_cooling\<lparr>events := []\<rparr>, [] @ [e1] @ [e2])"
    using ar_reachable.step [OF ar_reachable.step [OF r [unfolded e] p] p] by simp
  moreover have "example_cooling\<lparr>events := []\<rparr> = example_cooling" by (simp add: example_cooling_def autorelay_default_def)
  ultimately show ?thesis by (simp add: e)
qed

theorem autorelay_poll_terminates_witness:
  "\<exists>s' r. poll [(example_env, \<lambda>d. d \<le> 30000000006),
      (example_env\<lparr>now := 30000000006\<rparr>, \<lambda>d. d \<le> 30000000007), (example_env\<lparr>now := 30000000007\<rparr>, \<lambda>_. False)] 7 example_cooling
     = Some (s', r)"
proof -
  have "timer_law [(example_env, \<lambda>d. d \<le> 30000000006),
      (example_env\<lparr>now := 30000000006\<rparr>, \<lambda>d. d \<le> 30000000007), (example_env\<lparr>now := 30000000007\<rparr>, \<lambda>_. False)]" (is "timer_law ?l")
    by simp
  moreover have "2 * cooldown_entries example_cooling < length ?l"
    by (simp add: cooldown_entries_def example_cooling_def autorelay_default_def)
  ultimately show ?thesis using autorelay_poll_terminates [OF example_cooling_reachable] by blast
qed

end
