(* ===== verification/Autorelay_Handler.thy ===== *)
theory Autorelay_Handler
  imports Autorelay Edge_Log
begin

section \<open>The connection handler of the relay behaviour (\<^verbatim>\<open>src/src/behaviour/autorelay/handler.rs\<close>)\<close>

text \<open>
  One handler runs per direct connection. It follows the protocols the remote announces and tells
  the behaviour when support for the hop protocol starts or ends. The set of announced protocols,
  libp2p's \<^verbatim>\<open>SupportedProtocols\<close>, is a parameter: \<open>on_protocols_change\<close> applies a change and
  says whether the set changed, \<open>protocols\<close> lists it. The laws used are in \<open>supported_protocols_law\<close>.
\<close>

record ('set, 'change) protocols_env =
  empty_protocols :: "'set"
  on_protocols_change :: "'change \<Rightarrow> 'set \<Rightarrow> 'set \<times> bool"
  protocols :: "'set \<Rightarrow> string list"

record 'set handler =
  handler_events :: "out list"
  supported :: bool
  supported_protocol :: "'set"

datatype 'change connection_event = RemoteProtocolsChange 'change | OtherConnectionEvent

definition HOP_PROTOCOL_NAME :: string where
  "HOP_PROTOCOL_NAME = ''/libp2p/circuit/relay/0.2.0/hop''"

definition handler_default :: "('set, 'change) protocols_env \<Rightarrow> 'set handler" where
  "handler_default penv =
     \<lparr>handler_events = [], supported = False, supported_protocol = empty_protocols penv\<rparr>"

definition connection_keep_alive :: "'set handler \<Rightarrow> bool" where
  "connection_keep_alive hdl = False"

definition on_connection_event ::
  "('set, 'change) protocols_env \<Rightarrow> 'change connection_event \<Rightarrow> 'set handler \<Rightarrow> 'set handler" where
  "on_connection_event penv ev hdl = (case ev of
     RemoteProtocolsChange protocol \<Rightarrow>
       (let (sp, change) = on_protocols_change penv protocol (supported_protocol hdl);
            hdl = hdl\<lparr>supported_protocol := sp\<rparr>
        in if change then
             (let valid = list_ex (\<lambda>proto. HOP_PROTOCOL_NAME = proto) (protocols penv sp)
              in (case (valid, supported hdl) of
                    (True, False) \<Rightarrow> hdl\<lparr>supported := True, handler_events := handler_events hdl @ [OutSupported]\<rparr>
                  | (False, True) \<Rightarrow> hdl\<lparr>supported := False, handler_events := handler_events hdl @ [OutUnsupported]\<rparr>
                  | _ \<Rightarrow> hdl))
           else hdl)
   | OtherConnectionEvent \<Rightarrow> hdl)"

definition handler_poll :: "'set handler \<Rightarrow> 'set handler \<times> out poll_result" where
  "handler_poll hdl = (case handler_events hdl of
     ev # rest \<Rightarrow> (hdl\<lparr>handler_events := rest\<rparr>, Ready ev)
   | [] \<Rightarrow> (hdl, Pending))"

subsection \<open>Runs of a handler\<close>

definition supported_protocols_law :: "('set, 'change) protocols_env \<Rightarrow> bool" where
  "supported_protocols_law penv \<longleftrightarrow> protocols penv (empty_protocols penv) = [] \<and>
     (\<forall>c s s'. on_protocols_change penv c s = (s', False) \<longrightarrow>
        set (protocols penv s') = set (protocols penv s))"

inductive handler_step ::
  "('set, 'change) protocols_env \<Rightarrow> 'set handler \<times> out list \<Rightarrow> 'set handler \<times> out list \<Rightarrow> bool"
  for penv where
  event: "handler_step penv (hdl, h) (on_connection_event penv ev hdl, h)"
| ready: "handler_poll hdl = (hdl', Ready ev) \<Longrightarrow> handler_step penv (hdl, h) (hdl', h @ [ev])"
| pending: "handler_poll hdl = (hdl', Pending) \<Longrightarrow> handler_step penv (hdl, h) (hdl', h)"

definition notified :: "'set handler \<times> out list \<Rightarrow> out list" where
  "notified x = snd x @ handler_events (fst x)"

definition obs_out :: "out \<Rightarrow> bool option" where
  "obs_out ev = Some (ev = OutSupported)"

inductive_cases handler_stepE: "handler_step penv x y"

lemma handler_poll_Ready:
  "handler_poll hdl = (hdl', Ready ev) \<Longrightarrow>
     handler_events hdl = ev # handler_events hdl' \<and> supported hdl' = supported hdl
     \<and> supported_protocol hdl' = supported_protocol hdl"
  by (auto simp: handler_poll_def split: list.splits)

lemma handler_poll_Pending: "handler_poll hdl = (hdl', Pending) \<Longrightarrow> hdl' = hdl"
  by (auto simp: handler_poll_def split: list.splits)

lemma on_connection_event_edge:
  "\<exists>ext. handler_events (on_connection_event penv ev hdl) = handler_events hdl @ ext
     \<and> edge_ext obs_out (supported hdl) ext (supported (on_connection_event penv ev hdl))"
  by (auto simp: on_connection_event_def edge_ext_def obs_out_def Let_def
      split: connection_event.split prod.splits bool.splits)

interpretation hop: edge_log "handler_step penv" "\<lambda>x. supported (fst x)" notified obs_out
  for penv :: "('set, 'change) protocols_env"
proof unfold_locales
  fix x y :: "'set handler \<times> out list"
  assume "handler_step penv x y"
  then show "\<exists>ext. notified y = notified x @ ext \<and> edge_ext obs_out (supported (fst x)) ext (supported (fst y))"
  proof cases
    case (event hdl h ev)
    with on_connection_event_edge [of penv ev hdl] show ?thesis by (auto simp: notified_def)
  next
    case (ready hdl hdl' ev h)
    then show ?thesis by (auto simp: notified_def edge_ext_def dest!: handler_poll_Ready)
  next
    case (pending hdl hdl' h)
    then show ?thesis by (auto simp: notified_def edge_ext_def dest!: handler_poll_Pending)
  qed
qed

definition hop_announced :: "('set, 'change) protocols_env \<Rightarrow> 'set handler \<Rightarrow> bool" where
  "hop_announced penv hdl \<longleftrightarrow> HOP_PROTOCOL_NAME \<in> set (protocols penv (supported_protocol hdl))"

lemma on_connection_event_tracks:
  assumes "supported_protocols_law penv" and "supported hdl \<longleftrightarrow> hop_announced penv hdl"
  shows "supported (on_connection_event penv ev hdl) \<longleftrightarrow> hop_announced penv (on_connection_event penv ev hdl)"
  using assms
  by (auto simp: on_connection_event_def hop_announced_def supported_protocols_law_def Let_def list_ex_iff
      split: connection_event.split prod.splits bool.splits)

lemma handler_step_tracks:
  assumes "handler_step penv x y" and "supported_protocols_law penv"
    and "supported (fst x) \<longleftrightarrow> hop_announced penv (fst x)"
  shows "supported (fst y) \<longleftrightarrow> hop_announced penv (fst y)"
  using assms
  by cases (auto simp: hop_announced_def on_connection_event_tracks [unfolded hop_announced_def]
      dest: handler_poll_Ready handler_poll_Pending)

lemma handler_run_tracks:
  assumes "(handler_step penv)\<^sup>*\<^sup>* x y" and "supported_protocols_law penv"
    and "supported (fst x) \<longleftrightarrow> hop_announced penv (fst x)"
  shows "supported (fst y) \<longleftrightarrow> hop_announced penv (fst y)"
  using assms by (induction rule: rtranclp_induct) (auto dest: handler_step_tracks)

lemma handler_default_tracks:
  "supported_protocols_law penv \<Longrightarrow>
     supported (handler_default penv) \<longleftrightarrow> hop_announced penv (handler_default penv)"
  by (simp add: handler_default_def hop_announced_def supported_protocols_law_def)

subsection \<open>What the handler guarantees\<close>

text \<open>
  C29: the handler reports exactly the changes of hop support. Over every run from a fresh handler the
  notifications alternate between supported and unsupported, starting with supported, and the last
  one tells whether the remote announces the hop protocol now.
\<close>

theorem handler_reports_hop_support:
  assumes law: "supported_protocols_law penv"
    and run: "(handler_step penv)\<^sup>*\<^sup>* (handler_default penv, []) (hdl, h)"
  shows "alternates False (observed obs_out (h @ handler_events hdl)) \<and>
    final False (observed obs_out (h @ handler_events hdl)) = hop_announced penv hdl"
proof -
  have "supported (handler_default penv) = False" "notified (handler_default penv, []) = []"
    by (simp_all add: handler_default_def notified_def)
  with hop.run_alternates [OF run] handler_run_tracks [OF run law] handler_default_tracks [OF law]
  show ?thesis by (simp add: notified_def)
qed

definition example_protocols :: "(string list, string list) protocols_env" where
  "example_protocols = \<lparr>empty_protocols = [],
     on_protocols_change = (\<lambda>c s. (c, set c \<noteq> set s)), protocols = (\<lambda>s. s)\<rparr>"

theorem handler_reports_hop_support_witness:
  "observed obs_out [OutSupported] = [True] \<and>
   final False (observed obs_out [OutSupported]) =
     hop_announced example_protocols \<lparr>handler_events = [OutSupported], supported = True,
        supported_protocol = [HOP_PROTOCOL_NAME]\<rparr>"
proof -
  have law: "supported_protocols_law example_protocols"
    by (auto simp: supported_protocols_law_def example_protocols_def)
  have "handler_step example_protocols (handler_default example_protocols, [])
     (on_connection_event example_protocols (RemoteProtocolsChange [HOP_PROTOCOL_NAME])
        (handler_default example_protocols), [])"
    by (rule handler_step.event)
  then have "(handler_step example_protocols)\<^sup>*\<^sup>* (handler_default example_protocols, [])
     (\<lparr>handler_events = [OutSupported], supported = True, supported_protocol = [HOP_PROTOCOL_NAME]\<rparr>, [])"
    by (simp add: on_connection_event_def handler_default_def example_protocols_def r_into_rtranclp)
  from handler_reports_hop_support [OF law this] show ?thesis by (simp add: obs_out_def)
qed

end
