(* ===== verification/Keystore_Metadata.thy ===== *)
theory Keystore_Metadata
  imports Connexa_Prelude
begin

unbundle bit_operations_syntax

section \<open>Key metadata and its authenticated encoding (\<^verbatim>\<open>src/src/keystore.rs\<close>)\<close>

text \<open>
  The error type of the keystore, the metadata of a stored key, label validation, expiry, and
  \<^verbatim>\<open>metadata_aad\<close>, the byte string that binds the metadata to the ciphertext. A Rust \<^verbatim>\<open>String\<close> is
  the list of its bytes (Isabelle's characters are the 256 byte values). A \<^verbatim>\<open>SystemTime\<close> is a
  signed number of nanoseconds from the epoch; \<open>valid_time\<close> is the range of the platform's type,
  whose seconds are a 64-bit signed integer.
\<close>

type_synonym label = string
type_synonym time = int

datatype key_type = Ed25519 | Rsa | Secp256k1 | Ecdsa

datatype ks_error =
    NotFound label
  | Expired label
  | EncryptFailed
  | DecryptFailed
  | Key string
  | Backend string
  | UnsupportedKeyType key_type
  | KeyTypeMismatch key_type key_type
  | InvalidLabel label
  | JoinError
  | Disabled

type_synonym 'a ks_result = "('a, ks_error) result"

definition display_key_type :: "key_type \<Rightarrow> string" where
  "display_key_type k = (case k of Ed25519 \<Rightarrow> ''Ed25519'' | Rsa \<Rightarrow> ''RSA''
     | Secp256k1 \<Rightarrow> ''Secp256k1'' | Ecdsa \<Rightarrow> ''Ecdsa'')"

subsection \<open>Time and expiry\<close>

definition nanos :: int where
  "nanos = 1000000000"

definition valid_time :: "time \<Rightarrow> bool" where
  "valid_time t \<longleftrightarrow> - (2 ^ 63) * nanos \<le> t \<and> t < 2 ^ 63 * nanos"

definition checked_add :: "time \<Rightarrow> nat \<Rightarrow> time option" where
  "checked_add t d = (if valid_time (t + int d) then Some (t + int d) else None)"

datatype expiry = Never | After nat | At time

definition resolve :: "expiry \<Rightarrow> time \<Rightarrow> time option" where
  "resolve e created_at = (case e of
     Never \<Rightarrow> None
   | After ttl \<Rightarrow> checked_add created_at ttl
   | At at \<Rightarrow> Some at)"

record key_metadata =
  md_label :: label
  md_key_type :: key_type
  md_version :: u32
  md_created_at :: time
  md_expires_at :: "time option"
  md_public_key :: bytes

definition is_expired :: "time \<Rightarrow> key_metadata \<Rightarrow> bool" where
  "is_expired now m = (case md_expires_at m of None \<Rightarrow> False | Some e \<Rightarrow> e \<le> now)"

record encrypted_entry =
  metadata :: key_metadata
  ciphertext :: bytes

definition same_metadata :: "key_metadata \<Rightarrow> key_metadata \<Rightarrow> bool" where
  "same_metadata a b \<longleftrightarrow> md_label a = md_label b \<and> md_key_type a = md_key_type b
     \<and> md_version a = md_version b \<and> md_created_at a = md_created_at b
     \<and> md_expires_at a = md_expires_at b \<and> md_public_key a = md_public_key b"

definition same_entry :: "encrypted_entry \<Rightarrow> encrypted_entry \<Rightarrow> bool" where
  "same_entry a b \<longleftrightarrow> ciphertext a = ciphertext b \<and> same_metadata (metadata a) (metadata b)"

definition validate_label :: "label \<Rightarrow> unit ks_result" where
  "validate_label l =
     (if l = [] \<or> l = ''.'' \<or> l = ''..'' \<or> list_ex (\<lambda>c. c = CHR ''/'' \<or> c = CHR 0x5C \<or> c = CHR 0x00) l
      then Inl (InvalidLabel l) else Inr ())"

subsection \<open>The encoding\<close>

definition to_be_bytes :: "nat \<Rightarrow> 'a::len word \<Rightarrow> bytes" where
  "to_be_bytes n w = map (\<lambda>i. ucast (drop_bit (8 * i) w)) (rev [0..<n])"

definition as_bytes :: "string \<Rightarrow> bytes" where
  "as_bytes s = map (\<lambda>c. word_of_nat (of_char c)) s"

definition METADATA_AAD_DOMAIN :: bytes where
  "METADATA_AAD_DOMAIN = as_bytes ''connexa-keystore-metadata-v1''"

definition key_type_tag :: "key_type \<Rightarrow> u8" where
  "key_type_tag k = (case k of Ed25519 \<Rightarrow> 0 | Rsa \<Rightarrow> 1 | Secp256k1 \<Rightarrow> 2 | Ecdsa \<Rightarrow> 3)"

definition extend_bytes :: "bytes \<Rightarrow> bytes \<Rightarrow> bytes" where
  "extend_bytes aad bs = aad @ to_be_bytes 8 (word_of_nat (length bs) :: u64) @ bs"

definition extend_time :: "bytes \<Rightarrow> time \<Rightarrow> bytes" where
  "extend_time aad t =
     (let (before_epoch, duration) = (if 0 \<le> t then (False, nat t) else (True, nat (- t)))
      in aad @ [of_bool before_epoch]
           @ to_be_bytes 8 (word_of_nat (duration div 1000000000) :: u64)
           @ to_be_bytes 4 (word_of_nat (duration mod 1000000000) :: u32))"

definition metadata_aad :: "key_metadata \<Rightarrow> bytes" where
  "metadata_aad m =
     (let aad = METADATA_AAD_DOMAIN;
          aad = extend_bytes aad (as_bytes (md_label m));
          aad = aad @ [key_type_tag (md_key_type m)];
          aad = aad @ to_be_bytes 4 (md_version m);
          aad = extend_time aad (md_created_at m);
          aad = (case md_expires_at m of
                   Some e \<Rightarrow> extend_time (aad @ [1]) e
                 | None \<Rightarrow> aad @ [0])
      in extend_bytes aad (md_public_key m))"

subsection \<open>Lemmas\<close>

lemma same_metadata_iff [simp]: "same_metadata a b \<longleftrightarrow> a = b"
  by (auto simp: same_metadata_def)

lemma same_entry_iff [simp]: "same_entry a b \<longleftrightarrow> a = b"
  by (auto simp: same_entry_def)

lemma length_to_be_bytes [simp]: "length (to_be_bytes n w) = n"
  by (simp add: to_be_bytes_def)

lemma to_be_bytes_inj:
  fixes v w :: "'a::len word"
  assumes eq: "to_be_bytes n v = to_be_bytes n w" and len: "LENGTH('a) = 8 * n"
  shows "v = w"
proof (rule bit_word_eqI)
  fix k assume k: "k < LENGTH('a)"
  with len have i: "k div 8 < n" by auto
  from eq i have "(ucast (drop_bit (8 * (k div 8)) v) :: u8) = ucast (drop_bit (8 * (k div 8)) w)"
    by (simp add: to_be_bytes_def)
  then have "bit (ucast (drop_bit (8 * (k div 8)) v) :: u8) (k mod 8) =
             bit (ucast (drop_bit (8 * (k div 8)) w) :: u8) (k mod 8)" by simp
  moreover have "8 * (k div 8) + k mod 8 = k" by simp
  ultimately show "bit v k = bit w k" using k by (simp add: bit_simps)
qed

lemma word_of_nat_inj:
  "(word_of_nat a :: 'a::len word) = word_of_nat b \<Longrightarrow> a < 2 ^ LENGTH('a) \<Longrightarrow> b < 2 ^ LENGTH('a) \<Longrightarrow> a = b"
  by (metis of_nat_inverse)

lemma byte_of_char_inj: "inj (\<lambda>c. word_of_nat (of_char c) :: u8)"
proof (rule injI)
  fix c d assume "(word_of_nat (of_char c) :: u8) = word_of_nat (of_char d)"
  moreover have "(of_char e :: nat) < 256" for e
    using of_char_mod_256 [of e, where ?'a = nat] by (metis mod_less_divisor zero_less_numeral)
  ultimately have "(of_char c :: nat) = of_char d"
    using word_of_nat_inj [of "of_char c" "of_char d", where ?'a = 8] by simp
  then show "c = d" by simp
qed

lemma as_bytes_inj [simp]: "as_bytes s = as_bytes t \<longleftrightarrow> s = t"
  by (simp add: as_bytes_def inj_map_eq_map [OF byte_of_char_inj])

lemma length_as_bytes [simp]: "length (as_bytes s) = length s"
  by (simp add: as_bytes_def)

lemma key_type_tag_inj [simp]: "key_type_tag a = key_type_tag b \<longleftrightarrow> a = b"
  by (cases a; cases b) (simp_all add: key_type_tag_def)

subsection \<open>The encoding is injective\<close>

text \<open>
  The encoding of a field is self-delimiting: whatever follows it, equal strings split at the same
  place. The injectivity of \<^verbatim>\<open>metadata_aad\<close> follows field by field.
\<close>

definition enc_bytes :: "bytes \<Rightarrow> bytes" where
  "enc_bytes bs = extend_bytes [] bs"

definition enc_time :: "time \<Rightarrow> bytes" where
  "enc_time t = extend_time [] t"

lemma extend_bytes_eq: "extend_bytes aad bs = aad @ enc_bytes bs"
  by (simp add: enc_bytes_def extend_bytes_def)

lemma extend_time_eq: "extend_time aad t = aad @ enc_time t"
  by (auto simp: enc_time_def extend_time_def Let_def)

lemma length_enc_time [simp]: "length (enc_time t) = 13"
  by (auto simp: enc_time_def extend_time_def Let_def)

lemma enc_bytes_prefix:
  assumes "enc_bytes a @ x = enc_bytes b @ y" and "length a < 2 ^ 64" "length b < 2 ^ 64"
  shows "a = b \<and> x = y"
proof -
  from assms(1) have "to_be_bytes 8 (word_of_nat (length a) :: u64) = to_be_bytes 8 (word_of_nat (length b) :: u64)"
    and ab: "a @ x = b @ y" by (simp_all add: enc_bytes_def extend_bytes_def)
  then have "(word_of_nat (length a) :: u64) = word_of_nat (length b)" by (intro to_be_bytes_inj) simp_all
  then have "length a = length b" using assms(2,3) by (intro word_of_nat_inj [where ?'a = 64]) simp_all
  with ab show ?thesis by simp
qed

lemma nat_div_mod_inj: "(a :: nat) div n = b div n \<Longrightarrow> a mod n = b mod n \<Longrightarrow> a = b"
  by (metis div_mult_mod_eq)

lemma enc_time_inj:
  assumes eq: "enc_time s = enc_time t" and s: "valid_time s" and t: "valid_time t"
  shows "s = t"
proof -
  define d where "d u = nat \<bar>u\<bar>" for u :: int
  have enc: "enc_time u = [of_bool (u < 0)] @ to_be_bytes 8 (word_of_nat (d u div 1000000000) :: u64)
      @ to_be_bytes 4 (word_of_nat (d u mod 1000000000) :: u32)" for u
    by (auto simp: enc_time_def extend_time_def d_def abs_if)
  have "d u div 1000000000 < 2 ^ 64" if "valid_time u" for u
    using that by (auto simp: valid_time_def nanos_def d_def)
  moreover from eq have "(word_of_nat (d s div 1000000000) :: u64) = word_of_nat (d t div 1000000000)"
    "(word_of_nat (d s mod 1000000000) :: u32) = word_of_nat (d t mod 1000000000)"
    by (auto simp: enc intro: to_be_bytes_inj)
  ultimately have "d s div 1000000000 = d t div 1000000000" "d s mod 1000000000 = d t mod 1000000000"
    using s t by (auto intro: word_of_nat_inj [where ?'a = 64] word_of_nat_inj [where ?'a = 32]
        order.strict_trans [OF mod_less_divisor])
  then have "d s = d t" by (rule nat_div_mod_inj)
  moreover from eq have "(s < 0) = (t < 0)" by (auto simp: enc of_bool_def split: if_splits)
  ultimately show ?thesis by (auto simp: d_def)
qed

definition wf_metadata :: "key_metadata \<Rightarrow> bool" where
  "wf_metadata m \<longleftrightarrow> length (md_label m) < 2 ^ 64 \<and> length (md_public_key m) < 2 ^ 64
     \<and> valid_time (md_created_at m) \<and> (case md_expires_at m of None \<Rightarrow> True | Some e \<Rightarrow> valid_time e)"

lemma metadata_aad_fields:
  "metadata_aad m = METADATA_AAD_DOMAIN @ enc_bytes (as_bytes (md_label m)) @ [key_type_tag (md_key_type m)]
     @ to_be_bytes 4 (md_version m) @ enc_time (md_created_at m)
     @ (case md_expires_at m of Some e \<Rightarrow> 1 # enc_time e | None \<Rightarrow> [0]) @ enc_bytes (md_public_key m)"
  by (simp add: metadata_aad_def extend_bytes_eq extend_time_eq split: option.split)

definition enc_expiry :: "time option \<Rightarrow> bytes" where
  "enc_expiry x = (case x of Some e \<Rightarrow> 1 # enc_time e | None \<Rightarrow> [0])"

lemma enc_expiry_prefix:
  assumes "enc_expiry a @ x = enc_expiry b @ y"
    and "case a of None \<Rightarrow> True | Some e \<Rightarrow> valid_time e" "case b of None \<Rightarrow> True | Some e \<Rightarrow> valid_time e"
  shows "a = b \<and> x = y"
proof (cases a)
  case None
  with assms(1) show ?thesis by (cases b) (simp_all add: enc_expiry_def)
next
  case (Some s)
  with assms(1) obtain t where b: "b = Some t" by (cases b) (simp_all add: enc_expiry_def)
  with Some assms(1) have "enc_time s = enc_time t" "x = y" by (simp_all add: enc_expiry_def)
  with Some b assms(2,3) show ?thesis by (auto dest: enc_time_inj)
qed

lemma metadata_aad_inj:
  assumes eq: "metadata_aad m = metadata_aad m'" and wf: "wf_metadata m" "wf_metadata m'"
  shows "m = m'"
proof -
  let ?rest = "\<lambda>m. enc_expiry (md_expires_at m) @ enc_bytes (md_public_key m)"
  let ?tail = "\<lambda>m. [key_type_tag (md_key_type m)] @ to_be_bytes 4 (md_version m) @ enc_time (md_created_at m)
     @ ?rest m"
  from eq have "enc_bytes (as_bytes (md_label m)) @ ?tail m = enc_bytes (as_bytes (md_label m')) @ ?tail m'"
    by (simp add: metadata_aad_fields enc_expiry_def)
  from enc_bytes_prefix [OF this] wf have label: "md_label m = md_label m'" and tail: "?tail m = ?tail m'"
    by (simp_all add: wf_metadata_def)
  from tail have k: "key_type_tag (md_key_type m) = key_type_tag (md_key_type m')"
    and v: "to_be_bytes 4 (md_version m) = to_be_bytes 4 (md_version m')"
    and c: "enc_time (md_created_at m) = enc_time (md_created_at m')"
    and rest: "?rest m = ?rest m'" by simp_all
  have "md_version m = md_version m'" using v by (rule to_be_bytes_inj) simp
  moreover have "md_created_at m = md_created_at m'"
    using c wf by (intro enc_time_inj) (simp_all add: wf_metadata_def)
  moreover have ep: "md_expires_at m = md_expires_at m' \<and> enc_bytes (md_public_key m) = enc_bytes (md_public_key m')"
    using enc_expiry_prefix [OF rest] wf by (simp add: wf_metadata_def)
  moreover have "md_public_key m = md_public_key m'"
    using enc_bytes_prefix [where x = "[]" and y = "[]"] ep wf by (simp add: wf_metadata_def)
  ultimately show ?thesis using label k by simp
qed

end
