(* ===== verification/Keystore_Cipher.thy ===== *)
theory Keystore_Cipher
  imports Keystore_Metadata
begin

section \<open>Ciphers (\<^verbatim>\<open>src/src/keystore/cipher\<close>)\<close>

text \<open>
  The trait \<^verbatim>\<open>Cipher\<close> is a record of its two methods; encryption draws random bytes, so it takes
  the source of randomness of the call (\<open>entropy n\<close> is what \<^verbatim>\<open>fill_bytes\<close> writes into a buffer of
  length \<open>n\<close>). The AEAD primitives of the crates \<^verbatim>\<open>aes-gcm\<close> and \<^verbatim>\<open>chacha20poly1305\<close> are a parameter;
  what is modelled is the framing around them: nonce in front, length check, associated data.
\<close>

type_synonym entropy = "nat \<Rightarrow> bytes"

record cipher =
  encrypt :: "entropy \<Rightarrow> bytes option \<Rightarrow> bytes \<Rightarrow> bytes ks_result"
  decrypt :: "bytes option \<Rightarrow> bytes \<Rightarrow> bytes ks_result"

record aead =
  aead_encrypt :: "bytes \<Rightarrow> bytes \<Rightarrow> bytes \<Rightarrow> bytes option"
  aead_decrypt :: "bytes \<Rightarrow> bytes \<Rightarrow> bytes \<Rightarrow> bytes option"

definition unwrap_or_empty :: "bytes option \<Rightarrow> bytes" where
  "unwrap_or_empty aad = (case aad of None \<Rightarrow> [] | Some a \<Rightarrow> a)"

definition aead_frame_encrypt :: "nat \<Rightarrow> aead \<Rightarrow> entropy \<Rightarrow> bytes option \<Rightarrow> bytes \<Rightarrow> bytes ks_result" where
  "aead_frame_encrypt nonce_len a rnd aad plaintext =
     (let nonce = rnd nonce_len
      in try_res (ok_or EncryptFailed (aead_encrypt a nonce plaintext (unwrap_or_empty aad)))
           (\<lambda>ct. Inr (nonce @ ct)))"

definition aead_frame_decrypt :: "nat \<Rightarrow> aead \<Rightarrow> bytes option \<Rightarrow> bytes \<Rightarrow> bytes ks_result" where
  "aead_frame_decrypt nonce_len a aad blob =
     (if length blob < nonce_len then Inl DecryptFailed
      else (let nonce = take nonce_len blob; ct = drop nonce_len blob
            in ok_or DecryptFailed (aead_decrypt a nonce ct (unwrap_or_empty aad))))"

definition aes_gcm_cipher :: "(bytes \<Rightarrow> aead) \<Rightarrow> bytes \<Rightarrow> cipher" where
  "aes_gcm_cipher new_from_slice key = \<lparr>encrypt = aead_frame_encrypt 12 (new_from_slice key),
     decrypt = aead_frame_decrypt 12 (new_from_slice key)\<rparr>"

definition xchacha20poly1305_cipher :: "(bytes \<Rightarrow> aead) \<Rightarrow> bytes \<Rightarrow> cipher" where
  "xchacha20poly1305_cipher new_from_slice key = \<lparr>encrypt = aead_frame_encrypt 24 (new_from_slice key),
     decrypt = aead_frame_decrypt 24 (new_from_slice key)\<rparr>"

definition plaintext_cipher :: cipher where
  "plaintext_cipher = \<lparr>encrypt = (\<lambda>_ _ data. Inr data), decrypt = (\<lambda>_ data. Inr data)\<rparr>"

subsection \<open>What is relied on\<close>

text \<open>
  \<open>fill_bytes_law\<close>: the random source fills the whole buffer. \<open>aead_law\<close>: decryption accepts exactly
  what encryption with the same key, nonce and associated data produces. \<open>cipher_ok\<close> is the contract
  the keychain relies on: what was encrypted under some associated data decrypts under the same.
\<close>

definition fill_bytes_law :: "entropy \<Rightarrow> bool" where
  "fill_bytes_law rnd \<longleftrightarrow> (\<forall>n. length (rnd n) = n)"

definition aead_law :: "aead \<Rightarrow> bool" where
  "aead_law a \<longleftrightarrow> (\<forall>nonce ct aad m. aead_decrypt a nonce ct aad = Some m
     \<longleftrightarrow> aead_encrypt a nonce m aad = Some ct)"

definition cipher_ok :: "cipher \<Rightarrow> bool" where
  "cipher_ok c \<longleftrightarrow> (\<forall>rnd aad m blob. fill_bytes_law rnd \<longrightarrow> encrypt c rnd aad m = Inr blob
     \<longrightarrow> decrypt c aad blob = Inr m)"

lemma cipher_okD:
  "cipher_ok c \<Longrightarrow> fill_bytes_law rnd \<Longrightarrow> encrypt c rnd aad m = Inr blob \<Longrightarrow> decrypt c aad blob = Inr m"
  by (auto simp: cipher_ok_def)

lemma aead_frame_encrypt_eq_Inr:
  "aead_frame_encrypt n a rnd aad m = Inr blob \<longleftrightarrow>
     (\<exists>ct. aead_encrypt a (rnd n) m (unwrap_or_empty aad) = Some ct \<and> blob = rnd n @ ct)"
  by (auto simp: aead_frame_encrypt_def ok_or_def try_res_def Let_def split: option.splits)

lemma aead_frame_decrypt_eq_Inr:
  assumes "aead_law a"
  shows "aead_frame_decrypt n a aad blob = Inr m \<longleftrightarrow>
     (\<exists>nonce ct. blob = nonce @ ct \<and> length nonce = n
        \<and> aead_encrypt a nonce m (unwrap_or_empty aad) = Some ct)" (is "?l = ?r")
proof
  assume ?l
  then have "n \<le> length blob" "aead_decrypt a (take n blob) (drop n blob) (unwrap_or_empty aad) = Some m"
    by (auto simp: aead_frame_decrypt_def ok_or_def Let_def split: if_splits option.splits)
  with assms show ?r
    by (intro exI [of _ "take n blob"] exI [of _ "drop n blob"]) (simp add: aead_law_def)
next
  assume ?r
  then obtain nonce ct where "blob = nonce @ ct" "length nonce = n"
    and "aead_decrypt a nonce ct (unwrap_or_empty aad) = Some m"
    using assms by (auto simp: aead_law_def)
  then show ?l by (auto simp: aead_frame_decrypt_def ok_or_def)
qed

lemma frame_roundtrip:
  assumes "aead_law a" "fill_bytes_law rnd" "aead_frame_encrypt n a rnd aad m = Inr blob"
  shows "aead_frame_decrypt n a aad blob = Inr m"
  using assms unfolding aead_frame_decrypt_eq_Inr [OF assms(1)] aead_frame_encrypt_eq_Inr
  by (auto simp: fill_bytes_law_def)

lemma aead_ciphers_ok:
  assumes "aead_law (new_from_slice key)"
  shows "cipher_ok (aes_gcm_cipher new_from_slice key)"
    and "cipher_ok (xchacha20poly1305_cipher new_from_slice key)"
  using frame_roundtrip [OF assms]
  by (auto simp: cipher_ok_def aes_gcm_cipher_def xchacha20poly1305_cipher_def)

text \<open>\<open>aead_authentic\<close>: a ciphertext is rejected under other associated data than it was produced with.\<close>

definition aead_authentic :: "aead \<Rightarrow> bool" where
  "aead_authentic a \<longleftrightarrow> (\<forall>nonce m aad ct aad'. aead_encrypt a nonce m aad = Some ct \<longrightarrow> aad' \<noteq> aad \<longrightarrow>
     aead_decrypt a nonce ct aad' = None)"

lemma aead_ciphers_authentic:
  assumes "c \<in> {aes_gcm_cipher new_from_slice key, xchacha20poly1305_cipher new_from_slice key}"
    and "aead_authentic (new_from_slice key)" and "fill_bytes_law rnd"
    and "encrypt c rnd (Some aad) m = Inr blob" and "aad' \<noteq> aad"
  shows "decrypt c (Some aad') blob = Inl DecryptFailed"
proof -
  obtain n where "encrypt c = aead_frame_encrypt n (new_from_slice key)" "decrypt c = aead_frame_decrypt n (new_from_slice key)"
    using assms(1) by (auto simp: aes_gcm_cipher_def xchacha20poly1305_cipher_def)
  with assms(2-5) show ?thesis
    by (auto simp: aead_frame_encrypt_eq_Inr aead_frame_decrypt_def aead_authentic_def unwrap_or_empty_def fill_bytes_law_def ok_or_def)
qed

lemma plaintext_cipher_ok: "cipher_ok plaintext_cipher"
  by (simp add: cipher_ok_def plaintext_cipher_def)

text \<open>
  C32: the AES-GCM and XChaCha20-Poly1305 ciphers accept a stored blob exactly when it is a nonce of
  12 (respectively 24) bytes followed by what the primitive produces for that nonce, the recovered
  plaintext and the given associated data. In particular shorter blobs are rejected and every blob
  they produce decrypts to its plaintext.
\<close>

theorem cipher_decrypt_iff:
  assumes "aead_law (new_from_slice key)"
    and "(c, n) \<in> {(aes_gcm_cipher new_from_slice key, 12), (xchacha20poly1305_cipher new_from_slice key, 24)}"
  shows "(decrypt c aad blob = Inr m \<longleftrightarrow>
      (\<exists>nonce ct. blob = nonce @ ct \<and> length nonce = n
         \<and> aead_encrypt (new_from_slice key) nonce m (unwrap_or_empty aad) = Some ct))
    \<and> (length blob < n \<longrightarrow> decrypt c aad blob = Inl DecryptFailed)
    \<and> (fill_bytes_law rnd \<longrightarrow> encrypt c rnd aad m = Inr blob \<longrightarrow>
        decrypt c aad blob = Inr m \<and> n \<le> length blob)"
proof -
  have d: "decrypt c = aead_frame_decrypt n (new_from_slice key)"
    and e: "encrypt c = aead_frame_encrypt n (new_from_slice key)"
    using assms(2) by (auto simp: aes_gcm_cipher_def xchacha20poly1305_cipher_def)
  show ?thesis
    unfolding d e using frame_roundtrip [OF assms(1)] aead_frame_decrypt_eq_Inr [OF assms(1)]
    by (auto simp: aead_frame_decrypt_def aead_frame_encrypt_eq_Inr fill_bytes_law_def)
qed

definition tagging_aead :: "bytes \<Rightarrow> aead" where
  "tagging_aead key =
     (let tag = (\<lambda>nonce aad. as_bytes ''tag'' @ key @ nonce @ aad)
      in \<lparr>aead_encrypt = (\<lambda>nonce m aad. Some (tag nonce aad @ m)),
          aead_decrypt = (\<lambda>nonce ct aad. let t = tag nonce aad
             in if take (length t) ct = t then Some (drop (length t) ct) else None)\<rparr>)"

lemma tagging_aead_law: "aead_law (tagging_aead key)"
proof -
  have "(if take (length t) ct = t then Some (drop (length t) ct) else None) = Some m
      \<longleftrightarrow> Some (t @ m) = Some ct" for t ct m :: bytes
    by (auto split: if_splits) (metis append_take_drop_id)
  then show ?thesis by (simp only: aead_law_def tagging_aead_def Let_def aead.simps) blast
qed

theorem cipher_decrypt_iff_witness:
  "decrypt (aes_gcm_cipher tagging_aead []) (Some [1]) (replicate 11 0) = Inl DecryptFailed
   \<and> (\<exists>blob. encrypt (xchacha20poly1305_cipher tagging_aead []) (\<lambda>n. replicate n 0) (Some [1]) [7, 8] = Inr blob
        \<and> decrypt (xchacha20poly1305_cipher tagging_aead []) (Some [1]) blob = Inr [7, 8])"
proof -
  have fill: "fill_bytes_law (\<lambda>n. replicate n 0)" by (simp add: fill_bytes_law_def)
  obtain blob where e: "encrypt (xchacha20poly1305_cipher tagging_aead []) (\<lambda>n. replicate n 0) (Some [1]) [7, 8] = Inr blob"
    by (simp add: xchacha20poly1305_cipher_def aead_frame_encrypt_eq_Inr tagging_aead_def Let_def)
  have "decrypt (aes_gcm_cipher tagging_aead []) (Some [1]) (replicate 11 0) = Inl DecryptFailed"
    using cipher_decrypt_iff [where new_from_slice = tagging_aead and key = "[]" and c = "aes_gcm_cipher tagging_aead []" and n = 12,
        OF tagging_aead_law] by simp
  moreover have "decrypt (xchacha20poly1305_cipher tagging_aead []) (Some [1]) blob = Inr [7, 8]"
    using cipher_decrypt_iff [where new_from_slice = tagging_aead and key = "[]"
        and c = "xchacha20poly1305_cipher tagging_aead []" and n = 24, OF tagging_aead_law] fill e
    by simp
  ultimately show ?thesis using e by blast
qed

end
