(* ===== verification/Keychain.thy ===== *)
theory Keychain
  imports Keystore_Cipher
begin

section \<open>The keychain (\<^verbatim>\<open>src/src/keystore.rs\<close>)\<close>

text \<open>
  A keychain is a cipher slot and a backend, both shared by its clones, and a flag. The slot is empty
  while a write is in flight and stays empty when the task of the write stops before it finishes;
  every operation then reports that the backend has to be reopened. Operations are state passing
  functions over the record; each holds the lock on the slot from start to end, so they are atomic.

  Parameters: libp2p's identity keys (\<open>identity\<close>), the backend (\<open>backend_ops\<close>, the trait
  \<^verbatim>\<open>Keystore\<close>), and per call the clock, the randomness, generated keys, the compiled-in key
  features and whether the spawned task is stopped, and with what effect on the backend (\<open>kc_env\<close>).
\<close>

datatype p2p_key_type = P2pEd25519 | P2pRSA | P2pSecp256k1 | P2pEcdsa

definition from_p2p_key_type :: "p2p_key_type \<Rightarrow> key_type" where
  "from_p2p_key_type k = (case k of P2pEd25519 \<Rightarrow> Ed25519 | P2pRSA \<Rightarrow> Rsa
     | P2pSecp256k1 \<Rightarrow> Secp256k1 | P2pEcdsa \<Rightarrow> Ecdsa)"

record ('kp, 'pk) identity =
  keypair_key_type :: "'kp \<Rightarrow> p2p_key_type"
  public :: "'kp \<Rightarrow> 'pk"
  public_key_type :: "'pk \<Rightarrow> p2p_key_type"
  encode_protobuf :: "'pk \<Rightarrow> bytes"
  try_decode_protobuf :: "bytes \<Rightarrow> ('pk, string) result"
  to_peer_id :: "'pk \<Rightarrow> peer_id"
  to_protobuf_encoding :: "'kp \<Rightarrow> (bytes, string) result"
  from_protobuf_encoding :: "bytes \<Rightarrow> ('kp, string) result"

type_synonym ('be, 'a) backend_op = "'be \<Rightarrow> 'be \<times> 'a ks_result"

record 'be backend_ops =
  be_put :: "encrypted_entry \<Rightarrow> ('be, unit) backend_op"
  be_put_many :: "encrypted_entry list \<Rightarrow> ('be, unit) backend_op"
  be_get :: "label \<Rightarrow> ('be, encrypted_entry option) backend_op"
  be_list :: "('be, key_metadata list) backend_op"
  be_remove :: "label \<Rightarrow> ('be, bool) backend_op"

record ('kp, 'be) kc_env =
  sys_time :: time
  rng :: "nat \<Rightarrow> entropy"
  generated :: "key_type \<Rightarrow> 'kp"
  feature_ed25519 :: bool
  feature_secp256k1 :: bool
  feature_ecdsa :: bool
  task_stop :: "('be \<Rightarrow> 'be) option"

record 'be keychain =
  cipher_slot :: "cipher option"
  backend :: "'be"
  disabled :: bool

record 'kp opened_entry =
  opened_keypair :: "'kp"
  opened_metadata :: key_metadata

datatype 'kp rotate_key = RotateKeypair 'kp | RotateGenerate key_type

subsection \<open>Sequencing\<close>

type_synonym ('be, 'a) kc = "'be keychain \<Rightarrow> 'be keychain \<times> 'a ks_result"

definition kc_return :: "'a \<Rightarrow> ('be, 'a) kc" where
  "kc_return a kc = (kc, Inr a)"

definition kc_pure :: "'a ks_result \<Rightarrow> ('be, 'a) kc" where
  "kc_pure r kc = (kc, r)"

definition kc_bind :: "('be, 'a) kc \<Rightarrow> ('a \<Rightarrow> ('be, 'b) kc) \<Rightarrow> ('be, 'b) kc" where
  "kc_bind m f kc = (case m kc of (kc, Inl e) \<Rightarrow> (kc, Inl e) | (kc, Inr a) \<Rightarrow> f a kc)"

definition on_backend :: "('be, 'a) backend_op \<Rightarrow> ('be, 'a) kc" where
  "on_backend opr kc = (case opr (backend kc) of (b, r) \<Rightarrow> (kc\<lparr>backend := b\<rparr>, r))"

subsection \<open>Metadata accessors and key generation\<close>

definition metadata_public_key :: "('kp, 'pk) identity \<Rightarrow> key_metadata \<Rightarrow> 'pk ks_result" where
  "metadata_public_key idn m = (case try_decode_protobuf idn (md_public_key m) of
     Inl e \<Rightarrow> Inl (Key e)
   | Inr pubkey \<Rightarrow>
       (let pub_key_type = from_p2p_key_type (public_key_type idn pubkey)
        in if pub_key_type \<noteq> md_key_type m then Inl (KeyTypeMismatch pub_key_type (md_key_type m))
           else Inr pubkey))"

definition metadata_peer_id :: "('kp, 'pk) identity \<Rightarrow> key_metadata \<Rightarrow> peer_id ks_result" where
  "metadata_peer_id idn m = try_res (metadata_public_key idn m) (\<lambda>pk. Inr (to_peer_id idn pk))"

definition generate_keypair :: "('kp, 'be) kc_env \<Rightarrow> key_type \<Rightarrow> 'kp ks_result" where
  "generate_keypair env k =
     (if k = Ed25519 \<and> feature_ed25519 env then Inr (generated env Ed25519)
      else if k = Secp256k1 \<and> feature_secp256k1 env then Inr (generated env Secp256k1)
      else if k = Ecdsa \<and> feature_ecdsa env then Inr (generated env Ecdsa)
      else Inl (UnsupportedKeyType k))"

subsection \<open>Construction and locks\<close>

definition with_cipher :: "cipher \<Rightarrow> 'be \<Rightarrow> 'be keychain" where
  "with_cipher c be = \<lparr>cipher_slot = Some c, backend = be, disabled = False\<rparr>"

definition new_with_store :: "(bytes \<Rightarrow> aead) \<Rightarrow> bytes \<Rightarrow> 'be \<Rightarrow> 'be keychain" where
  "new_with_store new_from_slice key be = with_cipher (xchacha20poly1305_cipher new_from_slice key) be"

definition disabled_keychain :: "(bytes \<Rightarrow> aead) \<Rightarrow> 'be \<Rightarrow> 'be keychain" where
  "disabled_keychain new_from_slice be =
     (new_with_store new_from_slice (replicate 32 0) be)\<lparr>disabled := True\<rparr>"

definition unknown_write :: ks_error where
  "unknown_write = Backend ''keychain write result is unknown. Recover and reopen the backend''"

definition read_lock :: "('be, cipher) kc" where
  "read_lock kc = (case cipher_slot kc of None \<Rightarrow> (kc, Inl unknown_write) | Some c \<Rightarrow> (kc, Inr c))"

definition write_lock :: "('be, cipher) kc" where
  "write_lock kc = (case cipher_slot kc of None \<Rightarrow> (kc, Inl unknown_write) | Some c \<Rightarrow> (kc, Inr c))"

definition disable_check :: "('be, unit) kc" where
  "disable_check kc = (if disabled kc then (kc, Inl Disabled) else (kc, Inr ()))"

definition finish_mutation :: "('kp, 'be) kc_env \<Rightarrow> ('be, 'a) backend_op \<Rightarrow> ('be, 'a) kc" where
  "finish_mutation env work kc =
     (let cipher = cipher_slot kc;
          kc = kc\<lparr>cipher_slot := None\<rparr>
      in (case task_stop env of
            Some effect \<Rightarrow> (kc\<lparr>backend := effect (backend kc)\<rparr>, Inl JoinError)
          | None \<Rightarrow> (case on_backend work kc of (kc, r) \<Rightarrow> (kc\<lparr>cipher_slot := cipher\<rparr>, r))))"

subsection \<open>Sealing and opening\<close>

definition seal_entry ::
  "('kp, 'pk) identity \<Rightarrow> entropy \<Rightarrow> cipher \<Rightarrow> key_metadata \<Rightarrow> 'kp \<Rightarrow> encrypted_entry ks_result" where
  "seal_entry idn rnd c m kp = (case to_protobuf_encoding idn kp of
     Inl e \<Rightarrow> Inl (Key e)
   | Inr plaintext \<Rightarrow> try_res (encrypt c rnd (Some (metadata_aad m)) plaintext)
       (\<lambda>ct. Inr \<lparr>metadata = m, ciphertext = ct\<rparr>))"

definition open_entry ::
  "('kp, 'pk) identity \<Rightarrow> cipher \<Rightarrow> label \<Rightarrow> encrypted_entry \<Rightarrow> 'kp opened_entry ks_result" where
  "open_entry idn c l e =
     (if md_label (metadata e) \<noteq> l then Inl DecryptFailed
      else try_res (decrypt c (Some (metadata_aad (metadata e))) (ciphertext e)) (\<lambda>plaintext.
        case from_protobuf_encoding idn plaintext of
          Inl err \<Rightarrow> Inl (Key err)
        | Inr kp \<Rightarrow>
            (if from_p2p_key_type (keypair_key_type idn kp) \<noteq> md_key_type (metadata e)
                \<or> encode_protobuf idn (public idn kp) \<noteq> md_public_key (metadata e)
             then Inl DecryptFailed
             else Inr \<lparr>opened_keypair = kp, opened_metadata = metadata e\<rparr>)))"

fun open_entries ::
  "('kp, 'pk) identity \<Rightarrow> cipher \<Rightarrow> encrypted_entry list \<Rightarrow> 'kp opened_entry list ks_result" where
  "open_entries idn c [] = Inr []"
| "open_entries idn c (e # es) = try_res (open_entry idn c (md_label (metadata e)) e)
     (\<lambda>x. try_res (open_entries idn c es) (\<lambda>xs. Inr (x # xs)))"

subsection \<open>Operations\<close>

definition kc_store ::
  "'be backend_ops \<Rightarrow> ('kp, 'pk) identity \<Rightarrow> ('kp, 'be) kc_env \<Rightarrow> label \<Rightarrow> 'kp \<Rightarrow> expiry \<Rightarrow> u32 \<Rightarrow>
   cipher \<Rightarrow> ('be, unit) kc" where
  "kc_store ops idn env l kp ex version c =
     kc_bind disable_check (\<lambda>_.
     kc_bind (kc_pure (validate_label l)) (\<lambda>_.
     let created_at = sys_time env;
         m = \<lparr>md_label = l, md_key_type = from_p2p_key_type (keypair_key_type idn kp),
              md_version = version, md_created_at = created_at,
              md_expires_at = resolve ex created_at,
              md_public_key = encode_protobuf idn (public idn kp)\<rparr>
     in kc_bind (kc_pure (seal_entry idn (rng env 0) c m kp)) (\<lambda>entry.
        finish_mutation env (be_put ops entry))))"

definition kc_insert_with_expiry ::
  "'be backend_ops \<Rightarrow> ('kp, 'pk) identity \<Rightarrow> ('kp, 'be) kc_env \<Rightarrow> label \<Rightarrow> 'kp \<Rightarrow> expiry \<Rightarrow> ('be, unit) kc" where
  "kc_insert_with_expiry ops idn env l kp ex =
     kc_bind write_lock (\<lambda>c. kc_store ops idn env l kp ex 1 c)"

definition kc_insert ::
  "'be backend_ops \<Rightarrow> ('kp, 'pk) identity \<Rightarrow> ('kp, 'be) kc_env \<Rightarrow> label \<Rightarrow> 'kp \<Rightarrow> ('be, unit) kc" where
  "kc_insert ops idn env l kp = kc_bind write_lock (\<lambda>c. kc_store ops idn env l kp Never 1 c)"

definition kc_generate ::
  "'be backend_ops \<Rightarrow> ('kp, 'pk) identity \<Rightarrow> ('kp, 'be) kc_env \<Rightarrow> label \<Rightarrow> key_type \<Rightarrow> ('be, 'kp) kc" where
  "kc_generate ops idn env l k =
     kc_bind (kc_pure (generate_keypair env k)) (\<lambda>kp.
     kc_bind (kc_insert ops idn env l kp) (\<lambda>_. kc_return kp))"

definition kc_rotate ::
  "'be backend_ops \<Rightarrow> ('kp, 'pk) identity \<Rightarrow> ('kp, 'be) kc_env \<Rightarrow> label \<Rightarrow> 'kp rotate_key \<Rightarrow> expiry \<Rightarrow>
   ('be, unit) kc" where
  "kc_rotate ops idn env l key ex =
     kc_bind write_lock (\<lambda>c.
     kc_bind (kc_pure (validate_label l)) (\<lambda>_.
     kc_bind (on_backend (be_get ops l)) (\<lambda>got.
     kc_bind (kc_pure (ok_or (NotFound l) got)) (\<lambda>current.
     kc_bind (kc_pure (open_entry idn c l current)) (\<lambda>current.
     let version = u32_saturating_add (md_version (opened_metadata current)) 1
     in kc_bind (kc_pure (case key of RotateKeypair kp \<Rightarrow> Inr kp | RotateGenerate k \<Rightarrow> generate_keypair env k))
          (\<lambda>kp. kc_store ops idn env l kp ex version c))))))"

definition authenticated_entry ::
  "'be backend_ops \<Rightarrow> ('kp, 'pk) identity \<Rightarrow> label \<Rightarrow> ('be, 'kp opened_entry option) kc" where
  "authenticated_entry ops idn l =
     kc_bind read_lock (\<lambda>c.
     kc_bind (on_backend (be_get ops l)) (\<lambda>got.
     case got of None \<Rightarrow> kc_return None
     | Some e \<Rightarrow> kc_bind (kc_pure (open_entry idn c l e)) (\<lambda>x. kc_return (Some x))))"

definition kc_get ::
  "'be backend_ops \<Rightarrow> ('kp, 'pk) identity \<Rightarrow> ('kp, 'be) kc_env \<Rightarrow> label \<Rightarrow> ('be, 'kp) kc" where
  "kc_get ops idn env l =
     kc_bind disable_check (\<lambda>_.
     kc_bind (kc_pure (validate_label l)) (\<lambda>_.
     kc_bind (authenticated_entry ops idn l) (\<lambda>got.
     kc_bind (kc_pure (ok_or (NotFound l) got)) (\<lambda>opened.
     if is_expired (sys_time env) (opened_metadata opened) then kc_pure (Inl (Expired l))
     else kc_return (opened_keypair opened)))))"

definition kc_public_key ::
  "'be backend_ops \<Rightarrow> ('kp, 'pk) identity \<Rightarrow> ('kp, 'be) kc_env \<Rightarrow> label \<Rightarrow> ('be, 'pk) kc" where
  "kc_public_key ops idn env l = kc_bind (kc_get ops idn env l) (\<lambda>kp. kc_return (public idn kp))"

definition kc_peer_id ::
  "'be backend_ops \<Rightarrow> ('kp, 'pk) identity \<Rightarrow> ('kp, 'be) kc_env \<Rightarrow> label \<Rightarrow> ('be, peer_id) kc" where
  "kc_peer_id ops idn env l = kc_bind (kc_public_key ops idn env l) (\<lambda>pk. kc_return (to_peer_id idn pk))"

definition kc_get_or_create ::
  "'be backend_ops \<Rightarrow> ('kp, 'pk) identity \<Rightarrow> ('kp, 'be) kc_env \<Rightarrow> label \<Rightarrow> ('be, 'kp) kc" where
  "kc_get_or_create ops idn env l =
     kc_bind write_lock (\<lambda>c.
     kc_bind disable_check (\<lambda>_.
     kc_bind (kc_pure (validate_label l)) (\<lambda>_.
     kc_bind (on_backend (be_get ops l)) (\<lambda>got.
     case got of
       Some e \<Rightarrow> kc_bind (kc_pure (open_entry idn c l e)) (\<lambda>opened.
         if is_expired (sys_time env) (opened_metadata opened) then kc_pure (Inl (Expired l))
         else kc_return (opened_keypair opened))
     | None \<Rightarrow>
         let kp = generated env Ed25519
         in kc_bind (kc_store ops idn env l kp Never 1 c) (\<lambda>_. kc_return kp)))))"

fun load_loop ::
  "'be backend_ops \<Rightarrow> label list \<Rightarrow> encrypted_entry list \<Rightarrow> key_metadata list \<Rightarrow> ('be, encrypted_entry list) kc" where
  "load_loop ops labels entries [] = kc_return entries"
| "load_loop ops labels entries (m # ms) =
     kc_bind (kc_pure (validate_label (md_label m))) (\<lambda>_.
     if md_label m \<in> set labels then kc_pure (Inl DecryptFailed)
     else
       kc_bind (on_backend (be_get ops (md_label m))) (\<lambda>got.
       kc_bind (kc_pure (ok_or (NotFound (md_label m)) got)) (\<lambda>entry.
       if \<not> same_metadata m (metadata entry) then kc_pure (Inl DecryptFailed)
       else load_loop ops (md_label m # labels) (entries @ [entry]) ms)))"

definition load_entries :: "'be backend_ops \<Rightarrow> ('be, encrypted_entry list) kc" where
  "load_entries ops = kc_bind (on_backend (be_list ops)) (load_loop ops [] [])"

definition authenticated_entries ::
  "'be backend_ops \<Rightarrow> ('kp, 'pk) identity \<Rightarrow> ('be, 'kp opened_entry list) kc" where
  "authenticated_entries ops idn =
     kc_bind read_lock (\<lambda>c. kc_bind (load_entries ops) (\<lambda>es. kc_pure (open_entries idn c es)))"

definition kc_list :: "'be backend_ops \<Rightarrow> ('kp, 'pk) identity \<Rightarrow> ('be, key_metadata list) kc" where
  "kc_list ops idn = kc_bind (authenticated_entries ops idn) (\<lambda>es. kc_return (map opened_metadata es))"

definition kc_metadata :: "'be backend_ops \<Rightarrow> ('kp, 'pk) identity \<Rightarrow> label \<Rightarrow> ('be, key_metadata option) kc" where
  "kc_metadata ops idn l =
     kc_bind (kc_pure (validate_label l)) (\<lambda>_.
     kc_bind (authenticated_entry ops idn l) (\<lambda>e. kc_return (map_option opened_metadata e)))"

definition kc_remove ::
  "'be backend_ops \<Rightarrow> ('kp, 'be) kc_env \<Rightarrow> label \<Rightarrow> ('be, bool) kc" where
  "kc_remove ops env l =
     kc_bind write_lock (\<lambda>_. kc_bind (kc_pure (validate_label l)) (\<lambda>_.
     finish_mutation env (be_remove ops l)))"

fun remove_expired :: "'be backend_ops \<Rightarrow> nat \<Rightarrow> label list \<Rightarrow> ('be, nat) backend_op" where
  "remove_expired ops removed [] b = (b, Inr removed)"
| "remove_expired ops removed (l # ls) b = (case be_remove ops l b of
     (b, Inl e) \<Rightarrow> (b, Inl e)
   | (b, Inr existed) \<Rightarrow> remove_expired ops (if existed then removed + 1 else removed) ls b)"

definition kc_purge_expired ::
  "'be backend_ops \<Rightarrow> ('kp, 'pk) identity \<Rightarrow> ('kp, 'be) kc_env \<Rightarrow> ('be, nat) kc" where
  "kc_purge_expired ops idn env =
     kc_bind write_lock (\<lambda>c.
     kc_bind (load_entries ops) (\<lambda>entries.
     kc_bind (kc_pure (open_entries idn c entries)) (\<lambda>opened.
     let expired = map (md_label \<circ> opened_metadata)
           (filter (\<lambda>x. is_expired (sys_time env) (opened_metadata x)) opened)
     in if expired = [] then kc_return 0
        else finish_mutation env (remove_expired ops 0 expired))))"

subsection \<open>Changing the cipher\<close>

fun reseal_all ::
  "('kp, 'pk) identity \<Rightarrow> (nat \<Rightarrow> entropy) \<Rightarrow> cipher \<Rightarrow> cipher \<Rightarrow> encrypted_entry list \<Rightarrow>
   encrypted_entry list ks_result" where
  "reseal_all idn rnd c new_cipher [] = Inr []"
| "reseal_all idn rnd c new_cipher (e # es) =
     try_res (open_entry idn c (md_label (metadata e)) e) (\<lambda>opened.
     try_res (seal_entry idn (rnd 0) new_cipher (opened_metadata opened) (opened_keypair opened)) (\<lambda>x.
     try_res (reseal_all idn (\<lambda>i. rnd (Suc i)) c new_cipher es) (\<lambda>xs. Inr (x # xs))))"

fun check_intact :: "'be backend_ops \<Rightarrow> encrypted_entry list \<Rightarrow> 'be keychain \<Rightarrow> 'be keychain \<times> bool" where
  "check_intact ops [] kc = (kc, True)"
| "check_intact ops (original # rest) kc =
     (case on_backend (be_get ops (md_label (metadata original))) kc of
        (kc, Inr (Some entry)) \<Rightarrow> if same_entry entry original then check_intact ops rest kc else (kc, False)
      | (kc, _) \<Rightarrow> (kc, False))"

definition migrate_task ::
  "'be backend_ops \<Rightarrow> ('kp, 'be) kc_env \<Rightarrow> cipher \<Rightarrow> encrypted_entry list \<Rightarrow> encrypted_entry list \<Rightarrow>
   ('be, 'be keychain) kc" where
  "migrate_task ops env new_cipher originals entries kc =
     (let previous = cipher_slot kc;
          kc = kc\<lparr>cipher_slot := None\<rparr>
      in (case task_stop env of
            Some effect \<Rightarrow> (kc\<lparr>backend := effect (backend kc)\<rparr>, Inl JoinError)
          | None \<Rightarrow> (case on_backend (be_put_many ops entries) kc of
                (kc, Inl error) \<Rightarrow>
                  (case check_intact ops originals kc of
                     (kc, intact) \<Rightarrow> (if intact then kc\<lparr>cipher_slot := previous\<rparr> else kc, Inl error))
              | (kc, Inr _) \<Rightarrow>
                  (let kc = kc\<lparr>cipher_slot := Some new_cipher\<rparr> in (kc, Inr kc)))))"

definition kc_migrate_cipher ::
  "'be backend_ops \<Rightarrow> ('kp, 'pk) identity \<Rightarrow> ('kp, 'be) kc_env \<Rightarrow> cipher \<Rightarrow> ('be, 'be keychain) kc" where
  "kc_migrate_cipher ops idn env new_cipher =
     kc_bind write_lock (\<lambda>c.
     kc_bind disable_check (\<lambda>_.
     kc_bind (load_entries ops) (\<lambda>originals.
     kc_bind (kc_pure (reseal_all idn (rng env) c new_cipher originals)) (\<lambda>entries.
     migrate_task ops env new_cipher originals entries))))"

subsection \<open>The in-memory backend (\<^verbatim>\<open>src/src/keystore/store/memory.rs\<close>)\<close>

type_synonym memory_keystore = "(label, encrypted_entry) alist"

definition mem_put :: "encrypted_entry \<Rightarrow> (memory_keystore, unit) backend_op" where
  "mem_put entry inner = (AList.update (md_label (metadata entry)) entry inner, Inr ())"

definition mem_put_many :: "encrypted_entry list \<Rightarrow> (memory_keystore, unit) backend_op" where
  "mem_put_many entries inner =
     (fold (\<lambda>entry. AList.update (md_label (metadata entry)) entry) entries inner, Inr ())"

definition mem_get :: "label \<Rightarrow> (memory_keystore, encrypted_entry option) backend_op" where
  "mem_get l inner = (inner, Inr (map_of inner l))"

definition mem_list :: "(memory_keystore, key_metadata list) backend_op" where
  "mem_list inner = (inner, Inr (map metadata (al_values inner)))"

definition mem_remove :: "label \<Rightarrow> (memory_keystore, bool) backend_op" where
  "mem_remove l inner = (AList.delete l inner, Inr (map_of inner l \<noteq> None))"

definition memory_backend :: "memory_keystore backend_ops" where
  "memory_backend = \<lparr>be_put = mem_put, be_put_many = mem_put_many, be_get = mem_get,
     be_list = mem_list, be_remove = mem_remove\<rparr>"

end
