(* ===== verification/Fs_Model.thy ===== *)
theory Fs_Model
  imports Keychain "HOL-Library.List_Lexorder" "HOL-Library.Char_ord"
begin

section \<open>The filesystem keystore (\<^verbatim>\<open>src/src/keystore/store/fs.rs\<close>)\<close>

text \<open>
  The store keeps one file per label and a work directory \<^verbatim>\<open>.tmp\<close> with the lock, the journal and the
  staged entries of a batch. The disk is a map from paths to nodes. Every system call of the code is
  one primitive; before it takes effect a sequence of decisions says whether it is carried out, fails with an
  I/O error or is the point where the process dies, and what a torn write or a partial removal of the
  staging directory leaves behind. Renames and removals of single files are atomic. The serialisation
  (\<^verbatim>\<open>cbor4ii\<close>), the order of directory listings and the text of errors are parameters (\<open>fs_env\<close>).
  Entries are regular files or directories; symbolic links are outside the model.
\<close>

subsection \<open>The disk\<close>

datatype node = RegularFile bytes | Directory

datatype path = Outside | Dir | Entry string | Work | LOCK | JOURNAL | COMMITTED | JOURNAL_NEW | RESTORE
  | STAGING | Staged nat

type_synonym disk = "path \<Rightarrow> node option"

datatype io_error = IoNotFound | IoAlreadyExists | IoError string

record torn =
  torn_bytes :: "bytes option"
  torn_kept :: "nat \<Rightarrow> bool"

datatype decision = Succeed | Fault torn | Crash torn

record world =
  files :: disk
  decisions :: "decision list"

datatype ('a, 'e) outcome = Done 'a world | Failed 'e world | Crashed disk

type_synonym ('a, 'e) fio = "world \<Rightarrow> ('a, 'e) outcome"

subsection \<open>Sequencing\<close>

definition fio_return :: "'a \<Rightarrow> ('a, 'e) fio" where
  "fio_return a w = Done a w"

definition fio_error :: "'e \<Rightarrow> ('a, 'e) fio" where
  "fio_error e w = Failed e w"

definition fio_pure :: "('a, 'e) result \<Rightarrow> ('a, 'e) fio" where
  "fio_pure r = (case r of Inl e \<Rightarrow> fio_error e | Inr a \<Rightarrow> fio_return a)"

definition fio_bind :: "('a, 'e) fio \<Rightarrow> ('a \<Rightarrow> ('b, 'e) fio) \<Rightarrow> ('b, 'e) fio" where
  "fio_bind m f w = (case m w of Done a w \<Rightarrow> f a w | Failed e w \<Rightarrow> Failed e w | Crashed d \<Rightarrow> Crashed d)"

definition fio_catch :: "('a, 'e) fio \<Rightarrow> ('e \<Rightarrow> ('a, 'f) fio) \<Rightarrow> ('a, 'f) fio" where
  "fio_catch m h w = (case m w of Done a w \<Rightarrow> Done a w | Failed e w \<Rightarrow> h e w | Crashed d \<Rightarrow> Crashed d)"

definition map_err :: "('e \<Rightarrow> 'f) \<Rightarrow> ('a, 'e) fio \<Rightarrow> ('a, 'f) fio" where
  "map_err f m = fio_catch m (\<lambda>e. fio_error (f e))"

definition prim :: "(disk \<Rightarrow> disk \<times> ('a, io_error) result) \<Rightarrow> (torn \<Rightarrow> disk \<Rightarrow> disk) \<Rightarrow> ('a, io_error) fio" where
  "prim eff tear w =
     (case decisions w of
        Fault t # rest \<Rightarrow> Failed (IoError ''fault'') \<lparr>files = tear t (files w), decisions = rest\<rparr>
      | Crash t # rest \<Rightarrow> Crashed (tear t (files w))
      | rest \<Rightarrow> (case eff (files w) of
           (d, Inl e) \<Rightarrow> Failed e \<lparr>files = d, decisions = tl rest\<rparr>
         | (d, Inr a) \<Rightarrow> Done a \<lparr>files = d, decisions = tl rest\<rparr>))"

definition quiet :: "torn \<Rightarrow> disk \<Rightarrow> disk" where
  "quiet t d = d"

subsection \<open>System calls\<close>

definition try_exists :: "path \<Rightarrow> (bool, io_error) fio" where
  "try_exists p = prim (\<lambda>d. (d, Inr (d p \<noteq> None))) quiet"

definition is_dir :: "path \<Rightarrow> (bool, 'e) fio" where
  "is_dir p w = Done (files w p = Some Directory) w"

definition file_type_is_dir :: "path \<Rightarrow> (bool, io_error) fio" where
  "file_type_is_dir p = prim (\<lambda>d. (d, Inr (d p = Some Directory))) quiet"

definition fs_read :: "path \<Rightarrow> (bytes, io_error) fio" where
  "fs_read p = prim (\<lambda>d. (d, case d p of
     None \<Rightarrow> Inl IoNotFound
   | Some Directory \<Rightarrow> Inl (IoError ''is a directory'')
   | Some (RegularFile b) \<Rightarrow> Inr b)) quiet"

definition not_regular_file :: "path \<Rightarrow> (bool, 'e) fio" where
  "not_regular_file p w = (case prim (\<lambda>d. (d, Inr (d p = Some Directory))) quiet w of
     Done b w \<Rightarrow> Done b w | Failed e w \<Rightarrow> Done False w | Crashed d \<Rightarrow> Crashed d)"

text \<open>
  Every call on the disk is durable at once, so synchronising a directory can fail or be interrupted but changes nothing; losing data
  that was not synchronised is outside the model.
\<close>

definition sync_dir :: "path \<Rightarrow> (unit, io_error) fio" where
  "sync_dir p = prim (\<lambda>d. (d, if d p = None then Inl IoNotFound else Inr ())) quiet"

definition make_dir :: "path \<Rightarrow> (unit, io_error) fio" where
  "make_dir p = prim (\<lambda>d. if d p = None then (d(p \<mapsto> Directory), Inr ()) else (d, Inl IoAlreadyExists)) quiet"

definition write_new :: "path \<Rightarrow> bytes \<Rightarrow> (unit, io_error) fio" where
  "write_new p b = prim (\<lambda>d. if d p = None then (d(p \<mapsto> RegularFile b), Inr ()) else (d, Inl IoAlreadyExists))
     (\<lambda>t d. case torn_bytes t of Some b' \<Rightarrow> if d p = None then d(p \<mapsto> RegularFile b') else d | None \<Rightarrow> d)"

definition rename_file :: "path \<Rightarrow> path \<Rightarrow> (unit, io_error) fio" where
  "rename_file p q = prim (\<lambda>d. case d p of
     None \<Rightarrow> (d, Inl IoNotFound)
   | Some Directory \<Rightarrow> (d, Inl (IoError ''is a directory''))
   | Some (RegularFile b) \<Rightarrow>
       if d q = Some Directory then (d, Inl (IoError ''is a directory''))
       else (d(q \<mapsto> RegularFile b, p := None), Inr ())) quiet"

definition unlink :: "path \<Rightarrow> (unit, io_error) fio" where
  "unlink p = prim (\<lambda>d. case d p of
     None \<Rightarrow> (d, Inl IoNotFound)
   | Some Directory \<Rightarrow> (d, Inl (IoError ''is a directory''))
   | Some (RegularFile b) \<Rightarrow> (d(p := None), Inr ())) quiet"

definition remove_staging_dir :: "(unit, io_error) fio" where
  "remove_staging_dir = prim
     (\<lambda>d. if d STAGING = None then (d, Inl IoNotFound)
          else (\<lambda>p. case p of STAGING \<Rightarrow> None | Staged i \<Rightarrow> None | _ \<Rightarrow> d p, Inr ()))
     (\<lambda>t d p. case p of Staged i \<Rightarrow> if torn_kept t i then d p else None | _ \<Rightarrow> d p)"

definition remove_file :: "path \<Rightarrow> (bool, io_error) fio" where
  "remove_file p = fio_catch (fio_bind (unlink p) (\<lambda>_. fio_return True))
     (\<lambda>e. if e = IoNotFound then fio_return False else fio_error e)"

fun parent :: "path \<Rightarrow> path option" where
  "parent Outside = None"
| "parent Dir = Some Outside"
| "parent (Entry l) = Some Dir"
| "parent Work = Some Dir"
| "parent (Staged i) = Some STAGING"
| "parent _ = Some Work"

fun depth :: "path \<Rightarrow> nat" where
  "depth Outside = 0"
| "depth Dir = 1"
| "depth (Entry l) = 2"
| "depth Work = 2"
| "depth (Staged i) = 4"
| "depth _ = 3"

lemma depth_parent: "parent p = Some q \<Longrightarrow> depth q < depth p"
  by (cases p) auto

function (sequential) create_dir :: "path \<Rightarrow> (unit, io_error) fio" where
  "create_dir p = fio_bind (is_dir p) (\<lambda>exists.
     if exists then fio_return ()
     else fio_bind (case parent p of None \<Rightarrow> fio_return () | Some q \<Rightarrow> create_dir q) (\<lambda>_.
       fio_bind (fio_catch (make_dir p) (\<lambda>e.
           fio_bind (is_dir p) (\<lambda>now.
             if e = IoAlreadyExists \<and> now then fio_return () else fio_error e))) (\<lambda>_.
       fio_bind (sync_dir p) (\<lambda>_.
       sync_dir (case parent p of None \<Rightarrow> Outside | Some q \<Rightarrow> q)))))"
  by pat_completeness auto
termination
  by (relation "measure depth") (auto intro: depth_parent)

declare create_dir.simps [simp del]

subsection \<open>The store\<close>

record journal =
  journal_version :: u32
  originals :: "(string \<times> bytes option) list"

record fs_env =
  enc_entry :: "encrypted_entry \<Rightarrow> (bytes, string) result"
  dec_entry :: "bytes \<Rightarrow> (encrypted_entry, string) result"
  enc_journal :: "journal \<Rightarrow> (bytes, string) result"
  dec_journal :: "bytes \<Rightarrow> (journal, string) result"
  dir_order :: "disk \<Rightarrow> string list"
  io_text :: "io_error \<Rightarrow> string"
  error_text :: "ks_error \<Rightarrow> string"

definition backend_io :: "fs_env \<Rightarrow> ('a, io_error) fio \<Rightarrow> ('a, ks_error) fio" where
  "backend_io fe m = map_err (\<lambda>e. Backend (io_text fe e)) m"

definition backend_other :: "('a, string) result \<Rightarrow> ('a, ks_error) fio" where
  "backend_other r = fio_pure (map_sum Backend (\<lambda>a. a) r)"

definition io_other :: "('a, string) result \<Rightarrow> ('a, io_error) fio" where
  "io_other r = fio_pure (map_sum IoError (\<lambda>a. a) r)"

definition entry_file :: "label \<Rightarrow> path" where
  "entry_file l = (if l = ''.tmp'' then Work else Entry l)"

definition entry_path :: "label \<Rightarrow> path ks_result" where
  "entry_path l = try_res (validate_label l) (\<lambda>_. Inr (entry_file l))"

fun encode_entries ::
  "fs_env \<Rightarrow> (label, bytes) alist \<Rightarrow> encrypted_entry list \<Rightarrow> ((label, bytes) alist, ks_error) fio" where
  "encode_entries fe encoded [] = fio_return encoded"
| "encode_entries fe encoded (entry # rest) =
     fio_bind (fio_pure (entry_path (md_label (metadata entry)))) (\<lambda>path.
     fio_bind (not_regular_file path) (\<lambda>bad.
     if bad then fio_error (Backend ''key entry must be a regular file'')
     else fio_bind (backend_other (enc_entry fe entry)) (\<lambda>bs.
       encode_entries fe (bt_insert (md_label (metadata entry)) bs encoded) rest)))"

fun stage_entries ::
  "fs_env \<Rightarrow> nat \<Rightarrow> (string \<times> bytes option) list \<Rightarrow> (label, bytes) alist \<Rightarrow>
   ((string \<times> bytes option) list, ks_error) fio" where
  "stage_entries fe index origs [] = fio_return origs"
| "stage_entries fe index origs ((l, bs) # rest) =
     fio_bind (backend_io fe (fio_catch (fio_bind (fs_read (entry_file l)) (\<lambda>b. fio_return (Some b)))
        (\<lambda>e. if e = IoNotFound then fio_return None else fio_error e))) (\<lambda>old.
     fio_bind (backend_io fe (write_new (Staged index) bs)) (\<lambda>_.
     stage_entries fe (Suc index) (origs @ [(l, old)]) rest))"

definition prepare :: "fs_env \<Rightarrow> encrypted_entry list \<Rightarrow> (label list, ks_error) fio" where
  "prepare fe entries =
     fio_bind (encode_entries fe [] entries) (\<lambda>encoded.
     fio_bind (backend_io fe (create_dir STAGING)) (\<lambda>_.
     fio_bind (stage_entries fe 0 [] encoded) (\<lambda>origs.
     fio_bind (backend_io fe (sync_dir STAGING)) (\<lambda>_.
     fio_bind (backend_other (enc_journal fe \<lparr>journal_version = 1, originals = origs\<rparr>)) (\<lambda>bs.
     fio_bind (backend_io fe (write_new JOURNAL_NEW bs)) (\<lambda>_.
     fio_bind (backend_io fe (rename_file JOURNAL_NEW JOURNAL)) (\<lambda>_.
     fio_bind (backend_io fe (sync_dir Work)) (\<lambda>_.
     fio_return (keys encoded)))))))))"

fun check_journal_labels :: "fs_env \<Rightarrow> (string \<times> bytes option) list \<Rightarrow> (unit, io_error) result" where
  "check_journal_labels fe [] = Inr ()"
| "check_journal_labels fe ((l, original) # rest) = (case validate_label l of
     Inl e \<Rightarrow> Inl (IoError (error_text fe e))
   | Inr _ \<Rightarrow> if l = ''.tmp'' then Inl (IoError ''invalid journal label'') else check_journal_labels fe rest)"

fun restore_entries :: "(string \<times> bytes option) list \<Rightarrow> (unit, io_error) fio" where
  "restore_entries [] = fio_return ()"
| "restore_entries ((l, original) # rest) =
     fio_bind (case original of
        Some bs \<Rightarrow> fio_bind (remove_file RESTORE) (\<lambda>_.
          fio_bind (write_new RESTORE bs) (\<lambda>_. rename_file RESTORE (entry_file l)))
      | None \<Rightarrow> fio_bind (remove_file (entry_file l)) (\<lambda>_. fio_return ())) (\<lambda>_.
     restore_entries rest)"

definition rollback_journal :: "fs_env \<Rightarrow> (unit, io_error) fio" where
  "rollback_journal fe =
     fio_bind (fs_read JOURNAL) (\<lambda>bs.
     fio_bind (io_other (dec_journal fe bs)) (\<lambda>j.
     if journal_version j \<noteq> 1 then fio_error (IoError ''unsupported keystore journal'')
     else
       fio_bind (fio_pure (check_journal_labels fe (originals j))) (\<lambda>_.
       fio_bind (restore_entries (originals j)) (\<lambda>_.
       fio_bind (sync_dir Dir) (\<lambda>_.
       fio_bind (remove_file JOURNAL) (\<lambda>_.
       sync_dir Work))))))"

definition cleanup :: "(unit, io_error) fio" where
  "cleanup =
     fio_bind (remove_file COMMITTED) (\<lambda>_.
     fio_bind (remove_file JOURNAL_NEW) (\<lambda>_.
     fio_bind (remove_file RESTORE) (\<lambda>_.
     fio_bind (fio_catch remove_staging_dir
        (\<lambda>e. if e = IoNotFound then fio_return () else fio_error e)) (\<lambda>_.
     sync_dir Work))))"

definition recover :: "fs_env \<Rightarrow> (unit, io_error) fio" where
  "recover fe =
     fio_bind (try_exists COMMITTED) (\<lambda>committed.
     fio_bind (if committed then try_exists JOURNAL else fio_return False) (\<lambda>conflict.
     if conflict then fio_error (IoError ''conflicting keystore journals'')
     else
       fio_bind (try_exists JOURNAL) (\<lambda>pending.
       fio_bind (if pending then rollback_journal fe else fio_return ()) (\<lambda>_. cleanup))))"

definition rollback_error :: "fs_env \<Rightarrow> ks_error \<Rightarrow> ('a, ks_error) fio" where
  "rollback_error fe error =
     fio_bind (map_err (\<lambda>recovery. Backend (error_text fe error @
         ''. Keystore recovery also failed with '' @ io_text fe recovery)) (recover fe))
       (\<lambda>_. fio_error error)"

fun replace_entries :: "(nat \<Rightarrow> (unit, io_error) result) \<Rightarrow> nat \<Rightarrow> label list \<Rightarrow> (unit, io_error) fio" where
  "replace_entries after_replace index [] = fio_return ()"
| "replace_entries after_replace index (l # ls) =
     fio_bind (rename_file (Staged index) (entry_file l)) (\<lambda>_.
     fio_bind (fio_pure (after_replace index)) (\<lambda>_.
     replace_entries after_replace (Suc index) ls))"

definition apply_batch :: "(nat \<Rightarrow> (unit, io_error) result) \<Rightarrow> label list \<Rightarrow> (unit, io_error) fio" where
  "apply_batch after_replace labels =
     fio_bind (replace_entries after_replace 0 labels) (\<lambda>_.
     fio_bind (sync_dir Dir) (\<lambda>_.
     rename_file JOURNAL COMMITTED))"

definition finish_batch :: "fs_env \<Rightarrow> (unit, ks_error) fio" where
  "finish_batch fe =
     fio_bind (backend_io fe (sync_dir Work)) (\<lambda>_.
     fio_catch (recover fe) (\<lambda>_. fio_return ()))"

text \<open>
  An error of \<^verbatim>\<open>prepare\<close> or of the replacement rolls the batch back; an error after the commit record
  is in place does not.
\<close>

definition commit_batch ::
  "fs_env \<Rightarrow> encrypted_entry list \<Rightarrow> (nat \<Rightarrow> (unit, io_error) result) \<Rightarrow> (unit, ks_error) fio" where
  "commit_batch fe entries after_replace =
     fio_bind (fio_catch
       (fio_bind (prepare fe entries) (\<lambda>labels. backend_io fe (apply_batch after_replace labels)))
       (rollback_error fe)) (\<lambda>_.
     finish_batch fe)"

definition open_lock :: "(unit, io_error) fio" where
  "open_lock = prim (\<lambda>d. case d LOCK of
     None \<Rightarrow> (d(LOCK \<mapsto> RegularFile []), Inr ())
   | Some Directory \<Rightarrow> (d, Inl (IoError ''is a directory''))
   | Some (RegularFile b) \<Rightarrow> (d, Inr ())) quiet"

definition lock_file :: "(unit, io_error) fio" where
  "lock_file = prim (\<lambda>d. (d, Inr ())) quiet"

definition fs_lock :: "fs_env \<Rightarrow> (unit, ks_error) fio" where
  "fs_lock fe = backend_io fe (fio_bind (create_dir Work) (\<lambda>_. fio_bind open_lock (\<lambda>_. lock_file)))"

definition access :: "fs_env \<Rightarrow> bool \<Rightarrow> 'a \<Rightarrow> ('a, ks_error) fio \<Rightarrow> ('a, ks_error) fio" where
  "access fe create missing operation =
     fio_bind (if create then fio_return True else backend_io fe (try_exists Dir)) (\<lambda>present.
     if \<not> present then fio_return missing
     else fio_bind (fs_lock fe) (\<lambda>_.
       fio_bind (backend_io fe (recover fe)) (\<lambda>_. operation)))"

definition fs_put_many :: "fs_env \<Rightarrow> encrypted_entry list \<Rightarrow> (unit, ks_error) fio" where
  "fs_put_many fe entries =
     (if entries = [] then access fe False () (fio_return ())
      else access fe True () (commit_batch fe entries (\<lambda>_. Inr ())))"

definition fs_put :: "fs_env \<Rightarrow> encrypted_entry \<Rightarrow> (unit, ks_error) fio" where
  "fs_put fe entry = fs_put_many fe [entry]"

definition fs_get :: "fs_env \<Rightarrow> label \<Rightarrow> (encrypted_entry option, ks_error) fio" where
  "fs_get fe l =
     fio_bind (fio_pure (entry_path l)) (\<lambda>_.
     access fe False None
       (fio_bind (backend_io fe (fio_catch (fio_bind (fs_read (entry_file l)) (\<lambda>b. fio_return (Some b)))
          (\<lambda>e. if e = IoNotFound then fio_return None else fio_error e))) (\<lambda>got.
        case got of None \<Rightarrow> fio_return None
        | Some bs \<Rightarrow> fio_bind (backend_other (dec_entry fe bs)) (\<lambda>e. fio_return (Some e)))))"

fun list_entries :: "fs_env \<Rightarrow> key_metadata list \<Rightarrow> string list \<Rightarrow> (key_metadata list, ks_error) fio" where
  "list_entries fe ms [] = fio_return ms"
| "list_entries fe ms (name # names) =
     fio_bind (backend_io fe (file_type_is_dir (entry_file name))) (\<lambda>subdir.
     if subdir then
       (if name = ''.tmp'' then list_entries fe ms names
        else fio_error (Backend ''keystore contains an unexpected entry''))
     else
       fio_bind (backend_io fe (fs_read (entry_file name))) (\<lambda>bs.
       fio_bind (backend_other (dec_entry fe bs)) (\<lambda>decoded.
       if name \<noteq> md_label (metadata decoded)
       then fio_error (Backend ''key entry label does not match its file name'')
       else list_entries fe (ms @ [metadata decoded]) names)))"

definition read_dir :: "fs_env \<Rightarrow> (string list, io_error) fio" where
  "read_dir fe = prim (\<lambda>d. (d, if d Dir = None then Inl IoNotFound else Inr (dir_order fe d))) quiet"

definition fs_list :: "fs_env \<Rightarrow> (key_metadata list, ks_error) fio" where
  "fs_list fe = access fe False []
     (fio_bind (backend_io fe (read_dir fe)) (\<lambda>names. list_entries fe [] names))"

definition fs_remove :: "fs_env \<Rightarrow> label \<Rightarrow> (bool, ks_error) fio" where
  "fs_remove fe l =
     fio_bind (fio_pure (entry_path l)) (\<lambda>_.
     access fe False False
       (fio_bind (backend_io fe (remove_file (entry_file l))) (\<lambda>removed.
        fio_bind (backend_io fe (sync_dir Dir)) (\<lambda>_. fio_return removed))))"

end
