(* ===== verification/Fs_Crash.thy ===== *)
theory Fs_Crash
  imports Fs_Model
begin

section \<open>Crash safety of the filesystem keystore\<close>

text \<open>
  A program logic for the store, with a postcondition for normal return, one for errors and one for
  the state a crash leaves behind. The central notion is \<open>recovered\<close>, the entries that a complete
  recovery would leave: the journal's originals over what is in the directory. Every step of
  recovery keeps it, and a batch keeps it or moves from the old entries to the new ones in the single
  step that renames the journal.
\<close>

subsection \<open>Triples\<close>

definition cspec :: "(disk \<Rightarrow> bool) \<Rightarrow> ('a, 'e) fio \<Rightarrow> ('a \<Rightarrow> disk \<Rightarrow> bool) \<Rightarrow> (disk \<Rightarrow> bool) \<Rightarrow> (disk \<Rightarrow> bool) \<Rightarrow> bool" where
  "cspec P m Q E C \<longleftrightarrow> (\<forall>w. P (files w) \<longrightarrow> (case m w of
     Done a w' \<Rightarrow> Q a (files w') | Failed e w' \<Rightarrow> E (files w') | Crashed d \<Rightarrow> C d))"

lemma cspecD:
  assumes "cspec P m Q E C" "P (files w)"
  shows "m w = Done a w' \<Longrightarrow> Q a (files w')" "m w = Failed e w' \<Longrightarrow> E (files w')" "m w = Crashed d \<Longrightarrow> C d"
  using assms by (auto simp: cspec_def split: outcome.splits)

lemma fio_bind_pure [simp]:
  "fio_bind (fio_return a) f = f a"
  "fio_bind (fio_error e) f = fio_error e"
  "fio_pure (Inr a) = fio_return a"
  "fio_pure (Inl e) = fio_error e"
  by (simp_all add: fio_bind_def fio_return_def fio_error_def fio_pure_def fun_eq_iff)

lemma cspec_return: "(\<And>d. P d \<Longrightarrow> Q a d) \<Longrightarrow> cspec P (fio_return a) Q E C"
  by (simp add: cspec_def fio_return_def)

lemma cspec_error: "(\<And>d. P d \<Longrightarrow> E d) \<Longrightarrow> cspec P (fio_error e) Q E C"
  by (simp add: cspec_def fio_error_def)

lemma cspec_pure:
  "(\<And>a d. r = Inr a \<Longrightarrow> P d \<Longrightarrow> Q a d) \<Longrightarrow> (\<And>e d. r = Inl e \<Longrightarrow> P d \<Longrightarrow> E d) \<Longrightarrow> cspec P (fio_pure r) Q E C"
  by (cases r) (auto simp: fio_pure_def intro: cspec_return cspec_error)

lemma cspec_bind:
  assumes "cspec P m S E C" "\<And>a. cspec (S a) (f a) Q E C"
  shows "cspec P (fio_bind m f) Q E C"
  unfolding cspec_def
proof (intro allI impI)
  fix w :: world assume "P (files w)"
  with assms(1) show "case fio_bind m f w of Done a w' \<Rightarrow> Q a (files w') | Failed e w' \<Rightarrow> E (files w') | Crashed d \<Rightarrow> C d"
    by (cases "m w") (use assms(2) in \<open>fastforce simp: cspec_def fio_bind_def\<close>)+
qed

lemma cspec_catch:
  assumes "cspec P m Q F C" "\<And>e. cspec F (h e) Q E C"
  shows "cspec P (fio_catch m h) Q E C"
  unfolding cspec_def
proof (intro allI impI)
  fix w :: world assume "P (files w)"
  with assms(1) show "case fio_catch m h w of Done a w' \<Rightarrow> Q a (files w') | Failed e w' \<Rightarrow> E (files w') | Crashed d \<Rightarrow> C d"
    by (cases "m w") (use assms(2) in \<open>fastforce simp: cspec_def fio_catch_def\<close>)+
qed

lemma cspec_map_err: "cspec P m Q E C \<Longrightarrow> cspec P (map_err f m) Q E C"
  unfolding map_err_def by (rule cspec_catch) (auto intro: cspec_error)

lemma cspec_backend_io: "cspec P m Q E C \<Longrightarrow> cspec P (backend_io fe m) Q E C"
  unfolding backend_io_def by (rule cspec_map_err)

lemma cspec_conseq:
  assumes "cspec P m Q E C" "\<And>d. P' d \<Longrightarrow> P d" "\<And>a d. Q a d \<Longrightarrow> Q' a d" "\<And>d. E d \<Longrightarrow> E' d" "\<And>d. C d \<Longrightarrow> C' d"
  shows "cspec P' m Q' E' C'"
  using assms unfolding cspec_def by (fastforce split: outcome.splits)

lemma cspec_pull: "(A \<Longrightarrow> cspec P m Q E C) \<Longrightarrow> cspec (\<lambda>d. A \<and> P d) m Q E C"
  by (auto simp: cspec_def)

lemma cspec_pull_ex: "(\<And>x. cspec (P x) m Q E C) \<Longrightarrow> cspec (\<lambda>d. \<exists>x. P x d) m Q E C"
  by (auto simp: cspec_def)

lemma cspec_prim:
  assumes "\<And>d. P d \<Longrightarrow> (case eff d of (d', Inr a) \<Rightarrow> Q a d' | (d', Inl e) \<Rightarrow> E d')"
    and "\<And>d t. P d \<Longrightarrow> E (tear t d) \<and> C (tear t d)"
  shows "cspec P (prim eff tear) Q E C"
  unfolding cspec_def prim_def
proof (intro allI impI)
  fix w :: world assume P: "P (files w)"
  have run: "case (case eff (files w) of (d, Inl e) \<Rightarrow> Failed e \<lparr>files = d, decisions = rest\<rparr>
      | (d, Inr a) \<Rightarrow> Done a \<lparr>files = d, decisions = rest\<rparr>) of
      Done a w' \<Rightarrow> Q a (files w') | Failed e w' \<Rightarrow> E (files w') | Crashed d \<Rightarrow> C d" for rest
    using assms(1) [OF P] by (auto split: prod.splits sum.splits)
  show "case (case decisions w of
        Fault t # rest \<Rightarrow> Failed (IoError ''fault'') \<lparr>files = tear t (files w), decisions = rest\<rparr>
      | Crash t # rest \<Rightarrow> Crashed (tear t (files w))
      | rest \<Rightarrow> (case eff (files w) of
           (d, Inl e) \<Rightarrow> Failed e \<lparr>files = d, decisions = tl rest\<rparr>
         | (d, Inr a) \<Rightarrow> Done a \<lparr>files = d, decisions = tl rest\<rparr>)) of
      Done a w' \<Rightarrow> Q a (files w') | Failed e w' \<Rightarrow> E (files w') | Crashed d \<Rightarrow> C d"
  proof (cases "decisions w")
    case Nil
    then show ?thesis using run by simp
  next
    case (Cons x rest)
    then show ?thesis using run assms(2) [OF P] by (cases x) simp_all
  qed
qed

subsection \<open>Primitives that keep a predicate\<close>

definition inert :: "(disk \<Rightarrow> bool) \<Rightarrow> path \<Rightarrow> bool" where
  "inert P p \<longleftrightarrow> (\<forall>d x. P d \<longrightarrow> P (d(p := x)))"

lemma inertD: "inert P p \<Longrightarrow> P d \<Longrightarrow> P (d(p := x))"
  by (simp add: inert_def)

lemma keeps_quiet:
  "cspec P (try_exists p) (\<lambda>b d. P d \<and> b = (d p \<noteq> None)) P P"
  "cspec P (fs_read p) (\<lambda>b d. P d \<and> d p = Some (RegularFile b)) P P"
  "cspec P (sync_dir p) (\<lambda>_. P) P P"
  "cspec P (is_dir p) (\<lambda>b d. P d \<and> b = (d p = Some Directory)) P P"
  "cspec P (file_type_is_dir p) (\<lambda>b d. P d \<and> b = (d p = Some Directory)) P P"
  "cspec P (not_regular_file p) (\<lambda>_. P) P P"
  "cspec P lock_file (\<lambda>_. P) P P"
  "cspec P (read_dir fe) (\<lambda>xs d. P d \<and> xs = dir_order fe d) P P"
proof -
  show "cspec P (not_regular_file p) (\<lambda>_. P) P P"
    by (auto simp: cspec_def not_regular_file_def prim_def quiet_def split: list.splits decision.splits)
qed (auto simp: try_exists_def fs_read_def sync_dir_def is_dir_def file_type_is_dir_def lock_file_def read_dir_def
    quiet_def cspec_def [of _ "is_dir p"] split: option.splits node.splits intro!: cspec_prim)

lemma fs_read_missing:
  "cspec P (fio_catch (fio_bind (fs_read p) (\<lambda>b. fio_return (Some b)))
      (\<lambda>e. if e = IoNotFound then fio_return None else fio_error e))
     (\<lambda>got d. P d \<and> d p = map_option RegularFile got) P P"
  by (auto simp: cspec_def fio_catch_def fio_bind_def fs_read_def prim_def fio_return_def fio_error_def quiet_def
      split: list.splits decision.splits option.splits node.splits)

lemma keeps_inert:
  assumes "inert P p"
  shows "cspec P (write_new p b) (\<lambda>_ d. P d \<and> d p = Some (RegularFile b)) P P"
    and "cspec P (unlink p) (\<lambda>_. P) P P"
    and "p = LOCK \<Longrightarrow> cspec P open_lock (\<lambda>_. P) P P"
  unfolding write_new_def unlink_def open_lock_def
  by (rule cspec_prim; use assms in \<open>auto simp: quiet_def inertD split: option.splits node.splits\<close>)+

lemma keeps_remove_file:
  assumes "inert P p"
  shows "cspec P (remove_file p) (\<lambda>_ d. P d \<and> d p = None) P P"
proof -
  have "cspec P (unlink p) (\<lambda>_ d. P d \<and> d p = None) P P"
    unfolding unlink_def
    by (rule cspec_prim) (use assms in \<open>auto simp: quiet_def inertD split: option.splits node.splits\<close>)
  then show ?thesis
    using assms
    by (auto simp: remove_file_def cspec_def fio_catch_def fio_bind_def fio_return_def fio_error_def unlink_def prim_def quiet_def
        inertD split: list.splits decision.splits option.splits node.splits)
qed

lemma keeps_remove_staging:
  assumes "\<And>d d'. P d \<Longrightarrow> (\<And>p. p \<noteq> STAGING \<Longrightarrow> (\<forall>i. p \<noteq> Staged i) \<Longrightarrow> d' p = d p) \<Longrightarrow> P d'"
  shows "cspec P remove_staging_dir (\<lambda>_. P) P P"
  unfolding remove_staging_dir_def
proof (rule cspec_prim, goal_cases)
  case (1 d)
  have "P (\<lambda>p. case p of STAGING \<Rightarrow> None | Staged i \<Rightarrow> None | _ \<Rightarrow> d p)"
    by (rule assms [OF 1]) (auto split: path.splits)
  with 1 show ?case by simp
next
  case (2 d t)
  have "P (\<lambda>p. case p of Staged i \<Rightarrow> if torn_kept t i then d p else None | _ \<Rightarrow> d p)"
    by (rule assms [OF 2]) (auto split: path.splits)
  then show ?case by simp
qed

lemma keeps_make_dir:
  assumes "\<And>d. P d \<Longrightarrow> P (d(p \<mapsto> Directory))"
  shows "cspec P (make_dir p) (\<lambda>_. P) P P"
  unfolding make_dir_def by (rule cspec_prim) (use assms in \<open>auto simp: quiet_def\<close>)

lemma keeps_create_dir:
  assumes "\<And>q d. depth q \<le> depth p \<Longrightarrow> q \<in> {Outside, Dir, Work, STAGING} \<Longrightarrow> P d \<Longrightarrow> P (d(q \<mapsto> Directory))"
    and "p \<in> {Outside, Dir, Work, STAGING}"
  shows "cspec P (create_dir p) (\<lambda>_. P) P P"
  using assms
proof (induction p rule: create_dir.induct)
  case (1 p)
  have par: "cspec P (case parent p of None \<Rightarrow> fio_return () | Some q \<Rightarrow> create_dir q) (\<lambda>_. P) P P"
  proof (cases "parent p")
    case (Some q)
    with 1(3) have q: "q \<in> {Outside, Dir, Work, STAGING}" by auto
    have i: "P (d(r \<mapsto> Directory))" if "depth r \<le> depth q" "r \<in> {Outside, Dir, Work, STAGING}" "P d" for r d
      by (rule 1(2)) (use that depth_parent [OF Some] in auto)
    have "cspec P (create_dir q) (\<lambda>_. P) P P" by (rule 1(1) [of False, OF _ Some]) (assumption | rule q | erule (2) i | simp)+
    with Some show ?thesis by simp
  qed (auto intro: cspec_return)
  have mk: "cspec P (fio_catch (make_dir p) (\<lambda>e. fio_bind (is_dir p) (\<lambda>now.
      if e = IoAlreadyExists \<and> now then fio_return () else fio_error e))) (\<lambda>_. P) P P"
    by (rule cspec_catch [OF keeps_make_dir], use 1(2,3) in blast)
      (rule cspec_bind [OF keeps_quiet(4)], auto intro: cspec_return cspec_error)
  show ?case
    unfolding create_dir.simps [of p]
    by (rule cspec_bind [OF keeps_quiet(4)])
      (auto intro!: cspec_return cspec_bind [OF par] cspec_bind [OF mk] cspec_bind [OF keeps_quiet(3)] keeps_quiet(3)
        intro: cspec_conseq [OF cspec_bind [OF par cspec_bind [OF mk cspec_bind [OF keeps_quiet(3) keeps_quiet(3)]]]])
qed

subsection \<open>What a disk recovers to\<close>

type_synonym view = "string \<Rightarrow> node option"

definition entries :: "disk \<Rightarrow> view" where
  "entries d l = d (Entry l)"

definition journal_ok :: "fs_env \<Rightarrow> journal \<Rightarrow> bool" where
  "journal_ok fe j \<longleftrightarrow> journal_version j = 1 \<and> check_journal_labels fe (originals j) = Inr ()
     \<and> distinct (map fst (originals j))"

definition settled :: "view \<Rightarrow> disk \<Rightarrow> bool" where
  "settled V d \<longleftrightarrow> d JOURNAL = None \<and> entries d = V"

definition journaled :: "fs_env \<Rightarrow> journal \<Rightarrow> view \<Rightarrow> disk \<Rightarrow> bool" where
  "journaled fe j V d \<longleftrightarrow> (\<exists>b. d JOURNAL = Some (RegularFile b) \<and> dec_journal fe b = Inr j)
     \<and> d COMMITTED = None \<and> journal_ok fe j
     \<and> (\<forall>l. case map_of (originals j) l of None \<Rightarrow> d (Entry l) = V l | Some orig \<Rightarrow> V l = map_option RegularFile orig)"

definition recoverable :: "fs_env \<Rightarrow> view \<Rightarrow> disk \<Rightarrow> bool" where
  "recoverable fe V d \<longleftrightarrow> settled V d \<or> (\<exists>j. journaled fe j V d)"

text \<open>The entries a complete recovery leaves, as a function of the disk.\<close>

definition pending_journal :: "fs_env \<Rightarrow> disk \<Rightarrow> journal option" where
  "pending_journal fe d = (case d JOURNAL of
     Some (RegularFile b) \<Rightarrow> (case dec_journal fe b of Inr j \<Rightarrow> Some j | Inl _ \<Rightarrow> None) | _ \<Rightarrow> None)"

definition recovered :: "fs_env \<Rightarrow> disk \<Rightarrow> view" where
  "recovered fe d l = (case pending_journal fe d of
     None \<Rightarrow> d (Entry l)
   | Some j \<Rightarrow> (case map_of (originals j) l of None \<Rightarrow> d (Entry l) | Some orig \<Rightarrow> map_option RegularFile orig))"

lemma recoverable_unique: "recoverable fe V d \<Longrightarrow> recovered fe d = V"
proof
  fix l assume "recoverable fe V d"
  then show "recovered fe d l = V l"
    unfolding recoverable_def
  proof
    assume "settled V d"
    then show ?thesis by (auto simp: settled_def recovered_def pending_journal_def entries_def)
  next
    assume "\<exists>j. journaled fe j V d"
    then obtain j b where "d JOURNAL = Some (RegularFile b)" "dec_journal fe b = Inr j" and
      V: "case map_of (originals j) l of None \<Rightarrow> d (Entry l) = V l | Some orig \<Rightarrow> V l = map_option RegularFile orig"
      by (auto simp: journaled_def)
    then have "pending_journal fe d = Some j" by (simp add: pending_journal_def)
    with V show ?thesis by (auto simp: recovered_def split: option.splits)
  qed
qed

lemma settled_inert: "p \<noteq> JOURNAL \<Longrightarrow> (\<And>l. p \<noteq> Entry l) \<Longrightarrow> inert (settled V) p"
  by (auto simp: inert_def settled_def entries_def fun_eq_iff)

lemma journaled_inert:
  "p \<noteq> JOURNAL \<Longrightarrow> p \<noteq> COMMITTED \<Longrightarrow> (\<And>l. p = Entry l \<Longrightarrow> l \<in> fst ` set (originals j)) \<Longrightarrow> inert (journaled fe j V) p"
  unfolding inert_def journaled_def
  by (auto split: option.splits simp: map_of_eq_None_iff)

lemma recoverable_inert:
  assumes "p \<noteq> JOURNAL" "p \<noteq> COMMITTED" "\<And>l. p \<noteq> Entry l"
  shows "inert (recoverable fe V) p"
  using settled_inert [OF assms(1,3)] journaled_inert [OF assms(1,2)] assms(3)
  unfolding inert_def recoverable_def by metis

lemma check_journal_labels_Inr:
  "check_journal_labels fe origs = Inr () \<Longrightarrow> (l, orig) \<in> set origs \<Longrightarrow> validate_label l = Inr () \<and> l \<noteq> ''.tmp''"
  by (induction origs) (auto split: sum.splits if_splits)

lemma journal_entry_file: "journal_ok fe j \<Longrightarrow> l \<in> fst ` set (originals j) \<Longrightarrow> entry_file l = Entry l"
  by (auto simp: journal_ok_def entry_file_def dest: check_journal_labels_Inr)

subsection \<open>Recovery\<close>

text \<open>Restoring: the labels of the journal may hold anything; each step settles one of them.\<close>

definition restored :: "(string \<times> bytes option) list \<Rightarrow> disk \<Rightarrow> bool" where
  "restored origs d \<longleftrightarrow> (\<forall>(l, orig) \<in> set origs. d (Entry l) = map_option RegularFile orig)"

lemma restored_update:
  "restored origs d \<Longrightarrow> (\<And>l. p = Entry l \<Longrightarrow> l \<notin> fst ` set origs) \<Longrightarrow> restored origs (d(p := x))"
  unfolding restored_def by (fastforce simp: image_iff)

lemma restored_Cons [simp]:
  "restored ((l, orig) # origs) d \<longleftrightarrow> d (Entry l) = map_option RegularFile orig \<and> restored origs d"
  by (simp add: restored_def)

lemma rename_restored:
  assumes "inert P (Entry l)" "inert P RESTORE" "l \<notin> fst ` set origs"
  shows "cspec (\<lambda>d. (P d \<and> restored origs d) \<and> d RESTORE = Some (RegularFile b)) (rename_file RESTORE (Entry l))
     (\<lambda>_ d. P d \<and> restored ((l, Some b) # origs) d) P P"
  unfolding rename_file_def
proof (rule cspec_prim, goal_cases)
  case (1 d)
  then have "P (d(Entry l \<mapsto> RegularFile b, RESTORE := None))"
    "restored origs (d(Entry l \<mapsto> RegularFile b, RESTORE := None))"
    using assms by (auto intro!: inertD restored_update)
  with 1 show ?case by simp
qed (simp add: quiet_def)

lemma remove_restored:
  assumes "inert P (Entry l)" "l \<notin> fst ` set origs"
  shows "cspec (\<lambda>d. P d \<and> restored origs d) (remove_file (Entry l)) (\<lambda>_ d. P d \<and> restored ((l, None) # origs) d) P P"
proof -
  have "inert (\<lambda>d. P d \<and> restored origs d) (Entry l)"
    using assms by (auto simp: inert_def intro!: restored_update)
  from keeps_remove_file [OF this] show ?thesis by (rule cspec_conseq) auto
qed

lemma restore_entries_spec:
  assumes "\<And>l. l \<in> fst ` set origs \<Longrightarrow> inert P (Entry l) \<and> entry_file l = Entry l" "inert P RESTORE"
    and "distinct (map fst (rev doneList @ origs))"
  shows "cspec (\<lambda>d. P d \<and> restored doneList d) (restore_entries origs)
     (\<lambda>_ d. P d \<and> restored (rev origs @ doneList) d) P P"
  using assms
proof (induction origs arbitrary: doneList)
  case Nil
  show ?case by (auto intro: cspec_return)
next
  case (Cons x origs)
  obtain l orig where x: "x = (l, orig)" by (cases x)
  have l: "inert P (Entry l)" "entry_file l = Entry l" "l \<notin> fst ` set doneList"
    using Cons.prems x by auto
  have ir: "inert (\<lambda>d. P d \<and> restored doneList d) RESTORE"
    using Cons.prems(2) by (auto simp: inert_def intro!: restored_update)
  have step: "cspec (\<lambda>d. P d \<and> restored doneList d) (case orig of
        Some bs \<Rightarrow> fio_bind (remove_file RESTORE) (\<lambda>_.
          fio_bind (write_new RESTORE bs) (\<lambda>_. rename_file RESTORE (entry_file l)))
      | None \<Rightarrow> fio_bind (remove_file (entry_file l)) (\<lambda>_. fio_return ()))
      (\<lambda>_ d. P d \<and> restored (x # doneList) d) P P"
  proof (cases orig)
    case None
    show ?thesis unfolding None x l(2) option.case
      by (rule cspec_bind [OF remove_restored [OF l(1,3)]]) (auto intro: cspec_return)
  next
    case (Some b)
    have s1: "cspec (\<lambda>d. P d \<and> restored doneList d) (remove_file RESTORE) (\<lambda>_ d. P d \<and> restored doneList d) P P"
      by (rule cspec_conseq [OF keeps_remove_file [OF ir]]) auto
    have s2: "cspec (\<lambda>d. P d \<and> restored doneList d) (write_new RESTORE b)
        (\<lambda>_ d. (P d \<and> restored doneList d) \<and> d RESTORE = Some (RegularFile b)) P P"
      by (rule cspec_conseq [OF keeps_inert(1) [OF ir]]) auto
    show ?thesis unfolding Some x l(2) option.case
      by (rule cspec_bind [OF s1 cspec_bind [OF s2 rename_restored [OF l(1) Cons.prems(2) l(3)]]])
  qed
  have rest: "cspec (\<lambda>d. P d \<and> restored (x # doneList) d) (restore_entries origs)
     (\<lambda>_ d. P d \<and> restored (rev origs @ x # doneList) d) P P"
    by (rule Cons.IH) (use Cons.prems in auto)
  from cspec_bind [OF step rest] show ?case by (simp add: x)
qed

lemma journaled_restored:
  assumes "journaled fe j V d" "restored (rev (originals j)) d"
  shows "entries d = V"
proof
  fix l
  from assms(1) have at: "case map_of (originals j) l of None \<Rightarrow> d (Entry l) = V l
      | Some orig \<Rightarrow> V l = map_option RegularFile orig" by (simp add: journaled_def)
  show "entries d l = V l"
  proof (cases "map_of (originals j) l")
    case (Some orig)
    then have "(l, orig) \<in> set (originals j)" by (rule map_of_SomeD)
    with assms(2) Some at show ?thesis by (auto simp: restored_def entries_def)
  next
    case None
    with at show ?thesis by (simp add: entries_def)
  qed
qed

lemma journaled_recoverable: "journaled fe j V d \<Longrightarrow> recoverable fe V d"
  by (auto simp: recoverable_def)

lemma settled_recoverable: "settled V d \<Longrightarrow> recoverable fe V d"
  by (simp add: recoverable_def)

lemma remove_journal_spec:
  "cspec (\<lambda>d. journaled fe j V d \<and> entries d = V) (remove_file JOURNAL)
     (\<lambda>_ d. settled V d \<and> d COMMITTED = None) (recoverable fe V) (recoverable fe V)"
  by (auto simp: cspec_def remove_file_def fio_catch_def fio_bind_def fio_return_def fio_error_def unlink_def prim_def
      quiet_def journaled_def settled_def entries_def fun_eq_iff
      split: list.splits decision.splits intro: journaled_recoverable [unfolded journaled_def])

lemma cspec_weaken_EC:
  "cspec P m Q E C \<Longrightarrow> (\<And>d. E d \<Longrightarrow> E' d) \<Longrightarrow> (\<And>d. C d \<Longrightarrow> C' d) \<Longrightarrow> cspec P m Q E' C'"
  by (rule cspec_conseq)

lemma rollback_journal_spec:
  "cspec (journaled fe j V) (rollback_journal fe) (\<lambda>_ d. settled V d \<and> d COMMITTED = None)
     (recoverable fe V) (recoverable fe V)"
  unfolding rollback_journal_def
proof (rule cspec_bind [OF cspec_weaken_EC [OF keeps_quiet(2)]], goal_cases)
  case (3 b)
  have dec: "journaled fe j V d \<and> d JOURNAL = Some (RegularFile b) \<Longrightarrow> dec_journal fe b = Inr j \<and> journal_ok fe j" for d
    by (auto simp: journaled_def)
  show ?case
  proof (cases "dec_journal fe b = Inr j \<and> journal_ok fe j")
    case False
    with dec show ?thesis by (auto simp: cspec_def)
  next
    case True
    then have ok: "journal_version j = 1" "check_journal_labels fe (originals j) = Inr ()"
      and dist: "distinct (map fst (originals j))" by (auto simp: journal_ok_def)
    have inert: "inert (journaled fe j V) (Entry l) \<and> entry_file l = Entry l" if "l \<in> fst ` set (originals j)" for l
      using that True journal_entry_file by (auto intro!: journaled_inert)
    have "cspec (\<lambda>d. journaled fe j V d \<and> restored [] d) (restore_entries (originals j))
        (\<lambda>_ d. journaled fe j V d \<and> restored (rev (originals j) @ []) d) (journaled fe j V) (journaled fe j V)"
      by (rule restore_entries_spec) (use inert dist in \<open>auto intro!: journaled_inert\<close>)
    then have restore: "cspec (\<lambda>d. journaled fe j V d \<and> d JOURNAL = Some (RegularFile b)) (restore_entries (originals j))
        (\<lambda>_ d. journaled fe j V d \<and> entries d = V) (recoverable fe V) (recoverable fe V)"
      by (rule cspec_conseq) (auto simp: restored_def [of "[]"] intro: journaled_restored journaled_recoverable)
    have sync: "cspec (\<lambda>d. journaled fe j V d \<and> entries d = V) (sync_dir Dir)
        (\<lambda>_ d. journaled fe j V d \<and> entries d = V) (recoverable fe V) (recoverable fe V)"
      by (rule cspec_weaken_EC [OF keeps_quiet(3)]) (auto intro: journaled_recoverable)
    have last: "cspec (\<lambda>d. settled V d \<and> d COMMITTED = None) (sync_dir Work)
        (\<lambda>_ d. settled V d \<and> d COMMITTED = None) (recoverable fe V) (recoverable fe V)"
      by (rule cspec_weaken_EC [OF keeps_quiet(3)]) (auto intro: settled_recoverable)
    from True ok show ?thesis
      by (simp add: io_other_def)
        (rule cspec_bind [OF restore cspec_bind [OF sync cspec_bind [OF remove_journal_spec last]]])
  qed
qed (auto intro: journaled_recoverable)

lemma staging_irrelevant: "settled V d \<Longrightarrow> (\<And>p. p \<noteq> STAGING \<Longrightarrow> (\<forall>i. p \<noteq> Staged i) \<Longrightarrow> d' p = d p) \<Longrightarrow> settled V d'"
  by (auto simp: settled_def entries_def fun_eq_iff)

lemma cleanup_spec:
  "cspec (settled V) cleanup (\<lambda>_ d. settled V d \<and> d COMMITTED = None) (settled V) (settled V)"
proof -
  let ?P = "\<lambda>d. settled V d \<and> d COMMITTED = None"
  have rm: "cspec ?P (remove_file p) (\<lambda>_. ?P) (settled V) (settled V)" if "p = JOURNAL_NEW \<or> p = RESTORE" for p
  proof -
    have "inert ?P p" using that settled_inert [of p V] by (auto simp: inert_def)
    from keeps_remove_file [OF this] show ?thesis by (rule cspec_conseq) auto
  qed
  have first: "cspec (settled V) (remove_file COMMITTED) (\<lambda>_. ?P) (settled V) (settled V)"
    by (rule keeps_remove_file [OF settled_inert]) auto
  have "cspec ?P remove_staging_dir (\<lambda>_. ?P) ?P ?P"
    by (rule keeps_remove_staging) (auto intro: staging_irrelevant)
  then have stg: "cspec ?P (fio_catch remove_staging_dir (\<lambda>e. if e = IoNotFound then fio_return () else fio_error e))
      (\<lambda>_. ?P) (settled V) (settled V)"
    by (intro cspec_catch [where F = ?P]) (auto elim: cspec_conseq intro: cspec_return cspec_error)
  have sync: "cspec ?P (sync_dir Work) (\<lambda>_. ?P) (settled V) (settled V)"
    by (rule cspec_weaken_EC [OF keeps_quiet(3)]) auto
  show ?thesis unfolding cleanup_def
    by (rule cspec_bind [OF first cspec_bind [OF rm cspec_bind [OF rm cspec_bind [OF stg sync]]]]) simp_all
qed

lemma recover_spec:
  "cspec (recoverable fe V) (recover fe) (\<lambda>_ d. settled V d \<and> d COMMITTED = None)
     (recoverable fe V) (recoverable fe V)"
proof -
  have clean: "cspec (\<lambda>d. settled V d) cleanup (\<lambda>_ d. settled V d \<and> d COMMITTED = None)
     (recoverable fe V) (recoverable fe V)"
    by (rule cspec_weaken_EC [OF cleanup_spec]) (auto intro: settled_recoverable)
  have roll: "cspec (\<lambda>d. recoverable fe V d \<and> pending = (d JOURNAL \<noteq> None))
      (if pending then rollback_journal fe else fio_return ()) (\<lambda>_ d. settled V d) (recoverable fe V) (recoverable fe V)"
    for pending
  proof (cases pending)
    case True
    have "cspec (\<lambda>d. \<exists>j. journaled fe j V d) (rollback_journal fe) (\<lambda>_ d. settled V d) (recoverable fe V) (recoverable fe V)"
      by (rule cspec_pull_ex, rule cspec_conseq [OF rollback_journal_spec]) auto
    then have "cspec (\<lambda>d. recoverable fe V d \<and> d JOURNAL \<noteq> None) (rollback_journal fe)
        (\<lambda>_ d. settled V d) (recoverable fe V) (recoverable fe V)"
      by (rule cspec_conseq) (auto simp: recoverable_def settled_def)
    with True show ?thesis by simp
  qed (auto simp: recoverable_def journaled_def intro!: cspec_return)
  have conf: "cspec (recoverable fe V) (if committed then try_exists JOURNAL else fio_return False)
      (\<lambda>_. recoverable fe V) (recoverable fe V) (recoverable fe V)" for committed
    by (auto intro: cspec_return cspec_conseq [OF keeps_quiet(1)])
  have first: "cspec (recoverable fe V) (try_exists COMMITTED) (\<lambda>_. recoverable fe V) (recoverable fe V) (recoverable fe V)"
    by (rule cspec_conseq [OF keeps_quiet(1)]) auto
  have rest: "cspec (recoverable fe V)
      (if conflict then fio_error (IoError ''conflicting keystore journals'')
       else fio_bind (try_exists JOURNAL) (\<lambda>pending.
         fio_bind (if pending then rollback_journal fe else fio_return ()) (\<lambda>_. cleanup)))
      (\<lambda>_ d. settled V d \<and> d COMMITTED = None) (recoverable fe V) (recoverable fe V)" for conflict
    by (cases conflict) (simp_all add: cspec_error cspec_bind [OF keeps_quiet(1) cspec_bind [OF roll clean]])
  show ?thesis unfolding recover_def by (rule cspec_bind [OF first cspec_bind [OF conf rest]])
qed

end
