(* ===== verification/Fs_Batch.thy ===== *)
theory Fs_Batch
  imports Fs_Crash
begin

section \<open>A batch is all or nothing\<close>

text \<open>
  The specification of \<^verbatim>\<open>prepare\<close>, of the replacement of entries and of \<^verbatim>\<open>commit_batch\<close>, for every sequence
  of faults and every crash point: the disk recovers to the entries before the batch, or to the
  entries with every member of the batch in place; a batch that returns success recovers to the latter.
\<close>

text \<open>What is relied on: decoding inverts encoding, and a listing names every file once.\<close>

definition fs_env_law :: "fs_env \<Rightarrow> bool" where
  "fs_env_law fe \<longleftrightarrow>
     (\<forall>j b. enc_journal fe j = Inr b \<longrightarrow> dec_journal fe b = Inr j)
   \<and> (\<forall>e b. enc_entry fe e = Inr b \<longrightarrow> dec_entry fe b = Inr e)
   \<and> (\<forall>d. finite {l. d (entry_file l) \<noteq> None} \<longrightarrow>
        distinct (dir_order fe d) \<and> set (dir_order fe d) = {l. d (entry_file l) \<noteq> None})"

fun batch_of :: "fs_env \<Rightarrow> (label, bytes) alist \<Rightarrow> encrypted_entry list \<Rightarrow> (label, bytes) alist option" where
  "batch_of fe acc [] = Some acc"
| "batch_of fe acc (e # es) = (case validate_label (md_label (metadata e)) of Inl _ \<Rightarrow> None
     | Inr _ \<Rightarrow> (case enc_entry fe e of Inl _ \<Rightarrow> None
        | Inr b \<Rightarrow> batch_of fe (bt_insert (md_label (metadata e)) b acc) es))"

definition new_view :: "(label, bytes) alist \<Rightarrow> view \<Rightarrow> view" where
  "new_view enc V l = (case map_of enc l of None \<Rightarrow> V l | Some b \<Rightarrow> Some (RegularFile b))"

lemma encode_entries_spec:
  "cspec P (encode_entries fe acc es) (\<lambda>enc d. batch_of fe acc es = Some enc \<and> P d) P P"
proof (induction es arbitrary: acc)
  case Nil
  show ?case by (auto intro: cspec_return)
next
  case (Cons e es)
  show ?case
  proof (cases "validate_label (md_label (metadata e))")
    case (Inl err)
    then show ?thesis by (simp add: entry_path_def cspec_error)
  next
    case (Inr u)
    then have p: "fio_pure (entry_path (md_label (metadata e))) = fio_return (entry_file (md_label (metadata e)))"
      by (simp add: entry_path_def)
    have enc: "cspec P (fio_bind (backend_other (enc_entry fe e)) (\<lambda>bs.
       encode_entries fe (bt_insert (md_label (metadata e)) bs acc) es))
       (\<lambda>enc d. batch_of fe acc (e # es) = Some enc \<and> P d) P P"
    proof (cases "enc_entry fe e")
      case (Inl err)
      then show ?thesis by (simp add: backend_other_def cspec_error)
    next
      case inr: (Inr b)
      with Inr Cons.IH [of "bt_insert (md_label (metadata e)) b acc"] show ?thesis
        by (simp add: backend_other_def)
    qed
    show ?thesis unfolding encode_entries.simps p fio_bind_pure
      by (rule cspec_bind [OF keeps_quiet(6)]) (use enc in \<open>auto intro: cspec_error\<close>)
  qed
qed

lemma batch_of_wf:
  assumes "batch_of fe acc es = Some enc" "wf_btree acc" "\<forall>l \<in> fst ` set acc. validate_label l = Inr ()"
  shows "wf_btree enc \<and> (\<forall>l \<in> fst ` set enc. validate_label l = Inr ())"
  using assms
proof (induction es arbitrary: acc)
  case (Cons e es)
  from Cons.prems(1) have v: "validate_label (md_label (metadata e)) = Inr ()"
    by (cases "validate_label (md_label (metadata e))") simp_all
  with Cons.prems(1) obtain b where b: "batch_of fe (bt_insert (md_label (metadata e)) b acc) es = Some enc"
    by (cases "enc_entry fe e") simp_all
  have "\<forall>l \<in> fst ` set (bt_insert (md_label (metadata e)) b acc). validate_label l = Inr ()"
    unfolding fst_bt_insert using Cons.prems(3) v by blast
  with Cons.IH [OF b wf_btree_bt_insert [OF Cons.prems(2)]] show ?case .
qed simp

subsection \<open>Staging and the journal\<close>

text \<open>\<open>staged enc n d\<close>: the first \<open>n\<close> members of the batch are in the staging directory.\<close>

definition ready :: "view \<Rightarrow> disk \<Rightarrow> bool" where
  "ready V d \<longleftrightarrow> settled V d \<and> d COMMITTED = None \<and> d Work = Some Directory"

definition staged :: "(label, bytes) alist \<Rightarrow> nat \<Rightarrow> disk \<Rightarrow> bool" where
  "staged enc n d \<longleftrightarrow> (\<forall>i < n. d (Staged i) = Some (RegularFile (snd (enc ! i))))"

definition origs_ok :: "view \<Rightarrow> (label, bytes) alist \<Rightarrow> (string \<times> bytes option) list \<Rightarrow> bool" where
  "origs_ok V enc origs \<longleftrightarrow> map fst origs = map fst enc
     \<and> (\<forall>(l, orig) \<in> set origs. l \<noteq> ''.tmp'' \<and> V l = map_option RegularFile orig)"

lemma ready_recoverable: "ready V d \<Longrightarrow> recoverable fe V d"
  by (simp add: ready_def settled_recoverable)

lemma ready_inert:
  "p \<noteq> JOURNAL \<Longrightarrow> p \<noteq> COMMITTED \<Longrightarrow> p \<noteq> Work \<Longrightarrow> (\<And>l. p \<noteq> Entry l) \<Longrightarrow> inert (ready V) p"
  using settled_inert [of p V] by (auto simp: inert_def ready_def)

lemma ready_create_dir: "cspec (ready V) (create_dir STAGING) (\<lambda>_. ready V) (ready V) (ready V)"
  by (rule keeps_create_dir) (auto simp: ready_def settled_def entries_def fun_eq_iff)

lemma ready_entry_file:
  "ready V d \<Longrightarrow> d (entry_file l) = map_option RegularFile got \<Longrightarrow> l \<noteq> ''.tmp'' \<and> V l = map_option RegularFile got"
  by (cases got) (auto simp: ready_def settled_def entries_def entry_file_def split: if_splits)

lemma stage_entries_spec:
  assumes "length pre = index" "origs_ok V pre origs"
  shows "cspec (\<lambda>d. ready V d \<and> staged (pre @ rest) index d) (stage_entries fe index origs rest)
     (\<lambda>origs' d. origs_ok V (pre @ rest) origs' \<and> ready V d \<and> staged (pre @ rest) (length (pre @ rest)) d)
     (ready V) (ready V)"
  using assms
proof (induction rest arbitrary: pre index origs)
  case Nil
  then show ?case by (auto intro: cspec_return)
next
  case (Cons x rest)
  obtain l bs where x: "x = (l, bs)" by (cases x)
  let ?enc = "pre @ (l, bs) # rest"
  let ?P = "\<lambda>d. ready V d \<and> staged ?enc index d"
  have rd: "cspec ?P (backend_io fe (fio_catch (fio_bind (fs_read (entry_file l)) (\<lambda>b. fio_return (Some b)))
        (\<lambda>e. if e = IoNotFound then fio_return None else fio_error e)))
      (\<lambda>old d. (l \<noteq> ''.tmp'' \<and> V l = map_option RegularFile old) \<and> ?P d) (ready V) (ready V)"
    by (rule cspec_backend_io, rule cspec_conseq [OF fs_read_missing [where P = ?P]]) (auto dest: ready_entry_file)
  have "inert ?P (Staged index)"
    using ready_inert [of "Staged index" V] by (auto simp: inert_def staged_def)
  from keeps_inert(1) [OF this, of bs] have wr: "cspec ?P (write_new (Staged index) bs)
      (\<lambda>_ d. ready V d \<and> staged ?enc (Suc index) d) (ready V) (ready V)"
    by (rule cspec_conseq) (use Cons.prems(1) in \<open>auto simp: staged_def less_Suc_eq nth_append\<close>)
  have next_step: "cspec (\<lambda>d. ready V d \<and> staged ?enc (Suc index) d) (stage_entries fe (Suc index) (origs @ [(l, old)]) rest)
     (\<lambda>origs' d. origs_ok V ?enc origs' \<and> ready V d \<and> staged ?enc (length ?enc) d) (ready V) (ready V)"
    if "l \<noteq> ''.tmp'' \<and> V l = map_option RegularFile old" for old
    using Cons.IH [of "pre @ [(l, bs)]" "Suc index" "origs @ [(l, old)]"] Cons.prems that by (simp add: origs_ok_def)
  show ?case unfolding x stage_entries.simps
    by (rule cspec_bind [OF rd], rule cspec_pull, rule cspec_bind [OF cspec_backend_io [OF wr]], rule next_step)
qed

lemma origs_ok_journal:
  assumes "origs_ok V enc origs" "wf_btree enc" "\<forall>l \<in> fst ` set enc. validate_label l = Inr ()"
  shows "journal_ok fe \<lparr>journal_version = 1, originals = origs\<rparr>"
proof -
  have "check_journal_labels fe os = Inr ()" if "\<forall>(l, orig) \<in> set os. validate_label l = Inr () \<and> l \<noteq> ''.tmp''" for os
    using that by (induction os) auto
  moreover have "\<forall>(l, orig) \<in> set origs. validate_label l = Inr () \<and> l \<noteq> ''.tmp''"
  proof clarify
    fix l orig assume m: "(l, orig) \<in> set origs"
    then have "l \<in> set (map fst origs)" by force
    moreover have "map fst origs = map fst enc" using assms(1) by (simp add: origs_ok_def)
    ultimately have "l \<in> fst ` set enc" by (metis set_map)
    with assms m show "validate_label l = Inr () \<and> l \<noteq> ''.tmp''" by (auto simp: origs_ok_def)
  qed
  moreover have "distinct (map fst origs)"
    using assms(1,2) by (simp add: origs_ok_def strict_sorted_iff)
  ultimately show ?thesis by (simp add: journal_ok_def)
qed

text \<open>
  After \<^verbatim>\<open>prepare\<close> the journal describes the old entries, and everything the replacement needs is staged.
\<close>

definition prepared :: "fs_env \<Rightarrow> view \<Rightarrow> (label, bytes) alist \<Rightarrow> journal \<Rightarrow> nat \<Rightarrow> disk \<Rightarrow> bool" where
  "prepared fe V enc j k d \<longleftrightarrow> journaled fe j V d \<and> map fst (originals j) = map fst enc
     \<and> (\<forall>i < length enc. if i < k then d (Entry (fst (enc ! i))) = Some (RegularFile (snd (enc ! i)))
          else d (Staged i) = Some (RegularFile (snd (enc ! i))))"

lemma rename_journal_spec:
  assumes ok: "origs_ok V enc origs" "wf_btree enc" "\<forall>l \<in> fst ` set enc. validate_label l = Inr ()"
    and dec: "dec_journal fe bs = Inr \<lparr>journal_version = 1, originals = origs\<rparr>"
  shows "cspec (\<lambda>d. (ready V d \<and> staged enc (length enc) d) \<and> d JOURNAL_NEW = Some (RegularFile bs))
     (rename_file JOURNAL_NEW JOURNAL)
     (\<lambda>_. prepared fe V enc \<lparr>journal_version = 1, originals = origs\<rparr> 0) (ready V) (ready V)"
  unfolding rename_file_def
proof (rule cspec_prim, goal_cases)
  case (1 d)
  let ?j = "\<lparr>journal_version = 1, originals = origs\<rparr>"
  let ?d = "d(JOURNAL \<mapsto> RegularFile bs, JOURNAL_NEW := None)"
  have V: "d (Entry l) = V l" for l using 1 by (auto simp: ready_def settled_def entries_def)
  have "V l = map_option RegularFile orig" if "map_of origs l = Some orig" for l orig
    using ok(1) map_of_SomeD [OF that] by (auto simp: origs_ok_def)
  then have "journaled fe ?j V ?d"
    using 1 dec origs_ok_journal [OF ok] V by (auto simp: journaled_def ready_def split: option.split)
  moreover have "staged enc (length enc) ?d" using 1 by (simp add: staged_def)
  ultimately have "prepared fe V enc ?j 0 ?d" using ok(1) by (simp add: prepared_def staged_def origs_ok_def)
  with 1 show ?case by (auto simp: ready_def settled_def split: node.splits)
qed (auto simp: quiet_def)

lemma prepared_recoverable: "prepared fe V enc j k d \<Longrightarrow> recoverable fe V d"
  by (auto simp: prepared_def intro: journaled_recoverable)

lemma prepare_spec:
  assumes "fs_env_law fe"
  shows "cspec (ready V) (prepare fe es)
     (\<lambda>labels d. \<exists>enc j. (batch_of fe [] es = Some enc \<and> wf_btree enc \<and> labels = map fst enc) \<and> prepared fe V enc j 0 d)
     (recoverable fe V) (recoverable fe V)"
  unfolding prepare_def
proof (rule cspec_bind [OF cspec_weaken_EC [OF encode_entries_spec]], goal_cases)
  case (3 enc)
  show ?case
  proof (rule cspec_pull)
    assume enc: "batch_of fe [] es = Some enc"
    from batch_of_wf [OF this] have wf: "wf_btree enc" "\<forall>l \<in> fst ` set enc. validate_label l = Inr ()" by simp_all
    let ?R = "\<lambda>labels d. \<exists>enc j. (batch_of fe [] es = Some enc \<and> wf_btree enc \<and> labels = map fst enc) \<and> prepared fe V enc j 0 d"
    let ?S = "\<lambda>d. ready V d \<and> staged enc (length enc) d"
    have mk: "cspec (ready V) (backend_io fe (create_dir STAGING)) (\<lambda>_ d. ready V d \<and> staged ([] @ enc) 0 d)
        (recoverable fe V) (recoverable fe V)"
      by (rule cspec_backend_io, rule cspec_conseq [OF ready_create_dir]) (auto simp: staged_def intro: ready_recoverable)
    have stage: "cspec (\<lambda>d. ready V d \<and> staged ([] @ enc) 0 d) (stage_entries fe 0 [] enc)
        (\<lambda>origs d. origs_ok V enc origs \<and> ?S d) (recoverable fe V) (recoverable fe V)"
      by (rule cspec_conseq [OF stage_entries_spec [of "[]" 0 V "[]" enc fe]])
        (auto simp: origs_ok_def intro: ready_recoverable)
    have rest: "cspec ?S (fio_bind (backend_io fe (sync_dir STAGING)) (\<lambda>_.
       fio_bind (backend_other (enc_journal fe \<lparr>journal_version = 1, originals = origs\<rparr>)) (\<lambda>bs.
       fio_bind (backend_io fe (write_new JOURNAL_NEW bs)) (\<lambda>_.
       fio_bind (backend_io fe (rename_file JOURNAL_NEW JOURNAL)) (\<lambda>_.
       fio_bind (backend_io fe (sync_dir Work)) (\<lambda>_. fio_return (map fst enc)))))))
       ?R (recoverable fe V) (recoverable fe V)" if ok: "origs_ok V enc origs" for origs
    proof (rule cspec_bind [OF cspec_backend_io [OF cspec_weaken_EC [OF keeps_quiet(3)]]], goal_cases)
      case (3 u)
      let ?j = "\<lparr>journal_version = 1, originals = origs\<rparr>"
      show ?case
      proof (cases "enc_journal fe ?j")
        case (Inl e)
        then show ?thesis by (auto simp: backend_other_def intro!: cspec_error ready_recoverable)
      next
        case (Inr bs)
        with assms have dec: "dec_journal fe bs = Inr ?j" by (simp add: fs_env_law_def)
        have "inert ?S JOURNAL_NEW"
          using ready_inert [of JOURNAL_NEW V] by (auto simp: inert_def staged_def)
        then have wr: "cspec ?S (backend_io fe (write_new JOURNAL_NEW bs))
            (\<lambda>_ d. ?S d \<and> d JOURNAL_NEW = Some (RegularFile bs)) (recoverable fe V) (recoverable fe V)"
          by (rule cspec_backend_io [OF cspec_weaken_EC [OF keeps_inert(1)]]) (auto intro: ready_recoverable)
        have rn: "cspec (\<lambda>d. ?S d \<and> d JOURNAL_NEW = Some (RegularFile bs)) (backend_io fe (rename_file JOURNAL_NEW JOURNAL))
            (\<lambda>_. prepared fe V enc ?j 0) (recoverable fe V) (recoverable fe V)"
          by (rule cspec_backend_io, rule cspec_weaken_EC [OF rename_journal_spec [OF ok wf dec]])
            (auto intro: ready_recoverable)
        have sy: "cspec (prepared fe V enc ?j 0) (backend_io fe (sync_dir Work)) (\<lambda>_. prepared fe V enc ?j 0)
            (recoverable fe V) (recoverable fe V)"
          by (rule cspec_backend_io, rule cspec_weaken_EC [OF keeps_quiet(3)]) (auto intro: prepared_recoverable)
        have "cspec (prepared fe V enc ?j 0) (fio_return (map fst enc)) ?R (recoverable fe V) (recoverable fe V)"
          by (rule cspec_return) (use enc wf in blast)
        from cspec_bind [OF wr cspec_bind [OF rn cspec_bind [OF sy this]]] Inr show ?thesis
          by (simp add: backend_other_def)
      qed
    qed (auto intro: ready_recoverable)
    show "cspec (ready V) (fio_bind (backend_io fe (create_dir STAGING)) (\<lambda>_.
       fio_bind (stage_entries fe 0 [] enc) (\<lambda>origs.
       fio_bind (backend_io fe (sync_dir STAGING)) (\<lambda>_.
       fio_bind (backend_other (enc_journal fe \<lparr>journal_version = 1, originals = origs\<rparr>)) (\<lambda>bs.
       fio_bind (backend_io fe (write_new JOURNAL_NEW bs)) (\<lambda>_.
       fio_bind (backend_io fe (rename_file JOURNAL_NEW JOURNAL)) (\<lambda>_.
       fio_bind (backend_io fe (sync_dir Work)) (\<lambda>_. fio_return (map fst enc)))))))))
       ?R (recoverable fe V) (recoverable fe V)"
      by (rule cspec_bind [OF mk cspec_bind [OF stage]], rule cspec_pull, rule rest)
  qed
qed (auto intro: ready_recoverable)

subsection \<open>Replacing the entries and committing\<close>

lemma prepared_step:
  assumes p: "prepared fe V enc j k d" and k: "k < length enc" and wf: "wf_btree enc"
  shows "entry_file (fst (enc ! k)) = Entry (fst (enc ! k))"
    and "prepared fe V enc j (Suc k)
      (d(Entry (fst (enc ! k)) \<mapsto> RegularFile (snd (enc ! k)), Staged k := None))"
proof -
  have dist: "distinct (map fst enc)" using wf by (simp add: strict_sorted_iff)
  have keys: "map fst (originals j) = map fst enc" using p by (simp add: prepared_def)
  have "fst (enc ! k) \<in> set (map fst enc)" using k by auto
  then have m: "fst (enc ! k) \<in> fst ` set (originals j)" by (metis keys set_map)
  then show "entry_file (fst (enc ! k)) = Entry (fst (enc ! k))"
    using p by (auto simp: prepared_def journaled_def intro: journal_entry_file)
  have "inert (journaled fe j V) (Entry (fst (enc ! k)))" "inert (journaled fe j V) (Staged k)"
    using m by (auto intro!: journaled_inert)
  then have "journaled fe j V (d(Entry (fst (enc ! k)) \<mapsto> RegularFile (snd (enc ! k)), Staged k := None))"
    using p by (auto simp: prepared_def intro!: inertD)
  moreover have "fst (enc ! i) \<noteq> fst (enc ! k)" if "i < length enc" "i \<noteq> k" for i
    using dist that k by (metis length_map nth_eq_iff_index_eq nth_map)
  ultimately show "prepared fe V enc j (Suc k)
      (d(Entry (fst (enc ! k)) \<mapsto> RegularFile (snd (enc ! k)), Staged k := None))"
    using p keys k by (auto simp: prepared_def less_Suc_eq)
qed

lemma rename_staged_spec:
  assumes k: "k < length enc" and wf: "wf_btree enc"
  shows "cspec (prepared fe V enc j k) (rename_file (Staged k) (entry_file (fst (enc ! k))))
     (\<lambda>_. prepared fe V enc j (Suc k)) (recoverable fe V) (recoverable fe V)"
  unfolding rename_file_def
proof (rule cspec_prim, goal_cases)
  case (1 d)
  then have "d (Staged k) = Some (RegularFile (snd (enc ! k)))" using k by (auto simp: prepared_def)
  with prepared_step [OF 1 k wf] prepared_recoverable [OF 1] show ?case by simp
qed (auto simp: quiet_def intro: prepared_recoverable)

lemma replace_entries_spec:
  assumes "wf_btree enc" "k + length ls = length enc" "ls = map fst (drop k enc)"
  shows "cspec (prepared fe V enc j k) (replace_entries ar k ls)
     (\<lambda>_. prepared fe V enc j (length enc)) (recoverable fe V) (recoverable fe V)"
  using assms(2,3)
proof (induction ls arbitrary: k)
  case Nil
  then show ?case by (auto intro: cspec_return)
next
  case (Cons l ls)
  have k: "k < length enc" using Cons.prems(1) by simp
  with Cons.prems(2) have l: "l = fst (enc ! k)" and ls: "ls = map fst (drop (Suc k) enc)"
    by (metis Cons_nth_drop_Suc list.inject list.simps(9))+
  have after: "cspec (prepared fe V enc j (Suc k)) (fio_pure (ar k)) (\<lambda>_. prepared fe V enc j (Suc k))
      (recoverable fe V) (recoverable fe V)"
    by (rule cspec_pure) (auto intro: prepared_recoverable)
  show ?case unfolding replace_entries.simps l
    by (rule cspec_bind [OF rename_staged_spec [OF k assms(1)] cspec_bind [OF after Cons.IH]])
      (use Cons.prems(1) ls in auto)
qed

lemma prepared_all:
  assumes "prepared fe V enc j (length enc) d" "wf_btree enc"
  shows "entries d = new_view enc V"
proof
  fix l
  have dist: "distinct (map fst enc)" using assms(2) by (simp add: strict_sorted_iff)
  have at: "case map_of (originals j) l of None \<Rightarrow> d (Entry l) = V l | Some orig \<Rightarrow> V l = map_option RegularFile orig"
    using assms(1) by (simp add: prepared_def journaled_def)
  have keys: "fst ` set (originals j) = fst ` set enc"
    using assms(1) by (metis prepared_def set_map)
  show "entries d l = new_view enc V l"
  proof (cases "map_of enc l")
    case None
    then have "map_of (originals j) l = None" by (simp add: map_of_eq_None_iff keys)
    with at None show ?thesis by (simp add: entries_def new_view_def)
  next
    case (Some b)
    then obtain i where "i < length enc" "enc ! i = (l, b)" by (metis in_set_conv_nth map_of_SomeD)
    with assms(1) Some show ?thesis by (fastforce simp: prepared_def entries_def new_view_def)
  qed
qed

lemma rename_committed_spec:
  assumes "wf_btree enc"
  shows "cspec (prepared fe V enc j (length enc)) (rename_file JOURNAL COMMITTED)
     (\<lambda>_. settled (new_view enc V)) (recoverable fe V) (recoverable fe V)"
  unfolding rename_file_def
proof (rule cspec_prim, goal_cases)
  case (1 d)
  then obtain b where "d JOURNAL = Some (RegularFile b)" "d COMMITTED = None"
    by (auto simp: prepared_def journaled_def)
  with prepared_all [OF 1 assms] show ?case by (auto simp: settled_def entries_def fun_eq_iff)
qed (auto simp: quiet_def intro: prepared_recoverable)

lemma apply_batch_spec:
  assumes "wf_btree enc"
  shows "cspec (prepared fe V enc j 0) (apply_batch ar (map fst enc))
     (\<lambda>_. settled (new_view enc V)) (recoverable fe V) (recoverable fe V)"
proof -
  have rep: "cspec (prepared fe V enc j 0) (replace_entries ar 0 (map fst enc))
     (\<lambda>_. prepared fe V enc j (length enc)) (recoverable fe V) (recoverable fe V)"
    by (rule replace_entries_spec [OF assms]) simp_all
  have sync: "cspec (prepared fe V enc j (length enc)) (sync_dir Dir) (\<lambda>_. prepared fe V enc j (length enc))
      (recoverable fe V) (recoverable fe V)"
    by (rule cspec_weaken_EC [OF keeps_quiet(3)]) (auto intro: prepared_recoverable)
  show ?thesis unfolding apply_batch_def
    by (rule cspec_bind [OF rep cspec_bind [OF sync rename_committed_spec [OF assms]]])
qed

text \<open>A batch that gets through \<^verbatim>\<open>prepare\<close>: every label is valid and none is the work directory's name.\<close>

definition committable :: "fs_env \<Rightarrow> encrypted_entry list \<Rightarrow> (label, bytes) alist \<Rightarrow> bool" where
  "committable fe es enc \<longleftrightarrow> batch_of fe [] es = Some enc \<and> ''.tmp'' \<notin> fst ` set enc"

lemma prepared_no_work:
  assumes "prepared fe V enc j k d"
  shows "''.tmp'' \<notin> fst ` set enc"
proof -
  have "fst ` set enc = fst ` set (originals j)" using assms by (metis prepared_def list.set_map)
  moreover have "check_journal_labels fe (originals j) = Inr ()"
    using assms by (simp add: prepared_def journaled_def journal_ok_def)
  ultimately show ?thesis by (auto dest: check_journal_labels_Inr)
qed

lemma prepare_committable:
  assumes "fs_env_law fe"
  shows "cspec (ready V) (prepare fe es)
     (\<lambda>labels d. \<exists>enc j. (committable fe es enc \<and> wf_btree enc \<and> labels = map fst enc) \<and> prepared fe V enc j 0 d)
     (recoverable fe V) (recoverable fe V)"
  by (rule cspec_conseq [OF prepare_spec [OF assms]])
    (auto simp: committable_def dest: prepared_no_work)

definition old_or_new :: "fs_env \<Rightarrow> encrypted_entry list \<Rightarrow> view \<Rightarrow> disk \<Rightarrow> bool" where
  "old_or_new fe es V d \<longleftrightarrow> recoverable fe V d \<or>
     (\<exists>enc. committable fe es enc \<and> recoverable fe (new_view enc V) d)"

lemma rollback_error_spec:
  "cspec (recoverable fe V) (rollback_error fe e) Q (recoverable fe V) (recoverable fe V)"
  unfolding rollback_error_def
  by (rule cspec_bind [OF cspec_map_err [OF recover_spec]]) (auto intro: cspec_error settled_recoverable)

lemma finish_batch_spec:
  "cspec (settled V) (finish_batch fe) (\<lambda>_. recoverable fe V) (recoverable fe V) (recoverable fe V)"
proof -
  have sync: "cspec (settled V) (backend_io fe (sync_dir Work)) (\<lambda>_. recoverable fe V) (recoverable fe V) (recoverable fe V)"
    by (rule cspec_backend_io, rule cspec_conseq [OF keeps_quiet(3)]) (auto intro: settled_recoverable)
  have "cspec (recoverable fe V) (fio_catch (recover fe) (\<lambda>_. fio_return ())) (\<lambda>_. recoverable fe V)
      (recoverable fe V) (recoverable fe V)"
    by (rule cspec_catch [where F = "recoverable fe V"])
      (auto intro: cspec_return cspec_conseq [OF recover_spec] settled_recoverable)
  with sync show ?thesis unfolding finish_batch_def by (rule cspec_bind)
qed

lemma commit_batch_spec:
  assumes "fs_env_law fe"
  shows "cspec (ready V) (commit_batch fe es ar)
     (\<lambda>_ d. \<exists>enc. committable fe es enc \<and> recoverable fe (new_view enc V) d)
     (old_or_new fe es V) (old_or_new fe es V)"
proof -
  let ?new = "\<lambda>d. \<exists>enc. committable fe es enc \<and> settled (new_view enc V) d"
  have "cspec (\<lambda>d. \<exists>enc j. (committable fe es enc \<and> wf_btree enc \<and> labels = map fst enc) \<and> prepared fe V enc j 0 d)
      (backend_io fe (apply_batch ar labels)) (\<lambda>_. ?new) (recoverable fe V) (recoverable fe V)" for labels
    by (intro cspec_pull_ex cspec_pull, elim conjE)
      (simp, rule cspec_backend_io, rule cspec_conseq [OF apply_batch_spec], auto)
  from cspec_bind [OF prepare_committable [OF assms] this]
  have body: "cspec (ready V) (fio_bind (prepare fe es) (\<lambda>labels. backend_io fe (apply_batch ar labels)))
      (\<lambda>_. ?new) (recoverable fe V) (recoverable fe V)" .
  have "cspec (ready V) (fio_catch (fio_bind (prepare fe es) (\<lambda>labels. backend_io fe (apply_batch ar labels)))
      (rollback_error fe)) (\<lambda>_. ?new) (recoverable fe V) (recoverable fe V)"
    by (rule cspec_catch [OF body rollback_error_spec])
  then have first: "cspec (ready V) (fio_catch (fio_bind (prepare fe es) (\<lambda>labels. backend_io fe (apply_batch ar labels)))
      (rollback_error fe)) (\<lambda>_. ?new) (old_or_new fe es V) (old_or_new fe es V)"
    by (rule cspec_weaken_EC) (auto simp: old_or_new_def)
  have "cspec ?new (finish_batch fe) (\<lambda>_ d. \<exists>enc. committable fe es enc \<and> recoverable fe (new_view enc V) d)
      (old_or_new fe es V) (old_or_new fe es V)"
    by (intro cspec_pull_ex cspec_pull, rule cspec_conseq [OF finish_batch_spec]) (auto simp: old_or_new_def)
  with first show ?thesis unfolding commit_batch_def by (rule cspec_bind)
qed

end
