(* ===== verification/Fs_Store.thy ===== *)
theory Fs_Store
  imports Fs_Batch
begin

section \<open>The operations of the filesystem keystore\<close>

text \<open>
  The public operations under the lock: each first recovers what an earlier process left behind.
  The work directory is a directory from the lock on; this frame is proved separately and combined
  with the specifications of recovery and of batches.
\<close>

subsection \<open>Frames\<close>

lemma cspec_conj:
  assumes "cspec P m Q E C" "cspec P' m Q' E' C'"
  shows "cspec (\<lambda>d. P d \<and> P' d) m (\<lambda>a d. Q a d \<and> Q' a d) (\<lambda>d. E d \<and> E' d) (\<lambda>d. C d \<and> C' d)"
  using assms unfolding cspec_def by (auto split: outcome.splits)

definition frame :: "(disk \<Rightarrow> bool) \<Rightarrow> bool" where
  "frame P \<longleftrightarrow> (\<forall>d d'. P d \<longrightarrow> (\<forall>p \<in> {Outside, Dir, Work}. d' p = d p) \<longrightarrow> P d')"

lemma frameD: "frame P \<Longrightarrow> p \<notin> {Outside, Dir, Work} \<Longrightarrow> inert P p"
  unfolding frame_def inert_def by (metis fun_upd_other)

definition work_dir :: "disk \<Rightarrow> bool" where
  "work_dir d \<longleftrightarrow> d Work = Some Directory \<and> d Dir \<noteq> None"

lemma work_dir_frame: "frame work_dir"
  by (simp add: frame_def work_dir_def)

lemma keeps_rename:
  assumes "inert P p" "inert P q"
  shows "cspec P (rename_file p q) (\<lambda>_. P) P P"
  unfolding rename_file_def
  by (rule cspec_prim) (use assms in \<open>auto simp: quiet_def inertD split: option.splits node.splits\<close>)

lemma keeps_fs_read: "cspec P (fs_read p) (\<lambda>_. P) P P"
  by (rule cspec_conseq [OF keeps_quiet(2)]) auto

lemma keeps_try_exists: "cspec P (try_exists p) (\<lambda>_. P) P P"
  by (rule cspec_conseq [OF keeps_quiet(1)]) auto

lemma keeps_remove: "inert P p \<Longrightarrow> cspec P (remove_file p) (\<lambda>_. P) P P"
  by (rule cspec_conseq [OF keeps_remove_file]) auto

lemma keeps_write: "inert P p \<Longrightarrow> cspec P (write_new p b) (\<lambda>_. P) P P"
  by (rule cspec_conseq [OF keeps_inert(1)]) auto

lemma keeps_bind: "cspec P m (\<lambda>_. P) P P \<Longrightarrow> (\<And>a. cspec P (f a) (\<lambda>_. P) P P) \<Longrightarrow> cspec P (fio_bind m f) (\<lambda>_. P) P P"
  by (rule cspec_bind)

lemma keeps_pure: "cspec P (fio_return a) (\<lambda>_. P) P P" "cspec P (fio_error e) (\<lambda>_. P) P P" "cspec P (fio_pure r) (\<lambda>_. P) P P"
  by (auto intro: cspec_return cspec_error cspec_pure)

lemma keeps_backend_other: "cspec P (backend_other r) (\<lambda>_. P) P P"
  unfolding backend_other_def by (rule keeps_pure)

lemma keeps_catch:
  "cspec P m (\<lambda>_. P) P P \<Longrightarrow> (\<And>e. cspec P (h e) (\<lambda>_. P) P P) \<Longrightarrow> cspec P (fio_catch m h) (\<lambda>_. P) P P"
  by (rule cspec_catch)

lemma keeps_backend_io: "cspec P m (\<lambda>_. P) P P \<Longrightarrow> cspec P (backend_io fe m) (\<lambda>_. P) P P"
  by (rule cspec_backend_io)

lemmas keeps_rules = keeps_bind keeps_pure keeps_backend_other keeps_catch keeps_backend_io keeps_rename keeps_fs_read
  keeps_try_exists keeps_remove keeps_write keeps_quiet(3) keeps_quiet(6)

lemma restore_entries_keeps:
  assumes "frame P" "\<forall>(l, orig) \<in> set origs. l \<noteq> ''.tmp''"
  shows "cspec P (restore_entries origs) (\<lambda>_. P) P P"
  using assms(2)
proof (induction origs)
  case (Cons x origs)
  obtain l orig where x: "x = (l, orig)" by (cases x)
  with Cons.prems have "entry_file l = Entry l" by (simp add: entry_file_def)
  with Cons x show ?case by (cases orig) (auto intro!: keeps_rules frameD [OF assms(1)])
qed (auto intro: cspec_return)

lemma recover_keeps:
  assumes "frame P"
  shows "cspec P (recover fe) (\<lambda>_. P) P P"
proof -
  have lab: "\<forall>(l, orig) \<in> set origs. l \<noteq> ''.tmp''" if "check_journal_labels fe origs = Inr u" for origs u
    using check_journal_labels_Inr [of fe origs] that by auto
  have roll: "cspec P (rollback_journal fe) (\<lambda>_. P) P P"
    unfolding rollback_journal_def io_other_def
  proof (intro keeps_bind [OF keeps_fs_read], goal_cases)
    case (1 b)
    show ?case
    proof (cases "dec_journal fe b")
      case (Inr j)
      show ?thesis
      proof (cases "check_journal_labels fe (originals j)")
        case ok: (Inr u)
        have "cspec P (restore_entries (originals j)) (\<lambda>_. P) P P" by (rule restore_entries_keeps [OF assms lab [OF ok]])
        with Inr ok show ?thesis by (auto intro!: keeps_rules frameD [OF assms])
      qed (use Inr in \<open>auto intro: keeps_pure\<close>)
    qed (auto intro: cspec_error)
  qed
  have stg: "cspec P (fio_catch remove_staging_dir (\<lambda>e. if e = IoNotFound then fio_return () else fio_error e))
      (\<lambda>_. P) P P"
    by (rule keeps_catch [OF keeps_remove_staging]) (use assms in \<open>auto simp: frame_def intro: keeps_pure\<close>)
  have clean: "cspec P cleanup (\<lambda>_. P) P P"
    unfolding cleanup_def by (auto intro!: keeps_rules stg frameD [OF assms])
  show ?thesis unfolding recover_def by (auto intro!: keeps_rules roll clean)
qed

lemma recover_ready:
  "cspec (\<lambda>d. recoverable fe V d \<and> work_dir d) (recover fe) (\<lambda>_ d. ready V d \<and> work_dir d) (recoverable fe V) (recoverable fe V)"
  by (rule cspec_conseq [OF cspec_conj [OF recover_spec recover_keeps [OF work_dir_frame]]]) (auto simp: ready_def work_dir_def)

subsection \<open>The lock and access\<close>

lemma create_dir_made:
  assumes "\<And>q d. depth q \<le> depth p \<Longrightarrow> q \<in> {Outside, Dir, Work, STAGING} \<Longrightarrow> P d \<Longrightarrow> P (d(q \<mapsto> Directory))"
    and "p \<in> {Outside, Dir, Work, STAGING}"
  shows "cspec P (create_dir p) (\<lambda>_ d. P d \<and> d p = Some Directory) P P"
proof -
  let ?Q = "\<lambda>d. P d \<and> d p = Some Directory"
  have par: "cspec P (case parent p of None \<Rightarrow> fio_return () | Some q \<Rightarrow> create_dir q) (\<lambda>_. P) P P"
  proof (cases "parent p")
    case (Some q)
    with assms(2) have q: "q \<in> {Outside, Dir, Work, STAGING}" by auto
    have "cspec P (create_dir q) (\<lambda>_. P) P P"
    proof (rule keeps_create_dir [OF _ q])
      fix r d assume "depth r \<le> depth q" "r \<in> {Outside, Dir, Work, STAGING}" "P d"
      then show "P (d(r \<mapsto> Directory))" using depth_parent [OF Some] by (intro assms(1)) auto
    qed
    with Some show ?thesis by simp
  qed (auto intro: cspec_return)
  have closed: "P (d(p \<mapsto> Directory))" if "P d" for d using assms that by blast
  have made: "cspec P (make_dir p) (\<lambda>_. ?Q) P P"
    unfolding make_dir_def by (rule cspec_prim) (use closed in \<open>auto simp: quiet_def\<close>)
  have again: "cspec P (fio_bind (is_dir p) (\<lambda>now.
      if e = IoAlreadyExists \<and> now then fio_return () else fio_error e)) (\<lambda>_. ?Q) P P" for e
    by (rule cspec_bind [OF keeps_quiet(4)]) (auto intro: cspec_return cspec_error)
  have mk: "cspec P (fio_catch (make_dir p) (\<lambda>e. fio_bind (is_dir p) (\<lambda>now.
      if e = IoAlreadyExists \<and> now then fio_return () else fio_error e))) (\<lambda>_. ?Q) P P"
    by (rule cspec_catch [OF made again])
  have sync: "cspec ?Q (sync_dir q) (\<lambda>_. ?Q) P P" for q
    by (rule cspec_weaken_EC [OF keeps_quiet(3)]) auto
  have main: "cspec P (fio_bind (case parent p of None \<Rightarrow> fio_return () | Some q \<Rightarrow> create_dir q) (\<lambda>_.
       fio_bind (fio_catch (make_dir p) (\<lambda>e. fio_bind (is_dir p) (\<lambda>now.
             if e = IoAlreadyExists \<and> now then fio_return () else fio_error e))) (\<lambda>_.
       fio_bind (sync_dir p) (\<lambda>_. sync_dir (case parent p of None \<Rightarrow> Outside | Some q \<Rightarrow> q))))) (\<lambda>_. ?Q) P P"
    by (rule cspec_bind [OF par cspec_bind [OF mk cspec_bind [OF sync sync]]])
  have branch: "cspec (\<lambda>d. P d \<and> b = (d p = Some Directory)) (if b then fio_return () else
      fio_bind (case parent p of None \<Rightarrow> fio_return () | Some q \<Rightarrow> create_dir q) (\<lambda>_.
       fio_bind (fio_catch (make_dir p) (\<lambda>e. fio_bind (is_dir p) (\<lambda>now.
             if e = IoAlreadyExists \<and> now then fio_return () else fio_error e))) (\<lambda>_.
       fio_bind (sync_dir p) (\<lambda>_. sync_dir (case parent p of None \<Rightarrow> Outside | Some q \<Rightarrow> q))))) (\<lambda>_. ?Q) P P" for b
    by (cases b) (auto intro!: cspec_return cspec_conseq [OF main])
  show ?thesis unfolding create_dir.simps [of p] by (rule cspec_bind [OF keeps_quiet(4) branch])
qed

lemma recoverable_dirs:
  "q \<in> {Outside, Dir, Work, STAGING} \<Longrightarrow> recoverable fe V d \<Longrightarrow> recoverable fe V (d(q \<mapsto> Directory))"
  using recoverable_inert [of q fe V] by (auto intro: inertD)

text \<open>Everything lives under the directory of the store.\<close>

definition rooted :: "disk \<Rightarrow> bool" where
  "rooted d \<longleftrightarrow> d Dir = None \<longrightarrow> d Work = None \<and> d JOURNAL = None \<and> (\<forall>l. d (Entry l) = None)"

definition present :: "disk \<Rightarrow> bool" where
  "present d \<longleftrightarrow> d Dir \<noteq> None"

lemma rooted_create: "cspec rooted (create_dir Work) (\<lambda>_ d. present d \<and> d Work = Some Directory) rooted rooted"
proof -
  have par: "cspec rooted (create_dir Dir) (\<lambda>_. present) rooted rooted"
    by (rule cspec_conseq [OF create_dir_made [of Dir rooted]]) (auto simp: rooted_def present_def)
  have closed: "present d \<Longrightarrow> present (d(q \<mapsto> Directory))" for d q by (simp add: present_def)
  have "cspec present (fio_catch (make_dir Work) (\<lambda>e. fio_bind (is_dir Work) (\<lambda>now.
      if e = IoAlreadyExists \<and> now then fio_return () else fio_error e))) (\<lambda>_ d. present d \<and> d Work = Some Directory) present present"
  proof (rule cspec_catch [where F = present], goal_cases)
    case 1
    show ?case unfolding make_dir_def by (rule cspec_prim) (auto simp: quiet_def present_def)
  next
    case (2 e)
    show ?case by (rule cspec_bind [OF keeps_quiet(4)]) (auto intro: cspec_return cspec_error)
  qed
  then have mk: "cspec present (fio_catch (make_dir Work) (\<lambda>e. fio_bind (is_dir Work) (\<lambda>now.
      if e = IoAlreadyExists \<and> now then fio_return () else fio_error e))) (\<lambda>_ d. present d \<and> d Work = Some Directory) rooted rooted"
    by (rule cspec_weaken_EC) (auto simp: present_def rooted_def)
  have sync: "cspec (\<lambda>d. present d \<and> d Work = Some Directory) (sync_dir q) (\<lambda>_ d. present d \<and> d Work = Some Directory) rooted rooted" for q
    by (rule cspec_weaken_EC [OF keeps_quiet(3)]) (auto simp: present_def rooted_def)
  show ?thesis unfolding create_dir.simps [of Work] parent.simps option.case
    by (rule cspec_bind [OF keeps_quiet(4)])
      (auto simp: rooted_def present_def intro!: cspec_return
        cspec_conseq [OF cspec_bind [OF par cspec_bind [OF mk cspec_bind [OF sync sync]]]])
qed

lemma fs_lock_spec:
  "cspec (\<lambda>d. recoverable fe V d \<and> rooted d) (fs_lock fe) (\<lambda>_ d. recoverable fe V d \<and> work_dir d)
     (\<lambda>d. recoverable fe V d \<and> rooted d) (\<lambda>d. recoverable fe V d \<and> rooted d)"
proof -
  let ?Q = "\<lambda>d. recoverable fe V d \<and> work_dir d"
  let ?E = "\<lambda>d. recoverable fe V d \<and> rooted d"
  have "cspec (recoverable fe V) (create_dir Work) (\<lambda>_. recoverable fe V) (recoverable fe V) (recoverable fe V)"
    by (rule keeps_create_dir) (auto intro: recoverable_dirs)
  from cspec_conj [OF this rooted_create] have mk: "cspec ?E (create_dir Work) (\<lambda>_. ?Q) ?E ?E"
    by (rule cspec_conseq) (auto simp: work_dir_def present_def)
  have "inert ?Q LOCK" using recoverable_inert [of LOCK fe V] by (auto simp: inert_def work_dir_def)
  then have op: "cspec ?Q open_lock (\<lambda>_. ?Q) ?E ?E"
    by (rule cspec_weaken_EC [OF keeps_inert(3)]) (auto simp: work_dir_def rooted_def)
  have lk: "cspec ?Q lock_file (\<lambda>_. ?Q) ?E ?E"
    by (rule cspec_weaken_EC [OF keeps_quiet(7)]) (auto simp: work_dir_def rooted_def)
  show ?thesis unfolding fs_lock_def
    by (rule cspec_backend_io [OF cspec_bind [OF mk cspec_bind [OF op lk]]])
qed

lemma work_dir_rooted: "work_dir d \<Longrightarrow> rooted d"
  by (simp add: work_dir_def rooted_def)

lemma access_spec:
  assumes opr: "cspec (\<lambda>d. ready V d \<and> work_dir d) opr Q E C"
    and ec: "\<And>d. recoverable fe V d \<Longrightarrow> rooted d \<Longrightarrow> E d \<and> C d"
    and miss: "\<And>d. \<not> create \<Longrightarrow> recoverable fe V d \<Longrightarrow> rooted d \<Longrightarrow> d Dir = None \<Longrightarrow> Q missing d"
  shows "cspec (\<lambda>d. recoverable fe V d \<and> rooted d) (access fe create missing opr) Q E C"
proof -
  let ?E = "\<lambda>d. recoverable fe V d \<and> rooted d"
  have lk: "cspec ?E (fs_lock fe) (\<lambda>_ d. recoverable fe V d \<and> work_dir d) E C"
    by (rule cspec_weaken_EC [OF fs_lock_spec]) (use ec in auto)
  have "cspec (\<lambda>d. recoverable fe V d \<and> work_dir d) (recover fe) (\<lambda>_ d. ready V d \<and> work_dir d)
      (\<lambda>d. recoverable fe V d \<and> work_dir d) (\<lambda>d. recoverable fe V d \<and> work_dir d)"
    by (rule cspec_conseq [OF cspec_conj [OF recover_spec recover_keeps [OF work_dir_frame]]])
      (auto simp: ready_def work_dir_def)
  then have rc: "cspec (\<lambda>d. recoverable fe V d \<and> work_dir d) (backend_io fe (recover fe)) (\<lambda>_ d. ready V d \<and> work_dir d) E C"
    by (rule cspec_backend_io [OF cspec_weaken_EC]) (use ec work_dir_rooted in auto)
  have go: "cspec ?E (fio_bind (fs_lock fe) (\<lambda>_. fio_bind (backend_io fe (recover fe)) (\<lambda>_. opr))) Q E C"
    by (rule cspec_bind [OF lk cspec_bind [OF rc opr]])
  show ?thesis
  proof (cases create)
    case True
    with go show ?thesis by (simp add: access_def)
  next
    case False
    have first: "cspec ?E (backend_io fe (try_exists Dir)) (\<lambda>b d. ?E d \<and> b = (d Dir \<noteq> None)) E C"
      by (rule cspec_backend_io [OF cspec_weaken_EC [OF keeps_quiet(1)]]) (use ec in auto)
    have branch: "cspec (\<lambda>d. ?E d \<and> b = (d Dir \<noteq> None)) (if \<not> b then fio_return missing
       else fio_bind (fs_lock fe) (\<lambda>_. fio_bind (backend_io fe (recover fe)) (\<lambda>_. opr))) Q E C" for b
      by (cases b) (use miss [OF False] in \<open>auto intro!: cspec_return cspec_conseq [OF go]\<close>)
    from cspec_bind [OF first branch] False show ?thesis by (simp add: access_def)
  qed
qed

subsection \<open>Operations\<close>

lemma present_inert: "p \<noteq> Dir \<Longrightarrow> inert present p"
  by (simp add: inert_def present_def)

lemma present_make: "cspec present (create_dir p) (\<lambda>_. present) present present" if "p \<in> {Outside, Dir, Work, STAGING}"
  by (rule keeps_create_dir [OF _ that]) (auto simp: present_def)

lemma entry_file_not_Dir: "entry_file l \<noteq> Dir"
  by (simp add: entry_file_def)

lemma encode_present: "cspec present (encode_entries fe acc es) (\<lambda>_. present) present present"
  by (rule cspec_conseq [OF encode_entries_spec]) auto

lemma stage_present: "cspec present (stage_entries fe k origs enc) (\<lambda>_. present) present present"
  by (induction fe k origs enc rule: stage_entries.induct) (auto intro!: keeps_rules present_inert)

lemma replace_present: "cspec present (replace_entries ar k ls) (\<lambda>_. present) present present"
  by (induction ar k ls rule: replace_entries.induct) (auto intro!: keeps_rules present_inert entry_file_not_Dir)

lemma present_frame: "frame present"
  by (simp add: frame_def present_def)

lemma commit_present: "cspec present (commit_batch fe es ar) (\<lambda>_. present) present present"
  unfolding commit_batch_def prepare_def apply_batch_def rollback_error_def finish_batch_def map_err_def
  by (auto intro!: keeps_bind keeps_catch keeps_pure keeps_backend_other keeps_backend_io keeps_rename keeps_write keeps_quiet(3)
      encode_present stage_present replace_present present_make present_inert recover_keeps [OF present_frame])

lemma new_view_Nil [simp]: "new_view [] V = V"
  by (simp add: new_view_def fun_eq_iff)

lemma fs_put_many_spec:
  assumes "fs_env_law fe"
  shows "cspec (\<lambda>d. recoverable fe V d \<and> rooted d) (fs_put_many fe es)
     (\<lambda>_ d. (\<exists>enc. committable fe es enc \<and> recoverable fe (new_view enc V) d) \<and> rooted d)
     (\<lambda>d. old_or_new fe es V d \<and> rooted d) (\<lambda>d. old_or_new fe es V d \<and> rooted d)"
proof (cases "es = []")
  case True
  show ?thesis unfolding fs_put_many_def True
    by (simp, rule access_spec [OF cspec_return])
      (auto simp: old_or_new_def committable_def intro: ready_recoverable work_dir_rooted)
next
  case False
  have "cspec (\<lambda>d. ready V d \<and> present d) (commit_batch fe es (\<lambda>_. Inr ()))
     (\<lambda>_ d. (\<exists>enc. committable fe es enc \<and> recoverable fe (new_view enc V) d) \<and> present d)
     (\<lambda>d. old_or_new fe es V d \<and> present d) (\<lambda>d. old_or_new fe es V d \<and> present d)"
    by (rule cspec_conj [OF commit_batch_spec [OF assms] commit_present])
  then have "cspec (\<lambda>d. ready V d \<and> work_dir d) (commit_batch fe es (\<lambda>_. Inr ()))
     (\<lambda>_ d. (\<exists>enc. committable fe es enc \<and> recoverable fe (new_view enc V) d) \<and> rooted d)
     (\<lambda>d. old_or_new fe es V d \<and> rooted d) (\<lambda>d. old_or_new fe es V d \<and> rooted d)"
    by (rule cspec_conseq) (auto simp: work_dir_def present_def rooted_def)
  then have "cspec (\<lambda>d. recoverable fe V d \<and> rooted d) (access fe True () (commit_batch fe es (\<lambda>_. Inr ())))
     (\<lambda>_ d. (\<exists>enc. committable fe es enc \<and> recoverable fe (new_view enc V) d) \<and> rooted d)
     (\<lambda>d. old_or_new fe es V d \<and> rooted d) (\<lambda>d. old_or_new fe es V d \<and> rooted d)"
    by (rule access_spec) (auto simp: old_or_new_def)
  with False show ?thesis by (simp add: fs_put_many_def)
qed

text \<open>Views whose files are readable entries stored under their own label.\<close>

definition readable :: "fs_env \<Rightarrow> view \<Rightarrow> bool" where
  "readable fe V \<longleftrightarrow> finite (dom V) \<and> (\<forall>l nd. V l = Some nd \<longrightarrow> validate_label l = Inr () \<and> l \<noteq> ''.tmp'' \<and>
     (\<exists>b e. nd = RegularFile b \<and> dec_entry fe b = Inr e \<and> md_label (metadata e) = l))"

definition decoded :: "fs_env \<Rightarrow> view \<Rightarrow> label \<rightharpoonup> encrypted_entry" where
  "decoded fe V l = (case V l of
     Some (RegularFile b) \<Rightarrow> (case dec_entry fe b of Inr e \<Rightarrow> Some e | Inl _ \<Rightarrow> None) | _ \<Rightarrow> None)"

lemma readableD:
  "readable fe V \<Longrightarrow> V l = Some nd \<Longrightarrow> \<exists>b e. nd = RegularFile b \<and> dec_entry fe b = Inr e \<and> decoded fe V l = Some e
     \<and> md_label (metadata e) = l \<and> validate_label l = Inr () \<and> l \<noteq> ''.tmp''"
  by (fastforce simp: readable_def decoded_def)

lemma settled_entry: "settled V d \<Longrightarrow> d (Entry l) = V l"
  by (auto simp: settled_def entries_def)

lemma ready_entry: "ready V d \<Longrightarrow> l \<noteq> ''.tmp'' \<Longrightarrow> d (entry_file l) = V l"
  by (auto simp: ready_def entry_file_def intro: settled_entry)

lemma fs_get_spec:
  assumes "readable fe V"
  shows "cspec (\<lambda>d. recoverable fe V d \<and> rooted d) (fs_get fe l)
     (\<lambda>got d. got = decoded fe V l \<and> recoverable fe V d \<and> rooted d)
     (\<lambda>d. recoverable fe V d \<and> rooted d) (\<lambda>d. recoverable fe V d \<and> rooted d)"
proof -
  let ?E = "\<lambda>d. recoverable fe V d \<and> rooted d"
  have missing: "decoded fe V l = None" if "recoverable fe V d" "rooted d" "d Dir = None" for d
  proof -
    have "settled V d" using that by (auto simp: recoverable_def journaled_def rooted_def)
    with that show ?thesis by (auto simp: decoded_def rooted_def settled_def entries_def)
  qed
  let ?P = "\<lambda>d. ready V d \<and> work_dir d"
  have rd: "cspec ?P (backend_io fe (fio_catch (fio_bind (fs_read (entry_file l)) (\<lambda>b. fio_return (Some b)))
          (\<lambda>e. if e = IoNotFound then fio_return None else fio_error e)))
      (\<lambda>got d. V l = map_option RegularFile got \<and> ?P d) ?E ?E"
    by (rule cspec_backend_io, rule cspec_conseq [OF fs_read_missing [where P = ?P]])
      (auto dest: ready_entry_file intro: ready_recoverable work_dir_rooted)
  have dec: "cspec ?P (case got of None \<Rightarrow> fio_return None
        | Some bs \<Rightarrow> fio_bind (backend_other (dec_entry fe bs)) (\<lambda>e. fio_return (Some e)))
      (\<lambda>got d. got = decoded fe V l \<and> ?E d) ?E ?E" if "V l = map_option RegularFile got" for got
  proof (cases got)
    case None
    with that show ?thesis
      by (auto simp: decoded_def intro!: cspec_return ready_recoverable work_dir_rooted)
  next
    case (Some b)
    with that readableD [OF assms, of l] obtain e where "dec_entry fe b = Inr e" "decoded fe V l = Some e" by auto
    with Some show ?thesis
      by (auto simp: backend_other_def intro!: cspec_return ready_recoverable work_dir_rooted)
  qed
  have "cspec ?P (fio_bind (backend_io fe (fio_catch (fio_bind (fs_read (entry_file l)) (\<lambda>b. fio_return (Some b)))
          (\<lambda>e. if e = IoNotFound then fio_return None else fio_error e))) (\<lambda>got. case got of None \<Rightarrow> fio_return None
        | Some bs \<Rightarrow> fio_bind (backend_other (dec_entry fe bs)) (\<lambda>e. fio_return (Some e))))
      (\<lambda>got d. got = decoded fe V l \<and> ?E d) ?E ?E"
    by (rule cspec_bind [OF rd], rule cspec_pull, rule dec)
  from access_spec [OF this] have body: "cspec ?E (access fe False None (fio_bind (backend_io fe (fio_catch
          (fio_bind (fs_read (entry_file l)) (\<lambda>b. fio_return (Some b)))
          (\<lambda>e. if e = IoNotFound then fio_return None else fio_error e))) (\<lambda>got. case got of None \<Rightarrow> fio_return None
        | Some bs \<Rightarrow> fio_bind (backend_other (dec_entry fe bs)) (\<lambda>e. fio_return (Some e)))))
      (\<lambda>got d. got = decoded fe V l \<and> ?E d) ?E ?E" using missing by auto
  show ?thesis unfolding fs_get_def
    by (cases "entry_path l") (auto intro: body cspec_error)
qed

lemma fs_remove_spec:
  assumes "readable fe V"
  shows "cspec (\<lambda>d. recoverable fe V d \<and> rooted d) (fs_remove fe l)
     (\<lambda>removed d. removed = (decoded fe V l \<noteq> None) \<and> recoverable fe (V(l := None)) d \<and> rooted d)
     (\<lambda>d. (recoverable fe V d \<or> recoverable fe (V(l := None)) d) \<and> rooted d)
     (\<lambda>d. (recoverable fe V d \<or> recoverable fe (V(l := None)) d) \<and> rooted d)"
proof -
  let ?V = "V(l := None)"
  let ?E = "\<lambda>d. (recoverable fe V d \<or> recoverable fe ?V d) \<and> rooted d"
  let ?P = "\<lambda>d. ready V d \<and> work_dir d"
  have dec: "decoded fe V l \<noteq> None \<longleftrightarrow> V l \<noteq> None"
    using readableD [OF assms, of l] by (auto simp: decoded_def split: option.splits node.splits sum.splits)
  have missing: "V l = None \<and> ?V = V" if "recoverable fe V d" "rooted d" "d Dir = None" for d
    using that by (auto simp: recoverable_def journaled_def rooted_def settled_def entries_def fun_eq_iff)
  have upd: "ready ?V (d(Entry l := None)) \<and> work_dir (d(Entry l := None))" if "?P d" for d
    using that by (auto simp: ready_def settled_def entries_def fun_eq_iff work_dir_def)
  have rm: "cspec ?P (remove_file (entry_file l)) (\<lambda>removed d. removed = (V l \<noteq> None) \<and> ready ?V d \<and> work_dir d) ?E ?E"
  proof (cases "l = ''.tmp''")
    case True
    then show ?thesis
      by (auto simp: cspec_def remove_file_def fio_catch_def fio_bind_def fio_return_def fio_error_def unlink_def prim_def
          quiet_def entry_file_def ready_def split: list.splits decision.splits
          intro: settled_recoverable work_dir_rooted)
  next
    case False
    then have e: "entry_file l = Entry l" by (simp add: entry_file_def)
    have keep: "ready V d \<Longrightarrow> d (Entry l) = V l" for d by (auto simp: ready_def intro: settled_entry)
    have none: "ready V d \<Longrightarrow> d (Entry l) = None \<Longrightarrow> V l = None \<and> ready ?V d" for d
      using keep [of d] by (auto simp: ready_def settled_def entries_def fun_eq_iff)
    have E: "ready V d \<Longrightarrow> work_dir d \<Longrightarrow> ?E d" for d by (auto intro: ready_recoverable work_dir_rooted)
    show ?thesis unfolding e
      using keep none upd E
      by (auto simp: cspec_def remove_file_def fio_catch_def fio_bind_def fio_return_def fio_error_def unlink_def prim_def
          quiet_def split: list.splits decision.splits option.splits node.splits)
  qed
  have body: "cspec ?P (fio_bind (backend_io fe (remove_file (entry_file l))) (\<lambda>removed.
        fio_bind (backend_io fe (sync_dir Dir)) (\<lambda>_. fio_return removed)))
      (\<lambda>removed d. removed = (V l \<noteq> None) \<and> recoverable fe ?V d \<and> rooted d) ?E ?E"
  proof (rule cspec_bind [OF cspec_backend_io [OF rm]], rule cspec_pull, goal_cases)
    case (1 removed)
    have "cspec (\<lambda>d. ready ?V d \<and> work_dir d) (backend_io fe (sync_dir Dir)) (\<lambda>_ d. ready ?V d \<and> work_dir d) ?E ?E"
      by (rule cspec_backend_io [OF cspec_weaken_EC [OF keeps_quiet(3)]]) (auto intro: ready_recoverable work_dir_rooted)
    then show ?case by (rule cspec_bind) (use 1 in \<open>auto intro!: cspec_return ready_recoverable work_dir_rooted\<close>)
  qed
  have acc: "cspec (\<lambda>d. recoverable fe V d \<and> rooted d) (access fe False False (fio_bind (backend_io fe (remove_file (entry_file l)))
        (\<lambda>removed. fio_bind (backend_io fe (sync_dir Dir)) (\<lambda>_. fio_return removed))))
      (\<lambda>removed d. removed = (V l \<noteq> None) \<and> recoverable fe ?V d \<and> rooted d) ?E ?E"
    by (rule access_spec [OF body]) (use missing in fastforce)+
  then show ?thesis unfolding fs_remove_def dec
    by (cases "entry_path l") (auto intro: cspec_error)
qed

lemma list_entries_spec:
  assumes "readable fe V" "\<And>n. n \<in> set names \<Longrightarrow> n = ''.tmp'' \<or> V n \<noteq> None"
  shows "cspec (\<lambda>d. ready V d \<and> work_dir d) (list_entries fe ms names)
     (\<lambda>xs d. (\<exists>es. xs = ms @ map metadata es \<and> map (md_label \<circ> metadata) es = filter (\<lambda>n. n \<noteq> ''.tmp'') names
          \<and> (\<forall>e \<in> set es. decoded fe V (md_label (metadata e)) = Some e)) \<and> ready V d \<and> work_dir d)
     (\<lambda>d. ready V d \<and> work_dir d) (\<lambda>d. ready V d \<and> work_dir d)"
  using assms(2)
proof (induction names arbitrary: ms)
  case Nil
  show ?case by (auto intro: cspec_return)
next
  case (Cons n names)
  let ?P = "\<lambda>d. ready V d \<and> work_dir d"
  let ?R = "\<lambda>ms names xs d. (\<exists>es. xs = ms @ map metadata es \<and> map (md_label \<circ> metadata) es = filter (\<lambda>n. n \<noteq> ''.tmp'') names
          \<and> (\<forall>e \<in> set es. decoded fe V (md_label (metadata e)) = Some e)) \<and> ?P d"
  have ft: "cspec ?P (backend_io fe (file_type_is_dir (entry_file n)))
      (\<lambda>b d. ?P d \<and> b = (d (entry_file n) = Some Directory)) ?P ?P"
    by (rule cspec_backend_io [OF keeps_quiet(5)])
  have IH: "cspec ?P (list_entries fe ms' names) (?R ms' names) ?P ?P" for ms'
    by (rule Cons.IH) (use Cons.prems in auto)
  show ?case
  proof (cases "n = ''.tmp''")
    case True
    have "cspec (\<lambda>d. ?P d \<and> b = (d (entry_file n) = Some Directory)) (if b then
       (if n = ''.tmp'' then list_entries fe ms names else fio_error (Backend ''keystore contains an unexpected entry''))
     else fio_bind (backend_io fe (fs_read (entry_file n))) (\<lambda>bs.
       fio_bind (backend_other (dec_entry fe bs)) (\<lambda>decoded.
       if n \<noteq> md_label (metadata decoded) then fio_error (Backend ''key entry label does not match its file name'')
       else list_entries fe (ms @ [metadata decoded]) names))) (?R ms (n # names)) ?P ?P" for b
    proof (cases b)
      case b: True
      show ?thesis using IH [of ms] True b by (auto elim!: cspec_conseq)
    next
      case False
      then show ?thesis using True by (auto simp: cspec_def entry_file_def work_dir_def)
    qed
    from cspec_bind [OF ft this] show ?thesis unfolding list_entries.simps .
  next
    case False
    with Cons.prems obtain nd where "V n = Some nd" by fastforce
    with readableD [OF assms(1), of n] obtain b e where b: "V n = Some (RegularFile b)" "dec_entry fe b = Inr e"
      "decoded fe V n = Some e" "md_label (metadata e) = n" by auto
    have at: "d (entry_file n) = Some (RegularFile b)" if "?P d" for d
      using that ready_entry [of V d n] False b(1) by simp
    have rd: "cspec ?P (backend_io fe (fs_read (entry_file n))) (\<lambda>bs d. bs = b \<and> ?P d) ?P ?P"
      by (rule cspec_backend_io, rule cspec_conseq [OF keeps_quiet(2)]) (auto simp: at)
    have "cspec (\<lambda>d. ?P d \<and> isdir = (d (entry_file n) = Some Directory)) (if isdir then
       (if n = ''.tmp'' then list_entries fe ms names else fio_error (Backend ''keystore contains an unexpected entry''))
     else fio_bind (backend_io fe (fs_read (entry_file n))) (\<lambda>bs.
       fio_bind (backend_other (dec_entry fe bs)) (\<lambda>decoded.
       if n \<noteq> md_label (metadata decoded) then fio_error (Backend ''key entry label does not match its file name'')
       else list_entries fe (ms @ [metadata decoded]) names))) (?R ms (n # names)) ?P ?P" for isdir
    proof (cases isdir)
      case True
      with False show ?thesis by (auto simp: cspec_def at)
    next
      case nd: False
      have "cspec ?P (fio_bind (backend_io fe (fs_read (entry_file n))) (\<lambda>bs.
         fio_bind (backend_other (dec_entry fe bs)) (\<lambda>decoded.
         if n \<noteq> md_label (metadata decoded) then fio_error (Backend ''key entry label does not match its file name'')
         else list_entries fe (ms @ [metadata decoded]) names))) (?R ms (n # names)) ?P ?P"
      proof (rule cspec_bind [OF rd], rule cspec_pull, goal_cases)
        case (1 bs)
        have "?R ms (n # names) xs d" if R: "?R (ms @ [metadata e]) names xs d" for xs d
        proof -
          from R obtain es where "xs = ms @ map metadata (e # es)"
            "map (md_label \<circ> metadata) es = filter (\<lambda>n. n \<noteq> ''.tmp'') names"
            "\<forall>e \<in> set es. decoded fe V (md_label (metadata e)) = Some e" by auto
          with b False R show ?thesis by (intro conjI exI [of _ "e # es"]) auto
        qed
        then have "cspec ?P (list_entries fe (ms @ [metadata e]) names) (?R ms (n # names)) ?P ?P"
          by (intro cspec_conseq [OF IH]) blast+
        with 1 b show ?case by (simp add: backend_other_def)
      qed
      with nd show ?thesis by (auto elim!: cspec_conseq)
    qed
    from cspec_bind [OF ft this] show ?thesis unfolding list_entries.simps .
  qed
qed

lemma decoded_label:
  assumes "readable fe V" "decoded fe V l = Some e"
  shows "md_label (metadata e) = l"
proof -
  from assms(2) obtain nd where "V l = Some nd" by (cases "V l") (auto simp: decoded_def)
  from readableD [OF assms(1) this] assms(2) show ?thesis by auto
qed

lemma ran_decoded:
  "readable fe V \<Longrightarrow> e \<in> ran (decoded fe V) \<longleftrightarrow> decoded fe V (md_label (metadata e)) = Some e"
  by (auto simp: ran_def dest: decoded_label)

lemma entry_names:
  assumes "readable fe V" "ready V d" "work_dir d"
  shows "{l. d (entry_file l) \<noteq> None} = insert ''.tmp'' (dom V)"
proof (intro set_eqI)
  fix l
  show "l \<in> {l. d (entry_file l) \<noteq> None} \<longleftrightarrow> l \<in> insert ''.tmp'' (dom V)"
    using ready_entry [OF assms(2), of l] assms(3) by (cases "l = ''.tmp''") (auto simp: entry_file_def work_dir_def)
qed

text \<open>
  The metadata listed: one record for each stored entry, no label twice.
\<close>

definition listing :: "fs_env \<Rightarrow> (string \<Rightarrow> node option) \<Rightarrow> key_metadata list \<Rightarrow> bool" where
  "listing fe V ms \<longleftrightarrow> distinct (map md_label ms) \<and> set ms = metadata ` ran (decoded fe V)"

lemma listingI:
  assumes V: "readable fe V" and xs: "distinct xs" "set xs = insert ''.tmp'' (dom V)"
    and es: "map (md_label \<circ> metadata) es = filter (\<lambda>n. n \<noteq> ''.tmp'') xs"
      "\<forall>e \<in> set es. decoded fe V (md_label (metadata e)) = Some e"
  shows "listing fe V (map metadata es)"
proof -
  have "distinct (map (md_label \<circ> metadata) es)" unfolding es(1) using xs(1) by simp
  then have "distinct (map md_label (map metadata es))" by simp
  moreover have "set es = ran (decoded fe V)"
  proof (intro set_eqI iffI)
    fix e assume "e \<in> set es" then show "e \<in> ran (decoded fe V)" using es(2) by (auto simp: ran_def)
  next
    fix e assume "e \<in> ran (decoded fe V)"
    then have e: "decoded fe V (md_label (metadata e)) = Some e" using ran_decoded [OF V] by blast
    then obtain nd where nd: "V (md_label (metadata e)) = Some nd"
      by (cases "V (md_label (metadata e))") (auto simp: decoded_def)
    have "md_label (metadata e) \<noteq> ''.tmp''" using readableD [OF V nd] by blast
    with nd have "md_label (metadata e) \<in> set (filter (\<lambda>n. n \<noteq> ''.tmp'') xs)"
      using xs(2) by (simp add: domI)
    then have "md_label (metadata e) \<in> set (map (md_label \<circ> metadata) es)" unfolding es(1) .
    then obtain e' where e': "e' \<in> set es" "md_label (metadata e) = md_label (metadata e')" by auto
    from es(2) e'(1) have "decoded fe V (md_label (metadata e')) = Some e'" by blast
    with e e' show "e \<in> set es" by simp
  qed
  ultimately show ?thesis by (simp add: listing_def)
qed

lemma fs_list_spec:
  assumes fe: "fs_env_law fe" and V: "readable fe V"
  shows "cspec (\<lambda>d. recoverable fe V d \<and> rooted d) (fs_list fe)
     (\<lambda>ms d. listing fe V ms \<and> recoverable fe V d \<and> rooted d)
     (\<lambda>d. recoverable fe V d \<and> rooted d) (\<lambda>d. recoverable fe V d \<and> rooted d)"
proof -
  let ?P = "\<lambda>d. ready V d \<and> work_dir d"
  let ?E = "\<lambda>d. recoverable fe V d \<and> rooted d"
  have names: "distinct (dir_order fe d) \<and> set (dir_order fe d) = insert ''.tmp'' (dom V)" if "?P d" for d
  proof -
    have "finite {l. d (entry_file l) \<noteq> None}" using entry_names [OF V] that V by (simp add: readable_def)
    with fe have "distinct (dir_order fe d) \<and> set (dir_order fe d) = {l. d (entry_file l) \<noteq> None}"
      by (simp add: fs_env_law_def)
    then show ?thesis using entry_names [OF V] that by simp
  qed
  have rd: "cspec ?P (backend_io fe (read_dir fe))
      (\<lambda>xs d. (distinct xs \<and> set xs = insert ''.tmp'' (dom V)) \<and> ?P d) ?P ?P"
    by (rule cspec_backend_io, rule cspec_conseq [OF keeps_quiet(8)]) (auto simp: names)
  have ls: "cspec ?P (list_entries fe [] xs) (\<lambda>ms d. listing fe V ms \<and> ?P d) ?P ?P"
    if xs: "distinct xs \<and> set xs = insert ''.tmp'' (dom V)" for xs
    by (rule cspec_conseq [OF list_entries_spec [OF V]]) (use xs in \<open>auto intro: listingI [OF V]\<close>)
  have body: "cspec ?P (fio_bind (backend_io fe (read_dir fe)) (\<lambda>names. list_entries fe [] names))
      (\<lambda>ms d. listing fe V ms \<and> ?E d) ?E ?E"
    by (rule cspec_conseq [OF cspec_bind [OF rd cspec_pull [OF ls]]]) (auto intro: ready_recoverable work_dir_rooted)
  have missing: "listing fe V []" if "recoverable fe V d" "rooted d" "d Dir = None" for d
  proof -
    have "V = Map.empty"
      using that by (auto simp: recoverable_def journaled_def rooted_def settled_def entries_def fun_eq_iff)
    then show ?thesis by (simp add: decoded_def ran_def listing_def)
  qed
  show ?thesis unfolding fs_list_def by (rule access_spec [OF body]) (auto intro: missing)
qed

end
