(* ===== verification/Keychain_Laws.thy ===== *)
theory Keychain_Laws
  imports Keychain
begin

section \<open>The keychain over any backend\<close>

text \<open>
  The contract of the trait \<^verbatim>\<open>Keystore\<close> as a locale, and what the keychain guarantees over every backend
  that keeps it, as Hoare triples over the state passing functions. \<open>contents\<close> is the map a backend
  stands for, \<open>inv\<close> its invariant, \<open>faulty\<close> the errors it may return. A failed \<^verbatim>\<open>put\<close> or \<^verbatim>\<open>remove\<close> leaves
  the old contents or has been carried out, a failed \<^verbatim>\<open>put_many\<close> may have replaced some of its labels.
\<close>

subsection \<open>Triples\<close>

definition hoare :: "('be keychain \<Rightarrow> bool) \<Rightarrow> ('be, 'a) kc \<Rightarrow> ('a ks_result \<Rightarrow> 'be keychain \<Rightarrow> bool) \<Rightarrow> bool" where
  "hoare P m Q \<longleftrightarrow> (\<forall>kc. P kc \<longrightarrow> (case m kc of (kc', r) \<Rightarrow> Q r kc'))"

lemma hoareI: "(\<And>kc kc' r. P kc \<Longrightarrow> m kc = (kc', r) \<Longrightarrow> Q r kc') \<Longrightarrow> hoare P m Q"
  by (auto simp: hoare_def)

lemma hoareD: "hoare P m Q \<Longrightarrow> P kc \<Longrightarrow> m kc = (kc', r) \<Longrightarrow> Q r kc'"
  by (auto simp: hoare_def)

lemma hoare_bind:
  assumes "hoare P m (\<lambda>r kc. case r of Inl e \<Rightarrow> R (Inl e) kc | Inr a \<Rightarrow> S a kc)"
    and "\<And>a. hoare (S a) (f a) R"
  shows "hoare P (kc_bind m f) R"
  using assms unfolding hoare_def kc_bind_def
  by (fastforce split: prod.splits sum.splits)

lemma kc_bind_pure [simp]:
  "kc_bind (kc_pure (Inr a)) f = f a"
  "kc_bind (kc_pure (Inl e)) f = kc_pure (Inl e)"
  by (simp_all add: kc_bind_def kc_pure_def fun_eq_iff)

lemma hoare_pure: "hoare P (kc_pure x) (\<lambda>r kc. P kc \<and> r = x)"
  by (simp add: hoare_def kc_pure_def)

lemma hoare_bind_pure:
  assumes "\<And>e. x = Inl e \<Longrightarrow> \<forall>kc. P kc \<longrightarrow> R (Inl e) kc"
    and "\<And>a. x = Inr a \<Longrightarrow> hoare P (f a) R"
  shows "hoare P (kc_bind (kc_pure x) f) R"
  using assms by (cases x) (auto simp: hoare_def kc_bind_def kc_pure_def)

lemma hoare_return: "(\<And>kc. P kc \<Longrightarrow> R (Inr a) kc) \<Longrightarrow> hoare P (kc_return a) R"
  by (simp add: hoare_def kc_return_def)

lemma hoare_error: "(\<And>kc. P kc \<Longrightarrow> R x kc) \<Longrightarrow> hoare P (kc_pure x) R"
  by (simp add: hoare_def kc_pure_def)

lemma hoare_conseq:
  "hoare P m Q \<Longrightarrow> (\<And>kc. P' kc \<Longrightarrow> P kc) \<Longrightarrow> (\<And>r kc. Q r kc \<Longrightarrow> R r kc) \<Longrightarrow> hoare P' m R"
  by (rule hoareI) (blast dest: hoareD)

lemma hoare_weaken: "hoare P m Q \<Longrightarrow> (\<And>r kc. Q r kc \<Longrightarrow> R r kc) \<Longrightarrow> hoare P m R"
  by (auto simp: hoare_def)

lemma hoare_pull: "(A \<Longrightarrow> hoare P m Q) \<Longrightarrow> hoare (\<lambda>kc. A \<and> P kc) m Q"
  by (auto simp: hoare_def)

subsection \<open>Sealed entries\<close>

definition identity_law :: "('kp, 'pk) identity \<Rightarrow> bool" where
  "identity_law idn \<longleftrightarrow> (\<forall>kp bs. to_protobuf_encoding idn kp = Inr bs
     \<longrightarrow> from_protobuf_encoding idn bs = Inr kp)"

definition describes :: "('kp, 'pk) identity \<Rightarrow> key_metadata \<Rightarrow> 'kp \<Rightarrow> bool" where
  "describes idn m kp \<longleftrightarrow> md_key_type m = from_p2p_key_type (keypair_key_type idn kp)
     \<and> md_public_key m = encode_protobuf idn (public idn kp)"

lemma seal_entry_Inr:
  "seal_entry idn rnd c m kp = Inr e \<longleftrightarrow>
     (\<exists>bs ct. to_protobuf_encoding idn kp = Inr bs
        \<and> encrypt c rnd (Some (metadata_aad m)) bs = Inr ct \<and> e = \<lparr>metadata = m, ciphertext = ct\<rparr>)"
  by (auto simp: seal_entry_def try_res_Inr_iff split: sum.splits)

lemma open_entry_Inr:
  "open_entry idn c l e = Inr x \<longleftrightarrow>
     (\<exists>bs. md_label (metadata e) = l
        \<and> decrypt c (Some (metadata_aad (metadata e))) (ciphertext e) = Inr bs
        \<and> from_protobuf_encoding idn bs = Inr (opened_keypair x)
        \<and> describes idn (metadata e) (opened_keypair x) \<and> opened_metadata x = metadata e)"
proof (cases "decrypt c (Some (metadata_aad (metadata e))) (ciphertext e)")
  case (Inl err)
  then show ?thesis by (simp add: open_entry_def)
next
  case (Inr bs)
  then show ?thesis
    by (cases "from_protobuf_encoding idn bs"; cases x) (auto simp: open_entry_def describes_def)
qed

lemma seal_open:
  assumes "identity_law idn" "cipher_ok c" "fill_bytes_law rnd" "describes idn m kp"
    and "seal_entry idn rnd c m kp = Inr e"
  shows "metadata e = m"
    and "open_entry idn c (md_label m) e = Inr \<lparr>opened_keypair = kp, opened_metadata = m\<rparr>"
  using assms by (auto simp: seal_entry_Inr open_entry_Inr identity_law_def dest: cipher_okD)

definition all_open :: "('kp, 'pk) identity \<Rightarrow> cipher \<Rightarrow> (label \<rightharpoonup> encrypted_entry) \<Rightarrow> bool" where
  "all_open idn c m \<longleftrightarrow> (\<forall>l e. m l = Some e \<longrightarrow>
     validate_label l = Inr () \<and> (\<exists>x. open_entry idn c l e = Inr x))"

text \<open>The decrypted view of a store.\<close>

definition vault :: "('kp, 'pk) identity \<Rightarrow> cipher \<Rightarrow> (label \<rightharpoonup> encrypted_entry) \<Rightarrow> label \<rightharpoonup> 'kp opened_entry" where
  "vault idn c m l = (case m l of None \<Rightarrow> None
     | Some e \<Rightarrow> (case open_entry idn c l e of Inl _ \<Rightarrow> None | Inr x \<Rightarrow> Some x))"

lemma all_open_update:
  assumes "all_open idn c m" "open_entry idn c l e = Inr x" "validate_label l = Inr ()"
  shows "all_open idn c (m(l \<mapsto> e))" and "vault idn c (m(l \<mapsto> e)) = (vault idn c m)(l \<mapsto> x)"
  using assms by (auto simp: all_open_def vault_def fun_eq_iff)

lemma all_open_remove:
  "all_open idn c m \<Longrightarrow> all_open idn c (m(l := None))"
  "vault idn c (m(l := None)) = (vault idn c m)(l := None)"
  by (auto simp: all_open_def vault_def fun_eq_iff)

lemma vault_Some_iff:
  "vault idn c m l = Some x \<longleftrightarrow> (\<exists>e. m l = Some e \<and> open_entry idn c l e = Inr x)"
  by (auto simp: vault_def split: option.splits sum.splits)

lemma vault_dom: "all_open idn c m \<Longrightarrow> vault idn c m l = None \<longleftrightarrow> m l = None"
  by (force simp: all_open_def vault_def split: option.splits)

lemma open_entries_Inr:
  "open_entries idn c es = Inr xs \<longleftrightarrow>
     list_all2 (\<lambda>e x. open_entry idn c (md_label (metadata e)) e = Inr x) es xs"
  by (induction es arbitrary: xs) (auto simp: try_res_Inr_iff list_all2_Cons1)

lemma open_entries_ok:
  "(\<And>e. e \<in> set es \<Longrightarrow> \<exists>x. open_entry idn c (md_label (metadata e)) e = Inr x) \<Longrightarrow>
     \<exists>xs. open_entries idn c es = Inr xs"
  by (induction es) fastforce+

lemma reseal_all_Inr:
  assumes "reseal_all idn rnd c d es = Inr es'"
    and "identity_law idn" "cipher_ok d" "\<And>i. fill_bytes_law (rnd i)"
  shows "list_all2 (\<lambda>e e'. metadata e' = metadata e \<and> (\<exists>x. open_entry idn c (md_label (metadata e)) e = Inr x
           \<and> open_entry idn d (md_label (metadata e)) e' = Inr x)) es es'"
  using assms(1,4)
proof (induction es arbitrary: es' rnd)
  case (Cons e es)
  from Cons.prems(1) obtain x e' rest where
    x: "open_entry idn c (md_label (metadata e)) e = Inr x"
    and e': "seal_entry idn (rnd 0) d (opened_metadata x) (opened_keypair x) = Inr e'"
    and rest: "reseal_all idn (\<lambda>i. rnd (Suc i)) c d es = Inr rest" "es' = e' # rest"
    by (auto simp: try_res_Inr_iff)
  from x have m: "opened_metadata x = metadata e" and d: "describes idn (metadata e) (opened_keypair x)"
    by (auto simp: open_entry_Inr)
  note so = seal_open [OF assms(2,3) Cons.prems(2) _ e', unfolded m, OF d]
  have "open_entry idn d (md_label (metadata e)) e' = Inr x" using so(2) m by (cases x) simp
  with x so(1) rest Cons.IH [OF rest(1) Cons.prems(2)] show ?case by simp
qed simp

definition stored :: "encrypted_entry list \<Rightarrow> (label \<rightharpoonup> encrypted_entry) \<Rightarrow> label \<rightharpoonup> encrypted_entry" where
  "stored es m = fold (\<lambda>e m. m(md_label (metadata e) \<mapsto> e)) es m"

lemma stored_other:
  "l \<notin> (md_label \<circ> metadata) ` set es \<Longrightarrow> stored es m l = m l"
  unfolding stored_def by (induction es arbitrary: m) auto

lemma stored_in:
  "distinct (map (md_label \<circ> metadata) es) \<Longrightarrow> e \<in> set es \<Longrightarrow> stored es m (md_label (metadata e)) = Some e"
proof (induction es arbitrary: m)
  case (Cons a es)
  show ?case
  proof (cases "e = a")
    case True
    with Cons.prems have "md_label (metadata e) \<notin> (md_label \<circ> metadata) ` set es" by auto
    from stored_other [OF this] True show ?thesis by (simp add: stored_def)
  next
    case False
    with Cons show ?thesis by (simp add: stored_def)
  qed
qed simp

definition new_metadata ::
  "('kp, 'pk) identity \<Rightarrow> ('kp, 'be) kc_env \<Rightarrow> label \<Rightarrow> 'kp \<Rightarrow> expiry \<Rightarrow> u32 \<Rightarrow> key_metadata" where
  "new_metadata idn env l kp ex version =
     \<lparr>md_label = l, md_key_type = from_p2p_key_type (keypair_key_type idn kp), md_version = version,
      md_created_at = sys_time env, md_expires_at = resolve ex (sys_time env),
      md_public_key = encode_protobuf idn (public idn kp)\<rparr>"

lemma new_metadata_simps [simp]:
  "md_label (new_metadata idn env l kp ex v) = l" "md_version (new_metadata idn env l kp ex v) = v"
  "md_expires_at (new_metadata idn env l kp ex v) = resolve ex (sys_time env)"
  "describes idn (new_metadata idn env l kp ex v) kp"
  by (simp_all add: new_metadata_def describes_def)

text \<open>The checks of a store operation and the entry it writes.\<close>

definition store_entry ::
  "('kp, 'pk) identity \<Rightarrow> ('kp, 'be) kc_env \<Rightarrow> cipher \<Rightarrow> bool \<Rightarrow> label \<Rightarrow> 'kp \<Rightarrow> expiry \<Rightarrow> u32 \<Rightarrow>
   encrypted_entry ks_result" where
  "store_entry idn env c d l kp ex v =
     (if d then Inl Disabled
      else try_res (validate_label l)
        (\<lambda>_. seal_entry idn (rng env 0) c (new_metadata idn env l kp ex v) kp))"

definition get_spec :: "(label \<rightharpoonup> 'kp opened_entry) \<Rightarrow> time \<Rightarrow> label \<Rightarrow> 'kp ks_result" where
  "get_spec V now l = (case V l of
     None \<Rightarrow> Inl (NotFound l)
   | Some x \<Rightarrow> if is_expired now (opened_metadata x) then Inl (Expired l) else Inr (opened_keypair x))"

definition rotate_spec ::
  "('kp, 'be) kc_env \<Rightarrow> (label \<rightharpoonup> 'kp opened_entry) \<Rightarrow> label \<Rightarrow> 'kp rotate_key \<Rightarrow> ('kp \<times> u32) ks_result" where
  "rotate_spec env V l key = try_res (validate_label l) (\<lambda>_. try_res (ok_or (NotFound l) (V l)) (\<lambda>x.
     try_res (case key of RotateKeypair kp \<Rightarrow> Inr kp | RotateGenerate k \<Rightarrow> generate_keypair env k)
       (\<lambda>kp. Inr (kp, u32_saturating_add (md_version (opened_metadata x)) 1))))"

definition expired_labels :: "(label \<rightharpoonup> 'kp opened_entry) \<Rightarrow> time \<Rightarrow> label set" where
  "expired_labels V now = {l. \<exists>x. V l = Some x \<and> is_expired now (opened_metadata x)}"

lemma opened_of_loaded:
  assumes "all_open idn c m" "set es = ran m" "\<forall>e \<in> set es. m (md_label (metadata e)) = Some e"
  shows "\<exists>xs. open_entries idn c es = Inr xs \<and> map opened_metadata xs = map metadata es
    \<and> set xs = ran (vault idn c m)"
proof -
  have "\<exists>x. open_entry idn c (md_label (metadata e)) e = Inr x" if "e \<in> set es" for e
    using assms(1,3) that by (auto simp: all_open_def)
  from open_entries_ok [OF this] obtain xs where xs: "open_entries idn c es = Inr xs" by blast
  then have rel: "list_all2 (\<lambda>e x. open_entry idn c (md_label (metadata e)) e = Inr x) es xs"
    by (simp add: open_entries_Inr)
  then have "map opened_metadata xs = map metadata es"
    by (induction rule: list_all2_induct) (auto simp: open_entry_Inr)
  moreover have "set xs = ran (vault idn c m)"
  proof (intro set_eqI iffI)
    fix x assume "x \<in> set xs"
    then obtain i where i: "i < length xs" "x = xs ! i" by (auto simp: in_set_conv_nth)
    then have "i < length es" using list_all2_lengthD [OF rel] by simp
    moreover from this i list_all2_nthD2 [OF rel i(1)] have
      "es ! i \<in> set es" "open_entry idn c (md_label (metadata (es ! i))) (es ! i) = Inr x" by simp_all
    ultimately show "x \<in> ran (vault idn c m)" using assms(3) by (metis ranI vault_Some_iff)
  next
    fix x assume "x \<in> ran (vault idn c m)"
    then obtain l e where e: "m l = Some e" "open_entry idn c l e = Inr x" by (auto simp: ran_def vault_Some_iff)
    then have "e \<in> set es" "l = md_label (metadata e)" using assms(2) by (auto simp: ran_def open_entry_Inr)
    then obtain i where i: "i < length es" "e = es ! i" by (auto simp: in_set_conv_nth)
    with list_all2_nthD [OF rel i(1)] e(2) \<open>l = _\<close> have "xs ! i = x" by simp
    with i(1) list_all2_lengthD [OF rel] show "x \<in> set xs" by auto
  qed
  ultimately show ?thesis using xs by blast
qed

subsection \<open>The contract of a backend\<close>

locale keystore_backend =
  fixes ops :: "'be backend_ops"
    and contents :: "'be \<Rightarrow> label \<rightharpoonup> encrypted_entry"
    and inv :: "'be \<Rightarrow> bool"
    and faulty :: "ks_error \<Rightarrow> bool"
  assumes get_law: "\<And>b l b' r. inv b \<Longrightarrow> be_get ops l b = (b', r) \<Longrightarrow> inv b' \<and> contents b' = contents b
      \<and> (case r of Inl e \<Rightarrow> faulty e | Inr x \<Rightarrow> x = contents b l)"
    and list_law: "\<And>b b' r. inv b \<Longrightarrow> be_list ops b = (b', r) \<Longrightarrow> inv b' \<and> contents b' = contents b
      \<and> (case r of Inl e \<Rightarrow> faulty e
         | Inr ms \<Rightarrow> distinct (map md_label ms) \<and> set ms = metadata ` ran (contents b))"
    and put_law: "\<And>b e b' r. inv b \<Longrightarrow> be_put ops e b = (b', r) \<Longrightarrow> inv b'
      \<and> (case r of Inl err \<Rightarrow> faulty err \<and> contents b' \<in> {contents b, stored [e] (contents b)}
         | Inr _ \<Rightarrow> contents b' = stored [e] (contents b))"
    and put_many_law: "\<And>b es b' r. inv b \<Longrightarrow> be_put_many ops es b = (b', r) \<Longrightarrow> inv b'
      \<and> (case r of Inl err \<Rightarrow> faulty err \<and> (\<forall>l. contents b' l = contents b l
             \<or> (\<exists>e \<in> set es. md_label (metadata e) = l \<and> contents b' l = Some e))
         | Inr _ \<Rightarrow> contents b' = stored es (contents b))"
    and remove_law: "\<And>b l b' r. inv b \<Longrightarrow> be_remove ops l b = (b', r) \<Longrightarrow> inv b'
      \<and> (case r of Inl err \<Rightarrow> faulty err \<and> contents b' \<in> {contents b, (contents b)(l := None)}
         | Inr x \<Rightarrow> contents b' = (contents b)(l := None) \<and> x = (contents b l \<noteq> None))"
    and own_label: "\<And>b l e. inv b \<Longrightarrow> contents b l = Some e \<Longrightarrow> md_label (metadata e) = l"
begin

definition holds :: "cipher \<Rightarrow> (label \<rightharpoonup> encrypted_entry) \<Rightarrow> bool \<Rightarrow> 'be keychain \<Rightarrow> bool" where
  "holds c m d kc \<longleftrightarrow> inv (backend kc) \<and> cipher_slot kc = Some c \<and> contents (backend kc) = m \<and> disabled kc = d"

definition poisoned :: "bool \<Rightarrow> 'be keychain \<Rightarrow> bool" where
  "poisoned d kc \<longleftrightarrow> inv (backend kc) \<and> cipher_slot kc = None \<and> disabled kc = d"

definition env_ok :: "('kp, 'be) kc_env \<Rightarrow> bool" where
  "env_ok env \<longleftrightarrow> (\<forall>i. fill_bytes_law (rng env i))
     \<and> (\<forall>f b. task_stop env = Some f \<longrightarrow> inv b \<longrightarrow> inv (f b))"

lemma holds_get:
  "hoare (holds c m d) (on_backend (be_get ops l))
     (\<lambda>r kc. holds c m d kc \<and> (case r of Inl e \<Rightarrow> faulty e | Inr x \<Rightarrow> x = m l))"
  by (rule hoareI) (auto simp: on_backend_def holds_def split: prod.splits sum.splits dest: get_law)

lemma holds_list:
  "hoare (holds c m d) (on_backend (be_list ops))
     (\<lambda>r kc. holds c m d kc \<and> (case r of Inl e \<Rightarrow> faulty e
        | Inr ms \<Rightarrow> distinct (map md_label ms) \<and> set ms = metadata ` ran m))"
  by (rule hoareI) (auto simp: on_backend_def holds_def split: prod.splits sum.splits dest: list_law)

lemma holds_lock:
  "hoare (holds c m d) write_lock (\<lambda>r kc. holds c m d kc \<and> r = Inr c)"
  "hoare (holds c m d) read_lock (\<lambda>r kc. holds c m d kc \<and> r = Inr c)"
  by (auto simp: hoare_def holds_def write_lock_def read_lock_def)

lemma holds_disable_check:
  "hoare (holds c m d) disable_check (\<lambda>r kc. holds c m d kc \<and> r = (if d then Inl Disabled else Inr ()))"
  by (auto simp: hoare_def holds_def disable_check_def)

text \<open>A write under the lock: the old state with a backend error, the effect of the write, or an empty slot.\<close>

lemma holds_finish:
  assumes "env_ok env"
    and work: "\<And>b b' r. inv b \<Longrightarrow> contents b = m \<Longrightarrow> work b = (b', r) \<Longrightarrow> inv b' \<and> Q r (contents b')"
  shows "hoare (holds c m d) (finish_mutation env work)
     (\<lambda>r kc. (\<exists>m'. holds c m' d kc \<and> Q r m' \<and> task_stop env = None)
           \<or> (poisoned d kc \<and> r = Inl JoinError \<and> task_stop env \<noteq> None))"
proof (rule hoareI)
  fix kc kc' r assume h: "holds c m d kc" and fin: "finish_mutation env work kc = (kc', r)"
  show "(\<exists>m'. holds c m' d kc' \<and> Q r m' \<and> task_stop env = None)
           \<or> (poisoned d kc' \<and> r = Inl JoinError \<and> task_stop env \<noteq> None)"
  proof (cases "task_stop env")
    case None
    obtain b where b: "work (backend kc) = (b, r)" "kc' = kc\<lparr>cipher_slot := cipher_slot kc, backend := b\<rparr>"
      using fin None by (auto simp: finish_mutation_def on_backend_def Let_def split: prod.splits)
    with work [OF _ _ b(1)] h None show ?thesis by (auto simp: holds_def)
  next
    case (Some f)
    with fin h assms(1) show ?thesis by (auto simp: finish_mutation_def holds_def poisoned_def env_ok_def Let_def)
  qed
qed

lemma kc_store_entry:
  "kc_store ops idn env l kp ex v c kc =
     (case store_entry idn env c (disabled kc) l kp ex v of
        Inl e \<Rightarrow> (kc, Inl e) | Inr entry \<Rightarrow> finish_mutation env (be_put ops entry) kc)"
  by (simp add: kc_store_def store_entry_def kc_bind_def disable_check_def kc_pure_def new_metadata_def
      Let_def try_res_def split: sum.split)

text \<open>
  After a write to \<open>l\<close> the keychain is in one of three conditions: the write is done and acknowledged;
  a backend error was returned and the write is done or not; the task was stopped.
\<close>

definition written ::
  "('kp, 'pk) identity \<Rightarrow> ('kp, 'be) kc_env \<Rightarrow> cipher \<Rightarrow> bool \<Rightarrow> (label \<rightharpoonup> encrypted_entry) \<Rightarrow>
   (label \<rightharpoonup> 'kp opened_entry) \<Rightarrow> 'a ks_result \<Rightarrow> 'be keychain \<Rightarrow> bool" where
  "written idn env c d m V r kc \<longleftrightarrow>
     (task_stop env = None \<and> (\<exists>m'. holds c m' d kc \<and> all_open idn c m' \<and>
        (case r of Inr _ \<Rightarrow> vault idn c m' = V
         | Inl e \<Rightarrow> faulty e \<and> vault idn c m' \<in> {vault idn c m, V})))
   \<or> (task_stop env \<noteq> None \<and> poisoned d kc \<and> r = Inl JoinError)"

lemma store_triple:
  fixes idn :: "('kp, 'pk) identity" and env :: "('kp, 'be) kc_env"
  assumes "identity_law idn" "cipher_ok c" "env_ok env" "all_open idn c m"
  shows "hoare (holds c m d) (kc_store ops idn env l kp ex v c)
     (\<lambda>r kc. case store_entry idn env c d l kp ex v of
        Inl e \<Rightarrow> holds c m d kc \<and> r = Inl e
      | Inr _ \<Rightarrow> written idn env c d m
          ((vault idn c m)(l \<mapsto> \<lparr>opened_keypair = kp, opened_metadata = new_metadata idn env l kp ex v\<rparr>)) r kc)"
    (is "hoare _ _ ?R")
proof (cases "store_entry idn env c d l kp ex v")
  case (Inl e)
  then show ?thesis by (intro hoareI) (auto simp: kc_store_entry holds_def)
next
  case (Inr e)
  let ?x = "\<lparr>opened_keypair = kp, opened_metadata = new_metadata idn env l kp ex v\<rparr>"
  from Inr have v: "validate_label l = Inr ()" and
    s: "seal_entry idn (rng env 0) c (new_metadata idn env l kp ex v) kp = Inr e"
    by (auto simp: store_entry_def try_res_Inr_iff split: if_splits)
  have fill: "fill_bytes_law (rng env 0)" using assms(3) by (simp add: env_ok_def)
  note so = seal_open [OF assms(1,2) fill _ s, simplified]
  let ?Q = "\<lambda>r m'. case r of Inl err \<Rightarrow> faulty err \<and> m' \<in> {m, m(l \<mapsto> e)} | Inr _ \<Rightarrow> m' = m(l \<mapsto> e)"
  have work: "inv b' \<and> ?Q r (contents b')" if "inv b" "contents b = m" "be_put ops e b = (b', r)" for b b' r
    using put_law [OF that(1,3)] that(2) so(1) by (cases r) (simp_all add: stored_def)
  have fin: "hoare (holds c m d) (finish_mutation env (be_put ops e))
     (\<lambda>r kc. (\<exists>m'. holds c m' d kc \<and> ?Q r m' \<and> task_stop env = None)
           \<or> (poisoned d kc \<and> r = Inl JoinError \<and> task_stop env \<noteq> None))"
    by (rule holds_finish [OF assms(3)]) (rule work)
  show ?thesis
  proof (rule hoareI)
    fix kc kc' r assume h: "holds c m d kc" and "kc_store ops idn env l kp ex v c kc = (kc', r)"
    then have "finish_mutation env (be_put ops e) kc = (kc', r)"
      using Inr by (simp add: kc_store_entry holds_def)
    from hoareD [OF fin h this] have "written idn env c d m ((vault idn c m)(l \<mapsto> ?x)) r kc'"
      using all_open_update [OF assms(4) so(2) v] assms(4) by (cases r) (auto simp: written_def)
    with Inr show "?R r kc'" by simp
  qed
qed

lemma insert_triple:
  fixes idn :: "('kp, 'pk) identity" and env :: "('kp, 'be) kc_env"
  assumes "identity_law idn" "cipher_ok c" "env_ok env" "all_open idn c m"
  shows "hoare (holds c m d) (kc_insert_with_expiry ops idn env l kp ex)
     (\<lambda>r kc. case store_entry idn env c d l kp ex 1 of
        Inl e \<Rightarrow> holds c m d kc \<and> r = Inl e
      | Inr _ \<Rightarrow> written idn env c d m
          ((vault idn c m)(l \<mapsto> \<lparr>opened_keypair = kp, opened_metadata = new_metadata idn env l kp ex 1\<rparr>)) r kc)"
  unfolding kc_insert_with_expiry_def
  by (rule hoare_bind [where S = "\<lambda>a kc. a = c \<and> holds c m d kc"])
    (auto intro: hoare_weaken [OF holds_lock(1)] hoare_pull store_triple [OF assms])

lemma kc_insert_eq: "kc_insert ops idn env l kp = kc_insert_with_expiry ops idn env l kp Never"
  by (simp add: kc_insert_def kc_insert_with_expiry_def)

text \<open>Reading. The state is kept; the result is that of the decrypted view or a backend error.\<close>

lemma authenticated_entry_triple:
  assumes "all_open idn c m"
  shows "hoare (holds c m d) (authenticated_entry ops idn l)
     (\<lambda>r kc. holds c m d kc \<and> (case r of Inl e \<Rightarrow> faulty e | Inr x \<Rightarrow> x = vault idn c m l))"
    (is "hoare _ _ ?R")
  unfolding authenticated_entry_def
proof (rule hoare_bind [where S = "\<lambda>a kc. a = c \<and> holds c m d kc"], goal_cases)
  case 1
  show ?case by (rule hoare_weaken [OF holds_lock(2)]) simp
next
  case (2 a)
  show ?case
  proof (rule hoare_pull, rule hoare_bind [where S = "\<lambda>got kc. got = m l \<and> holds c m d kc"], goal_cases)
    case 1
    show ?case by (rule hoare_weaken [OF holds_get]) (auto split: sum.splits)
  next
    case (2 got)
    have "\<exists>x. open_entry idn c l e = Inr x \<and> vault idn c m l = Some x" if "m l = Some e" for e
      using assms that by (fastforce simp: all_open_def vault_def)
    with \<open>a = c\<close> show ?case
      by (intro hoare_pull) (auto simp: hoare_def kc_bind_def kc_pure_def kc_return_def vault_def
          split: option.splits)
  qed
qed

lemma get_triple:
  assumes "all_open idn c m"
  shows "hoare (holds c m d) (kc_get ops idn env l)
     (\<lambda>r kc. holds c m d kc \<and> ((\<exists>e. r = Inl e \<and> faulty e)
        \<or> r = (if d then Inl Disabled
               else try_res (validate_label l) (\<lambda>_. get_spec (vault idn c m) (sys_time env) l))))"
  unfolding kc_get_def
proof (rule hoare_bind [where S = "\<lambda>_ kc. \<not> d \<and> holds c m d kc"], goal_cases)
  case 1
  show ?case by (rule hoare_weaken [OF holds_disable_check]) (auto split: if_splits)
next
  case (2 a)
  show ?case
  proof (rule hoare_pull, rule hoare_bind_pure, goal_cases)
    case (2 u)
    show ?case
      by (rule hoare_bind [OF hoare_weaken [OF authenticated_entry_triple [OF assms]],
            where S = "\<lambda>x kc. x = vault idn c m l \<and> holds c m d kc"])
        (use 2 in \<open>auto simp: hoare_def kc_bind_def kc_pure_def kc_return_def get_spec_def
          split: sum.splits option.splits if_splits\<close>)
  qed auto
qed

lemma metadata_triple:
  assumes "all_open idn c m"
  shows "hoare (holds c m d) (kc_metadata ops idn l)
     (\<lambda>r kc. holds c m d kc \<and> ((\<exists>e. r = Inl e \<and> faulty e)
        \<or> r = try_res (validate_label l) (\<lambda>_. Inr (map_option opened_metadata (vault idn c m l)))))"
  unfolding kc_metadata_def
proof (rule hoare_bind_pure, goal_cases)
  case (2 u)
  show ?case
    by (rule hoare_bind [OF hoare_weaken [OF authenticated_entry_triple [OF assms]],
          where S = "\<lambda>x kc. x = vault idn c m l \<and> holds c m d kc"])
      (use 2 in \<open>auto simp: hoare_def kc_return_def split: sum.splits\<close>)
qed auto

lemma load_loop_triple:
  assumes "\<And>x. x \<in> set ms \<Longrightarrow> \<exists>e. m (md_label x) = Some e \<and> metadata e = x \<and> validate_label (md_label x) = Inr ()"
    and "distinct (map md_label ms)" and "set labels \<inter> md_label ` set ms = {}"
  shows "hoare (holds c m d) (load_loop ops labels entries ms)
     (\<lambda>r kc. holds c m d kc \<and> (case r of Inl e \<Rightarrow> faulty e
        | Inr es \<Rightarrow> \<exists>new. es = entries @ new \<and> map metadata new = ms
            \<and> (\<forall>e \<in> set new. m (md_label (metadata e)) = Some e)))"
  using assms
proof (induction ms arbitrary: labels entries)
  case Nil
  show ?case by (simp add: hoare_def kc_return_def)
next
  case (Cons x ms)
  from Cons.prems(1) [of x] obtain e where
    e: "m (md_label x) = Some e" "metadata e = x" "validate_label (md_label x) = Inr ()" by auto
  have fresh: "md_label x \<notin> set labels" using Cons.prems(3) by auto
  let ?R = "\<lambda>r kc. holds c m d kc \<and> (case r of Inl e \<Rightarrow> faulty e
        | Inr es \<Rightarrow> \<exists>new. es = entries @ new \<and> map metadata new = x # ms
            \<and> (\<forall>e \<in> set new. m (md_label (metadata e)) = Some e))"
  have IH: "hoare (holds c m d) (load_loop ops (md_label x # labels) (entries @ [e]) ms) ?R"
    by (rule hoare_weaken [OF Cons.IH [of "md_label x # labels" "entries @ [e]"]])
      (use Cons.prems e in \<open>auto split: sum.splits intro: exI [of _ "e # _"]\<close>)
  have "hoare (holds c m d) (kc_bind (on_backend (be_get ops (md_label x))) (\<lambda>got.
       kc_bind (kc_pure (ok_or (NotFound (md_label x)) got)) (\<lambda>entry.
       if \<not> same_metadata x (metadata entry) then kc_pure (Inl DecryptFailed)
       else load_loop ops (md_label x # labels) (entries @ [entry]) ms))) ?R"
  proof (rule hoare_bind [where S = "\<lambda>got kc. got = Some e \<and> holds c m d kc"], goal_cases)
    case 1
    show ?case by (rule hoare_weaken [OF holds_get]) (use e in \<open>auto split: sum.splits\<close>)
  next
    case (2 got)
    show ?case by (rule hoare_pull) (use IH e in simp)
  qed
  with e fresh show ?case by simp
qed

lemma load_entries_triple:
  assumes "all_open idn c m"
  shows "hoare (holds c m d) (load_entries ops)
     (\<lambda>r kc. holds c m d kc \<and> (case r of Inl e \<Rightarrow> faulty e
        | Inr es \<Rightarrow> distinct (map (md_label \<circ> metadata) es) \<and> set es = ran m
            \<and> (\<forall>e \<in> set es. m (md_label (metadata e)) = Some e)))"
  unfolding load_entries_def
proof (rule hoareI)
  fix kc kc' r assume h: "holds c m d kc"
    and run: "kc_bind (on_backend (be_list ops)) (load_loop ops [] []) kc = (kc', r)"
  have own: "md_label (metadata e) = l" if "m l = Some e" for l e
    using h that own_label [of "backend kc" l e] by (simp add: holds_def)
  obtain kc1 r1 where l: "on_backend (be_list ops) kc = (kc1, r1)" by (cases "on_backend (be_list ops) kc")
  note hl = hoareD [OF holds_list h l]
  show "holds c m d kc' \<and> (case r of Inl e \<Rightarrow> faulty e
        | Inr es \<Rightarrow> distinct (map (md_label \<circ> metadata) es) \<and> set es = ran m
            \<and> (\<forall>e \<in> set es. m (md_label (metadata e)) = Some e))"
  proof (cases r1)
    case (Inl e)
    with run l hl show ?thesis by (auto simp: kc_bind_def)
  next
    case (Inr ms)
    with hl have h1: "holds c m d kc1" and ms: "distinct (map md_label ms)" "set ms = metadata ` ran m" by auto
    from run l Inr have loop: "load_loop ops [] [] ms kc1 = (kc', r)" by (simp add: kc_bind_def)
    have all: "\<exists>e. m (md_label x) = Some e \<and> metadata e = x \<and> validate_label (md_label x) = Inr ()"
      if x: "x \<in> set ms" for x
    proof -
      from x ms(2) obtain l e where e: "m l = Some e" "metadata e = x" by (auto simp: ran_def)
      from own [OF e(1)] e(2) have "md_label x = l" by simp
      with e assms show ?thesis by (auto simp: all_open_def)
    qed
    have "hoare (holds c m d) (load_loop ops [] [] ms)
       (\<lambda>r kc. holds c m d kc \<and> (case r of Inl e \<Rightarrow> faulty e
        | Inr es \<Rightarrow> \<exists>new. es = [] @ new \<and> map metadata new = ms
            \<and> (\<forall>e \<in> set new. m (md_label (metadata e)) = Some e)))"
      by (rule load_loop_triple [OF all ms(1)]) simp_all
    from hoareD [OF this h1 loop] have post: "holds c m d kc'" "case r of Inl e \<Rightarrow> faulty e
        | Inr es \<Rightarrow> map metadata es = ms \<and> (\<forall>e \<in> set es. m (md_label (metadata e)) = Some e)"
      by (cases r; simp)+
    have sets: "set es = ran m" if "map metadata es = ms" "\<forall>e \<in> set es. m (md_label (metadata e)) = Some e" for es
    proof
      show "set es \<subseteq> ran m" using that(2) by (auto simp: ran_def)
      show "ran m \<subseteq> set es"
      proof
        fix e assume "e \<in> ran m"
        then obtain l where l: "m l = Some e" by (auto simp: ran_def)
        have "metadata e \<in> metadata ` set es" using \<open>e \<in> ran m\<close> ms(2) that(1) by auto
        then obtain e' where "e' \<in> set es" "metadata e' = metadata e" by auto
        with that(2) own [OF l] l show "e \<in> set es" by (metis option.inject)
      qed
    qed
    have dist: "distinct (map (md_label \<circ> metadata) es)" if "map metadata es = ms" for es
      using ms(1) that by (metis map_map)
    show ?thesis
    proof (cases r)
      case (Inr es)
      with post sets [of es] dist [of es] show ?thesis by simp
    qed (use post in simp)
  qed
qed

lemma list_triple:
  assumes "all_open idn c m"
  shows "hoare (holds c m d) (kc_list ops idn)
     (\<lambda>r kc. holds c m d kc \<and> (case r of Inl e \<Rightarrow> faulty e
        | Inr ms \<Rightarrow> distinct (map md_label ms) \<and> set ms = opened_metadata ` ran (vault idn c m)))"
proof (rule hoareI)
  fix kc kc' r assume h: "holds c m d kc" and run: "kc_list ops idn kc = (kc', r)"
  obtain kc1 r1 where l: "load_entries ops kc = (kc1, r1)" by (cases "load_entries ops kc")
  note hl = hoareD [OF load_entries_triple [OF assms] h l]
  have eq: "kc_list ops idn kc = (case r1 of Inl e \<Rightarrow> (kc1, Inl e) | Inr es \<Rightarrow>
      (kc1, try_res (open_entries idn c es) (\<lambda>xs. Inr (map opened_metadata xs))))"
    using h l by (simp add: kc_list_def authenticated_entries_def kc_bind_def read_lock_def holds_def
        kc_pure_def kc_return_def try_res_def split: sum.split)
  show "holds c m d kc' \<and> (case r of Inl e \<Rightarrow> faulty e
        | Inr ms \<Rightarrow> distinct (map md_label ms) \<and> set ms = opened_metadata ` ran (vault idn c m))"
  proof (cases r1)
    case (Inl e)
    with eq run hl show ?thesis by auto
  next
    case (Inr es)
    with hl have d: "distinct (map (md_label \<circ> metadata) es)" and es: "set es = ran m"
      "\<forall>e \<in> set es. m (md_label (metadata e)) = Some e" by auto
    from opened_of_loaded [OF assms es] obtain xs where
      xs: "open_entries idn c es = Inr xs" "map opened_metadata xs = map metadata es"
        "set xs = ran (vault idn c m)" by blast
    have "distinct (map md_label (map opened_metadata xs))" using d by (simp add: xs(2))
    moreover have "set (map opened_metadata xs) = opened_metadata ` ran (vault idn c m)" by (simp add: xs(3))
    moreover have "kc' = kc1" "r = Inr (map opened_metadata xs)" using eq run xs(1) Inr by auto
    moreover have "holds c m d kc1" using hl by simp
    ultimately show ?thesis by simp
  qed
qed

lemma rotate_triple:
  fixes idn :: "('kp, 'pk) identity" and env :: "('kp, 'be) kc_env"
  assumes "identity_law idn" "cipher_ok c" "env_ok env" "all_open idn c m"
  shows "hoare (holds c m d) (kc_rotate ops idn env l key ex)
     (\<lambda>r kc. (holds c m d kc \<and> (\<exists>e. r = Inl e \<and> faulty e)) \<or>
        (case rotate_spec env (vault idn c m) l key of
           Inl e \<Rightarrow> holds c m d kc \<and> r = Inl e
         | Inr (kp, v) \<Rightarrow> (case store_entry idn env c d l kp ex v of
              Inl e \<Rightarrow> holds c m d kc \<and> r = Inl e
            | Inr _ \<Rightarrow> written idn env c d m
                ((vault idn c m)(l \<mapsto> \<lparr>opened_keypair = kp, opened_metadata = new_metadata idn env l kp ex v\<rparr>)) r kc)))"
    (is "hoare _ _ ?R")
proof (rule hoareI)
  fix kc kc' r assume h: "holds c m d kc" and run: "kc_rotate ops idn env l key ex kc = (kc', r)"
  obtain kc1 got where g: "on_backend (be_get ops l) kc = (kc1, got)" by (cases "on_backend (be_get ops l) kc")
  note hg = hoareD [OF holds_get h g]
  have lock: "write_lock kc = (kc, Inr c)" using h by (simp add: write_lock_def holds_def)
  show "?R r kc'"
  proof (cases "validate_label l")
    case (Inl e)
    with run lock have "kc' = kc" "r = Inl e" by (simp_all add: kc_rotate_def kc_bind_def kc_pure_def)
    with Inl h show ?thesis by (simp add: rotate_spec_def)
  next
    case (Inr u)
    note v = this
    show ?thesis
    proof (cases got)
      case (Inl e)
      with run lock v g hg show ?thesis by (auto simp: kc_rotate_def kc_bind_def kc_pure_def)
    next
      case (Inr x)
      with hg have x: "x = m l" and h1: "holds c m d kc1" by auto
      show ?thesis
      proof (cases "m l")
        case None
        with run lock v g Inr x h1 show ?thesis
          by (auto simp: kc_rotate_def kc_bind_def kc_pure_def rotate_spec_def vault_def)
      next
        case (Some e)
        then obtain y where y: "open_entry idn c l e = Inr y" "vault idn c m l = Some y"
          using assms(4) by (fastforce simp: all_open_def vault_def)
        let ?k = "case key of RotateKeypair kp \<Rightarrow> Inr kp | RotateGenerate k \<Rightarrow> generate_keypair env k"
        let ?v = "u32_saturating_add (md_version (opened_metadata y)) 1"
        have eq: "kc_rotate ops idn env l key ex kc = (case ?k of Inl e \<Rightarrow> (kc1, Inl e)
            | Inr kp \<Rightarrow> kc_store ops idn env l kp ex ?v c kc1)"
          using lock v g Inr x Some y by (simp add: kc_rotate_def kc_bind_def kc_pure_def Let_def split: sum.split)
        show ?thesis
        proof (cases ?k)
          case (Inl e)
          with eq run h1 y v show ?thesis by (auto simp: rotate_spec_def)
        next
          case (Inr kp)
          with eq run have "kc_store ops idn env l kp ex ?v c kc1 = (kc', r)" by simp
          from hoareD [OF store_triple [OF assms] h1 this] Inr y v show ?thesis
            by (simp add: rotate_spec_def)
        qed
      qed
    qed
  qed
qed

lemma get_or_create_triple:
  fixes idn :: "('kp, 'pk) identity" and env :: "('kp, 'be) kc_env"
  assumes "identity_law idn" "cipher_ok c" "env_ok env" "all_open idn c m"
  shows "hoare (holds c m d) (kc_get_or_create ops idn env l)
     (\<lambda>r kc. (holds c m d kc \<and> (\<exists>e. r = Inl e \<and> faulty e)) \<or>
        (if d then holds c m d kc \<and> r = Inl Disabled
         else case validate_label l of Inl e \<Rightarrow> holds c m d kc \<and> r = Inl e
         | Inr _ \<Rightarrow> (let kp = generated env Ed25519 in
             if vault idn c m l \<noteq> None then holds c m d kc \<and> r = get_spec (vault idn c m) (sys_time env) l
             else (case store_entry idn env c d l kp Never 1 of
                Inl e \<Rightarrow> holds c m d kc \<and> r = Inl e
              | Inr _ \<Rightarrow> written idn env c d m ((vault idn c m)(l \<mapsto>
                    \<lparr>opened_keypair = kp, opened_metadata = new_metadata idn env l kp Never 1\<rparr>)) r kc
                  \<and> (\<forall>x. r = Inr x \<longrightarrow> x = kp)))))"
    (is "hoare _ _ ?R")
proof (rule hoareI)
  fix kc kc' r assume h: "holds c m d kc" and run: "kc_get_or_create ops idn env l kc = (kc', r)"
  obtain kc1 got where g: "on_backend (be_get ops l) kc = (kc1, got)" by (cases "on_backend (be_get ops l) kc")
  note hg = hoareD [OF holds_get h g]
  have lock: "write_lock kc = (kc, Inr c)" using h by (simp add: write_lock_def holds_def)
  have dis: "disable_check kc = (kc, if d then Inl Disabled else Inr ())"
    using h by (simp add: disable_check_def holds_def)
  consider "d" | e where "\<not> d" "validate_label l = Inl e" | e where "\<not> d" "validate_label l = Inr ()" "got = Inl e"
    | "\<not> d" "validate_label l = Inr ()" "got = Inr (m l)" "holds c m d kc1"
    using hg by (cases d; cases "validate_label l"; cases got) auto
  then show "?R r kc'"
  proof cases
    case 4
    show ?thesis
    proof (cases "m l")
      case None
      then have vn: "vault idn c m l = None" by (simp add: vault_def)
      obtain kc2 r2 where s: "kc_store ops idn env l (generated env Ed25519) Never 1 c kc1 = (kc2, r2)"
        by (cases "kc_store ops idn env l (generated env Ed25519) Never 1 c kc1")
      have "kc' = kc2" "r = map_sum (\<lambda>x. x) (\<lambda>_. generated env Ed25519) r2"
        using run lock dis g 4 None s
        by (auto simp: kc_get_or_create_def kc_bind_def kc_pure_def kc_return_def Let_def split: sum.splits)
      with hoareD [OF store_triple [OF assms] 4(4) s] vn 4 show ?thesis
        by (cases r2) (auto simp: written_def split: sum.splits)
    next
      case (Some e)
      then obtain y where y: "open_entry idn c l e = Inr y" "vault idn c m l = Some y"
        using assms(4) by (fastforce simp: all_open_def vault_def)
      with run lock dis g 4 Some have "kc' = kc1" "r = get_spec (vault idn c m) (sys_time env) l"
        by (auto simp: kc_get_or_create_def kc_bind_def kc_pure_def kc_return_def get_spec_def split: if_splits)
      with 4 y show ?thesis by simp
    qed
  qed (use run lock dis g h hg in \<open>auto simp: kc_get_or_create_def kc_bind_def kc_pure_def\<close>)
qed

end

end
