(* ===== verification/Keychain_Writes.thy ===== *)
theory Keychain_Writes
  imports Keychain_Laws
begin

section \<open>Removing, purging and changing the cipher over any backend\<close>

text \<open>
  The remaining operations of the keychain under the contract of a backend: removal, purging of
  expired keys, and the migration to a new cipher, whose outcome is all-or-nothing: the old cipher
  with the old entries, the new cipher with the same decrypted view, or an empty slot.
\<close>

lemma restrict_Compl_insert: "V |` (- insert l Y) = (V |` (- Y))(l := None)"
  by (auto simp: restrict_map_def fun_eq_iff)

context keystore_backend
begin

lemma remove_triple:
  fixes env :: "('kp, 'be) kc_env" and idn :: "('kp, 'pk) identity"
  assumes "env_ok env" "all_open idn c m"
  shows "hoare (holds c m d) (kc_remove ops env l)
     (\<lambda>r kc. case validate_label l of Inl e \<Rightarrow> holds c m d kc \<and> r = Inl e
      | Inr _ \<Rightarrow> written idn env c d m ((vault idn c m)(l := None)) r kc
          \<and> (\<forall>x. r = Inr x \<longrightarrow> x = (vault idn c m l \<noteq> None)))" (is "hoare _ _ ?R")
proof (rule hoareI)
  fix kc kc' r assume h: "holds c m d kc" and run: "kc_remove ops env l kc = (kc', r)"
  have lock: "write_lock kc = (kc, Inr c)" using h by (simp add: write_lock_def holds_def)
  let ?Q = "\<lambda>r m'. case r of Inl e \<Rightarrow> faulty e \<and> m' \<in> {m, m(l := None)}
      | Inr x \<Rightarrow> m' = m(l := None) \<and> x = (m l \<noteq> None)"
  have work: "inv b' \<and> ?Q r (contents b')" if "inv b" "contents b = m" "be_remove ops l b = (b', r)" for b b' r
    using remove_law [OF that(1,3)] that(2) by (cases r) simp_all
  have fin: "hoare (holds c m d) (finish_mutation env (be_remove ops l))
     (\<lambda>r kc. (\<exists>m'. holds c m' d kc \<and> ?Q r m' \<and> task_stop env = None)
           \<or> (poisoned d kc \<and> r = Inl JoinError \<and> task_stop env \<noteq> None))"
    by (rule holds_finish [OF assms(1)]) (rule work)
  show "?R r kc'"
  proof (cases "validate_label l")
    case (Inl e)
    with run lock h show ?thesis by (simp add: kc_remove_def kc_bind_def kc_pure_def)
  next
    case (Inr u)
    with run lock have "finish_mutation env (be_remove ops l) kc = (kc', r)"
      by (simp add: kc_remove_def kc_bind_def kc_pure_def)
    from hoareD [OF fin h this] Inr all_open_remove [of idn c m l] assms(2) vault_dom [OF assms(2), of l]
    show ?thesis by (cases r) (auto simp: written_def)
  qed
qed

lemma remove_expired_work:
  assumes "inv b" "distinct ls" "\<forall>l \<in> set ls. contents b l \<noteq> None"
    and "remove_expired ops n ls b = (b', r)"
  shows "inv b' \<and> (case r of Inl e \<Rightarrow> faulty e \<and> (\<exists>Y \<subseteq> set ls. contents b' = contents b |` (- Y))
      | Inr k \<Rightarrow> k = n + length ls \<and> contents b' = contents b |` (- set ls))"
  using assms
proof (induction ls arbitrary: b n)
  case Nil
  then show ?case by (auto simp: restrict_map_def fun_eq_iff)
next
  case (Cons l ls)
  obtain b1 r1 where b1: "be_remove ops l b = (b1, r1)" by (cases "be_remove ops l b")
  note law = remove_law [OF Cons.prems(1) b1]
  show ?case
  proof (cases r1)
    case (Inl e)
    have "contents b1 = contents b |` (- {}) \<or> contents b1 = contents b |` (- {l})"
      using law Inl by (auto simp: restrict_Compl_insert [of _ l "{}", simplified])
    then have "\<exists>Y \<subseteq> set (l # ls). contents b1 = contents b |` (- Y)"
      by (metis empty_subsetI insert_subset list.set_intros(1))
    moreover have "b' = b1" "r = Inl e" using Inl b1 Cons.prems(4) by auto
    ultimately show ?thesis using law Inl by simp
  next
    case (Inr x)
    with law Cons.prems have c1: "contents b1 = (contents b)(l := None)" "inv b1" "x" by auto
    from b1 Inr Cons.prems(4) c1 have step: "remove_expired ops (n + 1) ls b1 = (b', r)" by simp
    have "\<forall>k \<in> set ls. contents b1 k \<noteq> None" using Cons.prems(2,3) c1 by auto
    from Cons.IH [OF c1(2) _ this step] Cons.prems(2)
    have IH: "inv b' \<and> (case r of Inl e \<Rightarrow> faulty e \<and> (\<exists>Y \<subseteq> set ls. contents b' = contents b1 |` (- Y))
      | Inr k \<Rightarrow> k = n + 1 + length ls \<and> contents b' = contents b1 |` (- set ls))" by simp
    have shift: "contents b1 |` (- Y) = contents b |` (- insert l Y)" for Y
      by (auto simp: c1 restrict_map_def fun_eq_iff)
    show ?thesis
    proof (cases r)
      case (Inl e)
      with IH obtain Y where "Y \<subseteq> set ls" "contents b' = contents b |` (- insert l Y)"
        by (auto simp: shift)
      then have "\<exists>Y \<subseteq> set (l # ls). contents b' = contents b |` (- Y)"
        by (intro exI [of _ "insert l Y"]) auto
      with Inl IH show ?thesis by simp
    next
      case (Inr k)
      with IH show ?thesis by (simp add: shift)
    qed
  qed
qed

lemma all_open_restrict:
  "all_open idn c m \<Longrightarrow> all_open idn c (m |` A)"
  "vault idn c (m |` A) = vault idn c m |` A"
  by (auto simp: all_open_def vault_def fun_eq_iff restrict_map_def)

lemma expired_selection:
  fixes now :: time
  assumes "all_open idn c m" "distinct (map (md_label \<circ> opened_metadata) xs)" "set xs = ran (vault idn c m)"
  defines "ls \<equiv> map (md_label \<circ> opened_metadata) (filter (\<lambda>x. is_expired now (opened_metadata x)) xs)"
  shows "distinct ls" and "set ls = expired_labels (vault idn c m) now" and "\<forall>l \<in> set ls. m l \<noteq> None"
proof -
  show "distinct ls" unfolding ls_def using assms(2) by (simp add: distinct_map_filter)
  have key: "md_label (opened_metadata x) = l" if "vault idn c m l = Some x" for l x
    using that by (auto simp: vault_Some_iff open_entry_Inr)
  show s: "set ls = expired_labels (vault idn c m) now"
  proof (intro set_eqI iffI)
    fix l assume "l \<in> set ls"
    then obtain x where "x \<in> set xs" "is_expired now (opened_metadata x)" "l = md_label (opened_metadata x)"
      by (auto simp: ls_def)
    then show "l \<in> expired_labels (vault idn c m) now"
      using assms(3) key by (fastforce simp: ran_def expired_labels_def)
  next
    fix l assume "l \<in> expired_labels (vault idn c m) now"
    then obtain x where "vault idn c m l = Some x" "is_expired now (opened_metadata x)"
      by (auto simp: expired_labels_def)
    then show "l \<in> set ls" using assms(3) key [of l x] by (force simp: ls_def ran_def)
  qed
  show "\<forall>l \<in> set ls. m l \<noteq> None" unfolding s by (auto simp: expired_labels_def vault_Some_iff)
qed

lemma purge_triple:
  fixes env :: "('kp, 'be) kc_env" and idn :: "('kp, 'pk) identity"
  assumes "env_ok env" "all_open idn c m"
  defines "X \<equiv> expired_labels (vault idn c m) (sys_time env)"
  shows "hoare (holds c m d) (kc_purge_expired ops idn env)
     (\<lambda>r kc. (\<exists>m'. holds c m' d kc \<and> all_open idn c m' \<and> (case r of
          Inl e \<Rightarrow> faulty e \<and> (\<exists>Y \<subseteq> X. vault idn c m' = vault idn c m |` (- Y))
        | Inr n \<Rightarrow> n = card X \<and> vault idn c m' = vault idn c m |` (- X)))
      \<or> (poisoned d kc \<and> r = Inl JoinError \<and> task_stop env \<noteq> None))" (is "hoare _ _ ?R")
proof (rule hoareI)
  fix kc kc' r assume h: "holds c m d kc" and run: "kc_purge_expired ops idn env kc = (kc', r)"
  have lock: "write_lock kc = (kc, Inr c)" using h by (simp add: write_lock_def holds_def)
  obtain kc1 r1 where l: "load_entries ops kc = (kc1, r1)" by (cases "load_entries ops kc")
  note hl = hoareD [OF load_entries_triple [OF assms(2)] h l]
  have keep: "vault idn c m |` (- {}) = vault idn c m" by (simp add: restrict_map_def)
  show "?R r kc'"
  proof (cases r1)
    case (Inl e)
    with run lock l have "kc' = kc1" "r = Inl e" by (auto simp: kc_purge_expired_def kc_bind_def)
    moreover from hl Inl have "holds c m d kc1" "faulty e" by auto
    ultimately show ?thesis using assms(2) keep by (intro disjI1 exI [of _ m]) fastforce
  next
    case (Inr es)
    with hl have h1: "holds c m d kc1" and dist: "distinct (map (md_label \<circ> metadata) es)"
      and es: "set es = ran m" "\<forall>e \<in> set es. m (md_label (metadata e)) = Some e" by auto
    from opened_of_loaded [OF assms(2) es] obtain xs where
      xs: "open_entries idn c es = Inr xs" "map opened_metadata xs = map metadata es"
        "set xs = ran (vault idn c m)" by blast
    have dx: "distinct (map (md_label \<circ> opened_metadata) xs)" using dist xs(2) by (metis map_map)
    define ls where "ls = map (md_label \<circ> opened_metadata)
        (filter (\<lambda>x. is_expired (sys_time env) (opened_metadata x)) xs)"
    note sel = expired_selection [OF assms(2) dx xs(3), of "sys_time env", folded ls_def, folded X_def]
    from run lock l Inr xs(1) have eq: "(if ls = [] then kc_return 0 else finish_mutation env (remove_expired ops 0 ls)) kc1
        = (kc', r)" by (simp add: kc_purge_expired_def kc_bind_def kc_pure_def Let_def ls_def split: if_splits)
    show ?thesis
    proof (cases "ls = []")
      case True
      with eq sel(2) h1 keep assms(2) show ?thesis
        by (intro disjI1 exI [of _ m]) (auto simp: kc_return_def)
    next
      case False
      let ?Q = "\<lambda>r m'. case r of Inl e \<Rightarrow> faulty e \<and> (\<exists>Y \<subseteq> X. m' = m |` (- Y))
          | Inr k \<Rightarrow> k = card X \<and> m' = m |` (- X)"
      have work: "inv b' \<and> ?Q r (contents b')"
        if "inv b" "contents b = m" "remove_expired ops 0 ls b = (b', r)" for b b' r
        using remove_expired_work [OF that(1) sel(1) _ that(3)] that(2) sel distinct_card [OF sel(1)] by (cases r) auto
      have "hoare (holds c m d) (finish_mutation env (remove_expired ops 0 ls))
         (\<lambda>r kc. (\<exists>m'. holds c m' d kc \<and> ?Q r m' \<and> task_stop env = None)
           \<or> (poisoned d kc \<and> r = Inl JoinError \<and> task_stop env \<noteq> None))"
        by (rule holds_finish [OF assms(1)]) (rule work)
      from hoareD [OF this h1] eq False consider m' where "holds c m' d kc'" "?Q r m'"
        | "poisoned d kc'" "r = Inl JoinError" "task_stop env \<noteq> None" by auto
      then show ?thesis
      proof cases
        case (1 m')
        then show ?thesis
          by (intro disjI1 exI [of _ m']) (cases r, use assms(2) in \<open>auto simp: all_open_restrict\<close>)
      qed simp
    qed
  qed
qed

lemma check_intact_holds:
  assumes "check_intact ops os kc = (kc', ok)" "inv (backend kc)"
  shows "inv (backend kc') \<and> contents (backend kc') = contents (backend kc)
    \<and> cipher_slot kc' = cipher_slot kc \<and> disabled kc' = disabled kc
    \<and> (ok \<longrightarrow> (\<forall>e \<in> set os. contents (backend kc) (md_label (metadata e)) = Some e))"
  using assms
proof (induction os arbitrary: kc)
  case (Cons e os)
  obtain b x where g: "be_get ops (md_label (metadata e)) (backend kc) = (b, x)"
    by (cases "be_get ops (md_label (metadata e)) (backend kc)")
  note law = get_law [OF Cons.prems(2) g]
  consider "x = Inr (Some e)" | "\<not> ok" "kc' = kc\<lparr>backend := b\<rparr>"
    using Cons.prems(1) g by (auto simp: on_backend_def split: sum.splits option.splits if_splits)
  then show ?case
  proof cases
    case 1
    with Cons.prems(1) g have "check_intact ops os (kc\<lparr>backend := b\<rparr>) = (kc', ok)"
      by (simp add: on_backend_def)
    with Cons.IH [OF this] law 1 show ?thesis by simp
  next
    case 2
    with law show ?thesis by simp
  qed
qed simp

lemma stored_resealed:
  assumes "all_open idn c m" "distinct (map (md_label \<circ> metadata) es)" "set es = ran m"
    "\<forall>e \<in> set es. m (md_label (metadata e)) = Some e"
    and rel: "list_all2 (\<lambda>e e'. metadata e' = metadata e \<and> (\<exists>x. open_entry idn c (md_label (metadata e)) e = Inr x
           \<and> open_entry idn n (md_label (metadata e)) e' = Inr x)) es es'"
  shows "(md_label \<circ> metadata) ` set es' = dom m"
    and "all_open idn n (stored es' m)" and "vault idn n (stored es' m) = vault idn c m"
proof -
  have meta: "map metadata es' = map metadata es"
    using rel by (induction rule: list_all2_induct) auto
  then have dist: "distinct (map (md_label \<circ> metadata) es')" using assms(2) by (metis map_map)
  have own: "md_label (metadata e) = l" if "m l = Some e" for l e
    using assms(1) that by (auto simp: all_open_def open_entry_Inr)
  have "metadata ` set es' = metadata ` set es" using meta by (metis set_map)
  then have "(md_label \<circ> metadata) ` set es' = (md_label \<circ> metadata) ` ran m"
    unfolding assms(3) by (simp only: image_comp [symmetric])
  also have "\<dots> = dom m" using own by (force simp: ran_def image_iff)
  finally show labels: "(md_label \<circ> metadata) ` set es' = dom m" .
  have at: "\<exists>e' x. stored es' m l = Some e' \<and> open_entry idn n l e' = Inr x \<and> vault idn c m l = Some x"
    if l: "m l = Some e" for l e
  proof -
    have "e \<in> set es" using l assms(3) by (auto simp: ran_def)
    then obtain i where i: "i < length es" "e = es ! i" by (auto simp: in_set_conv_nth)
    have i': "i < length es'" using i(1) list_all2_lengthD [OF rel] by simp
    from list_all2_nthD [OF rel i(1)] i(2) obtain x where
      "metadata (es' ! i) = metadata e" "open_entry idn c (md_label (metadata e)) e = Inr x"
      "open_entry idn n (md_label (metadata e)) (es' ! i) = Inr x" by auto
    with stored_in [OF dist nth_mem [OF i'], of m] own [OF l] l show ?thesis by (auto simp: vault_def)
  qed
  have out: "stored es' m l = None" if "m l = None" for l
    using stored_other [of l es' m] labels that by auto
  show "all_open idn n (stored es' m)"
    unfolding all_open_def using at out assms(1) by (metis all_open_def option.exhaust option.inject)
  show "vault idn n (stored es' m) = vault idn c m"
  proof
    fix l
    show "vault idn n (stored es' m) l = vault idn c m l"
      by (cases "m l") (use at [of l] out [of l] in \<open>auto simp: vault_def\<close>)
  qed
qed

lemma migrate_task_outcome:
  fixes env :: "('kp, 'be) kc_env" and idn :: "('kp, 'pk) identity"
  assumes "env_ok env" and h: "holds c m d kc" and es: "set es = ran m"
    "\<forall>e \<in> set es. m (md_label (metadata e)) = Some e"
    and labels: "(md_label \<circ> metadata) ` set es' = dom m"
    and new: "all_open idn n (stored es' m)" "vault idn n (stored es' m) = vault idn c m"
    and run: "migrate_task ops env n es es' kc = (kc', r)" and "\<not> d"
  shows "(holds c m d kc' \<and> (\<exists>e. r = Inl e \<and> (faulty e \<or> (d \<and> e = Disabled)
            \<or> (\<exists>es. set es = ran m \<and> reseal_all idn (rng env) c n es = Inl e))))
      \<or> (task_stop env = None \<and> \<not> d \<and> r = Inr kc' \<and>
           (\<exists>m'. holds n m' d kc' \<and> all_open idn n m' \<and> vault idn n m' = vault idn c m))
      \<or> (poisoned d kc' \<and> (\<exists>e. r = Inl e \<and> (if task_stop env = None then faulty e else e = JoinError)))"
proof (cases "task_stop env")
  case (Some f)
  with run h assms(1) show ?thesis
    by (auto simp: migrate_task_def holds_def poisoned_def env_ok_def Let_def)
next
  case None
  let ?k = "kc\<lparr>cipher_slot := None\<rparr>"
  obtain b x where p: "be_put_many ops es' (backend kc) = (b, x)"
    by (cases "be_put_many ops es' (backend kc)")
  from h have "inv (backend kc)" by (simp add: holds_def)
  note law = put_many_law [OF this p]
  show ?thesis
  proof (cases x)
    case (Inr u)
    with run None p have "kc' = kc\<lparr>backend := b, cipher_slot := Some n\<rparr>" "r = Inr kc'"
      by (auto simp: migrate_task_def on_backend_def Let_def)
    with law Inr h new None \<open>\<not> d\<close> show ?thesis by (auto simp: holds_def)
  next
    case (Inl err)
    obtain k2 ok where ck: "check_intact ops es (?k\<lparr>backend := b\<rparr>) = (k2, ok)"
      by (cases "check_intact ops es (?k\<lparr>backend := b\<rparr>)")
    from law Inl have b: "inv b" "faulty err"
      and old_or_new: "\<And>l. contents b l = contents (backend kc) l
        \<or> (\<exists>e \<in> set es'. md_label (metadata e) = l \<and> contents b l = Some e)" by auto
    from run None p Inl ck have r: "r = Inl err"
      "kc' = (if ok then k2\<lparr>cipher_slot := cipher_slot kc\<rparr> else k2)"
      by (auto simp: migrate_task_def on_backend_def Let_def)
    note ci = check_intact_holds [OF ck, simplified, OF b(1)]
    show ?thesis
    proof (cases ok)
      case True
      have "contents b l = m l" for l
      proof (cases "m l")
        case None
        then have "\<not> (\<exists>e \<in> set es'. md_label (metadata e) = l)" using labels by auto
        with old_or_new [of l] h show ?thesis by (auto simp: holds_def)
      next
        case (Some e)
        with es have "e \<in> set es" by (auto simp: ran_def)
        with ci True es(2) Some h own_label [of "backend kc" l e] show ?thesis by (auto simp: holds_def)
      qed
      with ci r True h b(2) show ?thesis by (auto simp: holds_def)
    next
      case False
      with ci r b(2) None h show ?thesis by (auto simp: poisoned_def holds_def)
    qed
  qed
qed

lemma migrate_triple:
  fixes env :: "('kp, 'be) kc_env" and idn :: "('kp, 'pk) identity"
  assumes "identity_law idn" "cipher_ok n" "env_ok env" "all_open idn c m"
  shows "hoare (holds c m d) (kc_migrate_cipher ops idn env n)
     (\<lambda>r kc. (holds c m d kc \<and> (\<exists>e. r = Inl e \<and> (faulty e \<or> (d \<and> e = Disabled)
            \<or> (\<exists>es. set es = ran m \<and> reseal_all idn (rng env) c n es = Inl e))))
      \<or> (task_stop env = None \<and> \<not> d \<and> r = Inr kc \<and>
           (\<exists>m'. holds n m' d kc \<and> all_open idn n m' \<and> vault idn n m' = vault idn c m))
      \<or> (poisoned d kc \<and> (\<exists>e. r = Inl e \<and> (if task_stop env = None then faulty e else e = JoinError))))"
    (is "hoare _ _ ?R")
proof (rule hoareI)
  fix kc kc' r assume h: "holds c m d kc" and run: "kc_migrate_cipher ops idn env n kc = (kc', r)"
  have lock: "write_lock kc = (kc, Inr c)" using h by (simp add: write_lock_def holds_def)
  have dis: "disable_check kc = (kc, if d then Inl Disabled else Inr ())"
    using h by (simp add: disable_check_def holds_def)
  obtain kc1 r1 where l: "load_entries ops kc = (kc1, r1)" by (cases "load_entries ops kc")
  note hl = hoareD [OF load_entries_triple [OF assms(4)] h l]
  consider "d" | e where "\<not> d" "r1 = Inl e" | es e where "\<not> d" "r1 = Inr es" "reseal_all idn (rng env) c n es = Inl e"
    | es es' where "\<not> d" "r1 = Inr es" "reseal_all idn (rng env) c n es = Inr es'"
    by (cases d; cases r1; cases "case r1 of Inr es \<Rightarrow> reseal_all idn (rng env) c n es | Inl _ \<Rightarrow> Inr []") auto
  then show "?R r kc'"
  proof cases
    case (4 es es')
    with hl have h1: "holds c m d kc1" and es: "distinct (map (md_label \<circ> metadata) es)" "set es = ran m"
      "\<forall>e \<in> set es. m (md_label (metadata e)) = Some e" by auto
    have fill: "fill_bytes_law (rng env i)" for i using assms(3) by (simp add: env_ok_def)
    note re = stored_resealed [OF assms(4) es reseal_all_Inr [OF 4(3) assms(1,2) fill]]
    from run lock dis l 4 have task: "migrate_task ops env n es es' kc1 = (kc', r)"
      by (simp add: kc_migrate_cipher_def kc_bind_def kc_pure_def)
    show ?thesis by (rule migrate_task_outcome [OF assms(3) h1 es(2,3) re task \<open>\<not> d\<close>])
  qed (use run lock dis l h hl in \<open>auto simp: kc_migrate_cipher_def kc_bind_def kc_pure_def\<close>)
qed

end

end
