(* ===== verification/Keychain_Properties.thy ===== *)
theory Keychain_Properties
  imports Keychain_Writes
begin

section \<open>What the keychain guarantees\<close>

text \<open>
  Runs of a keychain, the invariant that every stored entry opens under the cipher in the slot, the
  interpretation of the backend contract by the in-memory keystore, and the properties over it.
\<close>

subsection \<open>Runs\<close>

inductive kc_step ::
  "'be backend_ops \<Rightarrow> ('kp, 'pk) identity \<Rightarrow> (('kp, 'be) kc_env \<Rightarrow> bool) \<Rightarrow> 'be keychain \<Rightarrow> 'be keychain \<Rightarrow> bool"
  for ops idn adm where
  insert: "adm env \<Longrightarrow> kc_insert ops idn env l kp kc = (kc', r) \<Longrightarrow> kc_step ops idn adm kc kc'"
| insert_with_expiry: "adm env \<Longrightarrow> kc_insert_with_expiry ops idn env l kp ex kc = (kc', r) \<Longrightarrow>
    kc_step ops idn adm kc kc'"
| generate: "adm env \<Longrightarrow> kc_generate ops idn env l k kc = (kc', r) \<Longrightarrow> kc_step ops idn adm kc kc'"
| rotate: "adm env \<Longrightarrow> kc_rotate ops idn env l key ex kc = (kc', r) \<Longrightarrow> kc_step ops idn adm kc kc'"
| get: "kc_get ops idn env l kc = (kc', r) \<Longrightarrow> kc_step ops idn adm kc kc'"
| get_or_create: "adm env \<Longrightarrow> kc_get_or_create ops idn env l kc = (kc', r) \<Longrightarrow> kc_step ops idn adm kc kc'"
| list: "kc_list ops idn kc = (kc', r) \<Longrightarrow> kc_step ops idn adm kc kc'"
| metadata: "kc_metadata ops idn l kc = (kc', r) \<Longrightarrow> kc_step ops idn adm kc kc'"
| remove: "adm env \<Longrightarrow> kc_remove ops env l kc = (kc', r) \<Longrightarrow> kc_step ops idn adm kc kc'"
| purge_expired: "adm env \<Longrightarrow> kc_purge_expired ops idn env kc = (kc', r) \<Longrightarrow> kc_step ops idn adm kc kc'"
| migrate_cipher: "adm env \<Longrightarrow> cipher_ok c \<Longrightarrow> kc_migrate_cipher ops idn env c kc = (kc', r) \<Longrightarrow>
    kc_step ops idn adm kc kc'"

text \<open>An empty slot makes every operation return without touching the state.\<close>

lemma locked_unchanged:
  assumes "cipher_slot kc = None"
  shows "kc_insert_with_expiry ops idn env l kp ex kc = (kc, Inl unknown_write)"
    and "kc_insert ops idn env l kp kc = (kc, Inl unknown_write)"
    and "kc_rotate ops idn env l key ex kc = (kc, Inl unknown_write)"
    and "kc_get_or_create ops idn env l kc = (kc, Inl unknown_write)"
    and "kc_list ops idn kc = (kc, Inl unknown_write)"
    and "kc_remove ops env l kc = (kc, Inl unknown_write)"
    and "kc_purge_expired ops idn env kc = (kc, Inl unknown_write)"
    and "kc_migrate_cipher ops idn env c kc = (kc, Inl unknown_write)"
    and "authenticated_entry ops idn l kc = (kc, Inl unknown_write)"
  using assms
  by (simp_all add: kc_insert_with_expiry_def kc_insert_def kc_rotate_def kc_get_or_create_def kc_list_def
      authenticated_entries_def kc_remove_def kc_purge_expired_def kc_migrate_cipher_def authenticated_entry_def
      kc_bind_def write_lock_def read_lock_def)

lemma locked_reads:
  assumes "cipher_slot kc = None"
  shows "fst (kc_get ops idn env l kc) = kc" and "\<exists>e. snd (kc_get ops idn env l kc) = Inl e"
    and "fst (kc_metadata ops idn l kc) = kc" and "\<exists>e. snd (kc_metadata ops idn l kc) = Inl e"
    and "fst (kc_generate ops idn env l k kc) = kc" and "\<exists>e. snd (kc_generate ops idn env l k kc) = Inl e"
  by (auto simp: locked_unchanged [OF assms] kc_get_def kc_metadata_def kc_generate_def kc_bind_def kc_pure_def
      disable_check_def split: sum.split)

text \<open>
  Every operation as a value, and its run with the error it returns, if any.
\<close>

datatype 'kp kc_op =
    OpInsert label 'kp
  | OpInsertWithExpiry label 'kp expiry
  | OpGenerate label key_type
  | OpRotate label "'kp rotate_key" expiry
  | OpGet label
  | OpPublicKey label
  | OpPeerId label
  | OpGetOrCreate label
  | OpList
  | OpMetadata label
  | OpRemove label
  | OpPurgeExpired
  | OpMigrateCipher cipher

definition kc_done :: "('be, 'a) kc \<Rightarrow> ('be, unit) kc" where
  "kc_done m = kc_bind m (\<lambda>_. kc_return ())"

fun kc_run :: "'be backend_ops \<Rightarrow> ('kp, 'pk) identity \<Rightarrow> ('kp, 'be) kc_env \<Rightarrow> 'kp kc_op \<Rightarrow> ('be, unit) kc" where
  "kc_run ops idn env (OpInsert l kp) = kc_insert ops idn env l kp"
| "kc_run ops idn env (OpInsertWithExpiry l kp ex) = kc_insert_with_expiry ops idn env l kp ex"
| "kc_run ops idn env (OpGenerate l k) = kc_done (kc_generate ops idn env l k)"
| "kc_run ops idn env (OpRotate l key ex) = kc_rotate ops idn env l key ex"
| "kc_run ops idn env (OpGet l) = kc_done (kc_get ops idn env l)"
| "kc_run ops idn env (OpPublicKey l) = kc_done (kc_public_key ops idn env l)"
| "kc_run ops idn env (OpPeerId l) = kc_done (kc_peer_id ops idn env l)"
| "kc_run ops idn env (OpGetOrCreate l) = kc_done (kc_get_or_create ops idn env l)"
| "kc_run ops idn env OpList = kc_done (kc_list ops idn)"
| "kc_run ops idn env (OpMetadata l) = kc_done (kc_metadata ops idn l)"
| "kc_run ops idn env (OpRemove l) = kc_done (kc_remove ops env l)"
| "kc_run ops idn env OpPurgeExpired = kc_done (kc_purge_expired ops idn env)"
| "kc_run ops idn env (OpMigrateCipher c) = kc_done (kc_migrate_cipher ops idn env c)"

lemma locked_bind:
  "fst (m kc) = kc \<Longrightarrow> \<exists>e. snd (m kc) = Inl e \<Longrightarrow> fst (kc_bind m f kc) = kc \<and> (\<exists>e. snd (kc_bind m f kc) = Inl e)"
  by (cases "m kc") (auto simp: kc_bind_def)

lemma locked_run:
  assumes "cipher_slot kc = None"
  shows "\<exists>e. kc_run ops idn env op kc = (kc, Inl e)"
proof -
  have "fst (kc_run ops idn env op kc) = kc \<and> (\<exists>e. snd (kc_run ops idn env op kc) = Inl e)"
    by (cases op) (simp_all add: kc_done_def kc_public_key_def kc_peer_id_def locked_bind locked_unchanged [OF assms] locked_reads [OF assms])
  then show ?thesis by (metis prod.collapse)
qed

subsection \<open>Stopped tasks\<close>

text \<open>
  A computation in which the task of a write stops, against the same computation without: it is locked by the write, or goes the same
  way and does not come to a write.
\<close>

definition stops_or :: "cipher \<Rightarrow> ('be \<Rightarrow> 'be) \<Rightarrow> ('be, 'a) kc \<Rightarrow> ('be, 'a) kc \<Rightarrow> bool" where
  "stops_or c f m m' \<longleftrightarrow> (\<forall>kc kc' r. cipher_slot kc = Some c \<longrightarrow> m kc = (kc', r) \<longrightarrow>
     cipher_slot kc' = None \<and> r = Inl JoinError \<and> (\<exists>b. backend kc' = f b)
     \<or> cipher_slot kc' = Some c \<and> m' kc = (kc', r))"

named_theorems stops

lemma stops_bind [stops]:
  assumes "stops_or c f m m'" and "\<And>a. stops_or c f (g a) (g' a)"
  shows "stops_or c f (kc_bind m g) (kc_bind m' g')"
  unfolding stops_or_def
proof (intro allI impI)
  fix kc kc' r assume slot: "cipher_slot kc = Some c" and run: "kc_bind m g kc = (kc', r)"
  obtain kc1 r1 where m: "m kc = (kc1, r1)" by (cases "m kc")
  from assms(1) slot m have "cipher_slot kc1 = None \<and> r1 = Inl JoinError \<and> (\<exists>b. backend kc1 = f b)
      \<or> cipher_slot kc1 = Some c \<and> m' kc = (kc1, r1)" by (simp add: stops_or_def)
  then show "cipher_slot kc' = None \<and> r = Inl JoinError \<and> (\<exists>b. backend kc' = f b)
      \<or> cipher_slot kc' = Some c \<and> kc_bind m' g' kc = (kc', r)"
  proof
    assume "cipher_slot kc1 = None \<and> r1 = Inl JoinError \<and> (\<exists>b. backend kc1 = f b)"
    with run m show ?thesis by (auto simp: kc_bind_def)
  next
    assume l: "cipher_slot kc1 = Some c \<and> m' kc = (kc1, r1)"
    show ?thesis
    proof (cases r1)
      case (Inl e)
      with l run m show ?thesis by (auto simp: kc_bind_def)
    next
      case (Inr a)
      with run m have "g a kc1 = (kc', r)" by (simp add: kc_bind_def)
      with assms(2) [of a] l Inr show ?thesis by (auto simp: stops_or_def kc_bind_def)
    qed
  qed
qed

lemma stops_same [stops]:
  "stops_or c f (kc_return a) (kc_return a)" "stops_or c f (kc_pure r) (kc_pure r)"
  "stops_or c f disable_check disable_check" "stops_or c f read_lock read_lock" "stops_or c f write_lock write_lock"
  "stops_or c f (on_backend opr) (on_backend opr)"
  by (auto simp: stops_or_def kc_return_def kc_pure_def disable_check_def read_lock_def write_lock_def on_backend_def
      split: prod.splits if_splits)

lemma stops_write [stops]:
  assumes "task_stop env = Some f"
  shows "stops_or c f (finish_mutation env w) m" "stops_or c f (migrate_task ops env n es es') m'"
  using assms by (auto simp: stops_or_def finish_mutation_def migrate_task_def Let_def)

lemma stops_splits [stops]:
  "(b \<Longrightarrow> stops_or c f x x') \<Longrightarrow> (\<not> b \<Longrightarrow> stops_or c f y y') \<Longrightarrow> stops_or c f (if b then x else y) (if b then x' else y')"
  "stops_or c f u u' \<Longrightarrow> (\<And>a. stops_or c f (v a) (v' a)) \<Longrightarrow>
     stops_or c f (case z of None \<Rightarrow> u | Some a \<Rightarrow> v a) (case z of None \<Rightarrow> u' | Some a \<Rightarrow> v' a)"
  by (auto split: option.split)

context keystore_backend
begin

definition consistent :: "('kp, 'pk) identity \<Rightarrow> 'be keychain \<Rightarrow> bool" where
  "consistent idn kc \<longleftrightarrow> inv (backend kc) \<and> (\<forall>c. cipher_slot kc = Some c \<longrightarrow>
     cipher_ok c \<and> all_open idn c (contents (backend kc)))"

lemma consistent_holds:
  "consistent idn kc \<Longrightarrow> cipher_slot kc = Some c \<Longrightarrow>
     holds c (contents (backend kc)) (disabled kc) kc \<and> cipher_ok c \<and> all_open idn c (contents (backend kc))"
  by (simp add: consistent_def holds_def)

lemma consistent_intro:
  "holds c m d kc \<Longrightarrow> cipher_ok c \<Longrightarrow> all_open idn c m \<Longrightarrow> consistent idn kc"
  "poisoned d kc \<Longrightarrow> consistent idn kc"
  by (auto simp: consistent_def holds_def poisoned_def)

lemma written_consistent:
  "written idn env c d m V r kc \<Longrightarrow> cipher_ok c \<Longrightarrow> consistent idn kc"
  by (cases r) (auto simp: written_def intro: consistent_intro)

lemma generate_cases:
  assumes "kc_generate ops idn env l k kc = (kc', r)"
  shows "kc' = kc \<or> (\<exists>kp r. kc_insert ops idn env l kp kc = (kc', r))"
  using assms by (auto simp: kc_generate_def kc_bind_def kc_pure_def kc_return_def split: sum.splits prod.splits)

lemma insert_consistent:
  assumes "identity_law idn" "consistent idn kc" "env_ok env"
    and "kc_insert_with_expiry ops idn env l kp ex kc = (kc', r)"
  shows "consistent idn kc'"
proof (cases "cipher_slot kc")
  case (Some c)
  note h = consistent_holds [OF assms(2) Some, THEN conjunct1]
    and ok = consistent_holds [OF assms(2) Some, THEN conjunct2, THEN conjunct1]
    and ao = consistent_holds [OF assms(2) Some, THEN conjunct2, THEN conjunct2]
  from hoareD [OF insert_triple [OF assms(1) ok assms(3) ao] h assms(4)] ok ao show ?thesis
    by (cases "store_entry idn env c (disabled kc) l kp ex 1") (auto intro: consistent_intro written_consistent)
next
  case None
  with assms(2,4) show ?thesis by (simp add: locked_unchanged)
qed

lemma step_consistent:
  assumes "kc_step ops idn env_ok kc kc'" "identity_law idn" "consistent idn kc"
  shows "consistent idn kc'"
proof (cases "cipher_slot kc")
  case None
  from assms(1) have "kc' = kc"
    by cases (auto simp: locked_unchanged [OF None] dest!: arg_cong [where f = fst] simp: locked_reads [OF None])
  with assms(3) show ?thesis by simp
next
  case (Some c)
  note h = consistent_holds [OF assms(3) Some, THEN conjunct1]
    and ok = consistent_holds [OF assms(3) Some, THEN conjunct2, THEN conjunct1]
    and ao = consistent_holds [OF assms(3) Some, THEN conjunct2, THEN conjunct2]
  note intros = consistent_intro written_consistent ok ao
  from assms(1) show ?thesis
  proof cases
    case (insert env l kp r)
    then show ?thesis using insert_consistent [OF assms(2,3)] by (auto simp: kc_insert_eq)
  next
    case (insert_with_expiry env l kp ex r)
    then show ?thesis using insert_consistent [OF assms(2,3)] by auto
  next
    case (generate env l k r)
    then show ?thesis using insert_consistent [OF assms(2,3)] generate_cases [OF generate(2)] assms(3)
      by (auto simp: kc_insert_eq)
  next
    case (rotate env l key ex r)
    let ?spec = "rotate_spec env (vault idn c (contents (backend kc))) l key"
    from hoareD [OF rotate_triple [OF assms(2) ok rotate(1) ao] h rotate(2)] show ?thesis
      by (cases ?spec; cases "store_entry idn env c (disabled kc) l (fst (projr ?spec)) ex (snd (projr ?spec))")
        (auto intro: intros)
  next
    case (get env l r)
    from hoareD [OF get_triple [OF ao] h get(1)] show ?thesis by (auto intro: intros)
  next
    case (get_or_create env l r)
    from hoareD [OF get_or_create_triple [OF assms(2) ok get_or_create(1) ao] h get_or_create(2)] show ?thesis
      by (cases "validate_label l"; cases "store_entry idn env c (disabled kc) l (generated env Ed25519) Never 1")
        (auto intro: intros simp: Let_def split: if_splits)
  next
    case (list r)
    from hoareD [OF list_triple [OF ao] h list(1)] show ?thesis by (auto intro: intros)
  next
    case (metadata l r)
    from hoareD [OF metadata_triple [OF ao] h metadata(1)] show ?thesis by (auto intro: intros)
  next
    case (remove env l r)
    from hoareD [OF remove_triple [OF remove(1) ao] h remove(2)] show ?thesis
      by (cases "validate_label l") (auto intro: intros)
  next
    case (purge_expired env r)
    from hoareD [OF purge_triple [OF purge_expired(1) ao] h purge_expired(2)] show ?thesis
      by (cases r) (auto intro: intros)
  next
    case (migrate_cipher env n r)
    from hoareD [OF migrate_triple [OF assms(2) migrate_cipher(2,1) ao] h migrate_cipher(3)] migrate_cipher(2)
    show ?thesis by (auto intro: intros)
  qed
qed

end

subsection \<open>The in-memory keystore keeps the contract\<close>

definition mem_inv :: "memory_keystore \<Rightarrow> bool" where
  "mem_inv b \<longleftrightarrow> wf_alist b \<and> (\<forall>l e. map_of b l = Some e \<longrightarrow> md_label (metadata e) = l)"

lemma mem_put_many_stored:
  "map_of (fold (\<lambda>e. AList.update (md_label (metadata e)) e) es b) = stored es (map_of b)"
  by (induction es arbitrary: b) (simp_all add: stored_def update_conv')

lemma mem_inv_update: "mem_inv b \<Longrightarrow> mem_inv (AList.update (md_label (metadata e)) e b)"
  by (auto simp: mem_inv_def distinct_update update_conv')

lemma mem_inv_put_many:
  "mem_inv b \<Longrightarrow> mem_inv (fold (\<lambda>e. AList.update (md_label (metadata e)) e) es b)"
  by (induction es arbitrary: b) (auto intro: mem_inv_update)

lemma mem_list_metadata:
  assumes "mem_inv b"
  shows "map md_label (map metadata (al_values b)) = keys b" and "set (al_values b) = ran (map_of b)"
proof -
  have "md_label (metadata e) = l" if "(l, e) \<in> set b" for l e
    using assms that by (auto simp: mem_inv_def)
  then show "map md_label (map metadata (al_values b)) = keys b" by auto
  show "set (al_values b) = ran (map_of b)" using assms by (simp add: mem_inv_def ran_distinct)
qed

interpretation mem: keystore_backend memory_backend map_of mem_inv "\<lambda>_. False"
proof (unfold_locales, goal_cases)
  case (1 b l b' r)
  then show ?case by (auto simp: memory_backend_def mem_get_def)
next
  case (2 b b' r)
  then have "b' = b" "r = Inr (map metadata (al_values b))" by (auto simp: memory_backend_def mem_list_def)
  moreover have "distinct (map md_label (map metadata (al_values b)))"
    unfolding mem_list_metadata(1) [OF 2(1)] using 2(1) by (simp add: mem_inv_def)
  moreover have "set (map metadata (al_values b)) = metadata ` ran (map_of b)"
    by (simp only: set_map mem_list_metadata(2) [OF 2(1), simplified] mem_list_metadata(2) [OF 2(1)])
  ultimately show ?case using 2(1) by simp
next
  case (3 b e b' r)
  then show ?case by (auto simp: memory_backend_def mem_put_def mem_inv_update stored_def update_conv')
next
  case (4 b es b' r)
  then show ?case by (auto simp: memory_backend_def mem_put_many_def mem_inv_put_many mem_put_many_stored)
next
  case (5 b l b' r)
  then show ?case
    by (auto simp: memory_backend_def mem_remove_def mem_inv_def distinct_delete delete_conv' split: if_splits)
next
  case (6 b l e)
  then show ?case by (simp add: mem_inv_def)
qed

text \<open>
  Runs over the in-memory keystore. \<open>mem_env\<close>: random sources fill their buffers, and a stopped task
  leaves the hash map well-formed.
\<close>

definition mem_env :: "('kp, memory_keystore) kc_env \<Rightarrow> bool" where
  "mem_env env \<longleftrightarrow> (\<forall>i. fill_bytes_law (rng env i))
     \<and> (\<forall>f b. task_stop env = Some f \<longrightarrow> mem_inv b \<longrightarrow> mem_inv (f b))"

inductive kc_reachable :: "('kp, 'pk) identity \<Rightarrow> memory_keystore keychain \<Rightarrow> bool" for idn where
  start: "cipher_ok c \<Longrightarrow> kc_reachable idn \<lparr>cipher_slot = Some c, backend = [], disabled = d\<rparr>"
| step: "kc_reachable idn kc \<Longrightarrow> kc_step memory_backend idn mem_env kc kc' \<Longrightarrow> kc_reachable idn kc'"

lemma mem_env_ok: "mem_env = mem.env_ok"
  by (simp add: fun_eq_iff mem_env_def mem.env_ok_def)

lemma reachable_consistent:
  assumes "kc_reachable idn kc" "identity_law idn"
  shows "mem.consistent idn kc"
  using assms(1)
proof (induction rule: kc_reachable.induct)
  case (start c d)
  have "mem_inv []" by (simp add: mem_inv_def)
  with start show ?case by (simp add: mem.consistent_def all_open_def)
next
  case (step kc kc')
  then show ?case using mem.step_consistent assms(2) by (auto simp: mem_env_ok)
qed

lemma reachable_holds:
  assumes "kc_reachable idn kc" "identity_law idn" "cipher_slot kc = Some c"
  shows "mem.holds c (map_of (backend kc)) (disabled kc) kc" "cipher_ok c" "all_open idn c (map_of (backend kc))"
  using mem.consistent_holds [OF reachable_consistent [OF assms(1,2)] assms(3)] by auto

subsection \<open>Properties\<close>

text \<open>
  The decrypted view of a keychain: what \<^verbatim>\<open>get\<close> and \<^verbatim>\<open>list\<close> can see. It is the abstract state the
  operations are specified on.
\<close>

definition opened :: "('kp, 'pk) identity \<Rightarrow> memory_keystore keychain \<Rightarrow> label \<rightharpoonup> 'kp opened_entry" where
  "opened idn kc = (case cipher_slot kc of None \<Rightarrow> Map.empty | Some c \<Rightarrow> vault idn c (map_of (backend kc)))"

lemma opened_holds: "mem.holds c m d kc \<Longrightarrow> opened idn kc = vault idn c m"
  by (simp add: opened_def mem.holds_def)

lemma mem_written_ok:
  "mem.written idn env c d m V r kc \<Longrightarrow> task_stop env = None \<Longrightarrow> (\<exists>x. r = Inr x) \<and> opened idn kc = V"
  by (cases r) (auto simp: mem.written_def opened_holds)

lemma reachable_get:
  assumes "kc_reachable idn kc" "identity_law idn" "cipher_slot kc = Some c"
  shows "snd (kc_get memory_backend idn env l kc) = (if disabled kc then Inl Disabled
      else try_res (validate_label l) (\<lambda>_. get_spec (opened idn kc) (sys_time env) l))"
proof -
  note h = reachable_holds [OF assms]
  obtain kc' r where run: "kc_get memory_backend idn env l kc = (kc', r)"
    by (cases "kc_get memory_backend idn env l kc")
  from hoareD [OF mem.get_triple [OF h(3)] h(1) run] run show ?thesis by (simp add: opened_holds [OF h(1)])
qed

text \<open>
  C1: every key stays readable. In every state a keychain over the in-memory keystore can reach, through
  inserts, rotations, removals, purges, changes of the cipher and stopped writes, if operations are
  available at all then every stored entry opens under the current cipher, under the label it is
  stored at.
\<close>

theorem keychain_entries_open:
  assumes "kc_reachable idn kc" "identity_law idn" "cipher_slot kc = Some c"
    and "map_of (backend kc) l = Some e"
  shows "\<exists>x. open_entry idn c l e = Inr x \<and> opened_metadata x = metadata e \<and> md_label (metadata e) = l"
proof -
  from reachable_holds(3) [OF assms(1-3)] assms(4) obtain x where "open_entry idn c l e = Inr x"
    by (auto simp: all_open_def)
  then show ?thesis by (auto simp: open_entry_Inr)
qed

text \<open>
  C10: what was inserted is read back. An insert that is not stopped succeeds exactly when the keychain
  is enabled, the label is valid and the key could be sealed; afterwards \<^verbatim>\<open>get\<close> returns the key until it
  expires and \<^verbatim>\<open>Expired\<close> from then on, and every other label reads as before.
\<close>

theorem keychain_insert_get:
  assumes reach: "kc_reachable idn kc" and law: "identity_law idn" and slot: "cipher_slot kc = Some c"
    and env: "mem_env env" "task_stop env = None"
    and run: "kc_insert_with_expiry memory_backend idn env l kp ex kc = (kc', r)"
  shows "((\<exists>u. r = Inr u) \<longleftrightarrow> \<not> disabled kc \<and> validate_label l = Inr () \<and>
        (\<exists>e. seal_entry idn (rng env 0) c (new_metadata idn env l kp ex 1) kp = Inr e))
    \<and> (\<forall>u. r = Inr u \<longrightarrow> snd (kc_get memory_backend idn env' l kc') =
         (if (case resolve ex (sys_time env) of None \<Rightarrow> False | Some t \<Rightarrow> t \<le> sys_time env')
          then Inl (Expired l) else Inr kp))
    \<and> (l' \<noteq> l \<longrightarrow> snd (kc_get memory_backend idn env' l' kc') = snd (kc_get memory_backend idn env' l' kc))"
proof -
  note h = reachable_holds [OF reach law slot]
  have reach': "kc_reachable idn kc'"
    using reach env(1) run by (blast intro: kc_reachable.step kc_step.insert_with_expiry)
  have slot': "cipher_slot kc' = Some c"
    and trip: "case store_entry idn env c (disabled kc) l kp ex 1 of
        Inl e \<Rightarrow> opened idn kc' = opened idn kc \<and> r = Inl e
      | Inr _ \<Rightarrow> (\<exists>u. r = Inr u) \<and> opened idn kc' =
          (opened idn kc)(l \<mapsto> \<lparr>opened_keypair = kp, opened_metadata = new_metadata idn env l kp ex 1\<rparr>)"
    and d': "disabled kc' = disabled kc"
    using hoareD [OF mem.insert_triple [OF law h(2) env(1) [unfolded mem_env_ok] h(3)] h(1) run] env(2) opened_holds [OF h(1), of idn]
    by (cases "store_entry idn env c (disabled kc) l kp ex 1"; cases r;
        auto simp: mem.written_def mem.holds_def opened_def)+
  show ?thesis
    using trip unfolding reachable_get [OF reach law slot] reachable_get [OF reach' law slot'] d'
    by (cases "validate_label l")
      (auto simp: store_entry_def get_spec_def is_expired_def split: sum.splits if_splits)
qed

text \<open>
  Rotation replaces the key and counts versions. When a rotation with a supplied key succeeds, the
  label held a key before, the new metadata carries its version plus one (saturating), \<^verbatim>\<open>get\<close> returns the
  new key unless its expiry has passed, and no other label changes.
\<close>

theorem keychain_rotate:
  assumes reach: "kc_reachable idn kc" and law: "identity_law idn" and slot: "cipher_slot kc = Some c"
    and env: "mem_env env" "task_stop env = None"
    and run: "kc_rotate memory_backend idn env l (RotateKeypair kp) ex kc = (kc', Inr u)"
  shows "\<exists>old m. opened idn kc l = Some old \<and> opened idn kc' = (opened idn kc)(l \<mapsto>
          \<lparr>opened_keypair = kp, opened_metadata = m\<rparr>)
      \<and> unat (md_version m) = min (Suc (unat (md_version (opened_metadata old)))) (2 ^ 32 - 1)
      \<and> md_expires_at m = resolve ex (sys_time env) \<and> md_label m = l"
proof -
  note h = reachable_holds [OF reach law slot]
  let ?V = "vault idn c (map_of (backend kc))"
  note post = hoareD [OF mem.rotate_triple [OF law h(2) env(1) [unfolded mem_env_ok] h(3)] h(1) run]
  obtain v where v: "rotate_spec env ?V l (RotateKeypair kp) = Inr (kp, v)"
    using post by (cases "rotate_spec env ?V l (RotateKeypair kp)") (auto simp: rotate_spec_def try_res_Inr_iff)
  obtain e where e: "store_entry idn env c (disabled kc) l kp ex v = Inr e"
    using post v by (cases "store_entry idn env c (disabled kc) l kp ex v") auto
  from v obtain old where old: "?V l = Some old" "v = u32_saturating_add (md_version (opened_metadata old)) 1"
    by (auto simp: rotate_spec_def try_res_Inr_iff)
  from post v e have "mem.written idn env c (disabled kc) (map_of (backend kc))
      (?V(l \<mapsto> \<lparr>opened_keypair = kp, opened_metadata = new_metadata idn env l kp ex v\<rparr>)) (Inr u) kc'" by simp
  from mem_written_ok [OF this env(2)] old show ?thesis
    by (intro exI [of _ old] exI [of _ "new_metadata idn env l kp ex v"])
      (simp add: opened_holds [OF h(1)] unat_saturating_add_1)
qed

text \<open>
  Listing is exact. On every reachable unlocked keychain \<^verbatim>\<open>list\<close> succeeds and returns the metadata of
  every stored key, once each, and nothing else.
\<close>

theorem keychain_list_exact:
  assumes reach: "kc_reachable idn kc" and law: "identity_law idn" and slot: "cipher_slot kc = Some c"
  shows "\<exists>kc' ms. kc_list memory_backend idn kc = (kc', Inr ms) \<and> distinct (map md_label ms)
    \<and> set ms = opened_metadata ` ran (opened idn kc) \<and> dom (opened idn kc) = dom (map_of (backend kc))"
proof -
  note h = reachable_holds [OF reach law slot]
  obtain kc' r where run: "kc_list memory_backend idn kc = (kc', r)" by (cases "kc_list memory_backend idn kc")
  from hoareD [OF mem.list_triple [OF h(3)] h(1) run] run vault_dom [OF h(3)] show ?thesis
    by (cases r) (auto simp: opened_holds [OF h(1)] dom_def)
qed

text \<open>
  Purging removes exactly the expired keys. It succeeds, reports how many keys it removed, and the
  remaining view is the old one without the labels whose expiry has been reached.
\<close>

theorem keychain_purge_exact:
  assumes reach: "kc_reachable idn kc" and law: "identity_law idn" and slot: "cipher_slot kc = Some c"
    and env: "mem_env env" "task_stop env = None"
  shows "\<exists>kc'. kc_purge_expired memory_backend idn env kc = (kc', Inr (card (expired_labels (opened idn kc) (sys_time env))))
    \<and> opened idn kc' = opened idn kc |` (- expired_labels (opened idn kc) (sys_time env))"
proof -
  note h = reachable_holds [OF reach law slot]
  obtain kc' r where run: "kc_purge_expired memory_backend idn env kc = (kc', r)"
    by (cases "kc_purge_expired memory_backend idn env kc")
  from hoareD [OF mem.purge_triple [OF env(1) [unfolded mem_env_ok] h(3)] h(1) run] run env(2) show ?thesis
    by (cases r) (auto simp: opened_holds [OF h(1)] opened_holds)
qed

text \<open>
  C16: changing the cipher keeps every key. Over the in-memory store, when the task is not stopped: if the migration returns a keychain, the slot holds the new
  cipher and the decrypted view, keys and metadata alike, is unchanged; if it returns an error, either
  nothing has changed or the slot is empty, never an old cipher over new entries.
\<close>

theorem keychain_migrate_preserves:
  assumes reach: "kc_reachable idn kc" and law: "identity_law idn" and slot: "cipher_slot kc = Some c"
    and env: "mem_env env" and new: "cipher_ok n"
    and run: "kc_migrate_cipher memory_backend idn env n kc = (kc', r)"
  shows "case r of
      Inr next \<Rightarrow> next = kc' \<and> cipher_slot kc' = Some n \<and> opened idn kc' = opened idn kc
    | Inl e \<Rightarrow> cipher_slot kc' = None
        \<or> (cipher_slot kc' = Some c \<and> map_of (backend kc') = map_of (backend kc))"
proof -
  note h = reachable_holds [OF reach law slot]
  from hoareD [OF mem.migrate_triple [OF law new env [unfolded mem_env_ok] h(3)] h(1) run]
  show ?thesis
    by (cases r) (auto simp: opened_holds [OF h(1)] opened_holds mem.poisoned_def,
        auto simp: mem.holds_def)
qed

lemma stops_load_loop [stops]:
  "stops_or c f (load_loop ops ls es ms)
     (load_loop (ops\<lparr>be_put := put, be_put_many := put_many, be_remove := remove\<rparr>) ls es ms)"
  by (induction ms arbitrary: ls es) (auto intro!: stops)

lemma stops_run:
  assumes "task_stop env = Some f"
  shows "stops_or c f (kc_run ops idn env op)
     (kc_run (ops\<lparr>be_put := put, be_put_many := put_many, be_remove := remove\<rparr>) idn (env\<lparr>task_stop := None\<rparr>) op)"
proof -
  have "stops_or c f (kc_store ops idn env l kp ex v c')
      (kc_store (ops\<lparr>be_put := put, be_put_many := put_many, be_remove := remove\<rparr>) idn (env\<lparr>task_stop := None\<rparr>) l kp ex v c')"
    for l kp ex v c' by (auto simp: kc_store_def Let_def intro!: stops assms)
  moreover have "generate_keypair (env\<lparr>task_stop := None\<rparr>) = generate_keypair env"
    by (auto simp: fun_eq_iff generate_keypair_def)
  ultimately show ?thesis
    by (cases op) (auto simp: kc_done_def kc_insert_def kc_insert_with_expiry_def kc_generate_def kc_rotate_def kc_get_def
        kc_public_key_def kc_peer_id_def kc_get_or_create_def kc_list_def kc_metadata_def kc_remove_def kc_purge_expired_def
        kc_migrate_cipher_def authenticated_entry_def authenticated_entries_def load_entries_def Let_def intro!: stops assms split: rotate_key.split)
qed

text \<open>
  C31: an interrupted write is never papered over. When the task of an operation stops before it finishes its write, with whatever
  effect \<open>f\<close> on the backend, the operation reports \<^verbatim>\<open>JoinError\<close> and from then on every operation of the keychain, reading or
  writing, returns an error and leaves the state alone. The only other outcome is that the operation did not come to a
  write: its result is the same whatever the backend's writes do, and the keychain stays usable. This holds for all
  operations of the keychain, over every backend.
\<close>

theorem keychain_stopped_write_locks:
  assumes "cipher_slot kc = Some c" and "task_stop env = Some f" and "kc_run ops idn env op kc = (kc', r)"
  shows "cipher_slot kc' = None \<and> r = Inl JoinError \<and> (\<exists>b. backend kc' = f b)
       \<and> (\<forall>env' op'. \<exists>e. kc_run ops idn env' op' kc' = (kc', Inl e))
     \<or> cipher_slot kc' = Some c \<and> (\<forall>put put_many remove.
         kc_run (ops\<lparr>be_put := put, be_put_many := put_many, be_remove := remove\<rparr>) idn (env\<lparr>task_stop := None\<rparr>) op kc = (kc', r))"
proof (cases "cipher_slot kc'")
  case None
  with stops_run [OF assms(2), of c ops idn op "be_remove ops" "be_put_many ops" "be_put ops"] assms(1,3)
  have "r = Inl JoinError" "\<exists>b. backend kc' = f b" by (auto simp: stops_or_def)
  with None locked_run [OF None] show ?thesis by blast
next
  case (Some d)
  with stops_run [OF assms(2), of c ops idn op] assms(1,3)
  have "cipher_slot kc' = Some c \<and>
      kc_run (ops\<lparr>be_put := put, be_put_many := put_many, be_remove := remove\<rparr>) idn (env\<lparr>task_stop := None\<rparr>) op kc = (kc', r)"
    for put put_many remove unfolding stops_or_def by (metis option.distinct(1))
  then show ?thesis by blast
qed

text \<open>
  C7: the associated data determines the metadata. Two well-formed metadata records with the same
  encoding are equal: no field can be changed, moved into another field or dropped without changing
  the bytes the ciphertext is bound to.
\<close>

theorem metadata_aad_injective:
  assumes "metadata_aad m = metadata_aad m'" "wf_metadata m" "wf_metadata m'"
  shows "m = m'"
  using assms by (rule metadata_aad_inj)

text \<open>
  C30: tampering with stored metadata is detected by the authenticated ciphers. If the AEAD primitive rejects a ciphertext under any
  associated data but the one it was produced with, as AES-GCM and XChaCha20-Poly1305 promise, an entry sealed with one of the two ciphers
  and then given other metadata, or looked up under a label that is not its own, is rejected with \<^verbatim>\<open>DecryptFailed\<close>. (The plaintext
  cipher makes no such promise.)
\<close>

theorem tampered_metadata_rejected:
  assumes "c \<in> {aes_gcm_cipher new_from_slice key, xchacha20poly1305_cipher new_from_slice key}"
    and "aead_authentic (new_from_slice key)" and "fill_bytes_law rnd"
    and "seal_entry idn rnd c m kp = Inr e" and "wf_metadata m" "wf_metadata m'"
    and "m' \<noteq> m \<or> l \<noteq> md_label m"
  shows "open_entry idn c l (e\<lparr>metadata := m'\<rparr>) = Inl DecryptFailed"
proof (cases "md_label m' = l")
  case True
  with assms(7) have "m' \<noteq> m" by auto
  with assms(5,6) have aad: "metadata_aad m' \<noteq> metadata_aad m" using metadata_aad_inj by blast
  from assms(4) obtain p where "encrypt c rnd (Some (metadata_aad m)) p = Inr (ciphertext e)"
    by (auto simp: seal_entry_def try_res_def split: sum.splits)
  with aead_ciphers_authentic [OF assms(1-3)] aad have "decrypt c (Some (metadata_aad m')) (ciphertext e) = Inl DecryptFailed" by blast
  with True show ?thesis by (simp add: open_entry_def try_res_def)
next
  case False
  then show ?thesis by (simp add: open_entry_def)
qed

end
