(* ===== verification/Keychain_Examples.thy ===== *)
theory Keychain_Examples
  imports Keychain_Properties
begin

section \<open>Instances of the keychain properties\<close>

text \<open>
  A concrete identity type, ciphers and a keychain with two keys, one of which expires, at which the
  properties of the keychain are applied.
\<close>

definition example_identity :: "(u8, u8) identity" where
  "example_identity = \<lparr>keypair_key_type = (\<lambda>_. P2pEd25519), public = (\<lambda>kp. kp), public_key_type = (\<lambda>_. P2pEd25519),
     encode_protobuf = (\<lambda>pk. [8, pk]), try_decode_protobuf = (\<lambda>bs. case bs of [_, pk] \<Rightarrow> Inr pk | _ \<Rightarrow> Inl ''''),
     to_peer_id = (\<lambda>pk. PeerId (unat pk)), to_protobuf_encoding = (\<lambda>kp. Inr [kp]),
     from_protobuf_encoding = (\<lambda>bs. case bs of [kp] \<Rightarrow> Inr kp | _ \<Rightarrow> Inl '''')\<rparr>"

definition example_kc_env :: "time \<Rightarrow> (memory_keystore \<Rightarrow> memory_keystore) option \<Rightarrow> (u8, memory_keystore) kc_env" where
  "example_kc_env now stop = \<lparr>sys_time = now, rng = (\<lambda>i n. replicate n (word_of_nat i)), generated = (\<lambda>_. 42),
     feature_ed25519 = True, feature_secp256k1 = False, feature_ecdsa = False, task_stop = stop\<rparr>"

definition example_empty :: "memory_keystore keychain" where
  "example_empty = \<lparr>cipher_slot = Some plaintext_cipher, backend = [], disabled = False\<rparr>"

definition example_keychain :: "memory_keystore keychain" where
  "example_keychain = fst (kc_insert_with_expiry memory_backend example_identity (example_kc_env 10 None) ''b'' 2 (After 5)
     (fst (kc_insert memory_backend example_identity (example_kc_env 10 None) ''a'' 1 example_empty)))"

lemmas keychain_eval =
  kc_insert_def kc_insert_with_expiry_def kc_store_def kc_rotate_def kc_get_def kc_list_def kc_purge_expired_def
  kc_migrate_cipher_def migrate_task_def authenticated_entry_def authenticated_entries_def load_entries_def
  kc_bind_def kc_return_def kc_pure_def on_backend_def
  finish_mutation_def write_lock_def read_lock_def disable_check_def validate_label_def seal_entry_def open_entry_def
  memory_backend_def mem_put_def mem_put_many_def mem_get_def mem_list_def mem_remove_def
  example_identity_def example_kc_env_def example_empty_def example_keychain_def plaintext_cipher_def
  resolve_def checked_add_def valid_time_def nanos_def is_expired_def from_p2p_key_type_def

lemma example_identity_law: "identity_law example_identity"
  by (simp add: identity_law_def example_identity_def)

lemma example_mem_env: "mem_env (example_kc_env now None)"
  by (simp add: mem_env_def example_kc_env_def fill_bytes_law_def)

lemma example_stop_env: "mem_env (example_kc_env now (Some (\<lambda>b. b)))"
  by (simp add: mem_env_def example_kc_env_def fill_bytes_law_def)

lemma example_kc_reachable: "kc_reachable example_identity example_empty" "kc_reachable example_identity example_keychain"
proof -
  show e: "kc_reachable example_identity example_empty"
    unfolding example_empty_def by (rule kc_reachable.start [OF plaintext_cipher_ok])
  let ?s = "kc_step memory_backend example_identity mem_env"
  have s: "?s kc (fst (kc_insert memory_backend example_identity (example_kc_env 10 None) l kp kc))" for kc l kp
    by (rule kc_step.insert [where adm = mem_env, OF example_mem_env]) (rule prod.collapse [symmetric])
  have t: "?s kc (fst (kc_insert_with_expiry memory_backend example_identity (example_kc_env 10 None) l kp ex kc))" for kc l kp ex
    by (rule kc_step.insert_with_expiry [where adm = mem_env, OF example_mem_env]) (rule prod.collapse [symmetric])
  show "kc_reachable example_identity example_keychain"
    unfolding example_keychain_def by (intro kc_reachable.step [OF kc_reachable.step [OF e s] t])
qed

lemma example_slot: "cipher_slot example_keychain = Some plaintext_cipher"
  by (simp add: keychain_eval Let_def)

lemma example_backend:
  "map_of (backend example_keychain) ''b'' =
     Some \<lparr>metadata = new_metadata example_identity (example_kc_env 10 None) ''b'' 2 (After 5) 1, ciphertext = [2]\<rparr>"
  "disabled example_keychain = False"
  by (simp_all add: keychain_eval Let_def new_metadata_def)

theorem keychain_entries_open_witness:
  "\<exists>x. open_entry example_identity plaintext_cipher ''b''
      \<lparr>metadata = new_metadata example_identity (example_kc_env 10 None) ''b'' 2 (After 5) 1, ciphertext = [2]\<rparr> = Inr x"
  using keychain_entries_open [OF example_kc_reachable(2) example_identity_law example_slot example_backend(1)] by blast

theorem keychain_insert_get_witness:
  "snd (kc_get memory_backend example_identity (example_kc_env 20 None) ''c''
     (fst (kc_insert_with_expiry memory_backend example_identity (example_kc_env 10 None) ''c'' 3 (After 50) example_keychain)))
   = Inr 3"
proof -
  let ?run = "kc_insert_with_expiry memory_backend example_identity (example_kc_env 10 None) ''c'' 3 (After 50) example_keychain"
  have env: "task_stop (example_kc_env 10 None) = None" by (simp add: example_kc_env_def)
  obtain kc' r where run: "?run = (kc', r)" by (cases ?run)
  have "\<exists>e. seal_entry example_identity (rng (example_kc_env 10 None) 0) plaintext_cipher
      (new_metadata example_identity (example_kc_env 10 None) ''c'' 3 (After 50) 1) 3 = Inr e"
    by (simp add: keychain_eval)
  with keychain_insert_get [OF example_kc_reachable(2) example_identity_law example_slot example_mem_env env run,
      of "example_kc_env 20 None" "''c''"] run
  show ?thesis by (simp add: example_backend(2) validate_label_def)
      (simp add: resolve_def checked_add_def valid_time_def nanos_def example_kc_env_def)
qed

theorem keychain_rotate_witness:
  "\<exists>kc'. kc_rotate memory_backend example_identity (example_kc_env 10 None) ''a'' (RotateKeypair 9) Never example_keychain
      = (kc', Inr ()) \<and> map_option opened_keypair (opened example_identity kc' ''a'') = Some 9"
proof -
  let ?run = "kc_rotate memory_backend example_identity (example_kc_env 10 None) ''a'' (RotateKeypair 9) Never example_keychain"
  have env: "task_stop (example_kc_env 10 None) = None" by (simp add: example_kc_env_def)
  have "snd ?run = Inr ()" by (simp add: keychain_eval Let_def)
  then obtain kc' where run: "?run = (kc', Inr ())" by (cases ?run) simp
  from keychain_rotate [OF example_kc_reachable(2) example_identity_law example_slot example_mem_env env run] run
  show ?thesis by auto
qed

theorem keychain_list_exact_witness:
  "\<exists>kc' ms. kc_list memory_backend example_identity example_keychain = (kc', Inr ms) \<and> distinct (map md_label ms)"
  using keychain_list_exact [OF example_kc_reachable(2) example_identity_law example_slot] by blast

theorem keychain_purge_exact_witness:
  "\<exists>kc'. kc_purge_expired memory_backend example_identity (example_kc_env 15 None) example_keychain =
     (kc', Inr (card (expired_labels (opened example_identity example_keychain) 15)))"
proof -
  have env: "task_stop (example_kc_env 15 None) = None" "sys_time (example_kc_env 15 None) = 15"
    by (simp_all add: example_kc_env_def)
  from keychain_purge_exact [OF example_kc_reachable(2) example_identity_law example_slot example_mem_env env(1)] env(2)
  show ?thesis by auto
qed

theorem keychain_migrate_preserves_witness:
  "\<exists>kc'. kc_migrate_cipher memory_backend example_identity (example_kc_env 10 None) plaintext_cipher example_keychain
      = (kc', Inr kc') \<and> opened example_identity kc' = opened example_identity example_keychain"
proof -
  let ?run = "kc_migrate_cipher memory_backend example_identity (example_kc_env 10 None) plaintext_cipher example_keychain"
  have "\<exists>x. snd ?run = Inr x" by (simp add: keychain_eval Let_def)
  then obtain kc' x where run: "?run = (kc', Inr x)" by (cases ?run) auto
  from keychain_migrate_preserves [OF example_kc_reachable(2) example_identity_law example_slot example_mem_env
      plaintext_cipher_ok run] run show ?thesis by auto
qed

text \<open>A change of the cipher whose task stops after it has written the first entry: every later operation is refused.\<close>

theorem keychain_stopped_write_locks_witness:
  "\<exists>kc'. kc_run memory_backend example_identity (example_kc_env 10 (Some (drop 1))) (OpMigrateCipher plaintext_cipher) example_keychain
       = (kc', Inl JoinError)
     \<and> (\<exists>e. kc_run memory_backend example_identity (example_kc_env 20 None) (OpGet ''a'') kc' = (kc', Inl e))"
proof -
  let ?run = "kc_run memory_backend example_identity (example_kc_env 10 (Some (drop 1))) (OpMigrateCipher plaintext_cipher) example_keychain"
  have stop: "task_stop (example_kc_env 10 (Some (drop 1))) = Some (drop 1)" by (simp add: example_kc_env_def)
  have locked: "cipher_slot (fst ?run) = None"
    by (simp add: keychain_eval kc_done_def try_res_def ok_or_def same_metadata_def)
  from keychain_stopped_write_locks [OF example_slot stop prod.collapse [symmetric],
      of memory_backend example_identity "OpMigrateCipher plaintext_cipher"] locked
  have "snd ?run = Inl JoinError" "\<exists>e. kc_run memory_backend example_identity (example_kc_env 20 None) (OpGet ''a'') (fst ?run) = (fst ?run, Inl e)"
    by (auto simp del: kc_run.simps)
  then show ?thesis by (metis prod.collapse)
qed

definition example_metadata :: key_metadata where
  "example_metadata = \<lparr>md_label = ''a'', md_key_type = Ed25519, md_version = 1, md_created_at = 10,
     md_expires_at = None, md_public_key = [8, 1]\<rparr>"

lemma example_metadata_wf: "wf_metadata example_metadata" "wf_metadata (example_metadata\<lparr>md_version := 2\<rparr>)"
  by (simp_all add: wf_metadata_def example_metadata_def valid_time_def nanos_def)

theorem metadata_aad_injective_witness:
  "metadata_aad (example_metadata\<lparr>md_version := 2\<rparr>) \<noteq> metadata_aad example_metadata"
proof
  assume "metadata_aad (example_metadata\<lparr>md_version := 2\<rparr>) = metadata_aad example_metadata"
  from metadata_aad_injective [OF this example_metadata_wf(2,1)] show False by (simp add: example_metadata_def)
qed

text \<open>A primitive that stores the associated data in front of the plaintext, delimited in unary.\<close>

definition delimited :: "bytes \<Rightarrow> bytes" where
  "delimited aad = replicate (length aad) 0 @ [1] @ aad"

definition binding_aead :: "bytes \<Rightarrow> aead" where
  "binding_aead key = \<lparr>aead_encrypt = (\<lambda>_ m aad. Some (delimited aad @ m)),
     aead_decrypt = (\<lambda>_ ct aad. let t = delimited aad
        in if take (length t) ct = t then Some (drop (length t) ct) else None)\<rparr>"

lemma delimited_prefix: "delimited a @ x = delimited b @ y \<Longrightarrow> a = b"
proof -
  assume eq: "delimited a @ x = delimited b @ y"
  have "length (takeWhile (\<lambda>z. z = 0) (delimited c @ w)) = length c" for c w
    by (simp add: delimited_def takeWhile_append)
  with eq have "length a = length b" by metis
  with eq show "a = b" by (simp add: delimited_def)
qed

lemma binding_aead_authentic: "aead_authentic (binding_aead key)"
proof -
  have "take (length (delimited b)) (delimited a @ m) \<noteq> delimited b" if "b \<noteq> a" for a b m
  proof
    assume "take (length (delimited b)) (delimited a @ m) = delimited b"
    then have "delimited b @ drop (length (delimited b)) (delimited a @ m) = delimited a @ m" by (metis append_take_drop_id)
    with that show False by (metis delimited_prefix)
  qed
  then show ?thesis by (auto simp: aead_authentic_def binding_aead_def Let_def)
qed

theorem tampered_metadata_rejected_witness:
  "\<exists>e. seal_entry example_identity (\<lambda>n. replicate n 0) (xchacha20poly1305_cipher binding_aead []) example_metadata 1 = Inr e
     \<and> open_entry example_identity (xchacha20poly1305_cipher binding_aead []) ''a''
         (e\<lparr>metadata := example_metadata\<lparr>md_version := 2\<rparr>\<rparr>) = Inl DecryptFailed"
proof -
  let ?c = "xchacha20poly1305_cipher binding_aead []"
  have "\<exists>e. seal_entry example_identity (\<lambda>n. replicate n 0) ?c example_metadata 1 = Inr e"
    by (simp add: seal_entry_def example_identity_def xchacha20poly1305_cipher_def aead_frame_encrypt_def binding_aead_def
        ok_or_def try_res_def Let_def)
  then obtain e where e: "seal_entry example_identity (\<lambda>n. replicate n 0) ?c example_metadata 1 = Inr e" ..
  have c: "?c \<in> {aes_gcm_cipher binding_aead [], xchacha20poly1305_cipher binding_aead []}"
    and fill: "fill_bytes_law (\<lambda>n. replicate n 0)" by (simp_all add: fill_bytes_law_def)
  have "example_metadata\<lparr>md_version := 2\<rparr> \<noteq> example_metadata \<or> ''a'' \<noteq> md_label example_metadata"
    by (simp add: example_metadata_def)
  from tampered_metadata_rejected [OF c binding_aead_authentic fill e example_metadata_wf this] e show ?thesis by blast
qed

end
