(* ===== verification/Keychain_Atomic.thy ===== *)
theory Keychain_Atomic
  imports Keychain_Examples
begin

section \<open>Changing the cipher over a backend with atomic batches\<close>

text \<open>
  A backend whose failed batches are all or nothing. Over such a backend an interrupted change of the
  cipher leaves every entry under the old cipher or every entry under the new one, so that
  reopening the keychain with one of the two recovers every key.
\<close>

locale atomic_backend = keystore_backend ops contents inv faulty
  for ops :: "'be backend_ops" and contents inv faulty +
  assumes put_many_atomic: "\<And>b es b' err. inv b \<Longrightarrow> be_put_many ops es b = (b', Inl err) \<Longrightarrow>
      contents b' = contents b \<or> contents b' = stored es (contents b)"
begin

definition migrated :: "('kp, 'pk) identity \<Rightarrow> cipher \<Rightarrow> cipher \<Rightarrow> (label \<rightharpoonup> encrypted_entry) \<Rightarrow> 'be \<Rightarrow> bool" where
  "migrated idn c n m b \<longleftrightarrow> inv b \<and> (contents b = m
     \<or> all_open idn n (contents b) \<and> vault idn n (contents b) = vault idn c m)"

lemma migrate_task_migrated:
  assumes "holds c m d kc" "task_stop env = None"
    and new: "all_open idn n (stored es' m)" "vault idn n (stored es' m) = vault idn c m"
    and run: "migrate_task ops env n es es' kc = (kc', r)"
  shows "migrated idn c n m (backend kc')"
proof -
  let ?k = "kc\<lparr>cipher_slot := None\<rparr>"
  obtain b x where p: "be_put_many ops es' (backend kc) = (b, x)"
    by (cases "be_put_many ops es' (backend kc)")
  from assms(1) have k: "inv (backend kc)" "contents (backend kc) = m" by (simp_all add: holds_def)
  note law = put_many_law [OF k(1) p]
  have b: "inv b" "contents b = m \<or> contents b = stored es' m"
    using law put_many_atomic [OF k(1)] p k(2) by (cases x; auto)+
  show ?thesis
  proof (cases x)
    case (Inr u)
    with run assms(2) p have "backend kc' = b" by (auto simp: migrate_task_def on_backend_def Let_def)
    with b new show ?thesis by (auto simp: migrated_def)
  next
    case (Inl err)
    obtain k2 ok where ck: "check_intact ops es (?k\<lparr>backend := b\<rparr>) = (k2, ok)"
      by (cases "check_intact ops es (?k\<lparr>backend := b\<rparr>)")
    from run assms(2) p Inl ck have "backend kc' = backend k2"
      by (auto simp: migrate_task_def on_backend_def Let_def)
    with check_intact_holds [OF ck, simplified, OF b(1)] b new show ?thesis by (auto simp: migrated_def)
  qed
qed

lemma migrate_migrated:
  fixes env :: "('kp, 'be) kc_env" and idn :: "('kp, 'pk) identity"
  assumes "identity_law idn" "cipher_ok n" "env_ok env" "task_stop env = None" "all_open idn c m" "holds c m d kc"
    and run: "kc_migrate_cipher ops idn env n kc = (kc', r)"
  shows "migrated idn c n m (backend kc')"
proof -
  have lock: "write_lock kc = (kc, Inr c)" using assms(6) by (simp add: write_lock_def holds_def)
  have dis: "disable_check kc = (kc, if d then Inl Disabled else Inr ())"
    using assms(6) by (simp add: disable_check_def holds_def)
  have same: "migrated idn c n m (backend k)" if "holds c m d k" for k using that by (simp add: migrated_def holds_def)
  obtain kc1 r1 where l: "load_entries ops kc = (kc1, r1)" by (cases "load_entries ops kc")
  note hl = hoareD [OF load_entries_triple [OF assms(5)] assms(6) l]
  consider "d" | e where "\<not> d" "r1 = Inl e" | es e where "\<not> d" "r1 = Inr es" "reseal_all idn (rng env) c n es = Inl e"
    | es es' where "\<not> d" "r1 = Inr es" "reseal_all idn (rng env) c n es = Inr es'"
    by (cases d; cases r1; cases "case r1 of Inr es \<Rightarrow> reseal_all idn (rng env) c n es | Inl _ \<Rightarrow> Inr []") auto
  then show ?thesis
  proof cases
    case (4 es es')
    with hl have h1: "holds c m d kc1" and es: "distinct (map (md_label \<circ> metadata) es)" "set es = ran m"
      "\<forall>e \<in> set es. m (md_label (metadata e)) = Some e" by auto
    have fill: "fill_bytes_law (rng env i)" for i using assms(3) by (simp add: env_ok_def)
    note re = stored_resealed [OF assms(5) es reseal_all_Inr [OF 4(3) assms(1,2) fill]]
    from run lock dis l 4 have "migrate_task ops env n es es' kc1 = (kc', r)"
      by (simp add: kc_migrate_cipher_def kc_bind_def kc_pure_def)
    from migrate_task_migrated [OF h1 assms(4) re(2,3) this] show ?thesis .
  qed (use run lock dis l assms(6) hl in \<open>auto simp: kc_migrate_cipher_def kc_bind_def kc_pure_def intro!: same\<close>)
qed

end

interpretation mem_atomic: atomic_backend memory_backend map_of mem_inv "\<lambda>_. False"
  by unfold_locales (simp add: memory_backend_def mem_put_many_def)

end
