(* ===== verification/Fs_Backend.thy ===== *)
theory Fs_Backend
  imports Fs_Store Keychain_Atomic
begin

section \<open>The filesystem keystore as a backend of the keychain\<close>

text \<open>
  The store satisfies the contract of a keychain backend for every sequence of faults and
  interruptions: a call that fails leaves the old entries or the new ones. The laws of the keychain therefore
  hold over this store too. The contents are what a complete recovery of the disk would show.
\<close>

text \<open>
  The job runs on a blocking thread; one that does not finish is reported as a backend error
  and leaves the disk as it was at that point.
\<close>

definition run_blocking :: "('a, ks_error) fio \<Rightarrow> (world, 'a) backend_op" where
  "run_blocking m w = (case m w of
     Done a w' \<Rightarrow> (w', Inr a)
   | Failed e w' \<Rightarrow> (w', Inl e)
   | Crashed d \<Rightarrow> (\<lparr>files = d, decisions = []\<rparr>, Inl (Backend ''task did not complete'')))"

definition fs_backend :: "fs_env \<Rightarrow> world backend_ops" where
  "fs_backend fe = \<lparr>be_put = \<lambda>e. run_blocking (fs_put fe e), be_put_many = \<lambda>es. run_blocking (fs_put_many fe es),
     be_get = \<lambda>l. run_blocking (fs_get fe l), be_list = run_blocking (fs_list fe),
     be_remove = \<lambda>l. run_blocking (fs_remove fe l)\<rparr>"

definition fs_contents :: "fs_env \<Rightarrow> world \<Rightarrow> label \<rightharpoonup> encrypted_entry" where
  "fs_contents fe w = decoded fe (recovered fe (files w))"

definition fs_inv :: "fs_env \<Rightarrow> world \<Rightarrow> bool" where
  "fs_inv fe w \<longleftrightarrow> rooted (files w) \<and> (\<exists>V. readable fe V \<and> recoverable fe V (files w))"

subsection \<open>Views of a batch\<close>

lemma decoded_upd:
  "decoded fe (V(l := None)) = (decoded fe V)(l := None)"
  "dec_entry fe b = Inr e \<Longrightarrow> decoded fe (V(l \<mapsto> RegularFile b)) = (decoded fe V)(l \<mapsto> e)"
  by (auto simp: decoded_def fun_eq_iff)

lemma readable_upd:
  "readable fe V \<Longrightarrow> readable fe (V(l := None))"
  "readable fe V \<Longrightarrow> validate_label l = Inr () \<Longrightarrow> l \<noteq> ''.tmp'' \<Longrightarrow> dec_entry fe b = Inr e \<Longrightarrow> md_label (metadata e) = l
     \<Longrightarrow> readable fe (V(l \<mapsto> RegularFile b))"
  unfolding readable_def by (auto simp: dom_fun_upd split: if_splits)

lemma new_view_insert: "new_view (bt_insert l b acc) V = (new_view acc V)(l \<mapsto> RegularFile b)"
  by (auto simp: new_view_def fun_eq_iff)

lemma batch_of_labels: "batch_of fe acc es = Some enc \<Longrightarrow> fst ` set acc \<subseteq> fst ` set enc"
proof (induction es arbitrary: acc)
  case (Cons e es)
  then obtain b where "batch_of fe (bt_insert (md_label (metadata e)) b acc) es = Some enc"
    by (auto split: sum.splits)
  from Cons.IH [OF this] show ?case by (simp add: subset_iff)
qed simp

lemma stored_Cons: "stored (e # es) m = stored es (m(md_label (metadata e) \<mapsto> e))"
  by (simp add: stored_def)

lemma stored_cases: "stored es m l = m l \<or> (\<exists>e \<in> set es. md_label (metadata e) = l \<and> stored es m l = Some e)"
proof (induction es arbitrary: m)
  case (Cons e es)
  define m' where "m' = m(md_label (metadata e) \<mapsto> e)"
  have "stored (e # es) m = stored es m'" by (simp add: stored_Cons m'_def)
  moreover have "m' l = m l \<or> md_label (metadata e) = l \<and> m' l = Some e" by (simp add: m'_def)
  ultimately show ?case using Cons.IH [of m'] by auto
qed (simp add: stored_def)

lemma batch_view:
  assumes "fs_env_law fe" "batch_of fe acc es = Some enc" "''.tmp'' \<notin> fst ` set enc" "readable fe (new_view acc V)"
  shows "readable fe (new_view enc V) \<and> decoded fe (new_view enc V) = stored es (decoded fe (new_view acc V))"
  using assms(2,3,4)
proof (induction es arbitrary: acc)
  case (Cons e es)
  let ?l = "md_label (metadata e)"
  from Cons.prems(1) have v: "validate_label ?l = Inr ()" by (cases "validate_label ?l") simp_all
  with Cons.prems(1) obtain b where b: "enc_entry fe e = Inr b" "batch_of fe (bt_insert ?l b acc) es = Some enc"
    by (cases "enc_entry fe e") simp_all
  from b(1) assms(1) have dec: "dec_entry fe b = Inr e" by (simp add: fs_env_law_def)
  have "?l \<in> fst ` set enc" using subsetD [OF batch_of_labels [OF b(2)], of ?l] by simp
  then have "?l \<noteq> ''.tmp''" by (rule contrapos_pn) (simp only: Cons.prems(2) not_False_eq_True)
  then have "readable fe (new_view (bt_insert ?l b acc) V)"
    unfolding new_view_insert by (intro readable_upd(2) [OF Cons.prems(3) v _ dec]) simp_all
  note IH = Cons.IH [OF b(2) Cons.prems(2) this]
  have "decoded fe (new_view (bt_insert ?l b acc) V) = (decoded fe (new_view acc V))(?l \<mapsto> e)"
    unfolding new_view_insert by (rule decoded_upd(2) [OF dec])
  with IH show ?case by (simp only: stored_Cons)
qed (simp add: stored_def)

lemma committable_view:
  assumes "fs_env_law fe" "committable fe es enc" "readable fe V"
  shows "readable fe (new_view enc V)" "decoded fe (new_view enc V) = stored es (decoded fe V)"
  using batch_view [OF assms(1), of "[]" es enc V] assms(2,3) by (simp_all add: committable_def)

subsection \<open>The contract\<close>

lemma fs_invD:
  assumes "fs_inv fe w"
  shows "rooted (files w)" "readable fe (recovered fe (files w))" "recoverable fe (recovered fe (files w)) (files w)"
  using assms by (auto simp: fs_inv_def dest: recoverable_unique)

lemma fs_invI: "rooted d \<Longrightarrow> readable fe V \<Longrightarrow> recoverable fe V d \<Longrightarrow> fs_inv fe \<lparr>files = d, decisions = ds\<rparr>"
  by (auto simp: fs_inv_def)

lemma run_blocking_law:
  assumes "cspec P m Q E C" "run_blocking m w = (w', r)" "P (files w)"
  shows "case r of Inr a \<Rightarrow> Q a (files w') | Inl e \<Rightarrow> E (files w') \<or> C (files w')"
proof (cases "m w")
  case (Done a v)
  with assms show ?thesis by (auto simp: run_blocking_def cspec_def dest: spec [of _ w])
next
  case (Failed e v)
  with assms show ?thesis by (auto simp: run_blocking_def cspec_def dest: spec [of _ w])
next
  case (Crashed d)
  with assms show ?thesis by (auto simp: run_blocking_def cspec_def dest: spec [of _ w])
qed

lemma fs_inv_contents:
  assumes "rooted (files w)" "readable fe V" "recoverable fe V (files w)"
  shows "fs_inv fe w" "fs_contents fe w = decoded fe V"
  using assms by (auto simp: fs_inv_def fs_contents_def dest: recoverable_unique)

lemma fs_put_many_law:
  assumes "fs_env_law fe" "fs_inv fe w" "run_blocking (fs_put_many fe es) w = (w', r)"
  shows "fs_inv fe w' \<and> (case r of
      Inl _ \<Rightarrow> fs_contents fe w' \<in> {fs_contents fe w, stored es (fs_contents fe w)}
    | Inr _ \<Rightarrow> fs_contents fe w' = stored es (fs_contents fe w))"
proof -
  let ?V = "recovered fe (files w)"
  note V = fs_invD [OF assms(2)]
  have new: "fs_inv fe w' \<and> fs_contents fe w' = stored es (fs_contents fe w)"
    if "rooted (files w')" "committable fe es enc" "recoverable fe (new_view enc ?V) (files w')" for enc
    using that fs_inv_contents [of w' fe] committable_view [OF assms(1) that(2) V(2)]
    by (simp add: fs_contents_def)
  have old: "fs_inv fe w' \<and> fs_contents fe w' = fs_contents fe w"
    if "rooted (files w')" "recoverable fe ?V (files w')"
    using that fs_inv_contents [of w' fe] V(2) by (simp add: fs_contents_def)
  show ?thesis
    using run_blocking_law [OF fs_put_many_spec [OF assms(1), where V = ?V] assms(3)] V new old
    by (cases r) (auto simp: old_or_new_def)
qed

lemma fs_keystore_backend:
  assumes "fs_env_law fe"
  shows "keystore_backend (fs_backend fe) (fs_contents fe) (fs_inv fe) (\<lambda>_. True)"
proof (unfold_locales, goal_cases)
  case (1 b l b' r)
  note V = fs_invD [OF 1(1)]
  show ?case
    using run_blocking_law [OF fs_get_spec [OF V(2), where l = l], where w = b and w' = b' and r = r] 1(2) V fs_inv_contents [of b' fe]
    by (cases r) (auto simp: fs_backend_def fs_contents_def)
next
  case (2 b b' r)
  note V = fs_invD [OF 2(1)]
  show ?case
    using run_blocking_law [OF fs_list_spec [OF assms V(2)], where w = b and w' = b' and r = r] 2(2) V fs_inv_contents [of b' fe]
    by (cases r) (auto simp: fs_backend_def fs_contents_def listing_def)
next
  case (3 b e b' r)
  then show ?case using fs_put_many_law [OF assms, of b "[e]" b' r] by (cases r) (auto simp: fs_backend_def fs_put_def)
next
  case (4 b es b' r)
  then have law: "fs_inv fe b'" "case r of
      Inl _ \<Rightarrow> fs_contents fe b' \<in> {fs_contents fe b, stored es (fs_contents fe b)}
    | Inr _ \<Rightarrow> fs_contents fe b' = stored es (fs_contents fe b)"
    using fs_put_many_law [OF assms, of b es b' r] by (simp_all add: fs_backend_def)
  show ?case
  proof (cases r)
    case (Inl e)
    have "\<forall>l. stored es (fs_contents fe b) l = fs_contents fe b l
        \<or> (\<exists>e \<in> set es. md_label (metadata e) = l \<and> stored es (fs_contents fe b) l = Some e)"
      by (simp only: stored_cases simp_thms)
    with law Inl show ?thesis by auto
  qed (use law in simp)
next
  case (5 b l b' r)
  note V = fs_invD [OF 5(1)]
  let ?V = "recovered fe (files b)"
  have gone: "fs_inv fe b' \<and> fs_contents fe b' = (fs_contents fe b)(l := None)"
    if "rooted (files b')" "recoverable fe (?V(l := None)) (files b')"
    using fs_inv_contents [OF that(1) readable_upd(1) [OF V(2)] that(2)] by (simp add: fs_contents_def decoded_upd)
  have kept: "fs_inv fe b' \<and> fs_contents fe b' = fs_contents fe b"
    if "rooted (files b')" "recoverable fe ?V (files b')"
    using fs_inv_contents [OF that(1) V(2) that(2)] by (simp add: fs_contents_def)
  have "case r of Inr a \<Rightarrow> a = (decoded fe ?V l \<noteq> None) \<and> recoverable fe (?V(l := None)) (files b') \<and> rooted (files b')
     | Inl e \<Rightarrow> (recoverable fe ?V (files b') \<or> recoverable fe (?V(l := None)) (files b')) \<and> rooted (files b')"
    using run_blocking_law [OF fs_remove_spec [OF V(2), where l = l], where w = b and w' = b' and r = r] 5(2) V
    by (cases r) (simp_all add: fs_backend_def)
  with gone kept show ?case by (cases r) (auto simp: fs_contents_def)
next
  case (6 b l e)
  then show ?case using decoded_label [OF fs_invD(2) [OF 6(1)]] by (simp add: fs_contents_def)
qed

lemma fs_atomic_backend:
  assumes "fs_env_law fe"
  shows "atomic_backend (fs_backend fe) (fs_contents fe) (fs_inv fe) (\<lambda>_. True)"
proof (rule atomic_backend.intro [OF fs_keystore_backend [OF assms]], unfold_locales)
  fix b es b' err assume "fs_inv fe b" "be_put_many (fs_backend fe) es b = (b', Inl err)"
  then show "fs_contents fe b' = fs_contents fe b \<or> fs_contents fe b' = stored es (fs_contents fe b)"
    using fs_put_many_law [OF assms, of b es b' "Inl err"] by (simp add: fs_backend_def)
qed

end
