(* ===== verification/Fs_Properties.thy ===== *)
theory Fs_Properties
  imports Fs_Backend
begin

section \<open>What the filesystem keystore guarantees\<close>

text \<open>
  The properties of the store over every sequence of faults and every crash point, and their
  instances on a concrete disk.
\<close>

text \<open>
  A disk shows the entries \<open>m\<close>: whatever faults happen later, a read that returns gives the entry of \<open>m\<close>, and a
  listing that returns names every entry of \<open>m\<close> once.
\<close>

definition shows_entries :: "fs_env \<Rightarrow> (label \<rightharpoonup> encrypted_entry) \<Rightarrow> disk \<Rightarrow> bool" where
  "shows_entries fe m d \<longleftrightarrow>
     (\<forall>l ds got w. fs_get fe l \<lparr>files = d, decisions = ds\<rparr> = Done got w \<longrightarrow> got = m l)
   \<and> (\<forall>ds ms w. fs_list fe \<lparr>files = d, decisions = ds\<rparr> = Done ms w \<longrightarrow>
        distinct (map md_label ms) \<and> set ms = metadata ` ran m)"

lemma shows_entriesI:
  assumes "fs_env_law fe" "rooted d" "readable fe V" "recoverable fe V d"
  shows "shows_entries fe (decoded fe V) d"
  unfolding shows_entries_def
proof (intro conjI allI impI)
  fix l ds got w assume run: "fs_get fe l \<lparr>files = d, decisions = ds\<rparr> = Done got w"
  show "got = decoded fe V l"
    using cspecD(1) [OF fs_get_spec [OF assms(3)] _ run] assms(2,4) by simp
next
  fix ds ms w assume run: "fs_list fe \<lparr>files = d, decisions = ds\<rparr> = Done ms w"
  have "listing fe V ms"
    using cspecD(1) [OF fs_list_spec [OF assms(1,3)] _ run] assms(2,4) by simp
  then show "distinct (map md_label ms)" "set ms = metadata ` ran (decoded fe V)" by (simp_all add: listing_def)
qed

lemma put_many_outcome:
  assumes fe: "fs_env_law fe" and inv: "fs_inv fe w"
  shows "case fs_put_many fe es w of
      Done u w' \<Rightarrow> \<exists>V. readable fe V \<and> recoverable fe V (files w') \<and> rooted (files w')
        \<and> decoded fe V = stored es (fs_contents fe w)
    | Failed e w' \<Rightarrow> \<exists>V. readable fe V \<and> recoverable fe V (files w') \<and> rooted (files w')
        \<and> decoded fe V \<in> {fs_contents fe w, stored es (fs_contents fe w)}
    | Crashed d \<Rightarrow> \<exists>V. readable fe V \<and> recoverable fe V d \<and> rooted d
        \<and> decoded fe V \<in> {fs_contents fe w, stored es (fs_contents fe w)}"
proof -
  let ?V = "recovered fe (files w)"
  note V = fs_invD [OF inv]
  have new: "\<exists>W. readable fe W \<and> recoverable fe W d \<and> rooted d \<and> decoded fe W = stored es (fs_contents fe w)"
    if "rooted d" "committable fe es enc" "recoverable fe (new_view enc ?V) d" for enc d
    using that committable_view [OF fe that(2) V(2)] by (auto simp: fs_contents_def)
  have either: "\<exists>W. readable fe W \<and> recoverable fe W d \<and> rooted d
        \<and> decoded fe W \<in> {fs_contents fe w, stored es (fs_contents fe w)}"
    if "rooted d" "old_or_new fe es ?V d" for d
    using that(2) new [OF that(1)] that(1) V(2) unfolding old_or_new_def by (auto simp: fs_contents_def)
  note spec = fs_put_many_spec [OF fe, where V = ?V and es = es]
  show ?thesis
  proof (cases "fs_put_many fe es w")
    case (Done u w')
    with cspecD(1) [OF spec _ Done] V obtain enc where
      "rooted (files w')" "committable fe es enc" "recoverable fe (new_view enc ?V) (files w')" by auto
    from new [OF this] Done show ?thesis by simp
  next
    case (Failed e w')
    with cspecD(2) [OF spec _ Failed] V have "rooted (files w')" "old_or_new fe es ?V (files w')" by auto
    from either [OF this] Failed show ?thesis by simp
  next
    case (Crashed d)
    with cspecD(3) [OF spec _ Crashed] V have "rooted d" "old_or_new fe es ?V d" by auto
    from either [OF this] Crashed show ?thesis by simp
  qed
qed

text \<open>
  C4: a batch is all or nothing. For every sequence of I/O faults and every crash point, a batch
  that returns success leaves a disk that shows the new entries; one that fails or dies leaves a
  disk that shows the old entries or the new ones, never a mixture.
\<close>

theorem fs_batch_atomic:
  assumes "fs_env_law fe" "fs_inv fe w"
  shows "case fs_put_many fe es w of
      Done u w' \<Rightarrow> shows_entries fe (stored es (fs_contents fe w)) (files w')
    | Failed e w' \<Rightarrow> shows_entries fe (fs_contents fe w) (files w')
        \<or> shows_entries fe (stored es (fs_contents fe w)) (files w')
    | Crashed d \<Rightarrow> shows_entries fe (fs_contents fe w) d
        \<or> shows_entries fe (stored es (fs_contents fe w)) d"
proof (cases "fs_put_many fe es w")
  case (Done u w')
  with put_many_outcome [OF assms, of es] show ?thesis by (auto dest: shows_entriesI [OF assms(1)])
next
  case (Failed e w')
  with put_many_outcome [OF assms, of es] show ?thesis by (auto dest: shows_entriesI [OF assms(1)])
next
  case (Crashed d)
  with put_many_outcome [OF assms, of es] show ?thesis by (auto dest: shows_entriesI [OF assms(1)])
qed

text \<open>Recoveries that fail or die, one after the other.\<close>

inductive interrupted :: "fs_env \<Rightarrow> disk \<Rightarrow> disk \<Rightarrow> bool" for fe d where
  none: "interrupted fe d d"
| failed: "interrupted fe d d1 \<Longrightarrow> recover fe \<lparr>files = d1, decisions = ds\<rparr> = Failed e w \<Longrightarrow> interrupted fe d (files w)"
| died: "interrupted fe d d1 \<Longrightarrow> recover fe \<lparr>files = d1, decisions = ds\<rparr> = Crashed d2 \<Longrightarrow> interrupted fe d d2"

lemma interrupted_recoverable: "interrupted fe d d' \<Longrightarrow> recoverable fe V d \<Longrightarrow> recoverable fe V d'"
proof (induction rule: interrupted.induct)
  case (failed d1 ds e w)
  from cspecD(2) [OF recover_spec _ failed(2)] failed(3,4) show ?case by simp
next
  case (died d1 ds d2)
  from cspecD(3) [OF recover_spec _ died(2)] died(3,4) show ?case by simp
qed

text \<open>
  C8: recovery can be restarted. After a batch that died anywhere, and any number of recoveries that failed
  or died themselves, the first recovery that completes leaves in the directory exactly the old
  entries or exactly the new ones, with no journal and no commit record.
\<close>

theorem fs_recovery_restartable:
  assumes "fs_env_law fe" "fs_inv fe w" "fs_put_many fe es w = Crashed d" "interrupted fe d d'"
    and "recover fe \<lparr>files = d', decisions = ds\<rparr> = Done u w'"
  shows "decoded fe (entries (files w')) \<in> {fs_contents fe w, stored es (fs_contents fe w)}
    \<and> files w' JOURNAL = None \<and> files w' COMMITTED = None"
proof -
  from put_many_outcome [OF assms(1,2), of es] assms(3) obtain V where
    V: "recoverable fe V d" "decoded fe V \<in> {fs_contents fe w, stored es (fs_contents fe w)}" by auto
  from cspecD(1) [OF recover_spec _ assms(5)] interrupted_recoverable [OF assms(4) V(1)]
  have "settled V (files w') \<and> files w' COMMITTED = None" by simp
  with V(2) show ?thesis by (simp add: settled_def)
qed

text \<open>
  C9: an interrupted change of the cipher loses no key. Over the filesystem keystore, whatever faults and
  interruptions a migration meets, its entries still open under the old cipher with the keys they
  had, or every entry opens under the new cipher to the same keys.
\<close>

theorem fs_migration_keeps_keys:
  fixes env :: "('kp, world) kc_env" and idn :: "('kp, 'pk) identity"
  assumes "fs_env_law fe" "identity_law idn" "cipher_ok n" "\<And>i. fill_bytes_law (rng env i)" "task_stop env = None"
    and "fs_inv fe (backend kc)" "cipher_slot kc = Some c" "all_open idn c (fs_contents fe (backend kc))"
    and "kc_migrate_cipher (fs_backend fe) idn env n kc = (kc', r)"
  shows "fs_inv fe (backend kc') \<and> (\<exists>k \<in> {c, n}. all_open idn k (fs_contents fe (backend kc'))
     \<and> vault idn k (fs_contents fe (backend kc')) = vault idn c (fs_contents fe (backend kc)))"
proof -
  note B = fs_keystore_backend [OF assms(1)] and A = fs_atomic_backend [OF assms(1)]
  have ok: "keystore_backend.env_ok (fs_inv fe) env"
    using assms(4,5) by (simp add: keystore_backend.env_ok_def [OF B])
  have h: "keystore_backend.holds (fs_contents fe) (fs_inv fe) c (fs_contents fe (backend kc)) (disabled kc) kc"
    using assms(6,7) by (simp add: keystore_backend.holds_def [OF B])
  from atomic_backend.migrate_migrated [OF A assms(2,3) ok assms(5,8) h assms(9)] assms(8)
  show ?thesis by (auto simp: atomic_backend.migrated_def [OF A])
qed

end
