(* ===== verification/Fs_Examples.thy ===== *)
theory Fs_Examples
  imports Fs_Properties
begin

section \<open>Instances of the filesystem properties\<close>

text \<open>A codec for one entry and the journals its batches need, and runs from an empty disk.\<close>

definition fs_example_entry :: encrypted_entry where
  "fs_example_entry = \<lparr>metadata = new_metadata example_identity (example_kc_env 10 None) ''a'' 1 Never 1, ciphertext = [1]\<rparr>"

definition fs_example_fresh :: journal where
  "fs_example_fresh = \<lparr>journal_version = 1, originals = [(''a'', None)]\<rparr>"

definition fs_example_again :: journal where
  "fs_example_again = \<lparr>journal_version = 1, originals = [(''a'', Some [7])]\<rparr>"

definition fs_example :: fs_env where
  "fs_example = \<lparr>enc_entry = (\<lambda>e. if e = fs_example_entry then Inr [7] else Inl ''unsupported''),
     dec_entry = (\<lambda>b. if b = [7] then Inr fs_example_entry else Inl ''malformed''),
     enc_journal = (\<lambda>j. if j = fs_example_fresh then Inr [8] else if j = fs_example_again then Inr [9] else Inl ''unsupported''),
     dec_journal = (\<lambda>b. if b = [8] then Inr fs_example_fresh else if b = [9] then Inr fs_example_again else Inl ''malformed''),
     dir_order = (\<lambda>d. sorted_list_of_set {l. d (entry_file l) \<noteq> None}),
     io_text = (\<lambda>e. ''io''), error_text = (\<lambda>e. ''error'')\<rparr>"

definition fs_example_world :: "decision list \<Rightarrow> world" where
  "fs_example_world ds = \<lparr>files = Map.empty, decisions = ds\<rparr>"

lemma fs_example_law: "fs_env_law fs_example"
  by (auto simp: fs_env_law_def fs_example_def fs_example_fresh_def fs_example_again_def split: if_splits)

lemma fs_example_inv: "fs_inv fs_example (fs_example_world ds)" "fs_contents fs_example (fs_example_world ds) = Map.empty"
proof -
  have "rooted (files (fs_example_world ds))" by (simp add: rooted_def fs_example_world_def)
  moreover have "readable fs_example Map.empty" by (simp add: readable_def)
  moreover have "recoverable fs_example Map.empty (files (fs_example_world ds))"
    by (simp add: recoverable_def settled_def entries_def fs_example_world_def fun_eq_iff)
  ultimately show "fs_inv fs_example (fs_example_world ds)" "fs_contents fs_example (fs_example_world ds) = Map.empty"
    using fs_inv_contents [of "fs_example_world ds" fs_example Map.empty] by (simp_all add: decoded_def fun_eq_iff)
qed

lemma fs_example_label: "md_label (metadata fs_example_entry) = ''a''" "validate_label ''a'' = Inr ()"
  by (simp_all add: fs_example_entry_def new_metadata_def validate_label_def)

lemmas fs_eval = fs_put_many_def access_def fs_lock_def recover_def commit_batch_def prepare_def apply_batch_def
  finish_batch_def rollback_journal_def cleanup_def create_dir.simps fio_bind_def fio_catch_def fio_return_def fio_error_def map_err_def
  backend_io_def backend_other_def io_other_def fio_pure_def prim_def quiet_def try_exists_def is_dir_def fs_read_def
  not_regular_file_def sync_dir_def make_dir_def write_new_def rename_file_def unlink_def remove_file_def remove_staging_dir_def
  open_lock_def lock_file_def entry_file_def entry_path_def rollback_error_def

lemma fs_example_put:
  "\<exists>w. fs_put_many fs_example [fs_example_entry] (fs_example_world []) = Done () w"
  by (simp add: fs_eval fs_example_label fs_example_world_def fs_example_def fs_example_fresh_def fs_example_again_def)

theorem fs_batch_atomic_witness:
  "\<exists>w. fs_put_many fs_example [fs_example_entry] (fs_example_world []) = Done () w
     \<and> shows_entries fs_example (stored [fs_example_entry] Map.empty) (files w)"
  using fs_batch_atomic [OF fs_example_law fs_example_inv(1) [of "[]"], of "[fs_example_entry]"] fs_example_put
  by (auto simp: fs_example_inv(2))

text \<open>The process dies just before the commit record, with the new entry already in place.\<close>

definition fs_example_crash :: "decision list" where
  "fs_example_crash = replicate 30 Succeed @ [Crash \<lparr>torn_bytes = None, torn_kept = \<lambda>_. True\<rparr>]"

lemma fs_example_died:
  "\<exists>d. fs_put_many fs_example [fs_example_entry] (fs_example_world fs_example_crash) = Crashed d
     \<and> d JOURNAL = Some (RegularFile [8]) \<and> d (Entry ''a'') = Some (RegularFile [7])
     \<and> (\<exists>w. recover fs_example \<lparr>files = d, decisions = []\<rparr> = Done () w \<and> files w (Entry ''a'') = None)"
  by (simp add: fs_eval fs_example_crash_def numeral_eq_Suc fs_example_label fs_example_world_def fs_example_def
      fs_example_fresh_def fs_example_again_def)

theorem fs_recovery_restartable_witness:
  "\<exists>d w. fs_put_many fs_example [fs_example_entry] (fs_example_world fs_example_crash) = Crashed d
     \<and> recover fs_example \<lparr>files = d, decisions = []\<rparr> = Done () w
     \<and> decoded fs_example (entries (files w)) \<in> {Map.empty, stored [fs_example_entry] Map.empty}"
proof -
  from fs_example_died obtain d w where run:
    "fs_put_many fs_example [fs_example_entry] (fs_example_world fs_example_crash) = Crashed d"
    "recover fs_example \<lparr>files = d, decisions = []\<rparr> = Done () w" by blast
  from fs_recovery_restartable [OF fs_example_law fs_example_inv(1) run(1) interrupted.none run(2)] run
  show ?thesis by (auto simp: fs_example_inv(2))
qed

definition fs_example_keychain :: "world keychain" where
  "fs_example_keychain = \<lparr>cipher_slot = Some plaintext_cipher,
     backend = (case fs_put_many fs_example [fs_example_entry] (fs_example_world []) of Done u w \<Rightarrow> w
       | _ \<Rightarrow> fs_example_world []), disabled = False\<rparr>"

definition fs_example_kc_env :: "(u8, world) kc_env" where
  "fs_example_kc_env = \<lparr>sys_time = 20, rng = (\<lambda>i n. replicate n (word_of_nat i)), generated = (\<lambda>_. 42),
     feature_ed25519 = True, feature_secp256k1 = False, feature_ecdsa = False, task_stop = None\<rparr>"

theorem fs_migration_keeps_keys_witness:
  "\<exists>k \<in> {plaintext_cipher}. all_open example_identity k (fs_contents fs_example (backend (fst
     (kc_migrate_cipher (fs_backend fs_example) example_identity fs_example_kc_env plaintext_cipher fs_example_keychain))))"
proof -
  have c: "fs_inv fs_example (backend fs_example_keychain)"
    "fs_contents fs_example (backend fs_example_keychain) = [''a'' \<mapsto> fs_example_entry]"
  proof -
    obtain w where w: "fs_put_many fs_example [fs_example_entry] (fs_example_world []) = Done () w"
      using fs_example_put by blast
    then have "run_blocking (fs_put_many fs_example [fs_example_entry]) (fs_example_world []) = (w, Inr ())"
      by (simp add: run_blocking_def)
    from fs_put_many_law [OF fs_example_law fs_example_inv(1) this] w
    show "fs_inv fs_example (backend fs_example_keychain)"
      "fs_contents fs_example (backend fs_example_keychain) = [''a'' \<mapsto> fs_example_entry]"
      by (simp_all add: fs_example_keychain_def fs_example_inv(2) stored_def fs_example_label)
  qed
  have "open_entry example_identity plaintext_cipher ''a'' fs_example_entry
      = Inr \<lparr>opened_keypair = 1, opened_metadata = metadata fs_example_entry\<rparr>"
    by (simp add: fs_example_entry_def keychain_eval new_metadata_def Let_def)
  then have ao: "all_open example_identity plaintext_cipher (fs_contents fs_example (backend fs_example_keychain))"
    by (auto simp: c(2) all_open_def fs_example_label)
  have fill: "fill_bytes_law (rng fs_example_kc_env i)" for i
    by (simp add: fs_example_kc_env_def fill_bytes_law_def)
  have slot: "cipher_slot fs_example_keychain = Some plaintext_cipher" by (simp add: fs_example_keychain_def)
  have stop: "task_stop fs_example_kc_env = None" by (simp add: fs_example_kc_env_def)
  from fs_migration_keeps_keys [OF fs_example_law example_identity_law plaintext_cipher_ok fill stop c(1) slot ao prod.collapse [symmetric]]
  show ?thesis by auto
qed

end
