(* ===== verification/Connexa_Error.thy ===== *)
theory Connexa_Error
  imports Keystore_Metadata
begin

section \<open>Errors (\<^verbatim>\<open>src/src/error.rs\<close> and \<^verbatim>\<open>src/src/error/\<close>)\<close>

text \<open>
  The error type that every answer of the background task carries, and its conversion into an I/O error.
  Errors of other crates are opaque texts. The keystore model carries an I/O error of a backend as text;
  which I/O error that is, is a parameter of the conversion.
\<close>

datatype io_kind = NotFoundKind | AlreadyExistsKind | NotConnectedKind | TimedOutKind | InvalidInputKind
  | InvalidDataKind | UnexpectedEofKind | BrokenPipeKind | OtherKind

datatype protocol_name = Gossipsub | Floodsub | Kademlia | Rendezvous | RequestResponse | Autonat | Relay
  | Autorelay | StreamProtocolName | OtherProtocol string

datatype dht_error = NoKnownPeers string | StoreError string | GetRecordError string | PutRecordError string
  | GetProvidersError string | AddProviderError string

datatype routing_op = AddAddressOp | RemoveAddressOp | RemovePeerOp

datatype gossipsub_error = GsAlreadySubscribed string | GsNotSubscribed string | GsSubscription string | GsPublish string

datatype floodsub_error = FsAlreadySubscribed string | FsNotSubscribed string

datatype error_code = CodeInvalidNamespace | CodeInvalidSignedPeerRecord | CodeInvalidTtl | CodeInvalidCookie
  | CodeNotAuthorized | CodeInternalError | CodeUnavailable

datatype rendezvous_error = InvalidNamespace | InvalidSignedPeerRecord | InvalidTtl | InvalidCookie
  | NotAuthorized | InternalError | Unavailable

datatype connexa_error = ErrChannelClosed | ErrDisabled protocol_name | ErrNotFound string | ErrAlreadyExists string
  | ErrNotConnected peer_id | ErrInvalidConfig string | ErrTimeout | ErrDht dht_error | ErrRouting routing_op
  | ErrGossipsub gossipsub_error | ErrFloodsub floodsub_error | ErrDial string | ErrRendezvous rendezvous_error
  | ErrRequestResponse string | ErrKeystore ks_error | ErrCustom string | ErrIo io_err | ErrKeychainNotProvided
  and io_err = IoErr io_kind io_payload
  and io_payload = NoPayload | Message string | Wrapped connexa_error

type_synonym 'a connexa_result = "('a, connexa_error) result"

fun display_protocol :: "protocol_name \<Rightarrow> string" where
  "display_protocol Gossipsub = ''gossipsub''"
| "display_protocol Floodsub = ''floodsub''"
| "display_protocol Kademlia = ''kad''"
| "display_protocol Rendezvous = ''rendezvous''"
| "display_protocol RequestResponse = ''request-response''"
| "display_protocol Autonat = ''autonat''"
| "display_protocol StreamProtocolName = ''stream''"
| "display_protocol Relay = ''relay''"
| "display_protocol Autorelay = ''autorelay''"
| "display_protocol (OtherProtocol s) = s"

fun display_rendezvous_error :: "rendezvous_error \<Rightarrow> string" where
  "display_rendezvous_error InvalidNamespace = ''Invalid namespace''"
| "display_rendezvous_error InvalidSignedPeerRecord = ''Invalid signed peer record''"
| "display_rendezvous_error InvalidTtl = ''Invalid ttl''"
| "display_rendezvous_error InvalidCookie = ''Invalid cookie''"
| "display_rendezvous_error NotAuthorized = ''Not authorized''"
| "display_rendezvous_error InternalError = ''Internal error''"
| "display_rendezvous_error Unavailable = ''Unavailable''"

fun from_error_code :: "error_code \<Rightarrow> rendezvous_error" where
  "from_error_code CodeInvalidNamespace = InvalidNamespace"
| "from_error_code CodeInvalidSignedPeerRecord = InvalidSignedPeerRecord"
| "from_error_code CodeInvalidTtl = InvalidTtl"
| "from_error_code CodeInvalidCookie = InvalidCookie"
| "from_error_code CodeNotAuthorized = NotAuthorized"
| "from_error_code CodeInternalError = InternalError"
| "from_error_code CodeUnavailable = Unavailable"

text \<open>The inner match of the conversion, with its unreachable branch as None.\<close>

fun error_kind :: "connexa_error \<Rightarrow> io_kind option" where
  "error_kind (ErrNotFound s) = Some NotFoundKind"
| "error_kind (ErrAlreadyExists s) = Some AlreadyExistsKind"
| "error_kind (ErrNotConnected p) = Some NotConnectedKind"
| "error_kind ErrTimeout = Some TimedOutKind"
| "error_kind (ErrInvalidConfig s) = Some InvalidInputKind"
| "error_kind ErrChannelClosed = Some BrokenPipeKind"
| "error_kind (ErrIo e) = None"
| "error_kind other = Some OtherKind"

definition into_io_error :: "(string \<Rightarrow> io_err) \<Rightarrow> connexa_error \<Rightarrow> io_err option" where
  "into_io_error backend_error err = (case err of
     ErrIo e \<Rightarrow> Some e
   | ErrKeystore (Backend e) \<Rightarrow> Some (backend_error e)
   | other \<Rightarrow> (case error_kind other of None \<Rightarrow> None | Some kind \<Rightarrow> Some (IoErr kind (Wrapped other))))"

text \<open>
  The conversion of an error into an I/O error never reaches its unreachable branch: it gives back
  the I/O error an \<^verbatim>\<open>Io\<close> or a backend error carries, and wraps every other error, so that the
  error can be recovered from the result.
\<close>

theorem into_io_error_total:
  "\<exists>e. into_io_error backend_error err = Some e \<and>
     (case err of ErrIo e' \<Rightarrow> e = e' | ErrKeystore (Backend t) \<Rightarrow> e = backend_error t
      | _ \<Rightarrow> \<exists>kind. e = IoErr kind (Wrapped err) \<and> error_kind err = Some kind)"
  by (cases err) (auto simp: into_io_error_def split: ks_error.split)

end
