(* ===== verification/Request_Codec.thy ===== *)
theory Request_Codec
  imports Connexa_Error
begin

section \<open>The request-response codec (\<^verbatim>\<open>src/src/behaviour/request_response/codec.rs\<close>)\<close>

text \<open>
  A message is the whole content of a stream in one direction. An incoming stream is the bytes it delivers and
  how it ends, an outgoing stream the bytes accepted and the point where it breaks. Sizes are 64-bit
  words, and the read limit \<^verbatim>\<open>max as u64 + 1\<close> wraps as in a build without overflow checks.
\<close>

record codec =
  max_request_size :: u64
  max_response_size :: u64

definition codec_new :: "u64 \<Rightarrow> u64 \<Rightarrow> codec" where
  "codec_new req res = \<lparr>max_request_size = req, max_response_size = res\<rparr>"

record in_stream =
  incoming :: bytes
  ending :: "io_err option"

record out_stream =
  sent :: bytes
  breaks :: "(nat \<times> io_err) option"

definition read_limited :: "u64 \<Rightarrow> in_stream \<Rightarrow> (bytes, io_err) result" where
  "read_limited limit io =
     (if unat limit \<le> length (incoming io) then Inr (take (unat limit) (incoming io))
      else case ending io of Some e \<Rightarrow> Inl e | None \<Rightarrow> Inr (incoming io))"

definition write_all :: "bytes \<Rightarrow> out_stream \<Rightarrow> out_stream \<times> (unit, io_err) result" where
  "write_all bs io = (case breaks io of
     None \<Rightarrow> (io\<lparr>sent := sent io @ bs\<rparr>, Inr ())
   | Some (n, e) \<Rightarrow>
       if n < length bs then (io\<lparr>sent := sent io @ take n bs, breaks := Some (0, e)\<rparr>, Inl e)
       else (io\<lparr>sent := sent io @ bs, breaks := Some (n - length bs, e)\<rparr>, Inr ()))"

definition read_request :: "codec \<Rightarrow> in_stream \<Rightarrow> (bytes, io_err) result" where
  "read_request c io =
     (let max = max_request_size c in
      try_res (read_limited (max + 1) io) (\<lambda>buffer.
      if buffer = [] then Inl (IoErr UnexpectedEofKind (Message ''request is empty''))
      else if length buffer > unat max then Inl (IoErr InvalidDataKind (Message ''request exceeds max size''))
      else Inr buffer))"

definition read_response :: "codec \<Rightarrow> in_stream \<Rightarrow> (bytes, io_err) result" where
  "read_response c io =
     (let max = max_response_size c in
      try_res (read_limited (max + 1) io) (\<lambda>buffer.
      if buffer = [] then Inl (IoErr UnexpectedEofKind (Message ''response is empty''))
      else if length buffer > unat max then Inl (IoErr InvalidDataKind (Message ''response exceeds max size''))
      else Inr buffer))"

definition write_request :: "codec \<Rightarrow> bytes \<Rightarrow> out_stream \<Rightarrow> out_stream \<times> (unit, io_err) result" where
  "write_request c req io =
     (if req = [] then (io, Inl (IoErr InvalidInputKind (Message ''request is empty'')))
      else if length req > unat (max_request_size c)
      then (io, Inl (IoErr InvalidInputKind (Message ''request exceeds max size'')))
      else write_all req io)"

definition write_response :: "codec \<Rightarrow> bytes \<Rightarrow> out_stream \<Rightarrow> out_stream \<times> (unit, io_err) result" where
  "write_response c res io =
     (if res = [] then (io, Inl (IoErr InvalidInputKind (Message ''response is empty'')))
      else if length res > unat (max_response_size c)
      then (io, Inl (IoErr InvalidInputKind (Message ''response exceeds max size'')))
      else write_all res io)"

subsection \<open>Properties\<close>

lemma unat_max_plus_1: "m \<noteq> - 1 \<Longrightarrow> unat (m + 1 :: u64) = Suc (unat m)"
  using unatSuc [of m] by (metis add.commute eq_neg_iff_add_eq_0)

lemma checked_read:
  assumes "m \<noteq> - 1"
  shows "try_res (read_limited (m + 1) io) (\<lambda>buffer. if buffer = [] then Inl e1
       else if length buffer > unat m then Inl e2 else Inr buffer) = Inr b
     \<longleftrightarrow> incoming io = b \<and> ending io = None \<and> b \<noteq> [] \<and> length b \<le> unat m"
  using unat_max_plus_1 [OF assms]
  by (auto simp: read_limited_def not_less split: option.splits if_splits)

lemma write_all_ok: "write_all bs io = (io', Inr ()) \<Longrightarrow> sent io' = sent io @ bs"
  by (auto simp: write_all_def split: option.splits if_splits)

text \<open>
  C35: reading accepts exactly the complete, non-empty messages within the configured maximum, for
  every maximum below the largest word: a stream that breaks, is empty or is longer by even one byte is rejected, and
  nothing is accepted truncated.
\<close>

theorem codec_read_exact:
  assumes "max_request_size c \<noteq> - 1" "max_response_size c \<noteq> - 1"
  shows "(read_request c io = Inr b \<longleftrightarrow>
      incoming io = b \<and> ending io = None \<and> b \<noteq> [] \<and> length b \<le> unat (max_request_size c))
    \<and> (read_response c io = Inr b \<longleftrightarrow>
      incoming io = b \<and> ending io = None \<and> b \<noteq> [] \<and> length b \<le> unat (max_response_size c))"
  unfolding read_request_def read_response_def Let_def using checked_read [OF assms(1)] checked_read [OF assms(2)] by simp

definition example_codec :: codec where
  "example_codec = codec_new 4 2"

theorem codec_read_exact_witness:
  "read_request example_codec \<lparr>incoming = [1, 2, 3, 4], ending = None\<rparr> = Inr [1, 2, 3, 4]
   \<and> read_response example_codec \<lparr>incoming = [1, 2], ending = None\<rparr> = Inr [1, 2]"
proof -
  have c: "max_request_size example_codec \<noteq> - 1" "max_response_size example_codec \<noteq> - 1"
    by (simp_all add: example_codec_def codec_new_def)
  show ?thesis
    using codec_read_exact [OF c, of "\<lparr>incoming = [1, 2, 3, 4], ending = None\<rparr>" "[1, 2, 3, 4]"]
      codec_read_exact [OF c, of "\<lparr>incoming = [1, 2], ending = None\<rparr>" "[1, 2]"]
    by (simp add: example_codec_def codec_new_def)
qed

text \<open>
  What one side writes successfully the other side reads back: a request or a response accepted by
  the writer, delivered completely, is returned unchanged by a reader with the same limits, for limits
  below the largest word.
\<close>

theorem codec_round_trip:
  assumes "max_request_size c \<noteq> - 1" "max_response_size c \<noteq> - 1"
  shows "(write_request c m io = (io', Inr ()) \<longrightarrow> sent io' = sent io @ m
        \<and> read_request c \<lparr>incoming = drop (length (sent io)) (sent io'), ending = None\<rparr> = Inr m)
    \<and> (write_response c m io = (io', Inr ()) \<longrightarrow> sent io' = sent io @ m
        \<and> read_response c \<lparr>incoming = drop (length (sent io)) (sent io'), ending = None\<rparr> = Inr m)"
proof -
  have "read_request c \<lparr>incoming = m, ending = None\<rparr> = Inr m" "sent io' = sent io @ m"
    if "write_request c m io = (io', Inr ())"
    using that checked_read [OF assms(1)]
    by (auto simp: write_request_def read_request_def Let_def dest: write_all_ok split: if_splits)
  moreover have "read_response c \<lparr>incoming = m, ending = None\<rparr> = Inr m" "sent io' = sent io @ m"
    if "write_response c m io = (io', Inr ())"
    using that checked_read [OF assms(2)]
    by (auto simp: write_response_def read_response_def Let_def dest: write_all_ok split: if_splits)
  ultimately show ?thesis by simp
qed

theorem codec_round_trip_witness:
  "write_request example_codec [7, 8] \<lparr>sent = [], breaks = None\<rparr> = (\<lparr>sent = [7, 8], breaks = None\<rparr>, Inr ())
   \<and> read_request example_codec \<lparr>incoming = [7, 8], ending = None\<rparr> = Inr [7, 8]"
proof -
  have c: "max_request_size example_codec \<noteq> - 1" "max_response_size example_codec \<noteq> - 1"
    by (simp_all add: example_codec_def codec_new_def)
  have w: "write_request example_codec [7, 8] \<lparr>sent = [], breaks = None\<rparr> = (\<lparr>sent = [7, 8], breaks = None\<rparr>, Inr ())"
    by (simp add: write_request_def write_all_def example_codec_def codec_new_def)
  with codec_round_trip [OF c, of "[7, 8]" "\<lparr>sent = [], breaks = None\<rparr>" "\<lparr>sent = [7, 8], breaks = None\<rparr>"]
  show ?thesis by simp
qed

text \<open>
  With the largest word as the maximum the limit wraps to zero and every incoming message is
  rejected as empty.
\<close>

lemma codec_limit_wraps:
  "max_request_size c = - 1 \<Longrightarrow> read_request c io = Inl (IoErr UnexpectedEofKind (Message ''request is empty''))"
  by (simp add: read_request_def read_limited_def)

end
