(* ===== verification/Pending_Tables.thy ===== *)
theory Pending_Tables
  imports Connexa_Prelude "HOL-Library.Multiset"
begin

section \<open>Tables of pending answers\<close>

text \<open>
  Tables that map a key to a handle waiting for an answer, or to a second table of such handles. The handles of a
  table form a multiset; an insertion under a fresh key adds one, a removal takes one out. With these
  lemmas the bookkeeping of answers becomes arithmetic of multisets.
\<close>

definition handles :: "('k, 'v) alist \<Rightarrow> 'v multiset" where
  "handles t = image_mset snd (mset t)"

lemma handles_simps [simp]:
  "handles [] = {#}"
  "handles ((k, v) # t) = add_mset v (handles t)"
  "handles (s @ t) = handles s + handles t"
  by (simp_all add: handles_def)

lemma mset_delete_alist:
  "wf_alist t \<Longrightarrow> map_of t k = Some v \<Longrightarrow> mset t = add_mset (k, v) (mset (AList.delete k t))"
proof (induction t)
  case (Cons x t)
  show ?case
  proof (cases "fst x = k")
    case True
    with Cons.prems have "AList.delete k t = t" by (auto intro: delete_id)
    with True Cons.prems show ?thesis by (cases x) auto
  next
    case False
    with Cons show ?thesis by (cases x) (auto simp: add_mset_commute)
  qed
qed simp

lemma handles_delete:
  "wf_alist t \<Longrightarrow> map_of t k = Some v \<Longrightarrow> handles t = add_mset v (handles (AList.delete k t))"
  by (simp add: handles_def mset_delete_alist)

lemma delete_missing: "map_of t k = None \<Longrightarrow> AList.delete k t = t"
  by (simp add: delete_id map_of_eq_None_iff)

lemma handles_update_fresh: "map_of t k = None \<Longrightarrow> handles (AList.update k v t) = add_mset v (handles t)"
  by (simp add: map_of_eq_None_iff update_fresh)

lemma mset_update_alist:
  "wf_alist t \<Longrightarrow> mset (AList.update k v t) = add_mset (k, v) (mset (AList.delete k t))"
proof (induction t)
  case (Cons x t)
  show ?case
  proof (cases "fst x = k")
    case True
    with Cons.prems have "AList.delete k t = t" by (auto intro: delete_id)
    with True show ?thesis by (cases x) auto
  next
    case False
    with Cons show ?thesis by (cases x) (auto simp: add_mset_commute)
  qed
qed simp

lemma handles_update:
  "wf_alist t \<Longrightarrow> handles (AList.update k v t) = add_mset v (handles (AList.delete k t))"
  by (simp add: handles_def mset_update_alist)

lemma handles_count_le: "handles (AList.delete k t) \<subseteq># handles t"
  unfolding handles_def by (rule image_mset_subseteq_mono) (simp add: AList.delete_eq mset_filter multiset_filter_subset)

text \<open>Tables of tables.\<close>

type_synonym ('k, 'i, 'v) table2 = "('k, ('i, 'v) alist) alist"

definition handles2 :: "('k, 'i, 'v) table2 \<Rightarrow> 'v multiset" where
  "handles2 t = \<Sum>\<^sub># (image_mset (\<lambda>x. handles (snd x)) (mset t))"

definition entry_or_default :: "('k, 'i, 'v) table2 \<Rightarrow> 'k \<Rightarrow> ('i, 'v) alist" where
  "entry_or_default t k = (case map_of t k of None \<Rightarrow> [] | Some l \<Rightarrow> l)"

definition insert2 :: "'k \<Rightarrow> 'i \<Rightarrow> 'v \<Rightarrow> ('k, 'i, 'v) table2 \<Rightarrow> ('k, 'i, 'v) table2" where
  "insert2 k i v t = AList.update k (AList.update i v (entry_or_default t k)) t"

definition lookup2 :: "('k, 'i, 'v) table2 \<Rightarrow> 'k \<Rightarrow> 'i \<Rightarrow> 'v option" where
  "lookup2 t k i = (case map_of t k of None \<Rightarrow> None | Some l \<Rightarrow> map_of l i)"

text \<open>A removal that also drops the inner table when it becomes empty.\<close>

definition remove2 :: "'k \<Rightarrow> 'i \<Rightarrow> ('k, 'i, 'v) table2 \<Rightarrow> ('k, 'i, 'v) table2" where
  "remove2 k i t = (case map_of t k of None \<Rightarrow> t
     | Some l \<Rightarrow> (let l' = AList.delete i l in if l' = [] then AList.delete k t else AList.update k l' t))"

definition wf2 :: "('k, 'i, 'v) table2 \<Rightarrow> bool" where
  "wf2 t \<longleftrightarrow> wf_alist t \<and> (\<forall>k l. map_of t k = Some l \<longrightarrow> wf_alist l)"

definition no_empty :: "('k, 'i, 'v) table2 \<Rightarrow> bool" where
  "no_empty t \<longleftrightarrow> (\<forall>k. map_of t k \<noteq> Some [])"

lemma handles2_Nil [simp]: "handles2 [] = {#}" by (simp add: handles2_def)

lemma handles2_delete:
  "wf_alist t \<Longrightarrow> map_of t k = Some l \<Longrightarrow> handles2 t = handles l + handles2 (AList.delete k t)"
  by (simp add: handles2_def mset_delete_alist)

lemma handles2_update:
  "wf_alist t \<Longrightarrow> handles2 (AList.update k l t) = handles l + handles2 (AList.delete k t)"
  by (simp add: handles2_def mset_update_alist)

lemma handles2_entry:
  "wf_alist t \<Longrightarrow> handles2 t = handles (entry_or_default t k) + handles2 (AList.delete k t)"
  by (cases "map_of t k") (simp_all add: entry_or_default_def delete_missing handles2_delete)

lemma wf2D: "wf2 t \<Longrightarrow> wf_alist t" "wf2 t \<Longrightarrow> wf_alist (entry_or_default t k)"
  by (auto simp: wf2_def entry_or_default_def split: option.splits)

lemma wf2_insert2 [simp]: "wf2 t \<Longrightarrow> wf2 (insert2 k i v t)"
  by (auto simp: insert2_def wf2_def wf2D(2) [unfolded wf2_def] entry_or_default_def split: option.splits if_splits)

lemma wf2_remove2 [simp]: "wf2 t \<Longrightarrow> wf2 (remove2 k i t)"
  by (auto simp: remove2_def wf2_def Let_def set_delete set_update_wf split: option.splits if_splits)

lemma update_not_Nil [simp]: "AList.update k v t \<noteq> []"
  by (cases t) auto

lemma no_empty_insert2 [simp]: "no_empty t \<Longrightarrow> no_empty (insert2 k i v t)"
  by (auto simp: no_empty_def insert2_def)

lemma no_empty_remove2 [simp]: "no_empty t \<Longrightarrow> no_empty (remove2 k i t)"
  by (auto simp: no_empty_def remove2_def Let_def split: option.splits)

lemma lookup2_entry: "lookup2 t k i = map_of (entry_or_default t k) i"
  by (simp add: lookup2_def entry_or_default_def split: option.splits)

lemma lookup2_insert2 [simp]:
  "lookup2 (insert2 k i v t) k' i' = (if k' = k \<and> i' = i then Some v else lookup2 t k' i')"
  by (auto simp: insert2_def lookup2_def entry_or_default_def split: option.splits)

lemma lookup2_remove2 [simp]:
  "lookup2 (remove2 k i t) k' i' = (if k' = k \<and> i' = i then None else lookup2 t k' i')"
proof (cases "map_of t k")
  case None
  then show ?thesis by (auto simp: remove2_def lookup2_def)
next
  case (Some l)
  show ?thesis
  proof (cases "AList.delete i l = []")
    case True
    then have "map_of l i' = None" if "i' \<noteq> i" for i'
      using that by (metis delete_conv' fun_upd_other map_of.simps(1))
    with Some True show ?thesis by (auto simp: remove2_def lookup2_def Let_def)
  next
    case False
    with Some show ?thesis by (auto simp: remove2_def lookup2_def Let_def split: option.splits)
  qed
qed

lemma handles2_insert2:
  assumes "wf2 t" "lookup2 t k i = None"
  shows "handles2 (insert2 k i v t) = add_mset v (handles2 t)"
proof -
  note e = handles2_entry [OF wf2D(1) [OF assms(1)], of k]
  have "handles (AList.update i v (entry_or_default t k)) = add_mset v (handles (entry_or_default t k))"
    using assms(2) by (intro handles_update_fresh) (simp add: lookup2_entry)
  then show ?thesis unfolding insert2_def handles2_update [OF wf2D(1) [OF assms(1)]] by (simp add: e)
qed

lemma handles2_remove2:
  assumes "wf2 t" "lookup2 t k i = Some v"
  shows "handles2 t = add_mset v (handles2 (remove2 k i t))"
proof -
  from assms(2) obtain l where l: "map_of t k = Some l" "map_of l i = Some v"
    by (auto simp: lookup2_def split: option.splits)
  have wf: "wf_alist t" "wf_alist l" using assms(1) l(1) by (auto simp: wf2_def)
  have "handles2 t = add_mset v (handles (AList.delete i l) + handles2 (AList.delete k t))"
    by (simp add: handles2_delete [OF wf(1) l(1)] handles_delete [OF wf(2) l(2)])
  with l(1) wf(1) show ?thesis by (auto simp: remove2_def Let_def handles2_update)
qed

lemma remove2_missing:
  assumes "lookup2 t k i = None" "no_empty t" "wf_alist t"
  shows "handles2 (remove2 k i t) = handles2 t"
proof (cases "map_of t k")
  case (Some l)
  with assms(1) have "AList.delete i l = l" by (simp add: lookup2_def delete_missing)
  with Some assms(2,3) show ?thesis
    by (auto simp: remove2_def no_empty_def handles2_update handles2_delete)
qed (simp add: remove2_def)

end
