(* ===== verification/Request_Response.thy ===== *)
theory Request_Response
  imports Request_Codec Pending_Tables
begin

section \<open>The request-response behaviour (\<^verbatim>\<open>src/src/behaviour/request_response.rs\<close>, \<^verbatim>\<open>rr_man.rs\<close>)\<close>

text \<open>
  The behaviour wraps libp2p's request-response behaviour, which is a parameter: its state is the type
  variable \<open>'rr\<close> and its methods are the fields of \<open>rr_ops\<close>. Channels are handles. A message put on a channel
  is recorded in \<open>effects\<close>, in order; nothing in the code depends on whether the receiving
  end still exists, except the test for closed subscribers, which the environment answers.
\<close>

datatype inbound_id = InboundRequestId nat
datatype outbound_id = OutboundRequestId nat

type_synonym response_channel = nat
type_synonym oneshot = nat
type_synonym subscriber = nat
type_synonym instant = nat

definition CHANNEL_LIMIT :: nat where "CHANNEL_LIMIT = 256"
definition TIMEOUT :: nat where "TIMEOUT = 30"

datatype rr_direction = DirIn | DirOut | DirBoth
datatype protocol_support = Inbound | Outbound | Full

fun direction_support :: "rr_direction \<Rightarrow> protocol_support" where
  "direction_support DirIn = Inbound"
| "direction_support DirOut = Outbound"
| "direction_support DirBoth = Full"

record rr_config =
  rr_protocol :: string
  rr_timeout :: "nat option"
  rr_max_request_size :: u64
  rr_max_response_size :: u64
  rr_concurrent_streams :: "nat option"
  rr_channel_buffer :: nat
  rr_protocol_direction :: rr_direction

definition rr_config_default :: rr_config where
  "rr_config_default = \<lparr>rr_protocol = ''/libp2p/request-response'', rr_timeout = None,
     rr_max_request_size = 512 * 1024, rr_max_response_size = 2 * 1024 * 1024, rr_concurrent_streams = None,
     rr_channel_buffer = 128, rr_protocol_direction = DirBoth\<rparr>"

definition rr_config_new :: "string \<Rightarrow> rr_config" where
  "rr_config_new protocol = rr_config_default\<lparr>rr_protocol := protocol\<rparr>"

definition set_timeout :: "nat \<Rightarrow> rr_config \<Rightarrow> rr_config" where
  "set_timeout t c = c\<lparr>rr_timeout := Some t\<rparr>"

definition set_max_request_size :: "u64 \<Rightarrow> rr_config \<Rightarrow> rr_config" where
  "set_max_request_size n c = c\<lparr>rr_max_request_size := n\<rparr>"

definition set_max_response_size :: "u64 \<Rightarrow> rr_config \<Rightarrow> rr_config" where
  "set_max_response_size n c = c\<lparr>rr_max_response_size := n\<rparr>"

definition set_concurrent_streams :: "nat \<Rightarrow> rr_config \<Rightarrow> rr_config" where
  "set_concurrent_streams n c = c\<lparr>rr_concurrent_streams := Some n\<rparr>"

definition set_channel_buffer :: "nat \<Rightarrow> rr_config \<Rightarrow> rr_config" where
  "set_channel_buffer n c = c\<lparr>rr_channel_buffer := n\<rparr>"

definition set_protocol_direction :: "rr_direction \<Rightarrow> rr_config \<Rightarrow> rr_config" where
  "set_protocol_direction d c = c\<lparr>rr_protocol_direction := d\<rparr>"

subsection \<open>State\<close>

datatype 'o inner_event =
    ResponseMessage peer_id outbound_id bytes
  | RequestMessage peer_id inbound_id bytes response_channel
  | ResponseSent peer_id inbound_id
  | OutboundFailure peer_id outbound_id string
  | InboundFailure peer_id inbound_id string
  | OtherEvent 'o

datatype rr_effect =
    FireResponse oneshot "bytes connexa_result"
  | DropResponse oneshot
  | TrySend subscriber "peer_id \<times> inbound_id \<times> bytes"
  | DropChannel response_channel

record ('rr, 'o) rr_ops =
  inner_new :: "codec \<Rightarrow> (string \<times> protocol_support) list \<Rightarrow> nat \<Rightarrow> nat option \<Rightarrow> 'rr"
  inner_send_request :: "peer_id \<Rightarrow> bytes \<Rightarrow> 'rr \<Rightarrow> 'rr \<times> outbound_id"
  inner_send_response :: "response_channel \<Rightarrow> bytes \<Rightarrow> 'rr \<Rightarrow> 'rr \<times> bool"
  inner_poll :: "'rr \<Rightarrow> 'rr \<times> 'o inner_event option"

record 'rr rr_state =
  pending_request :: "(peer_id, inbound_id, response_channel) table2"
  pending_response :: "(peer_id, outbound_id, oneshot) table2"
  broadcast_request :: "subscriber list"
  rr_behaviour :: 'rr
  gc_timer :: "instant option"
  channel_buffer :: nat
  next_oneshot :: nat
  next_subscriber :: nat
  effects :: "rr_effect list"

text \<open>
  The environment of a call: the clock, which subscribers have gone away, and what an optional
  timer holds after it has fired.
\<close>

record rr_env =
  rr_now :: instant
  is_closed :: "subscriber \<Rightarrow> bool"
  after_ready :: "instant option \<Rightarrow> instant option"

definition rr_new :: "('rr, 'o) rr_ops \<Rightarrow> (string \<Rightarrow> bool) \<Rightarrow> rr_config \<Rightarrow> 'rr rr_state option" where
  "rr_new ops valid_protocol config =
     (let timeout = (case rr_timeout config of Some t \<Rightarrow> t | None \<Rightarrow> 120) in
      if \<not> valid_protocol (rr_protocol config) then None
      else
        let protocol = [(rr_protocol config, direction_support (rr_protocol_direction config))];
            c = codec_new (rr_max_request_size config) (rr_max_response_size config)
        in Some \<lparr>pending_request = [], pending_response = [], broadcast_request = [],
             rr_behaviour = inner_new ops c protocol timeout (rr_concurrent_streams config), gc_timer = None,
             channel_buffer = rr_channel_buffer config, next_oneshot = 0, next_subscriber = 0, effects = []\<rparr>)"

definition emit :: "rr_effect list \<Rightarrow> 'rr rr_state \<Rightarrow> 'rr rr_state" where
  "emit es s = s\<lparr>effects := effects s @ es\<rparr>"

definition subscribe :: "'rr rr_state \<Rightarrow> 'rr rr_state \<times> subscriber" where
  "subscribe s = (let tx = next_subscriber s in
     (s\<lparr>next_subscriber := Suc tx, broadcast_request := broadcast_request s @ [tx]\<rparr>, tx))"

subsection \<open>Requests of this node\<close>

definition drop_previous :: "('a \<Rightarrow> rr_effect) \<Rightarrow> 'a option \<Rightarrow> rr_effect list" where
  "drop_previous e old = (case old of None \<Rightarrow> [] | Some x \<Rightarrow> [e x])"

fun send_requests_loop ::
  "('rr, 'o) rr_ops \<Rightarrow> bytes \<Rightarrow> peer_id list \<Rightarrow> (outbound_id \<times> peer_id \<times> oneshot) list \<Rightarrow> 'rr rr_state \<Rightarrow>
   'rr rr_state \<times> (outbound_id \<times> peer_id \<times> oneshot) list" where
  "send_requests_loop ops request [] oneshots s = (s, oneshots)"
| "send_requests_loop ops request (peer # peers) oneshots s =
     (case inner_send_request ops peer request (rr_behaviour s) of (rr, rid) \<Rightarrow>
      let tx = next_oneshot s;
          s = s\<lparr>rr_behaviour := rr, next_oneshot := Suc tx\<rparr>;
          s = emit (drop_previous DropResponse (lookup2 (pending_response s) peer rid)) s;
          s = s\<lparr>pending_response := insert2 peer rid tx (pending_response s)\<rparr>
      in send_requests_loop ops request peers (oneshots @ [(rid, peer, tx)]) s)"

definition send_requests ::
  "('rr, 'o) rr_ops \<Rightarrow> peer_id list \<Rightarrow> bytes \<Rightarrow> 'rr rr_state \<Rightarrow> 'rr rr_state \<times> (outbound_id \<times> peer_id \<times> oneshot) list" where
  "send_requests ops peers request s = send_requests_loop ops request peers [] s"

text \<open>What a receiver makes of its channel: an answer, or None when the sender went away.\<close>

definition received :: "bytes connexa_result option \<Rightarrow> bytes connexa_result" where
  "received r = (case r of
     Some (Inr bs) \<Rightarrow> Inr bs
   | Some (Inl e) \<Rightarrow> Inl e
   | None \<Rightarrow> Inl (ErrIo (IoErr BrokenPipeKind (Message ''oneshot canceled''))))"

definition send_request ::
  "('rr, 'o) rr_ops \<Rightarrow> peer_id \<Rightarrow> bytes \<Rightarrow> 'rr rr_state \<Rightarrow> 'rr rr_state \<times> (outbound_id \<times> peer_id \<times> oneshot) list" where
  "send_request ops peer request s = send_requests ops [peer] request s"

definition first_response :: "(peer_id \<times> bytes connexa_result) list \<Rightarrow> bytes connexa_result" where
  "first_response st = (case st of
     (_, r) # _ \<Rightarrow> r
   | [] \<Rightarrow> Inl (ErrIo (IoErr BrokenPipeKind NoPayload)))"

definition process_response :: "outbound_id \<Rightarrow> peer_id \<Rightarrow> bytes \<Rightarrow> 'rr rr_state \<Rightarrow> 'rr rr_state" where
  "process_response rid peer response s = (case map_of (pending_response s) peer of
     None \<Rightarrow> s
   | Some l \<Rightarrow> (case map_of l rid of
       None \<Rightarrow> s
     | Some ch \<Rightarrow>
         emit [FireResponse ch (Inr response)] (s\<lparr>pending_response := remove2 peer rid (pending_response s)\<rparr>)))"

definition process_outbound_failure :: "outbound_id \<Rightarrow> peer_id \<Rightarrow> string \<Rightarrow> 'rr rr_state \<Rightarrow> 'rr rr_state" where
  "process_outbound_failure rid peer err s = (case map_of (pending_response s) peer of
     None \<Rightarrow> s
   | Some l \<Rightarrow>
       (let s' = s\<lparr>pending_response := remove2 peer rid (pending_response s)\<rparr> in
        case map_of l rid of
          Some tx \<Rightarrow> emit [FireResponse tx (Inl (ErrRequestResponse err))] s'
        | None \<Rightarrow> s'))"

subsection \<open>Requests of other nodes\<close>

definition send_response ::
  "('rr, 'o) rr_ops \<Rightarrow> peer_id \<Rightarrow> inbound_id \<Rightarrow> bytes \<Rightarrow> 'rr rr_state \<Rightarrow> 'rr rr_state \<times> unit connexa_result" where
  "send_response ops peer rid response s = (case map_of (pending_request s) peer of
     None \<Rightarrow> (s, Inl (ErrNotFound ''pending request''))
   | Some pending_list \<Rightarrow> (case map_of pending_list rid of
       None \<Rightarrow> (s, Inl (ErrNotFound ''pending request''))
     | Some ch \<Rightarrow>
         (let s = s\<lparr>pending_request := AList.update peer (AList.delete rid pending_list) (pending_request s)\<rparr> in
          case inner_send_response ops ch response (rr_behaviour s) of
            (rr, ok) \<Rightarrow> (s\<lparr>rr_behaviour := rr\<rparr>,
              if ok then Inr () else Inl (ErrIo (IoErr BrokenPipeKind (Message
                ''unable to send response. request either timed out, connection dropped, or unexpected behaviour occurred'')))))))"

definition process_request ::
  "rr_env \<Rightarrow> inbound_id \<Rightarrow> peer_id \<Rightarrow> bytes \<Rightarrow> response_channel \<Rightarrow> 'rr rr_state \<Rightarrow> 'rr rr_state" where
  "process_request env rid peer request ch s =
     (if broadcast_request s = [] then emit [DropChannel ch] s
      else
        let s = (if length (broadcast_request s) > CHANNEL_LIMIT
                 then (if gc_timer s = None then s\<lparr>gc_timer := Some (rr_now env + TIMEOUT)\<rparr> else s)
                 else s\<lparr>gc_timer := None,
                        broadcast_request := filter (\<lambda>tx. \<not> is_closed env tx) (broadcast_request s)\<rparr>);
            s = emit (drop_previous DropChannel (lookup2 (pending_request s) peer rid)) s;
            s = s\<lparr>pending_request := insert2 peer rid ch (pending_request s)\<rparr>
        in emit (map (\<lambda>tx. TrySend tx (peer, rid, request)) (broadcast_request s)) s)"

definition process_inbound_failure :: "inbound_id \<Rightarrow> peer_id \<Rightarrow> string \<Rightarrow> 'rr rr_state \<Rightarrow> 'rr rr_state" where
  "process_inbound_failure rid peer err s = (case map_of (pending_request s) peer of
     None \<Rightarrow> s
   | Some l \<Rightarrow>
       emit (drop_previous DropChannel (map_of l rid)) (s\<lparr>pending_request := remove2 peer rid (pending_request s)\<rparr>))"

subsection \<open>Polling\<close>

definition poll_gc :: "rr_env \<Rightarrow> 'rr rr_state \<Rightarrow> 'rr rr_state" where
  "poll_gc env s =
     (if (case gc_timer s of None \<Rightarrow> False | Some t \<Rightarrow> t \<le> rr_now env)
      then
        let s = s\<lparr>gc_timer := after_ready env (gc_timer s),
                  broadcast_request := filter (\<lambda>tx. \<not> is_closed env tx) (broadcast_request s)\<rparr>
        in if length (broadcast_request s) > CHANNEL_LIMIT then s\<lparr>gc_timer := Some (rr_now env + TIMEOUT)\<rparr> else s
      else s)"

fun process_event :: "rr_env \<Rightarrow> 'o inner_event \<Rightarrow> 'rr rr_state \<Rightarrow> 'rr rr_state + 'o" where
  "process_event env (ResponseMessage peer rid response) s = Inl (process_response rid peer response s)"
| "process_event env (RequestMessage peer rid request ch) s = Inl (process_request env rid peer request ch s)"
| "process_event env (ResponseSent peer rid) s = Inl s"
| "process_event env (OutboundFailure peer rid err) s = Inl (process_outbound_failure rid peer err s)"
| "process_event env (InboundFailure peer rid err) s = Inl (process_inbound_failure rid peer err s)"
| "process_event env (OtherEvent other) s = Inr other"

partial_function (option) poll_inner ::
  "('rr, 'o) rr_ops \<Rightarrow> rr_env \<Rightarrow> 'rr rr_state \<Rightarrow> ('rr rr_state \<times> 'o option) option" where
  "poll_inner ops env s = (case inner_poll ops (rr_behaviour s) of
     (rr, None) \<Rightarrow> Some (s\<lparr>rr_behaviour := rr\<rparr>, None)
   | (rr, Some event) \<Rightarrow>
       (let s = s\<lparr>rr_behaviour := rr\<rparr> in
        case process_event env event s of
          Inr other \<Rightarrow> Some (s, Some other)
        | Inl s \<Rightarrow> poll_inner ops env s))"

definition rr_poll :: "('rr, 'o) rr_ops \<Rightarrow> rr_env \<Rightarrow> 'rr rr_state \<Rightarrow> ('rr rr_state \<times> 'o option) option" where
  "rr_poll ops env s = poll_inner ops env (poll_gc env s)"

subsection \<open>The table of protocols\<close>

type_synonym rr_man = "(string, nat) alist"

definition rr_man_new :: "(string \<times> nat) list \<Rightarrow> rr_man" where
  "rr_man_new l = fold (\<lambda>(p, i) m. AList.update p i m) l []"

definition get_protocol :: "rr_man \<Rightarrow> string \<Rightarrow> nat option" where
  "get_protocol m protocol = map_of m protocol"

end
