(* ===== verification/Request_Response_Properties.thy ===== *)
theory Request_Response_Properties
  imports Request_Response
begin

section \<open>What the request-response behaviour guarantees\<close>

text \<open>
  Runs of the behaviour and the accounting of answers: every oneshot handed to a caller waits in
  the table or has been fired exactly once. libp2p's behaviour is relied on for unique request identifiers.
\<close>

fun fired_oneshot :: "rr_effect \<Rightarrow> oneshot option" where
  "fired_oneshot (FireResponse tx r) = Some tx"
| "fired_oneshot _ = None"

definition fired :: "rr_effect list \<Rightarrow> oneshot list" where
  "fired es = List.map_filter fired_oneshot es"

lemma fired_simps [simp]:
  "fired [] = []" "fired (es @ fs) = fired es @ fired fs"
  "fired [FireResponse tx r] = [tx]" "fired [DropChannel ch] = []" "fired [DropResponse tx] = []"
  "fired (map (\<lambda>tx. TrySend tx m) txs) = []" "fired (drop_previous DropChannel old) = []"
  by (auto simp: fired_def List.map_filter_def drop_previous_def split: option.split)

definition no_drop :: "rr_effect list \<Rightarrow> bool" where
  "no_drop es \<longleftrightarrow> (\<forall>tx. DropResponse tx \<notin> set es)"

lemma no_drop_simps [simp]:
  "no_drop []" "no_drop (es @ fs) \<longleftrightarrow> no_drop es \<and> no_drop fs" "no_drop [FireResponse tx r]" "no_drop [DropChannel ch]"
  "no_drop (map (\<lambda>tx. TrySend tx m) txs)" "no_drop (drop_previous DropChannel old)"
  by (auto simp: no_drop_def drop_previous_def split: option.split)

text \<open>What is relied on: request identifiers are not reused.\<close>

definition inner_law :: "('rr, 'o) rr_ops \<Rightarrow> ('rr \<Rightarrow> outbound_id set) \<Rightarrow> bool" where
  "inner_law ops issued \<longleftrightarrow>
     (\<forall>p b rr rr' i. inner_send_request ops p b rr = (rr', i) \<longrightarrow> i \<notin> issued rr \<and> issued rr' = insert i (issued rr))
   \<and> (\<forall>ch b rr. issued (fst (inner_send_response ops ch b rr)) = issued rr)
   \<and> (\<forall>rr. issued (fst (inner_poll ops rr)) = issued rr)"

subsection \<open>Runs\<close>

inductive rr_step :: "('rr, 'o) rr_ops \<Rightarrow> ('rr \<Rightarrow> outbound_id set) \<Rightarrow> 'rr rr_state \<Rightarrow> 'rr rr_state \<Rightarrow> bool"
  for ops issued where
  subscribe: "rr_step ops issued s (fst (subscribe s))"
| send_requests: "rr_step ops issued s (fst (send_requests ops peers request s))"
| send_response: "rr_step ops issued s (fst (send_response ops peer rid response s))"
| poll: "rr_poll ops env s = Some (s', out) \<Longrightarrow> rr_step ops issued s s'"
| delegated: "issued rr = issued (rr_behaviour s) \<Longrightarrow> rr_step ops issued s (s\<lparr>rr_behaviour := rr\<rparr>)"

inductive rr_reachable :: "('rr, 'o) rr_ops \<Rightarrow> ('rr \<Rightarrow> outbound_id set) \<Rightarrow> 'rr rr_state \<Rightarrow> bool"
  for ops issued where
  start: "rr_new ops valid_protocol config = Some s \<Longrightarrow> rr_reachable ops issued s"
| step: "rr_reachable ops issued s \<Longrightarrow> rr_step ops issued s s' \<Longrightarrow> rr_reachable ops issued s'"

definition accounted :: "('rr \<Rightarrow> outbound_id set) \<Rightarrow> 'rr rr_state \<Rightarrow> bool" where
  "accounted issued s \<longleftrightarrow> wf2 (pending_response s) \<and> no_empty (pending_response s)
     \<and> (\<forall>p i. lookup2 (pending_response s) p i \<noteq> None \<longrightarrow> i \<in> issued (rr_behaviour s))
     \<and> mset (fired (effects s)) + handles2 (pending_response s) = mset [0..<next_oneshot s] \<and> no_drop (effects s)"

lemma accounted_cong:
  "accounted issued s \<Longrightarrow> pending_response s' = pending_response s \<Longrightarrow> issued (rr_behaviour s') = issued (rr_behaviour s)
   \<Longrightarrow> next_oneshot s' = next_oneshot s \<Longrightarrow> effects s' = effects s @ es \<Longrightarrow> fired es = [] \<Longrightarrow> no_drop es \<Longrightarrow> accounted issued s'"
  by (simp add: accounted_def)

lemma accounted_new: "rr_new ops valid config = Some s \<Longrightarrow> accounted issued s"
  by (auto simp: rr_new_def accounted_def wf2_def no_empty_def lookup2_def Let_def split: if_splits)

lemma lookup2_cases: "lookup2 t p i = Some v \<longleftrightarrow> (\<exists>l. map_of t p = Some l \<and> map_of l i = Some v)"
  by (auto simp: lookup2_def split: option.splits)

lemma accounted_fire:
  assumes "accounted issued s" "lookup2 (pending_response s) p i = Some tx"
  shows "accounted issued (emit [FireResponse tx r] (s\<lparr>pending_response := remove2 p i (pending_response s)\<rparr>))"
  using assms handles2_remove2 [OF _ assms(2)] by (auto simp: accounted_def emit_def)

lemma accounted_response: "accounted issued s \<Longrightarrow> accounted issued (process_response i p b s)"
  unfolding process_response_def
  by (auto split: option.splits intro!: accounted_fire simp: lookup2_cases)

lemma accounted_remove_missing:
  "accounted issued s \<Longrightarrow> lookup2 (pending_response s) p i = None \<Longrightarrow>
     accounted issued (s\<lparr>pending_response := remove2 p i (pending_response s)\<rparr>)"
  by (auto simp: accounted_def remove2_missing wf2D)

lemma accounted_outbound_failure: "accounted issued s \<Longrightarrow> accounted issued (process_outbound_failure i p e s)"
  unfolding process_outbound_failure_def Let_def
  by (auto split: option.splits intro!: accounted_fire accounted_remove_missing simp: lookup2_cases lookup2_def)

lemma accounted_request: "accounted issued s \<Longrightarrow> accounted issued (process_request env i p b ch s)"
  by (auto simp: process_request_def Let_def accounted_def emit_def)

lemma accounted_inbound_failure: "accounted issued s \<Longrightarrow> accounted issued (process_inbound_failure i p e s)"
  by (auto simp: process_inbound_failure_def accounted_def emit_def split: option.splits)

lemma accounted_event: "accounted issued s \<Longrightarrow> process_event env ev s = Inl s' \<Longrightarrow> accounted issued s'"
  by (cases ev) (auto intro: accounted_response accounted_request accounted_outbound_failure accounted_inbound_failure)

lemma accounted_gc: "accounted issued s \<Longrightarrow> accounted issued (poll_gc env s)"
  by (auto simp: poll_gc_def accounted_def Let_def)

lemma accounted_behaviour:
  "accounted issued s \<Longrightarrow> issued rr = issued (rr_behaviour s) \<Longrightarrow> accounted issued (s\<lparr>rr_behaviour := rr\<rparr>)"
  by (simp add: accounted_def)

text \<open>What every event of libp2p's behaviour keeps, a poll keeps.\<close>

lemma poll_inner_keeps:
  fixes ops :: "('rr, 'o) rr_ops"
  assumes "poll_inner ops env s = Some r" "P s"
    and inner: "\<And>s. P s \<Longrightarrow> P (s\<lparr>rr_behaviour := fst (inner_poll ops (rr_behaviour s))\<rparr>)"
    and event: "\<And>s (ev :: 'o inner_event) s'. P s \<Longrightarrow> process_event env ev s = Inl s' \<Longrightarrow> P s'"
  shows "P (fst r)"
proof -
  have "\<forall>P. (\<forall>s. P s \<longrightarrow> P (s\<lparr>rr_behaviour := fst (inner_poll ops (rr_behaviour s))\<rparr>)) \<longrightarrow>
     (\<forall>s (ev :: 'o inner_event) s'. P s \<longrightarrow> process_event env ev s = Inl s' \<longrightarrow> P s') \<longrightarrow> P s \<longrightarrow> P (fst r)"
    using assms(1)
  proof (rule poll_inner.raw_induct [rotated])
    fix rec env s r and ops :: "('rr, 'o) rr_ops"
    assume IH: "\<And>ops env s r. rec ops env s = Some r \<Longrightarrow>
       \<forall>P. (\<forall>s. P s \<longrightarrow> P (s\<lparr>rr_behaviour := fst (inner_poll ops (rr_behaviour s))\<rparr>)) \<longrightarrow>
         (\<forall>s (ev :: 'o inner_event) s'. P s \<longrightarrow> process_event env ev s = Inl s' \<longrightarrow> P s') \<longrightarrow> P s \<longrightarrow> P (fst r)"
      and body: "(case inner_poll ops (rr_behaviour s) of (rr, None) \<Rightarrow> Some (s\<lparr>rr_behaviour := rr\<rparr>, None)
        | (rr, Some event) \<Rightarrow> let s = s\<lparr>rr_behaviour := rr\<rparr> in
            case process_event env event s of Inl s \<Rightarrow> rec ops env s | Inr other \<Rightarrow> Some (s, Some other)) = Some r"
    obtain rr ev where p: "inner_poll ops (rr_behaviour s) = (rr, ev)" by (cases "inner_poll ops (rr_behaviour s)")
    show "\<forall>P. (\<forall>s. P s \<longrightarrow> P (s\<lparr>rr_behaviour := fst (inner_poll ops (rr_behaviour s))\<rparr>)) \<longrightarrow>
         (\<forall>s (ev :: 'o inner_event) s'. P s \<longrightarrow> process_event env ev s = Inl s' \<longrightarrow> P s') \<longrightarrow> P s \<longrightarrow> P (fst r)"
    proof (intro allI impI)
      fix P assume P: "\<forall>s. P s \<longrightarrow> P (s\<lparr>rr_behaviour := fst (inner_poll ops (rr_behaviour s))\<rparr>)"
        "\<forall>s (ev :: 'o inner_event) s'. P s \<longrightarrow> process_event env ev s = Inl s' \<longrightarrow> P s'" "P s"
      from P(1,3) p have s1: "P (s\<lparr>rr_behaviour := rr\<rparr>)" by (metis fst_conv)
      show "P (fst r)"
      proof (cases ev)
        case None
        with body p s1 show ?thesis by auto
      next
        case (Some e)
        show ?thesis
        proof (cases "process_event env e (s\<lparr>rr_behaviour := rr\<rparr>)")
          case (Inl s2)
          with P(2) s1 have "P s2" by blast
          moreover from body p Some Inl have "rec ops env s2 = Some r" by simp
          ultimately show ?thesis using IH P(1,2) by blast
        qed (use body p Some s1 in auto)
      qed
    qed
  qed
  with inner event assms(2) show ?thesis by blast
qed

lemma accounted_poll:
  assumes "inner_law ops issued" "rr_poll ops env s = Some (s', out)" "accounted issued s"
  shows "accounted issued s'"
proof -
  have "accounted issued (fst (s', out))"
    by (rule poll_inner_keeps [where P = "accounted issued", OF assms(2) [unfolded rr_poll_def] accounted_gc [OF assms(3)]])
      (use assms(1) in \<open>auto intro: accounted_event accounted_behaviour simp: inner_law_def\<close>)
  then show ?thesis by simp
qed

lemma accounted_send_requests_loop:
  assumes "inner_law ops issued" "accounted issued s"
  shows "accounted issued (fst (send_requests_loop ops request peers oneshots s))"
  using assms(2)
proof (induction peers arbitrary: oneshots s)
  case (Cons p peers)
  obtain rr i where r: "inner_send_request ops p request (rr_behaviour s) = (rr, i)"
    by (cases "inner_send_request ops p request (rr_behaviour s)")
  with assms(1) have i: "i \<notin> issued (rr_behaviour s)" "issued rr = insert i (issued (rr_behaviour s))"
    by (auto simp: inner_law_def)
  with Cons.prems have new: "lookup2 (pending_response s) p i = None"
    by (cases "lookup2 (pending_response s) p i") (auto simp: accounted_def)
  have "accounted issued (s\<lparr>rr_behaviour := rr, next_oneshot := Suc (next_oneshot s),
      pending_response := insert2 p i (next_oneshot s) (pending_response s)\<rparr>)"
    using Cons.prems new i(2) by (auto simp: accounted_def handles2_insert2)
  from Cons.IH [OF this] show ?case by (simp add: r Let_def new drop_previous_def emit_def)
qed simp

lemma accounted_step:
  assumes "inner_law ops issued" "rr_step ops issued s s'" "accounted issued s"
  shows "accounted issued s'"
  using assms(2)
proof cases
  case subscribe
  with assms(3) show ?thesis by (simp add: subscribe_def Let_def accounted_def)
next
  case (send_requests peers request)
  then show ?thesis using accounted_send_requests_loop [OF assms(1,3)] by (simp add: send_requests_def)
next
  case (send_response p i b)
  with assms(1,3) show ?thesis
    by (auto simp: send_response_def Let_def accounted_def inner_law_def split: option.splits prod.split)
       (metis fst_conv)+
next
  case (poll env out)
  from accounted_poll [OF assms(1) poll assms(3)] show ?thesis .
next
  case (delegated rr)
  with assms(3) show ?thesis by (simp add: accounted_behaviour)
qed

lemma reachable_accounted: "rr_reachable ops issued s \<Longrightarrow> inner_law ops issued \<Longrightarrow> accounted issued s"
  by (induction rule: rr_reachable.induct) (auto intro: accounted_new accounted_step)

text \<open>
  C5: no caller is answered twice and none is forgotten. In every reachable state the oneshots handed to
  callers are exactly those fired so far, each once, together with those still waiting in the
  table; none was dropped unanswered, and the table keeps no empty entry.
\<close>

theorem rr_answered_exactly_once:
  assumes "inner_law ops issued" "rr_reachable ops issued s"
  shows "mset (fired (effects s)) + handles2 (pending_response s) = mset [0..<next_oneshot s]
     \<and> no_drop (effects s) \<and> no_empty (pending_response s)"
  using reachable_accounted [OF assms(2,1)] by (simp add: accounted_def)

lemma send_requests_loop_lookup:
  assumes "inner_law ops issued" "accounted issued s" "send_requests_loop ops request peers oneshots s = (s', os)"
  shows "(\<forall>p i tx. lookup2 (pending_response s) p i = Some tx \<longrightarrow> lookup2 (pending_response s') p i = Some tx)
     \<and> (\<exists>new. os = oneshots @ new \<and> map (fst \<circ> snd) new = peers
         \<and> (\<forall>(i, p, tx) \<in> set new. lookup2 (pending_response s') p i = Some tx))"
  using assms(2,3)
proof (induction peers arbitrary: oneshots s)
  case (Cons p peers)
  obtain rr i where r: "inner_send_request ops p request (rr_behaviour s) = (rr, i)"
    by (cases "inner_send_request ops p request (rr_behaviour s)")
  with assms(1) have i: "i \<notin> issued (rr_behaviour s)" by (auto simp: inner_law_def)
  with Cons.prems(1) have new: "lookup2 (pending_response s) p i = None"
    by (cases "lookup2 (pending_response s) p i") (auto simp: accounted_def)
  let ?s = "s\<lparr>rr_behaviour := rr, next_oneshot := Suc (next_oneshot s),
      pending_response := insert2 p i (next_oneshot s) (pending_response s)\<rparr>"
  have run: "send_requests_loop ops request peers (oneshots @ [(i, p, next_oneshot s)]) ?s = (s', os)"
    using Cons.prems(2) by (simp add: r Let_def new drop_previous_def emit_def)
  have "accounted issued ?s"
    using accounted_send_requests_loop [OF assms(1) Cons.prems(1), of request "[p]" "[]"]
    by (simp add: r Let_def new drop_previous_def emit_def)
  note IH = Cons.IH [OF this run]
  from IH [THEN conjunct2] obtain rest where rest: "os = (oneshots @ [(i, p, next_oneshot s)]) @ rest"
    "map (fst \<circ> snd) rest = peers" "\<forall>(i, p, tx) \<in> set rest. lookup2 (pending_response s') p i = Some tx"
    by (elim exE conjE)
  have keep: "lookup2 (pending_response s') q j = Some tx"
    if "lookup2 (pending_response ?s) q j = Some tx" for q j tx
    using IH [THEN conjunct1, rule_format, OF that] .
  have "lookup2 (pending_response s') p i = Some (next_oneshot s)" by (rule keep) simp
  with rest have "os = oneshots @ ((i, p, next_oneshot s) # rest) \<and> map (fst \<circ> snd) ((i, p, next_oneshot s) # rest) = p # peers
     \<and> (\<forall>(i, p, tx) \<in> set ((i, p, next_oneshot s) # rest). lookup2 (pending_response s') p i = Some tx)" by simp
  moreover have "lookup2 (pending_response s') q j = Some tx"
    if "lookup2 (pending_response s) q j = Some tx" for q j tx by (rule keep) (use that new in auto)
  ultimately show ?case by (intro conjI exI [of _ "(i, p, next_oneshot s) # rest"]) (simp_all add: comp_def)
qed simp

text \<open>
  C14: answers reach the caller that asked. After a request to several peers there is one oneshot for
  each of them, in order; a response or a failure that libp2p reports for that peer and request
  identifier fires exactly that oneshot with exactly that result, and forgets it.
\<close>

theorem rr_response_routed:
  assumes "inner_law ops issued" "rr_reachable ops issued s" "send_requests ops peers request s = (s', os)"
  shows "map (fst \<circ> snd) os = peers \<and> (\<forall>(i, p, tx) \<in> set os.
     effects (process_response i p b s') = effects s' @ [FireResponse tx (Inr b)]
   \<and> effects (process_outbound_failure i p e s') = effects s' @ [FireResponse tx (Inl (ErrRequestResponse e))]
   \<and> lookup2 (pending_response (process_response i p b s')) p i = None
   \<and> lookup2 (pending_response (process_outbound_failure i p e s')) p i = None)"
proof -
  from send_requests_loop_lookup [OF assms(1) reachable_accounted [OF assms(2,1)] assms(3) [unfolded send_requests_def]]
  have os: "map (fst \<circ> snd) os = peers" and at: "\<forall>(i, p, tx) \<in> set os. lookup2 (pending_response s') p i = Some tx"
    by auto
  have "effects (process_response i p b s') = effects s' @ [FireResponse tx (Inr b)]
   \<and> effects (process_outbound_failure i p e s') = effects s' @ [FireResponse tx (Inl (ErrRequestResponse e))]
   \<and> lookup2 (pending_response (process_response i p b s')) p i = None
   \<and> lookup2 (pending_response (process_outbound_failure i p e s')) p i = None"
    if "lookup2 (pending_response s') p i = Some tx" for i p tx
    using that unfolding lookup2_cases
    by (auto simp: process_response_def process_outbound_failure_def emit_def Let_def)
  with os at show ?thesis by blast
qed

lemma process_event_behaviour: "process_event env ev s = Inl s' \<Longrightarrow> rr_behaviour s' = rr_behaviour s"
  by (cases ev) (auto simp: process_response_def process_request_def process_outbound_failure_def
      process_inbound_failure_def emit_def Let_def split: option.splits)

lemma poll_inner_terminates:
  fixes ops :: "('rr, 'o) rr_ops" and work :: "'rr \<Rightarrow> nat"
  assumes "\<And>rr rr' ev. inner_poll ops rr = (rr', Some ev) \<Longrightarrow> work rr' < work rr"
  shows "\<exists>r. poll_inner ops env s = Some r"
proof (induction "work (rr_behaviour s)" arbitrary: s rule: less_induct)
  case less
  obtain rr ev where p: "inner_poll ops (rr_behaviour s) = (rr, ev)" by (cases "inner_poll ops (rr_behaviour s)")
  show ?case
  proof (cases ev)
    case None
    with p show ?thesis by (subst poll_inner.simps) simp
  next
    case (Some e)
    show ?thesis
    proof (cases "process_event env e (s\<lparr>rr_behaviour := rr\<rparr>)")
      case (Inl s2)
      have "work (rr_behaviour s2) < work (rr_behaviour s)"
        using process_event_behaviour [OF Inl] assms p Some by simp
      from less [OF this] p Some Inl show ?thesis by (subst poll_inner.simps) simp
    next
      case (Inr other)
      with p Some show ?thesis by (subst poll_inner.simps) simp
    qed
  qed
qed

text \<open>
  Polling returns. If libp2p's behaviour has finitely many events ready, by a measure that each event
  it hands out decreases, then a poll of this behaviour returns.
\<close>

theorem rr_poll_terminates:
  assumes "\<And>rr rr' ev. inner_poll ops rr = (rr', Some ev) \<Longrightarrow> (work rr' :: nat) < work rr"
  shows "\<exists>r. rr_poll ops env s = Some r"
  unfolding rr_poll_def by (rule poll_inner_terminates [where work = work, OF assms])

text \<open>
  An incoming request reaches every open subscriber, once and in subscription order. Up to the channel
  limit the closed subscribers are removed first; above it a collection is scheduled and every
  subscriber is tried. Without a subscriber the request is dropped, otherwise it is recorded so that it can be answered.
\<close>

theorem rr_request_broadcast:
  fixes s :: "'rr rr_state"
  defines "open_subscribers \<equiv> \<lambda>env s. if length (broadcast_request s) > CHANNEL_LIMIT then broadcast_request s
     else filter (\<lambda>tx. \<not> is_closed env tx) (broadcast_request (s :: 'rr rr_state))"
  shows "if broadcast_request s = [] then process_request env i p b ch s = emit [DropChannel ch] s
     else (let s' = process_request env i p b ch s in
       broadcast_request s' = open_subscribers env s
       \<and> effects s' = effects s @ drop_previous DropChannel (lookup2 (pending_request s) p i)
           @ map (\<lambda>tx. TrySend tx (p, i, b)) (open_subscribers env s)
       \<and> lookup2 (pending_request s') p i = Some ch
       \<and> (gc_timer s' = None \<longleftrightarrow> length (broadcast_request s) \<le> CHANNEL_LIMIT))"
  by (auto simp: process_request_def open_subscribers_def emit_def Let_def drop_previous_def)

text \<open>
  A peer whose only pending request is answered keeps an empty entry in the table of pending
  requests, unlike a peer whose request fails.
\<close>

lemma send_response_keeps_empty_entry:
  assumes "map_of (pending_request s) p = Some [(i, ch)]"
  shows "map_of (pending_request (fst (send_response ops p i b s))) p = Some []"
    and "map_of (pending_request (process_inbound_failure i p e s)) p = None"
  using assms by (auto simp: send_response_def process_inbound_failure_def remove2_def emit_def Let_def split: prod.split)

text \<open>
  A request can be answered once. Sending a response fails with \<^verbatim>\<open>NotFound\<close>, changing nothing, exactly when the request is
  not pending; otherwise the channel goes to libp2p, whose verdict is the result, and the request
  is pending no more, while every other pending request stays.
\<close>

theorem rr_send_response_once:
  assumes "send_response ops p i b s = (s', r)"
  shows "case lookup2 (pending_request s) p i of
      None \<Rightarrow> s' = s \<and> r = Inl (ErrNotFound ''pending request'')
    | Some ch \<Rightarrow> rr_behaviour s' = fst (inner_send_response ops ch b (rr_behaviour s))
        \<and> (r = Inr () \<longleftrightarrow> snd (inner_send_response ops ch b (rr_behaviour s)))
        \<and> lookup2 (pending_request s') p i = None
        \<and> snd (send_response ops p i b' s') = Inl (ErrNotFound ''pending request'')
        \<and> (\<forall>q j. (q, j) \<noteq> (p, i) \<longrightarrow> lookup2 (pending_request s') q j = lookup2 (pending_request s) q j)"
  using assms by (auto simp: send_response_def lookup2_def Let_def split: option.splits prod.splits if_splits)

subsection \<open>Instances\<close>

text \<open>An inner behaviour with a counter for identifiers and a queue of events.\<close>

definition example_ops :: "(nat \<times> unit inner_event list, unit) rr_ops" where
  "example_ops = \<lparr>inner_new = (\<lambda>_ _ _ _. (0, [])),
     inner_send_request = (\<lambda>p b (n, q). ((Suc n, q), OutboundRequestId n)),
     inner_send_response = (\<lambda>ch b rr. (rr, True)),
     inner_poll = (\<lambda>(n, q). case q of [] \<Rightarrow> ((n, []), None) | e # q \<Rightarrow> ((n, q), Some e))\<rparr>"

definition example_issued :: "nat \<times> unit inner_event list \<Rightarrow> outbound_id set" where
  "example_issued rr = OutboundRequestId ` {..<fst rr}"

lemma example_inner_law: "inner_law example_ops example_issued"
  by (auto simp: inner_law_def example_ops_def example_issued_def lessThan_Suc split: list.split prod.splits)

definition example_rr :: "(nat \<times> unit inner_event list) rr_state" where
  "example_rr = the (rr_new example_ops (\<lambda>_. True) rr_config_default)"

lemma example_rr_reachable: "rr_reachable example_ops example_issued example_rr"
  by (rule rr_reachable.start [where valid_protocol = "\<lambda>_. True" and config = rr_config_default])
    (simp add: example_rr_def rr_new_def)

lemmas rr_eval = send_requests_def example_rr_def rr_new_def example_ops_def emit_def drop_previous_def lookup2_def
  insert2_def entry_or_default_def Let_def

theorem rr_answered_exactly_once_witness:
  "handles2 (pending_response (fst (send_requests example_ops [PeerId 1, PeerId 2] [5] example_rr))) = mset [0, 1]"
proof -
  let ?s = "fst (send_requests example_ops [PeerId 1, PeerId 2] [5] example_rr)"
  have "rr_reachable example_ops example_issued ?s"
    by (rule rr_reachable.step [OF example_rr_reachable rr_step.send_requests])
  from rr_answered_exactly_once [OF example_inner_law this] show ?thesis
    by (simp add: rr_eval upt_rec)
qed

theorem rr_response_routed_witness:
  "effects (process_response (OutboundRequestId 1) (PeerId 2) [9]
     (fst (send_requests example_ops [PeerId 1, PeerId 2] [5] example_rr))) = [FireResponse 1 (Inr [9])]"
proof -
  define s where "s = fst (send_requests example_ops [PeerId 1, PeerId 2] [5] example_rr)"
  have run: "send_requests example_ops [PeerId 1, PeerId 2] [5] example_rr
     = (s, [(OutboundRequestId 0, PeerId 1, 0), (OutboundRequestId 1, PeerId 2, 1)])" "effects s = []"
    by (simp_all add: s_def rr_eval)
  from rr_response_routed [OF example_inner_law example_rr_reachable run(1), of "[9]" "[]"] run(2)
  show ?thesis by (simp add: s_def)
qed

theorem rr_poll_terminates_witness:
  "\<exists>r. rr_poll example_ops \<lparr>rr_now = 0, is_closed = \<lambda>_. False, after_ready = \<lambda>_. None\<rparr>
     (example_rr\<lparr>rr_behaviour := (0, [ResponseSent (PeerId 1) (InboundRequestId 1)])\<rparr>) = Some r"
  by (rule rr_poll_terminates [where work = "\<lambda>rr. length (snd rr)"])
    (auto simp: example_ops_def split: list.splits prod.splits)

theorem rr_send_response_once_witness:
  "snd (send_response example_ops (PeerId 3) (InboundRequestId 4) [1]
     (fst (send_response example_ops (PeerId 3) (InboundRequestId 4) [1]
       (example_rr\<lparr>pending_request := [(PeerId 3, [(InboundRequestId 4, 7)])]\<rparr>)))) = Inl (ErrNotFound ''pending request'')"
proof -
  define s where "s = example_rr\<lparr>pending_request := [(PeerId 3, [(InboundRequestId 4, 7)])]\<rparr>"
  have "lookup2 (pending_request s) (PeerId 3) (InboundRequestId 4) = Some 7" by (simp add: lookup2_def s_def)
  with rr_send_response_once [OF prod.collapse [symmetric], of example_ops "PeerId 3" "InboundRequestId 4" "[1]" s "[1]"]
  show ?thesis unfolding s_def [symmetric] by (simp only: option.case)
qed

end
