(* ===== verification/Request_Slots.thy ===== *)
theory Request_Slots
  imports Request_Response_Properties
begin

section \<open>The request-response protocols of a node (\<^verbatim>\<open>src/src/behaviour.rs\<close>, \<^verbatim>\<open>src/src/task/request_response.rs\<close>)\<close>

text \<open>
  A node has ten slots for request-response behaviours and a table from protocol names to slots. This theory
  models how a configuration fills them, how a command finds its behaviour, and the commands themselves. The ten
  fields \<^verbatim>\<open>rr_0\<close> to \<^verbatim>\<open>rr_9\<close> are a function on slot numbers. Validity of a protocol name is decided by libp2p (\<open>valid\<close>).
  Creating a behaviour panics on an invalid name, which is the result None.
\<close>

record 'b rr_slots =
  slot :: "nat \<Rightarrow> 'b option"
  rr_manager :: "rr_man option"

fun register_protocols ::
  "bool \<Rightarrow> (string \<Rightarrow> bool) \<Rightarrow> (rr_config \<Rightarrow> 'b option) \<Rightarrow> nat \<Rightarrow> rr_config list \<Rightarrow> (string, nat) alist \<Rightarrow>
   (nat \<Rightarrow> 'b option) \<Rightarrow> ((string, nat) alist \<times> (nat \<Rightarrow> 'b option), io_err) result option" where
  "register_protocols enabled valid new index [] existing slots = Some (Inr (existing, slots))"
| "register_protocols enabled valid new index (c # cs) existing slots =
     (if \<not> valid (rr_protocol c) then Some (Inl (IoErr OtherKind (Message ''invalid protocol'')))
      else if contains_key existing (rr_protocol c)
      then register_protocols enabled valid new (Suc index) cs existing slots
      else if index < 10 then
        (if slots index \<noteq> None then register_protocols enabled valid new (Suc index) cs existing slots
         else case (if enabled then map_option Some (new c) else Some None) of
           None \<Rightarrow> None
         | Some b \<Rightarrow> register_protocols enabled valid new (Suc index) cs
             (AList.update (rr_protocol c) index existing) (slots(index := b)))
      else Some (Inr (existing, slots)))"

definition register_all ::
  "bool \<Rightarrow> (string \<Rightarrow> bool) \<Rightarrow> (rr_config \<Rightarrow> 'b option) \<Rightarrow> rr_config list \<Rightarrow> ('b rr_slots, io_err) result option" where
  "register_all enabled valid new configs =
     (case register_protocols enabled valid new 0 configs [] (\<lambda>_. None) of
        None \<Rightarrow> None
      | Some (Inl e) \<Rightarrow> Some (Inl e)
      | Some (Inr (existing, slots)) \<Rightarrow>
          Some (Inr \<lparr>slot = slots, rr_manager = (if existing = [] then None else Some (rr_man_new existing))\<rparr>))"

definition request_slot :: "'b rr_slots \<Rightarrow> string option \<Rightarrow> nat option" where
  "request_slot s protocol = (case protocol of
     None \<Rightarrow> Some 0
   | Some p \<Rightarrow> (case rr_manager s of
       None \<Rightarrow> None
     | Some manager \<Rightarrow> (case get_protocol manager p of
         None \<Rightarrow> None
       | Some index \<Rightarrow> if index < 10 then Some index else None)))"

definition request_response :: "'b rr_slots \<Rightarrow> string option \<Rightarrow> 'b option" where
  "request_response s protocol = (case request_slot s protocol of None \<Rightarrow> None | Some i \<Rightarrow> slot s i)"

text \<open>The list a builder passes on: at most ten entries, and never none.\<close>

definition with_request_response :: "rr_config list \<Rightarrow> rr_config list" where
  "with_request_response configs =
     (let configs = (if length configs > 10 then take 10 configs else configs) in
      if configs = [] then configs @ [rr_config_default] else configs)"

subsection \<open>Commands\<close>

datatype rr_command =
    SendRequests "string option" "peer_id list" bytes nat
  | SendRequest "string option" peer_id bytes nat
  | SendResponse "string option" peer_id inbound_id bytes nat
  | ListenForRequests "string option" nat

datatype rr_reply =
    RequestStream "((outbound_id \<times> peer_id \<times> oneshot) list) connexa_result"
  | ResponseSentReply "unit connexa_result"
  | SubscriberReply "subscriber connexa_result"

definition update_slot :: "'b rr_slots \<Rightarrow> string option \<Rightarrow> 'b \<Rightarrow> 'b rr_slots" where
  "update_slot s protocol b = (case request_slot s protocol of None \<Rightarrow> s | Some i \<Rightarrow> s\<lparr>slot := (slot s)(i := Some b)\<rparr>)"

fun process_request_response_command ::
  "('rr, 'o) rr_ops \<Rightarrow> rr_command \<Rightarrow> 'rr rr_state rr_slots \<Rightarrow> 'rr rr_state rr_slots \<times> (nat \<times> rr_reply)" where
  "process_request_response_command ops (SendRequests protocol peers request resp) s =
     (case request_response s protocol of
        None \<Rightarrow> (s, resp, RequestStream (Inl (ErrDisabled RequestResponse)))
      | Some rr \<Rightarrow> (case send_requests ops peers request rr of
          (rr, st) \<Rightarrow> (update_slot s protocol rr, resp, RequestStream (Inr st))))"
| "process_request_response_command ops (SendRequest protocol peer request resp) s =
     (case request_response s protocol of
        None \<Rightarrow> (s, resp, RequestStream (Inl (ErrDisabled RequestResponse)))
      | Some rr \<Rightarrow> (case send_request ops peer request rr of
          (rr, st) \<Rightarrow> (update_slot s protocol rr, resp, RequestStream (Inr st))))"
| "process_request_response_command ops (SendResponse protocol peer rid response resp) s =
     (case request_response s protocol of
        None \<Rightarrow> (s, resp, ResponseSentReply (Inl (ErrDisabled RequestResponse)))
      | Some rr \<Rightarrow> (case send_response ops peer rid response rr of
          (rr, ret) \<Rightarrow> (update_slot s protocol rr, resp, ResponseSentReply ret)))"
| "process_request_response_command ops (ListenForRequests protocol resp) s =
     (case request_response s protocol of
        None \<Rightarrow> (s, resp, SubscriberReply (Inl (ErrDisabled RequestResponse)))
      | Some rr \<Rightarrow> (case subscribe rr of
          (rr, rx) \<Rightarrow> (update_slot s protocol rr, resp, SubscriberReply (Inr rx))))"

subsection \<open>Properties\<close>

fun first_with :: "string \<Rightarrow> nat \<Rightarrow> rr_config list \<Rightarrow> (nat \<times> rr_config) option" where
  "first_with p k [] = None"
| "first_with p k (c # cs) = (if rr_protocol c = p then Some (k, c) else first_with p (Suc k) cs)"

lemma first_with_index: "first_with p k cs = Some (i, c) \<Longrightarrow> k \<le> i \<and> rr_protocol c = p \<and> c \<in> set cs"
  by (induction cs arbitrary: k) (auto split: if_splits dest: Suc_leD)

lemma rr_man_new_map:
  assumes "distinct (map fst l)"
  shows "map_of (rr_man_new l) p = map_of l p"
proof -
  have "map_of (fold (\<lambda>(p, i) m. AList.update p i m) l m) p = (case map_of l p of None \<Rightarrow> map_of m p | Some i \<Rightarrow> Some i)" for m
    using assms
  proof (induction l arbitrary: m)
    case (Cons x l)
    obtain q i where x: "x = (q, i)" by (cases x)
    show ?case using Cons.IH [of "AList.update q i m"] Cons.prems
      by (auto simp: x map_of_eq_None_iff [symmetric] split: option.split)
  qed simp
  from this [of "[]"] show ?thesis by (simp add: rr_man_new_def split: option.split)
qed

lemma wf_register:
  "register_protocols en valid new index cs existing slots = Some (Inr (ex, sl)) \<Longrightarrow> wf_alist existing \<Longrightarrow> wf_alist ex"
proof (induction cs arbitrary: index existing slots)
  case (Cons c cs)
  then show ?case
    by (auto split: if_splits option.splits intro: Cons.IH dest!: Cons.IH)
qed simp

definition registered ::
  "(rr_config \<Rightarrow> 'b option) \<Rightarrow> nat \<Rightarrow> rr_config list \<Rightarrow> (string, nat) alist \<Rightarrow> (string, nat) alist \<Rightarrow>
   (nat \<Rightarrow> 'b option) \<Rightarrow> string \<Rightarrow> bool" where
  "registered new index cs existing ex sl p \<longleftrightarrow> (case map_of existing p of
      Some i \<Rightarrow> map_of ex p = Some i
    | None \<Rightarrow> (case first_with p index cs of
        Some (i, c) \<Rightarrow> if i < 10 then map_of ex p = Some i \<and> sl i = new c else map_of ex p = None
      | None \<Rightarrow> map_of ex p = None))"

lemma register_protocols_spec:
  assumes "\<And>c. c \<in> set cs \<Longrightarrow> valid (rr_protocol c) \<and> new c \<noteq> None" "\<And>i. index \<le> i \<Longrightarrow> slots i = None"
  shows "\<exists>ex sl. register_protocols True valid new index cs existing slots = Some (Inr (ex, sl))
     \<and> (\<forall>i < index. sl i = slots i) \<and> (\<forall>p. registered new index cs existing ex sl p)"
  using assms
proof (induction cs arbitrary: index existing slots)
  case Nil
  then show ?case by (auto simp: registered_def split: option.split)
next
  case (Cons c cs)
  let ?p = "rr_protocol c"
  obtain b where b: "new c = Some b" using Cons.prems(1) [of c] by auto
  have valid: "valid ?p" using Cons.prems(1) [of c] by simp
  consider (dup) i where "map_of existing ?p = Some i" | (new) "map_of existing ?p = None" "index < 10"
    | (full) "map_of existing ?p = None" "\<not> index < 10" by (cases "map_of existing ?p") auto
  then show ?case
  proof cases
    case dup
    then have "contains_key existing ?p" by (metis contains_key_iff map_of_eq_None_iff option.distinct(1) set_map)
    with Cons.IH [of "Suc index" slots existing] Cons.prems valid obtain ex sl where
      run: "register_protocols True valid new index (c # cs) existing slots = Some (Inr (ex, sl))"
      and low: "\<forall>i < Suc index. sl i = slots i" and tab: "\<forall>p. registered new (Suc index) cs existing ex sl p" by auto
    have "registered new index (c # cs) existing ex sl p" for p
      using tab [rule_format, of p] dup by (cases "p = ?p") (auto simp: registered_def split: option.splits)
    with run low show ?thesis by auto
  next
    case new
    define sl1 where "sl1 = slots(index := Some b)"
    let ?ex = "AList.update ?p index existing"
    have sl1: "\<And>i. Suc index \<le> i \<Longrightarrow> sl1 i = None" "sl1 index = Some b" "\<And>i. i < index \<Longrightarrow> sl1 i = slots i"
      using Cons.prems(2) by (auto simp: sl1_def)
    have "\<not> contains_key existing ?p" using new(1) by (simp add: map_of_eq_None_iff)
    with new valid b Cons.prems(2) [of index]
    have step: "register_protocols True valid new index (c # cs) existing slots
        = register_protocols True valid new (Suc index) cs ?ex sl1" by (simp add: sl1_def)
    obtain ex sl where
      run: "register_protocols True valid new index (c # cs) existing slots = Some (Inr (ex, sl))"
      and low: "\<forall>i < Suc index. sl i = sl1 i" and tab: "\<forall>p. registered new (Suc index) cs ?ex ex sl p"
      using Cons.IH [of "Suc index" sl1 ?ex] Cons.prems(1) sl1(1) unfolding step by auto
    have "registered new index (c # cs) existing ex sl p" for p
      using tab [rule_format, of p] low new b sl1 by (cases "p = ?p") (auto simp: registered_def split: option.splits)
    with run low sl1(3) show ?thesis by auto
  next
    case full
    have "\<not> contains_key existing ?p" using full(1) by (simp add: map_of_eq_None_iff)
    with full(2) valid have "register_protocols True valid new index (c # cs) existing slots = Some (Inr (existing, slots))"
      by simp
    moreover have "registered new index (c # cs) existing existing slots p" for p
      unfolding registered_def using full(2) first_with_index [of p index "c # cs"]
      by (auto simp del: first_with.simps split: option.split)
    ultimately show ?thesis by auto
  qed
qed

text \<open>
  C34: a command reaches the behaviour of its protocol. When request-response is enabled and every configured
  name is valid, setting up the node neither fails nor panics; a command that names a protocol is
  handled by the behaviour made from the first configuration of that name, provided it is among
  the first ten, and finds nothing otherwise; a command that names none is handled by the first configuration.
\<close>

theorem rr_protocol_slots:
  assumes "\<And>c. c \<in> set cs \<Longrightarrow> valid (rr_protocol c)"
  shows "\<exists>s. register_all True valid (rr_new ops valid) cs = Some (Inr s)
     \<and> (\<forall>p. request_response s (Some p) = (case first_with p 0 cs of
          None \<Rightarrow> None | Some (i, c) \<Rightarrow> if i < 10 then rr_new ops valid c else None))
     \<and> request_response s None = (case cs of [] \<Rightarrow> None | c # _ \<Rightarrow> rr_new ops valid c)"
proof -
  have new: "rr_new ops valid c \<noteq> None" if "c \<in> set cs" for c
    using assms [OF that] by (simp add: rr_new_def Let_def)
  from register_protocols_spec [of cs valid "rr_new ops valid" 0 "\<lambda>_. None" "[]"] assms new obtain ex sl where
    run: "register_protocols True valid (rr_new ops valid) 0 cs [] (\<lambda>_. None) = Some (Inr (ex, sl))"
    and tab: "\<And>p. registered (rr_new ops valid) 0 cs [] ex sl p" by auto
  let ?s = "\<lparr>slot = sl, rr_manager = (if ex = [] then None else Some (rr_man_new ex))\<rparr>"
  have man: "map_of (rr_man_new ex) p = map_of ex p" for p
    using wf_register [OF run] by (simp add: rr_man_new_map)
  have "request_response ?s (Some p) = (case first_with p 0 cs of
          None \<Rightarrow> None | Some (i, c) \<Rightarrow> if i < 10 then rr_new ops valid c else None)" for p
    using tab [of p] by (auto simp: request_response_def request_slot_def get_protocol_def man registered_def
        split: option.splits if_splits)
  moreover have "request_response ?s None = (case cs of [] \<Rightarrow> None | c # _ \<Rightarrow> rr_new ops valid c)"
  proof (cases cs)
    case Nil
    with run show ?thesis by (auto simp: request_response_def request_slot_def)
  next
    case (Cons c cs')
    with tab [of "rr_protocol c"] show ?thesis by (simp add: request_response_def request_slot_def registered_def)
  qed
  moreover have "register_all True valid (rr_new ops valid) cs = Some (Inr ?s)" by (simp add: register_all_def run)
  ultimately show ?thesis by blast
qed

definition example_configs :: "rr_config list" where
  "example_configs = [rr_config_new ''/a'', rr_config_new ''/a'', rr_config_new ''/b'']"

theorem rr_protocol_slots_witness:
  "\<exists>s. register_all True (\<lambda>_. True) (rr_new example_ops (\<lambda>_. True)) example_configs = Some (Inr s)
     \<and> request_response s (Some ''/b'') = rr_new example_ops (\<lambda>_. True) (rr_config_new ''/b'')
     \<and> request_response s (Some ''/c'') = None"
proof -
  from rr_protocol_slots [of example_configs "\<lambda>_. True" example_ops] obtain s where
    "register_all True (\<lambda>_. True) (rr_new example_ops (\<lambda>_. True)) example_configs = Some (Inr s)"
    and at: "\<And>p. request_response s (Some p) = (case first_with p 0 example_configs of
          None \<Rightarrow> None | Some (i, c) \<Rightarrow> if i < 10 then rr_new example_ops (\<lambda>_. True) c else None)" by auto
  moreover have "first_with ''/b'' 0 example_configs = Some (2, rr_config_new ''/b'')" "first_with ''/c'' 0 example_configs = None"
    by (simp_all add: example_configs_def rr_config_new_def rr_config_default_def)
  ultimately show ?thesis using at by auto
qed

fun command_protocol :: "rr_command \<Rightarrow> string option" where
  "command_protocol (SendRequests p _ _ _) = p"
| "command_protocol (SendRequest p _ _ _) = p"
| "command_protocol (SendResponse p _ _ _ _) = p"
| "command_protocol (ListenForRequests p _) = p"

fun command_responder :: "rr_command \<Rightarrow> nat" where
  "command_responder (SendRequests _ _ _ r) = r"
| "command_responder (SendRequest _ _ _ r) = r"
| "command_responder (SendResponse _ _ _ _ r) = r"
| "command_responder (ListenForRequests _ r) = r"

fun reply_disabled :: "rr_reply \<Rightarrow> bool" where
  "reply_disabled (RequestStream r) = (r = Inl (ErrDisabled RequestResponse))"
| "reply_disabled (ResponseSentReply r) = (r = Inl (ErrDisabled RequestResponse))"
| "reply_disabled (SubscriberReply r) = (r = Inl (ErrDisabled RequestResponse))"

text \<open>
  A command answers its own caller and touches no other protocol: the reply goes to the responder of
  the command, it says that request-response is disabled exactly when the protocol has no behaviour, and
  the behaviours of all other slots and the protocol table stay as they are.
\<close>

theorem rr_command_isolated:
  shows "fst (snd (process_request_response_command ops cmd s)) = command_responder cmd
     \<and> (reply_disabled (snd (snd (process_request_response_command ops cmd s)))
          = (request_response s (command_protocol cmd) = None))
     \<and> rr_manager (fst (process_request_response_command ops cmd s)) = rr_manager s
     \<and> (\<forall>j. Some j = request_slot s (command_protocol cmd) \<or>
          slot (fst (process_request_response_command ops cmd s)) j = slot s j)"
  by (cases cmd)
    (auto simp: update_slot_def send_response_def Let_def split: option.split prod.split)

end
