(* ===== verification/Peer_Store.thy ===== *)
theory Peer_Store
  imports Multiaddr_Ext Connexa_Error
begin

section \<open>The peer store (\<^verbatim>\<open>src/src/behaviour/peer_store.rs\<close> and \<^verbatim>\<open>peer_store/store/\<close>)\<close>

text \<open>
  The in-memory store of peer addresses, the store that refuses everything, and the behaviour that offers
  the addresses to the swarm. Insertion-ordered maps and sets are lists. The map of timers is relied on
  as documented, except for an insertion under an existing key, which may keep or replace the old
  timer (\<open>replaces_timer\<close>). Which of the running timers a poll finds ready is up to the thread that drives them
  (\<open>fired\<close>, of the key and the deadline), and so is the order in which they are reported (\<open>ready_order\<close>).
\<close>

type_synonym moment = nat
type_synonym timer_key = "peer_id \<times> multiaddr"

definition EXPIRY_SECS :: nat where "EXPIRY_SECS = 60"

record memory_store =
  ps_peers :: "(peer_id, multiaddr list) alist"
  ps_connections :: "(peer_id \<times> connection_id, multiaddr) alist"
  ps_persistent :: "peer_id list"
  ps_timer :: "(timer_key, moment) alist"

record store_env =
  st_now :: moment
  replaces_timer :: bool
  fired :: "timer_key \<Rightarrow> moment \<Rightarrow> bool"
  ready_order :: "timer_key list \<Rightarrow> timer_key list"

datatype store_event =
    NewExternalAddrOfPeer peer_id multiaddr
  | PeerConnected peer_id connection_id multiaddr
  | PeerClosed peer_id connection_id multiaddr
  | OtherSwarmEvent

definition set_insert :: "'a \<Rightarrow> 'a list \<Rightarrow> 'a list" where
  "set_insert x xs = (if x \<in> set xs then xs else xs @ [x])"

definition or_default :: "('k, 'v list) alist \<Rightarrow> 'k \<Rightarrow> 'v list" where
  "or_default m k = (case map_of m k of None \<Rightarrow> [] | Some l \<Rightarrow> l)"

definition add_address :: "peer_id \<Rightarrow> multiaddr \<Rightarrow> (peer_id, multiaddr list) alist \<Rightarrow> (peer_id, multiaddr list) alist" where
  "add_address p a m = AList.update p (set_insert a (or_default m p)) m"

definition memory_store_default :: memory_store where
  "memory_store_default = \<lparr>ps_peers = [], ps_connections = [], ps_persistent = [], ps_timer = []\<rparr>"

definition store_from_iter :: "(peer_id \<times> multiaddr) list \<Rightarrow> memory_store" where
  "store_from_iter l = fold (\<lambda>(p, a) s. s\<lparr>ps_persistent := set_insert p (ps_persistent s),
     ps_peers := add_address p a (ps_peers s)\<rparr>) l memory_store_default"

definition store_insert :: "peer_id \<Rightarrow> multiaddr \<Rightarrow> memory_store \<Rightarrow> memory_store \<times> (unit, io_err) result" where
  "store_insert p a s =
     (let fresh = (a \<notin> set (or_default (ps_peers s) p));
          s = s\<lparr>ps_persistent := set_insert p (ps_persistent s), ps_timer := AList.delete (p, a) (ps_timer s),
                ps_peers := add_address p a (ps_peers s)\<rparr>
      in (s, if fresh then Inr () else Inl (IoErr AlreadyExistsKind (Message ''address already exists''))))"

definition store_remove :: "peer_id \<Rightarrow> memory_store \<Rightarrow> memory_store \<times> (multiaddr list, io_err) result" where
  "store_remove p s = (case map_of (ps_peers s) p of
     Some l \<Rightarrow> (s\<lparr>ps_peers := AList.delete p (ps_peers s), ps_persistent := removeAll p (ps_persistent s)\<rparr>, Inr l)
   | None \<Rightarrow> (s, Inl (IoErr NotFoundKind (Message ''peer not found''))))"

definition store_remove_address :: "peer_id \<Rightarrow> multiaddr \<Rightarrow> memory_store \<Rightarrow> memory_store \<times> (unit, io_err) result" where
  "store_remove_address p a s = (case map_of (ps_peers s) p of
     None \<Rightarrow> (s, Inl (IoErr NotFoundKind (Message ''peer not found'')))
   | Some l \<Rightarrow>
       if a \<notin> set l then (s, Inl (IoErr NotFoundKind (Message ''address not found'')))
       else
         let l' = removeAll a l;
             s = (if l' = []
                  then s\<lparr>ps_peers := AList.delete p (ps_peers s), ps_persistent := removeAll p (ps_persistent s)\<rparr>
                  else s\<lparr>ps_peers := AList.update p l' (ps_peers s)\<rparr>)
         in (s, Inr ()))"

definition store_address :: "peer_id \<Rightarrow> memory_store \<Rightarrow> (multiaddr list, io_err) result" where
  "store_address p s = (case map_of (ps_peers s) p of
     None \<Rightarrow> Inl (IoErr NotFoundKind (Message ''peer not found''))
   | Some l \<Rightarrow> Inr l)"

definition store_list_all :: "memory_store \<Rightarrow> ((peer_id \<times> multiaddr list) list, io_err) result" where
  "store_list_all s = Inr (ps_peers s)"

definition in_memory_address :: "peer_id \<Rightarrow> memory_store \<Rightarrow> multiaddr list" where
  "in_memory_address p s = (case map_of (ps_peers s) p of None \<Rightarrow> [] | Some l \<Rightarrow> l)"

definition timer_insert :: "store_env \<Rightarrow> timer_key \<Rightarrow> moment \<Rightarrow> (timer_key, moment) alist \<Rightarrow> (timer_key, moment) alist" where
  "timer_insert env k t m = (if contains_key m k \<and> \<not> replaces_timer env then m else AList.update k t m)"

fun store_on_swarm_event :: "store_env \<Rightarrow> store_event \<Rightarrow> memory_store \<Rightarrow> memory_store" where
  "store_on_swarm_event env (NewExternalAddrOfPeer p a) s =
     s\<lparr>ps_peers := add_address p a (ps_peers s), ps_persistent := set_insert p (ps_persistent s)\<rparr>"
| "store_on_swarm_event env (PeerConnected p c remote) s =
     s\<lparr>ps_connections := AList.update (p, c) remote (ps_connections s),
       ps_peers := add_address p remote (ps_peers s),
       ps_timer := AList.delete (p, remote) (ps_timer s)\<rparr>"
| "store_on_swarm_event env (PeerClosed p c remote) s =
     (let s = s\<lparr>ps_connections := AList.delete (p, c) (ps_connections s)\<rparr>;
          still_connected = list_ex (\<lambda>((q, _), a). q = p \<and> a = remote) (ps_connections s)
      in if \<not> still_connected \<and> p \<notin> set (ps_persistent s)
         then s\<lparr>ps_timer := timer_insert env (p, remote) (st_now env + EXPIRY_SECS) (ps_timer s)\<rparr>
         else s)"
| "store_on_swarm_event env OtherSwarmEvent s = s"

definition fired_keys :: "store_env \<Rightarrow> memory_store \<Rightarrow> timer_key list" where
  "fired_keys env s = map fst (filter (\<lambda>(k, t). fired env k t) (ps_timer s))"

fun expire :: "timer_key list \<Rightarrow> memory_store \<Rightarrow> memory_store" where
  "expire [] s = s"
| "expire ((p, a) # ks) s =
     expire ks (fst (store_remove_address p a (s\<lparr>ps_timer := AList.delete (p, a) (ps_timer s)\<rparr>)))"

definition store_poll :: "store_env \<Rightarrow> memory_store \<Rightarrow> memory_store" where
  "store_poll env s = expire (ready_order env (fired_keys env s)) s"

subsection \<open>The store interface and the behaviour\<close>

record 's store_ops =
  so_insert :: "peer_id \<Rightarrow> multiaddr \<Rightarrow> 's \<Rightarrow> 's \<times> (unit, io_err) result"
  so_remove :: "peer_id \<Rightarrow> 's \<Rightarrow> 's \<times> (multiaddr list, io_err) result"
  so_remove_address :: "peer_id \<Rightarrow> multiaddr \<Rightarrow> 's \<Rightarrow> 's \<times> (unit, io_err) result"
  so_address :: "peer_id \<Rightarrow> 's \<Rightarrow> (multiaddr list, io_err) result"
  so_list_all :: "'s \<Rightarrow> ((peer_id \<times> multiaddr list) list, io_err) result"
  so_in_memory_address :: "peer_id \<Rightarrow> 's \<Rightarrow> multiaddr list"
  so_on_swarm_event :: "store_env \<Rightarrow> store_event \<Rightarrow> 's \<Rightarrow> 's"
  so_poll :: "store_env \<Rightarrow> 's \<Rightarrow> 's"

definition memory_store_ops :: "memory_store store_ops" where
  "memory_store_ops = \<lparr>so_insert = store_insert, so_remove = store_remove, so_remove_address = store_remove_address,
     so_address = store_address, so_list_all = store_list_all, so_in_memory_address = in_memory_address,
     so_on_swarm_event = store_on_swarm_event, so_poll = store_poll\<rparr>"

definition dummy_error :: io_err where
  "dummy_error = IoErr OtherKind NoPayload"

definition dummy_store_ops :: "unit store_ops" where
  "dummy_store_ops = \<lparr>so_insert = (\<lambda>_ _ s. (s, Inl dummy_error)), so_remove = (\<lambda>_ s. (s, Inl dummy_error)),
     so_remove_address = (\<lambda>_ _ s. (s, Inl dummy_error)), so_address = (\<lambda>_ _. Inl dummy_error),
     so_list_all = (\<lambda>_. Inl dummy_error), so_in_memory_address = (\<lambda>_ _. []), so_on_swarm_event = (\<lambda>_ _ s. s),
     so_poll = (\<lambda>_ s. s)\<rparr>"

definition handle_pending_outbound :: "'s store_ops \<Rightarrow> peer_id option \<Rightarrow> 's \<Rightarrow> multiaddr list" where
  "handle_pending_outbound ops maybe_peer s = (case maybe_peer of
     None \<Rightarrow> []
   | Some p \<Rightarrow> so_in_memory_address ops p s)"

text \<open>
  What the behaviour relies on: the addresses a dial gets are those the store reports, an insertion that succeeds makes
  the address known, and a removal makes the peer unknown.
\<close>

locale address_store =
  fixes ops :: "'s store_ops"
  assumes in_memory: "\<And>p s. so_in_memory_address ops p s = (case so_address ops p s of Inl _ \<Rightarrow> [] | Inr l \<Rightarrow> l)"
    and inserted: "\<And>p a s s'. so_insert ops p a s = (s', Inr ()) \<Longrightarrow>
      a \<in> set (so_in_memory_address ops p s') \<and> (\<forall>q. q \<noteq> p \<longrightarrow> so_address ops q s' = so_address ops q s)"
    and removed: "\<And>p s s' l. so_remove ops p s = (s', Inr l) \<Longrightarrow>
      so_address ops p s = Inr l \<and> (\<exists>e. so_address ops p s' = Inl e)"
begin

lemma dial_after_insert:
  "so_insert ops p a s = (s', Inr ()) \<Longrightarrow> a \<in> set (handle_pending_outbound ops (Some p) s')
     \<and> (\<forall>q. q \<noteq> p \<longrightarrow> handle_pending_outbound ops (Some q) s' = handle_pending_outbound ops (Some q) s)"
  using inserted by (auto simp: handle_pending_outbound_def in_memory)

lemma dial_after_remove:
  "so_remove ops p s = (s', Inr l) \<Longrightarrow> handle_pending_outbound ops (Some p) s = l
     \<and> handle_pending_outbound ops (Some p) s' = []"
  using removed by (fastforce simp: handle_pending_outbound_def in_memory)

end

lemma set_set_insert [simp]: "set (set_insert x xs) = insert x (set xs)" "distinct (set_insert x xs) = distinct xs"
  "set_insert x xs \<noteq> []"
  by (auto simp: set_insert_def)

lemma map_of_add_address:
  "map_of (add_address p a m) q = (if q = p then Some (set_insert a (or_default m p)) else map_of m q)"
  by (simp add: add_address_def)

interpretation memory: address_store memory_store_ops
proof (unfold_locales, goal_cases)
  case (1 p s)
  show ?case by (simp add: memory_store_ops_def in_memory_address_def store_address_def split: option.split)
next
  case (2 p a s s')
  then show ?case
    by (auto simp: memory_store_ops_def store_insert_def store_address_def in_memory_address_def map_of_add_address
        Let_def split: if_splits)
next
  case (3 p s s' l)
  then show ?case by (auto simp: memory_store_ops_def store_remove_def store_address_def split: option.splits)
qed

interpretation dummy: address_store dummy_store_ops
  by unfold_locales (simp_all add: dummy_store_ops_def)

end
