(* ===== verification/Peer_Store_Properties.thy ===== *)
theory Peer_Store_Properties
  imports Peer_Store
begin

section \<open>What the peer store guarantees\<close>

text \<open>
  Runs of the in-memory store, its invariant, and which addresses expire and which are kept.
\<close>

definition lawful :: "store_env \<Rightarrow> bool" where
  "lawful env \<longleftrightarrow> (\<forall>ks. set (ready_order env ks) = set ks)"

inductive ps_quiet :: "memory_store \<Rightarrow> memory_store \<Rightarrow> bool" where
  event: "ps_quiet s (store_on_swarm_event env ev s)"
| poll: "lawful env \<Longrightarrow> ps_quiet s (store_poll env s)"

inductive ps_step :: "memory_store \<Rightarrow> memory_store \<Rightarrow> bool" where
  quiet: "ps_quiet s s' \<Longrightarrow> ps_step s s'"
| insert: "ps_step s (fst (store_insert p a s))"
| remove: "ps_step s (fst (store_remove p s))"
| remove_address: "ps_step s (fst (store_remove_address p a s))"

definition ps_reachable :: "memory_store \<Rightarrow> bool" where
  "ps_reachable s \<longleftrightarrow> (\<exists>l. ps_step\<^sup>*\<^sup>* (store_from_iter l) s)"

subsection \<open>The invariant\<close>

text \<open>No timer runs for an address that a connection of the peer uses.\<close>

definition idle_timers :: "(peer_id \<times> connection_id, multiaddr) alist \<Rightarrow> (timer_key, moment) alist \<Rightarrow> bool" where
  "idle_timers conns timers \<longleftrightarrow> (\<forall>p a c. map_of timers (p, a) \<noteq> None \<longrightarrow> map_of conns (p, c) \<noteq> Some a)"

lemma idle_timers_changes:
  "idle_timers C T \<Longrightarrow> idle_timers C (AList.delete k T)"
  "idle_timers C T \<Longrightarrow> idle_timers (AList.delete j C) T"
  "idle_timers C T \<Longrightarrow> idle_timers (AList.update (p, c) a C) (AList.delete (p, a) T)"
  by (auto simp: idle_timers_def)

lemma idle_timers_insert:
  assumes "idle_timers C T" "\<not> list_ex (\<lambda>((q, _), b). q = p \<and> b = a) C"
  shows "idle_timers C (timer_insert env (p, a) t T)"
proof -
  have "map_of C (p, c) \<noteq> Some a" for c
    using assms(2) by (auto simp: list_ex_iff dest: map_of_SomeD)
  with assms(1) show ?thesis by (auto simp: idle_timers_def timer_insert_def)
qed

definition peers_ok :: "(peer_id, multiaddr list) alist \<Rightarrow> peer_id list \<Rightarrow> bool" where
  "peers_ok m persistent \<longleftrightarrow> (\<forall>p l. map_of m p = Some l \<longrightarrow> l \<noteq> [] \<and> distinct l)
     \<and> set persistent \<subseteq> dom (map_of m)"

definition conns_wf :: "(peer_id \<times> connection_id, multiaddr) alist \<Rightarrow> bool" where
  "conns_wf conns \<longleftrightarrow> wf_alist conns"

definition ps_ok :: "memory_store \<Rightarrow> bool" where
  "ps_ok s \<longleftrightarrow> peers_ok (ps_peers s) (ps_persistent s) \<and> idle_timers (ps_connections s) (ps_timer s) \<and> conns_wf (ps_connections s)"

lemma conns_wf_simps [simp]: "conns_wf []" "conns_wf C \<Longrightarrow> conns_wf (AList.update k a C)" "conns_wf C \<Longrightarrow> conns_wf (AList.delete k C)"
  by (simp_all add: conns_wf_def)

lemma dom_add_address [simp]: "dom (map_of (add_address p a m)) = insert p (dom (map_of m))"
  by (auto simp: map_of_add_address dom_def)

lemma peers_ok_changes:
  "peers_ok m ps \<Longrightarrow> peers_ok (add_address p a m) (set_insert p ps)"
  "peers_ok m ps \<Longrightarrow> peers_ok (add_address p a m) ps"
  "peers_ok m ps \<Longrightarrow> peers_ok (AList.delete p m) (removeAll p ps)"
  "peers_ok m ps \<Longrightarrow> map_of m p = Some l \<Longrightarrow> removeAll a l \<noteq> [] \<Longrightarrow> peers_ok (AList.update p (removeAll a l) m) ps"
  by (auto simp: peers_ok_def map_of_add_address or_default_def distinct_removeAll split: option.splits if_splits)

lemma ps_ok_insert: "ps_ok s \<Longrightarrow> ps_ok (fst (store_insert p a s))"
  by (simp add: ps_ok_def store_insert_def Let_def peers_ok_changes idle_timers_changes)

lemma ps_ok_remove: "ps_ok s \<Longrightarrow> ps_ok (fst (store_remove p s))"
  by (simp add: ps_ok_def store_remove_def peers_ok_changes split: option.split)

lemma ps_ok_remove_address: "ps_ok s \<Longrightarrow> ps_ok (fst (store_remove_address p a s))"
  by (auto simp: ps_ok_def store_remove_address_def Let_def peers_ok_changes split: option.split)

lemma ps_ok_expire: "ps_ok s \<Longrightarrow> ps_ok (expire ks s)"
proof (induction ks arbitrary: s)
  case (Cons k ks)
  obtain p a where k: "k = (p, a)" by (cases k)
  have "ps_ok (s\<lparr>ps_timer := AList.delete (p, a) (ps_timer s)\<rparr>)"
    using Cons.prems by (simp add: ps_ok_def idle_timers_changes)
  from Cons.IH [OF ps_ok_remove_address [OF this]] show ?case by (simp add: k)
qed simp

lemma ps_ok_event: "ps_ok s \<Longrightarrow> ps_ok (store_on_swarm_event env ev s)"
  by (cases ev) (simp_all add: ps_ok_def peers_ok_changes idle_timers_changes idle_timers_insert Let_def)

lemma ps_ok_quiet: "ps_quiet s s' \<Longrightarrow> ps_ok s \<Longrightarrow> ps_ok s'"
  by (induction rule: ps_quiet.induct) (simp_all add: store_poll_def ps_ok_event ps_ok_expire)

lemma ps_ok_step:
  assumes "ps_step s s'" "ps_ok s"
  shows "ps_ok s'"
  using assms(1)
proof cases
  case quiet
  from ps_ok_quiet [OF this assms(2)] show ?thesis .
next
  case insert
  with ps_ok_insert [OF assms(2)] show ?thesis by (simp only:)
next
  case remove
  with ps_ok_remove [OF assms(2)] show ?thesis by (simp only:)
next
  case remove_address
  with ps_ok_remove_address [OF assms(2)] show ?thesis by (simp only:)
qed

lemma ps_ok_fold:
  "ps_ok s \<Longrightarrow> ps_ok (fold (\<lambda>(p, a) s. s\<lparr>ps_persistent := set_insert p (ps_persistent s),
     ps_peers := add_address p a (ps_peers s)\<rparr>) l s)"
proof (induction l arbitrary: s)
  case (Cons x l)
  obtain p a where x: "x = (p, a)" by (cases x)
  have "ps_ok (s\<lparr>ps_persistent := set_insert p (ps_persistent s), ps_peers := add_address p a (ps_peers s)\<rparr>)"
    using Cons.prems by (simp add: ps_ok_def peers_ok_changes)
  from Cons.IH [OF this] show ?case by (simp only: x fold_simps prod.case)
qed simp

lemma ps_ok_from_iter: "ps_ok (store_from_iter l)"
  unfolding store_from_iter_def
  by (rule ps_ok_fold) (simp add: memory_store_default_def ps_ok_def peers_ok_def idle_timers_def)

lemma reachable_ps_ok: "ps_reachable s \<Longrightarrow> ps_ok s"
proof -
  have "ps_ok s'" if "ps_step\<^sup>*\<^sup>* s s'" "ps_ok s" for s s'
    using that by (induction rule: rtranclp_induct) (auto intro: ps_ok_step)
  then show "ps_reachable s \<Longrightarrow> ps_ok s" using ps_ok_from_iter by (auto simp: ps_reachable_def)
qed

text \<open>
  C36: in every reachable state each known peer has at least one address and none twice, every persistent
  peer is known, and no expiry timer runs for an address over which the peer is connected.
\<close>

theorem ps_state_wellformed:
  assumes "ps_reachable s"
  shows "(\<forall>p l. map_of (ps_peers s) p = Some l \<longrightarrow> l \<noteq> [] \<and> distinct l)
     \<and> set (ps_persistent s) \<subseteq> dom (map_of (ps_peers s))
     \<and> (\<forall>p a c. map_of (ps_connections s) (p, c) = Some a \<longrightarrow> map_of (ps_timer s) (p, a) = None)"
  using reachable_ps_ok [OF assms] unfolding ps_ok_def peers_ok_def idle_timers_def by blast

subsection \<open>What expires\<close>

lemma in_memory_remove_address:
  "in_memory_address q (fst (store_remove_address p a s)) =
     (if q = p then removeAll a (in_memory_address p s) else in_memory_address q s)"
  by (auto simp: in_memory_address_def store_remove_address_def Let_def split: option.splits)

lemma in_memory_timer [simp]: "in_memory_address p (s\<lparr>ps_timer := T\<rparr>) = in_memory_address p s"
  by (simp add: in_memory_address_def)

lemma in_memory_expire: "in_memory_address p (expire ks s) = filter (\<lambda>a. (p, a) \<notin> set ks) (in_memory_address p s)"
proof (induction ks arbitrary: s)
  case (Cons k ks)
  obtain q b where k: "k = (q, b)" by (cases k)
  show ?case
    by (auto simp: k Cons.IH in_memory_remove_address removeAll_filter_not_eq filter_filter intro!: filter_cong)
qed simp

lemma set_fired_keys: "set (fired_keys env s) = {k. \<exists>t. (k, t) \<in> set (ps_timer s) \<and> fired env k t}"
  by (force simp: fired_keys_def)

text \<open>
  A poll removes exactly the addresses whose timer has fired. In particular an address over which the peer
  is connected survives every poll.
\<close>

theorem ps_poll_expires_due:
  assumes "ps_reachable s" "lawful env"
  shows "in_memory_address p (store_poll env s)
       = filter (\<lambda>a. \<not> (\<exists>t. ((p, a), t) \<in> set (ps_timer s) \<and> fired env (p, a) t)) (in_memory_address p s)
     \<and> (\<forall>c a. map_of (ps_connections s) (p, c) = Some a \<longrightarrow> a \<in> set (in_memory_address p s)
          \<longrightarrow> a \<in> set (in_memory_address p (store_poll env s)))"
proof -
  have eq: "in_memory_address p (store_poll env s)
       = filter (\<lambda>a. \<not> (\<exists>t. ((p, a), t) \<in> set (ps_timer s) \<and> fired env (p, a) t)) (in_memory_address p s)"
    using assms(2) by (simp add: store_poll_def in_memory_expire lawful_def set_fired_keys)
  have "((p, a), t) \<notin> set (ps_timer s)" if "map_of (ps_connections s) (p, c) = Some a" for c a t
    using reachable_ps_ok [OF assms(1)] that by (force simp: ps_ok_def idle_timers_def map_of_eq_None_iff)
  with eq show ?thesis by auto
qed

text \<open>An address added by hand: the peer is persistent and the address has no timer.\<close>

definition pinned :: "peer_id \<Rightarrow> multiaddr \<Rightarrow> memory_store \<Rightarrow> bool" where
  "pinned p a s \<longleftrightarrow> a \<in> set (in_memory_address p s) \<and> p \<in> set (ps_persistent s) \<and> map_of (ps_timer s) (p, a) = None"

lemma pinned_event: "pinned p a s \<Longrightarrow> pinned p a (store_on_swarm_event env ev s)"
  by (cases ev) (auto simp: pinned_def in_memory_address_def map_of_add_address or_default_def timer_insert_def Let_def
      split: option.splits if_splits)

lemma pinned_expire: "(p, a) \<notin> set ks \<Longrightarrow> pinned p a s \<Longrightarrow> pinned p a (expire ks s)"
proof (induction ks arbitrary: s)
  case (Cons k ks)
  obtain q b where k: "k = (q, b)" by (cases k)
  let ?s = "fst (store_remove_address q b (s\<lparr>ps_timer := AList.delete (q, b) (ps_timer s)\<rparr>))"
  have "pinned p a ?s"
  proof -
    have "a \<in> set (in_memory_address p ?s)"
      using Cons.prems k by (auto simp: in_memory_remove_address pinned_def)
    moreover have "p \<in> set (ps_persistent ?s)"
      using Cons.prems k
      by (auto simp: pinned_def store_remove_address_def in_memory_address_def Let_def split: option.splits
          dest!: arg_cong [where f = set])
    moreover have "map_of (ps_timer ?s) (p, a) = None"
      using Cons.prems by (auto simp: pinned_def store_remove_address_def Let_def split: option.splits)
    ultimately show ?thesis by (simp add: pinned_def)
  qed
  with Cons show ?case by (simp add: k)
qed simp

lemma pinned_quiet: "ps_quiet s s' \<Longrightarrow> pinned p a s \<Longrightarrow> pinned p a s'"
proof (induction rule: ps_quiet.induct)
  case (poll env s)
  then have "(p, a) \<notin> set (ready_order env (fired_keys env s))"
    by (force simp: lawful_def set_fired_keys pinned_def map_of_eq_None_iff)
  with poll show ?case by (simp add: store_poll_def pinned_expire)
qed (simp add: pinned_event)

text \<open>
  C17: an address added by hand does not expire. After an insertion, whatever connections open and close
  and however much time passes, the address is still offered for dialling, until it is removed by hand.
\<close>

theorem ps_inserted_address_kept:
  assumes "ps_quiet\<^sup>*\<^sup>* (fst (store_insert p a s)) s'"
  shows "a \<in> set (handle_pending_outbound memory_store_ops (Some p) s')"
proof -
  have "pinned p a s'" using assms
  proof (induction rule: rtranclp_induct)
    case base
    show ?case
      by (auto simp: pinned_def store_insert_def Let_def in_memory_address_def map_of_add_address split: if_splits)
  qed (auto intro: pinned_quiet)
  then show ?thesis by (simp add: pinned_def handle_pending_outbound_def memory_store_ops_def)
qed

text \<open>Steps that do not add the address \<open>a\<close> of the peer \<open>p\<close>; everything else may happen, at any time.\<close>

fun about :: "store_event \<Rightarrow> (peer_id \<times> multiaddr) option" where
  "about (NewExternalAddrOfPeer p a) = Some (p, a)"
| "about (PeerConnected p c a) = Some (p, a)"
| "about (PeerClosed p c a) = Some (p, a)"
| "about OtherSwarmEvent = None"

inductive ps_apart :: "peer_id \<Rightarrow> multiaddr \<Rightarrow> memory_store \<Rightarrow> memory_store \<Rightarrow> bool" for p a where
  event: "about ev \<noteq> Some (p, a) \<Longrightarrow> ps_apart p a s (store_on_swarm_event env ev s)"
| poll: "lawful env \<Longrightarrow> ps_apart p a s (store_poll env s)"
| insert: "(q, b) \<noteq> (p, a) \<Longrightarrow> ps_apart p a s (fst (store_insert q b s))"
| remove: "ps_apart p a s (fst (store_remove q s))"
| remove_address: "ps_apart p a s (fst (store_remove_address q b s))"

text \<open>The timer of an address that is still known keeps running, with its deadline.\<close>

definition expiring :: "moment \<Rightarrow> peer_id \<Rightarrow> multiaddr \<Rightarrow> memory_store \<Rightarrow> bool" where
  "expiring t p a s \<longleftrightarrow> a \<in> set (in_memory_address p s) \<longrightarrow> map_of (ps_timer s) (p, a) = Some t"

lemma timer_store_ops [simp]:
  "ps_timer (fst (store_remove q s)) = ps_timer s" "ps_timer (fst (store_remove_address q b s)) = ps_timer s"
  by (simp_all add: store_remove_def store_remove_address_def Let_def split: option.split)

lemma map_of_timer_expire: "k \<notin> set ks \<Longrightarrow> map_of (ps_timer (expire ks s)) k = map_of (ps_timer s) k"
proof (induction ks arbitrary: s)
  case (Cons j ks)
  then show ?case by (cases j) auto
qed simp

lemma expiring_apart:
  assumes "ps_apart p a s s'" and "expiring t p a s"
  shows "expiring t p a s'"
  using assms
proof (induction rule: ps_apart.induct)
  case (event ev s env)
  then show ?case
    by (cases ev) (auto simp: expiring_def in_memory_address_def map_of_add_address or_default_def timer_insert_def Let_def
        split: option.splits if_splits)
next
  case (poll env s)
  then show ?case
    by (auto simp: expiring_def store_poll_def in_memory_expire map_of_timer_expire)
next
  case (insert q b s)
  then show ?case
    by (auto simp: expiring_def store_insert_def in_memory_address_def map_of_add_address or_default_def Let_def
        split: option.splits if_splits)
next
  case (remove s q)
  then show ?case
    by (auto simp: expiring_def in_memory_address_def store_remove_def split: option.splits if_splits)
next
  case (remove_address s q b)
  then show ?case by (auto simp: expiring_def in_memory_remove_address split: if_splits)
qed

lemma expiring_run: "(ps_apart p a)\<^sup>*\<^sup>* s s' \<Longrightarrow> expiring t p a s \<Longrightarrow> expiring t p a s'"
  by (induction rule: rtranclp_induct) (auto intro: expiring_apart)

lemma closed_starts_timer:
  assumes "ps_reachable s" "map_of (ps_connections s) (p, c) = Some a" "p \<notin> set (ps_persistent s)"
    and "\<And>c'. c' \<noteq> c \<Longrightarrow> map_of (ps_connections s) (p, c') \<noteq> Some a"
  shows "map_of (ps_timer (store_on_swarm_event env (PeerClosed p c a) s)) (p, a) = Some (st_now env + EXPIRY_SECS)"
proof -
  let ?C = "AList.delete (p, c) (ps_connections s)"
  have "wf_alist (ps_connections s)" using reachable_ps_ok [OF assms(1)] by (simp add: ps_ok_def conns_wf_def)
  moreover have timer: "map_of (ps_timer s) (p, a) = None"
    using reachable_ps_ok [OF assms(1)] assms(2) unfolding ps_ok_def idle_timers_def by blast
  ultimately have wf: "wf_alist ?C" by simp
  have "((p, c'), a) \<notin> set ?C" for c'
    using assms(4) [of c'] map_of_is_SomeI [OF wf, of "(p, c')" a] by (auto simp del: map_of_eq_Some_iff split: if_splits)
  then have "\<not> list_ex (\<lambda>((q, _), b). q = p \<and> b = a) ?C" by (auto simp: list_ex_iff)
  with assms(3) timer show ?thesis by (auto simp: timer_insert_def Let_def map_of_eq_None_iff)
qed

text \<open>
  C37: an address known only from a connection is forgotten. When the last connection over an address of a peer that was never added by
  hand closes, a timer of sixty seconds starts. Whatever happens afterwards, events of other peers and addresses, polls at any time, changes
  by hand, the address is gone after the first poll that finds the timer expired, unless that address of that peer was
  connected, announced or added again.
\<close>

theorem ps_closed_address_expires:
  assumes "ps_reachable s" "map_of (ps_connections s) (p, c) = Some a" "p \<notin> set (ps_persistent s)"
    and "\<And>c'. c' \<noteq> c \<Longrightarrow> map_of (ps_connections s) (p, c') \<noteq> Some a"
    and "(ps_apart p a)\<^sup>*\<^sup>* (store_on_swarm_event env (PeerClosed p c a) s) s'"
    and "lawful later" "fired later (p, a) (st_now env + EXPIRY_SECS)"
  shows "a \<notin> set (in_memory_address p (store_poll later s'))"
proof -
  have "expiring (st_now env + EXPIRY_SECS) p a (store_on_swarm_event env (PeerClosed p c a) s)"
    unfolding expiring_def by (rule impI) (rule closed_starts_timer [OF assms(1-4)])
  from expiring_run [OF assms(5) this] have e: "expiring (st_now env + EXPIRY_SECS) p a s'" .
  show ?thesis
  proof (cases "a \<in> set (in_memory_address p s')")
    case True
    with e have "((p, a), st_now env + EXPIRY_SECS) \<in> set (ps_timer s')" by (auto simp: expiring_def dest: map_of_SomeD)
    with assms(6,7) show ?thesis by (auto simp: store_poll_def in_memory_expire lawful_def set_fired_keys)
  qed (simp add: store_poll_def in_memory_expire)
qed

subsection \<open>Instances\<close>

definition example_store_env :: "moment \<Rightarrow> store_env" where
  "example_store_env now = \<lparr>st_now = now, replaces_timer = False, fired = (\<lambda>_ t. t \<le> now), ready_order = (\<lambda>ks. ks)\<rparr>"

lemma example_lawful: "lawful (example_store_env now)"
  by (simp add: lawful_def example_store_env_def)

definition example_store :: memory_store where
  "example_store = store_on_swarm_event (example_store_env 0) (PeerConnected (PeerId 1) (ConnectionId 1) [P2p (PeerId 1)])
     memory_store_default"

lemma example_store_eq: "example_store = \<lparr>ps_peers = [(PeerId 1, [[P2p (PeerId 1)]])],
     ps_connections = [((PeerId 1, ConnectionId 1), [P2p (PeerId 1)])], ps_persistent = [], ps_timer = []\<rparr>"
  by (simp add: example_store_def memory_store_default_def add_address_def or_default_def set_insert_def)

lemma example_store_reachable: "ps_reachable example_store"
proof -
  have "store_from_iter [] = memory_store_default" by (simp add: store_from_iter_def)
  moreover have "ps_step memory_store_default example_store"
    unfolding example_store_def by (intro ps_step.quiet ps_quiet.event)
  ultimately show ?thesis by (metis ps_reachable_def r_into_rtranclp)
qed

theorem ps_state_wellformed_witness: "set (ps_persistent example_store) \<subseteq> dom (map_of (ps_peers example_store))"
  using ps_state_wellformed [OF example_store_reachable] by blast

theorem ps_poll_expires_due_witness:
  "[P2p (PeerId 1)] \<in> set (in_memory_address (PeerId 1) (store_poll (example_store_env 900) example_store))"
  using ps_poll_expires_due [OF example_store_reachable example_lawful, of "PeerId 1" 900]
  by (auto simp: example_store_eq in_memory_address_def)

theorem ps_inserted_address_kept_witness:
  "[P2p (PeerId 2)] \<in> set (handle_pending_outbound memory_store_ops (Some (PeerId 2))
     (store_poll (example_store_env 900) (fst (store_insert (PeerId 2) [P2p (PeerId 2)] example_store))))"
  by (rule ps_inserted_address_kept [of _ _ example_store]) (intro r_into_rtranclp ps_quiet.poll example_lawful)

text \<open>The connection closes at time 0; there is a poll at time 30, and another peer connects at time 40.\<close>

definition example_closed :: memory_store where
  "example_closed = store_on_swarm_event (example_store_env 0) (PeerClosed (PeerId 1) (ConnectionId 1) [P2p (PeerId 1)]) example_store"

definition example_closed_later :: memory_store where
  "example_closed_later = store_on_swarm_event (example_store_env 40) (PeerConnected (PeerId 2) (ConnectionId 2) [P2p (PeerId 2)])
     (store_poll (example_store_env 30) example_closed)"

lemma example_apart: "(ps_apart (PeerId 1) [P2p (PeerId 1)])\<^sup>*\<^sup>* example_closed example_closed_later"
proof (rule rtranclp.rtrancl_into_rtrancl)
  let ?s = "store_poll (example_store_env 30) example_closed"
  show "(ps_apart (PeerId 1) [P2p (PeerId 1)])\<^sup>*\<^sup>* example_closed ?s"
    by (intro r_into_rtranclp ps_apart.poll example_lawful)
  show "ps_apart (PeerId 1) [P2p (PeerId 1)] ?s example_closed_later"
    unfolding example_closed_later_def by (rule ps_apart.event) simp
qed

theorem ps_closed_address_expires_witness:
  "[P2p (PeerId 1)] \<notin> set (in_memory_address (PeerId 1) (store_poll (example_store_env 61) example_closed_later))"
  by (rule ps_closed_address_expires [OF example_store_reachable _ _ _ example_apart [unfolded example_closed_def] example_lawful])
    (auto simp: example_store_eq example_store_env_def EXPIRY_SECS_def)

lemma example_still_known: "[P2p (PeerId 1)] \<in> set (in_memory_address (PeerId 1) example_closed_later)"
  by (simp add: example_closed_later_def example_closed_def example_store_eq example_store_env_def store_poll_def fired_keys_def
      timer_insert_def Let_def in_memory_address_def add_address_def or_default_def EXPIRY_SECS_def)

text \<open>
  An address the network announces for a peer makes the peer persistent but does not stop a timer that
  is already running for it, so that this address of a persistent peer still expires.
\<close>

lemma announced_address_still_expires:
  fixes s defines "s \<equiv> store_on_swarm_event (example_store_env 1) (NewExternalAddrOfPeer (PeerId 1) [P2p (PeerId 1)])
     (store_on_swarm_event (example_store_env 0) (PeerClosed (PeerId 1) (ConnectionId 1) [P2p (PeerId 1)]) example_store)"
  shows "PeerId 1 \<in> set (ps_persistent s)"
    and "in_memory_address (PeerId 1) (store_poll (example_store_env 60) s) = []"
  by (simp_all add: s_def example_store_eq example_store_env_def store_poll_def fired_keys_def timer_insert_def Let_def
      store_remove_address_def in_memory_address_def add_address_def or_default_def set_insert_def EXPIRY_SECS_def)

end
