(* ===== verification/Task_Model.thy ===== *)
theory Task_Model
  imports Autorelay Request_Slots Peer_Store
begin

section \<open>The background task: state and swarm commands (\<^verbatim>\<open>src/src/task.rs\<close>, \<^verbatim>\<open>src/src/types.rs\<close>)\<close>

text \<open>
  The task owns the libp2p swarm and serves commands from handles. Each command carries a responder, a oneshot
  channel its caller waits on; the task answers at once or parks the responder in a table until an event
  arrives. The swarm and its libp2p behaviours are a parameter: a state \<open>'sw\<close> with the operations of \<open>task_ops\<close>. The peer store,
  the relay behaviour and the request-response behaviours inside it are the models of this development. Messages on channels are recorded in \<open>effects\<close> in order; a
  responder that a table overwrites is recorded as dropped.
\<close>

type_synonym responder = nat
type_synonym tx = nat
type_synonym record_key = string
type_synonym namespace = string

datatype query_id = QueryId nat
datatype cookie = Cookie (cookie_namespace: "namespace option") nat
datatype dial_opts = DialOpts (dial_connection_id: connection_id) nat
datatype connection_target = TargetPeer peer_id | TargetConnection connection_id

record kad_record =
  rec_key :: record_key
  rec_value :: bytes

record provider_record =
  prov_key :: record_key
  prov_provider :: peer_id

datatype kad_mode = ModeClient | ModeServer
datatype quorum = QuorumOne | QuorumMajority | QuorumAll | QuorumN nat
datatype routing_update = RoutingSuccess | RoutingFailed | RoutingPending
datatype nat_status = NatPublic multiaddr | NatPrivate | NatUnknown
datatype message_acceptance = AcceptMessage | RejectMessage | IgnoreMessage
datatype relay_server_status = RelayServerEnable | RelayServerDisable

type_synonym topic = string
type_synonym message_id = bytes

record gossipsub_message =
  gm_message_id :: message_id
  gm_propagated_source :: peer_id
  gm_source :: "peer_id option"
  gm_data :: bytes
  gm_sequence_number :: "u64 option"

record floodsub_message =
  fm_source :: peer_id
  fm_data :: bytes
  fm_sequence_number :: bytes

datatype gossipsub_event =
    GossipsubSubscribed peer_id | GossipsubUnsubscribed peer_id | GossipsubMessageEvent gossipsub_message
datatype floodsub_event =
    FloodsubSubscribed peer_id | FloodsubUnsubscribed peer_id | FloodsubMessageEvent floodsub_message

text \<open>A record handle: the record, if kademlia passes it on, and the channel that confirms it.\<close>

datatype dht_event =
    PutRecordEvent peer_id "kad_record option" "nat option"
  | ProvideRecordEvent "provider_record option" "nat option"

datatype connected_point = DialerPoint multiaddr | ListenerPoint multiaddr multiaddr

datatype connexa_swarm_event =
    CsConnectionEstablished peer_id connection_id connected_point nat
  | CsConnectionClosed peer_id connection_id connected_point nat "string option"
  | CsIncomingConnection connection_id multiaddr multiaddr
  | CsIncomingConnectionError connection_id multiaddr multiaddr string "peer_id option"
  | CsOutgoingConnectionError connection_id "peer_id option" string
  | CsNewListenAddr listener_id multiaddr
  | CsListenAddrExpired listener_id multiaddr
  | CsListenAddrClosed listener_id "multiaddr list"
  | CsNewExternalAddr multiaddr
  | CsExternalAddrExpired multiaddr
  | CsExternalAddrOfPeer peer_id multiaddr

datatype task_reply =
    RUnit "unit connexa_result"
  | RConnection "connection_id connexa_result"
  | RBool bool
  | RPeers "peer_id list"
  | RListener "listener_id connexa_result"
  | RAddrsResult "multiaddr list connexa_result"
  | RAddrs "multiaddr list"
  | RReceiver tx
  | RReceiverResult "tx connexa_result"
  | RPeersResult "peer_id list connexa_result"
  | RLimits "(nat, io_err) result"
  | RLimitsSet "(unit, io_err) result"
  | RPeerAddrs "(peer_id \<times> multiaddr list) list connexa_result"
  | RMode "kad_mode connexa_result"
  | RTopics "topic list connexa_result"
  | RBoolResult "bool connexa_result"
  | RAddrOption "multiaddr option connexa_result"
  | RNatStatus "nat_status connexa_result"
  | RStreams "nat connexa_result"
  | RControl "nat connexa_result"
  | RRelayServer "(unit, io_err) result"
  | RRequest rr_reply
  | RDiscover "(cookie \<times> (peer_id \<times> multiaddr list) list) connexa_result"

datatype task_effect =
    Answer responder task_reply
  | DropResponder responder
  | SendSwarmEvent tx connexa_swarm_event
  | SendDhtEvent tx dht_event
  | SendProviders tx "peer_id list connexa_result"
  | SendRecord tx "kad_record connexa_result"
  | SendGossipsubEvent tx gossipsub_event
  | SendFloodsubEvent tx floodsub_event
  | CloseChannel tx
  | DropChannel tx

record 'sw task =
  swarm :: "'sw option"
  connection_listeners :: "tx list"
  listener_addresses :: "(listener_id, multiaddr list) alist"
  dht_event_sender :: "(record_key, tx list) alist"
  dht_event_global_sender :: "tx list"
  dht_put_record_receiver :: "(record_key, nat list) alist"
  dht_put_record_global_receiver :: "nat list"
  dht_provider_record_receiver :: "(record_key, nat list) alist"
  dht_provider_record_global_receiver :: "nat list"
  pending_dht_put_record :: "(query_id, responder) alist"
  pending_dht_put_provider_record :: "(query_id, responder) alist"
  pending_dht_get_record :: "(query_id, tx) alist"
  pending_dht_get_provider_record :: "(query_id, tx) alist"
  pending_dht_find_closest_peer :: "(query_id, responder) alist"
  pending_dht_bootstrap :: "(query_id, responder) alist"
  pending_connection :: "(connection_id, responder) alist"
  pending_disconnection_by_connection_id :: "(connection_id, responder) alist"
  pending_disconnection_by_peer_id :: "(peer_id, responder) alist"
  pending_listen_on :: "(listener_id, responder) alist"
  pending_remove_listener :: "(listener_id, responder) alist"
  gossipsub_listener :: "(topic, tx list) alist"
  floodsub_listener :: "(topic, tx list) alist"
  pending_rendezvous_register :: "(peer_id \<times> namespace, (u64 option \<times> responder) list) alist"
  pending_rendezvous_discover :: "(peer_id \<times> namespace option, (cookie option \<times> u64 option \<times> responder) list) alist"
  peerstore_ops :: "(responder \<times> task_reply) list"
  next_channel :: nat
  effects :: "task_effect list"

record ('sw, 'rr, 'o) task_ops =
  sw_dial :: "dial_opts \<Rightarrow> 'sw \<Rightarrow> 'sw \<times> (unit, string) result"
  sw_is_connected :: "peer_id \<Rightarrow> 'sw \<Rightarrow> bool"
  sw_disconnect_peer_id :: "peer_id \<Rightarrow> 'sw \<Rightarrow> 'sw \<times> bool"
  sw_close_connection :: "connection_id \<Rightarrow> 'sw \<Rightarrow> 'sw \<times> bool"
  sw_connected_peers :: "'sw \<Rightarrow> peer_id list"
  sw_listen_on :: "multiaddr \<Rightarrow> 'sw \<Rightarrow> 'sw \<times> (listener_id, string) result"
  sw_remove_listener :: "listener_id \<Rightarrow> 'sw \<Rightarrow> 'sw \<times> bool"
  sw_add_external_address :: "multiaddr \<Rightarrow> 'sw \<Rightarrow> 'sw"
  sw_remove_external_address :: "multiaddr \<Rightarrow> 'sw \<Rightarrow> 'sw"
  sw_external_addresses :: "'sw \<Rightarrow> multiaddr list"
  sw_listeners :: "'sw \<Rightarrow> multiaddr list"
  sw_add_peer_address :: "peer_id \<Rightarrow> multiaddr \<Rightarrow> 'sw \<Rightarrow> 'sw"
  allow_enabled :: "'sw \<Rightarrow> bool"
  allow_peer :: "peer_id \<Rightarrow> 'sw \<Rightarrow> 'sw \<times> bool"
  disallow_peer :: "peer_id \<Rightarrow> 'sw \<Rightarrow> 'sw \<times> bool"
  allowed_peers :: "'sw \<Rightarrow> peer_id list"
  deny_enabled :: "'sw \<Rightarrow> bool"
  block_peer :: "peer_id \<Rightarrow> 'sw \<Rightarrow> 'sw \<times> bool"
  unblock_peer :: "peer_id \<Rightarrow> 'sw \<Rightarrow> 'sw \<times> bool"
  blocked_peers :: "'sw \<Rightarrow> peer_id list"
  conn_limits :: "'sw \<Rightarrow> nat option"
  set_conn_limits :: "nat \<Rightarrow> 'sw \<Rightarrow> 'sw"
  sw_peer_store :: "'sw \<Rightarrow> memory_store option"
  set_peer_store :: "memory_store \<Rightarrow> 'sw \<Rightarrow> 'sw"
  kad_enabled :: "'sw \<Rightarrow> bool"
  kad_get_closest_peers :: "peer_id \<Rightarrow> 'sw \<Rightarrow> 'sw \<times> query_id"
  kad_bootstrap :: "'sw \<Rightarrow> 'sw \<times> (query_id, string) result"
  kad_start_providing :: "record_key \<Rightarrow> 'sw \<Rightarrow> 'sw \<times> (query_id, string) result"
  kad_stop_providing :: "record_key \<Rightarrow> 'sw \<Rightarrow> 'sw"
  kad_get_providers :: "record_key \<Rightarrow> 'sw \<Rightarrow> 'sw \<times> query_id"
  kad_set_mode :: "kad_mode option \<Rightarrow> 'sw \<Rightarrow> 'sw"
  kad_get_mode :: "'sw \<Rightarrow> kad_mode"
  kad_add_address :: "peer_id \<Rightarrow> multiaddr \<Rightarrow> 'sw \<Rightarrow> 'sw \<times> routing_update"
  kad_remove_address :: "peer_id \<Rightarrow> multiaddr \<Rightarrow> 'sw \<Rightarrow> 'sw \<times> bool"
  kad_remove_peer :: "peer_id \<Rightarrow> 'sw \<Rightarrow> 'sw \<times> bool"
  kad_get_record :: "record_key \<Rightarrow> 'sw \<Rightarrow> 'sw \<times> query_id"
  kad_put_record :: "kad_record \<Rightarrow> quorum \<Rightarrow> 'sw \<Rightarrow> 'sw \<times> (query_id, string) result"
  kad_put_record_to :: "kad_record \<Rightarrow> peer_id list \<Rightarrow> quorum \<Rightarrow> 'sw \<Rightarrow> 'sw \<times> query_id"
  kad_records :: "'sw \<Rightarrow> kad_record list"
  kad_remove_record :: "record_key \<Rightarrow> 'sw \<Rightarrow> 'sw"
  kad_store_put :: "kad_record \<Rightarrow> 'sw \<Rightarrow> 'sw"
  kad_store_add_provider :: "provider_record \<Rightarrow> 'sw \<Rightarrow> 'sw"
  rz_enabled :: "'sw \<Rightarrow> bool"
  rz_register :: "namespace \<Rightarrow> peer_id \<Rightarrow> u64 option \<Rightarrow> 'sw \<Rightarrow> 'sw \<times> (unit, string) result"
  rz_unregister :: "namespace \<Rightarrow> peer_id \<Rightarrow> 'sw \<Rightarrow> 'sw"
  rz_discover :: "namespace option \<Rightarrow> cookie option \<Rightarrow> u64 option \<Rightarrow> peer_id \<Rightarrow> 'sw \<Rightarrow> 'sw"
  kad_protocol_names :: "'sw \<Rightarrow> string list"
  gs_enabled :: "'sw \<Rightarrow> bool"
  gs_subscribe :: "topic \<Rightarrow> 'sw \<Rightarrow> 'sw \<times> (bool, string) result"
  gs_unsubscribe :: "topic \<Rightarrow> 'sw \<Rightarrow> 'sw \<times> bool"
  gs_all_peers :: "'sw \<Rightarrow> (peer_id \<times> topic list) list"
  gs_topics :: "'sw \<Rightarrow> topic list"
  gs_publish :: "topic \<Rightarrow> bytes \<Rightarrow> 'sw \<Rightarrow> 'sw \<times> (unit, string) result"
  gs_report :: "message_id \<Rightarrow> peer_id \<Rightarrow> message_acceptance \<Rightarrow> 'sw \<Rightarrow> 'sw \<times> bool"
  fl_enabled :: "'sw \<Rightarrow> bool"
  fl_subscribe :: "topic \<Rightarrow> 'sw \<Rightarrow> 'sw \<times> bool"
  fl_unsubscribe :: "topic \<Rightarrow> 'sw \<Rightarrow> 'sw \<times> bool"
  fl_publish :: "topic \<Rightarrow> bytes \<Rightarrow> 'sw \<Rightarrow> 'sw"
  fl_publish_any :: "topic \<Rightarrow> bytes \<Rightarrow> 'sw \<Rightarrow> 'sw"
  fl_publish_many :: "topic list \<Rightarrow> bytes \<Rightarrow> 'sw \<Rightarrow> 'sw"
  fl_publish_many_any :: "topic list \<Rightarrow> bytes \<Rightarrow> 'sw \<Rightarrow> 'sw"
  fl_add_node :: "peer_id \<Rightarrow> 'sw \<Rightarrow> 'sw"
  fl_remove_node :: "peer_id \<Rightarrow> 'sw \<Rightarrow> 'sw"
  an_enabled :: "'sw \<Rightarrow> bool"
  an_public_address :: "'sw \<Rightarrow> multiaddr option"
  an_nat_status :: "'sw \<Rightarrow> nat_status"
  an_add_server :: "peer_id \<Rightarrow> multiaddr option \<Rightarrow> 'sw \<Rightarrow> 'sw"
  an_remove_server :: "peer_id \<Rightarrow> 'sw \<Rightarrow> 'sw"
  an_probe :: "multiaddr \<Rightarrow> 'sw \<Rightarrow> 'sw"
  stream_enabled :: "'sw \<Rightarrow> bool"
  stream_accept :: "string \<Rightarrow> 'sw \<Rightarrow> 'sw \<times> (nat, string) result"
  stream_new_control :: "'sw \<Rightarrow> nat"
  relay_server_enabled :: "'sw \<Rightarrow> bool"
  relay_server_set_status :: "relay_server_status option \<Rightarrow> 'sw \<Rightarrow> 'sw"
  sw_autorelay :: "'sw \<Rightarrow> autorelay option"
  set_autorelay :: "autorelay \<Rightarrow> 'sw \<Rightarrow> 'sw"
  sw_autorelay_env :: "'sw \<Rightarrow> autorelay_env"
  sw_rr_slots :: "'sw \<Rightarrow> 'rr rr_state rr_slots"
  set_rr_slots :: "'rr rr_state rr_slots \<Rightarrow> 'sw \<Rightarrow> 'sw"
  rr_libp2p :: "('rr, 'o) rr_ops"

definition task_new :: "'sw \<Rightarrow> 'sw task" where
  "task_new sw = \<lparr>swarm = Some sw, connection_listeners = [], listener_addresses = [], dht_event_sender = [],
     dht_event_global_sender = [], dht_put_record_receiver = [], dht_put_record_global_receiver = [],
     dht_provider_record_receiver = [], dht_provider_record_global_receiver = [], pending_dht_put_record = [],
     pending_dht_put_provider_record = [], pending_dht_get_record = [], pending_dht_get_provider_record = [],
     pending_dht_find_closest_peer = [], pending_dht_bootstrap = [], pending_connection = [],
     pending_disconnection_by_connection_id = [], pending_disconnection_by_peer_id = [], pending_listen_on = [],
     pending_remove_listener = [], gossipsub_listener = [], floodsub_listener = [], pending_rendezvous_register = [], pending_rendezvous_discover = [],
     peerstore_ops = [], next_channel = 0, effects = []\<rparr>"

definition emit_all :: "task_effect list \<Rightarrow> 'sw task \<Rightarrow> 'sw task" where
  "emit_all es s = s\<lparr>effects := effects s @ es\<rparr>"

definition answer :: "responder \<Rightarrow> task_reply \<Rightarrow> 'sw task \<Rightarrow> 'sw task" where
  "answer resp reply s = emit_all [Answer resp reply] s"

text \<open>What an insertion into a table of responders drops.\<close>

definition overwritten :: "('k, responder) alist \<Rightarrow> 'k \<Rightarrow> task_effect list" where
  "overwritten t k = (case map_of t k of None \<Rightarrow> [] | Some old \<Rightarrow> [DropResponder old])"

definition with_swarm :: "'sw \<Rightarrow> 'sw task \<Rightarrow> 'sw task" where
  "with_swarm sw s = s\<lparr>swarm := Some sw\<rparr>"

definition new_channel :: "'sw task \<Rightarrow> 'sw task \<times> tx" where
  "new_channel s = (s\<lparr>next_channel := Suc (next_channel s)\<rparr>, next_channel s)"

subsection \<open>Swarm commands\<close>

datatype swarm_command =
    Dial dial_opts responder
  | IsConnected peer_id responder
  | Disconnect connection_target responder
  | ConnectedPeers responder
  | ListenOn multiaddr responder
  | GetListeningAddress listener_id responder
  | RemoveListener listener_id responder
  | AddExternalAddress multiaddr responder
  | RemoveExternalAddress multiaddr responder
  | ListExternalAddresses responder
  | ListListeningAddresses responder
  | AddPeerAddress peer_id multiaddr responder
  | SwarmListener responder

fun process_swarm_command :: "('sw, 'rr, 'o) task_ops \<Rightarrow> swarm_command \<Rightarrow> 'sw \<Rightarrow> 'sw task \<Rightarrow> 'sw task" where
  "process_swarm_command ops (SwarmListener resp) sw s =
     (case new_channel s of (s, tx) \<Rightarrow>
        answer resp (RReceiver tx) (s\<lparr>connection_listeners := connection_listeners s @ [tx]\<rparr>))"
| "process_swarm_command ops (Dial opt resp) sw s =
     (case sw_dial ops opt sw of
        (sw, Inl e) \<Rightarrow> answer resp (RConnection (Inl (ErrDial e))) (with_swarm sw s)
      | (sw, Inr _) \<Rightarrow>
          (let cid = dial_connection_id opt; s = with_swarm sw s;
               s = emit_all (overwritten (pending_connection s) cid) s
           in s\<lparr>pending_connection := AList.update cid resp (pending_connection s)\<rparr>))"
| "process_swarm_command ops (IsConnected p resp) sw s = answer resp (RBool (sw_is_connected ops p sw)) s"
| "process_swarm_command ops (Disconnect (TargetPeer p) resp) sw s =
     (case sw_disconnect_peer_id ops p sw of
        (sw, False) \<Rightarrow> answer resp (RUnit (Inl (ErrNotConnected p))) (with_swarm sw s)
      | (sw, True) \<Rightarrow>
          (let s = with_swarm sw s;
               s = emit_all (overwritten (pending_disconnection_by_peer_id s) p) s
           in s\<lparr>pending_disconnection_by_peer_id := AList.update p resp (pending_disconnection_by_peer_id s)\<rparr>))"
| "process_swarm_command ops (Disconnect (TargetConnection c) resp) sw s =
     (case sw_close_connection ops c sw of
        (sw, False) \<Rightarrow> answer resp (RUnit (Inl (ErrNotFound ''connection''))) (with_swarm sw s)
      | (sw, True) \<Rightarrow>
          (let s = with_swarm sw s;
               s = emit_all (overwritten (pending_disconnection_by_connection_id s) c) s
           in s\<lparr>pending_disconnection_by_connection_id :=
                  AList.update c resp (pending_disconnection_by_connection_id s)\<rparr>))"
| "process_swarm_command ops (ConnectedPeers resp) sw s = answer resp (RPeers (sw_connected_peers ops sw)) s"
| "process_swarm_command ops (ListenOn a resp) sw s =
     (case sw_listen_on ops a sw of
        (sw, Inl e) \<Rightarrow> answer resp (RListener (Inl (ErrIo (IoErr OtherKind (Message e))))) (with_swarm sw s)
      | (sw, Inr lid) \<Rightarrow>
          (let s = with_swarm sw s;
               s = emit_all (overwritten (pending_listen_on s) lid) s
           in s\<lparr>pending_listen_on := AList.update lid resp (pending_listen_on s)\<rparr>))"
| "process_swarm_command ops (GetListeningAddress lid resp) sw s =
     (case map_of (listener_addresses s) lid of
        None \<Rightarrow> answer resp (RAddrsResult (Inl (ErrNotFound ''listener''))) s
      | Some addrs \<Rightarrow> answer resp (RAddrsResult (Inr addrs)) s)"
| "process_swarm_command ops (RemoveListener lid resp) sw s =
     (case sw_remove_listener ops lid sw of
        (sw, False) \<Rightarrow> answer resp (RUnit (Inl (ErrNotFound ''listener''))) (with_swarm sw s)
      | (sw, True) \<Rightarrow>
          (let s = (with_swarm sw s)\<lparr>listener_addresses := AList.delete lid (listener_addresses s)\<rparr>;
               s = emit_all (overwritten (pending_remove_listener s) lid) s
           in s\<lparr>pending_remove_listener := AList.update lid resp (pending_remove_listener s)\<rparr>))"
| "process_swarm_command ops (AddExternalAddress a resp) sw s =
     answer resp (RUnit (Inr ())) (with_swarm (sw_add_external_address ops a sw) s)"
| "process_swarm_command ops (RemoveExternalAddress a resp) sw s =
     answer resp (RUnit (Inr ())) (with_swarm (sw_remove_external_address ops a sw) s)"
| "process_swarm_command ops (ListExternalAddresses resp) sw s = answer resp (RAddrs (sw_external_addresses ops sw)) s"
| "process_swarm_command ops (ListListeningAddresses resp) sw s = answer resp (RAddrs (sw_listeners ops sw)) s"
| "process_swarm_command ops (AddPeerAddress p a resp) sw s =
     answer resp (RUnit (Inr ())) (with_swarm (sw_add_peer_address ops p a sw) s)"

subsection \<open>Allow and deny lists, connection limits\<close>

datatype list_command = ListAdd peer_id responder | ListRemove peer_id responder | ListAll responder

fun process_whitelist_command :: "('sw, 'rr, 'o) task_ops \<Rightarrow> list_command \<Rightarrow> 'sw \<Rightarrow> 'sw task \<Rightarrow> 'sw task" where
  "process_whitelist_command ops (ListAdd p resp) sw s =
     (if \<not> allow_enabled ops sw then answer resp (RUnit (Inl (ErrDisabled (OtherProtocol ''whitelist'')))) s
      else case allow_peer ops p sw of
          (sw, False) \<Rightarrow> answer resp (RUnit (Inl (ErrAlreadyExists ''peer in allow list''))) (with_swarm sw s)
        | (sw, True) \<Rightarrow> answer resp (RUnit (Inr ())) (with_swarm sw s))"
| "process_whitelist_command ops (ListRemove p resp) sw s =
     (if \<not> allow_enabled ops sw then answer resp (RUnit (Inl (ErrDisabled (OtherProtocol ''whitelist'')))) s
      else case disallow_peer ops p sw of
          (sw, False) \<Rightarrow> answer resp (RUnit (Inl (ErrNotFound ''peer in allow list''))) (with_swarm sw s)
        | (sw, True) \<Rightarrow> answer resp (RUnit (Inr ())) (with_swarm sw s))"
| "process_whitelist_command ops (ListAll resp) sw s =
     (if \<not> allow_enabled ops sw then answer resp (RPeersResult (Inl (ErrDisabled (OtherProtocol ''whitelist'')))) s
      else answer resp (RPeersResult (Inr (allowed_peers ops sw))) s)"

fun process_blacklist_command :: "('sw, 'rr, 'o) task_ops \<Rightarrow> list_command \<Rightarrow> 'sw \<Rightarrow> 'sw task \<Rightarrow> 'sw task" where
  "process_blacklist_command ops (ListAdd p resp) sw s =
     (if \<not> deny_enabled ops sw then answer resp (RUnit (Inl (ErrDisabled (OtherProtocol ''blacklist'')))) s
      else case block_peer ops p sw of
          (sw, False) \<Rightarrow> answer resp (RUnit (Inl (ErrAlreadyExists ''peer in deny list''))) (with_swarm sw s)
        | (sw, True) \<Rightarrow> answer resp (RUnit (Inr ())) (with_swarm sw s))"
| "process_blacklist_command ops (ListRemove p resp) sw s =
     (if \<not> deny_enabled ops sw then answer resp (RUnit (Inl (ErrDisabled (OtherProtocol ''blacklist'')))) s
      else case unblock_peer ops p sw of
          (sw, False) \<Rightarrow> answer resp (RUnit (Inl (ErrNotFound ''peer in deny list''))) (with_swarm sw s)
        | (sw, True) \<Rightarrow> answer resp (RUnit (Inr ())) (with_swarm sw s))"
| "process_blacklist_command ops (ListAll resp) sw s =
     (if \<not> deny_enabled ops sw then answer resp (RPeersResult (Inl (ErrDisabled (OtherProtocol ''blacklist'')))) s
      else answer resp (RPeersResult (Inr (blocked_peers ops sw))) s)"

datatype limits_command = GetLimits responder | SetLimits nat responder

fun process_limits_command :: "('sw, 'rr, 'o) task_ops \<Rightarrow> limits_command \<Rightarrow> 'sw \<Rightarrow> 'sw task \<Rightarrow> 'sw task" where
  "process_limits_command ops (GetLimits resp) sw s = (case conn_limits ops sw of
     None \<Rightarrow> answer resp (RLimits (Inl (IoErr OtherKind (Message ''connection limits not enabled'')))) s
   | Some limits \<Rightarrow> answer resp (RLimits (Inr limits)) s)"
| "process_limits_command ops (SetLimits limits resp) sw s = (case conn_limits ops sw of
     None \<Rightarrow> answer resp (RLimitsSet (Inl (IoErr OtherKind (Message ''connection limits not enabled'')))) s
   | Some _ \<Rightarrow> answer resp (RLimitsSet (Inr ())) (with_swarm (set_conn_limits ops limits sw) s))"

subsection \<open>Peer store commands\<close>

text \<open>
  The store acts when the command is processed; its result waits in \<^verbatim>\<open>peerstore_ops\<close> until the next poll.
\<close>

datatype peerstore_command =
    PsAdd peer_id multiaddr responder
  | PsRemoveAddress peer_id multiaddr responder
  | PsRemove peer_id responder
  | PsList peer_id responder
  | PsListAll responder

definition from_io :: "('a, io_err) result \<Rightarrow> 'a connexa_result" where
  "from_io r = map_sum ErrIo (\<lambda>a. a) r"

definition defer_op :: "responder \<Rightarrow> task_reply \<Rightarrow> 'sw task \<Rightarrow> 'sw task" where
  "defer_op resp reply s = s\<lparr>peerstore_ops := peerstore_ops s @ [(resp, reply)]\<rparr>"

fun process_peerstore_command :: "('sw, 'rr, 'o) task_ops \<Rightarrow> peerstore_command \<Rightarrow> 'sw \<Rightarrow> 'sw task \<Rightarrow> 'sw task" where
  "process_peerstore_command ops (PsAdd p a resp) sw s = (case sw_peer_store ops sw of
     None \<Rightarrow> answer resp (RUnit (Inl (ErrDisabled (OtherProtocol ''peerstore'')))) s
   | Some st \<Rightarrow> (case so_insert memory_store_ops p a st of
       (st, r) \<Rightarrow> defer_op resp (RUnit (from_io r)) (with_swarm (set_peer_store ops st sw) s)))"
| "process_peerstore_command ops (PsRemoveAddress p a resp) sw s = (case sw_peer_store ops sw of
     None \<Rightarrow> answer resp (RUnit (Inl (ErrDisabled (OtherProtocol ''peerstore'')))) s
   | Some st \<Rightarrow> (case so_remove_address memory_store_ops p a st of
       (st, r) \<Rightarrow> defer_op resp (RUnit (from_io r)) (with_swarm (set_peer_store ops st sw) s)))"
| "process_peerstore_command ops (PsRemove p resp) sw s = (case sw_peer_store ops sw of
     None \<Rightarrow> answer resp (RAddrsResult (Inl (ErrDisabled (OtherProtocol ''peerstore'')))) s
   | Some st \<Rightarrow> (case so_remove memory_store_ops p st of
       (st, r) \<Rightarrow> defer_op resp (RAddrsResult (from_io r)) (with_swarm (set_peer_store ops st sw) s)))"
| "process_peerstore_command ops (PsList p resp) sw s = (case sw_peer_store ops sw of
     None \<Rightarrow> answer resp (RAddrsResult (Inl (ErrDisabled (OtherProtocol ''peerstore'')))) s
   | Some st \<Rightarrow> defer_op resp (RAddrsResult (from_io (so_address memory_store_ops p st))) s)"
| "process_peerstore_command ops (PsListAll resp) sw s = (case sw_peer_store ops sw of
     None \<Rightarrow> answer resp (RPeerAddrs (Inl (ErrDisabled (OtherProtocol ''peerstore'')))) s
   | Some st \<Rightarrow> defer_op resp (RPeerAddrs (from_io (so_list_all memory_store_ops st))) s)"

end
