(* ===== verification/Task_Kad.thy ===== *)
theory Task_Kad
  imports Task_Model
begin

section \<open>The background task: the distributed hash table (\<^verbatim>\<open>src/src/task/kad.rs\<close>)\<close>

text \<open>
  The commands of the DHT and the events of libp2p's kademlia behaviour. A query either answers one responder when it
  ends, or feeds a channel until it ends. Incoming records are offered to subscribers, each offer
  with a channel on which the subscriber confirms the record.
\<close>

datatype dht_command =
    FindPeer peer_id responder
  | Bootstrap bool responder
  | Provide record_key responder
  | StopProviding record_key responder
  | GetProviders record_key responder
  | DhtListener "record_key option" responder
  | SetDHTMode "kad_mode option" responder
  | DHTMode responder
  | AddAddress peer_id multiaddr responder
  | RemoveAddress peer_id multiaddr responder
  | RemovePeer peer_id responder
  | Get record_key responder
  | Put record_key bytes quorum responder
  | PutTo record_key bytes "peer_id list" quorum responder
  | Remove record_key responder

abbreviation kad_disabled :: "'a connexa_result" where
  "kad_disabled \<equiv> Inl (ErrDisabled Kademlia)"

definition drop_channel :: "('k, tx) alist \<Rightarrow> 'k \<Rightarrow> task_effect list" where
  "drop_channel t k = (case map_of t k of None \<Rightarrow> [] | Some old \<Rightarrow> [DropChannel old])"

definition kad_find_peer :: "('sw, 'rr, 'o) task_ops \<Rightarrow> peer_id \<Rightarrow> responder \<Rightarrow> 'sw \<Rightarrow> 'sw task \<Rightarrow> 'sw task" where
  "kad_find_peer ops p resp sw s =
     (if \<not> kad_enabled ops sw then answer resp (RPeersResult kad_disabled) s
      else case kad_get_closest_peers ops p sw of (sw, q) \<Rightarrow>
        (let s = with_swarm sw s; s = emit_all (overwritten (pending_dht_find_closest_peer s) q) s
         in s\<lparr>pending_dht_find_closest_peer := AList.update q resp (pending_dht_find_closest_peer s)\<rparr>))"

definition kad_bootstrap_command :: "('sw, 'rr, 'o) task_ops \<Rightarrow> bool \<Rightarrow> responder \<Rightarrow> 'sw \<Rightarrow> 'sw task \<Rightarrow> 'sw task" where
  "kad_bootstrap_command ops lazy resp sw s =
     (if \<not> kad_enabled ops sw then answer resp (RUnit kad_disabled) s
      else case kad_bootstrap ops sw of
        (sw, Inl e) \<Rightarrow> answer resp (RUnit (Inl (ErrDht (NoKnownPeers e)))) (with_swarm sw s)
      | (sw, Inr q) \<Rightarrow>
          (if lazy then answer resp (RUnit (Inr ())) (with_swarm sw s)
           else let s = with_swarm sw s; s = emit_all (overwritten (pending_dht_bootstrap s) q) s
                in s\<lparr>pending_dht_bootstrap := AList.update q resp (pending_dht_bootstrap s)\<rparr>))"

definition kad_provide :: "('sw, 'rr, 'o) task_ops \<Rightarrow> record_key \<Rightarrow> responder \<Rightarrow> 'sw \<Rightarrow> 'sw task \<Rightarrow> 'sw task" where
  "kad_provide ops key resp sw s =
     (if \<not> kad_enabled ops sw then answer resp (RUnit kad_disabled) s
      else case kad_start_providing ops key sw of
        (sw, Inl e) \<Rightarrow> answer resp (RUnit (Inl (ErrDht (StoreError e)))) (with_swarm sw s)
      | (sw, Inr q) \<Rightarrow>
          (let s = with_swarm sw s; s = emit_all (overwritten (pending_dht_put_provider_record s) q) s
           in s\<lparr>pending_dht_put_provider_record := AList.update q resp (pending_dht_put_provider_record s)\<rparr>))"

definition kad_providers_command :: "('sw, 'rr, 'o) task_ops \<Rightarrow> record_key \<Rightarrow> responder \<Rightarrow> 'sw \<Rightarrow> 'sw task \<Rightarrow> 'sw task" where
  "kad_providers_command ops key resp sw s =
     (if \<not> kad_enabled ops sw then answer resp (RReceiverResult kad_disabled) s
      else case kad_get_providers ops key sw of (sw, q) \<Rightarrow>
        (case new_channel (with_swarm sw s) of (s, tx) \<Rightarrow>
          (let s = emit_all (drop_channel (pending_dht_get_provider_record s) q) s;
               s = s\<lparr>pending_dht_get_provider_record := AList.update q tx (pending_dht_get_provider_record s)\<rparr>
           in answer resp (RReceiverResult (Inr tx)) s)))"

definition kad_listener :: "('sw, 'rr, 'o) task_ops \<Rightarrow> record_key option \<Rightarrow> responder \<Rightarrow> 'sw \<Rightarrow> 'sw task \<Rightarrow> 'sw task" where
  "kad_listener ops key resp sw s =
     (if \<not> kad_enabled ops sw then answer resp (RReceiverResult kad_disabled) s
      else case new_channel s of (s, tx) \<Rightarrow>
        answer resp (RReceiverResult (Inr tx))
          (case key of
             Some k \<Rightarrow> s\<lparr>dht_event_sender := AList.update k (or_default (dht_event_sender s) k @ [tx]) (dht_event_sender s)\<rparr>
           | None \<Rightarrow> s\<lparr>dht_event_global_sender := dht_event_global_sender s @ [tx]\<rparr>))"

definition kad_routing_command :: "('sw, 'rr, 'o) task_ops \<Rightarrow> dht_command \<Rightarrow> 'sw \<Rightarrow> 'sw task \<Rightarrow> 'sw task" where
  "kad_routing_command ops cmd sw s = (case cmd of
     AddAddress p a resp \<Rightarrow>
       (if \<not> kad_enabled ops sw then answer resp (RUnit kad_disabled) s
        else case kad_add_address ops p a sw of (sw, routing) \<Rightarrow>
          answer resp (RUnit (case routing of
              RoutingSuccess \<Rightarrow> Inr () | RoutingPending \<Rightarrow> Inr ()
            | RoutingFailed \<Rightarrow> Inl (ErrRouting AddAddressOp))) (with_swarm sw s))
   | RemoveAddress p a resp \<Rightarrow>
       (if \<not> kad_enabled ops sw then answer resp (RUnit kad_disabled) s
        else case kad_remove_address ops p a sw of
          (sw, True) \<Rightarrow> answer resp (RUnit (Inr ())) (with_swarm sw s)
        | (sw, False) \<Rightarrow> answer resp (RUnit (Inl (ErrRouting RemoveAddressOp))) (with_swarm sw s))
   | RemovePeer p resp \<Rightarrow>
       (if \<not> kad_enabled ops sw then answer resp (RUnit kad_disabled) s
        else case kad_remove_peer ops p sw of
          (sw, True) \<Rightarrow> answer resp (RUnit (Inr ())) (with_swarm sw s)
        | (sw, False) \<Rightarrow> answer resp (RUnit (Inl (ErrRouting RemovePeerOp))) (with_swarm sw s))
   | _ \<Rightarrow> s)"

definition kad_get_command :: "('sw, 'rr, 'o) task_ops \<Rightarrow> record_key \<Rightarrow> responder \<Rightarrow> 'sw \<Rightarrow> 'sw task \<Rightarrow> 'sw task" where
  "kad_get_command ops key resp sw s =
     (if \<not> kad_enabled ops sw then answer resp (RReceiverResult kad_disabled) s
      else case kad_get_record ops key sw of (sw, q) \<Rightarrow>
        (case new_channel (with_swarm sw s) of (s, tx) \<Rightarrow>
          (let s = emit_all (drop_channel (pending_dht_get_record s) q) s;
               s = s\<lparr>pending_dht_get_record := AList.update q tx (pending_dht_get_record s)\<rparr>
           in answer resp (RReceiverResult (Inr tx)) s)))"

definition park_put :: "query_id \<Rightarrow> responder \<Rightarrow> 'sw task \<Rightarrow> 'sw task" where
  "park_put q resp s =
     (let s = emit_all (overwritten (pending_dht_put_record s) q) s
      in s\<lparr>pending_dht_put_record := AList.update q resp (pending_dht_put_record s)\<rparr>)"

definition kad_put_command ::
  "('sw, 'rr, 'o) task_ops \<Rightarrow> record_key \<Rightarrow> bytes \<Rightarrow> quorum \<Rightarrow> responder \<Rightarrow> 'sw \<Rightarrow> 'sw task \<Rightarrow> 'sw task" where
  "kad_put_command ops key data quorum resp sw s =
     (if \<not> kad_enabled ops sw then answer resp (RUnit kad_disabled) s
      else case kad_put_record ops \<lparr>rec_key = key, rec_value = data\<rparr> quorum sw of
        (sw, Inl e) \<Rightarrow> answer resp (RUnit (Inl (ErrDht (StoreError e)))) (with_swarm sw s)
      | (sw, Inr q) \<Rightarrow> park_put q resp (with_swarm sw s))"

definition kad_put_to_command ::
  "('sw, 'rr, 'o) task_ops \<Rightarrow> record_key \<Rightarrow> bytes \<Rightarrow> peer_id list \<Rightarrow> quorum \<Rightarrow> responder \<Rightarrow> 'sw \<Rightarrow> 'sw task \<Rightarrow> 'sw task" where
  "kad_put_to_command ops key data target quorum resp sw s =
     (if \<not> kad_enabled ops sw then answer resp (RUnit kad_disabled) s
      else if \<not> list_ex (\<lambda>r. rec_key r = key) (kad_records ops sw)
      then answer resp (RUnit (Inl (ErrNotFound ''record''))) s
      else case kad_put_record_to ops \<lparr>rec_key = key, rec_value = data\<rparr> target quorum sw of
        (sw, q) \<Rightarrow> park_put q resp (with_swarm sw s))"

definition kad_remove_command :: "('sw, 'rr, 'o) task_ops \<Rightarrow> record_key \<Rightarrow> responder \<Rightarrow> 'sw \<Rightarrow> 'sw task \<Rightarrow> 'sw task" where
  "kad_remove_command ops key resp sw s =
     (if \<not> kad_enabled ops sw then answer resp (RUnit kad_disabled) s
      else if \<not> list_ex (\<lambda>r. rec_key r = key) (kad_records ops sw)
      then answer resp (RUnit (Inl (ErrNotFound ''record''))) s
      else answer resp (RUnit (Inr ())) (with_swarm (kad_remove_record ops key sw) s))"

fun process_kademlia_command :: "('sw, 'rr, 'o) task_ops \<Rightarrow> dht_command \<Rightarrow> 'sw \<Rightarrow> 'sw task \<Rightarrow> 'sw task" where
  "process_kademlia_command ops (FindPeer p resp) sw s = kad_find_peer ops p resp sw s"
| "process_kademlia_command ops (Bootstrap lazy resp) sw s = kad_bootstrap_command ops lazy resp sw s"
| "process_kademlia_command ops (Provide key resp) sw s = kad_provide ops key resp sw s"
| "process_kademlia_command ops (StopProviding key resp) sw s =
     (if \<not> kad_enabled ops sw then answer resp (RUnit kad_disabled) s
      else answer resp (RUnit (Inr ())) (with_swarm (kad_stop_providing ops key sw) s))"
| "process_kademlia_command ops (GetProviders key resp) sw s = kad_providers_command ops key resp sw s"
| "process_kademlia_command ops (DhtListener key resp) sw s = kad_listener ops key resp sw s"
| "process_kademlia_command ops (SetDHTMode mode resp) sw s =
     (if \<not> kad_enabled ops sw then answer resp (RUnit kad_disabled) s
      else answer resp (RUnit (Inr ())) (with_swarm (kad_set_mode ops mode sw) s))"
| "process_kademlia_command ops (DHTMode resp) sw s =
     (if \<not> kad_enabled ops sw then answer resp (RMode kad_disabled) s
      else answer resp (RMode (Inr (kad_get_mode ops sw))) s)"
| "process_kademlia_command ops (AddAddress p a resp) sw s = kad_routing_command ops (AddAddress p a resp) sw s"
| "process_kademlia_command ops (RemoveAddress p a resp) sw s = kad_routing_command ops (RemoveAddress p a resp) sw s"
| "process_kademlia_command ops (RemovePeer p resp) sw s = kad_routing_command ops (RemovePeer p resp) sw s"
| "process_kademlia_command ops (Get key resp) sw s = kad_get_command ops key resp sw s"
| "process_kademlia_command ops (Put key data quorum resp) sw s = kad_put_command ops key data quorum resp sw s"
| "process_kademlia_command ops (PutTo key data target quorum resp) sw s =
     kad_put_to_command ops key data target quorum resp sw s"
| "process_kademlia_command ops (Remove key resp) sw s = kad_remove_command ops key resp sw s"

subsection \<open>Events\<close>

datatype query_result =
    QBootstrapOk | QBootstrapTimeout
  | QClosestPeersOk "peer_id list" | QClosestPeersErr string
  | QFoundProviders "peer_id list" | QProvidersFinished | QProvidersErr string
  | QStartProvidingOk | QStartProvidingErr string
  | QRepublishProvider
  | QFoundRecord kad_record | QRecordFinished | QGetRecordErr string
  | QPutRecordOk | QPutRecordErr string
  | QRepublishRecord

datatype kad_event =
    AddProviderRequest "provider_record option"
  | PutRecordRequest peer_id "kad_record option"
  | OtherInboundRequest
  | OutboundQueryProgressed query_id query_result bool
  | OtherKadEvent

fun set_record_confirmation :: "dht_event \<Rightarrow> nat \<Rightarrow> dht_event option" where
  "set_record_confirmation (PutRecordEvent source record _) ch = Some (PutRecordEvent source record (Some ch))"
| "set_record_confirmation _ ch = None"

fun set_provider_confirmation :: "dht_event \<Rightarrow> nat \<Rightarrow> dht_event option" where
  "set_provider_confirmation (ProvideRecordEvent record _) ch = Some (ProvideRecordEvent record (Some ch))"
| "set_provider_confirmation _ ch = None"

text \<open>
  Offering an event to subscribers. With a record every offer has its own confirmation channel,
  whose receiving end is kept; \<open>keep\<close> says where. An event of the wrong kind would panic (None).
\<close>

fun offer_event ::
  "(dht_event \<Rightarrow> nat \<Rightarrow> dht_event option) \<Rightarrow> (nat \<Rightarrow> 'sw task \<Rightarrow> 'sw task) \<Rightarrow> dht_event \<Rightarrow> bool \<Rightarrow> tx list \<Rightarrow>
   'sw task \<Rightarrow> 'sw task option" where
  "offer_event confirm keep event has_record [] s = Some s"
| "offer_event confirm keep event has_record (tx # txs) s =
     (if has_record then
        (case new_channel s of (s, rx) \<Rightarrow>
          (case confirm event rx of
             None \<Rightarrow> None
           | Some event' \<Rightarrow> offer_event confirm keep event has_record txs (emit_all [SendDhtEvent tx event'] (keep rx s))))
      else offer_event confirm keep event has_record txs (emit_all [SendDhtEvent tx event] s))"

definition kad_add_provider :: "provider_record option \<Rightarrow> 'sw task \<Rightarrow> 'sw task option" where
  "kad_add_provider record s =
     (let event = ProvideRecordEvent record None in
      case offer_event set_provider_confirmation
          (\<lambda>rx s. s\<lparr>dht_provider_record_global_receiver := dht_provider_record_global_receiver s @ [rx]\<rparr>)
          event (record \<noteq> None) (dht_event_global_sender s) s of
        None \<Rightarrow> None
      | Some s \<Rightarrow> (case record of
          None \<Rightarrow> Some s
        | Some r \<Rightarrow> (case map_of (dht_event_sender s) (prov_key r) of
            None \<Rightarrow> Some s
          | Some senders \<Rightarrow>
              offer_event set_provider_confirmation
                (\<lambda>rx s. s\<lparr>dht_provider_record_receiver := AList.update (prov_key r)
                   (or_default (dht_provider_record_receiver s) (prov_key r) @ [rx]) (dht_provider_record_receiver s)\<rparr>)
                event True senders s)))"

definition kad_put_request :: "peer_id \<Rightarrow> kad_record option \<Rightarrow> 'sw task \<Rightarrow> 'sw task option" where
  "kad_put_request source record s =
     (let event = PutRecordEvent source record None in
      case offer_event set_record_confirmation
          (\<lambda>rx s. s\<lparr>dht_put_record_global_receiver := dht_put_record_global_receiver s @ [rx]\<rparr>)
          event (record \<noteq> None) (dht_event_global_sender s) s of
        None \<Rightarrow> None
      | Some s \<Rightarrow> (case record of
          None \<Rightarrow> Some s
        | Some r \<Rightarrow> (case map_of (dht_event_sender s) (rec_key r) of
            None \<Rightarrow> Some s
          | Some senders \<Rightarrow>
              offer_event set_record_confirmation
                (\<lambda>rx s. s\<lparr>dht_put_record_receiver := AList.update (rec_key r)
                   (or_default (dht_put_record_receiver s) (rec_key r) @ [rx]) (dht_put_record_receiver s)\<rparr>)
                event True senders s)))"

definition finish_bootstrap :: "query_id \<Rightarrow> bool \<Rightarrow> unit connexa_result \<Rightarrow> 'sw task \<Rightarrow> 'sw task" where
  "finish_bootstrap q is_last r s =
     (case (if is_last then map_of (pending_dht_bootstrap s) q else None) of
        None \<Rightarrow> s
      | Some resp \<Rightarrow> answer resp (RUnit r) (s\<lparr>pending_dht_bootstrap := AList.delete q (pending_dht_bootstrap s)\<rparr>))"

definition finish_find_peer :: "query_id \<Rightarrow> peer_id list connexa_result \<Rightarrow> 'sw task \<Rightarrow> 'sw task" where
  "finish_find_peer q r s = (case map_of (pending_dht_find_closest_peer s) q of
     None \<Rightarrow> s
   | Some resp \<Rightarrow> answer resp (RPeersResult r)
       (s\<lparr>pending_dht_find_closest_peer := AList.delete q (pending_dht_find_closest_peer s)\<rparr>))"

definition finish_provide :: "query_id \<Rightarrow> unit connexa_result \<Rightarrow> 'sw task \<Rightarrow> 'sw task" where
  "finish_provide q r s = (case map_of (pending_dht_put_provider_record s) q of
     None \<Rightarrow> s
   | Some resp \<Rightarrow> answer resp (RUnit r)
       (s\<lparr>pending_dht_put_provider_record := AList.delete q (pending_dht_put_provider_record s)\<rparr>))"

definition finish_put :: "query_id \<Rightarrow> unit connexa_result \<Rightarrow> 'sw task \<Rightarrow> 'sw task" where
  "finish_put q r s = (case map_of (pending_dht_put_record s) q of
     None \<Rightarrow> s
   | Some resp \<Rightarrow> answer resp (RUnit r) (s\<lparr>pending_dht_put_record := AList.delete q (pending_dht_put_record s)\<rparr>))"

definition progress_providers :: "query_id \<Rightarrow> query_result \<Rightarrow> 'sw task \<Rightarrow> 'sw task" where
  "progress_providers q r s = (case map_of (pending_dht_get_provider_record s) q of
     None \<Rightarrow> s
   | Some tx \<Rightarrow>
       (let gone = s\<lparr>pending_dht_get_provider_record := AList.delete q (pending_dht_get_provider_record s)\<rparr> in
        case r of
          QFoundProviders ps \<Rightarrow> emit_all [SendProviders tx (Inr ps)] s
        | QProvidersFinished \<Rightarrow> emit_all [CloseChannel tx] gone
        | QProvidersErr e \<Rightarrow> emit_all [SendProviders tx (Inl (ErrDht (GetProvidersError e))), DropChannel tx] gone
        | _ \<Rightarrow> s))"

definition progress_record :: "query_id \<Rightarrow> query_result \<Rightarrow> 'sw task \<Rightarrow> 'sw task" where
  "progress_record q r s = (case map_of (pending_dht_get_record s) q of
     None \<Rightarrow> s
   | Some tx \<Rightarrow>
       (let gone = s\<lparr>pending_dht_get_record := AList.delete q (pending_dht_get_record s)\<rparr> in
        case r of
          QFoundRecord record \<Rightarrow> emit_all [SendRecord tx (Inr record)] s
        | QRecordFinished \<Rightarrow> emit_all [CloseChannel tx] gone
        | QGetRecordErr e \<Rightarrow> emit_all [SendRecord tx (Inl (ErrDht (GetRecordError e))), DropChannel tx] gone
        | _ \<Rightarrow> s))"

fun kad_query_progressed :: "query_id \<Rightarrow> query_result \<Rightarrow> bool \<Rightarrow> 'sw task \<Rightarrow> 'sw task" where
  "kad_query_progressed q QBootstrapOk is_last s = finish_bootstrap q is_last (Inr ()) s"
| "kad_query_progressed q QBootstrapTimeout is_last s = finish_bootstrap q is_last (Inl ErrTimeout) s"
| "kad_query_progressed q (QClosestPeersOk peers) is_last s = finish_find_peer q (Inr peers) s"
| "kad_query_progressed q (QClosestPeersErr e) is_last s = finish_find_peer q (Inl ErrTimeout) s"
| "kad_query_progressed q (QFoundProviders ps) is_last s = progress_providers q (QFoundProviders ps) s"
| "kad_query_progressed q QProvidersFinished is_last s = progress_providers q QProvidersFinished s"
| "kad_query_progressed q (QProvidersErr e) is_last s = progress_providers q (QProvidersErr e) s"
| "kad_query_progressed q QStartProvidingOk is_last s = finish_provide q (Inr ()) s"
| "kad_query_progressed q (QStartProvidingErr e) is_last s = finish_provide q (Inl (ErrDht (AddProviderError e))) s"
| "kad_query_progressed q QRepublishProvider is_last s = s"
| "kad_query_progressed q (QFoundRecord r) is_last s = progress_record q (QFoundRecord r) s"
| "kad_query_progressed q QRecordFinished is_last s = progress_record q QRecordFinished s"
| "kad_query_progressed q (QGetRecordErr e) is_last s = progress_record q (QGetRecordErr e) s"
| "kad_query_progressed q QPutRecordOk is_last s = finish_put q (Inr ()) s"
| "kad_query_progressed q (QPutRecordErr e) is_last s = finish_put q (Inl (ErrDht (PutRecordError e))) s"
| "kad_query_progressed q QRepublishRecord is_last s = s"

fun process_kademlia_event :: "kad_event \<Rightarrow> 'sw task \<Rightarrow> 'sw task option" where
  "process_kademlia_event (AddProviderRequest record) s = kad_add_provider record s"
| "process_kademlia_event (PutRecordRequest source record) s = kad_put_request source record s"
| "process_kademlia_event OtherInboundRequest s = Some s"
| "process_kademlia_event (OutboundQueryProgressed q r is_last) s = Some (kad_query_progressed q r is_last s)"
| "process_kademlia_event OtherKadEvent s = Some s"

end
