(* ===== verification/Task_Rendezvous.thy ===== *)
theory Task_Rendezvous
  imports Task_Kad
begin

section \<open>The background task: rendezvous (\<^verbatim>\<open>src/src/task/rendezvous.rs\<close>)\<close>

text \<open>
  Registrations and discoveries are queued per rendezvous node and namespace: the request at the head of a
  queue is the one libp2p is working on, and the next one starts when it is answered. The code fetches the swarm with
  \<^verbatim>\<open>expect\<close>; these functions take it as an argument.
\<close>

datatype rendezvous_command =
    Register namespace peer_id "u64 option" responder
  | Unregister namespace peer_id responder
  | Discover "namespace option" peer_id "cookie option" "u64 option" responder

type_synonym register_queue = "(u64 option \<times> responder) list"
type_synonym discover_queue = "(cookie option \<times> u64 option \<times> responder) list"

definition start_rendezvous_discovery ::
  "('sw, 'rr, 'o) task_ops \<Rightarrow> peer_id \<times> namespace option \<Rightarrow> cookie option \<Rightarrow> u64 option \<Rightarrow> 'sw \<Rightarrow> 'sw \<times> unit connexa_result" where
  "start_rendezvous_discovery ops key c ttl sw =
     (if \<not> rz_enabled ops sw then (sw, Inl (ErrDisabled Rendezvous))
      else (rz_discover ops (snd key) c ttl (fst key) sw, Inr ()))"

definition start_rendezvous_registration ::
  "('sw, 'rr, 'o) task_ops \<Rightarrow> peer_id \<times> namespace \<Rightarrow> u64 option \<Rightarrow> 'sw \<Rightarrow> 'sw \<times> unit connexa_result" where
  "start_rendezvous_registration ops key ttl sw =
     (if \<not> rz_enabled ops sw then (sw, Inl (ErrDisabled Rendezvous))
      else case rz_register ops (snd key) (fst key) ttl sw of
        (sw, Inl e) \<Rightarrow> (sw, Inl (ErrIo (IoErr OtherKind (Message e))))
      | (sw, Inr _) \<Rightarrow> (sw, Inr ()))"

definition process_register ::
  "('sw, 'rr, 'o) task_ops \<Rightarrow> namespace \<Rightarrow> peer_id \<Rightarrow> u64 option \<Rightarrow> responder \<Rightarrow> 'sw \<Rightarrow> 'sw task \<Rightarrow> 'sw task" where
  "process_register ops ns p ttl resp sw s =
     (let key = (p, ns) in
      case map_of (pending_rendezvous_register s) key of
        Some queue \<Rightarrow> s\<lparr>pending_rendezvous_register :=
          AList.update key (queue @ [(ttl, resp)]) (pending_rendezvous_register s)\<rparr>
      | None \<Rightarrow> (case start_rendezvous_registration ops key ttl sw of
          (sw, Inl e) \<Rightarrow> answer resp (RUnit (Inl e)) (with_swarm sw s)
        | (sw, Inr _) \<Rightarrow>
            (let s = with_swarm sw s in s\<lparr>pending_rendezvous_register :=
               AList.update key (or_default (pending_rendezvous_register s) key @ [(ttl, resp)])
                 (pending_rendezvous_register s)\<rparr>)))"

definition process_discover ::
  "('sw, 'rr, 'o) task_ops \<Rightarrow> namespace option \<Rightarrow> peer_id \<Rightarrow> cookie option \<Rightarrow> u64 option \<Rightarrow> responder \<Rightarrow> 'sw \<Rightarrow> 'sw task \<Rightarrow> 'sw task" where
  "process_discover ops ns p c ttl resp sw s =
     (let key = (p, ns) in
      case map_of (pending_rendezvous_discover s) key of
        Some queue \<Rightarrow> s\<lparr>pending_rendezvous_discover :=
          AList.update key (queue @ [(c, ttl, resp)]) (pending_rendezvous_discover s)\<rparr>
      | None \<Rightarrow> (case start_rendezvous_discovery ops key c ttl sw of
          (sw, Inl e) \<Rightarrow> answer resp (RDiscover (Inl e)) (with_swarm sw s)
        | (sw, Inr _) \<Rightarrow>
            (let s = with_swarm sw s in s\<lparr>pending_rendezvous_discover :=
               AList.update key (or_default (pending_rendezvous_discover s) key @ [(c, ttl, resp)])
                 (pending_rendezvous_discover s)\<rparr>)))"

fun process_rendezvous_command :: "('sw, 'rr, 'o) task_ops \<Rightarrow> rendezvous_command \<Rightarrow> 'sw \<Rightarrow> 'sw task \<Rightarrow> 'sw task" where
  "process_rendezvous_command ops (Register ns p ttl resp) sw s = process_register ops ns p ttl resp sw s"
| "process_rendezvous_command ops (Unregister ns p resp) sw s =
     (if \<not> rz_enabled ops sw then answer resp (RUnit (Inl (ErrDisabled Rendezvous))) s
      else answer resp (RUnit (Inr ())) (with_swarm (rz_unregister ops ns p sw) s))"
| "process_rendezvous_command ops (Discover ns p c ttl resp) sw s = process_discover ops ns p c ttl resp sw s"

subsection \<open>Answering the head of a queue and starting the next request\<close>

fun restart_registration :: "('sw, 'rr, 'o) task_ops \<Rightarrow> peer_id \<times> namespace \<Rightarrow> register_queue \<Rightarrow> 'sw \<Rightarrow> 'sw task \<Rightarrow> 'sw task" where
  "restart_registration ops key [] sw s = with_swarm sw s"
| "restart_registration ops key ((ttl, resp) # queue) sw s =
     (case start_rendezvous_registration ops key ttl sw of
        (sw, Inr _) \<Rightarrow> (with_swarm sw s)\<lparr>pending_rendezvous_register :=
          AList.update key ((ttl, resp) # queue) (pending_rendezvous_register s)\<rparr>
      | (sw, Inl e) \<Rightarrow> restart_registration ops key queue sw (answer resp (RUnit (Inl e)) s))"

definition finish_rendezvous_registration ::
  "('sw, 'rr, 'o) task_ops \<Rightarrow> peer_id \<times> namespace \<Rightarrow> unit connexa_result \<Rightarrow> 'sw \<Rightarrow> 'sw task \<Rightarrow> 'sw task" where
  "finish_rendezvous_registration ops key result sw s =
     (case map_of (pending_rendezvous_register s) key of
        None \<Rightarrow> s
      | Some queue \<Rightarrow>
          (let s = s\<lparr>pending_rendezvous_register := AList.delete key (pending_rendezvous_register s)\<rparr> in
           case queue of
             [] \<Rightarrow> s
           | (_, resp) # queue \<Rightarrow> restart_registration ops key queue sw (answer resp (RUnit result) s)))"

fun restart_discovery :: "('sw, 'rr, 'o) task_ops \<Rightarrow> peer_id \<times> namespace option \<Rightarrow> discover_queue \<Rightarrow> 'sw \<Rightarrow> 'sw task \<Rightarrow> 'sw task" where
  "restart_discovery ops key [] sw s = with_swarm sw s"
| "restart_discovery ops key ((c, ttl, resp) # queue) sw s =
     (case start_rendezvous_discovery ops key c ttl sw of
        (sw, Inr _) \<Rightarrow> (with_swarm sw s)\<lparr>pending_rendezvous_discover :=
          AList.update key ((c, ttl, resp) # queue) (pending_rendezvous_discover s)\<rparr>
      | (sw, Inl e) \<Rightarrow> restart_discovery ops key queue sw (answer resp (RDiscover (Inl e)) s))"

definition finish_rendezvous_discovery ::
  "('sw, 'rr, 'o) task_ops \<Rightarrow> peer_id \<times> namespace option \<Rightarrow> (cookie \<times> (peer_id \<times> multiaddr list) list) connexa_result \<Rightarrow>
   'sw \<Rightarrow> 'sw task \<Rightarrow> 'sw task" where
  "finish_rendezvous_discovery ops key result sw s =
     (case map_of (pending_rendezvous_discover s) key of
        None \<Rightarrow> s
      | Some queue \<Rightarrow>
          (let s = s\<lparr>pending_rendezvous_discover := AList.delete key (pending_rendezvous_discover s)\<rparr> in
           case queue of
             [] \<Rightarrow> s
           | (_, _, resp) # queue \<Rightarrow> restart_discovery ops key queue sw (answer resp (RDiscover result) s)))"

datatype rendezvous_client_event =
    Discovered peer_id "(peer_id \<times> multiaddr list) list" cookie
  | DiscoverFailed peer_id "namespace option" error_code
  | Registered peer_id u64 namespace
  | RegisterFailed peer_id namespace error_code
  | RendezvousExpired peer_id

fun process_rendezvous_client_event ::
  "('sw, 'rr, 'o) task_ops \<Rightarrow> rendezvous_client_event \<Rightarrow> 'sw \<Rightarrow> 'sw task \<Rightarrow> 'sw task" where
  "process_rendezvous_client_event ops (Discovered node registrations c) sw s =
     finish_rendezvous_discovery ops (node, cookie_namespace c) (Inr (c, registrations)) sw s"
| "process_rendezvous_client_event ops (DiscoverFailed node ns e) sw s =
     finish_rendezvous_discovery ops (node, ns) (Inl (ErrRendezvous (from_error_code e))) sw s"
| "process_rendezvous_client_event ops (Registered node ttl ns) sw s =
     finish_rendezvous_registration ops (node, ns) (Inr ()) sw s"
| "process_rendezvous_client_event ops (RegisterFailed node ns e) sw s =
     finish_rendezvous_registration ops (node, ns) (Inl (ErrRendezvous (from_error_code e))) sw s"
| "process_rendezvous_client_event ops (RendezvousExpired p) sw s = s"

subsection \<open>A rendezvous node that disconnects (\<^verbatim>\<open>src/src/task/swarm.rs\<close>)\<close>

fun fail_discoveries :: "peer_id \<Rightarrow> (peer_id \<times> namespace option) list \<Rightarrow> 'sw task \<Rightarrow> 'sw task" where
  "fail_discoveries p [] s = s"
| "fail_discoveries p (key # ks) s = fail_discoveries p ks
     (case map_of (pending_rendezvous_discover s) key of
        None \<Rightarrow> s
      | Some l \<Rightarrow> emit_all (map (\<lambda>(_, _, resp). Answer resp (RDiscover (Inl (ErrNotConnected p)))) l)
          (s\<lparr>pending_rendezvous_discover := AList.delete key (pending_rendezvous_discover s)\<rparr>))"

fun fail_registrations :: "peer_id \<Rightarrow> (peer_id \<times> namespace) list \<Rightarrow> 'sw task \<Rightarrow> 'sw task" where
  "fail_registrations p [] s = s"
| "fail_registrations p (key # ks) s = fail_registrations p ks
     (case map_of (pending_rendezvous_register s) key of
        None \<Rightarrow> s
      | Some l \<Rightarrow> emit_all (map (\<lambda>(_, resp). Answer resp (RUnit (Inl (ErrNotConnected p)))) l)
          (s\<lparr>pending_rendezvous_register := AList.delete key (pending_rendezvous_register s)\<rparr>))"

definition fail_pending_rendezvous :: "peer_id \<Rightarrow> 'sw task \<Rightarrow> 'sw task" where
  "fail_pending_rendezvous p s =
     (let s = fail_discoveries p (filter (\<lambda>(node, _). node = p) (keys (pending_rendezvous_discover s))) s
      in fail_registrations p (filter (\<lambda>(node, _). node = p) (keys (pending_rendezvous_register s))) s)"

end
