(* ===== verification/Task_Pubsub.thy ===== *)
theory Task_Pubsub
  imports Task_Rendezvous
begin

section \<open>The background task: publish-subscribe (\<^verbatim>\<open>src/src/task/gossipsub.rs\<close>, \<^verbatim>\<open>src/src/task/floodsub.rs\<close>)\<close>

text \<open>
  The commands of gossipsub and floodsub are answered at once. Their events go to the listeners of the
  topic, in the order in which these subscribed. The identity hash of a gossipsub topic is the topic.
\<close>

subsection \<open>Gossipsub\<close>

datatype gossipsub_command =
    GsSubscribe topic responder
  | GsUnsubscribe topic responder
  | GsSubscribed responder
  | GsPeers topic responder
  | GsListener topic responder
  | GsPublishCommand topic bytes responder
  | GsReportMessage peer_id message_id message_acceptance responder

definition topic_listener :: "topic \<Rightarrow> tx \<Rightarrow> (topic, tx list) alist \<Rightarrow> (topic, tx list) alist" where
  "topic_listener t tx m = AList.update t (or_default m t @ [tx]) m"

fun process_gossipsub_command :: "('sw, 'rr, 'o) task_ops \<Rightarrow> gossipsub_command \<Rightarrow> 'sw \<Rightarrow> 'sw task \<Rightarrow> 'sw task" where
  "process_gossipsub_command ops (GsSubscribe t resp) sw s =
     (if \<not> gs_enabled ops sw then answer resp (RUnit (Inl (ErrDisabled Gossipsub))) s
      else case gs_subscribe ops t sw of
        (sw, Inr True) \<Rightarrow> answer resp (RUnit (Inr ())) (with_swarm sw s)
      | (sw, Inr False) \<Rightarrow> answer resp (RUnit (Inl (ErrGossipsub (GsAlreadySubscribed t)))) (with_swarm sw s)
      | (sw, Inl e) \<Rightarrow> answer resp (RUnit (Inl (ErrGossipsub (GsSubscription e)))) (with_swarm sw s))"
| "process_gossipsub_command ops (GsUnsubscribe t resp) sw s =
     (if \<not> gs_enabled ops sw then answer resp (RUnit (Inl (ErrDisabled Gossipsub))) s
      else case gs_unsubscribe ops t sw of
        (sw, True) \<Rightarrow> answer resp (RUnit (Inr ())) (with_swarm sw s)
      | (sw, False) \<Rightarrow> answer resp (RUnit (Inl (ErrGossipsub (GsNotSubscribed t)))) (with_swarm sw s))"
| "process_gossipsub_command ops (GsPeers t resp) sw s =
     (if \<not> gs_enabled ops sw then answer resp (RPeersResult (Inl (ErrDisabled Gossipsub))) s
      else answer resp (RPeersResult (Inr (map fst (filter (\<lambda>(_, ts). t \<in> set ts) (gs_all_peers ops sw))))) s)"
| "process_gossipsub_command ops (GsSubscribed resp) sw s =
     (if \<not> gs_enabled ops sw then answer resp (RTopics (Inl (ErrDisabled Gossipsub))) s
      else answer resp (RTopics (Inr (gs_topics ops sw))) s)"
| "process_gossipsub_command ops (GsPublishCommand t data resp) sw s =
     (if \<not> gs_enabled ops sw then answer resp (RUnit (Inl (ErrDisabled Gossipsub))) s
      else case gs_publish ops t data sw of
        (sw, Inr _) \<Rightarrow> answer resp (RUnit (Inr ())) (with_swarm sw s)
      | (sw, Inl e) \<Rightarrow> answer resp (RUnit (Inl (ErrGossipsub (GsPublish e)))) (with_swarm sw s))"
| "process_gossipsub_command ops (GsListener t resp) sw s =
     (if \<not> gs_enabled ops sw then answer resp (RReceiverResult (Inl (ErrDisabled Gossipsub))) s
      else case new_channel s of (s, tx) \<Rightarrow>
        answer resp (RReceiverResult (Inr tx)) (s\<lparr>gossipsub_listener := topic_listener t tx (gossipsub_listener s)\<rparr>))"
| "process_gossipsub_command ops (GsReportMessage p m accept resp) sw s =
     (if \<not> gs_enabled ops sw then answer resp (RBoolResult (Inl (ErrDisabled Gossipsub))) s
      else case gs_report ops m p accept sw of
        (sw, stored) \<Rightarrow> answer resp (RBoolResult (Inr stored)) (with_swarm sw s))"

text \<open>A message as libp2p delivers it: its topic beside the fields that are passed on.\<close>

datatype gossipsub_swarm_event =
    GsMessage peer_id message_id topic "peer_id option" bytes "u64 option"
  | GsPeerSubscribed peer_id topic
  | GsPeerUnsubscribed peer_id topic
  | GsNotSupported peer_id
  | GsSlowPeer peer_id

fun gossipsub_topic_event :: "gossipsub_swarm_event \<Rightarrow> (topic \<times> gossipsub_event) option" where
  "gossipsub_topic_event (GsMessage propagated m t source data number) =
     Some (t, GossipsubMessageEvent \<lparr>gm_message_id = m, gm_propagated_source = propagated, gm_source = source,
       gm_data = data, gm_sequence_number = number\<rparr>)"
| "gossipsub_topic_event (GsPeerSubscribed p t) = Some (t, GossipsubSubscribed p)"
| "gossipsub_topic_event (GsPeerUnsubscribed p t) = Some (t, GossipsubUnsubscribed p)"
| "gossipsub_topic_event (GsNotSupported p) = None"
| "gossipsub_topic_event (GsSlowPeer p) = None"

definition process_gossipsub_event :: "gossipsub_swarm_event \<Rightarrow> 'sw task \<Rightarrow> 'sw task" where
  "process_gossipsub_event ev s = (case gossipsub_topic_event ev of
     None \<Rightarrow> s
   | Some (t, event) \<Rightarrow> (case map_of (gossipsub_listener s) t of
       None \<Rightarrow> s
     | Some chs \<Rightarrow> emit_all (map (\<lambda>tx. SendGossipsubEvent tx event) chs) s))"

subsection \<open>Floodsub\<close>

datatype floodsub_publish =
    FsPublish topic bytes | FsPublishAny topic bytes | FsPublishMany "topic list" bytes | FsPublishManyAny "topic list" bytes

datatype floodsub_command =
    FsSubscribe topic responder
  | FsUnsubscribe topic responder
  | FsAddNode peer_id responder
  | FsRemoveNode peer_id responder
  | FsListener topic responder
  | FsPublishCommand floodsub_publish responder

fun floodsub_publish_op :: "('sw, 'rr, 'o) task_ops \<Rightarrow> floodsub_publish \<Rightarrow> 'sw \<Rightarrow> 'sw" where
  "floodsub_publish_op ops (FsPublish t data) sw = fl_publish ops t data sw"
| "floodsub_publish_op ops (FsPublishAny t data) sw = fl_publish_any ops t data sw"
| "floodsub_publish_op ops (FsPublishMany ts data) sw = fl_publish_many ops ts data sw"
| "floodsub_publish_op ops (FsPublishManyAny ts data) sw = fl_publish_many_any ops ts data sw"

fun process_floodsub_command :: "('sw, 'rr, 'o) task_ops \<Rightarrow> floodsub_command \<Rightarrow> 'sw \<Rightarrow> 'sw task \<Rightarrow> 'sw task" where
  "process_floodsub_command ops (FsSubscribe t resp) sw s =
     (if \<not> fl_enabled ops sw then answer resp (RUnit (Inl (ErrDisabled Floodsub))) s
      else case fl_subscribe ops t sw of
        (sw, True) \<Rightarrow> answer resp (RUnit (Inr ())) (with_swarm sw s)
      | (sw, False) \<Rightarrow> answer resp (RUnit (Inl (ErrFloodsub (FsAlreadySubscribed t)))) (with_swarm sw s))"
| "process_floodsub_command ops (FsUnsubscribe t resp) sw s =
     (if \<not> fl_enabled ops sw then answer resp (RUnit (Inl (ErrDisabled Floodsub))) s
      else case fl_unsubscribe ops t sw of
        (sw, True) \<Rightarrow> answer resp (RUnit (Inr ())) (with_swarm sw s)
      | (sw, False) \<Rightarrow> answer resp (RUnit (Inl (ErrFloodsub (FsNotSubscribed t)))) (with_swarm sw s))"
| "process_floodsub_command ops (FsPublishCommand p resp) sw s =
     (if \<not> fl_enabled ops sw then answer resp (RUnit (Inl (ErrDisabled Floodsub))) s
      else answer resp (RUnit (Inr ())) (with_swarm (floodsub_publish_op ops p sw) s))"
| "process_floodsub_command ops (FsListener t resp) sw s =
     (if \<not> fl_enabled ops sw then answer resp (RReceiverResult (Inl (ErrDisabled Floodsub))) s
      else case new_channel s of (s, tx) \<Rightarrow>
        answer resp (RReceiverResult (Inr tx)) (s\<lparr>floodsub_listener := topic_listener t tx (floodsub_listener s)\<rparr>))"
| "process_floodsub_command ops (FsAddNode p resp) sw s =
     (if \<not> fl_enabled ops sw then answer resp (RUnit (Inl (ErrDisabled Floodsub))) s
      else answer resp (RUnit (Inr ())) (with_swarm (fl_add_node ops p sw) s))"
| "process_floodsub_command ops (FsRemoveNode p resp) sw s =
     (if \<not> fl_enabled ops sw then answer resp (RUnit (Inl (ErrDisabled Floodsub))) s
      else answer resp (RUnit (Inr ())) (with_swarm (fl_remove_node ops p sw) s))"

datatype floodsub_swarm_event =
    FsMessage peer_id bytes bytes "topic list"
  | FsPeerSubscribed peer_id topic
  | FsPeerUnsubscribed peer_id topic

fun floodsub_topic_event :: "floodsub_swarm_event \<Rightarrow> topic list \<times> floodsub_event" where
  "floodsub_topic_event (FsMessage source data number topics) =
     (topics, FloodsubMessageEvent \<lparr>fm_source = source, fm_data = data, fm_sequence_number = number\<rparr>)"
| "floodsub_topic_event (FsPeerSubscribed p t) = ([t], FloodsubSubscribed p)"
| "floodsub_topic_event (FsPeerUnsubscribed p t) = ([t], FloodsubUnsubscribed p)"

fun deliver_floodsub :: "floodsub_event \<Rightarrow> topic list \<Rightarrow> 'sw task \<Rightarrow> 'sw task" where
  "deliver_floodsub event [] s = s"
| "deliver_floodsub event (t # topics) s = deliver_floodsub event topics
     (case map_of (floodsub_listener s) t of
        None \<Rightarrow> s
      | Some chs \<Rightarrow> emit_all (map (\<lambda>tx. SendFloodsubEvent tx event) chs) s)"

definition process_floodsub_event :: "floodsub_swarm_event \<Rightarrow> 'sw task \<Rightarrow> 'sw task" where
  "process_floodsub_event ev s = (case floodsub_topic_event ev of (topics, event) \<Rightarrow> deliver_floodsub event topics s)"

end
