(* ===== verification/Task_Services.thy ===== *)
theory Task_Services
  imports Task_Pubsub
begin

section \<open>The background task: relays, address translation, streams, requests (\<^verbatim>\<open>src/src/task/relay.rs\<close>, \<^verbatim>\<open>autonat.rs\<close>, \<^verbatim>\<open>stream.rs\<close>, \<^verbatim>\<open>identify.rs\<close>)\<close>

text \<open>
  The remaining commands are answered at once. Those for relays act on the model of the relay behaviour, whose
  operations may panic (None); those for requests act on the model of the request-response slots. An identify
  message feeds the routing table of kademlia when the peer speaks one of its protocols.
\<close>

subsection \<open>Relays\<close>

datatype autorelay_command =
    ArAddStaticRelay peer_id multiaddr responder
  | ArRemoveStaticRelay peer_id responder
  | ArDisableRelays responder
  | ArListStaticRelays responder
  | ArGetStaticRelay peer_id responder
  | ArEnable responder
  | ArDisable responder

definition with_autorelay :: "('sw, 'rr, 'o) task_ops \<Rightarrow> autorelay \<Rightarrow> 'sw \<Rightarrow> 'sw task \<Rightarrow> 'sw task" where
  "with_autorelay ops ar sw s = with_swarm (set_autorelay ops ar sw) s"

abbreviation ar_disabled :: "'a connexa_result" where
  "ar_disabled \<equiv> Inl (ErrDisabled Autorelay)"

fun process_autorelay_commands ::
  "('sw, 'rr, 'o) task_ops \<Rightarrow> autorelay_command \<Rightarrow> 'sw \<Rightarrow> 'sw task \<Rightarrow> 'sw task option" where
  "process_autorelay_commands ops (ArAddStaticRelay p a resp) sw s = (case sw_autorelay ops sw of
     None \<Rightarrow> Some (answer resp (RBoolResult ar_disabled) s)
   | Some ar \<Rightarrow> (case add_static_relay (sw_autorelay_env ops sw) p a ar of
       None \<Rightarrow> None
     | Some (ar, added) \<Rightarrow> Some (answer resp (RBoolResult (Inr added)) (with_autorelay ops ar sw s))))"
| "process_autorelay_commands ops (ArRemoveStaticRelay p resp) sw s = (case sw_autorelay ops sw of
     None \<Rightarrow> Some (answer resp (RBoolResult ar_disabled) s)
   | Some ar \<Rightarrow> (case remove_static_relay p ar of
       (ar, removed) \<Rightarrow> Some (answer resp (RBoolResult (Inr removed)) (with_autorelay ops ar sw s))))"
| "process_autorelay_commands ops (ArListStaticRelays resp) sw s = (case sw_autorelay ops sw of
     None \<Rightarrow> Some (answer resp (RPeerAddrs ar_disabled) s)
   | Some ar \<Rightarrow> Some (answer resp (RPeerAddrs (Inr (static_relays ar))) s))"
| "process_autorelay_commands ops (ArGetStaticRelay p resp) sw s = (case sw_autorelay ops sw of
     None \<Rightarrow> Some (answer resp (RAddrsResult ar_disabled) s)
   | Some ar \<Rightarrow> Some (answer resp (RAddrsResult (case find (\<lambda>(q, _). q = p) (static_relays ar) of
         None \<Rightarrow> Inl (ErrNotFound ''static relay not found'') | Some (_, addrs) \<Rightarrow> Inr addrs)) s))"
| "process_autorelay_commands ops (ArEnable resp) sw s = (case sw_autorelay ops sw of
     None \<Rightarrow> Some (answer resp (RUnit ar_disabled) s)
   | Some ar \<Rightarrow> (case set_status (sw_autorelay_env ops sw) (Some Enable) ar of
       None \<Rightarrow> None
     | Some ar \<Rightarrow> Some (answer resp (RUnit (Inr ())) (with_autorelay ops ar sw s))))"
| "process_autorelay_commands ops (ArDisable resp) sw s = (case sw_autorelay ops sw of
     None \<Rightarrow> Some (answer resp (RUnit ar_disabled) s)
   | Some ar \<Rightarrow> (case set_status (sw_autorelay_env ops sw) (Some Disable) ar of
       None \<Rightarrow> None
     | Some ar \<Rightarrow> Some (answer resp (RUnit (Inr ())) (with_autorelay ops ar sw s))))"
| "process_autorelay_commands ops (ArDisableRelays resp) sw s = (case sw_autorelay ops sw of
     None \<Rightarrow> Some (answer resp (RUnit ar_disabled) s)
   | Some ar \<Rightarrow> Some (answer resp (RUnit (Inr ())) (with_autorelay ops (remove_all_reservations ar) sw s)))"

datatype relay_server_command = RelayServerStatusChanged "relay_server_status option" responder

fun process_relay_server_command ::
  "('sw, 'rr, 'o) task_ops \<Rightarrow> relay_server_command \<Rightarrow> 'sw \<Rightarrow> 'sw task \<Rightarrow> 'sw task" where
  "process_relay_server_command ops (RelayServerStatusChanged st resp) sw s =
     (if \<not> relay_server_enabled ops sw
      then answer resp (RRelayServer (Inl (IoErr OtherKind (Message ''relay server protocol is not enabled'')))) s
      else answer resp (RRelayServer (Inr ())) (with_swarm (relay_server_set_status ops st sw) s))"

subsection \<open>Autonat\<close>

datatype autonat_command =
    AnPublicAddress responder
  | AnNatStatus responder
  | AnAddServer peer_id "multiaddr option" responder
  | AnRemoveServer peer_id responder
  | AnProbe multiaddr responder

fun process_autonat_v1_command ::
  "('sw, 'rr, 'o) task_ops \<Rightarrow> autonat_command \<Rightarrow> 'sw \<Rightarrow> 'sw task \<Rightarrow> 'sw task" where
  "process_autonat_v1_command ops (AnPublicAddress resp) sw s =
     (if \<not> an_enabled ops sw then answer resp (RAddrOption (Inl (ErrDisabled Autonat))) s
      else answer resp (RAddrOption (Inr (an_public_address ops sw))) s)"
| "process_autonat_v1_command ops (AnNatStatus resp) sw s =
     (if \<not> an_enabled ops sw then answer resp (RNatStatus (Inl (ErrDisabled Autonat))) s
      else answer resp (RNatStatus (Inr (an_nat_status ops sw))) s)"
| "process_autonat_v1_command ops (AnAddServer p a resp) sw s =
     (if \<not> an_enabled ops sw then answer resp (RUnit (Inl (ErrDisabled Autonat))) s
      else answer resp (RUnit (Inr ())) (with_swarm (an_add_server ops p a sw) s))"
| "process_autonat_v1_command ops (AnRemoveServer p resp) sw s =
     (if \<not> an_enabled ops sw then answer resp (RUnit (Inl (ErrDisabled Autonat))) s
      else answer resp (RUnit (Inr ())) (with_swarm (an_remove_server ops p sw) s))"
| "process_autonat_v1_command ops (AnProbe a resp) sw s =
     (if \<not> an_enabled ops sw then answer resp (RUnit (Inl (ErrDisabled Autonat))) s
      else answer resp (RUnit (Inr ())) (with_swarm (an_probe ops a sw) s))"

subsection \<open>Streams\<close>

datatype stream_command = NewStream string responder | ControlHandle responder

fun process_stream_command ::
  "('sw, 'rr, 'o) task_ops \<Rightarrow> stream_command \<Rightarrow> 'sw \<Rightarrow> 'sw task \<Rightarrow> 'sw task" where
  "process_stream_command ops (NewStream protocol resp) sw s =
     (if \<not> stream_enabled ops sw then answer resp (RStreams (Inl (ErrDisabled StreamProtocolName))) s
      else case stream_accept ops protocol sw of
        (sw, Inl e) \<Rightarrow> answer resp (RStreams (Inl (ErrIo (IoErr OtherKind (Message e))))) (with_swarm sw s)
      | (sw, Inr streams) \<Rightarrow> answer resp (RStreams (Inr streams)) (with_swarm sw s))"
| "process_stream_command ops (ControlHandle resp) sw s =
     (if \<not> stream_enabled ops sw then answer resp (RControl (Inl (ErrDisabled StreamProtocolName))) s
      else answer resp (RControl (Inr (stream_new_control ops sw))) s)"

subsection \<open>Requests\<close>

definition process_rr_command :: "('sw, 'rr, 'o) task_ops \<Rightarrow> rr_command \<Rightarrow> 'sw \<Rightarrow> 'sw task \<Rightarrow> 'sw task" where
  "process_rr_command ops cmd sw s =
     (case process_request_response_command (rr_libp2p ops) cmd (sw_rr_slots ops sw) of
        (slots, resp, reply) \<Rightarrow> answer resp (RRequest reply) (with_swarm (set_rr_slots ops slots sw) s))"

subsection \<open>Identify\<close>

datatype identify_event =
    IdentifyReceived peer_id connection_id "multiaddr list" "string list"
  | IdentifySent peer_id connection_id
  | IdentifyPushed peer_id connection_id
  | IdentifyError peer_id connection_id string

definition add_addresses :: "('sw, 'rr, 'o) task_ops \<Rightarrow> peer_id \<Rightarrow> multiaddr list \<Rightarrow> 'sw \<Rightarrow> 'sw" where
  "add_addresses ops p addrs sw = fold (\<lambda>a sw. fst (kad_add_address ops p a sw)) addrs sw"

fun process_identify_event :: "('sw, 'rr, 'o) task_ops \<Rightarrow> identify_event \<Rightarrow> 'sw \<Rightarrow> 'sw task \<Rightarrow> 'sw task" where
  "process_identify_event ops (IdentifyReceived p c listen_addrs protocols) sw s =
     (if kad_enabled ops sw \<and> list_ex (\<lambda>protocol. protocol \<in> set protocols) (kad_protocol_names ops sw)
      then with_swarm (add_addresses ops p listen_addrs sw) s
      else s)"
| "process_identify_event ops (IdentifySent p c) sw s = s"
| "process_identify_event ops (IdentifyPushed p c) sw s = s"
| "process_identify_event ops (IdentifyError p c e) sw s = s"

end
