(* ===== verification/Task_Swarm.thy ===== *)
theory Task_Swarm
  imports Task_Services
begin

section \<open>The background task: swarm events, dispatch and polling (\<^verbatim>\<open>src/src/task/swarm.rs\<close>, \<^verbatim>\<open>src/src/task.rs\<close>)\<close>

text \<open>
  The events of the swarm, the dispatch of commands and the poll of the task. The environment of a call says which
  subscribers have gone away. The callbacks of the application may change the swarm and are parameters. The events whose
  handlers only write to the log (ping, autonat, relay, mdns, upnp, dcutr, the rendezvous server, the peer store) are
  \<open>LoggedEvent\<close>.
\<close>

type_synonym closed = "tx \<Rightarrow> bool"

definition notify :: "connexa_swarm_event \<Rightarrow> 'sw task \<Rightarrow> 'sw task" where
  "notify ev s = emit_all (map (\<lambda>tx. SendSwarmEvent tx ev) (connection_listeners s)) s"

definition prune_listeners :: "closed \<Rightarrow> 'sw task \<Rightarrow> 'sw task" where
  "prune_listeners closed s = s\<lparr>connection_listeners := filter (\<lambda>tx. \<not> closed tx) (connection_listeners s)\<rparr>"

datatype swarm_event =
    ConnectionEstablished peer_id connection_id connected_point nat
  | ConnectionClosed peer_id connection_id connected_point nat "string option"
  | IncomingConnection connection_id multiaddr multiaddr
  | IncomingConnectionError "peer_id option" connection_id multiaddr multiaddr string
  | OutgoingConnectionError connection_id "peer_id option" string
  | NewListenAddr listener_id multiaddr
  | ExpiredListenAddr listener_id multiaddr
  | ListenerClosed listener_id "multiaddr list" "(io_err \<times> string) option"
  | ExternalAddrConfirmed multiaddr
  | ExternalAddrExpired multiaddr
  | NewExternalAddrOfPeerEvent peer_id multiaddr
  | KademliaEvent kad_event
  | RendezvousClientEvent rendezvous_client_event
  | GossipsubEvent gossipsub_swarm_event
  | FloodsubEvent floodsub_swarm_event
  | IdentifyEvent identify_event
  | CustomEvent nat
  | LoggedEvent

definition on_established :: "closed \<Rightarrow> peer_id \<Rightarrow> connection_id \<Rightarrow> connected_point \<Rightarrow> nat \<Rightarrow> 'sw task \<Rightarrow> 'sw task" where
  "on_established closed p c ep n s =
     (let s = (case map_of (pending_connection s) c of
          Some resp \<Rightarrow> answer resp (RConnection (Inr c))
            (s\<lparr>pending_connection := AList.delete c (pending_connection s)\<rparr>)
        | None \<Rightarrow> s)
      in notify (CsConnectionEstablished p c ep n) (prune_listeners closed s))"

definition answer_disconnection ::
  "responder option \<Rightarrow> responder option \<Rightarrow> unit connexa_result \<Rightarrow> 'sw task \<Rightarrow> 'sw task" where
  "answer_disconnection by_connection by_peer ret s = (case (by_connection, by_peer) of
     (Some ch, None) \<Rightarrow> answer ch (RUnit ret) s
   | (None, Some ch) \<Rightarrow> answer ch (RUnit ret) s
   | (Some ch_left, Some ch_right) \<Rightarrow> answer ch_right (RUnit ret) (answer ch_left (RUnit (Inr ())) s)
   | (None, None) \<Rightarrow> s)"

definition on_closed ::
  "closed \<Rightarrow> peer_id \<Rightarrow> connection_id \<Rightarrow> connected_point \<Rightarrow> nat \<Rightarrow> string option \<Rightarrow> 'sw task \<Rightarrow> 'sw task" where
  "on_closed closed p c ep n cause s =
     (let by_connection = map_of (pending_disconnection_by_connection_id s) c;
          by_peer = map_of (pending_disconnection_by_peer_id s) p;
          s = s\<lparr>pending_disconnection_by_connection_id := AList.delete c (pending_disconnection_by_connection_id s),
                pending_disconnection_by_peer_id := AList.delete p (pending_disconnection_by_peer_id s)\<rparr>;
          ret = (case cause of Some e \<Rightarrow> Inl (ErrIo (IoErr OtherKind (Message e))) | None \<Rightarrow> Inr ());
          s = answer_disconnection by_connection by_peer ret s;
          s = notify (CsConnectionClosed p c ep n cause) (prune_listeners closed s)
      in if n = 0 then fail_pending_rendezvous p s else s)"

definition on_outgoing_error :: "connection_id \<Rightarrow> peer_id option \<Rightarrow> string \<Rightarrow> 'sw task \<Rightarrow> 'sw task" where
  "on_outgoing_error c p e s =
     (let s = (case map_of (pending_connection s) c of
          Some resp \<Rightarrow> answer resp (RConnection (Inl (ErrDial e)))
            (s\<lparr>pending_connection := AList.delete c (pending_connection s)\<rparr>)
        | None \<Rightarrow> s)
      in notify (CsOutgoingConnectionError c p e) s)"

definition on_new_listen_addr :: "listener_id \<Rightarrow> multiaddr \<Rightarrow> 'sw task \<Rightarrow> 'sw task" where
  "on_new_listen_addr lid a s =
     (let s = (case map_of (pending_listen_on s) lid of
          Some resp \<Rightarrow> answer resp (RListener (Inr lid))
            (s\<lparr>pending_listen_on := AList.delete lid (pending_listen_on s)\<rparr>)
        | None \<Rightarrow> s);
          s = s\<lparr>listener_addresses := AList.update lid (or_default (listener_addresses s) lid @ [a]) (listener_addresses s)\<rparr>
      in notify (CsNewListenAddr lid a) s)"

definition on_expired_listen_addr :: "listener_id \<Rightarrow> multiaddr \<Rightarrow> 'sw task \<Rightarrow> 'sw task" where
  "on_expired_listen_addr lid a s =
     (let s = (case map_of (listener_addresses s) lid of
          None \<Rightarrow> s
        | Some l \<Rightarrow> (let l' = filter (\<lambda>b. b \<noteq> a) l in
            if l' = [] then s\<lparr>listener_addresses := AList.delete lid (listener_addresses s)\<rparr>
            else s\<lparr>listener_addresses := AList.update lid l' (listener_addresses s)\<rparr>))
      in notify (CsListenAddrExpired lid a) s)"

text \<open>The reason a listener closed: an I/O error and its text.\<close>

definition on_listener_closed :: "listener_id \<Rightarrow> multiaddr list \<Rightarrow> (io_err \<times> string) option \<Rightarrow> 'sw task \<Rightarrow> 'sw task" where
  "on_listener_closed lid addrs reason s =
     (let s = s\<lparr>listener_addresses := AList.delete lid (listener_addresses s)\<rparr>;
          s = (case map_of (pending_listen_on s) lid of
            Some resp \<Rightarrow> answer resp (RListener (Inl (ErrIo (IoErr OtherKind (Message (case reason of
                 None \<Rightarrow> ''listener closed before producing an address'' | Some (_, text) \<Rightarrow> text))))))
              (s\<lparr>pending_listen_on := AList.delete lid (pending_listen_on s)\<rparr>)
          | None \<Rightarrow> s);
          s = (case map_of (pending_remove_listener s) lid of
            Some resp \<Rightarrow> answer resp (RUnit (case reason of
                 None \<Rightarrow> Inr () | Some (e, _) \<Rightarrow> Inl (ErrIo e)))
              (s\<lparr>pending_remove_listener := AList.delete lid (pending_remove_listener s)\<rparr>)
          | None \<Rightarrow> s)
      in notify (CsListenAddrClosed lid addrs) s)"

fun process_event ::
  "('sw, 'rr, 'o) task_ops \<Rightarrow> (nat \<Rightarrow> 'sw \<Rightarrow> 'sw) \<Rightarrow> closed \<Rightarrow> swarm_event \<Rightarrow> 'sw \<Rightarrow> 'sw task \<Rightarrow> 'sw task option" where
  "process_event ops custom closed (ConnectionEstablished p c ep n) sw s = Some (on_established closed p c ep n s)"
| "process_event ops custom closed (ConnectionClosed p c ep n cause) sw s = Some (on_closed closed p c ep n cause s)"
| "process_event ops custom closed (IncomingConnection c la sa) sw s = Some (notify (CsIncomingConnection c la sa) s)"
| "process_event ops custom closed (IncomingConnectionError p c la sa e) sw s =
     Some (notify (CsIncomingConnectionError c la sa e p) s)"
| "process_event ops custom closed (OutgoingConnectionError c p e) sw s = Some (on_outgoing_error c p e s)"
| "process_event ops custom closed (NewListenAddr lid a) sw s = Some (on_new_listen_addr lid a s)"
| "process_event ops custom closed (ExpiredListenAddr lid a) sw s = Some (on_expired_listen_addr lid a s)"
| "process_event ops custom closed (ListenerClosed lid addrs reason) sw s = Some (on_listener_closed lid addrs reason s)"
| "process_event ops custom closed (ExternalAddrConfirmed a) sw s = Some (notify (CsNewExternalAddr a) s)"
| "process_event ops custom closed (ExternalAddrExpired a) sw s = Some (notify (CsExternalAddrExpired a) s)"
| "process_event ops custom closed (NewExternalAddrOfPeerEvent p a) sw s = Some (notify (CsExternalAddrOfPeer p a) s)"
| "process_event ops custom closed (KademliaEvent ev) sw s = process_kademlia_event ev s"
| "process_event ops custom closed (RendezvousClientEvent ev) sw s = Some (process_rendezvous_client_event ops ev sw s)"
| "process_event ops custom closed (GossipsubEvent ev) sw s = Some (process_gossipsub_event ev s)"
| "process_event ops custom closed (FloodsubEvent ev) sw s = Some (process_floodsub_event ev s)"
| "process_event ops custom closed (IdentifyEvent ev) sw s = Some (process_identify_event ops ev sw s)"
| "process_event ops custom closed (CustomEvent n) sw s = Some (with_swarm (custom n sw) s)"
| "process_event ops custom closed LoggedEvent sw s = Some s"

text \<open>The application's callback sees the event first.\<close>

definition process_swarm_event ::
  "('sw, 'rr, 'o) task_ops \<Rightarrow> (swarm_event \<Rightarrow> 'sw \<Rightarrow> 'sw) \<Rightarrow> (nat \<Rightarrow> 'sw \<Rightarrow> 'sw) \<Rightarrow> closed \<Rightarrow> swarm_event \<Rightarrow>
   'sw task \<Rightarrow> 'sw task option" where
  "process_swarm_event ops callback custom closed ev s = (case swarm s of
     None \<Rightarrow> Some s
   | Some sw \<Rightarrow> (let sw = callback ev sw in process_event ops custom closed ev sw (with_swarm sw s)))"

subsection \<open>Commands\<close>

datatype command =
    SwarmCommand swarm_command
  | WhitelistCommand list_command
  | BlacklistCommand list_command
  | LimitsCommand limits_command
  | PeerstoreCommand peerstore_command
  | GossipsubCommand gossipsub_command
  | FloodsubCommand floodsub_command
  | AutonatCommand autonat_command
  | DhtCommand dht_command
  | AutoRelayCommand autorelay_command
  | RelayServerCommand relay_server_command
  | StreamCommand stream_command
  | RequestResponseCommand rr_command
  | RendezvousCommand rendezvous_command
  | CustomCommand nat

text \<open>A command may panic (None) only inside the relay behaviour.\<close>

definition process_command ::
  "('sw, 'rr, 'o) task_ops \<Rightarrow> (nat \<Rightarrow> 'sw \<Rightarrow> 'sw) \<Rightarrow> command \<Rightarrow> 'sw task \<Rightarrow> 'sw task option" where
  "process_command ops callback cmd s = (case swarm s of
     None \<Rightarrow> Some s
   | Some sw \<Rightarrow> (case cmd of
       SwarmCommand c \<Rightarrow> Some (process_swarm_command ops c sw s)
     | WhitelistCommand c \<Rightarrow> Some (process_whitelist_command ops c sw s)
     | BlacklistCommand c \<Rightarrow> Some (process_blacklist_command ops c sw s)
     | LimitsCommand c \<Rightarrow> Some (process_limits_command ops c sw s)
     | PeerstoreCommand c \<Rightarrow> Some (process_peerstore_command ops c sw s)
     | GossipsubCommand c \<Rightarrow> Some (process_gossipsub_command ops c sw s)
     | FloodsubCommand c \<Rightarrow> Some (process_floodsub_command ops c sw s)
     | AutonatCommand c \<Rightarrow> Some (process_autonat_v1_command ops c sw s)
     | DhtCommand c \<Rightarrow> Some (process_kademlia_command ops c sw s)
     | AutoRelayCommand c \<Rightarrow> process_autorelay_commands ops c sw s
     | RelayServerCommand c \<Rightarrow> Some (process_relay_server_command ops c sw s)
     | StreamCommand c \<Rightarrow> Some (process_stream_command ops c sw s)
     | RequestResponseCommand c \<Rightarrow> Some (process_rr_command ops c sw s)
     | RendezvousCommand c \<Rightarrow> Some (process_rendezvous_command ops c sw s)
     | CustomCommand n \<Rightarrow> Some (with_swarm (callback n sw) s)))"

subsection \<open>Polling\<close>

definition retain_open :: "closed \<Rightarrow> ('k, tx list) alist \<Rightarrow> ('k, tx list) alist" where
  "retain_open closed m = filter (\<lambda>(_, v). v \<noteq> []) (map (\<lambda>(k, v). (k, filter (\<lambda>tx. \<not> closed tx) v)) m)"

definition cleanup_channels :: "closed \<Rightarrow> 'sw task \<Rightarrow> 'sw task" where
  "cleanup_channels closed s = s\<lparr>gossipsub_listener := retain_open closed (gossipsub_listener s),
     floodsub_listener := retain_open closed (floodsub_listener s), dht_event_sender := retain_open closed (dht_event_sender s),
     dht_event_global_sender := filter (\<lambda>tx. \<not> closed tx) (dht_event_global_sender s),
     connection_listeners := filter (\<lambda>tx. \<not> closed tx) (connection_listeners s)\<rparr>"

fun process_commands ::
  "('sw, 'rr, 'o) task_ops \<Rightarrow> (nat \<Rightarrow> 'sw \<Rightarrow> 'sw) \<Rightarrow> command list \<Rightarrow> 'sw task \<Rightarrow> 'sw task option" where
  "process_commands ops callback [] s = Some s"
| "process_commands ops callback (cmd # cmds) s =
     do { s \<leftarrow> process_command ops callback cmd s; process_commands ops callback cmds s }"

fun process_events ::
  "('sw, 'rr, 'o) task_ops \<Rightarrow> (swarm_event \<Rightarrow> 'sw \<Rightarrow> 'sw) \<Rightarrow> (nat \<Rightarrow> 'sw \<Rightarrow> 'sw) \<Rightarrow> closed \<Rightarrow> swarm_event list \<Rightarrow>
   'sw task \<Rightarrow> 'sw task option" where
  "process_events ops callback custom closed [] s = Some s"
| "process_events ops callback custom closed (ev # evs) s =
     do { s \<leftarrow> process_swarm_event ops callback custom closed ev s; process_events ops callback custom closed evs s }"

definition drain_peerstore :: "'sw task \<Rightarrow> 'sw task" where
  "drain_peerstore s = emit_all (map (\<lambda>(resp, reply). Answer resp reply) (peerstore_ops s)) (s\<lparr>peerstore_ops := []\<rparr>)"

text \<open>
  A confirmed record is stored; an offer that was dropped is skipped. Storing needs the kademlia
  behaviour, without which the code panics (None).
\<close>

fun store_confirmed :: "('sw, 'rr, 'o) task_ops \<Rightarrow> ('r \<Rightarrow> 'sw \<Rightarrow> 'sw) \<Rightarrow> 'r option list \<Rightarrow> 'sw task \<Rightarrow> 'sw task option" where
  "store_confirmed ops put [] s = Some s"
| "store_confirmed ops put (None # rs) s = store_confirmed ops put rs s"
| "store_confirmed ops put (Some r # rs) s = (case swarm s of
     None \<Rightarrow> None
   | Some sw \<Rightarrow> if kad_enabled ops sw then store_confirmed ops put rs (with_swarm (put r sw) s) else None)"

definition take_ready :: "nat list \<Rightarrow> (nat \<times> 'r option) list \<Rightarrow> nat list \<times> 'r option list" where
  "take_ready receivers ready =
     (filter (\<lambda>rx. rx \<notin> fst ` set ready) receivers, map snd (filter (\<lambda>(rx, _). rx \<in> set receivers) ready))"

definition confirm_puts :: "('sw, 'rr, 'o) task_ops \<Rightarrow> (nat \<times> kad_record option) list \<Rightarrow> 'sw task \<Rightarrow> 'sw task option" where
  "confirm_puts ops ready s =
     (let keyed = concat (map snd (dht_put_record_receiver s));
          s = s\<lparr>dht_put_record_receiver := map (\<lambda>(k, rs). (k, fst (take_ready rs ready))) (dht_put_record_receiver s)\<rparr>
      in case store_confirmed ops (kad_store_put ops) (snd (take_ready keyed ready)) s of
           None \<Rightarrow> None
         | Some s \<Rightarrow>
             (let r = take_ready (dht_put_record_global_receiver s) ready
              in store_confirmed ops (kad_store_put ops) (snd r) (s\<lparr>dht_put_record_global_receiver := fst r\<rparr>)))"

definition confirm_providers :: "('sw, 'rr, 'o) task_ops \<Rightarrow> (nat \<times> provider_record option) list \<Rightarrow> 'sw task \<Rightarrow> 'sw task option" where
  "confirm_providers ops ready s =
     (let keyed = concat (map snd (dht_provider_record_receiver s));
          s = s\<lparr>dht_provider_record_receiver :=
                  map (\<lambda>(k, rs). (k, fst (take_ready rs ready))) (dht_provider_record_receiver s)\<rparr>
      in case store_confirmed ops (kad_store_add_provider ops) (snd (take_ready keyed ready)) s of
           None \<Rightarrow> None
         | Some s \<Rightarrow>
             (let r = take_ready (dht_provider_record_global_receiver s) ready
              in store_confirmed ops (kad_store_add_provider ops) (snd r)
                   (s\<lparr>dht_provider_record_global_receiver := fst r\<rparr>)))"

record 'sw poll_env =
  is_closed :: closed
  cleanup_due :: bool
  ready_commands :: "command list"
  ready_events :: "swarm_event list"
  ready_puts :: "(nat \<times> kad_record option) list"
  ready_providers :: "(nat \<times> provider_record option) list"
  task_callback :: "nat \<Rightarrow> 'sw \<Rightarrow> 'sw"
  event_callback :: "swarm_event \<Rightarrow> 'sw \<Rightarrow> 'sw"
  custom_event_callback :: "nat \<Rightarrow> 'sw \<Rightarrow> 'sw"
  pollable_callback :: "'sw \<Rightarrow> 'sw"

text \<open>
  One poll while the swarm is running: what is ready is served in the order of the code. The swarm
  stream of libp2p does not end, so the task finishes only when it has no swarm. The map of message
  validations is polled too; nothing is ever put into it.
\<close>

definition run_pollable :: "('sw \<Rightarrow> 'sw) \<Rightarrow> 'sw task \<Rightarrow> 'sw task" where
  "run_pollable callback s = (case swarm s of None \<Rightarrow> s | Some sw \<Rightarrow> with_swarm (callback sw) s)"

definition task_poll :: "('sw, 'rr, 'o) task_ops \<Rightarrow> 'sw poll_env \<Rightarrow> 'sw task \<Rightarrow> 'sw task option" where
  "task_poll ops env s =
     (if swarm s = None then Some s
      else
        let s = (if cleanup_due env then cleanup_channels (is_closed env) s else s) in
        do { s \<leftarrow> process_commands ops (task_callback env) (ready_commands env) s;
             s \<leftarrow> process_events ops (event_callback env) (custom_event_callback env) (is_closed env) (ready_events env) s;
             s \<leftarrow> confirm_puts ops (ready_puts env) (drain_peerstore (run_pollable (pollable_callback env) s));
             confirm_providers ops (ready_providers env) s })"

end
