(* ===== verification/Utf8_Lossy.thy ===== *)
theory Utf8_Lossy
  imports Keystore_Metadata
begin

section \<open>Text from bytes\<close>

text \<open>
  Topics, namespaces and protocol names may be given as bytes, which the handles turn into text with
  \<^verbatim>\<open>String::from_utf8_lossy\<close>. A string of the model is the list of the bytes of its UTF-8 encoding. The
  standard library decodes greedily: every maximal ill-formed prefix of a character becomes one replacement character.
\<close>

subsection \<open>Decoding one character\<close>

definition string_of_bytes :: "bytes \<Rightarrow> string" where
  "string_of_bytes bs = map (\<lambda>b. char_of (unat b)) bs"

definition is_continuation :: "u8 \<Rightarrow> bool" where
  "is_continuation b \<longleftrightarrow> 0x80 \<le> b \<and> b \<le> 0xBF"

definition char_width :: "u8 \<Rightarrow> nat" where
  "char_width b = (if b < 0x80 then 1 else if 0xC2 \<le> b \<and> b \<le> 0xDF then 2 else if 0xE0 \<le> b \<and> b \<le> 0xEF then 3
     else if 0xF0 \<le> b \<and> b \<le> 0xF4 then 4 else 0)"

text \<open>The second byte excludes overlong encodings, surrogates and values beyond the last code point.\<close>

definition second_ok :: "u8 \<Rightarrow> u8 \<Rightarrow> bool" where
  "second_ok b c \<longleftrightarrow> (if b = 0xE0 then 0xA0 \<le> c \<and> c \<le> 0xBF else if b = 0xED then 0x80 \<le> c \<and> c \<le> 0x9F
     else if b = 0xF0 then 0x90 \<le> c \<and> c \<le> 0xBF else if b = 0xF4 then 0x80 \<le> c \<and> c \<le> 0x8F else is_continuation c)"

definition byte_at :: "bytes \<Rightarrow> nat \<Rightarrow> u8" where
  "byte_at bs i = (if i < length bs then bs ! i else 0)"

text \<open>How many bytes the next step consumes, and whether they are a character.\<close>

definition next_char :: "bytes \<Rightarrow> nat \<times> bool" where
  "next_char bs =
     (let b = byte_at bs 0; w = char_width b in
      if w = 1 then (1, True)
      else if w = 2 then (if is_continuation (byte_at bs 1) then (2, True) else (1, False))
      else if w = 3 then
        (if \<not> second_ok b (byte_at bs 1) then (1, False)
         else if \<not> is_continuation (byte_at bs 2) then (2, False) else (3, True))
      else if w = 4 then
        (if \<not> second_ok b (byte_at bs 1) then (1, False)
         else if \<not> is_continuation (byte_at bs 2) then (2, False)
         else if \<not> is_continuation (byte_at bs 3) then (3, False) else (4, True))
      else (1, False))"

definition REPLACEMENT_CHARACTER :: bytes where
  "REPLACEMENT_CHARACTER = [0xEF, 0xBF, 0xBD]"

lemma next_char_pos: "next_char bs = (n, ok) \<Longrightarrow> 0 < n"
  by (auto simp: next_char_def Let_def split: if_splits)

function lossy_bytes :: "bytes \<Rightarrow> bytes" where
  "lossy_bytes bs = (if bs = [] then [] else case next_char bs of (n, ok) \<Rightarrow>
     (if ok then take n bs else REPLACEMENT_CHARACTER) @ lossy_bytes (drop n bs))"
  by pat_completeness auto
termination
  by (relation "measure length") (auto dest!: next_char_pos [OF sym] intro: diff_less)

function valid_utf8 :: "bytes \<Rightarrow> bool" where
  "valid_utf8 bs = (if bs = [] then True else case next_char bs of (n, ok) \<Rightarrow> ok \<and> valid_utf8 (drop n bs))"
  by pat_completeness auto
termination
  by (relation "measure length") (auto dest!: next_char_pos [OF sym] intro: diff_less)

declare lossy_bytes.simps [simp del] valid_utf8.simps [simp del]

definition from_utf8_lossy :: "bytes \<Rightarrow> string" where
  "from_utf8_lossy bs = string_of_bytes (lossy_bytes bs)"

subsection \<open>Lossy decoding repairs, and changes nothing that is well formed\<close>

lemma zero_not_continuation [simp]: "\<not> is_continuation 0" "\<not> second_ok b 0"
  by (simp_all add: is_continuation_def second_ok_def)

lemma byte_at_simps [simp]:
  "byte_at [] i = 0" "byte_at (b # bs) 0 = b" "byte_at (b # bs) (Suc i) = byte_at bs i"
  by (simp_all add: byte_at_def)

text \<open>A character is recognised whatever follows it.\<close>

lemma next_char_prefix:
  assumes "next_char bs = (n, True)" "bs \<noteq> []"
  shows "n \<le> length bs \<and> next_char (take n bs @ rest) = (n, True)"
proof -
  have long: "i < length bs" if "is_continuation (byte_at bs i) \<or> second_ok b (byte_at bs i)" for i b
    using that by (cases "i < length bs") (auto simp: byte_at_def)
  have same: "byte_at (take m bs @ rest) i = byte_at bs i" if "i < m" "m \<le> length bs" for i m
    using that by (simp add: byte_at_def nth_append)
  have "n = 1 \<or> n = 2 \<and> is_continuation (byte_at bs 1) \<or> n = 3 \<and> is_continuation (byte_at bs 2)
      \<or> n = 4 \<and> is_continuation (byte_at bs 3)"
    using assms(1) by (auto simp: next_char_def Let_def split: if_splits)
  moreover have "0 < length bs" using assms(2) by simp
  ultimately have "n \<le> length bs \<and> 0 < n"
    using long [of 1 0] long [of 2 0] long [of 3 0] by (auto simp: Suc_le_eq)
  then have n: "n \<le> length bs" and n0: "0 < n" by simp_all
  from assms(1) n n0 show ?thesis
    by (auto simp: next_char_def Let_def same split: if_splits)
qed

lemma lossy_valid: "valid_utf8 bs \<Longrightarrow> lossy_bytes bs = bs"
proof (induction bs rule: lossy_bytes.induct)
  case (1 bs)
  show ?case
  proof (cases "bs = []")
    case False
    obtain n ok where n: "next_char bs = (n, ok)" by fastforce
    from "1.prems" False n have "ok" "valid_utf8 (drop n bs)" by (simp_all add: valid_utf8.simps [of bs])
    with "1.IH" [OF False n [symmetric]] n False show ?thesis by (simp add: lossy_bytes.simps [of bs])
  qed (simp add: lossy_bytes.simps)
qed

lemma valid_append_char: "next_char bs = (n, True) \<Longrightarrow> bs \<noteq> [] \<Longrightarrow> valid_utf8 rest \<Longrightarrow> valid_utf8 (take n bs @ rest)"
  using next_char_prefix [of bs n rest] next_char_pos [of bs n True]
  by (subst valid_utf8.simps) simp

lemma valid_lossy: "valid_utf8 (lossy_bytes bs)"
proof (induction bs rule: lossy_bytes.induct)
  case (1 bs)
  show ?case
  proof (cases "bs = []")
    case False
    obtain n ok where n: "next_char bs = (n, ok)" by fastforce
    note rest = "1.IH" [OF False n [symmetric]]
    have repl: "next_char REPLACEMENT_CHARACTER = (3, True)"
      by (simp add: next_char_def REPLACEMENT_CHARACTER_def char_width_def second_ok_def is_continuation_def byte_at_def)
    show ?thesis
    proof (cases ok)
      case True
      with valid_append_char [of bs n] n False rest show ?thesis by (simp add: lossy_bytes.simps [of bs])
    next
      case False
      with valid_append_char [OF repl _ rest] n \<open>bs \<noteq> []\<close> show ?thesis
        by (simp add: lossy_bytes.simps [of bs] REPLACEMENT_CHARACTER_def)
    qed
  qed (simp add: lossy_bytes.simps valid_utf8.simps)
qed

lemma bytes_of_string [simp]: "as_bytes (string_of_bytes bs) = bs"
proof -
  have "word_of_nat (of_char (char_of (unat b) :: char)) = b" for b :: u8
    using unsigned_less [where ?'a = nat and w = b] by (simp add: of_char_of)
  then show ?thesis by (simp add: as_bytes_def string_of_bytes_def comp_def)
qed

lemma string_of_as_bytes [simp]: "string_of_bytes (as_bytes s) = s"
  using as_bytes_inj [of "string_of_bytes (as_bytes s)" s] by simp

lemma from_utf8_lossy_valid: "valid_utf8 (as_bytes s) \<Longrightarrow> from_utf8_lossy (as_bytes s) = s"
  by (simp add: from_utf8_lossy_def lossy_valid)

lemma from_utf8_lossy_wf: "valid_utf8 (as_bytes (from_utf8_lossy bs))"
  by (simp add: from_utf8_lossy_def valid_lossy)

end
