(* ===== verification/Handle_Convert.thy ===== *)
theory Handle_Convert
  imports Task_Swarm Utf8_Lossy
begin

section \<open>What the handles accept as arguments (\<^verbatim>\<open>src/src/handle/\<close>)\<close>

text \<open>
  The handles take addresses, keys, namespaces, topics, protocols and messages in many forms, through conversion traits. Every
  trait is a datatype of the forms it accepts and a function that converts them; the forms that differ only in ownership are one.
  Parsing of addresses, namespaces and protocol names is done by libp2p and is a parameter. A static protocol
  name that is invalid panics, which is None.
\<close>

subsection \<open>Addresses (\<^verbatim>\<open>ToMultiaddr\<close>)\<close>

datatype multiaddr_arg = AddrValue multiaddr | AddrText string

fun to_multiaddr :: "(string \<Rightarrow> (multiaddr, string) result) \<Rightarrow> multiaddr_arg \<Rightarrow> (multiaddr, io_err) result" where
  "to_multiaddr parse (AddrValue a) = Inr a"
| "to_multiaddr parse (AddrText t) = map_sum (\<lambda>e. IoErr OtherKind (Message e)) id (parse t)"

subsection \<open>Record keys (\<^verbatim>\<open>ToRecordKey\<close>, \<^verbatim>\<open>ToOptionalRecordKey\<close>)\<close>

text \<open>A content identifier is taken by the bytes of its hash.\<close>

datatype key_arg = KeyValue record_key | KeyText string | KeyBytes bytes | KeyCid bytes

fun to_record_key :: "key_arg \<Rightarrow> record_key" where
  "to_record_key (KeyValue k) = k"
| "to_record_key (KeyText t) = string_of_bytes (as_bytes t)"
| "to_record_key (KeyBytes bs) = string_of_bytes bs"
| "to_record_key (KeyCid hash) = string_of_bytes hash"

datatype optional_key_arg = SomeKey key_arg | OptionKey "key_arg option" | NoKey

fun to_optional_record_key :: "optional_key_arg \<Rightarrow> record_key option" where
  "to_optional_record_key (SomeKey k) = Some (to_record_key k)"
| "to_optional_record_key (OptionKey k) = map_option to_record_key k"
| "to_optional_record_key NoKey = None"

subsection \<open>Namespaces (\<^verbatim>\<open>IntoNamespace\<close>)\<close>

datatype namespace_arg =
    NsText string | NsValue namespace | NsUnit | NsBytes bytes | NsOption "namespace_arg option"

fun into_namespace ::
  "(string \<Rightarrow> (namespace, string) result) \<Rightarrow> namespace_arg \<Rightarrow> (namespace option, io_err) result" where
  "into_namespace new (NsText t) = map_sum (\<lambda>e. IoErr OtherKind (Message e)) Some (new t)"
| "into_namespace new (NsValue ns) = Inr (Some ns)"
| "into_namespace new NsUnit = Inr None"
| "into_namespace new (NsBytes bs) = map_sum (\<lambda>e. IoErr OtherKind (Message e)) Some (new (from_utf8_lossy bs))"
| "into_namespace new (NsOption (Some n)) = into_namespace new n"
| "into_namespace new (NsOption None) = Inr None"

subsection \<open>Topics (\<^verbatim>\<open>IntoTopic\<close>)\<close>

text \<open>Rust's \<^verbatim>\<open>join\<close> with a slash.\<close>

fun join_slash :: "string list \<Rightarrow> string" where
  "join_slash [] = []"
| "join_slash [s] = s"
| "join_slash (s # t # ss) = s @ CHR ''/'' # join_slash (t # ss)"

text \<open>
  A gossipsub topic with its own hasher, or made by a closure, is given by its hash; text is hashed by libp2p's identity hasher
  (\<open>ident_hash\<close>). A floodsub topic is made from text by libp2p (\<open>new_topic\<close>).
\<close>

datatype topic_arg = TopicValue topic | TopicText string | TopicBytes bytes | TopicPath "string list"

fun gossipsub_into_topic :: "(string \<Rightarrow> topic) \<Rightarrow> topic_arg \<Rightarrow> topic" where
  "gossipsub_into_topic ident_hash (TopicValue t) = t"
| "gossipsub_into_topic ident_hash (TopicText t) = ident_hash t"
| "gossipsub_into_topic ident_hash (TopicBytes bs) = ident_hash (from_utf8_lossy bs)"
| "gossipsub_into_topic ident_hash (TopicPath ss) = ident_hash (join_slash ss)"

fun floodsub_into_topic :: "(string \<Rightarrow> topic) \<Rightarrow> topic_arg \<Rightarrow> topic" where
  "floodsub_into_topic new_topic (TopicValue t) = t"
| "floodsub_into_topic new_topic (TopicText t) = new_topic t"
| "floodsub_into_topic new_topic (TopicBytes bs) = new_topic (from_utf8_lossy bs)"
| "floodsub_into_topic new_topic (TopicPath ss) = new_topic (join_slash ss)"

subsection \<open>Protocols and requests (\<^verbatim>\<open>OptionalStreamProtocol\<close>, \<^verbatim>\<open>IntoRequest\<close>, \<^verbatim>\<open>IntoStreamProtocol\<close>)\<close>

datatype protocol_arg =
    ProtocolUnit | ProtocolValue string | ProtocolOption "string option" | ProtocolOwned string | ProtocolStatic string

fun optional_stream_protocol :: "(string \<Rightarrow> bool) \<Rightarrow> protocol_arg \<Rightarrow> string option option" where
  "optional_stream_protocol valid ProtocolUnit = Some None"
| "optional_stream_protocol valid (ProtocolValue p) = Some (Some p)"
| "optional_stream_protocol valid (ProtocolOption p) = Some p"
| "optional_stream_protocol valid (ProtocolOwned p) = Some (if valid p then Some p else None)"
| "optional_stream_protocol valid (ProtocolStatic p) = (if valid p then Some (Some p) else None)"

text \<open>A message is bytes, text, or what a closure returns; it may come with a protocol.\<close>

datatype request_data = DataBytes bytes | DataText string | DataClosure "(bytes, io_err) result"
datatype request_arg = Request request_data | RequestOn protocol_arg request_data

fun request_bytes :: "request_data \<Rightarrow> (bytes, io_err) result" where
  "request_bytes (DataBytes bs) = Inr bs"
| "request_bytes (DataText t) = Inr (as_bytes t)"
| "request_bytes (DataClosure r) = r"

fun into_request :: "(string \<Rightarrow> bool) \<Rightarrow> request_arg \<Rightarrow> (string option \<times> bytes, io_err) result option" where
  "into_request valid (Request data) = Some (map_sum id (Pair None) (request_bytes data))"
| "into_request valid (RequestOn protocol data) = (case request_bytes data of
     Inl e \<Rightarrow> Some (Inl e)
   | Inr bs \<Rightarrow> (case optional_stream_protocol valid protocol of
       None \<Rightarrow> None
     | Some p \<Rightarrow> Some (Inr (p, bs))))"

datatype stream_protocol_arg = SpValue string | SpOwned string | SpStatic string | SpBytes bytes

fun into_protocol :: "(string \<Rightarrow> (string, string) result) \<Rightarrow> stream_protocol_arg \<Rightarrow> (string, io_err) result option" where
  "into_protocol try_from (SpValue p) = Some (Inr p)"
| "into_protocol try_from (SpOwned p) = Some (map_sum (\<lambda>e. IoErr OtherKind (Message e)) id (try_from p))"
| "into_protocol try_from (SpStatic p) = (case try_from p of Inl _ \<Rightarrow> None | Inr q \<Rightarrow> Some (Inr q))"
| "into_protocol try_from (SpBytes bs) =
     Some (map_sum (\<lambda>e. IoErr OtherKind (Message e)) id (try_from (from_utf8_lossy bs)))"

subsection \<open>The form of an argument does not matter\<close>

lemma same_record_key: "to_record_key (KeyBytes (as_bytes t)) = to_record_key (KeyText t)" "to_record_key (KeyText t) = t"
  by simp_all

lemma same_topic:
  "valid_utf8 (as_bytes t) \<Longrightarrow> gossipsub_into_topic h (TopicBytes (as_bytes t)) = gossipsub_into_topic h (TopicText t)"
  "valid_utf8 (as_bytes t) \<Longrightarrow> floodsub_into_topic h (TopicBytes (as_bytes t)) = floodsub_into_topic h (TopicText t)"
  "valid_utf8 (as_bytes t) \<Longrightarrow> into_namespace n (NsBytes (as_bytes t)) = into_namespace n (NsText t)"
  "valid_utf8 (as_bytes t) \<Longrightarrow> into_protocol p (SpBytes (as_bytes t)) = into_protocol p (SpOwned t)"
  by (simp_all add: from_utf8_lossy_valid)

text \<open>Splitting at slashes recovers the segments of a path.\<close>

fun split_slash :: "string \<Rightarrow> string list" where
  "split_slash [] = [[]]"
| "split_slash (c # cs) = (if c = CHR ''/'' then [] # split_slash cs
     else case split_slash cs of [] \<Rightarrow> [[c]] | s # ss \<Rightarrow> (c # s) # ss)"

lemma split_slash_segment:
  assumes "CHR ''/'' \<notin> set s"
  shows "split_slash s = [s]" "split_slash (s @ CHR ''/'' # cs) = s # split_slash cs"
  using assms by (induction s) auto

lemma split_join: "ss \<noteq> [] \<Longrightarrow> \<forall>s \<in> set ss. CHR ''/'' \<notin> set s \<Longrightarrow> split_slash (join_slash ss) = ss"
  by (induction ss rule: join_slash.induct) (auto simp: split_slash_segment)

end
