(* ===== verification/Handle_Api.thy ===== *)
theory Handle_Api
  imports Handle_Convert
begin

section \<open>The handles (\<^verbatim>\<open>src/src/handle.rs\<close>, \<^verbatim>\<open>src/src/handle/\<close>)\<close>

text \<open>
  A handle method converts and checks its arguments, creates a oneshot, sends a command with the sending end to
  the task and waits for the other end. Here a method is a function of its arguments and the oneshot (\<open>tx\<close>) that
  gives a \<open>call\<close>: rejected before anything is sent, a panic, or a command with the errors for a closed channel and the
  way the reply becomes the result. A reply of another type than the method waits for is None.
\<close>

datatype ('a, 'e) call =
    Rejected 'e
  | Panics
  | Sends command 'e 'e "task_reply \<Rightarrow> ('a, 'e) result option"

type_synonym 'a api_call = "('a, connexa_error) call"

abbreviation asks :: "command \<Rightarrow> (task_reply \<Rightarrow> 'a connexa_result option) \<Rightarrow> 'a api_call" where
  "asks cmd decode \<equiv> Sends cmd ErrChannelClosed ErrChannelClosed decode"

text \<open>The question mark on a fallible conversion.\<close>

fun check :: "('a, io_err) result \<Rightarrow> ('a \<Rightarrow> 'b api_call) \<Rightarrow> 'b api_call" where
  "check (Inl e) f = Rejected (ErrIo e)"
| "check (Inr a) f = f a"

fun check_panic :: "('a, io_err) result option \<Rightarrow> ('a \<Rightarrow> 'b api_call) \<Rightarrow> 'b api_call" where
  "check_panic None f = Panics"
| "check_panic (Some r) f = check r f"

subsection \<open>Replies\<close>

fun unit_reply :: "task_reply \<Rightarrow> unit connexa_result option" where
  "unit_reply (RUnit r) = Some (r)"
| "unit_reply _ = None"

fun connection_reply :: "task_reply \<Rightarrow> connection_id connexa_result option" where
  "connection_reply (RConnection r) = Some (r)"
| "connection_reply _ = None"

fun bool_reply :: "task_reply \<Rightarrow> bool connexa_result option" where
  "bool_reply (RBool b) = Some (Inr b)"
| "bool_reply _ = None"

fun peers_reply :: "task_reply \<Rightarrow> (peer_id list) connexa_result option" where
  "peers_reply (RPeers ps) = Some (Inr ps)"
| "peers_reply _ = None"

fun listener_reply :: "task_reply \<Rightarrow> listener_id connexa_result option" where
  "listener_reply (RListener r) = Some (r)"
| "listener_reply _ = None"

fun addrs_result_reply :: "task_reply \<Rightarrow> (multiaddr list) connexa_result option" where
  "addrs_result_reply (RAddrsResult r) = Some (r)"
| "addrs_result_reply _ = None"

fun addrs_reply :: "task_reply \<Rightarrow> (multiaddr list) connexa_result option" where
  "addrs_reply (RAddrs as) = Some (Inr as)"
| "addrs_reply _ = None"

fun receiver_reply :: "task_reply \<Rightarrow> tx connexa_result option" where
  "receiver_reply (RReceiver rx) = Some (Inr rx)"
| "receiver_reply _ = None"

fun receiver_result_reply :: "task_reply \<Rightarrow> tx connexa_result option" where
  "receiver_result_reply (RReceiverResult r) = Some (r)"
| "receiver_result_reply _ = None"

fun peers_result_reply :: "task_reply \<Rightarrow> (peer_id list) connexa_result option" where
  "peers_result_reply (RPeersResult r) = Some (r)"
| "peers_result_reply _ = None"

fun peer_addrs_reply :: "task_reply \<Rightarrow> ((peer_id \<times> multiaddr list) list) connexa_result option" where
  "peer_addrs_reply (RPeerAddrs r) = Some (r)"
| "peer_addrs_reply _ = None"

fun mode_reply :: "task_reply \<Rightarrow> kad_mode connexa_result option" where
  "mode_reply (RMode r) = Some (r)"
| "mode_reply _ = None"

fun bool_result_reply :: "task_reply \<Rightarrow> bool connexa_result option" where
  "bool_result_reply (RBoolResult r) = Some (r)"
| "bool_result_reply _ = None"

fun addr_option_reply :: "task_reply \<Rightarrow> (multiaddr option) connexa_result option" where
  "addr_option_reply (RAddrOption r) = Some (r)"
| "addr_option_reply _ = None"

fun nat_status_reply :: "task_reply \<Rightarrow> nat_status connexa_result option" where
  "nat_status_reply (RNatStatus r) = Some (r)"
| "nat_status_reply _ = None"

fun streams_reply :: "task_reply \<Rightarrow> nat connexa_result option" where
  "streams_reply (RStreams r) = Some (r)"
| "streams_reply _ = None"

fun control_reply :: "task_reply \<Rightarrow> nat connexa_result option" where
  "control_reply (RControl r) = Some (r)"
| "control_reply _ = None"

fun discover_reply :: "task_reply \<Rightarrow> ((cookie \<times> (peer_id \<times> multiaddr list) list)) connexa_result option" where
  "discover_reply (RDiscover r) = Some (r)"
| "discover_reply _ = None"

fun requests_reply :: "task_reply \<Rightarrow> ((outbound_id \<times> peer_id \<times> oneshot) list) connexa_result option" where
  "requests_reply (RRequest (RequestStream r)) = Some (r)"
| "requests_reply _ = None"

fun response_sent_reply :: "task_reply \<Rightarrow> unit connexa_result option" where
  "response_sent_reply (RRequest (ResponseSentReply r)) = Some (r)"
| "response_sent_reply _ = None"

fun subscriber_reply :: "task_reply \<Rightarrow> subscriber connexa_result option" where
  "subscriber_reply (RRequest (SubscriberReply r)) = Some (r)"
| "subscriber_reply _ = None"

subsection \<open>Swarm\<close>

text \<open>Peers and connections convert into targets.\<close>

definition swarm_dial :: "dial_opts \<Rightarrow> responder \<Rightarrow> connection_id api_call" where
  "swarm_dial target tx = asks (SwarmCommand (Dial target tx)) connection_reply"

definition swarm_disconnect :: "connection_target \<Rightarrow> responder \<Rightarrow> unit api_call" where
  "swarm_disconnect target tx = asks (SwarmCommand (Disconnect target tx)) unit_reply"

definition swarm_is_connected :: "peer_id \<Rightarrow> responder \<Rightarrow> bool api_call" where
  "swarm_is_connected p tx = asks (SwarmCommand (IsConnected p tx)) bool_reply"

definition swarm_connected_peers :: "responder \<Rightarrow> (peer_id list) api_call" where
  "swarm_connected_peers tx = asks (SwarmCommand (ConnectedPeers tx)) peers_reply"

definition swarm_listen_on :: "(string \<Rightarrow> (multiaddr, string) result) \<Rightarrow> multiaddr_arg \<Rightarrow> responder \<Rightarrow> listener_id api_call" where
  "swarm_listen_on parse addr tx = check (to_multiaddr parse addr) (\<lambda>a. asks (SwarmCommand (ListenOn a tx)) listener_reply)"

definition swarm_get_listening_addresses :: "listener_id \<Rightarrow> responder \<Rightarrow> (multiaddr list) api_call" where
  "swarm_get_listening_addresses lid tx = asks (SwarmCommand (GetListeningAddress lid tx)) addrs_result_reply"

definition swarm_remove_listener :: "listener_id \<Rightarrow> responder \<Rightarrow> unit api_call" where
  "swarm_remove_listener lid tx = asks (SwarmCommand (RemoveListener lid tx)) unit_reply"

definition swarm_add_external_address :: "(string \<Rightarrow> (multiaddr, string) result) \<Rightarrow> multiaddr_arg \<Rightarrow> responder \<Rightarrow> unit api_call" where
  "swarm_add_external_address parse addr tx = check (to_multiaddr parse addr) (\<lambda>a. asks (SwarmCommand (AddExternalAddress a tx)) unit_reply)"

definition swarm_remove_external_address :: "multiaddr \<Rightarrow> responder \<Rightarrow> unit api_call" where
  "swarm_remove_external_address a tx = asks (SwarmCommand (RemoveExternalAddress a tx)) unit_reply"

definition swarm_external_addresses :: "responder \<Rightarrow> (multiaddr list) api_call" where
  "swarm_external_addresses tx = asks (SwarmCommand (ListExternalAddresses tx)) addrs_reply"

definition swarm_listening_addresses :: "responder \<Rightarrow> (multiaddr list) api_call" where
  "swarm_listening_addresses tx = asks (SwarmCommand (ListListeningAddresses tx)) addrs_reply"

definition swarm_add_peer_address :: "peer_id \<Rightarrow> multiaddr \<Rightarrow> responder \<Rightarrow> unit api_call" where
  "swarm_add_peer_address p a tx = asks (SwarmCommand (AddPeerAddress p a tx)) unit_reply"

definition swarm_listener :: "responder \<Rightarrow> tx api_call" where
  "swarm_listener tx = asks (SwarmCommand (SwarmListener tx)) receiver_reply"

subsection \<open>Peer lists and the peer store\<close>

definition whitelist_add :: "peer_id \<Rightarrow> responder \<Rightarrow> unit api_call" where
  "whitelist_add p tx = asks (WhitelistCommand (ListAdd p tx)) unit_reply"

definition whitelist_remove :: "peer_id \<Rightarrow> responder \<Rightarrow> unit api_call" where
  "whitelist_remove p tx = asks (WhitelistCommand (ListRemove p tx)) unit_reply"

definition whitelist_list :: "responder \<Rightarrow> (peer_id list) api_call" where
  "whitelist_list tx = asks (WhitelistCommand (ListAll tx)) peers_result_reply"

definition blacklist_add :: "peer_id \<Rightarrow> responder \<Rightarrow> unit api_call" where
  "blacklist_add p tx = asks (BlacklistCommand (ListAdd p tx)) unit_reply"

definition blacklist_remove :: "peer_id \<Rightarrow> responder \<Rightarrow> unit api_call" where
  "blacklist_remove p tx = asks (BlacklistCommand (ListRemove p tx)) unit_reply"

definition blacklist_list :: "responder \<Rightarrow> (peer_id list) api_call" where
  "blacklist_list tx = asks (BlacklistCommand (ListAll tx)) peers_result_reply"

definition peer_store_add_address :: "peer_id \<Rightarrow> multiaddr \<Rightarrow> responder \<Rightarrow> unit api_call" where
  "peer_store_add_address p a tx = asks (PeerstoreCommand (PsAdd p a tx)) unit_reply"

definition peer_store_remove_address :: "peer_id \<Rightarrow> multiaddr \<Rightarrow> responder \<Rightarrow> unit api_call" where
  "peer_store_remove_address p a tx = asks (PeerstoreCommand (PsRemoveAddress p a tx)) unit_reply"

definition peer_store_remove_peer :: "peer_id \<Rightarrow> responder \<Rightarrow> (multiaddr list) api_call" where
  "peer_store_remove_peer p tx = asks (PeerstoreCommand (PsRemove p tx)) addrs_result_reply"

definition peer_store_list :: "peer_id \<Rightarrow> responder \<Rightarrow> (multiaddr list) api_call" where
  "peer_store_list p tx = asks (PeerstoreCommand (PsList p tx)) addrs_result_reply"

definition peer_store_list_all :: "responder \<Rightarrow> ((peer_id \<times> multiaddr list) list) api_call" where
  "peer_store_list_all tx = asks (PeerstoreCommand (PsListAll tx)) peer_addrs_reply"

subsection \<open>Autonat and relays\<close>

definition autonat_public_address :: "responder \<Rightarrow> (multiaddr option) api_call" where
  "autonat_public_address tx = asks (AutonatCommand (AnPublicAddress tx)) addr_option_reply"

definition autonat_nat_status :: "responder \<Rightarrow> nat_status api_call" where
  "autonat_nat_status tx = asks (AutonatCommand (AnNatStatus tx)) nat_status_reply"

definition autonat_add_server :: "peer_id \<Rightarrow> multiaddr option \<Rightarrow> responder \<Rightarrow> unit api_call" where
  "autonat_add_server p a tx = asks (AutonatCommand (AnAddServer p a tx)) unit_reply"

definition autonat_remove_server :: "peer_id \<Rightarrow> responder \<Rightarrow> unit api_call" where
  "autonat_remove_server p tx = asks (AutonatCommand (AnRemoveServer p tx)) unit_reply"

definition autonat_probe :: "multiaddr \<Rightarrow> responder \<Rightarrow> unit api_call" where
  "autonat_probe a tx = asks (AutonatCommand (AnProbe a tx)) unit_reply"

definition relay_add_static_relay :: "peer_id \<Rightarrow> multiaddr \<Rightarrow> responder \<Rightarrow> bool api_call" where
  "relay_add_static_relay p a tx = asks (AutoRelayCommand (ArAddStaticRelay p a tx)) bool_result_reply"

definition relay_remove_static_relay :: "peer_id \<Rightarrow> responder \<Rightarrow> bool api_call" where
  "relay_remove_static_relay p tx = asks (AutoRelayCommand (ArRemoveStaticRelay p tx)) bool_result_reply"

definition relay_list_static_relays :: "responder \<Rightarrow> ((peer_id \<times> multiaddr list) list) api_call" where
  "relay_list_static_relays tx = asks (AutoRelayCommand (ArListStaticRelays tx)) peer_addrs_reply"

definition relay_get_static_relay :: "peer_id \<Rightarrow> responder \<Rightarrow> (multiaddr list) api_call" where
  "relay_get_static_relay p tx = asks (AutoRelayCommand (ArGetStaticRelay p tx)) addrs_result_reply"

definition relay_enable_auto_relay :: "responder \<Rightarrow> unit api_call" where
  "relay_enable_auto_relay tx = asks (AutoRelayCommand (ArEnable tx)) unit_reply"

definition relay_disable_auto_relay :: "responder \<Rightarrow> unit api_call" where
  "relay_disable_auto_relay tx = asks (AutoRelayCommand (ArDisable tx)) unit_reply"

definition relay_disable_relays :: "responder \<Rightarrow> unit api_call" where
  "relay_disable_relays tx = asks (AutoRelayCommand (ArDisableRelays tx)) unit_reply"

text \<open>
  The relay server's method speaks I/O errors: the error of the channel to the task (\<open>closed\<close>) and that of the
  oneshot (\<open>canceled\<close>) are those of the libraries.
\<close>

fun relay_server_reply :: "task_reply \<Rightarrow> (unit, io_err) result option" where
  "relay_server_reply (RRelayServer r) = Some r"
| "relay_server_reply _ = None"

definition relay_server_change_status ::
  "io_err \<Rightarrow> io_err \<Rightarrow> relay_server_status option \<Rightarrow> responder \<Rightarrow> (unit, io_err) call" where
  "relay_server_change_status closed canceled st tx =
     Sends (RelayServerCommand (RelayServerStatusChanged st tx)) closed canceled relay_server_reply"

subsection \<open>The distributed hash table\<close>

definition dht_find_peer :: "peer_id \<Rightarrow> responder \<Rightarrow> (peer_id list) api_call" where
  "dht_find_peer p tx = asks (DhtCommand (FindPeer p tx)) peers_result_reply"

definition dht_provide :: "key_arg \<Rightarrow> responder \<Rightarrow> unit api_call" where
  "dht_provide key tx = asks (DhtCommand (Provide (to_record_key key) tx)) unit_reply"

definition dht_stop_provide :: "key_arg \<Rightarrow> responder \<Rightarrow> unit api_call" where
  "dht_stop_provide key tx = asks (DhtCommand (StopProviding (to_record_key key) tx)) unit_reply"

definition dht_get_providers :: "key_arg \<Rightarrow> responder \<Rightarrow> tx api_call" where
  "dht_get_providers key tx = asks (DhtCommand (GetProviders (to_record_key key) tx)) receiver_result_reply"

definition dht_bootstrap :: "responder \<Rightarrow> unit api_call" where
  "dht_bootstrap tx = asks (DhtCommand (Bootstrap False tx)) unit_reply"

definition dht_bootstrap_lazy :: "responder \<Rightarrow> unit api_call" where
  "dht_bootstrap_lazy tx = asks (DhtCommand (Bootstrap True tx)) unit_reply"

definition dht_listener :: "optional_key_arg \<Rightarrow> responder \<Rightarrow> tx api_call" where
  "dht_listener key tx = asks (DhtCommand (DhtListener (to_optional_record_key key) tx)) receiver_result_reply"

definition dht_get :: "key_arg \<Rightarrow> responder \<Rightarrow> tx api_call" where
  "dht_get key tx = asks (DhtCommand (Get (to_record_key key) tx)) receiver_result_reply"

definition dht_put :: "key_arg \<Rightarrow> bytes \<Rightarrow> quorum \<Rightarrow> responder \<Rightarrow> unit api_call" where
  "dht_put key data quorum tx = asks (DhtCommand (Put (to_record_key key) data quorum tx)) unit_reply"

definition dht_put_to :: "peer_id list \<Rightarrow> key_arg \<Rightarrow> bytes \<Rightarrow> quorum \<Rightarrow> responder \<Rightarrow> unit api_call" where
  "dht_put_to target key data quorum tx = asks (DhtCommand (PutTo (to_record_key key) data target quorum tx)) unit_reply"

definition dht_remove_record :: "key_arg \<Rightarrow> responder \<Rightarrow> unit api_call" where
  "dht_remove_record key tx = asks (DhtCommand (Remove (to_record_key key) tx)) unit_reply"

definition dht_set_mode :: "kad_mode option \<Rightarrow> responder \<Rightarrow> unit api_call" where
  "dht_set_mode m tx = asks (DhtCommand (SetDHTMode m tx)) unit_reply"

definition dht_mode :: "responder \<Rightarrow> kad_mode api_call" where
  "dht_mode tx = asks (DhtCommand (DHTMode tx)) mode_reply"

definition dht_add_address :: "peer_id \<Rightarrow> multiaddr \<Rightarrow> responder \<Rightarrow> unit api_call" where
  "dht_add_address p a tx = asks (DhtCommand (AddAddress p a tx)) unit_reply"

definition dht_remove_address :: "peer_id \<Rightarrow> multiaddr \<Rightarrow> responder \<Rightarrow> unit api_call" where
  "dht_remove_address p a tx = asks (DhtCommand (RemoveAddress p a tx)) unit_reply"

definition dht_remove_peer :: "peer_id \<Rightarrow> responder \<Rightarrow> unit api_call" where
  "dht_remove_peer p tx = asks (DhtCommand (RemovePeer p tx)) unit_reply"

subsection \<open>Rendezvous\<close>

text \<open>Registering needs a namespace; discovering may do without one.\<close>

definition required_namespace ::
  "(string \<Rightarrow> (namespace, string) result) \<Rightarrow> namespace_arg \<Rightarrow> (namespace \<Rightarrow> 'a api_call) \<Rightarrow> 'a api_call" where
  "required_namespace new ns f = check (into_namespace new ns)
     (\<lambda>n. case n of None \<Rightarrow> Rejected (ErrInvalidConfig ''namespace is not provided'') | Some n \<Rightarrow> f n)"

definition rendezvous_register :: "(string \<Rightarrow> (namespace, string) result) \<Rightarrow> peer_id \<Rightarrow> namespace_arg \<Rightarrow> u64 option \<Rightarrow> responder \<Rightarrow> unit api_call" where
  "rendezvous_register new p ns ttl tx = required_namespace new ns (\<lambda>n. asks (RendezvousCommand (Register n p ttl tx)) unit_reply)"

definition rendezvous_unregister :: "(string \<Rightarrow> (namespace, string) result) \<Rightarrow> peer_id \<Rightarrow> namespace_arg \<Rightarrow> responder \<Rightarrow> unit api_call" where
  "rendezvous_unregister new p ns tx = required_namespace new ns (\<lambda>n. asks (RendezvousCommand (Unregister n p tx)) unit_reply)"

definition rendezvous_discovery :: "(string \<Rightarrow> (namespace, string) result) \<Rightarrow> peer_id \<Rightarrow> namespace_arg \<Rightarrow> u64 option \<Rightarrow> cookie option \<Rightarrow> responder \<Rightarrow> ((cookie \<times> (peer_id \<times> multiaddr list) list)) api_call" where
  "rendezvous_discovery new p ns ttl c tx = check (into_namespace new ns) (\<lambda>n. asks (RendezvousCommand (Discover n p c ttl tx)) discover_reply)"

subsection \<open>Publish-subscribe\<close>

definition gossipsub_subscribe :: "(string \<Rightarrow> topic) \<Rightarrow> topic_arg \<Rightarrow> responder \<Rightarrow> unit api_call" where
  "gossipsub_subscribe h t tx = asks (GossipsubCommand (GsSubscribe (gossipsub_into_topic h t) tx)) unit_reply"

definition gossipsub_handle_listener :: "(string \<Rightarrow> topic) \<Rightarrow> topic_arg \<Rightarrow> responder \<Rightarrow> tx api_call" where
  "gossipsub_handle_listener h t tx = asks (GossipsubCommand (GsListener (gossipsub_into_topic h t) tx)) receiver_result_reply"

definition gossipsub_unsubscribe :: "(string \<Rightarrow> topic) \<Rightarrow> topic_arg \<Rightarrow> responder \<Rightarrow> unit api_call" where
  "gossipsub_unsubscribe h t tx = asks (GossipsubCommand (GsUnsubscribe (gossipsub_into_topic h t) tx)) unit_reply"

definition gossipsub_peers :: "(string \<Rightarrow> topic) \<Rightarrow> topic_arg \<Rightarrow> responder \<Rightarrow> (peer_id list) api_call" where
  "gossipsub_peers h t tx = asks (GossipsubCommand (GsPeers (gossipsub_into_topic h t) tx)) peers_result_reply"

definition gossipsub_publish :: "(string \<Rightarrow> topic) \<Rightarrow> topic_arg \<Rightarrow> bytes \<Rightarrow> responder \<Rightarrow> unit api_call" where
  "gossipsub_publish h t data tx = asks (GossipsubCommand (GsPublishCommand (gossipsub_into_topic h t) data tx)) unit_reply"

definition gossipsub_report_message :: "peer_id \<Rightarrow> message_id \<Rightarrow> message_acceptance \<Rightarrow> responder \<Rightarrow> bool api_call" where
  "gossipsub_report_message p m acc tx = asks (GossipsubCommand (GsReportMessage p m acc tx)) bool_result_reply"

definition floodsub_subscribe :: "(string \<Rightarrow> topic) \<Rightarrow> topic_arg \<Rightarrow> responder \<Rightarrow> unit api_call" where
  "floodsub_subscribe new t tx = asks (FloodsubCommand (FsSubscribe (floodsub_into_topic new t) tx)) unit_reply"

definition floodsub_add_node_to_partial_view :: "peer_id \<Rightarrow> responder \<Rightarrow> unit api_call" where
  "floodsub_add_node_to_partial_view p tx = asks (FloodsubCommand (FsAddNode p tx)) unit_reply"

definition floodsub_remove_node_from_partial_view :: "peer_id \<Rightarrow> responder \<Rightarrow> unit api_call" where
  "floodsub_remove_node_from_partial_view p tx = asks (FloodsubCommand (FsRemoveNode p tx)) unit_reply"

definition floodsub_handle_listener :: "(string \<Rightarrow> topic) \<Rightarrow> topic_arg \<Rightarrow> responder \<Rightarrow> tx api_call" where
  "floodsub_handle_listener new t tx = asks (FloodsubCommand (FsListener (floodsub_into_topic new t) tx)) receiver_result_reply"

definition floodsub_unsubscribe :: "(string \<Rightarrow> topic) \<Rightarrow> topic_arg \<Rightarrow> responder \<Rightarrow> unit api_call" where
  "floodsub_unsubscribe new t tx = asks (FloodsubCommand (FsUnsubscribe (floodsub_into_topic new t) tx)) unit_reply"

definition floodsub_handle_publish :: "(string \<Rightarrow> topic) \<Rightarrow> topic_arg \<Rightarrow> bytes \<Rightarrow> responder \<Rightarrow> unit api_call" where
  "floodsub_handle_publish new t data tx = asks (FloodsubCommand (FsPublishCommand (FsPublish (floodsub_into_topic new t) data) tx)) unit_reply"

definition floodsub_handle_publish_any :: "(string \<Rightarrow> topic) \<Rightarrow> topic_arg \<Rightarrow> bytes \<Rightarrow> responder \<Rightarrow> unit api_call" where
  "floodsub_handle_publish_any new t data tx = asks (FloodsubCommand (FsPublishCommand (FsPublishAny (floodsub_into_topic new t) data) tx)) unit_reply"

definition floodsub_handle_publish_many :: "(string \<Rightarrow> topic) \<Rightarrow> topic_arg list \<Rightarrow> bytes \<Rightarrow> responder \<Rightarrow> unit api_call" where
  "floodsub_handle_publish_many new ts data tx = asks (FloodsubCommand (FsPublishCommand (FsPublishMany (map (floodsub_into_topic new) ts) data) tx)) unit_reply"

definition floodsub_handle_publish_many_any :: "(string \<Rightarrow> topic) \<Rightarrow> topic_arg list \<Rightarrow> bytes \<Rightarrow> responder \<Rightarrow> unit api_call" where
  "floodsub_handle_publish_many_any new ts data tx = asks (FloodsubCommand (FsPublishCommand (FsPublishManyAny (map (floodsub_into_topic new) ts) data) tx)) unit_reply"

subsection \<open>Requests and responses\<close>

text \<open>The peers of a request, each once, in the order in which they were first named.\<close>

definition index_set :: "'a list \<Rightarrow> 'a list" where
  "index_set xs = rev (remdups (rev xs))"

definition request_listen_for_requests :: "(string \<Rightarrow> bool) \<Rightarrow> protocol_arg \<Rightarrow> responder \<Rightarrow> subscriber api_call" where
  "request_listen_for_requests valid protocol tx = (case optional_stream_protocol valid protocol of
     None \<Rightarrow> Panics
   | Some p \<Rightarrow> asks (RequestResponseCommand (ListenForRequests p tx)) subscriber_reply)"

definition request_send_requests ::
  "(string \<Rightarrow> bool) \<Rightarrow> peer_id list \<Rightarrow> request_arg \<Rightarrow> responder \<Rightarrow> ((outbound_id \<times> peer_id \<times> oneshot) list) api_call" where
  "request_send_requests valid peers request tx =
     (let peers = index_set peers in
      check_panic (into_request valid request) (\<lambda>(protocol, request).
        if peers = [] then Rejected (ErrInvalidConfig ''no peers were provided'')
        else if request = [] then Rejected (ErrInvalidConfig ''request is empty'')
        else asks (RequestResponseCommand (SendRequests protocol peers request tx)) requests_reply))"

text \<open>A single request waits for its response too; \<open>responses\<close> is what the stream of responses yields.\<close>

definition request_send_request ::
  "((outbound_id \<times> peer_id \<times> oneshot) list \<Rightarrow> (peer_id \<times> bytes connexa_result) list) \<Rightarrow> (string \<Rightarrow> bool) \<Rightarrow> peer_id \<Rightarrow>
   request_arg \<Rightarrow> responder \<Rightarrow> bytes api_call" where
  "request_send_request responses valid p request tx =
     check_panic (into_request valid request) (\<lambda>(protocol, request).
       if request = [] then Rejected (ErrInvalidConfig ''request is empty'')
       else asks (RequestResponseCommand (SendRequest protocol p request tx))
         (\<lambda>reply. map_option (\<lambda>fut. try_res fut (\<lambda>st. first_response (responses st))) (requests_reply reply)))"

definition request_send_response ::
  "(string \<Rightarrow> bool) \<Rightarrow> peer_id \<Rightarrow> inbound_id \<Rightarrow> request_arg \<Rightarrow> responder \<Rightarrow> unit api_call" where
  "request_send_response valid p rid response tx =
     check_panic (into_request valid response) (\<lambda>(protocol, response).
       if response = [] then Rejected (ErrInvalidConfig ''response is empty'')
       else asks (RequestResponseCommand (SendResponse protocol p rid response tx)) response_sent_reply)"

subsection \<open>Streams\<close>

definition stream_new_stream :: "string \<Rightarrow> responder \<Rightarrow> nat api_call" where
  "stream_new_stream protocol tx = asks (StreamCommand (NewStream protocol tx)) streams_reply"

definition stream_control_handle :: "responder \<Rightarrow> nat api_call" where
  "stream_control_handle tx = asks (StreamCommand (ControlHandle tx)) control_reply"

text \<open>Opening a stream asks for a control handle and uses libp2p's \<open>open\<close> on it.\<close>

definition stream_open_stream ::
  "(string \<Rightarrow> (string, string) result) \<Rightarrow> (nat \<Rightarrow> peer_id \<Rightarrow> string \<Rightarrow> (nat, string) result) \<Rightarrow> peer_id \<Rightarrow> stream_protocol_arg \<Rightarrow>
   responder \<Rightarrow> nat api_call" where
  "stream_open_stream try_from open p protocol tx = check_panic (into_protocol try_from protocol) (\<lambda>protocol.
     asks (StreamCommand (ControlHandle tx)) (\<lambda>reply. map_option (\<lambda>control. try_res control
       (\<lambda>c. map_sum (\<lambda>e. ErrIo (IoErr OtherKind (Message e))) id (open c p protocol))) (control_reply reply)))"

subsection \<open>Records offered to the application (\<^verbatim>\<open>RecordHandle\<close>)\<close>

text \<open>What the holder of an offered record may do with it, as the message on its confirmation channel.\<close>

record 'r record_handle =
  rh_record :: "'r option"
  rh_confirm :: "nat option"

definition accept_record :: "'r record_handle \<Rightarrow> (nat \<times> 'r) option" where
  "accept_record h = (case (rh_confirm h, rh_record h) of (Some ch, Some r) \<Rightarrow> Some (ch, r) | _ \<Rightarrow> None)"

definition accept_record_with :: "'r \<Rightarrow> 'r record_handle \<Rightarrow> (nat \<times> 'r) option" where
  "accept_record_with r h = map_option (\<lambda>ch. (ch, r)) (rh_confirm h)"

definition reject_record :: "'r record_handle \<Rightarrow> (nat \<times> 'r) option" where
  "reject_record h = None"

definition clone_record_handle :: "'r record_handle \<Rightarrow> 'r record_handle" where
  "clone_record_handle h = h\<lparr>rh_confirm := None\<rparr>"

subsection \<open>Running a call\<close>

text \<open>
  What the receiving end of a oneshot sees in the effects of the task: a reply, or that the sending end was
  dropped, or nothing yet.
\<close>

fun oneshot_state :: "responder \<Rightarrow> task_effect list \<Rightarrow> task_reply option option" where
  "oneshot_state tx [] = None"
| "oneshot_state tx (Answer r reply # es) = (if r = tx then Some (Some reply) else oneshot_state tx es)"
| "oneshot_state tx (DropResponder r # es) = (if r = tx then Some None else oneshot_state tx es)"
| "oneshot_state tx (_ # es) = oneshot_state tx es"

datatype ('a, 'e) outcome = Returns "('a, 'e) result" | Waits | PanicsNow | IllTyped

text \<open>The command a call hands to a task that is running.\<close>

fun submit :: "('a, 'e) call \<Rightarrow> command option" where
  "submit (Sends cmd _ _ _) = Some cmd"
| "submit _ = None"

text \<open>A custom event has no reply.\<close>

definition send_custom_event :: "bool \<Rightarrow> nat \<Rightarrow> command option \<times> unit connexa_result" where
  "send_custom_event alive ev = (if alive then (Some (CustomCommand ev), Inr ()) else (None, Inl ErrChannelClosed))"

text \<open>
  The state of a call after the task has produced the effects \<open>es\<close>. A call to a task that is gone fails at once;
  when the task goes away later, everything it has not answered is dropped.
\<close>

fun poll_call :: "bool \<Rightarrow> bool \<Rightarrow> responder \<Rightarrow> task_effect list \<Rightarrow> ('a, 'e) call \<Rightarrow> ('a, 'e) outcome" where
  "poll_call accepted alive tx es (Rejected e) = Returns (Inl e)"
| "poll_call accepted alive tx es Panics = PanicsNow"
| "poll_call accepted alive tx es (Sends cmd closed canceled decode) =
     (if \<not> accepted then Returns (Inl closed)
      else case oneshot_state tx es of
        Some (Some reply) \<Rightarrow> (case decode reply of Some r \<Rightarrow> Returns r | None \<Rightarrow> IllTyped)
      | Some None \<Rightarrow> Returns (Inl canceled)
      | None \<Rightarrow> if alive then Waits else Returns (Inl canceled))"

end
