(* ===== verification/Task_Accounting.thy ===== *)
theory Task_Accounting
  imports Task_Swarm
begin

section \<open>Every responder is accounted for\<close>

text \<open>
  The multiset of responders the task has received equals those it has answered, those a table
  overwrote and those still parked. Each handler adds the responder of its command, and no event changes the sum.
\<close>

fun settled_responder :: "task_effect \<Rightarrow> responder multiset" where
  "settled_responder (Answer r _) = {#r#}"
| "settled_responder (DropResponder r) = {#r#}"
| "settled_responder _ = {#}"

definition settled :: "task_effect list \<Rightarrow> responder multiset" where
  "settled es = sum_list (map settled_responder es)"

lemma settled_simps [simp]:
  "settled [] = {#}" "settled (e # es) = settled_responder e + settled es" "settled (es @ fs) = settled es + settled fs"
  by (simp_all add: settled_def)

definition parked :: "'sw task \<Rightarrow> responder multiset" where
  "parked s = handles (pending_dht_put_record s) + handles (pending_dht_put_provider_record s)
     + handles (pending_dht_find_closest_peer s) + handles (pending_dht_bootstrap s) + handles (pending_connection s)
     + handles (pending_disconnection_by_connection_id s) + handles (pending_disconnection_by_peer_id s)
     + handles (pending_listen_on s) + handles (pending_remove_listener s)
     + handles2 (pending_rendezvous_register s) + image_mset snd (handles2 (pending_rendezvous_discover s))
     + mset (map fst (peerstore_ops s))"

definition account :: "'sw task \<Rightarrow> responder multiset" where
  "account s = settled (effects s) + parked s"

definition task_wf :: "'sw task \<Rightarrow> bool" where
  "task_wf s \<longleftrightarrow> swarm s \<noteq> None \<and> wf_alist (pending_dht_put_record s) \<and> wf_alist (pending_dht_put_provider_record s)
     \<and> wf_alist (pending_dht_find_closest_peer s) \<and> wf_alist (pending_dht_bootstrap s) \<and> wf_alist (pending_connection s)
     \<and> wf_alist (pending_disconnection_by_connection_id s) \<and> wf_alist (pending_disconnection_by_peer_id s)
     \<and> wf_alist (pending_listen_on s) \<and> wf_alist (pending_remove_listener s)
     \<and> wf_alist (pending_rendezvous_register s) \<and> wf_alist (pending_rendezvous_discover s)"

text \<open>A step that receives the responders \<open>R\<close>.\<close>

definition receives :: "responder multiset \<Rightarrow> 'sw task \<Rightarrow> 'sw task \<Rightarrow> bool" where
  "receives R s s' \<longleftrightarrow> (task_wf s \<longrightarrow> task_wf s' \<and> account s' = account s + R)"

lemma receives_trans: "receives R s s' \<Longrightarrow> receives R' s' s'' \<Longrightarrow> receives (R + R') s s''"
  by (simp add: receives_def add.assoc)

lemma receives_refl [simp]: "receives {#} s s"
  by (simp add: receives_def)

lemma receives_trans0: "receives {#} s s' \<Longrightarrow> receives R s' s'' \<Longrightarrow> receives R s s''"
  "receives R s s' \<Longrightarrow> receives {#} s' s'' \<Longrightarrow> receives R s s''"
  using receives_trans [of "{#}"] receives_trans [of R _ _ "{#}"] by simp_all

lemma overwritten_handles:
  "wf_alist t \<Longrightarrow> settled (overwritten t k) + handles (AList.update k r t) = add_mset r (handles t)"
  by (cases "map_of t k") (simp_all add: overwritten_def handles_update delete_missing handles_delete [symmetric] add_mset_commute
      flip: handles_delete)

lemmas acct = account_def parked_def task_wf_def emit_all_def with_swarm_def

lemma receives_answer: "receives {#resp#} s (answer resp reply s)"
  by (simp add: receives_def account_def parked_def task_wf_def answer_def emit_all_def)

lemma receives_with_swarm: "receives {#} s (with_swarm sw s)"
  by (simp add: receives_def account_def parked_def task_wf_def with_swarm_def)

lemma receives_park:
  "receives {#resp#} s ((emit_all (overwritten (pending_connection s) c) s)\<lparr>pending_connection :=
     AList.update c resp (pending_connection (emit_all (overwritten (pending_connection s) c) s))\<rparr>)"
  "receives {#resp#} s ((emit_all (overwritten (pending_disconnection_by_peer_id s) p) s)\<lparr>pending_disconnection_by_peer_id :=
     AList.update p resp (pending_disconnection_by_peer_id (emit_all (overwritten (pending_disconnection_by_peer_id s) p) s))\<rparr>)"
  "receives {#resp#} s ((emit_all (overwritten (pending_disconnection_by_connection_id s) c) s)\<lparr>pending_disconnection_by_connection_id :=
     AList.update c resp (pending_disconnection_by_connection_id (emit_all (overwritten (pending_disconnection_by_connection_id s) c) s))\<rparr>)"
  "receives {#resp#} s ((emit_all (overwritten (pending_listen_on s) l) s)\<lparr>pending_listen_on :=
     AList.update l resp (pending_listen_on (emit_all (overwritten (pending_listen_on s) l) s))\<rparr>)"
  "receives {#resp#} s ((emit_all (overwritten (pending_remove_listener s) l) s)\<lparr>pending_remove_listener :=
     AList.update l resp (pending_remove_listener (emit_all (overwritten (pending_remove_listener s) l) s))\<rparr>)"
  "receives {#resp#} s ((emit_all (overwritten (pending_dht_find_closest_peer s) q) s)\<lparr>pending_dht_find_closest_peer :=
     AList.update q resp (pending_dht_find_closest_peer (emit_all (overwritten (pending_dht_find_closest_peer s) q) s))\<rparr>)"
  "receives {#resp#} s ((emit_all (overwritten (pending_dht_bootstrap s) q) s)\<lparr>pending_dht_bootstrap :=
     AList.update q resp (pending_dht_bootstrap (emit_all (overwritten (pending_dht_bootstrap s) q) s))\<rparr>)"
  "receives {#resp#} s ((emit_all (overwritten (pending_dht_put_provider_record s) q) s)\<lparr>pending_dht_put_provider_record :=
     AList.update q resp (pending_dht_put_provider_record (emit_all (overwritten (pending_dht_put_provider_record s) q) s))\<rparr>)"
  "receives {#resp#} s ((emit_all (overwritten (pending_dht_put_record s) q) s)\<lparr>pending_dht_put_record :=
     AList.update q resp (pending_dht_put_record (emit_all (overwritten (pending_dht_put_record s) q) s))\<rparr>)"
  subgoal using overwritten_handles [of "pending_connection s" c resp] by (simp add: receives_def acct ac_simps)
  subgoal using overwritten_handles [of "pending_disconnection_by_peer_id s" p resp] by (simp add: receives_def acct ac_simps)
  subgoal using overwritten_handles [of "pending_disconnection_by_connection_id s" c resp] by (simp add: receives_def acct ac_simps)
  subgoal using overwritten_handles [of "pending_listen_on s" l resp] by (simp add: receives_def acct ac_simps)
  subgoal using overwritten_handles [of "pending_remove_listener s" l resp] by (simp add: receives_def acct ac_simps)
  subgoal using overwritten_handles [of "pending_dht_find_closest_peer s" q resp] by (simp add: receives_def acct ac_simps)
  subgoal using overwritten_handles [of "pending_dht_bootstrap s" q resp] by (simp add: receives_def acct ac_simps)
  subgoal using overwritten_handles [of "pending_dht_put_provider_record s" q resp] by (simp add: receives_def acct ac_simps)
  subgoal using overwritten_handles [of "pending_dht_put_record s" q resp] by (simp add: receives_def acct ac_simps)
  done

lemma receives_settle:
  "map_of (pending_connection s) c = Some resp \<Longrightarrow>
     receives {#} s (answer resp reply (s\<lparr>pending_connection := AList.delete c (pending_connection s)\<rparr>))"
  "map_of (pending_disconnection_by_peer_id s) p = Some resp \<Longrightarrow>
     receives {#} s (answer resp reply (s\<lparr>pending_disconnection_by_peer_id := AList.delete p (pending_disconnection_by_peer_id s)\<rparr>))"
  "map_of (pending_disconnection_by_connection_id s) c = Some resp \<Longrightarrow>
     receives {#} s (answer resp reply (s\<lparr>pending_disconnection_by_connection_id := AList.delete c (pending_disconnection_by_connection_id s)\<rparr>))"
  "map_of (pending_listen_on s) l = Some resp \<Longrightarrow>
     receives {#} s (answer resp reply (s\<lparr>pending_listen_on := AList.delete l (pending_listen_on s)\<rparr>))"
  "map_of (pending_remove_listener s) l = Some resp \<Longrightarrow>
     receives {#} s (answer resp reply (s\<lparr>pending_remove_listener := AList.delete l (pending_remove_listener s)\<rparr>))"
  "map_of (pending_dht_find_closest_peer s) q = Some resp \<Longrightarrow>
     receives {#} s (answer resp reply (s\<lparr>pending_dht_find_closest_peer := AList.delete q (pending_dht_find_closest_peer s)\<rparr>))"
  "map_of (pending_dht_bootstrap s) q = Some resp \<Longrightarrow>
     receives {#} s (answer resp reply (s\<lparr>pending_dht_bootstrap := AList.delete q (pending_dht_bootstrap s)\<rparr>))"
  "map_of (pending_dht_put_provider_record s) q = Some resp \<Longrightarrow>
     receives {#} s (answer resp reply (s\<lparr>pending_dht_put_provider_record := AList.delete q (pending_dht_put_provider_record s)\<rparr>))"
  "map_of (pending_dht_put_record s) q = Some resp \<Longrightarrow>
     receives {#} s (answer resp reply (s\<lparr>pending_dht_put_record := AList.delete q (pending_dht_put_record s)\<rparr>))"
  subgoal using handles_delete [of "pending_connection s" c resp] by (simp add: receives_def acct answer_def)
  subgoal using handles_delete [of "pending_disconnection_by_peer_id s" p resp] by (simp add: receives_def acct answer_def)
  subgoal using handles_delete [of "pending_disconnection_by_connection_id s" c resp] by (simp add: receives_def acct answer_def)
  subgoal using handles_delete [of "pending_listen_on s" l resp] by (simp add: receives_def acct answer_def)
  subgoal using handles_delete [of "pending_remove_listener s" l resp] by (simp add: receives_def acct answer_def)
  subgoal using handles_delete [of "pending_dht_find_closest_peer s" q resp] by (simp add: receives_def acct answer_def)
  subgoal using handles_delete [of "pending_dht_bootstrap s" q resp] by (simp add: receives_def acct answer_def)
  subgoal using handles_delete [of "pending_dht_put_provider_record s" q resp] by (simp add: receives_def acct answer_def)
  subgoal using handles_delete [of "pending_dht_put_record s" q resp] by (simp add: receives_def acct answer_def)
  done

text \<open>The same after the swarm has changed.\<close>

lemmas receives_park_swarm = receives_park [THEN receives_trans0(1) [OF receives_with_swarm]]
lemmas receives_answer_swarm = receives_answer [THEN receives_trans0(1) [OF receives_with_swarm]]

lemma receives_fields [simp]:
  "receives R s (s'\<lparr>connection_listeners := a\<rparr>) = receives R s s'"
  "receives R s (s'\<lparr>listener_addresses := b\<rparr>) = receives R s s'"
  "receives R s (s'\<lparr>dht_event_sender := c\<rparr>) = receives R s s'"
  "receives R s (s'\<lparr>dht_event_global_sender := d\<rparr>) = receives R s s'"
  "receives R s (s'\<lparr>pending_dht_get_record := e\<rparr>) = receives R s s'"
  "receives R s (s'\<lparr>pending_dht_get_provider_record := e\<rparr>) = receives R s s'"
  "receives R s (s'\<lparr>next_channel := n\<rparr>) = receives R s s'"
  "receives R (s\<lparr>connection_listeners := a\<rparr>) s' = receives R s s'"
  "receives R (s\<lparr>listener_addresses := b\<rparr>) s' = receives R s s'"
  "receives R (s\<lparr>next_channel := n\<rparr>) s' = receives R s s'"
  by (simp_all add: receives_def acct)

subsection \<open>Commands\<close>

fun swarm_responder :: "swarm_command \<Rightarrow> responder" where
  "swarm_responder (Dial _ r) = r"
| "swarm_responder (IsConnected _ r) = r"
| "swarm_responder (Disconnect _ r) = r"
| "swarm_responder (ConnectedPeers r) = r"
| "swarm_responder (ListenOn _ r) = r"
| "swarm_responder (GetListeningAddress _ r) = r"
| "swarm_responder (RemoveListener _ r) = r"
| "swarm_responder (AddExternalAddress _ r) = r"
| "swarm_responder (RemoveExternalAddress _ r) = r"
| "swarm_responder (ListExternalAddresses r) = r"
| "swarm_responder (ListListeningAddresses r) = r"
| "swarm_responder (AddPeerAddress _ _ r) = r"
| "swarm_responder (SwarmListener r) = r"

lemma receives_remove_listener:
  "process_swarm_command ops (RemoveListener lid resp) sw s = s' \<Longrightarrow> receives {#resp#} s s'"
  using receives_park(5) [of resp "(with_swarm sw' s)\<lparr>listener_addresses := AList.delete lid (listener_addresses s)\<rparr>" lid for sw']
  by (auto simp: Let_def split: prod.splits bool.splits
      intro: receives_answer_swarm receives_trans0(1) [OF receives_with_swarm])

lemma receives_swarm_listener:
  "receives {#resp#} s (process_swarm_command ops (SwarmListener resp) sw s)"
  by (simp add: receives_def acct answer_def new_channel_def)

lemma receives_swarm_command: "receives {#swarm_responder cmd#} s (process_swarm_command ops cmd sw s)"
proof (cases "(\<exists>resp. cmd = SwarmListener resp) \<or> (\<exists>l resp. cmd = RemoveListener l resp)")
  case True
  then show ?thesis
    by (elim disjE exE) (simp_all only: swarm_responder.simps receives_swarm_listener receives_remove_listener [OF refl])
next
  case False
  then show ?thesis
    by (induction ops cmd sw s rule: process_swarm_command.induct)
      (auto simp: Let_def split: prod.split sum.split bool.split option.split
        intro: receives_answer receives_answer_swarm receives_park_swarm)
qed

subsection \<open>Other commands\<close>

fun list_responder :: "list_command \<Rightarrow> responder" where
  "list_responder (ListAdd _ r) = r"
| "list_responder (ListRemove _ r) = r"
| "list_responder (ListAll r) = r"

fun limits_responder :: "limits_command \<Rightarrow> responder" where
  "limits_responder (GetLimits r) = r"
| "limits_responder (SetLimits _ r) = r"

fun peerstore_responder :: "peerstore_command \<Rightarrow> responder" where
  "peerstore_responder (PsAdd _ _ r) = r"
| "peerstore_responder (PsRemoveAddress _ _ r) = r"
| "peerstore_responder (PsRemove _ r) = r"
| "peerstore_responder (PsList _ r) = r"
| "peerstore_responder (PsListAll r) = r"

lemma receives_defer: "receives {#resp#} s (defer_op resp reply s)"
  by (simp add: receives_def acct defer_op_def)

lemmas receives_defer_swarm = receives_defer [THEN receives_trans0(1) [OF receives_with_swarm]]

lemma receives_list_commands:
  "receives {#list_responder cmd#} s (process_whitelist_command ops cmd sw s)"
  "receives {#list_responder cmd#} s (process_blacklist_command ops cmd sw s)"
  by (cases cmd; auto split: prod.split bool.split intro: receives_answer receives_answer_swarm)+

lemma receives_limits_command: "receives {#limits_responder cmd#} s (process_limits_command ops cmd sw s)"
  by (cases cmd) (auto split: option.split intro: receives_answer receives_answer_swarm)

lemma receives_peerstore_command: "receives {#peerstore_responder cmd#} s (process_peerstore_command ops cmd sw s)"
  by (cases cmd) (auto split: option.split prod.split intro: receives_answer receives_defer receives_defer_swarm)

fun dht_responder :: "dht_command \<Rightarrow> responder" where
  "dht_responder (FindPeer _ r) = r"
| "dht_responder (Bootstrap _ r) = r"
| "dht_responder (Provide _ r) = r"
| "dht_responder (StopProviding _ r) = r"
| "dht_responder (GetProviders _ r) = r"
| "dht_responder (DhtListener _ r) = r"
| "dht_responder (SetDHTMode _ r) = r"
| "dht_responder (DHTMode r) = r"
| "dht_responder (AddAddress _ _ r) = r"
| "dht_responder (RemoveAddress _ _ r) = r"
| "dht_responder (RemovePeer _ r) = r"
| "dht_responder (Get _ r) = r"
| "dht_responder (Put _ _ _ r) = r"
| "dht_responder (PutTo _ _ _ _ r) = r"
| "dht_responder (Remove _ r) = r"

lemma settled_drop_channel [simp]: "settled (drop_channel t k) = {#}"
  by (simp add: drop_channel_def split: option.split)

lemma receives_kad_channels:
  "receives {#resp#} s (kad_providers_command ops key resp sw s)"
  "receives {#resp#} s (kad_get_command ops key resp sw s)"
  "receives {#resp#} s (kad_listener ops k resp sw s)"
  by (auto simp: kad_providers_command_def kad_get_command_def kad_listener_def receives_def acct answer_def new_channel_def
      Let_def split: prod.split option.split)

lemma receives_kad_parking:
  "receives {#resp#} s (kad_find_peer ops p resp sw s)"
  "receives {#resp#} s (kad_bootstrap_command ops lazy resp sw s)"
  "receives {#resp#} s (kad_provide ops key resp sw s)"
  "receives {#resp#} s (kad_put_command ops key data quorum resp sw s)"
  "receives {#resp#} s (kad_put_to_command ops key data target quorum resp sw s)"
  by (auto simp: kad_find_peer_def kad_bootstrap_command_def kad_provide_def kad_put_command_def kad_put_to_command_def
      park_put_def Let_def split: prod.split sum.split
      intro: receives_answer receives_answer_swarm receives_park_swarm)

lemma receives_kad_command: "receives {#dht_responder cmd#} s (process_kademlia_command ops cmd sw s)"
  by (cases cmd) (auto simp: receives_kad_channels receives_kad_parking kad_routing_command_def kad_remove_command_def
      split: prod.split bool.split intro: receives_answer receives_answer_swarm)

fun rendezvous_responder :: "rendezvous_command \<Rightarrow> responder" where
  "rendezvous_responder (Register _ _ _ r) = r"
| "rendezvous_responder (Unregister _ _ r) = r"
| "rendezvous_responder (Discover _ _ _ _ r) = r"

lemma handles2_missing: "map_of t k = None \<Longrightarrow> handles2 (AList.update k l t) = handles l + handles2 t"
  by (simp add: map_of_eq_None_iff update_fresh handles2_def)

lemma receives_register: "receives {#resp#} s (process_register ops ns p ttl resp sw s)"
proof (cases "map_of (pending_rendezvous_register s) (p, ns)")
  case None
  then show ?thesis
    by (auto simp: process_register_def Let_def or_default_def split: prod.split sum.split intro!: receives_answer_swarm)
      (simp add: receives_def acct handles2_missing)
next
  case (Some queue)
  then show ?thesis
    by (simp add: process_register_def receives_def acct handles2_update handles2_delete [OF _ Some])
qed

lemma receives_discover: "receives {#resp#} s (process_discover ops ns p c ttl resp sw s)"
proof (cases "map_of (pending_rendezvous_discover s) (p, ns)")
  case None
  then show ?thesis
    by (auto simp: process_discover_def Let_def or_default_def split: prod.split sum.split intro!: receives_answer_swarm)
      (simp add: receives_def acct handles2_missing)
next
  case (Some queue)
  then show ?thesis
    by (simp add: process_discover_def receives_def acct handles2_update handles2_delete [OF _ Some])
qed

lemma receives_rendezvous_command:
  "receives {#rendezvous_responder cmd#} s (process_rendezvous_command ops cmd sw s)"
  by (cases cmd) (auto simp: receives_register receives_discover intro: receives_answer receives_answer_swarm)

fun gossipsub_responder :: "gossipsub_command \<Rightarrow> responder" where
  "gossipsub_responder (GsSubscribe _ r) = r"
| "gossipsub_responder (GsUnsubscribe _ r) = r"
| "gossipsub_responder (GsSubscribed r) = r"
| "gossipsub_responder (GsPeers _ r) = r"
| "gossipsub_responder (GsListener _ r) = r"
| "gossipsub_responder (GsPublishCommand _ _ r) = r"
| "gossipsub_responder (GsReportMessage _ _ _ r) = r"

fun floodsub_responder :: "floodsub_command \<Rightarrow> responder" where
  "floodsub_responder (FsSubscribe _ r) = r"
| "floodsub_responder (FsUnsubscribe _ r) = r"
| "floodsub_responder (FsAddNode _ r) = r"
| "floodsub_responder (FsRemoveNode _ r) = r"
| "floodsub_responder (FsListener _ r) = r"
| "floodsub_responder (FsPublishCommand _ r) = r"

fun autorelay_responder :: "autorelay_command \<Rightarrow> responder" where
  "autorelay_responder (ArAddStaticRelay _ _ r) = r"
| "autorelay_responder (ArRemoveStaticRelay _ r) = r"
| "autorelay_responder (ArDisableRelays r) = r"
| "autorelay_responder (ArListStaticRelays r) = r"
| "autorelay_responder (ArGetStaticRelay _ r) = r"
| "autorelay_responder (ArEnable r) = r"
| "autorelay_responder (ArDisable r) = r"

fun autonat_responder :: "autonat_command \<Rightarrow> responder" where
  "autonat_responder (AnPublicAddress r) = r"
| "autonat_responder (AnNatStatus r) = r"
| "autonat_responder (AnAddServer _ _ r) = r"
| "autonat_responder (AnRemoveServer _ r) = r"
| "autonat_responder (AnProbe _ r) = r"

fun stream_responder :: "stream_command \<Rightarrow> responder" where
  "stream_responder (NewStream _ r) = r"
| "stream_responder (ControlHandle r) = r"

lemma receives_listener:
  "receives {#resp#} s (answer resp reply (s\<lparr>next_channel := n, gossipsub_listener := m\<rparr>))"
  "receives {#resp#} s (answer resp reply (s\<lparr>next_channel := n, floodsub_listener := m\<rparr>))"
  by (simp_all add: receives_def acct answer_def)

lemma receives_gossipsub_command:
  "receives {#gossipsub_responder cmd#} s (process_gossipsub_command ops cmd sw s)"
  by (cases cmd) (auto simp: new_channel_def split: prod.split sum.split bool.split
      intro: receives_answer receives_answer_swarm receives_listener)

lemma receives_floodsub_command:
  "receives {#floodsub_responder cmd#} s (process_floodsub_command ops cmd sw s)"
  by (cases cmd) (auto simp: new_channel_def split: prod.split bool.split
      intro: receives_answer receives_answer_swarm receives_listener)

lemma receives_service_commands:
  "receives {#autonat_responder anc#} s (process_autonat_v1_command ops anc sw s)"
  "receives {#stream_responder stc#} s (process_stream_command ops stc sw s)"
  "process_autorelay_commands ops arc sw s = Some s' \<Longrightarrow> receives {#autorelay_responder arc#} s s'"
  "receives {#resp#} s (process_relay_server_command ops (RelayServerStatusChanged st resp) sw s)"
  subgoal by (cases anc) (auto intro: receives_answer receives_answer_swarm)
  subgoal by (cases stc) (auto split: prod.split sum.split intro: receives_answer receives_answer_swarm)
  subgoal by (cases arc) (auto simp: with_autorelay_def split: option.splits prod.splits
      intro: receives_answer receives_answer_swarm)
  subgoal by (auto intro: receives_answer receives_answer_swarm)
  done

lemma rr_command_responder:
  "process_request_response_command ops cmd slots = (slots', resp, reply) \<Longrightarrow> resp = command_responder cmd"
  by (cases cmd) (auto split: option.splits prod.splits)

lemma receives_rr_command: "receives {#command_responder cmd#} s (process_rr_command ops cmd sw s)"
  by (auto simp: process_rr_command_def split: prod.split dest: rr_command_responder intro: receives_answer_swarm)

fun responder_of :: "command \<Rightarrow> responder multiset" where
  "responder_of (SwarmCommand c) = {#swarm_responder c#}"
| "responder_of (WhitelistCommand c) = {#list_responder c#}"
| "responder_of (BlacklistCommand c) = {#list_responder c#}"
| "responder_of (LimitsCommand c) = {#limits_responder c#}"
| "responder_of (PeerstoreCommand c) = {#peerstore_responder c#}"
| "responder_of (GossipsubCommand c) = {#gossipsub_responder c#}"
| "responder_of (FloodsubCommand c) = {#floodsub_responder c#}"
| "responder_of (AutonatCommand c) = {#autonat_responder c#}"
| "responder_of (DhtCommand c) = {#dht_responder c#}"
| "responder_of (AutoRelayCommand c) = {#autorelay_responder c#}"
| "responder_of (RelayServerCommand (RelayServerStatusChanged _ r)) = {#r#}"
| "responder_of (StreamCommand c) = {#stream_responder c#}"
| "responder_of (RequestResponseCommand c) = {#command_responder c#}"
| "responder_of (RendezvousCommand c) = {#rendezvous_responder c#}"
| "responder_of (CustomCommand n) = {#}"

lemmas receives_commands = receives_swarm_command receives_list_commands receives_limits_command
  receives_peerstore_command receives_gossipsub_command receives_floodsub_command receives_service_commands
  receives_kad_command receives_rr_command receives_rendezvous_command receives_with_swarm

lemma receives_command:
  assumes "process_command ops callback cmd s = Some s'" "swarm s \<noteq> None"
  shows "receives (responder_of cmd) s s'"
proof -
  from assms(2) obtain sw where sw: "swarm s = Some sw" by auto
  show ?thesis
  proof (cases cmd)
    case (RelayServerCommand c)
    with assms sw show ?thesis by (cases c) (auto simp: process_command_def receives_commands simp del: process_relay_server_command.simps)
  qed (use assms sw in \<open>auto simp: process_command_def receives_commands\<close>)
qed

subsection \<open>Events\<close>

lemma settled_map [simp]:
  "settled (map (\<lambda>tx. SendSwarmEvent tx ev) txs) = {#}"
  "settled (map (\<lambda>(c, t, r). Answer r (reply3 r)) l3) = image_mset snd (handles l3)"
  "settled (map (\<lambda>(t, r). Answer r (reply2 r)) l2) = handles l2"
  "settled (map (\<lambda>(r, reply). Answer r reply) ops) = mset (map fst ops)"
  subgoal by (induction txs) auto
  subgoal by (induction l3) auto
  subgoal by (induction l2) auto
  subgoal by (induction ops) auto
  done

lemma receives_notify: "receives {#} s (notify ev s)"
  by (simp add: notify_def receives_def acct)

lemma receives_prune: "receives {#} s (prune_listeners closed s)"
  by (simp add: prune_listeners_def)

lemma receives_established: "receives {#} s (on_established closed p c ep n s)"
proof -
  have "receives {#} s (case map_of (pending_connection s) c of
      Some resp \<Rightarrow> answer resp (RConnection (Inr c)) (s\<lparr>pending_connection := AList.delete c (pending_connection s)\<rparr>)
    | None \<Rightarrow> s)" by (auto split: option.split intro: receives_settle)
  then show ?thesis unfolding on_established_def Let_def
    by (intro receives_trans0(2) [OF receives_trans0(2) [OF _ receives_prune] receives_notify])
qed

lemma receives_outgoing_error: "receives {#} s (on_outgoing_error c p e s)"
proof -
  have "receives {#} s (case map_of (pending_connection s) c of
      Some resp \<Rightarrow> answer resp (RConnection (Inl (ErrDial e))) (s\<lparr>pending_connection := AList.delete c (pending_connection s)\<rparr>)
    | None \<Rightarrow> s)" by (auto split: option.split intro: receives_settle)
  then show ?thesis unfolding on_outgoing_error_def Let_def by (rule receives_trans0(2) [OF _ receives_notify])
qed

lemma receives_new_listen_addr: "receives {#} s (on_new_listen_addr lid a s)"
proof -
  have "receives {#} s (case map_of (pending_listen_on s) lid of
      Some resp \<Rightarrow> answer resp (RListener (Inr lid)) (s\<lparr>pending_listen_on := AList.delete lid (pending_listen_on s)\<rparr>)
    | None \<Rightarrow> s)" by (auto split: option.split intro: receives_settle)
  then show ?thesis unfolding on_new_listen_addr_def Let_def
    by (intro receives_trans0(2) [OF _ receives_notify]) simp
qed

lemma receives_expired_listen_addr: "receives {#} s (on_expired_listen_addr lid a s)"
  unfolding on_expired_listen_addr_def Let_def
  by (intro receives_trans0(2) [OF _ receives_notify]) (simp split: option.split)

lemma receives_listener_closed: "receives {#} s (on_listener_closed lid addrs reason s)"
proof -
  let ?s1 = "s\<lparr>listener_addresses := AList.delete lid (listener_addresses s)\<rparr>"
  have one: "receives {#} ?s1 (case map_of (pending_listen_on ?s1) lid of
      Some resp \<Rightarrow> answer resp r1 (?s1\<lparr>pending_listen_on := AList.delete lid (pending_listen_on ?s1)\<rparr>) | None \<Rightarrow> ?s1)" for r1
  proof (cases "map_of (pending_listen_on ?s1) lid")
    case None
    then show ?thesis by (simp only: option.case receives_refl)
  next
    case (Some resp)
    from receives_settle(4) [OF this] Some show ?thesis by (simp only: option.case)
  qed
  have two: "receives {#} s2 (case map_of (pending_remove_listener s2) lid of
      Some resp \<Rightarrow> answer resp r2 (s2\<lparr>pending_remove_listener := AList.delete lid (pending_remove_listener s2)\<rparr>) | None \<Rightarrow> s2)" for r2 s2
    by (auto split: option.split intro: receives_settle(5))
  have "receives {#} ?s1 (on_listener_closed lid addrs reason s)"
    unfolding on_listener_closed_def Let_def
    by (rule receives_trans0(2) [OF receives_trans0(1) [OF one two] receives_notify])
  then show ?thesis by simp
qed

lemma receives_disconnection:
  "receives {#} s (answer_disconnection (map_of (pending_disconnection_by_connection_id s) c)
     (map_of (pending_disconnection_by_peer_id s) p) ret
     (s\<lparr>pending_disconnection_by_connection_id := AList.delete c (pending_disconnection_by_connection_id s),
        pending_disconnection_by_peer_id := AList.delete p (pending_disconnection_by_peer_id s)\<rparr>))"
  (is "receives _ _ (answer_disconnection ?l ?r ret ?s)")
proof -
  have conn: "task_wf s \<Longrightarrow> handles (pending_disconnection_by_connection_id s)
      = handles (AList.delete c (pending_disconnection_by_connection_id s)) + (case ?l of None \<Rightarrow> {#} | Some r \<Rightarrow> {#r#})"
    by (cases ?l) (simp_all add: delete_missing task_wf_def handles_delete)
  have peer: "task_wf s \<Longrightarrow> handles (pending_disconnection_by_peer_id s)
      = handles (AList.delete p (pending_disconnection_by_peer_id s)) + (case ?r of None \<Rightarrow> {#} | Some r \<Rightarrow> {#r#})"
    by (cases ?r) (simp_all add: delete_missing task_wf_def handles_delete)
  have ans: "settled (effects (answer_disconnection l r ret t)) = settled (effects t)
      + (case l of None \<Rightarrow> {#} | Some x \<Rightarrow> {#x#}) + (case r of None \<Rightarrow> {#} | Some x \<Rightarrow> {#x#})"
    "parked (answer_disconnection l r ret t) = parked t" "task_wf (answer_disconnection l r ret t) = task_wf t"
    for l r and t :: "'a task"
    by (cases l; cases r; simp add: answer_disconnection_def answer_def emit_all_def parked_def task_wf_def)+
  have "task_wf s \<Longrightarrow> parked s = parked ?s + (case ?l of None \<Rightarrow> {#} | Some r \<Rightarrow> {#r#}) + (case ?r of None \<Rightarrow> {#} | Some r \<Rightarrow> {#r#})"
    by (simp add: parked_def conn peer ac_simps)
  moreover have "task_wf s \<Longrightarrow> task_wf ?s" by (simp add: task_wf_def)
  ultimately show ?thesis by (simp add: receives_def account_def ans ac_simps)
qed

lemma receives_fail_discoveries: "receives {#} s (fail_discoveries p ks s)"
proof (induction ks arbitrary: s)
  case (Cons key ks)
  have "receives {#} s (case map_of (pending_rendezvous_discover s) key of None \<Rightarrow> s
      | Some l \<Rightarrow> emit_all (map (\<lambda>(_, _, resp). Answer resp (RDiscover (Inl (ErrNotConnected p)))) l)
          (s\<lparr>pending_rendezvous_discover := AList.delete key (pending_rendezvous_discover s)\<rparr>))"
    by (auto simp: receives_def acct handles2_delete split: option.split)
  from receives_trans0(1) [OF this Cons.IH] show ?case by simp
qed simp

lemma receives_fail_registrations: "receives {#} s (fail_registrations p ks s)"
proof (induction ks arbitrary: s)
  case (Cons key ks)
  have "receives {#} s (case map_of (pending_rendezvous_register s) key of None \<Rightarrow> s
      | Some l \<Rightarrow> emit_all (map (\<lambda>(_, resp). Answer resp (RUnit (Inl (ErrNotConnected p)))) l)
          (s\<lparr>pending_rendezvous_register := AList.delete key (pending_rendezvous_register s)\<rparr>))"
    by (auto simp: receives_def acct handles2_delete split: option.split)
  from receives_trans0(1) [OF this Cons.IH] show ?case by simp
qed simp

lemma receives_fail_rendezvous: "receives {#} s (fail_pending_rendezvous p s)"
  unfolding fail_pending_rendezvous_def Let_def
  by (rule receives_trans0(1) [OF receives_fail_discoveries receives_fail_registrations])

lemma receives_closed: "receives {#} s (on_closed closed p c ep n cause s)"
  unfolding on_closed_def Let_def
  by (auto intro: receives_trans0(1) [OF _ receives_fail_rendezvous]
      receives_trans0(2) [OF receives_trans0(2) [OF receives_disconnection receives_prune] receives_notify])

subsection \<open>Rendezvous, kademlia and publish-subscribe events\<close>

lemma receives_restart_registration:
  "map_of (pending_rendezvous_register s) key = None \<Longrightarrow>
   receives (handles queue) s (restart_registration ops key queue sw s)"
proof (induction ops key queue sw s rule: restart_registration.induct)
  case (2 ops key ttl resp queue sw s)
  obtain sw' r where start: "start_rendezvous_registration ops key ttl sw = (sw', r)" by fastforce
  show ?case
  proof (cases r)
    case (Inl e)
    have "map_of (pending_rendezvous_register (answer resp (RUnit (Inl e)) s)) key = None"
      using 2 by (simp add: answer_def emit_all_def)
    from 2(1) [OF start [symmetric] Inl this]
    have "receives (handles queue) (answer resp (RUnit (Inl e)) s)
        (restart_registration ops key queue sw' (answer resp (RUnit (Inl e)) s))" .
    from receives_trans [OF receives_answer this] start Inl show ?thesis by simp
  next
    case (Inr u)
    with start 2(2) show ?thesis by (simp add: receives_def acct handles2_missing)
  qed
qed (simp add: receives_with_swarm)

lemma receives_restart_discovery:
  "map_of (pending_rendezvous_discover s) key = None \<Longrightarrow>
   receives (image_mset snd (handles queue)) s (restart_discovery ops key queue sw s)"
proof (induction ops key queue sw s rule: restart_discovery.induct)
  case (2 ops key c ttl resp queue sw s)
  obtain sw' r where start: "start_rendezvous_discovery ops key c ttl sw = (sw', r)" by fastforce
  show ?case
  proof (cases r)
    case (Inl e)
    have "map_of (pending_rendezvous_discover (answer resp (RDiscover (Inl e)) s)) key = None"
      using 2 by (simp add: answer_def emit_all_def)
    from 2(1) [OF start [symmetric] Inl this]
    have "receives (image_mset snd (handles queue)) (answer resp (RDiscover (Inl e)) s)
        (restart_discovery ops key queue sw' (answer resp (RDiscover (Inl e)) s))" .
    from receives_trans [OF receives_answer this] start Inl show ?thesis by simp
  next
    case (Inr u)
    with start 2(2) show ?thesis by (simp add: receives_def acct handles2_missing)
  qed
qed (simp add: receives_with_swarm)

text \<open>Taking responders out of a table, to be received again by what follows.\<close>

lemma receives_taken:
  assumes "receives R t s'" and "task_wf s \<Longrightarrow> task_wf t" and "task_wf s \<Longrightarrow> account s = account t + R"
  shows "receives {#} s s'"
  using assms by (auto simp: receives_def)

lemma receives_finish_registration: "receives {#} s (finish_rendezvous_registration ops key result sw s)"
proof (cases "map_of (pending_rendezvous_register s) key")
  case (Some queue)
  let ?t = "s\<lparr>pending_rendezvous_register := AList.delete key (pending_rendezvous_register s)\<rparr>"
  have "receives (handles queue) ?t (finish_rendezvous_registration ops key result sw s)"
  proof (cases queue)
    case (Cons x q)
    obtain ttl resp where x: "x = (ttl, resp)" by fastforce
    have "receives (handles q) (answer resp (RUnit result) ?t)
        (restart_registration ops key q sw (answer resp (RUnit result) ?t))"
      by (rule receives_restart_registration) (simp add: answer_def emit_all_def)
    from receives_trans [OF receives_answer this] Some Cons x show ?thesis
      by (simp add: finish_rendezvous_registration_def)
  qed (use Some in \<open>simp add: finish_rendezvous_registration_def\<close>)
  then show ?thesis by (rule receives_taken) (auto simp: acct handles2_delete [OF _ Some])
qed (simp add: finish_rendezvous_registration_def)

lemma receives_finish_discovery: "receives {#} s (finish_rendezvous_discovery ops key result sw s)"
proof (cases "map_of (pending_rendezvous_discover s) key")
  case (Some queue)
  let ?t = "s\<lparr>pending_rendezvous_discover := AList.delete key (pending_rendezvous_discover s)\<rparr>"
  have "receives (image_mset snd (handles queue)) ?t (finish_rendezvous_discovery ops key result sw s)"
  proof (cases queue)
    case (Cons x q)
    obtain c ttl resp where x: "x = (c, ttl, resp)" by (cases x) auto
    have "receives (image_mset snd (handles q)) (answer resp (RDiscover result) ?t)
        (restart_discovery ops key q sw (answer resp (RDiscover result) ?t))"
      by (rule receives_restart_discovery) (simp add: answer_def emit_all_def)
    from receives_trans [OF receives_answer this] Some Cons x show ?thesis
      by (simp add: finish_rendezvous_discovery_def)
  qed (use Some in \<open>simp add: finish_rendezvous_discovery_def\<close>)
  then show ?thesis by (rule receives_taken) (auto simp: acct handles2_delete [OF _ Some])
qed (simp add: finish_rendezvous_discovery_def)

lemma receives_rendezvous_event: "receives {#} s (process_rendezvous_client_event ops ev sw s)"
  by (cases ev) (simp_all add: receives_finish_registration receives_finish_discovery)

lemma receives_emit: "settled es = {#} \<Longrightarrow> receives R s s' \<Longrightarrow> receives R s (emit_all es s')"
  by (simp add: receives_def acct)

lemma receives_progress:
  "receives {#} s (progress_providers q r s)" "receives {#} s (progress_record q r s)"
  by (auto simp: progress_providers_def progress_record_def Let_def
      split: option.split query_result.split intro!: receives_emit)

lemma receives_query: "receives {#} s (kad_query_progressed q r is_last s)"
  by (cases r) (auto simp: finish_bootstrap_def finish_find_peer_def finish_provide_def finish_put_def
      receives_progress split: option.split intro: receives_settle)

text \<open>Offering an event touches neither the tables of responders nor the swarm.\<close>

lemma receives_offer:
  assumes "\<And>rx s. receives {#} s (keep rx s)"
    and "offer_event confirm keep event has_record txs s = Some s'"
  shows "receives {#} s s'"
  using assms(2)
proof (induction txs arbitrary: s)
  case (Cons tx txs)
  have step: "receives {#} s (emit_all [SendDhtEvent tx ev] (keep rx (s\<lparr>next_channel := n\<rparr>)))"
    "receives {#} s (emit_all [SendDhtEvent tx ev] s)" for ev rx n
    using assms(1) [of "s\<lparr>next_channel := n\<rparr>" rx] by (simp_all add: receives_def acct)
  show ?case
  proof (cases has_record)
    case True
    with Cons.prems obtain ev where
      "offer_event confirm keep event has_record txs (emit_all [SendDhtEvent tx ev]
         (keep (next_channel s) (s\<lparr>next_channel := Suc (next_channel s)\<rparr>))) = Some s'"
      by (auto simp: new_channel_def split: option.splits)
    from receives_trans0(1) [OF step(1) Cons.IH [OF this]] show ?thesis .
  next
    case False
    with Cons.prems have "offer_event confirm keep event has_record txs (emit_all [SendDhtEvent tx event] s) = Some s'"
      by simp
    from receives_trans0(1) [OF step(2) Cons.IH [OF this]] show ?thesis .
  qed
qed simp

lemma receives_add_provider: "kad_add_provider record s = Some s' \<Longrightarrow> receives {#} s s'"
  unfolding kad_add_provider_def Let_def
  by (auto split: option.splits dest!: receives_offer [rotated] intro: receives_trans0(1) simp: receives_def acct)

lemma receives_put_request: "kad_put_request source record s = Some s' \<Longrightarrow> receives {#} s s'"
  unfolding kad_put_request_def Let_def
  by (auto split: option.splits dest!: receives_offer [rotated] intro: receives_trans0(1) simp: receives_def acct)

end
