(* ===== verification/Task_Run.thy ===== *)
theory Task_Run
  imports Autorelay_Run Task_Accounting
begin

section \<open>Runs of the background task\<close>

text \<open>
  A run of the task is a sequence of polls. The multiset of the responders of all commands it has served goes with
  it. Every responder served is answered, overwritten or parked (\<open>run_accounted\<close>), and no poll panics if
  the relay behaviour is in a reachable state and kademlia, when absent, has no events (\<open>run_never_panics\<close>).
\<close>

subsection \<open>Events and polls keep the account\<close>

lemma receives_gossipsub_event: "receives {#} s (process_gossipsub_event ev s)"
proof -
  have "settled (map (\<lambda>tx. SendGossipsubEvent tx e) chs) = {#}" for e chs by (induction chs) auto
  then show ?thesis
    by (auto simp: process_gossipsub_event_def split: option.split intro!: receives_emit)
qed

lemma receives_deliver_floodsub: "receives {#} s (deliver_floodsub event topics s)"
proof (induction event topics s rule: deliver_floodsub.induct)
  case (2 event t topics s)
  have sent: "settled (map (\<lambda>tx. SendFloodsubEvent tx event) chs) = {#}" for chs by (induction chs) auto
  have "receives {#} s (case map_of (floodsub_listener s) t of None \<Rightarrow> s
      | Some chs \<Rightarrow> emit_all (map (\<lambda>tx. SendFloodsubEvent tx event) chs) s)"
    by (auto split: option.split intro!: receives_emit sent)
  from receives_trans0(1) [OF this 2] show ?case by simp
qed simp

lemma receives_event: "process_event ops custom closed ev sw s = Some s' \<Longrightarrow> receives {#} s s'"
proof (cases ev)
  case (KademliaEvent k)
  moreover assume "process_event ops custom closed ev sw s = Some s'"
  ultimately show ?thesis
    by (cases k) (auto intro: receives_add_provider receives_put_request receives_query)
next
  case (IdentifyEvent i)
  moreover assume "process_event ops custom closed ev sw s = Some s'"
  ultimately show ?thesis by (cases i) (auto intro: receives_with_swarm split: if_splits)
qed (auto simp: receives_established receives_closed receives_notify receives_outgoing_error receives_new_listen_addr
    receives_expired_listen_addr receives_listener_closed receives_rendezvous_event receives_gossipsub_event
    process_floodsub_event_def receives_deliver_floodsub receives_with_swarm split: prod.split)

lemma receives_swarm_event:
  "process_swarm_event ops callback custom closed ev s = Some s' \<Longrightarrow> receives {#} s s'"
  by (auto simp: process_swarm_event_def Let_def split: option.splits
      intro: receives_trans0(1) [OF receives_with_swarm receives_event])

lemma receives_events:
  "process_events ops callback custom closed evs s = Some s' \<Longrightarrow> receives {#} s s'"
  by (induction evs arbitrary: s)
    (auto split: bind_splits intro: receives_trans0(1) [OF receives_swarm_event])

lemma receives_any_command:
  "process_command ops callback cmd s = Some s' \<Longrightarrow> receives (responder_of cmd) s s'"
  by (cases "swarm s") (auto simp: receives_command, simp add: receives_def task_wf_def)

lemma receives_commands_list:
  "process_commands ops callback cmds s = Some s' \<Longrightarrow> receives (sum_list (map responder_of cmds)) s s'"
proof (induction cmds arbitrary: s)
  case (Cons cmd cmds)
  from Cons.prems obtain t where
    "process_command ops callback cmd s = Some t" "process_commands ops callback cmds t = Some s'"
    by (auto split: bind_splits)
  from receives_trans [OF receives_any_command [OF this(1)] Cons.IH [OF this(2)]] show ?case by simp
qed simp

lemma receives_drain: "receives {#} s (drain_peerstore s)"
  by (simp add: drain_peerstore_def receives_def acct)

lemma receives_cleanup: "receives {#} s (cleanup_channels closed s)"
  by (simp add: cleanup_channels_def receives_def acct)

lemma receives_run_pollable: "receives {#} s (run_pollable callback s)"
  by (auto simp: run_pollable_def receives_with_swarm split: option.split)

lemma receives_store_confirmed: "store_confirmed ops put rs s = Some s' \<Longrightarrow> receives {#} s s'"
  by (induction ops put rs s rule: store_confirmed.induct)
    (auto split: option.splits if_splits intro: receives_trans0(1) [OF receives_with_swarm])

lemma receives_receivers:
  "receives R (s\<lparr>dht_put_record_receiver := a\<rparr>) s' = receives R s s'"
  "receives R (s\<lparr>dht_put_record_global_receiver := b\<rparr>) s' = receives R s s'"
  "receives R (s\<lparr>dht_provider_record_receiver := a\<rparr>) s' = receives R s s'"
  "receives R (s\<lparr>dht_provider_record_global_receiver := b\<rparr>) s' = receives R s s'"
  by (simp_all add: receives_def acct)

lemma receives_confirm:
  "confirm_puts ops ready s = Some s' \<Longrightarrow> receives {#} s s'"
  "confirm_providers ops ready' s = Some s' \<Longrightarrow> receives {#} s s'"
  by (auto simp: confirm_puts_def confirm_providers_def Let_def receives_receivers split: option.splits
      dest!: receives_store_confirmed intro: receives_trans0(1))

lemma receives_poll:
  assumes "task_poll ops env s = Some s'"
  shows "receives (sum_list (map responder_of (ready_commands env))) s s'"
proof (cases "swarm s = None")
  case True
  then show ?thesis by (simp add: receives_def task_wf_def)
next
  case False
  define s0 where "s0 = (if cleanup_due env then cleanup_channels (is_closed env) s else s)"
  from False assms obtain s1 s2 s3 where
    steps: "process_commands ops (task_callback env) (ready_commands env) s0 = Some s1"
      "process_events ops (event_callback env) (custom_event_callback env) (is_closed env) (ready_events env) s1 = Some s2"
      "confirm_puts ops (ready_puts env) (drain_peerstore (run_pollable (pollable_callback env) s2)) = Some s3"
      "confirm_providers ops (ready_providers env) s3 = Some s'"
    by (auto simp: task_poll_def Let_def s0_def split: bind_splits)
  have "receives {#} s s0" by (simp add: s0_def receives_cleanup)
  note commands = receives_trans0(1) [OF this receives_commands_list [OF steps(1)]]
  note events = receives_trans0(2) [OF commands receives_events [OF steps(2)]]
  note drained = receives_trans0(2) [OF receives_trans0(2) [OF events receives_run_pollable] receives_drain]
  from receives_trans0(2) [OF receives_trans0(2) [OF drained receives_confirm(1) [OF steps(3)]]
      receives_confirm(2) [OF steps(4)]]
  show ?thesis .
qed

subsection \<open>Runs\<close>

inductive task_run ::
  "('sw, 'rr, 'o) task_ops \<Rightarrow> ('sw poll_env \<Rightarrow> bool) \<Rightarrow> 'sw \<Rightarrow> responder multiset \<Rightarrow> 'sw task \<Rightarrow> bool"
  for ops P sw where
  start: "task_run ops P sw {#} (task_new sw)"
| poll: "task_run ops P sw R s \<Longrightarrow> P env \<Longrightarrow> task_poll ops env s = Some s' \<Longrightarrow>
    task_run ops P sw (R + sum_list (map responder_of (ready_commands env))) s'"

lemma run_accounted: "task_run ops P sw R s \<Longrightarrow> task_wf s \<and> account s = R"
proof (induction rule: task_run.induct)
  case start
  show ?case by (simp add: task_new_def acct)
next
  case (poll R s env s')
  with receives_poll [OF poll.hyps(3)] show ?case by (simp add: receives_def)
qed

subsection \<open>No poll panics\<close>

definition relay_reachable :: "('sw, 'rr, 'o) task_ops \<Rightarrow> bool" where
  "relay_reachable ops \<longleftrightarrow> (\<forall>sw ar. sw_autorelay ops sw = Some ar \<longrightarrow> (\<exists>cfg h. ar_reachable cfg (ar, h)))"

lemma relay_inv: "relay_reachable ops \<Longrightarrow> sw_autorelay ops sw = Some ar \<Longrightarrow> autorelay_inv ar"
  using ar_reachable_sound [of _ "(ar, h)" for h] by (fastforce simp: relay_reachable_def)

lemma autorelay_command_total:
  assumes "relay_reachable ops"
  shows "\<exists>s'. process_autorelay_commands ops cmd sw s = Some s'"
proof (cases "sw_autorelay ops sw")
  case None
  then show ?thesis by (cases cmd) simp_all
next
  case (Some ar)
  note inv = relay_inv [OF assms Some]
  show ?thesis
  proof (cases cmd)
    case (ArAddStaticRelay p a resp)
    with Some add_static_relay_good [OF inv, of "sw_autorelay_env ops sw" p a] show ?thesis by auto
  next
    case (ArEnable resp)
    with Some set_status_good [OF inv, of "sw_autorelay_env ops sw" "Some Enable"] show ?thesis by auto
  next
    case (ArDisable resp)
    with Some set_status_good [OF inv, of "sw_autorelay_env ops sw" "Some Disable"] show ?thesis by auto
  qed (use Some in \<open>auto split: prod.split\<close>)
qed

lemma command_total: "relay_reachable ops \<Longrightarrow> \<exists>s'. process_command ops callback cmd s = Some s'"
  using autorelay_command_total by (auto simp: process_command_def split: option.split command.split)

lemma commands_total: "relay_reachable ops \<Longrightarrow> \<exists>s'. process_commands ops callback cmds s = Some s'"
proof (induction cmds arbitrary: s)
  case (Cons cmd cmds)
  with command_total [OF Cons.prems, of callback cmd s] show ?case by auto
qed simp

lemma offer_total:
  "(\<And>rx. confirm event rx \<noteq> None) \<Longrightarrow> \<exists>s'. offer_event confirm keep event has_record txs s = Some s'"
proof (induction txs arbitrary: s)
  case (Cons tx txs)
  obtain event' where "confirm event (next_channel s) = Some event'" using Cons.prems by blast
  with Cons.IH [OF Cons.prems] show ?case by (cases has_record) (simp_all add: new_channel_def)
qed simp

lemma kad_event_total: "\<exists>s'. process_kademlia_event ev s = Some s'"
proof -
  have put: "set_record_confirmation (PutRecordEvent p r None) rx \<noteq> None"
    and prov: "set_provider_confirmation (ProvideRecordEvent r' None) rx \<noteq> None" for p r r' rx
    by simp_all
  have "\<exists>s'. kad_put_request p r s = Some s'" for p r
    using offer_total [of set_record_confirmation "PutRecordEvent p r None", OF put]
    by (fastforce simp: kad_put_request_def Let_def split: option.split)
  moreover have "\<exists>s'. kad_add_provider r s = Some s'" for r
    using offer_total [of set_provider_confirmation "ProvideRecordEvent r None", OF prov]
    by (fastforce simp: kad_add_provider_def Let_def split: option.split)
  ultimately show ?thesis by (cases ev) simp_all
qed

lemma event_total: "\<exists>s'. process_event ops custom closed ev sw s = Some s'"
  by (cases ev) (simp_all add: kad_event_total)

lemma events_total: "\<exists>s'. process_events ops callback custom closed evs s = Some s'"
proof (induction evs arbitrary: s)
  case (Cons ev evs)
  have "\<exists>t. process_swarm_event ops callback custom closed ev s = Some t"
    by (cases "swarm s") (simp_all add: process_swarm_event_def Let_def event_total)
  with Cons show ?case by auto
qed simp

lemma store_confirmed_total:
  "(\<And>sw. kad_enabled ops sw) \<Longrightarrow> swarm s \<noteq> None \<Longrightarrow> \<exists>s'. store_confirmed ops put rs s = Some s' \<and> swarm s' \<noteq> None"
proof (induction rs arbitrary: s)
  case (Cons r rs)
  then show ?case by (cases r) (auto simp: with_swarm_def)
qed simp

lemma confirm_total:
  assumes "\<And>sw. kad_enabled ops sw" "swarm s \<noteq> None"
  shows "\<exists>s'. confirm_puts ops ready s = Some s' \<and> swarm s' \<noteq> None"
    and "\<exists>s'. confirm_providers ops ready' s = Some s' \<and> swarm s' \<noteq> None"
proof -
  have enabled: "kad_enabled ops sw" for sw by (rule assms(1))
  have twice: "\<exists>s'. (case store_confirmed ops put rs s1 of None \<Rightarrow> None
        | Some s2 \<Rightarrow> store_confirmed ops put (g s2) (f s2)) = Some s' \<and> swarm s' \<noteq> None"
    if "swarm s1 \<noteq> None" "\<And>s2. swarm (f s2) = swarm s2" for s1 f g rs and put :: "'r \<Rightarrow> 'a \<Rightarrow> 'a"
  proof -
    from store_confirmed_total [OF enabled that(1), of put rs] obtain s2 where
      s2: "store_confirmed ops put rs s1 = Some s2" "swarm s2 \<noteq> None" by auto
    have "swarm (f s2) \<noteq> None" using s2(2) by (simp add: that(2))
    from store_confirmed_total [OF enabled this, of put "g s2"] s2 show ?thesis by auto
  qed
  show "\<exists>s'. confirm_puts ops ready s = Some s' \<and> swarm s' \<noteq> None"
    unfolding confirm_puts_def Let_def by (rule twice) (use assms in simp_all)
  show "\<exists>s'. confirm_providers ops ready' s = Some s' \<and> swarm s' \<noteq> None"
    unfolding confirm_providers_def Let_def by (rule twice) (use assms in simp_all)
qed

text \<open>Without kademlia no offer is ever made, so there is nothing to confirm.\<close>

definition no_offers :: "'sw task \<Rightarrow> bool" where
  "no_offers s \<longleftrightarrow> dht_put_record_receiver s = [] \<and> dht_put_record_global_receiver s = []
     \<and> dht_provider_record_receiver s = [] \<and> dht_provider_record_global_receiver s = []"

text \<open>What the commands and events of other protocols leave alone: the addresses of listeners and the offers.\<close>

definition frame :: "'sw task \<Rightarrow>
   (listener_id, multiaddr list) alist \<times> (record_key, nat list) alist \<times> nat list \<times> (record_key, nat list) alist \<times> nat list" where
  "frame s = (listener_addresses s, dht_put_record_receiver s, dht_put_record_global_receiver s,
     dht_provider_record_receiver s, dht_provider_record_global_receiver s)"

lemma frame_offers: "frame s' = frame s \<Longrightarrow> no_offers s' = no_offers s"
  by (simp add: frame_def no_offers_def)

lemma frame_simps [simp]:
  "frame (emit_all es s) = frame s" "frame (answer resp reply s) = frame s" "frame (with_swarm sw s) = frame s"
  "frame (with_autorelay ops ar sw s) = frame s" "frame (park_put q resp s) = frame s" "frame (defer_op resp reply s) = frame s"
  "frame (notify ev s) = frame s" "frame (prune_listeners closed s) = frame s"
  by (simp_all add: frame_def emit_all_def answer_def with_swarm_def with_autorelay_def park_put_def defer_op_def
      notify_def prune_listeners_def Let_def)

lemma frame_fields [simp]:
  "frame (s\<lparr>connection_listeners := a1\<rparr>) = frame s" "frame (s\<lparr>dht_event_sender := a3\<rparr>) = frame s"
  "frame (s\<lparr>dht_event_global_sender := a4\<rparr>) = frame s" "frame (s\<lparr>pending_dht_get_record := a5\<rparr>) = frame s"
  "frame (s\<lparr>pending_dht_get_provider_record := a6\<rparr>) = frame s"
  "frame (s\<lparr>pending_dht_find_closest_peer := a7\<rparr>) = frame s" "frame (s\<lparr>pending_dht_bootstrap := a8\<rparr>) = frame s"
  "frame (s\<lparr>pending_dht_put_provider_record := a9\<rparr>) = frame s" "frame (s\<lparr>pending_connection := b1\<rparr>) = frame s"
  "frame (s\<lparr>pending_disconnection_by_connection_id := b2\<rparr>) = frame s"
  "frame (s\<lparr>pending_disconnection_by_peer_id := b3\<rparr>) = frame s" "frame (s\<lparr>pending_listen_on := b4\<rparr>) = frame s"
  "frame (s\<lparr>pending_remove_listener := b5\<rparr>) = frame s" "frame (s\<lparr>gossipsub_listener := b6\<rparr>) = frame s"
  "frame (s\<lparr>floodsub_listener := b7\<rparr>) = frame s" "frame (s\<lparr>pending_rendezvous_register := b8\<rparr>) = frame s"
  "frame (s\<lparr>pending_rendezvous_discover := b9\<rparr>) = frame s" "frame (s\<lparr>peerstore_ops := c1\<rparr>) = frame s"
  "frame (s\<lparr>next_channel := c2\<rparr>) = frame s"
  by (simp_all add: frame_def)

lemma frame_swarm_command:
  "(\<And>l r. cmd \<noteq> RemoveListener l r) \<Longrightarrow> frame (process_swarm_command ops cmd sw s) = frame s"
  by (induction ops cmd sw s rule: process_swarm_command.induct)
    (auto simp: Let_def new_channel_def split: prod.split sum.split bool.split option.split)

lemma frame_small_commands:
  "frame (process_whitelist_command ops lc sw s) = frame s"
  "frame (process_blacklist_command ops lc sw s) = frame s"
  "frame (process_limits_command ops mc sw s) = frame s"
  "frame (process_peerstore_command ops pc sw s) = frame s"
  "frame (process_gossipsub_command ops gc sw s) = frame s"
  "frame (process_floodsub_command ops fc sw s) = frame s"
  "frame (process_autonat_v1_command ops ac sw s) = frame s"
  "frame (process_stream_command ops sc sw s) = frame s"
  "frame (process_relay_server_command ops rc sw s) = frame s"
  "frame (process_rr_command ops qc sw s) = frame s"
  subgoal by (cases lc) (auto split: prod.split bool.split)
  subgoal by (cases lc) (auto split: prod.split bool.split)
  subgoal by (cases mc) (auto split: option.split)
  subgoal by (cases pc) (auto split: prod.split option.split)
  subgoal by (cases gc) (auto simp: new_channel_def split: prod.split sum.split bool.split)
  subgoal by (cases fc) (auto simp: new_channel_def split: prod.split bool.split)
  subgoal by (cases ac) auto
  subgoal by (cases sc) (auto split: prod.split sum.split)
  subgoal by (cases rc) auto
  subgoal by (simp add: process_rr_command_def split: prod.split)
  done

lemma frame_kad_command: "frame (process_kademlia_command ops cmd sw s) = frame s"
  by (cases cmd) (auto simp: kad_find_peer_def kad_bootstrap_command_def kad_provide_def kad_providers_command_def
      kad_listener_def kad_routing_command_def kad_get_command_def kad_put_command_def kad_put_to_command_def
      kad_remove_command_def Let_def new_channel_def split: prod.split sum.split bool.split option.split)

lemma frame_rendezvous_command: "frame (process_rendezvous_command ops cmd sw s) = frame s"
  by (cases cmd) (auto simp: process_register_def process_discover_def Let_def split: option.split prod.split sum.split)

lemma frame_autorelay_command: "process_autorelay_commands ops cmd sw s = Some s' \<Longrightarrow> frame s' = frame s"
  by (cases cmd) (auto split: option.splits prod.splits)

lemmas frame_commands = frame_small_commands frame_kad_command frame_rendezvous_command frame_autorelay_command

lemma frame_command:
  assumes "process_command ops callback cmd s = Some s'" "\<And>l r. cmd \<noteq> SwarmCommand (RemoveListener l r)"
  shows "frame s' = frame s"
proof (cases cmd)
  case (SwarmCommand c)
  with assms frame_swarm_command [of c] show ?thesis by (auto simp: process_command_def split: option.splits)
qed (use assms in \<open>auto simp: process_command_def frame_commands split: option.splits\<close>)

text \<open>Removing a listener forgets its addresses.\<close>

lemma remove_listener_frame:
  "frame (process_swarm_command ops (RemoveListener l r) sw s) = frame s
   \<or> frame (process_swarm_command ops (RemoveListener l r) sw s) = (AList.delete l (listener_addresses s), snd (frame s))"
  by (cases "snd (sw_remove_listener ops l sw)")
    (auto simp: frame_def Let_def emit_all_def with_swarm_def answer_def split: prod.split bool.split)

lemma command_frame_cases:
  assumes "process_command ops callback cmd s = Some s'"
  shows "snd (frame s') = snd (frame s) \<and>
    (listener_addresses s' = listener_addresses s \<or> (\<exists>l. listener_addresses s' = AList.delete l (listener_addresses s)))"
proof (cases "\<exists>l r. cmd = SwarmCommand (RemoveListener l r)")
  case True
  then obtain l r where cmd: "cmd = SwarmCommand (RemoveListener l r)" by blast
  show ?thesis
  proof (cases "swarm s")
    case (Some sw)
    with assms cmd remove_listener_frame [of ops l r sw s] show ?thesis
      by (auto simp: process_command_def frame_def simp del: process_swarm_command.simps)
  qed (use assms in \<open>simp add: process_command_def\<close>)
next
  case False
  with frame_command [OF assms] show ?thesis by (auto simp: frame_def)
qed

lemma no_offers_command: "process_command ops callback cmd s = Some s' \<Longrightarrow> no_offers s' = no_offers s"
  using command_frame_cases [of ops callback cmd s s'] by (simp add: frame_def no_offers_def)

lemma frame_restart:
  "frame (restart_registration ops key queue sw s) = frame s"
  "frame (restart_discovery ops key' queue' sw s) = frame s"
  subgoal by (induction ops key queue sw s rule: restart_registration.induct) (auto split: prod.split sum.split)
  subgoal by (induction ops key' queue' sw s rule: restart_discovery.induct) (auto split: prod.split sum.split)
  done

lemma frame_rendezvous_event: "frame (process_rendezvous_client_event ops ev sw s) = frame s"
  by (cases ev) (auto simp: finish_rendezvous_discovery_def finish_rendezvous_registration_def Let_def frame_restart
      split: option.split list.split)

lemma frame_fail:
  "frame (fail_discoveries p ks s) = frame s" "frame (fail_registrations p ks' s) = frame s"
  subgoal by (induction p ks s rule: fail_discoveries.induct) (auto split: option.split)
  subgoal by (induction p ks' s rule: fail_registrations.induct) (auto split: option.split)
  done

lemma frame_connection_events:
  "frame (on_established closed p c ep n s) = frame s"
  "frame (on_closed closed p c ep n cause s) = frame s"
  "frame (on_outgoing_error c q e s) = frame s"
  by (auto simp: on_established_def on_closed_def on_outgoing_error_def answer_disconnection_def fail_pending_rendezvous_def
      frame_fail Let_def split: option.split)

lemma frame_pubsub_events:
  "frame (process_gossipsub_event gev s) = frame s" "frame (process_floodsub_event fev s) = frame s"
proof -
  have "frame (deliver_floodsub event topics s) = frame s" for event topics
    by (induction event topics s rule: deliver_floodsub.induct) (auto split: option.split)
  then show "frame (process_gossipsub_event gev s) = frame s" "frame (process_floodsub_event fev s) = frame s"
    by (auto simp: process_gossipsub_event_def process_floodsub_event_def split: option.split prod.split)
qed

lemma frame_identify: "frame (process_identify_event ops ev sw s) = frame s"
  by (cases ev) auto

lemmas frame_events = frame_connection_events frame_rendezvous_event frame_pubsub_events frame_identify

fun listener_event :: "swarm_event \<Rightarrow> bool" where
  "listener_event (NewListenAddr _ _) = True"
| "listener_event (ExpiredListenAddr _ _) = True"
| "listener_event (ListenerClosed _ _ _) = True"
| "listener_event _ = False"

lemma frame_event:
  assumes "process_event ops custom closed ev sw s = Some s'" "\<nexists>k. ev = KademliaEvent k" "\<not> listener_event ev"
  shows "frame s' = frame s"
  by (cases ev) (use assms in \<open>auto simp: frame_events simp del: process_identify_event.simps\<close>)

lemma no_offers_simps:
  "no_offers (emit_all es s) = no_offers s" "no_offers (answer resp reply s) = no_offers s"
  "no_offers (with_swarm sw s) = no_offers s" "no_offers (notify ev s) = no_offers s"
  "no_offers (s\<lparr>listener_addresses := l\<rparr>) = no_offers s" "no_offers (s\<lparr>pending_listen_on := x\<rparr>) = no_offers s"
  "no_offers (s\<lparr>pending_remove_listener := y\<rparr>) = no_offers s"
  by (simp_all add: no_offers_def emit_all_def answer_def with_swarm_def notify_def)

lemma no_offers_listener_events:
  "no_offers (on_new_listen_addr lid a s) = no_offers s"
  "no_offers (on_expired_listen_addr lid a s) = no_offers s"
  by (auto simp: on_new_listen_addr_def on_expired_listen_addr_def Let_def no_offers_simps split: option.split)

lemma no_offers_listener_closed: "no_offers (on_listener_closed lid addrs reason s) = no_offers s"
proof -
  have "no_offers (case x of None \<Rightarrow> t | Some resp \<Rightarrow> answer resp reply (t\<lparr>pending_listen_on := l\<rparr>)) = no_offers t"
    "no_offers (case x of None \<Rightarrow> t | Some resp \<Rightarrow> answer resp reply (t\<lparr>pending_remove_listener := l\<rparr>)) = no_offers t"
    for x reply l and t :: "'a task" by (simp_all add: no_offers_simps split: option.split)
  then show ?thesis by (simp only: on_listener_closed_def Let_def no_offers_simps)
qed

lemma no_offers_event:
  assumes "process_event ops custom closed ev sw s = Some s'" "\<nexists>k. ev = KademliaEvent k"
  shows "no_offers s' = no_offers s"
proof (cases "listener_event ev")
  case True
  then show ?thesis
    by (cases ev) (use assms(1) in \<open>auto simp: no_offers_listener_events no_offers_listener_closed\<close>)
qed (rule frame_offers [OF frame_event [OF assms]])

definition no_kad_events :: "'sw poll_env \<Rightarrow> bool" where
  "no_kad_events env \<longleftrightarrow> list_all (\<lambda>ev. \<nexists>k. ev = KademliaEvent k) (ready_events env)"

lemma no_offers_events:
  "process_events ops callback custom closed evs s = Some s' \<Longrightarrow> list_all (\<lambda>ev. \<nexists>k. ev = KademliaEvent k) evs \<Longrightarrow>
   no_offers s' = no_offers s"
proof (induction evs arbitrary: s)
  case (Cons ev evs)
  from Cons.prems obtain t where t: "process_swarm_event ops callback custom closed ev s = Some t"
    "process_events ops callback custom closed evs t = Some s'" by (auto split: bind_splits)
  have "no_offers t = no_offers s"
  proof (cases "swarm s")
    case (Some sw)
    have "no_offers t = no_offers (with_swarm (callback ev sw) s)"
      by (rule no_offers_event) (use t(1) Some Cons.prems in \<open>auto simp: process_swarm_event_def Let_def\<close>)
    then show ?thesis by (simp add: no_offers_simps)
  qed (use t(1) in \<open>simp add: process_swarm_event_def\<close>)
  with Cons.IH [OF t(2)] Cons.prems show ?case by simp
qed simp

lemma no_offers_commands:
  "process_commands ops callback cmds s = Some s' \<Longrightarrow> no_offers s' = no_offers s"
  by (induction cmds arbitrary: s) (auto split: bind_splits dest: no_offers_command)

lemma no_offers_confirm:
  assumes "no_offers s"
  shows "confirm_puts ops ready s = Some s" "confirm_providers ops ready' s = Some s"
  using assms by (simp_all add: no_offers_def confirm_puts_def confirm_providers_def take_ready_def)

lemma frame_rest [simp]:
  "frame (drain_peerstore s) = frame s" "frame (run_pollable callback s) = frame s" "frame (cleanup_channels closed s) = frame s"
  by (simp_all add: drain_peerstore_def run_pollable_def cleanup_channels_def split: option.split)

lemmas no_offers_rest [simp] = frame_rest [THEN frame_offers]

text \<open>One poll: the state after the commands and events, and what is left to confirm.\<close>

lemma poll_served:
  assumes "relay_reachable ops" "task_wf s"
  obtains t where "task_wf t" and "no_kad_events env \<Longrightarrow> no_offers t = no_offers s"
    and "task_poll ops env s = do { u \<leftarrow> confirm_puts ops (ready_puts env) t; confirm_providers ops (ready_providers env) u }"
proof -
  define s0 where "s0 = (if cleanup_due env then cleanup_channels (is_closed env) s else s)"
  obtain s1 where s1: "process_commands ops (task_callback env) (ready_commands env) s0 = Some s1"
    using commands_total [OF assms(1)] by blast
  obtain s2 where s2: "process_events ops (event_callback env) (custom_event_callback env) (is_closed env)
      (ready_events env) s1 = Some s2" using events_total by blast
  let ?t = "drain_peerstore (run_pollable (pollable_callback env) s2)"
  have "receives {#} s s0" by (simp add: s0_def receives_cleanup)
  from receives_trans0(2) [OF receives_trans0(2) [OF receives_trans0(2) [OF receives_trans0(1) [OF this
      receives_commands_list [OF s1]] receives_events [OF s2]] receives_run_pollable] receives_drain] assms(2)
  have "task_wf ?t" by (simp add: receives_def)
  moreover have "no_offers ?t = no_offers s" if "no_kad_events env"
    using no_offers_commands [OF s1] no_offers_events [OF s2] that by (simp add: no_kad_events_def s0_def)
  moreover have "task_poll ops env s = do { u \<leftarrow> confirm_puts ops (ready_puts env) ?t; confirm_providers ops (ready_providers env) u }"
    using s1 s2 assms(2) unfolding task_poll_def Let_def s0_def [symmetric] by (auto simp: task_wf_def)
  ultimately show thesis using that [of ?t] by blast
qed

lemma poll_total:
  assumes "relay_reachable ops" "task_wf s" "(\<forall>sw. kad_enabled ops sw) \<or> no_offers s \<and> no_kad_events env"
  shows "\<exists>s'. task_poll ops env s = Some s' \<and> (no_kad_events env \<longrightarrow> no_offers s \<longrightarrow> no_offers s')"
proof -
  obtain t where t: "task_wf t" "no_kad_events env \<Longrightarrow> no_offers t = no_offers s"
    "task_poll ops env s = do { u \<leftarrow> confirm_puts ops (ready_puts env) t; confirm_providers ops (ready_providers env) u }"
    using poll_served [OF assms(1,2)] by metis
  show ?thesis
  proof (cases "no_offers s \<and> no_kad_events env")
    case True
    then have "no_offers t" using t(2) by simp
    with t(3) show ?thesis by (simp add: no_offers_confirm)
  next
    case False
    with assms(3) have kad: "kad_enabled ops sw" for sw by blast
    from t(1) have "swarm t \<noteq> None" by (simp add: task_wf_def)
    from confirm_total(1) [OF kad this] obtain u where u: "confirm_puts ops (ready_puts env) t = Some u" "swarm u \<noteq> None"
      by blast
    from confirm_total(2) [OF kad u(2)] u(1) t(3) False show ?thesis by auto
  qed
qed

lemma run_offers:
  assumes "task_run ops (\<lambda>env. b \<or> no_kad_events env) sw R s" "relay_reachable ops" "\<not> b"
  shows "no_offers s"
  using assms(1)
proof (induction rule: task_run.induct)
  case start
  show ?case by (simp add: task_new_def no_offers_def)
next
  case (poll R s env s')
  with run_accounted [OF poll.hyps(1)] poll_total [OF assms(2), of s env] assms(3) show ?case by auto
qed

lemma run_never_panics:
  assumes "task_run ops (\<lambda>env. b \<or> no_kad_events env) sw R s" "relay_reachable ops"
    and "\<And>sw. kad_enabled ops sw = b" "b \<or> no_kad_events env"
  shows "\<exists>s'. task_poll ops env s = Some s'"
proof -
  have "(\<forall>sw. kad_enabled ops sw) \<or> no_offers s \<and> no_kad_events env"
    using assms(3,4) run_offers [OF assms(1,2)] by (cases b) auto
  with run_accounted [OF assms(1)] poll_total [OF assms(2)] show ?thesis by blast
qed

end
