(* ===== verification/Task_Listeners.thy ===== *)
theory Task_Listeners
  imports Task_Run
begin

section \<open>Addresses of listeners and rendezvous queues\<close>

text \<open>
  The table of listener addresses refines a view of the event stream: the addresses announced and not expired since the
  listener last closed. The queues of rendezvous requests are served in order, one at a time.
\<close>

subsection \<open>Listener addresses\<close>

fun track :: "listener_id \<Rightarrow> swarm_event \<Rightarrow> multiaddr list \<Rightarrow> multiaddr list" where
  "track lid (NewListenAddr l a) addrs = (if l = lid then addrs @ [a] else addrs)"
| "track lid (ExpiredListenAddr l a) addrs = (if l = lid then filter (\<lambda>b. b \<noteq> a) addrs else addrs)"
| "track lid (ListenerClosed l _ _) addrs = (if l = lid then [] else addrs)"
| "track lid _ addrs = addrs"

definition no_empty_listener :: "'sw task \<Rightarrow> bool" where
  "no_empty_listener s \<longleftrightarrow> (\<forall>lid. map_of (listener_addresses s) lid \<noteq> Some [])"

lemma listeners_simps [simp]:
  "listener_addresses (emit_all es s) = listener_addresses s"
  "listener_addresses (answer resp reply s) = listener_addresses s"
  "listener_addresses (with_swarm sw s) = listener_addresses s"
  "listener_addresses (notify ev s) = listener_addresses s"
  by (simp_all add: emit_all_def answer_def with_swarm_def notify_def)

lemma listeners_offer:
  assumes "\<And>rx s. listener_addresses (keep rx s) = listener_addresses s"
    and "offer_event confirm keep event has_record txs s = Some s'"
  shows "listener_addresses s' = listener_addresses s"
  using assms(2)
proof (induction txs arbitrary: s)
  case (Cons tx txs)
  show ?case
  proof (cases has_record)
    case True
    with Cons.prems obtain ev where
      "offer_event confirm keep event has_record txs (emit_all [SendDhtEvent tx ev]
         (keep (next_channel s) (s\<lparr>next_channel := Suc (next_channel s)\<rparr>))) = Some s'"
      by (auto simp: new_channel_def split: option.splits)
    from Cons.IH [OF this] show ?thesis by (simp add: assms(1))
  qed (use Cons in auto)
qed simp

lemma listeners_kad:
  assumes "process_kademlia_event ev s = Some s'"
  shows "listener_addresses s' = listener_addresses s"
proof (cases ev)
  case (AddProviderRequest r)
  with assms show ?thesis
    by (auto simp: kad_add_provider_def Let_def split: option.splits dest!: listeners_offer [rotated])
next
  case (PutRecordRequest p r)
  with assms show ?thesis
    by (auto simp: kad_put_request_def Let_def split: option.splits dest!: listeners_offer [rotated])
next
  case (OutboundQueryProgressed q r l)
  moreover have "listener_addresses (kad_query_progressed q r l s) = listener_addresses s"
    by (cases r) (auto simp: finish_bootstrap_def finish_find_peer_def finish_provide_def finish_put_def
        progress_providers_def progress_record_def Let_def split: option.split)
  ultimately show ?thesis using assms by simp
qed (use assms in simp_all)

lemma listeners_event:
  assumes "process_event ops custom closed ev sw s = Some s'" "\<not> listener_event ev"
  shows "listener_addresses s' = listener_addresses s"
proof (cases "\<exists>k. ev = KademliaEvent k")
  case True
  with assms listeners_kad show ?thesis by auto
next
  case False
  with frame_event [OF assms(1)] assms(2) show ?thesis by (auto simp: frame_def)
qed

lemma new_listen_addr_listeners:
  "listener_addresses (on_new_listen_addr lid a s) =
     AList.update lid (or_default (listener_addresses s) lid @ [a]) (listener_addresses s)"
  by (simp add: on_new_listen_addr_def Let_def split: option.split)

lemma expired_listen_addr_listeners:
  "map_of (listener_addresses (on_expired_listen_addr lid a s)) k =
     (if k = lid then (case map_of (listener_addresses s) lid of
          None \<Rightarrow> None
        | Some l \<Rightarrow> if filter (\<lambda>b. b \<noteq> a) l = [] then None else Some (filter (\<lambda>b. b \<noteq> a) l))
      else map_of (listener_addresses s) k)"
proof (cases "map_of (listener_addresses s) lid")
  case (Some l)
  then show ?thesis
    by (cases "filter (\<lambda>b. b \<noteq> a) l = []") (simp_all add: on_expired_listen_addr_def Let_def)
qed (simp add: on_expired_listen_addr_def)

lemma listener_closed_listeners:
  "listener_addresses (on_listener_closed lid addrs reason s) = AList.delete lid (listener_addresses s)"
proof -
  have "listener_addresses (case x of None \<Rightarrow> t | Some resp \<Rightarrow> answer resp reply (t\<lparr>pending_listen_on := l\<rparr>)) = listener_addresses t"
    "listener_addresses (case x of None \<Rightarrow> t | Some resp \<Rightarrow> answer resp reply (t\<lparr>pending_remove_listener := l\<rparr>)) = listener_addresses t"
    for x reply l and t :: "'a task" by (simp_all split: option.split)
  then show ?thesis by (simp add: on_listener_closed_def Let_def)
qed

lemma track_listener_event:
  assumes "process_event ops custom closed ev sw s = Some s'" "no_empty_listener s"
  shows "or_default (listener_addresses s') lid = track lid ev (or_default (listener_addresses s) lid) \<and> no_empty_listener s'"
proof (cases "listener_event ev")
  case True
  then show ?thesis
  proof (cases ev)
    case (NewListenAddr l a)
    with assms show ?thesis
      by (auto simp: new_listen_addr_listeners no_empty_listener_def or_default_def split: if_splits)
  next
    case (ExpiredListenAddr l a)
    with assms show ?thesis
      by (auto simp: expired_listen_addr_listeners no_empty_listener_def or_default_def split: option.splits if_splits)
  next
    case (ListenerClosed l addrs reason)
    with assms show ?thesis
      by (auto simp: listener_closed_listeners no_empty_listener_def or_default_def split: if_splits)
  qed simp_all
next
  case False
  then have "track lid ev addrs = addrs" for addrs by (cases ev) simp_all
  with False listeners_event [OF assms(1)] assms(2) show ?thesis by (simp add: no_empty_listener_def)
qed

lemma track_events:
  assumes "process_events ops callback custom closed evs s = Some s'" "no_empty_listener s" "task_wf s"
  shows "or_default (listener_addresses s') lid = fold (track lid) evs (or_default (listener_addresses s) lid)
     \<and> no_empty_listener s'"
  using assms
proof (induction evs arbitrary: s)
  case (Cons ev evs)
  from Cons.prems obtain t where t: "process_swarm_event ops callback custom closed ev s = Some t"
    "process_events ops callback custom closed evs t = Some s'" by (auto split: bind_splits)
  from Cons.prems(3) obtain sw where sw: "swarm s = Some sw" by (auto simp: task_wf_def)
  from t(1) sw have "process_event ops custom closed ev (callback ev sw) (with_swarm (callback ev sw) s) = Some t"
    by (simp add: process_swarm_event_def Let_def)
  from track_listener_event [OF this, of lid] Cons.prems(2)
  have "or_default (listener_addresses t) lid = track lid ev (or_default (listener_addresses s) lid)" "no_empty_listener t"
    by (auto simp: no_empty_listener_def)
  moreover have "task_wf t" using receives_swarm_event [OF t(1)] Cons.prems(3) by (simp add: receives_def)
  ultimately show ?case using Cons.IH [OF t(2)] by simp
qed simp

lemma no_empty_listener_command:
  assumes "process_command ops callback cmd s = Some s'" "no_empty_listener s"
  shows "no_empty_listener s'"
  using command_frame_cases [OF assms(1)] assms(2) by (auto simp: no_empty_listener_def split: if_splits)

lemma no_empty_listener_commands:
  "process_commands ops callback cmds s = Some s' \<Longrightarrow> no_empty_listener s \<Longrightarrow> no_empty_listener s'"
  by (induction cmds arbitrary: s) (auto split: bind_splits intro: no_empty_listener_command)

lemma no_empty_listener_events:
  "process_events ops callback custom closed evs s = Some s' \<Longrightarrow> no_empty_listener s \<Longrightarrow> no_empty_listener s'"
proof (induction evs arbitrary: s)
  case (Cons ev evs)
  from Cons.prems obtain t where t: "process_swarm_event ops callback custom closed ev s = Some t"
    "process_events ops callback custom closed evs t = Some s'" by (auto split: bind_splits)
  have "no_empty_listener t"
  proof (cases "swarm s")
    case (Some sw)
    with t(1) have "process_event ops custom closed ev (callback ev sw) (with_swarm (callback ev sw) s) = Some t"
      by (simp add: process_swarm_event_def Let_def)
    from track_listener_event [OF this] Cons.prems(2) show ?thesis by (simp add: no_empty_listener_def)
  qed (use t(1) Cons.prems in \<open>simp add: process_swarm_event_def\<close>)
  with Cons.IH [OF t(2)] show ?case .
qed simp

lemma listeners_store_confirmed: "store_confirmed ops put rs s = Some s' \<Longrightarrow> listener_addresses s' = listener_addresses s"
  by (induction ops put rs s rule: store_confirmed.induct) (auto split: option.splits if_splits)

lemma listeners_confirm:
  "confirm_puts ops ready s = Some s' \<Longrightarrow> listener_addresses s' = listener_addresses s"
  "confirm_providers ops ready' s = Some s' \<Longrightarrow> listener_addresses s' = listener_addresses s"
  by (auto simp: confirm_puts_def confirm_providers_def Let_def split: option.splits dest!: listeners_store_confirmed)

lemma listeners_rest [simp]:
  "listener_addresses (drain_peerstore s) = listener_addresses s"
  "listener_addresses (run_pollable callback s) = listener_addresses s"
  "listener_addresses (cleanup_channels closed s) = listener_addresses s"
  by (simp_all add: drain_peerstore_def run_pollable_def cleanup_channels_def split: option.split)

lemma no_empty_listener_poll:
  assumes "task_poll ops env s = Some s'" "no_empty_listener s"
  shows "no_empty_listener s'"
proof (cases "swarm s = None")
  case False
  define s0 where "s0 = (if cleanup_due env then cleanup_channels (is_closed env) s else s)"
  from False assms(1) obtain s1 s2 s3 where
    steps: "process_commands ops (task_callback env) (ready_commands env) s0 = Some s1"
      "process_events ops (event_callback env) (custom_event_callback env) (is_closed env) (ready_events env) s1 = Some s2"
      "confirm_puts ops (ready_puts env) (drain_peerstore (run_pollable (pollable_callback env) s2)) = Some s3"
      "confirm_providers ops (ready_providers env) s3 = Some s'"
    by (auto simp: task_poll_def Let_def s0_def split: bind_splits)
  have "no_empty_listener s0" using assms(2) by (simp add: s0_def no_empty_listener_def)
  from no_empty_listener_events [OF steps(2) no_empty_listener_commands [OF steps(1) this]]
  show ?thesis using listeners_confirm(1) [OF steps(3)] listeners_confirm(2) [OF steps(4)]
    by (simp add: no_empty_listener_def)
qed (use assms in \<open>simp add: task_poll_def\<close>)

lemma run_no_empty_listener: "task_run ops P sw R s \<Longrightarrow> no_empty_listener s"
proof (induction rule: task_run.induct)
  case start
  show ?case by (simp add: no_empty_listener_def task_new_def)
qed (rule no_empty_listener_poll)

subsection \<open>Rendezvous queues\<close>

text \<open>
  \<open>all_fail ops key sw reqs errs sw'\<close>: the requests, tried one after the other from the swarm \<open>sw\<close>, all fail to start, with the
  errors \<open>errs\<close>, and leave the swarm \<open>sw'\<close>.
\<close>

fun all_fail ::
  "('sw, 'rr, 'o) task_ops \<Rightarrow> peer_id \<times> namespace \<Rightarrow> 'sw \<Rightarrow> register_queue \<Rightarrow> connexa_error list \<Rightarrow> 'sw \<Rightarrow> bool" where
  "all_fail ops key sw [] [] sw' \<longleftrightarrow> sw' = sw"
| "all_fail ops key sw ((ttl, _) # reqs) (e # errs) sw' \<longleftrightarrow>
     (case start_rendezvous_registration ops key ttl sw of (sw1, r) \<Rightarrow> r = Inl e \<and> all_fail ops key sw1 reqs errs sw')"
| "all_fail ops key sw _ _ sw' \<longleftrightarrow> False"

definition next_started :: "('sw, 'rr, 'o) task_ops \<Rightarrow> peer_id \<times> namespace \<Rightarrow> 'sw \<Rightarrow> register_queue \<Rightarrow> 'sw option \<Rightarrow> bool" where
  "next_started ops key sw rest sw' \<longleftrightarrow> (case rest of
     [] \<Rightarrow> sw' = Some sw
   | (ttl, _) # _ \<Rightarrow> (case start_rendezvous_registration ops key ttl sw of (sw1, r) \<Rightarrow> r = Inr () \<and> sw' = Some sw1))"

lemma restart_registration_fifo:
  assumes "map_of (pending_rendezvous_register s) key = None"
  shows "\<exists>failed rest errs sw1. queue = failed @ rest \<and> all_fail ops key sw failed errs sw1
     \<and> next_started ops key sw1 rest (swarm (restart_registration ops key queue sw s))
     \<and> effects (restart_registration ops key queue sw s) =
         effects s @ map2 (\<lambda>x e. Answer (snd x) (RUnit (Inl e))) failed errs
     \<and> map_of (pending_rendezvous_register (restart_registration ops key queue sw s)) key = (if rest = [] then None else Some rest)
     \<and> (\<forall>k. k \<noteq> key \<longrightarrow> map_of (pending_rendezvous_register (restart_registration ops key queue sw s)) k
          = map_of (pending_rendezvous_register s) k)"
  using assms
proof (induction ops key queue sw s rule: restart_registration.induct)
  case (1 ops key sw s)
  then show ?case by (intro exI [of _ "[]"] exI [of _ sw]) (simp add: with_swarm_def next_started_def)
next
  case (2 ops key ttl resp queue sw s)
  obtain sw' r where start: "start_rendezvous_registration ops key ttl sw = (sw', r)" by fastforce
  show ?case
  proof (cases r)
    case (Inr u)
    with start 2(2) show ?thesis
      by (intro exI [of _ "[]"] exI [of _ "(ttl, resp) # queue"] exI [of _ sw]) (auto simp: with_swarm_def next_started_def)
  next
    case (Inl e)
    let ?s = "answer resp (RUnit (Inl e)) s"
    have "map_of (pending_rendezvous_register ?s) key = None" using 2(2) by (simp add: answer_def emit_all_def)
    from 2(1) [OF start [symmetric] Inl this] obtain failed rest errs sw1 where ih:
      "queue = failed @ rest" "all_fail ops key sw' failed errs sw1"
      "next_started ops key sw1 rest (swarm (restart_registration ops key queue sw' ?s))"
      "effects (restart_registration ops key queue sw' ?s) = effects ?s @ map2 (\<lambda>x e. Answer (snd x) (RUnit (Inl e))) failed errs"
      "map_of (pending_rendezvous_register (restart_registration ops key queue sw' ?s)) key = (if rest = [] then None else Some rest)"
      "\<forall>k. k \<noteq> key \<longrightarrow> map_of (pending_rendezvous_register (restart_registration ops key queue sw' ?s)) k
          = map_of (pending_rendezvous_register ?s) k" by blast
    show ?thesis
      by (intro exI [of _ "(ttl, resp) # failed"] exI [of _ rest] exI [of _ "e # errs"] exI [of _ sw1])
        (use start Inl ih in \<open>auto simp: answer_def emit_all_def\<close>)
  qed
qed

subsection \<open>A rendezvous node that is gone\<close>

lemma effects_emit [simp]: "effects (emit_all es s) = effects s @ es" "effects (answer r reply s) = effects s @ [Answer r reply]"
  by (simp_all add: emit_all_def answer_def)

lemma rendezvous_emit [simp]:
  "pending_rendezvous_register (emit_all es s) = pending_rendezvous_register s"
  "pending_rendezvous_discover (emit_all es s) = pending_rendezvous_discover s"
  by (simp_all add: emit_all_def)

lemma fail_registrations_tables:
  "map_of (pending_rendezvous_register (fail_registrations p ks s)) k =
     (if k \<in> set ks then None else map_of (pending_rendezvous_register s) k)"
  "pending_rendezvous_discover (fail_registrations p ks s) = pending_rendezvous_discover s"
  by (induction p ks s rule: fail_registrations.induct) (auto split: option.splits)

lemma fail_discoveries_tables:
  "map_of (pending_rendezvous_discover (fail_discoveries p ks s)) k =
     (if k \<in> set ks then None else map_of (pending_rendezvous_discover s) k)"
  "pending_rendezvous_register (fail_discoveries p ks s) = pending_rendezvous_register s"
  by (induction p ks s rule: fail_discoveries.induct) (auto split: option.splits)

definition failed_with :: "('q \<Rightarrow> responder) \<Rightarrow> task_reply \<Rightarrow> ('k, 'q list) alist \<Rightarrow> 'k list \<Rightarrow> task_effect list" where
  "failed_with resp reply t ks =
     concat (map (\<lambda>k. case map_of t k of None \<Rightarrow> [] | Some l \<Rightarrow> map (\<lambda>q. Answer (resp q) reply) l) ks)"

lemma failed_with_delete: "k \<notin> set ks \<Longrightarrow> failed_with resp reply (AList.delete k t) ks = failed_with resp reply t ks"
  unfolding failed_with_def by (intro arg_cong [of _ _ concat] map_cong) (auto simp: delete_conv')

lemma fail_registrations_effects:
  "distinct ks \<Longrightarrow> effects (fail_registrations p ks s) =
     effects s @ failed_with snd (RUnit (Inl (ErrNotConnected p))) (pending_rendezvous_register s) ks"
proof (induction ks arbitrary: s)
  case (Cons k ks)
  then show ?case
    by (cases "map_of (pending_rendezvous_register s) k")
      (simp_all add: failed_with_delete, simp_all add: failed_with_def case_prod_unfold)
qed (simp add: failed_with_def)

lemma fail_discoveries_effects:
  "distinct ks \<Longrightarrow> effects (fail_discoveries p ks s) =
     effects s @ failed_with (snd \<circ> snd) (RDiscover (Inl (ErrNotConnected p))) (pending_rendezvous_discover s) ks"
proof (induction ks arbitrary: s)
  case (Cons k ks)
  then show ?case
    by (cases "map_of (pending_rendezvous_discover s) k")
      (simp_all add: failed_with_delete, simp_all add: failed_with_def case_prod_unfold)
qed (simp add: failed_with_def)

text \<open>What the disconnection of \<open>p\<close> does to the queues, and what it sends.\<close>

lemma fail_pending_tables:
  "map_of (pending_rendezvous_register (fail_pending_rendezvous p s)) k =
     (if fst k = p then None else map_of (pending_rendezvous_register s) k)"
  "map_of (pending_rendezvous_discover (fail_pending_rendezvous p s)) k' =
     (if fst k' = p then None else map_of (pending_rendezvous_discover s) k')"
proof -
  have gone: "k \<notin> set (filter (\<lambda>(node, _). node = p) (keys t)) \<Longrightarrow> fst k = p \<Longrightarrow> map_of t k = None"
    for k :: "peer_id \<times> 'n" and t :: "(peer_id \<times> 'n, 'q) alist"
    by (cases k) (auto simp: map_of_eq_None_iff)
  have kept: "k \<in> set (filter (\<lambda>(node, _). node = p) ks) \<Longrightarrow> fst k = p" for k :: "peer_id \<times> 'n" and ks
    by (cases k) auto
  show "map_of (pending_rendezvous_register (fail_pending_rendezvous p s)) k =
     (if fst k = p then None else map_of (pending_rendezvous_register s) k)"
    using gone [of k "pending_rendezvous_register s"] kept [of k "keys (pending_rendezvous_register s)"]
    unfolding fail_pending_rendezvous_def Let_def fail_registrations_tables(1) fail_discoveries_tables(2) by auto
  show "map_of (pending_rendezvous_discover (fail_pending_rendezvous p s)) k' =
     (if fst k' = p then None else map_of (pending_rendezvous_discover s) k')"
    using gone [of k' "pending_rendezvous_discover s"] kept [of k' "keys (pending_rendezvous_discover s)"]
    unfolding fail_pending_rendezvous_def Let_def fail_registrations_tables(2) fail_discoveries_tables(1) by auto
qed

lemma failed_with_mem:
  assumes "map_of t k = Some l" "q \<in> set l" "P k"
  shows "Answer (resp q) reply \<in> set (failed_with resp reply t (filter P (keys t)))"
proof -
  have "k \<in> set (filter P (keys t))" using assms by (force dest: map_of_SomeD)
  moreover have "Answer (resp q) reply \<in> set (case map_of t k of None \<Rightarrow> [] | Some l \<Rightarrow> map (\<lambda>q. Answer (resp q) reply) l)"
    using assms(1,2) by simp
  ultimately show ?thesis unfolding failed_with_def set_concat set_map by blast
qed

lemma fail_pending_answers:
  assumes "task_wf s"
  shows "map_of (pending_rendezvous_register s) (p, ns) = Some l \<Longrightarrow> q \<in> set l \<Longrightarrow>
      Answer (snd q) (RUnit (Inl (ErrNotConnected p))) \<in> set (effects (fail_pending_rendezvous p s))"
    and "map_of (pending_rendezvous_discover s) (p, ns') = Some l' \<Longrightarrow> q' \<in> set l' \<Longrightarrow>
      Answer (snd (snd q')) (RDiscover (Inl (ErrNotConnected p))) \<in> set (effects (fail_pending_rendezvous p s))"
proof -
  have wf: "distinct (keys (pending_rendezvous_register s))" "distinct (keys (pending_rendezvous_discover s))"
    using assms by (simp_all add: task_wf_def)
  have "effects (fail_pending_rendezvous p s) = effects s
      @ failed_with (snd \<circ> snd) (RDiscover (Inl (ErrNotConnected p))) (pending_rendezvous_discover s)
          (filter (\<lambda>(node, _). node = p) (keys (pending_rendezvous_discover s)))
      @ failed_with snd (RUnit (Inl (ErrNotConnected p))) (pending_rendezvous_register s)
          (filter (\<lambda>(node, _). node = p) (keys (pending_rendezvous_register s)))"
    by (simp add: fail_pending_rendezvous_def Let_def fail_registrations_effects fail_discoveries_effects
        fail_discoveries_tables distinct_filter wf)
  then show "map_of (pending_rendezvous_register s) (p, ns) = Some l \<Longrightarrow> q \<in> set l \<Longrightarrow>
      Answer (snd q) (RUnit (Inl (ErrNotConnected p))) \<in> set (effects (fail_pending_rendezvous p s))"
    and "map_of (pending_rendezvous_discover s) (p, ns') = Some l' \<Longrightarrow> q' \<in> set l' \<Longrightarrow>
      Answer (snd (snd q')) (RDiscover (Inl (ErrNotConnected p))) \<in> set (effects (fail_pending_rendezvous p s))"
    using failed_with_mem [of "pending_rendezvous_register s" "(p, ns)" l q "\<lambda>(node, _). node = p" snd]
      failed_with_mem [of "pending_rendezvous_discover s" "(p, ns')" l' q' "\<lambda>(node, _). node = p" "snd \<circ> snd"]
    by auto
qed

end
