(* ===== verification/Task_Typing.thy ===== *)
theory Task_Typing
  imports Task_Listeners
begin

section \<open>Answers have the type their command asks for\<close>

text \<open>
  Every command carries a oneshot of a fixed type (\<^verbatim>\<open>src/src/types.rs\<close>). The model has one type of
  replies, so the types are kinds of replies here: \<open>expects\<close> gives the responder of a command and the kind of its
  channel. A step of the task only adds effects and answers every responder with its kind (\<open>serves\<close>); this carries
  over to whole runs (\<open>run_fits\<close>, \<open>poll_grows\<close>).
\<close>

datatype reply_kind = KUnit | KConnection | KBool | KPeers | KListener | KAddrsResult | KAddrs | KReceiver
  | KReceiverResult | KPeersResult | KLimits | KLimitsSet | KPeerAddrs | KMode | KTopics | KBoolResult
  | KAddrOption | KNatStatus | KStreams | KControl | KRelayServer | KRequests | KResponseSent | KSubscriber | KDiscover

fun kind_of :: "task_reply \<Rightarrow> reply_kind" where
  "kind_of (RUnit _) = KUnit"
| "kind_of (RConnection _) = KConnection"
| "kind_of (RBool _) = KBool"
| "kind_of (RPeers _) = KPeers"
| "kind_of (RListener _) = KListener"
| "kind_of (RAddrsResult _) = KAddrsResult"
| "kind_of (RAddrs _) = KAddrs"
| "kind_of (RReceiver _) = KReceiver"
| "kind_of (RReceiverResult _) = KReceiverResult"
| "kind_of (RPeersResult _) = KPeersResult"
| "kind_of (RLimits _) = KLimits"
| "kind_of (RLimitsSet _) = KLimitsSet"
| "kind_of (RPeerAddrs _) = KPeerAddrs"
| "kind_of (RMode _) = KMode"
| "kind_of (RTopics _) = KTopics"
| "kind_of (RBoolResult _) = KBoolResult"
| "kind_of (RAddrOption _) = KAddrOption"
| "kind_of (RNatStatus _) = KNatStatus"
| "kind_of (RStreams _) = KStreams"
| "kind_of (RControl _) = KControl"
| "kind_of (RRelayServer _) = KRelayServer"
| "kind_of (RRequest (RequestStream _)) = KRequests"
| "kind_of (RRequest (ResponseSentReply _)) = KResponseSent"
| "kind_of (RRequest (SubscriberReply _)) = KSubscriber"
| "kind_of (RDiscover _) = KDiscover"

subsection \<open>The responder of a command and its type\<close>

fun swarm_expects :: "swarm_command \<Rightarrow> responder \<times> reply_kind" where
  "swarm_expects (Dial _ r) = (r, KConnection)"
| "swarm_expects (IsConnected _ r) = (r, KBool)"
| "swarm_expects (Disconnect _ r) = (r, KUnit)"
| "swarm_expects (ConnectedPeers r) = (r, KPeers)"
| "swarm_expects (ListenOn _ r) = (r, KListener)"
| "swarm_expects (GetListeningAddress _ r) = (r, KAddrsResult)"
| "swarm_expects (RemoveListener _ r) = (r, KUnit)"
| "swarm_expects (AddExternalAddress _ r) = (r, KUnit)"
| "swarm_expects (RemoveExternalAddress _ r) = (r, KUnit)"
| "swarm_expects (ListExternalAddresses r) = (r, KAddrs)"
| "swarm_expects (ListListeningAddresses r) = (r, KAddrs)"
| "swarm_expects (AddPeerAddress _ _ r) = (r, KUnit)"
| "swarm_expects (SwarmListener r) = (r, KReceiver)"

fun list_expects :: "list_command \<Rightarrow> responder \<times> reply_kind" where
  "list_expects (ListAdd _ r) = (r, KUnit)"
| "list_expects (ListRemove _ r) = (r, KUnit)"
| "list_expects (ListAll r) = (r, KPeersResult)"

fun limits_expects :: "limits_command \<Rightarrow> responder \<times> reply_kind" where
  "limits_expects (GetLimits r) = (r, KLimits)"
| "limits_expects (SetLimits _ r) = (r, KLimitsSet)"

fun peerstore_expects :: "peerstore_command \<Rightarrow> responder \<times> reply_kind" where
  "peerstore_expects (PsAdd _ _ r) = (r, KUnit)"
| "peerstore_expects (PsRemoveAddress _ _ r) = (r, KUnit)"
| "peerstore_expects (PsRemove _ r) = (r, KAddrsResult)"
| "peerstore_expects (PsList _ r) = (r, KAddrsResult)"
| "peerstore_expects (PsListAll r) = (r, KPeerAddrs)"

fun gossipsub_expects :: "gossipsub_command \<Rightarrow> responder \<times> reply_kind" where
  "gossipsub_expects (GsSubscribe _ r) = (r, KUnit)"
| "gossipsub_expects (GsUnsubscribe _ r) = (r, KUnit)"
| "gossipsub_expects (GsSubscribed r) = (r, KTopics)"
| "gossipsub_expects (GsPeers _ r) = (r, KPeersResult)"
| "gossipsub_expects (GsListener _ r) = (r, KReceiverResult)"
| "gossipsub_expects (GsPublishCommand _ _ r) = (r, KUnit)"
| "gossipsub_expects (GsReportMessage _ _ _ r) = (r, KBoolResult)"

fun floodsub_expects :: "floodsub_command \<Rightarrow> responder \<times> reply_kind" where
  "floodsub_expects (FsSubscribe _ r) = (r, KUnit)"
| "floodsub_expects (FsUnsubscribe _ r) = (r, KUnit)"
| "floodsub_expects (FsAddNode _ r) = (r, KUnit)"
| "floodsub_expects (FsRemoveNode _ r) = (r, KUnit)"
| "floodsub_expects (FsListener _ r) = (r, KReceiverResult)"
| "floodsub_expects (FsPublishCommand _ r) = (r, KUnit)"

fun dht_expects :: "dht_command \<Rightarrow> responder \<times> reply_kind" where
  "dht_expects (FindPeer _ r) = (r, KPeersResult)"
| "dht_expects (Bootstrap _ r) = (r, KUnit)"
| "dht_expects (Provide _ r) = (r, KUnit)"
| "dht_expects (StopProviding _ r) = (r, KUnit)"
| "dht_expects (GetProviders _ r) = (r, KReceiverResult)"
| "dht_expects (DhtListener _ r) = (r, KReceiverResult)"
| "dht_expects (SetDHTMode _ r) = (r, KUnit)"
| "dht_expects (DHTMode r) = (r, KMode)"
| "dht_expects (AddAddress _ _ r) = (r, KUnit)"
| "dht_expects (RemoveAddress _ _ r) = (r, KUnit)"
| "dht_expects (RemovePeer _ r) = (r, KUnit)"
| "dht_expects (Get _ r) = (r, KReceiverResult)"
| "dht_expects (Put _ _ _ r) = (r, KUnit)"
| "dht_expects (PutTo _ _ _ _ r) = (r, KUnit)"
| "dht_expects (Remove _ r) = (r, KUnit)"

fun autorelay_expects :: "autorelay_command \<Rightarrow> responder \<times> reply_kind" where
  "autorelay_expects (ArAddStaticRelay _ _ r) = (r, KBoolResult)"
| "autorelay_expects (ArRemoveStaticRelay _ r) = (r, KBoolResult)"
| "autorelay_expects (ArDisableRelays r) = (r, KUnit)"
| "autorelay_expects (ArListStaticRelays r) = (r, KPeerAddrs)"
| "autorelay_expects (ArGetStaticRelay _ r) = (r, KAddrsResult)"
| "autorelay_expects (ArEnable r) = (r, KUnit)"
| "autorelay_expects (ArDisable r) = (r, KUnit)"

fun autonat_expects :: "autonat_command \<Rightarrow> responder \<times> reply_kind" where
  "autonat_expects (AnPublicAddress r) = (r, KAddrOption)"
| "autonat_expects (AnNatStatus r) = (r, KNatStatus)"
| "autonat_expects (AnAddServer _ _ r) = (r, KUnit)"
| "autonat_expects (AnRemoveServer _ r) = (r, KUnit)"
| "autonat_expects (AnProbe _ r) = (r, KUnit)"

fun rr_expects :: "rr_command \<Rightarrow> responder \<times> reply_kind" where
  "rr_expects (SendRequests _ _ _ r) = (r, KRequests)"
| "rr_expects (SendRequest _ _ _ r) = (r, KRequests)"
| "rr_expects (SendResponse _ _ _ _ r) = (r, KResponseSent)"
| "rr_expects (ListenForRequests _ r) = (r, KSubscriber)"

fun expects :: "command \<Rightarrow> (responder \<times> reply_kind) option" where
  "expects (SwarmCommand c) = Some (swarm_expects c)"
| "expects (WhitelistCommand c) = Some (list_expects c)"
| "expects (BlacklistCommand c) = Some (list_expects c)"
| "expects (LimitsCommand c) = Some (limits_expects c)"
| "expects (PeerstoreCommand c) = Some (peerstore_expects c)"
| "expects (GossipsubCommand c) = Some (gossipsub_expects c)"
| "expects (FloodsubCommand c) = Some (floodsub_expects c)"
| "expects (AutonatCommand c) = Some (autonat_expects c)"
| "expects (DhtCommand c) = Some (dht_expects c)"
| "expects (AutoRelayCommand c) = Some (autorelay_expects c)"
| "expects (RelayServerCommand (RelayServerStatusChanged _ r)) = Some (r, KRelayServer)"
| "expects (StreamCommand (NewStream _ r)) = Some (r, KStreams)"
| "expects (StreamCommand (ControlHandle r)) = Some (r, KControl)"
| "expects (RequestResponseCommand c) = Some (rr_expects c)"
| "expects (RendezvousCommand (Register _ _ _ r)) = Some (r, KUnit)"
| "expects (RendezvousCommand (Unregister _ _ r)) = Some (r, KUnit)"
| "expects (RendezvousCommand (Discover _ _ _ _ r)) = Some (r, KDiscover)"
| "expects (CustomCommand _) = None"

text \<open>An assignment of types to responders that a command respects.\<close>

definition well_typed :: "(responder \<Rightarrow> reply_kind) \<Rightarrow> command \<Rightarrow> bool" where
  "well_typed \<kappa> cmd \<longleftrightarrow> (case expects cmd of None \<Rightarrow> True | Some (r, k) \<Rightarrow> \<kappa> r = k)"

subsection \<open>States whose answers and tables respect the types\<close>

fun effect_fits :: "(responder \<Rightarrow> reply_kind) \<Rightarrow> task_effect \<Rightarrow> bool" where
  "effect_fits \<kappa> (Answer r reply) \<longleftrightarrow> kind_of reply = \<kappa> r"
| "effect_fits \<kappa> _ \<longleftrightarrow> True"

definition table_fits :: "(responder \<Rightarrow> reply_kind) \<Rightarrow> reply_kind \<Rightarrow> ('k, responder) alist \<Rightarrow> bool" where
  "table_fits \<kappa> k t \<longleftrightarrow> (\<forall>(_, r) \<in> set t. \<kappa> r = k)"

definition entries_fit :: "('q \<Rightarrow> bool) \<Rightarrow> ('k, 'q) alist \<Rightarrow> bool" where
  "entries_fit P t \<longleftrightarrow> (\<forall>(_, q) \<in> set t. P q)"

definition fits :: "(responder \<Rightarrow> reply_kind) \<Rightarrow> 'sw task \<Rightarrow> bool" where
  "fits \<kappa> s \<longleftrightarrow> list_all (effect_fits \<kappa>) (effects s) \<and> table_fits \<kappa> KUnit (pending_dht_put_record s)
     \<and> table_fits \<kappa> KUnit (pending_dht_put_provider_record s) \<and> table_fits \<kappa> KPeersResult (pending_dht_find_closest_peer s)
     \<and> table_fits \<kappa> KUnit (pending_dht_bootstrap s) \<and> table_fits \<kappa> KConnection (pending_connection s)
     \<and> table_fits \<kappa> KUnit (pending_disconnection_by_connection_id s)
     \<and> table_fits \<kappa> KUnit (pending_disconnection_by_peer_id s) \<and> table_fits \<kappa> KListener (pending_listen_on s)
     \<and> table_fits \<kappa> KUnit (pending_remove_listener s)
     \<and> entries_fit (table_fits \<kappa> KUnit) (pending_rendezvous_register s)
     \<and> entries_fit (\<lambda>queue. table_fits \<kappa> KDiscover (map snd queue)) (pending_rendezvous_discover s)
     \<and> (\<forall>(r, reply) \<in> set (peerstore_ops s). kind_of reply = \<kappa> r)"

text \<open>A step of the task, seen by the callers: it only adds effects, and it respects the types.\<close>

definition serves :: "(responder \<Rightarrow> reply_kind) \<Rightarrow> 'sw task \<Rightarrow> 'sw task \<Rightarrow> bool" where
  "serves \<kappa> s s' \<longleftrightarrow> (\<exists>es. effects s' = effects s @ es) \<and> (fits \<kappa> s \<longrightarrow> fits \<kappa> s')"

lemma serves_refl [simp]: "serves \<kappa> s s"
  by (simp add: serves_def)

lemma serves_trans: "serves \<kappa> s s' \<Longrightarrow> serves \<kappa> s' s'' \<Longrightarrow> serves \<kappa> s s''"
  by (auto simp: serves_def)

lemma table_fits_simps [simp]:
  "table_fits \<kappa> k []" "table_fits \<kappa> k (x # t) \<longleftrightarrow> \<kappa> (snd x) = k \<and> table_fits \<kappa> k t"
  "table_fits \<kappa> k (t @ u) \<longleftrightarrow> table_fits \<kappa> k t \<and> table_fits \<kappa> k u"
  by (auto simp: table_fits_def split: prod.splits)

lemma table_fits_delete [intro]: "table_fits \<kappa> k t \<Longrightarrow> table_fits \<kappa> k (AList.delete q t)"
  by (auto simp: table_fits_def set_delete)

lemma table_fits_update [intro]: "table_fits \<kappa> k t \<Longrightarrow> \<kappa> r = k \<Longrightarrow> table_fits \<kappa> k (AList.update q r t)"
  by (induction t) auto

lemma table_fits_lookup: "table_fits \<kappa> k t \<Longrightarrow> map_of t q = Some r \<Longrightarrow> \<kappa> r = k"
  by (auto simp: table_fits_def dest: map_of_SomeD)

lemma entries_fit_delete [intro]: "entries_fit P t \<Longrightarrow> entries_fit P (AList.delete q t)"
  by (auto simp: entries_fit_def set_delete)

lemma entries_fit_update [intro]: "entries_fit P t \<Longrightarrow> P v \<Longrightarrow> entries_fit P (AList.update q v t)"
  unfolding entries_fit_def by (induction t) auto

lemma entries_fit_lookup: "entries_fit P t \<Longrightarrow> map_of t q = Some v \<Longrightarrow> P v"
  by (auto simp: entries_fit_def dest: map_of_SomeD)

lemma overwritten_fits [simp]: "list_all (effect_fits \<kappa>) (overwritten t q)" "list_all (effect_fits \<kappa>) (drop_channel t' q)"
  by (simp_all add: overwritten_def drop_channel_def split: option.split)

lemma serves_answer: "kind_of reply = \<kappa> r \<Longrightarrow> serves \<kappa> s (answer r reply s)"
  by (simp add: serves_def fits_def answer_def emit_all_def)

lemma fits_emit: "fits \<kappa> (emit_all es s) \<longleftrightarrow> fits \<kappa> s \<and> list_all (effect_fits \<kappa>) es"
  by (simp add: fits_def emit_all_def conj_ac)

lemma serves_emit: "list_all (effect_fits \<kappa>) es \<Longrightarrow> serves \<kappa> s s' \<Longrightarrow> serves \<kappa> s (emit_all es s')"
  by (auto simp: serves_def fits_emit)

lemma serves_with_swarm: "serves \<kappa> s (with_swarm sw s)"
  by (simp add: serves_def fits_def with_swarm_def)

lemma serves_defer: "kind_of reply = \<kappa> r \<Longrightarrow> serves \<kappa> s (defer_op r reply s)"
  by (auto simp: serves_def fits_def defer_op_def)

lemma fits_fields [simp]:
  "fits \<kappa> (s\<lparr>connection_listeners := a1\<rparr>) = fits \<kappa> s"
  "fits \<kappa> (s\<lparr>listener_addresses := a2\<rparr>) = fits \<kappa> s"
  "fits \<kappa> (s\<lparr>dht_event_sender := a3\<rparr>) = fits \<kappa> s"
  "fits \<kappa> (s\<lparr>dht_event_global_sender := a4\<rparr>) = fits \<kappa> s"
  "fits \<kappa> (s\<lparr>pending_dht_get_record := a5\<rparr>) = fits \<kappa> s"
  "fits \<kappa> (s\<lparr>pending_dht_get_provider_record := a6\<rparr>) = fits \<kappa> s"
  "fits \<kappa> (s\<lparr>next_channel := a7\<rparr>) = fits \<kappa> s"
  "fits \<kappa> (s\<lparr>gossipsub_listener := a8\<rparr>) = fits \<kappa> s"
  "fits \<kappa> (s\<lparr>floodsub_listener := a9\<rparr>) = fits \<kappa> s"
  "fits \<kappa> (s\<lparr>dht_put_record_receiver := b1\<rparr>) = fits \<kappa> s"
  "fits \<kappa> (s\<lparr>dht_put_record_global_receiver := b2\<rparr>) = fits \<kappa> s"
  "fits \<kappa> (s\<lparr>dht_provider_record_receiver := b3\<rparr>) = fits \<kappa> s"
  "fits \<kappa> (s\<lparr>dht_provider_record_global_receiver := b4\<rparr>) = fits \<kappa> s"
  by (simp_all add: fits_def)

lemma serves_fields [simp]:
  "serves \<kappa> s (s'\<lparr>connection_listeners := a1\<rparr>) = serves \<kappa> s s'"
  "serves \<kappa> s (s'\<lparr>listener_addresses := a2\<rparr>) = serves \<kappa> s s'"
  "serves \<kappa> s (s'\<lparr>dht_event_sender := a3\<rparr>) = serves \<kappa> s s'"
  "serves \<kappa> s (s'\<lparr>dht_event_global_sender := a4\<rparr>) = serves \<kappa> s s'"
  "serves \<kappa> s (s'\<lparr>pending_dht_get_record := a5\<rparr>) = serves \<kappa> s s'"
  "serves \<kappa> s (s'\<lparr>pending_dht_get_provider_record := a6\<rparr>) = serves \<kappa> s s'"
  "serves \<kappa> s (s'\<lparr>next_channel := a7\<rparr>) = serves \<kappa> s s'"
  "serves \<kappa> s (s'\<lparr>gossipsub_listener := a8\<rparr>) = serves \<kappa> s s'"
  "serves \<kappa> s (s'\<lparr>floodsub_listener := a9\<rparr>) = serves \<kappa> s s'"
  "serves \<kappa> s (s'\<lparr>dht_put_record_receiver := b1\<rparr>) = serves \<kappa> s s'"
  "serves \<kappa> s (s'\<lparr>dht_put_record_global_receiver := b2\<rparr>) = serves \<kappa> s s'"
  "serves \<kappa> s (s'\<lparr>dht_provider_record_receiver := b3\<rparr>) = serves \<kappa> s s'"
  "serves \<kappa> s (s'\<lparr>dht_provider_record_global_receiver := b4\<rparr>) = serves \<kappa> s s'"
  by (simp_all add: serves_def)

lemma serves_left [simp]:
  "serves \<kappa> (s\<lparr>connection_listeners := a1\<rparr>) s' = serves \<kappa> s s'"
  "serves \<kappa> (s\<lparr>listener_addresses := a2\<rparr>) s' = serves \<kappa> s s'"
  "serves \<kappa> (s\<lparr>next_channel := a7\<rparr>) s' = serves \<kappa> s s'"
  "serves \<kappa> (s\<lparr>gossipsub_listener := a8\<rparr>) s' = serves \<kappa> s s'"
  "serves \<kappa> (s\<lparr>floodsub_listener := a9\<rparr>) s' = serves \<kappa> s s'"
  "serves \<kappa> (s\<lparr>dht_put_record_receiver := b1\<rparr>) s' = serves \<kappa> s s'"
  "serves \<kappa> (s\<lparr>dht_put_record_global_receiver := b2\<rparr>) s' = serves \<kappa> s s'"
  "serves \<kappa> (s\<lparr>dht_provider_record_receiver := b3\<rparr>) s' = serves \<kappa> s s'"
  "serves \<kappa> (s\<lparr>dht_provider_record_global_receiver := b4\<rparr>) s' = serves \<kappa> s s'"
  by (simp_all add: serves_def)

text \<open>Parking a responder in a table of its type, after the effects \<open>es\<close> of the insertion.\<close>

lemma serves_park:
  assumes "list_all (effect_fits \<kappa>) es"
  shows "\<kappa> r = KConnection \<Longrightarrow> serves \<kappa> s (emit_all es s\<lparr>pending_connection := AList.update c r (pending_connection s)\<rparr>)"
    and "\<kappa> r = KUnit \<Longrightarrow> serves \<kappa> s (emit_all es s\<lparr>pending_disconnection_by_peer_id := AList.update p r (pending_disconnection_by_peer_id s)\<rparr>)"
    and "\<kappa> r = KUnit \<Longrightarrow> serves \<kappa> s (emit_all es s\<lparr>pending_disconnection_by_connection_id := AList.update c r (pending_disconnection_by_connection_id s)\<rparr>)"
    and "\<kappa> r = KListener \<Longrightarrow> serves \<kappa> s (emit_all es s\<lparr>pending_listen_on := AList.update l r (pending_listen_on s)\<rparr>)"
    and "\<kappa> r = KUnit \<Longrightarrow> serves \<kappa> s (emit_all es s\<lparr>pending_remove_listener := AList.update l r (pending_remove_listener s)\<rparr>)"
    and "\<kappa> r = KPeersResult \<Longrightarrow> serves \<kappa> s (emit_all es s\<lparr>pending_dht_find_closest_peer := AList.update q r (pending_dht_find_closest_peer s)\<rparr>)"
    and "\<kappa> r = KUnit \<Longrightarrow> serves \<kappa> s (emit_all es s\<lparr>pending_dht_bootstrap := AList.update q r (pending_dht_bootstrap s)\<rparr>)"
    and "\<kappa> r = KUnit \<Longrightarrow> serves \<kappa> s (emit_all es s\<lparr>pending_dht_put_provider_record := AList.update q r (pending_dht_put_provider_record s)\<rparr>)"
    and "\<kappa> r = KUnit \<Longrightarrow> serves \<kappa> s (emit_all es s\<lparr>pending_dht_put_record := AList.update q r (pending_dht_put_record s)\<rparr>)"
  using assms by (simp_all add: serves_def fits_def emit_all_def table_fits_update)

lemma tables_emit [simp]:
  "pending_connection (emit_all es s) = pending_connection s"
  "pending_disconnection_by_peer_id (emit_all es s) = pending_disconnection_by_peer_id s"
  "pending_disconnection_by_connection_id (emit_all es s) = pending_disconnection_by_connection_id s"
  "pending_listen_on (emit_all es s) = pending_listen_on s" "pending_remove_listener (emit_all es s) = pending_remove_listener s"
  "pending_dht_find_closest_peer (emit_all es s) = pending_dht_find_closest_peer s"
  "pending_dht_bootstrap (emit_all es s) = pending_dht_bootstrap s"
  "pending_dht_put_provider_record (emit_all es s) = pending_dht_put_provider_record s"
  "pending_dht_put_record (emit_all es s) = pending_dht_put_record s"
  by (simp_all add: emit_all_def)

lemmas serves_answer_swarm = serves_trans [OF serves_with_swarm serves_answer]
lemmas serves_park_swarm = serves_park [THEN serves_trans [OF serves_with_swarm]]
lemmas serves_defer_swarm = serves_trans [OF serves_with_swarm serves_defer]

text \<open>Answering a responder taken out of a table.\<close>

lemma serves_settle:
  "map_of (pending_connection s) c = Some r \<Longrightarrow> kind_of reply = KConnection \<Longrightarrow>
     serves \<kappa> s (answer r reply (s\<lparr>pending_connection := AList.delete c (pending_connection s)\<rparr>))"
  "map_of (pending_listen_on s) l = Some r \<Longrightarrow> kind_of reply = KListener \<Longrightarrow>
     serves \<kappa> s (answer r reply (s\<lparr>pending_listen_on := AList.delete l (pending_listen_on s)\<rparr>))"
  "map_of (pending_remove_listener s) l = Some r \<Longrightarrow> kind_of reply = KUnit \<Longrightarrow>
     serves \<kappa> s (answer r reply (s\<lparr>pending_remove_listener := AList.delete l (pending_remove_listener s)\<rparr>))"
  "map_of (pending_dht_find_closest_peer s) q = Some r \<Longrightarrow> kind_of reply = KPeersResult \<Longrightarrow>
     serves \<kappa> s (answer r reply (s\<lparr>pending_dht_find_closest_peer := AList.delete q (pending_dht_find_closest_peer s)\<rparr>))"
  "map_of (pending_dht_bootstrap s) q = Some r \<Longrightarrow> kind_of reply = KUnit \<Longrightarrow>
     serves \<kappa> s (answer r reply (s\<lparr>pending_dht_bootstrap := AList.delete q (pending_dht_bootstrap s)\<rparr>))"
  "map_of (pending_dht_put_provider_record s) q = Some r \<Longrightarrow> kind_of reply = KUnit \<Longrightarrow>
     serves \<kappa> s (answer r reply (s\<lparr>pending_dht_put_provider_record := AList.delete q (pending_dht_put_provider_record s)\<rparr>))"
  "map_of (pending_dht_put_record s) q = Some r \<Longrightarrow> kind_of reply = KUnit \<Longrightarrow>
     serves \<kappa> s (answer r reply (s\<lparr>pending_dht_put_record := AList.delete q (pending_dht_put_record s)\<rparr>))"
  by (auto simp: serves_def fits_def answer_def emit_all_def dest: table_fits_lookup)

subsection \<open>Commands\<close>

lemma serves_swarm_command:
  "(case swarm_expects cmd of (r, k) \<Rightarrow> \<kappa> r = k) \<Longrightarrow> serves \<kappa> s (process_swarm_command ops cmd sw s)"
proof (induction ops cmd sw s rule: process_swarm_command.induct)
  case (9 ops lid r sw s)
  have "serves \<kappa> s ((with_swarm sw' s)\<lparr>listener_addresses := a\<rparr>)" for sw' a by (simp add: serves_with_swarm)
  from serves_trans [OF this serves_park(5)] 9 show ?case
    by (auto simp: Let_def split: prod.split bool.split intro: serves_answer_swarm)
qed (auto simp: Let_def new_channel_def split: prod.split sum.split bool.split option.split
    intro: serves_answer serves_answer_swarm serves_park_swarm
      serves_trans [OF _ serves_answer])

lemma serves_small_commands:
  "(case list_expects lc of (r, k) \<Rightarrow> \<kappa> r = k) \<Longrightarrow> serves \<kappa> s (process_whitelist_command ops lc sw s)"
  "(case list_expects lc of (r, k) \<Rightarrow> \<kappa> r = k) \<Longrightarrow> serves \<kappa> s (process_blacklist_command ops lc sw s)"
  "(case limits_expects mc of (r, k) \<Rightarrow> \<kappa> r = k) \<Longrightarrow> serves \<kappa> s (process_limits_command ops mc sw s)"
  "(case peerstore_expects pc of (r, k) \<Rightarrow> \<kappa> r = k) \<Longrightarrow> serves \<kappa> s (process_peerstore_command ops pc sw s)"
  by (cases lc; cases mc; cases pc; auto split: prod.split bool.split option.split
      intro: serves_answer serves_answer_swarm serves_defer serves_defer_swarm)+

lemma serves_listener:
  "kind_of reply = \<kappa> r \<Longrightarrow> serves \<kappa> s (answer r reply (s\<lparr>next_channel := n, gossipsub_listener := m\<rparr>))"
  "kind_of reply = \<kappa> r \<Longrightarrow> serves \<kappa> s (answer r reply (s\<lparr>next_channel := n, floodsub_listener := m\<rparr>))"
  using serves_answer [of reply \<kappa> r "s\<lparr>next_channel := n, gossipsub_listener := m\<rparr>"]
    serves_answer [of reply \<kappa> r "s\<lparr>next_channel := n, floodsub_listener := m\<rparr>"] by simp_all

lemma serves_pubsub_commands:
  "(case gossipsub_expects gc of (r, k) \<Rightarrow> \<kappa> r = k) \<Longrightarrow> serves \<kappa> s (process_gossipsub_command ops gc sw s)"
  "(case floodsub_expects fc of (r, k) \<Rightarrow> \<kappa> r = k) \<Longrightarrow> serves \<kappa> s (process_floodsub_command ops fc sw s)"
  subgoal by (cases gc) (auto simp: new_channel_def split: prod.split sum.split bool.split
      intro: serves_answer serves_answer_swarm serves_listener)
  subgoal by (cases fc) (auto simp: new_channel_def split: prod.split bool.split
      intro: serves_answer serves_answer_swarm serves_listener)
  done

lemma serves_service_commands:
  "(case autonat_expects anc of (r, k) \<Rightarrow> \<kappa> r = k) \<Longrightarrow> serves \<kappa> s (process_autonat_v1_command ops anc sw s)"
  "(case autorelay_expects arc of (r, k) \<Rightarrow> \<kappa> r = k) \<Longrightarrow> process_autorelay_commands ops arc sw s = Some s' \<Longrightarrow> serves \<kappa> s s'"
  "\<kappa> r = KRelayServer \<Longrightarrow> serves \<kappa> s (process_relay_server_command ops (RelayServerStatusChanged st r) sw s)"
  "\<kappa> r = KStreams \<Longrightarrow> serves \<kappa> s (process_stream_command ops (NewStream proto r) sw s)"
  "\<kappa> r = KControl \<Longrightarrow> serves \<kappa> s (process_stream_command ops (ControlHandle r) sw s)"
  subgoal by (cases anc) (auto intro: serves_answer serves_answer_swarm)
  subgoal by (cases arc) (auto simp: with_autorelay_def split: option.splits prod.splits intro: serves_answer serves_answer_swarm)
  subgoal by (auto intro: serves_answer serves_answer_swarm)
  subgoal by (auto split: prod.split sum.split intro: serves_answer serves_answer_swarm)
  subgoal by (auto intro: serves_answer)
  done

lemma serves_rr_command:
  "(case rr_expects cmd of (r, k) \<Rightarrow> \<kappa> r = k) \<Longrightarrow> serves \<kappa> s (process_rr_command ops cmd sw s)"
  by (cases cmd) (auto simp: process_rr_command_def split: prod.split option.split intro!: serves_answer_swarm
      split: option.splits prod.splits)

lemma serves_kad_channels:
  assumes "\<kappa> r = KReceiverResult"
  shows "serves \<kappa> s (kad_providers_command ops key r sw s)" "serves \<kappa> s (kad_get_command ops key r sw s)"
    "serves \<kappa> s (kad_listener ops k r sw s)"
  using assms
  by (auto simp: kad_providers_command_def kad_get_command_def kad_listener_def new_channel_def Let_def
      split: prod.split option.split intro: serves_answer
      intro!: serves_trans [OF _ serves_answer] serves_emit serves_with_swarm)

lemma serves_kad_command:
  "(case dht_expects cmd of (r, k) \<Rightarrow> \<kappa> r = k) \<Longrightarrow> serves \<kappa> s (process_kademlia_command ops cmd sw s)"
  by (cases cmd) (auto simp: serves_kad_channels kad_find_peer_def kad_bootstrap_command_def kad_provide_def
      kad_put_command_def kad_put_to_command_def park_put_def Let_def kad_routing_command_def kad_remove_command_def
      split: prod.split sum.split bool.split intro: serves_answer serves_answer_swarm serves_park_swarm)

text \<open>Queues of rendezvous requests.\<close>

lemma serves_queue:
  "(fits \<kappa> s \<Longrightarrow> table_fits \<kappa> KUnit queue) \<Longrightarrow>
     serves \<kappa> s (s\<lparr>pending_rendezvous_register := AList.update key queue (pending_rendezvous_register s)\<rparr>)"
  "(fits \<kappa> s \<Longrightarrow> table_fits \<kappa> KDiscover (map snd queue')) \<Longrightarrow>
     serves \<kappa> s (s\<lparr>pending_rendezvous_discover := AList.update key' queue' (pending_rendezvous_discover s)\<rparr>)"
  by (simp_all add: serves_def fits_def entries_fit_update)

lemma fits_queue:
  "fits \<kappa> s \<Longrightarrow> map_of (pending_rendezvous_register s) key = Some queue \<Longrightarrow> table_fits \<kappa> KUnit queue"
  "fits \<kappa> s \<Longrightarrow> map_of (pending_rendezvous_discover s) key' = Some queue' \<Longrightarrow> table_fits \<kappa> KDiscover (map snd queue')"
  by (auto simp: fits_def dest: entries_fit_lookup)

lemma serves_register: "\<kappa> r = KUnit \<Longrightarrow> serves \<kappa> s (process_register ops ns p ttl r sw s)"
  by (auto simp: process_register_def Let_def or_default_def split: prod.split sum.split option.split
      intro!: serves_answer_swarm serves_queue(1) serves_trans [OF serves_with_swarm serves_queue(1)] dest: fits_queue)

lemma serves_discover: "\<kappa> r = KDiscover \<Longrightarrow> serves \<kappa> s (process_discover ops ns p c ttl r sw s)"
  by (auto simp: process_discover_def Let_def or_default_def split: prod.split sum.split option.split
      intro!: serves_answer_swarm serves_queue(2) serves_trans [OF serves_with_swarm serves_queue(2)] dest: fits_queue)

lemma serves_rendezvous_command:
  "well_typed \<kappa> (RendezvousCommand cmd) \<Longrightarrow> serves \<kappa> s (process_rendezvous_command ops cmd sw s)"
  by (cases cmd) (auto simp: well_typed_def serves_register serves_discover intro: serves_answer serves_answer_swarm)

lemmas serves_commands = serves_swarm_command serves_small_commands serves_pubsub_commands serves_service_commands
  serves_rr_command serves_kad_command serves_rendezvous_command serves_with_swarm

lemma serves_command:
  assumes "process_command ops callback cmd s = Some s'" "well_typed \<kappa> cmd"
  shows "serves \<kappa> s s'"
proof (cases "swarm s")
  case (Some sw)
  show ?thesis
  proof (cases cmd)
    case (RelayServerCommand c)
    with assms Some show ?thesis
      by (cases c) (auto simp: process_command_def well_typed_def simp del: process_relay_server_command.simps intro: serves_commands)
  next
    case (StreamCommand c)
    with assms Some show ?thesis
      by (cases c) (auto simp: process_command_def well_typed_def simp del: process_stream_command.simps intro: serves_commands)
  next
    case (AutoRelayCommand c)
    with assms Some serves_service_commands(2) [where arc = c and \<kappa> = \<kappa> and s = s and s' = s'] show ?thesis
      by (auto simp: process_command_def well_typed_def split: prod.splits)
  next
    case (RendezvousCommand c)
    with assms Some show ?thesis by (auto simp: process_command_def intro: serves_commands)
  qed (use assms Some in \<open>auto simp: process_command_def well_typed_def intro: serves_commands\<close>)
qed (use assms in \<open>simp add: process_command_def\<close>)

subsection \<open>Events\<close>

lemma list_all_map_simps [simp]:
  "list_all (effect_fits \<kappa>) (map (\<lambda>tx. SendSwarmEvent tx ev) txs)"
  "list_all (effect_fits \<kappa>) (map (\<lambda>tx. SendGossipsubEvent tx gev) txs)"
  "list_all (effect_fits \<kappa>) (map (\<lambda>tx. SendFloodsubEvent tx fev) txs)"
  by (simp_all add: list_all_iff)

lemma serves_notify: "serves \<kappa> s (notify ev s)"
  by (simp add: notify_def serves_emit)

lemma serves_prune: "serves \<kappa> s (prune_listeners closed s)"
  by (simp add: prune_listeners_def)

lemma serves_connection_events:
  "serves \<kappa> s (on_established closed p c ep n s)" "serves \<kappa> s (on_outgoing_error c p' e s)"
  "serves \<kappa> s (on_new_listen_addr lid a s)" "serves \<kappa> s (on_expired_listen_addr lid a s)"
proof -
  have "serves \<kappa> s (case map_of (pending_connection s) c of
      Some resp \<Rightarrow> answer resp (RConnection r) (s\<lparr>pending_connection := AList.delete c (pending_connection s)\<rparr>)
    | None \<Rightarrow> s)" for r by (auto split: option.split intro: serves_settle)
  then show "serves \<kappa> s (on_established closed p c ep n s)" "serves \<kappa> s (on_outgoing_error c p' e s)"
    unfolding on_established_def on_outgoing_error_def Let_def
    by (auto intro: serves_trans [OF _ serves_notify] serves_trans [OF _ serves_prune])
  have "serves \<kappa> s (case map_of (pending_listen_on s) lid of
      Some resp \<Rightarrow> answer resp (RListener (Inr lid)) (s\<lparr>pending_listen_on := AList.delete lid (pending_listen_on s)\<rparr>)
    | None \<Rightarrow> s)" by (auto split: option.split intro: serves_settle)
  then show "serves \<kappa> s (on_new_listen_addr lid a s)" "serves \<kappa> s (on_expired_listen_addr lid a s)"
    unfolding on_new_listen_addr_def on_expired_listen_addr_def Let_def
    by (auto intro!: serves_trans [OF _ serves_notify] split: option.split)
qed

lemma serves_listener_closed: "serves \<kappa> s (on_listener_closed lid addrs reason s)"
proof -
  let ?s1 = "s\<lparr>listener_addresses := AList.delete lid (listener_addresses s)\<rparr>"
  have one: "serves \<kappa> s1 (case map_of (pending_listen_on s1) lid of
      Some resp \<Rightarrow> answer resp (RListener r) (s1\<lparr>pending_listen_on := AList.delete lid (pending_listen_on s1)\<rparr>) | None \<Rightarrow> s1)" for s1 r
    by (auto split: option.split intro: serves_settle)
  have two: "serves \<kappa> s2 (case map_of (pending_remove_listener s2) lid of
      Some resp \<Rightarrow> answer resp (RUnit r) (s2\<lparr>pending_remove_listener := AList.delete lid (pending_remove_listener s2)\<rparr>) | None \<Rightarrow> s2)" for s2 r
    by (auto split: option.split intro: serves_settle)
  have "serves \<kappa> ?s1 (on_listener_closed lid addrs reason s)"
    unfolding on_listener_closed_def Let_def by (rule serves_trans [OF serves_trans [OF one two] serves_notify])
  then show ?thesis by simp
qed

lemma serves_disconnection:
  "serves \<kappa> s (answer_disconnection (map_of (pending_disconnection_by_connection_id s) c)
     (map_of (pending_disconnection_by_peer_id s) p) ret
     (s\<lparr>pending_disconnection_by_connection_id := AList.delete c (pending_disconnection_by_connection_id s),
        pending_disconnection_by_peer_id := AList.delete p (pending_disconnection_by_peer_id s)\<rparr>))"
proof -
  have kinds: "fits \<kappa> s \<Longrightarrow> map_of (pending_disconnection_by_connection_id s) c = Some r \<Longrightarrow> \<kappa> r = KUnit"
    "fits \<kappa> s \<Longrightarrow> map_of (pending_disconnection_by_peer_id s) p = Some r \<Longrightarrow> \<kappa> r = KUnit" for r
    by (auto simp: fits_def dest: table_fits_lookup)
  have deleted: "fits \<kappa> s \<Longrightarrow> fits \<kappa> (s\<lparr>pending_disconnection_by_connection_id := AList.delete c (pending_disconnection_by_connection_id s),
        pending_disconnection_by_peer_id := AList.delete p (pending_disconnection_by_peer_id s)\<rparr>)"
    by (simp add: fits_def table_fits_delete)
  show ?thesis
    by (auto simp: serves_def answer_disconnection_def answer_def fits_emit deleted kinds split: option.split)
qed

lemma serves_fail_discoveries: "serves \<kappa> s (fail_discoveries p ks s)"
proof (induction ks arbitrary: s)
  case (Cons key ks)
  have "serves \<kappa> s (case map_of (pending_rendezvous_discover s) key of None \<Rightarrow> s
      | Some l \<Rightarrow> emit_all (map (\<lambda>(_, _, resp). Answer resp (RDiscover (Inl (ErrNotConnected p)))) l)
          (s\<lparr>pending_rendezvous_discover := AList.delete key (pending_rendezvous_discover s)\<rparr>))"
  proof (cases "map_of (pending_rendezvous_discover s) key")
    case (Some l)
    have "fits \<kappa> s \<Longrightarrow> list_all (effect_fits \<kappa>) (map (\<lambda>(_, _, resp). Answer resp (RDiscover (Inl (ErrNotConnected p)))) l)"
      using fits_queue(2) [OF _ Some] by (force simp: list_all_iff table_fits_def)
    with Some show ?thesis by (simp add: serves_def fits_emit) (simp add: fits_def entries_fit_delete)
  qed simp
  from serves_trans [OF this Cons.IH] show ?case by simp
qed simp

lemma serves_fail_registrations: "serves \<kappa> s (fail_registrations p ks s)"
proof (induction ks arbitrary: s)
  case (Cons key ks)
  have "serves \<kappa> s (case map_of (pending_rendezvous_register s) key of None \<Rightarrow> s
      | Some l \<Rightarrow> emit_all (map (\<lambda>(_, resp). Answer resp (RUnit (Inl (ErrNotConnected p)))) l)
          (s\<lparr>pending_rendezvous_register := AList.delete key (pending_rendezvous_register s)\<rparr>))"
  proof (cases "map_of (pending_rendezvous_register s) key")
    case (Some l)
    have "fits \<kappa> s \<Longrightarrow> list_all (effect_fits \<kappa>) (map (\<lambda>(_, resp). Answer resp (RUnit (Inl (ErrNotConnected p)))) l)"
      using fits_queue(1) [OF _ Some] by (force simp: list_all_iff table_fits_def)
    with Some show ?thesis by (simp add: serves_def fits_emit) (simp add: fits_def entries_fit_delete)
  qed simp
  from serves_trans [OF this Cons.IH] show ?case by simp
qed simp

lemma serves_fail_rendezvous: "serves \<kappa> s (fail_pending_rendezvous p s)"
  unfolding fail_pending_rendezvous_def Let_def by (rule serves_trans [OF serves_fail_discoveries serves_fail_registrations])

lemma serves_closed: "serves \<kappa> s (on_closed closed p c ep n cause s)"
  unfolding on_closed_def Let_def
  by (auto intro: serves_trans [OF _ serves_fail_rendezvous]
      serves_trans [OF serves_trans [OF serves_disconnection serves_prune] serves_notify])

lemma serves_restart_registration: "table_fits \<kappa> KUnit queue \<Longrightarrow> serves \<kappa> s (restart_registration ops key queue sw s)"
proof (induction ops key queue sw s rule: restart_registration.induct)
  case (2 ops key ttl resp queue sw s)
  obtain sw' r where start: "start_rendezvous_registration ops key ttl sw = (sw', r)" by fastforce
  show ?case
  proof (cases r)
    case (Inl e)
    have "serves \<kappa> (answer resp (RUnit (Inl e)) s) (restart_registration ops key queue sw' (answer resp (RUnit (Inl e)) s))"
      by (rule 2(1) [OF start [symmetric] Inl]) (use 2(2) in simp)
    then have "serves \<kappa> s (restart_registration ops key queue sw' (answer resp (RUnit (Inl e)) s))"
      by (rule serves_trans [OF serves_answer, rotated]) (use 2(2) in simp)
    with start Inl show ?thesis by simp
  next
    case (Inr u)
    have "serves \<kappa> s (with_swarm sw' s\<lparr>pending_rendezvous_register :=
        AList.update key ((ttl, resp) # queue) (pending_rendezvous_register (with_swarm sw' s))\<rparr>)"
      by (rule serves_trans [OF serves_with_swarm serves_queue(1)]) (use 2(2) in simp)
    with start Inr show ?thesis by (simp add: with_swarm_def)
  qed
qed (simp add: serves_with_swarm)

lemma serves_restart_discovery:
  "table_fits \<kappa> KDiscover (map snd queue) \<Longrightarrow> serves \<kappa> s (restart_discovery ops key queue sw s)"
proof (induction ops key queue sw s rule: restart_discovery.induct)
  case (2 ops key c ttl resp queue sw s)
  obtain sw' r where start: "start_rendezvous_discovery ops key c ttl sw = (sw', r)" by fastforce
  show ?case
  proof (cases r)
    case (Inl e)
    have "serves \<kappa> (answer resp (RDiscover (Inl e)) s) (restart_discovery ops key queue sw' (answer resp (RDiscover (Inl e)) s))"
      by (rule 2(1) [OF start [symmetric] Inl]) (use 2(2) in simp)
    then have "serves \<kappa> s (restart_discovery ops key queue sw' (answer resp (RDiscover (Inl e)) s))"
      by (rule serves_trans [OF serves_answer, rotated]) (use 2(2) in simp)
    with start Inl show ?thesis by simp
  next
    case (Inr u)
    have "serves \<kappa> s (with_swarm sw' s\<lparr>pending_rendezvous_discover :=
        AList.update key ((c, ttl, resp) # queue) (pending_rendezvous_discover (with_swarm sw' s))\<rparr>)"
      by (rule serves_trans [OF serves_with_swarm serves_queue(2)]) (use 2(2) in simp)
    with start Inr show ?thesis by (simp add: with_swarm_def)
  qed
qed (simp add: serves_with_swarm)

lemma restart_grows:
  "\<exists>es. effects (restart_registration ops key queue sw s) = effects s @ es"
  "\<exists>es. effects (restart_discovery ops key' queue' sw s) = effects s @ es"
proof -
  show "\<exists>es. effects (restart_registration ops key queue sw s) = effects s @ es"
    using serves_restart_registration [of "\<lambda>_. KUnit" queue s ops key sw] by (simp add: serves_def table_fits_def)
  show "\<exists>es. effects (restart_discovery ops key' queue' sw s) = effects s @ es"
    using serves_restart_discovery [of "\<lambda>_. KDiscover" queue' s ops key' sw] by (simp add: serves_def table_fits_def)
qed

lemma serves_finish_registration: "serves \<kappa> s (finish_rendezvous_registration ops key result sw s)"
proof (cases "map_of (pending_rendezvous_register s) key")
  case (Some queue)
  let ?t = "s\<lparr>pending_rendezvous_register := AList.delete key (pending_rendezvous_register s)\<rparr>"
  have taken: "serves \<kappa> s ?t" by (simp add: serves_def fits_def entries_fit_delete)
  show ?thesis
  proof (cases queue)
    case Nil
    with Some taken show ?thesis by (simp add: finish_rendezvous_registration_def)
  next
    case (Cons x q)
    obtain ttl resp where x: "x = (ttl, resp)" by fastforce
    have "serves \<kappa> s (restart_registration ops key q sw (answer resp (RUnit result) ?t))" if "fits \<kappa> s"
    proof -
      from fits_queue(1) [OF that Some] Cons x have "\<kappa> resp = KUnit" "table_fits \<kappa> KUnit q" by simp_all
      then show ?thesis
        by (intro serves_trans [OF taken] serves_trans [OF serves_answer serves_restart_registration]) simp_all
    qed
    moreover have "\<exists>es. effects (restart_registration ops key q sw (answer resp (RUnit result) ?t)) = effects s @ es"
      using restart_grows(1) [of ops key q sw "answer resp (RUnit result) ?t"] by auto
    ultimately have "serves \<kappa> s (restart_registration ops key q sw (answer resp (RUnit result) ?t))"
      by (auto simp: serves_def)
    with Some Cons x show ?thesis by (simp add: finish_rendezvous_registration_def)
  qed
qed (simp add: finish_rendezvous_registration_def)

lemma serves_finish_discovery: "serves \<kappa> s (finish_rendezvous_discovery ops key result sw s)"
proof (cases "map_of (pending_rendezvous_discover s) key")
  case (Some queue)
  let ?t = "s\<lparr>pending_rendezvous_discover := AList.delete key (pending_rendezvous_discover s)\<rparr>"
  have taken: "serves \<kappa> s ?t" by (simp add: serves_def fits_def entries_fit_delete)
  show ?thesis
  proof (cases queue)
    case Nil
    with Some taken show ?thesis by (simp add: finish_rendezvous_discovery_def)
  next
    case (Cons x q)
    obtain c ttl resp where x: "x = (c, ttl, resp)" by (cases x) auto
    have "serves \<kappa> s (restart_discovery ops key q sw (answer resp (RDiscover result) ?t))" if "fits \<kappa> s"
    proof -
      from fits_queue(2) [OF that Some] Cons x have "\<kappa> resp = KDiscover" "table_fits \<kappa> KDiscover (map snd q)" by simp_all
      then show ?thesis
        by (intro serves_trans [OF taken] serves_trans [OF serves_answer serves_restart_discovery]) simp_all
    qed
    moreover have "\<exists>es. effects (restart_discovery ops key q sw (answer resp (RDiscover result) ?t)) = effects s @ es"
      using restart_grows(2) [of ops key q sw "answer resp (RDiscover result) ?t"] by auto
    ultimately have "serves \<kappa> s (restart_discovery ops key q sw (answer resp (RDiscover result) ?t))"
      by (auto simp: serves_def)
    with Some Cons x show ?thesis by (simp add: finish_rendezvous_discovery_def)
  qed
qed (simp add: finish_rendezvous_discovery_def)

lemma serves_progress: "serves \<kappa> s (progress_providers q r s)" "serves \<kappa> s (progress_record q r s)"
  by (auto simp: progress_providers_def progress_record_def Let_def
      split: option.split query_result.split intro!: serves_emit)

lemma serves_query: "serves \<kappa> s (kad_query_progressed q r is_last s)"
  by (cases r) (auto simp: finish_bootstrap_def finish_find_peer_def finish_provide_def finish_put_def
      serves_progress split: option.split intro: serves_settle)

lemma serves_offer:
  assumes "\<And>rx s. serves \<kappa> s (keep rx s)" and "offer_event confirm keep event has_record txs s = Some s'"
  shows "serves \<kappa> s s'"
  using assms(2)
proof (induction txs arbitrary: s)
  case (Cons tx txs)
  have step: "serves \<kappa> s (emit_all [SendDhtEvent tx ev] (keep rx (s\<lparr>next_channel := n\<rparr>)))"
    "serves \<kappa> s (emit_all [SendDhtEvent tx ev] s)" for ev rx n
    using assms(1) [of "s\<lparr>next_channel := n\<rparr>" rx] by (simp_all add: serves_emit)
  show ?case
  proof (cases has_record)
    case True
    with Cons.prems obtain ev where
      "offer_event confirm keep event has_record txs (emit_all [SendDhtEvent tx ev]
         (keep (next_channel s) (s\<lparr>next_channel := Suc (next_channel s)\<rparr>))) = Some s'"
      by (auto simp: new_channel_def split: option.splits)
    from serves_trans [OF step(1) Cons.IH [OF this]] show ?thesis .
  next
    case False
    with Cons.prems have "offer_event confirm keep event has_record txs (emit_all [SendDhtEvent tx event] s) = Some s'"
      by simp
    from serves_trans [OF step(2) Cons.IH [OF this]] show ?thesis .
  qed
qed simp

lemma serves_kad_event: "process_kademlia_event ev s = Some s' \<Longrightarrow> serves \<kappa> s s'"
proof (cases ev)
  case (AddProviderRequest rec)
  moreover assume "process_kademlia_event ev s = Some s'"
  ultimately show ?thesis
    by (auto simp: kad_add_provider_def Let_def split: option.splits dest!: serves_offer [where \<kappa> = \<kappa>, rotated] intro: serves_trans)
next
  case (PutRecordRequest source rec)
  moreover assume "process_kademlia_event ev s = Some s'"
  ultimately show ?thesis
    by (auto simp: kad_put_request_def Let_def split: option.splits dest!: serves_offer [where \<kappa> = \<kappa>, rotated] intro: serves_trans)
qed (auto simp: serves_query)

lemma serves_deliver_floodsub: "serves \<kappa> s (deliver_floodsub event topics s)"
proof (induction event topics s rule: deliver_floodsub.induct)
  case (2 event t topics s)
  have "serves \<kappa> s (case map_of (floodsub_listener s) t of None \<Rightarrow> s
      | Some chs \<Rightarrow> emit_all (map (\<lambda>tx. SendFloodsubEvent tx event) chs) s)"
    by (auto split: option.split intro!: serves_emit)
  from serves_trans [OF this 2] show ?case by simp
qed simp

lemma serves_event: "process_event ops custom closed ev sw s = Some s' \<Longrightarrow> serves \<kappa> s s'"
proof (cases ev)
  case (RendezvousClientEvent r)
  moreover assume "process_event ops custom closed ev sw s = Some s'"
  ultimately show ?thesis by (cases r) (auto intro: serves_finish_registration serves_finish_discovery)
next
  case (IdentifyEvent i)
  moreover assume "process_event ops custom closed ev sw s = Some s'"
  ultimately show ?thesis by (cases i) (auto intro: serves_with_swarm split: if_splits)
qed (auto simp: serves_connection_events serves_listener_closed serves_closed serves_notify serves_kad_event
    process_gossipsub_event_def process_floodsub_event_def serves_deliver_floodsub serves_with_swarm
    split: prod.split option.split intro!: serves_emit)

subsection \<open>Polls and runs\<close>

lemma serves_swarm_event: "process_swarm_event ops callback custom closed ev s = Some s' \<Longrightarrow> serves \<kappa> s s'"
  by (auto simp: process_swarm_event_def Let_def split: option.splits
      intro: serves_trans [OF serves_with_swarm serves_event])

lemma serves_events: "process_events ops callback custom closed evs s = Some s' \<Longrightarrow> serves \<kappa> s s'"
  by (induction evs arbitrary: s) (auto split: bind_splits intro: serves_trans [OF serves_swarm_event])

lemma serves_commands_list:
  "process_commands ops callback cmds s = Some s' \<Longrightarrow> \<forall>cmd \<in> set cmds. well_typed \<kappa> cmd \<Longrightarrow> serves \<kappa> s s'"
  by (induction cmds arbitrary: s) (auto split: bind_splits intro: serves_trans [OF serves_command])

lemma serves_drain: "serves \<kappa> s (drain_peerstore s)"
  by (auto simp: serves_def drain_peerstore_def fits_emit list_all_iff) (auto simp: fits_def)

lemma serves_store_confirmed: "store_confirmed ops put rs s = Some s' \<Longrightarrow> serves \<kappa> s s'"
  by (induction ops put rs s rule: store_confirmed.induct)
    (auto split: option.splits if_splits intro: serves_trans [OF serves_with_swarm])

lemma serves_confirm:
  "confirm_puts ops ready s = Some s' \<Longrightarrow> serves \<kappa> s s'"
  "confirm_providers ops ready' s = Some s' \<Longrightarrow> serves \<kappa> s s'"
  by (auto simp: confirm_puts_def confirm_providers_def Let_def split: option.splits
      dest!: serves_store_confirmed [where \<kappa> = \<kappa>] intro: serves_trans)

lemma serves_poll:
  assumes "task_poll ops env s = Some s'" "\<forall>cmd \<in> set (ready_commands env). well_typed \<kappa> cmd"
  shows "serves \<kappa> s s'"
proof (cases "swarm s = None")
  case True
  with assms show ?thesis by (simp add: task_poll_def)
next
  case False
  define s0 where "s0 = (if cleanup_due env then cleanup_channels (is_closed env) s else s)"
  from False assms obtain s1 s2 s3 where
    steps: "process_commands ops (task_callback env) (ready_commands env) s0 = Some s1"
      "process_events ops (event_callback env) (custom_event_callback env) (is_closed env) (ready_events env) s1 = Some s2"
      "confirm_puts ops (ready_puts env) (drain_peerstore (run_pollable (pollable_callback env) s2)) = Some s3"
      "confirm_providers ops (ready_providers env) s3 = Some s'"
    by (auto simp: task_poll_def Let_def s0_def split: bind_splits)
  have "serves \<kappa> s s0" by (simp add: s0_def cleanup_channels_def)
  note events = serves_trans [OF serves_trans [OF this serves_commands_list [OF steps(1) assms(2)]] serves_events [OF steps(2)]]
  have "serves \<kappa> s2 (run_pollable (pollable_callback env) s2)"
    by (auto simp: run_pollable_def serves_with_swarm split: option.split)
  note drained = serves_trans [OF serves_trans [OF events this] serves_drain]
  from serves_trans [OF serves_trans [OF drained serves_confirm(1) [OF steps(3)]] serves_confirm(2) [OF steps(4)]]
  show ?thesis .
qed

lemma run_fits:
  assumes "task_run ops (\<lambda>env. \<forall>cmd \<in> set (ready_commands env). well_typed \<kappa> cmd) sw R s"
  shows "fits \<kappa> s"
  using assms
proof (induction rule: task_run.induct)
  case start
  show ?case by (simp add: task_new_def fits_def entries_fit_def)
next
  case (poll R s env s')
  with serves_poll [OF poll.hyps(3,2)] show ?case by (simp add: serves_def)
qed

end
