(* ===== verification/Task_Dht.thy ===== *)
theory Task_Dht
  imports Task_Run
begin

section \<open>Records offered to the application\<close>

text \<open>
  A record another peer wants to store is offered to the subscribers, each offer with a confirmation channel of its
  own. Only what comes back over such a channel is stored.
\<close>

lemma upt_Cons_length: "[n..<n + length (x # xs)] = n # [Suc n..<Suc n + length xs]"
  by (simp add: upt_conv_Cons del: upt_Suc)

lemma offer_events:
  assumes "\<And>rx s. effects (keep rx s) = effects s" "\<And>rx s. next_channel (keep rx s) = next_channel s"
    and "\<And>rx. confirm event rx = Some (f rx)"
    and "offer_event confirm keep event True txs s = Some s'"
  shows "effects s' = effects s @ map2 (\<lambda>tx rx. SendDhtEvent tx (f rx)) txs [next_channel s..<next_channel s + length txs]
     \<and> next_channel s' = next_channel s + length txs"
  using assms(4)
proof (induction txs arbitrary: s)
  case (Cons tx txs)
  let ?n = "next_channel s"
  from Cons.prems have "offer_event confirm keep event True txs
      (emit_all [SendDhtEvent tx (f ?n)] (keep ?n (s\<lparr>next_channel := Suc ?n\<rparr>))) = Some s'"
    by (simp add: new_channel_def assms(3))
  from Cons.IH [OF this] show ?case unfolding upt_Cons_length by (simp add: emit_all_def assms(1,2) del: upt_Suc)
qed simp

lemma offer_receivers:
  assumes "\<And>rx s. next_channel (keep rx s) = next_channel s" "\<And>rx. confirm event rx = Some (f rx)"
    and "\<And>rx s. G (keep rx s) = G s @ [rx]" "\<And>es s. G (emit_all es s) = G s" "\<And>n s. G (s\<lparr>next_channel := n\<rparr>) = G s"
    and "offer_event confirm keep event True txs s = Some s'"
  shows "G s' = G s @ [next_channel s..<next_channel s + length txs]"
  using assms(6)
proof (induction txs arbitrary: s)
  case (Cons tx txs)
  let ?n = "next_channel s"
  from Cons.prems have "offer_event confirm keep event True txs
      (emit_all [SendDhtEvent tx (f ?n)] (keep ?n (s\<lparr>next_channel := Suc ?n\<rparr>))) = Some s'"
    by (simp add: new_channel_def assms(2))
  moreover have "next_channel (emit_all es (keep ?n (s\<lparr>next_channel := Suc ?n\<rparr>))) = Suc ?n" for es
    by (simp add: emit_all_def assms(1))
  ultimately show ?case using Cons.IH unfolding upt_Cons_length by (fastforce simp: assms(3,4,5) simp del: upt_Suc)
qed simp

lemma offer_frame:
  assumes "\<And>rx s. G (keep rx s) = G s" "\<And>es s. G (emit_all es s) = G s" "\<And>n s. G (s\<lparr>next_channel := n\<rparr>) = G s"
    and "offer_event confirm keep event True txs s = Some s'"
  shows "G s' = G s"
  using assms(4)
proof (induction txs arbitrary: s)
  case (Cons tx txs)
  then obtain ev where "offer_event confirm keep event True txs (emit_all [SendDhtEvent tx ev]
         (keep (next_channel s) (s\<lparr>next_channel := Suc (next_channel s)\<rparr>))) = Some s'"
    by (auto simp: new_channel_def split: option.splits)
  from Cons.IH [OF this] show ?case by (simp add: assms(1,2,3))
qed simp

lemma or_default_None: "map_of m k = None \<Longrightarrow> or_default m k = []"
  and or_default_Some: "map_of m k = Some l \<Longrightarrow> or_default m k = l"
  by (simp_all add: or_default_def)

text \<open>The two rounds of offers for a record: to the global subscribers and to those of its key.\<close>

abbreviation keep_global :: "nat \<Rightarrow> 'sw task \<Rightarrow> 'sw task" where
  "keep_global \<equiv> \<lambda>rx s. s\<lparr>dht_put_record_global_receiver := dht_put_record_global_receiver s @ [rx]\<rparr>"

abbreviation keep_keyed :: "record_key \<Rightarrow> nat \<Rightarrow> 'sw task \<Rightarrow> 'sw task" where
  "keep_keyed key \<equiv> \<lambda>rx s. s\<lparr>dht_put_record_receiver :=
     AList.update key (or_default (dht_put_record_receiver s) key @ [rx]) (dht_put_record_receiver s)\<rparr>"

lemma put_request_rounds:
  assumes "kad_put_request source (Some r) s = Some s'"
  defines "event \<equiv> PutRecordEvent source (Some r) None"
  obtains t where "offer_event set_record_confirmation keep_global event True (dht_event_global_sender s) s = Some t"
    and "offer_event set_record_confirmation (keep_keyed (rec_key r)) event True (or_default (dht_event_sender t) (rec_key r)) t = Some s'"
proof -
  from assms obtain t where
    one: "offer_event set_record_confirmation keep_global event True (dht_event_global_sender s) s = Some t"
    and two: "(case map_of (dht_event_sender t) (rec_key r) of None \<Rightarrow> Some t
      | Some senders \<Rightarrow> offer_event set_record_confirmation (keep_keyed (rec_key r)) event True senders t) = Some s'"
    by (auto simp: kad_put_request_def Let_def split: option.splits)
  from two have "offer_event set_record_confirmation (keep_keyed (rec_key r)) event True
      (or_default (dht_event_sender t) (rec_key r)) t = Some s'"
    by (cases "map_of (dht_event_sender t) (rec_key r)") (simp_all add: or_default_Some or_default_None)
  with one show thesis by (rule that)
qed

lemma or_default_update [simp]:
  "or_default (AList.update k v t) k' = (if k' = k then v else or_default t k')"
  by (simp add: or_default_def)

lemma put_request_offers:
  fixes s :: "'sw task"
  assumes "kad_put_request source (Some r) s = Some s'"
  defines "G \<equiv> dht_event_global_sender s" and "K \<equiv> or_default (dht_event_sender s) (rec_key r)" and "n \<equiv> next_channel s"
  shows "effects s' = effects s @ map2 (\<lambda>tx rx. SendDhtEvent tx (PutRecordEvent source (Some r) (Some rx)))
           (G @ K) [n..<n + length (G @ K)]"
    and "dht_put_record_global_receiver s' = dht_put_record_global_receiver s @ [n..<n + length G]"
    and "or_default (dht_put_record_receiver s') (rec_key r) =
           or_default (dht_put_record_receiver s) (rec_key r) @ [n + length G..<n + length (G @ K)]"
    and "k \<noteq> rec_key r \<Longrightarrow> or_default (dht_put_record_receiver s') k = or_default (dht_put_record_receiver s) k"
proof -
  let ?ev = "PutRecordEvent source (Some r) None"
  obtain t where
    one: "offer_event set_record_confirmation keep_global ?ev True G s = Some t"
    and two: "offer_event set_record_confirmation (keep_keyed (rec_key r)) ?ev True (or_default (dht_event_sender t) (rec_key r)) t = Some s'"
    unfolding G_def by (rule put_request_rounds [OF assms(1)])
  have conf: "set_record_confirmation ?ev rx = Some (PutRecordEvent source (Some r) (Some rx))" for rx by simp
  note [simp del] = upt_Suc upt_rec_numeral
  have "dht_event_sender t = dht_event_sender s"
    by (rule offer_frame [where G = dht_event_sender, OF _ _ _ one]) (simp_all add: emit_all_def)
  then have two: "offer_event set_record_confirmation (keep_keyed (rec_key r)) ?ev True K t = Some s'"
    using two by (simp add: K_def)
  have e1: "effects t = effects s @ map2 (\<lambda>tx rx. SendDhtEvent tx (PutRecordEvent source (Some r) (Some rx))) G [n..<n + length G]
      \<and> next_channel t = n + length G"
    unfolding n_def by (rule offer_events [OF _ _ conf one]) simp_all
  have e2: "effects s' = effects t @ map2 (\<lambda>tx rx. SendDhtEvent tx (PutRecordEvent source (Some r) (Some rx))) K
      [next_channel t..<next_channel t + length K] \<and> next_channel s' = next_channel t + length K"
    by (rule offer_events [OF _ _ conf two]) simp_all
  have split: "[n..<n + length (G @ K)] = [n..<n + length G] @ [n + length G..<n + length G + length K]"
    using upt_add_eq_append [of n "n + length G" "length K"] by (simp add: add.assoc)
  show "effects s' = effects s @ map2 (\<lambda>tx rx. SendDhtEvent tx (PutRecordEvent source (Some r) (Some rx)))
           (G @ K) [n..<n + length (G @ K)]"
    using e1 e2 unfolding split by (simp add: zip_append)
  have "dht_put_record_global_receiver t = dht_put_record_global_receiver s @ [n..<n + length G]"
    unfolding n_def
    by (rule offer_receivers [where G = dht_put_record_global_receiver, OF _ conf _ _ _ one]) (simp_all add: emit_all_def)
  moreover have "dht_put_record_global_receiver s' = dht_put_record_global_receiver t"
    by (rule offer_frame [where G = dht_put_record_global_receiver, OF _ _ _ two]) (simp_all add: emit_all_def)
  ultimately show "dht_put_record_global_receiver s' = dht_put_record_global_receiver s @ [n..<n + length G]" by simp
  have k1: "dht_put_record_receiver t = dht_put_record_receiver s"
    by (rule offer_frame [where G = dht_put_record_receiver, OF _ _ _ one]) (simp_all add: emit_all_def)
  have "or_default (dht_put_record_receiver s') (rec_key r) =
      or_default (dht_put_record_receiver t) (rec_key r) @ [next_channel t..<next_channel t + length K]"
    by (rule offer_receivers [where G = "\<lambda>s. or_default (dht_put_record_receiver s) (rec_key r)", OF _ conf _ _ _ two])
      (simp_all add: emit_all_def)
  then show "or_default (dht_put_record_receiver s') (rec_key r) =
           or_default (dht_put_record_receiver s) (rec_key r) @ [n + length G..<n + length (G @ K)]"
    using e1 k1 by (simp add: add.assoc)
  show "or_default (dht_put_record_receiver s') k = or_default (dht_put_record_receiver s) k" if "k \<noteq> rec_key r"
  proof -
    have "or_default (dht_put_record_receiver s') k = or_default (dht_put_record_receiver t) k"
      by (rule offer_frame [where G = "\<lambda>s. or_default (dht_put_record_receiver s) k", OF _ _ _ two])
        (use that in \<open>simp_all add: emit_all_def\<close>)
    with k1 show ?thesis by simp
  qed
qed

text \<open>What a poll stores: the accepted records among those it is waiting for.\<close>

definition accepted :: "nat list \<Rightarrow> (nat \<times> 'r option) list \<Rightarrow> 'r list" where
  "accepted receivers ready = List.map_filter (\<lambda>(rx, record). if rx \<in> set receivers then record else None) ready"

lemma store_confirmed_swarm:
  "store_confirmed ops put rs s = Some s' \<Longrightarrow> swarm s = Some sw \<Longrightarrow>
   s' = s\<lparr>swarm := Some (fold put (List.map_filter id rs) sw)\<rparr>"
proof (induction rs arbitrary: s sw)
  case (Cons r rs)
  show ?case
  proof (cases r)
    case None
    with Cons show ?thesis by (simp add: map_filter_simps)
  next
    case (Some x)
    with Cons.prems have "store_confirmed ops put rs (with_swarm (put x sw) s) = Some s'"
      by (simp split: if_splits)
    from Cons.IH [OF this, of "put x sw"] Some show ?thesis by (simp add: map_filter_simps with_swarm_def)
  qed
qed (simp add: map_filter_simps)

lemma fst_take_ready: "fst (take_ready receivers ready) = filter (\<lambda>rx. rx \<notin> fst ` set ready) receivers"
  by (simp add: take_ready_def)

lemma accepted_take_ready: "List.map_filter id (snd (take_ready receivers ready)) = accepted receivers ready"
  unfolding take_ready_def accepted_def
  by (induction ready) (auto simp: map_filter_simps split: prod.split option.split)

lemma confirm_puts_stores:
  assumes "confirm_puts ops ready s = Some s'" "swarm s = Some sw"
  shows "swarm s' = Some (fold (kad_store_put ops)
      (accepted (concat (map snd (dht_put_record_receiver s))) ready @ accepted (dht_put_record_global_receiver s) ready) sw)
    \<and> dht_put_record_global_receiver s' = filter (\<lambda>rx. rx \<notin> fst ` set ready) (dht_put_record_global_receiver s)
    \<and> or_default (dht_put_record_receiver s') k = filter (\<lambda>rx. rx \<notin> fst ` set ready) (or_default (dht_put_record_receiver s) k)"
proof -
  let ?s1 = "s\<lparr>dht_put_record_receiver := map (\<lambda>(k, rs). (k, fst (take_ready rs ready))) (dht_put_record_receiver s)\<rparr>"
  from assms obtain t where
    one: "store_confirmed ops (kad_store_put ops) (snd (take_ready (concat (map snd (dht_put_record_receiver s))) ready)) ?s1 = Some t"
    and two: "store_confirmed ops (kad_store_put ops) (snd (take_ready (dht_put_record_global_receiver t) ready))
       (t\<lparr>dht_put_record_global_receiver := fst (take_ready (dht_put_record_global_receiver t) ready)\<rparr>) = Some s'"
    by (auto simp: confirm_puts_def Let_def split: option.splits)
  have t: "t = ?s1\<lparr>swarm := Some (fold (kad_store_put ops) (accepted (concat (map snd (dht_put_record_receiver s))) ready) sw)\<rparr>"
    using store_confirmed_swarm [OF one, of sw] assms(2) by (simp add: accepted_take_ready)
  have "map_of (map (\<lambda>(k, rs). (k, fst (take_ready rs ready))) m) k = map_option (\<lambda>rs. fst (take_ready rs ready)) (map_of m k)" for m
    by (induction m) auto
  then have "or_default (map (\<lambda>(k, rs). (k, fst (take_ready rs ready))) m) k = filter (\<lambda>rx. rx \<notin> fst ` set ready) (or_default m k)" for m
    by (simp add: or_default_def fst_take_ready split: option.split)
  with store_confirmed_swarm [OF two, of "the (swarm t)"] show ?thesis
    by (simp add: t accepted_take_ready fst_take_ready)
qed

end
