(* ===== verification/Task_Properties.thy ===== *)
theory Task_Properties
  imports Task_Listeners Task_Dht
begin

section \<open>Properties of the background task\<close>

text \<open>
  What callers, rendezvous users, listeners and the application can rely on, over all runs of the task. The
  examples use a small swarm: a counter that hands out identifiers.
\<close>

definition example_relay_env :: autorelay_env where
  "example_relay_env = \<lparr>now = 5, instant_limit = 2 ^ 63 * nanos_per_sec - 1, system_now = 0, with_p2p = (\<lambda>a p. Inr (a @ [P2p p])),
     external_on_swarm_event = (\<lambda>_ l. (l, False))\<rparr>"

definition counter_ops :: "(nat, unit, unit) task_ops" where
  "counter_ops = \<lparr>sw_dial = (\<lambda>_ n. (n, Inr ())), sw_is_connected = (\<lambda>_ _. True), sw_disconnect_peer_id = (\<lambda>_ n. (n, True)),
     sw_close_connection = (\<lambda>_ n. (n, True)), sw_connected_peers = (\<lambda>_. []), sw_listen_on = (\<lambda>_ n. (Suc n, Inr (ListenerId n))),
     sw_remove_listener = (\<lambda>_ n. (n, True)), sw_add_external_address = (\<lambda>_ n. n), sw_remove_external_address = (\<lambda>_ n. n),
     sw_external_addresses = (\<lambda>_. []), sw_listeners = (\<lambda>_. []), sw_add_peer_address = (\<lambda>_ _ n. n),
     allow_enabled = (\<lambda>_. True), allow_peer = (\<lambda>_ n. (n, True)), disallow_peer = (\<lambda>_ n. (n, True)), allowed_peers = (\<lambda>_. []),
     deny_enabled = (\<lambda>_. True), block_peer = (\<lambda>_ n. (n, True)), unblock_peer = (\<lambda>_ n. (n, True)), blocked_peers = (\<lambda>_. []),
     conn_limits = (\<lambda>_. None), set_conn_limits = (\<lambda>_ n. n), sw_peer_store = (\<lambda>_. Some memory_store_default),
     set_peer_store = (\<lambda>_ n. n), kad_enabled = (\<lambda>_. True), kad_get_closest_peers = (\<lambda>_ n. (Suc n, QueryId n)),
     kad_bootstrap = (\<lambda>n. (Suc n, Inr (QueryId n))), kad_start_providing = (\<lambda>_ n. (Suc n, Inr (QueryId n))),
     kad_stop_providing = (\<lambda>_ n. n), kad_get_providers = (\<lambda>_ n. (Suc n, QueryId n)), kad_set_mode = (\<lambda>_ n. n),
     kad_get_mode = (\<lambda>_. ModeServer), kad_add_address = (\<lambda>_ _ n. (n, RoutingSuccess)), kad_remove_address = (\<lambda>_ _ n. (n, True)),
     kad_remove_peer = (\<lambda>_ n. (n, True)), kad_get_record = (\<lambda>_ n. (Suc n, QueryId n)),
     kad_put_record = (\<lambda>_ _ n. (Suc n, Inr (QueryId n))), kad_put_record_to = (\<lambda>_ _ _ n. (Suc n, QueryId n)),
     kad_records = (\<lambda>_. []), kad_remove_record = (\<lambda>_ n. n), kad_store_put = (\<lambda>_ n. Suc n), kad_store_add_provider = (\<lambda>_ n. Suc n),
     rz_enabled = (\<lambda>_. True), rz_register = (\<lambda>_ _ ttl n. (n, if ttl = Some 0 then Inl ''ttl'' else Inr ())),
     rz_unregister = (\<lambda>_ _ n. n), rz_discover = (\<lambda>_ _ _ _ n. n), kad_protocol_names = (\<lambda>_. []),
     gs_enabled = (\<lambda>_. True), gs_subscribe = (\<lambda>_ n. (n, Inr True)), gs_unsubscribe = (\<lambda>_ n. (n, True)), gs_all_peers = (\<lambda>_. []),
     gs_topics = (\<lambda>_. []), gs_publish = (\<lambda>_ _ n. (n, Inr ())), gs_report = (\<lambda>_ _ _ n. (n, True)),
     fl_enabled = (\<lambda>_. True), fl_subscribe = (\<lambda>_ n. (n, True)), fl_unsubscribe = (\<lambda>_ n. (n, True)), fl_publish = (\<lambda>_ _ n. n),
     fl_publish_any = (\<lambda>_ _ n. n), fl_publish_many = (\<lambda>_ _ n. n), fl_publish_many_any = (\<lambda>_ _ n. n), fl_add_node = (\<lambda>_ n. n),
     fl_remove_node = (\<lambda>_ n. n), an_enabled = (\<lambda>_. False), an_public_address = (\<lambda>_. None), an_nat_status = (\<lambda>_. NatUnknown),
     an_add_server = (\<lambda>_ _ n. n), an_remove_server = (\<lambda>_ n. n), an_probe = (\<lambda>_ n. n),
     stream_enabled = (\<lambda>_. False), stream_accept = (\<lambda>_ n. (n, Inr 0)), stream_new_control = (\<lambda>_. 0),
     relay_server_enabled = (\<lambda>_. False), relay_server_set_status = (\<lambda>_ n. n),
     sw_autorelay = (\<lambda>_. new_with_config example_relay_env config_default), set_autorelay = (\<lambda>_ n. n),
     sw_autorelay_env = (\<lambda>_. example_relay_env), sw_rr_slots = (\<lambda>_. \<lparr>slot = (\<lambda>_. None), rr_manager = None\<rparr>),
     set_rr_slots = (\<lambda>_ n. n), rr_libp2p = \<lparr>inner_new = (\<lambda>_ _ _ _. ()), inner_send_request = (\<lambda>_ _ u. (u, OutboundRequestId 0)),
       inner_send_response = (\<lambda>_ _ u. (u, True)), inner_poll = (\<lambda>u. (u, None))\<rparr>\<rparr>"

definition quiet_env :: "nat poll_env" where
  "quiet_env = \<lparr>is_closed = (\<lambda>_. False), cleanup_due = False, ready_commands = [], ready_events = [], ready_puts = [],
     ready_providers = [], task_callback = (\<lambda>_ n. n), event_callback = (\<lambda>_ n. n), custom_event_callback = (\<lambda>_ n. n),
     pollable_callback = (\<lambda>n. n)\<rparr>"

definition dial_env :: "nat poll_env" where
  "dial_env = quiet_env\<lparr>ready_commands := [SwarmCommand (Dial (DialOpts (ConnectionId 7) 0) 1), SwarmCommand (IsConnected (PeerId 3) 2),
       SwarmCommand (ListenOn [] 4), PeerstoreCommand (PsListAll 5)],
     ready_events := [ConnectionEstablished (PeerId 3) (ConnectionId 7) (DialerPoint []) 1]\<rparr>"

lemma counter_relay: "relay_reachable counter_ops"
  unfolding relay_reachable_def counter_ops_def by (auto intro: ar_reachable.start)

lemma counter_simps [simp]:
  "sw_dial counter_ops opt n = (n, Inr ())" "sw_is_connected counter_ops p n = True"
  "sw_listen_on counter_ops a n = (Suc n, Inr (ListenerId n))" "sw_peer_store counter_ops n = Some memory_store_default"
  "set_peer_store counter_ops st n = n" "sw_disconnect_peer_id counter_ops p n = (n, True)"
  "kad_enabled counter_ops n" "rz_enabled counter_ops n"
  "rz_register counter_ops ns p ttl n = (n, if ttl = Some 0 then Inl ''ttl'' else Inr ())"
  "kad_store_put counter_ops r n = Suc n"
  by (simp_all add: counter_ops_def)

lemma quiet_simps [simp]:
  "is_closed quiet_env = (\<lambda>_. False)" "\<not> cleanup_due quiet_env" "ready_commands quiet_env = []" "ready_events quiet_env = []"
  "ready_puts quiet_env = []" "ready_providers quiet_env = []" "task_callback quiet_env = (\<lambda>_ n. n)"
  "event_callback quiet_env = (\<lambda>_ n. n)" "custom_event_callback quiet_env = (\<lambda>_ n. n)" "pollable_callback quiet_env = (\<lambda>n. n)"
  by (simp_all add: quiet_env_def)

lemmas task_eval = task_poll_def task_new_def process_command_def process_swarm_event_def Let_def answer_def emit_all_def
  with_swarm_def new_channel_def overwritten_def on_established_def notify_def prune_listeners_def run_pollable_def
  drain_peerstore_def defer_op_def from_io_def memory_store_ops_def store_list_all_def memory_store_default_def
  confirm_puts_def confirm_providers_def take_ready_def

lemma dial_poll: "map_option (\<lambda>s. (effects s, pending_listen_on s)) (task_poll counter_ops dial_env (task_new 0)) =
    Some ([Answer 2 (RBool True), Answer 1 (RConnection (Inr (ConnectionId 7))), Answer 5 (RPeerAddrs (Inr []))], [(ListenerId 0, 4)])"
  by (simp add: dial_env_def task_eval)

subsection \<open>Responders\<close>

fun answered :: "task_effect list \<Rightarrow> responder list" where
  "answered [] = []"
| "answered (Answer r _ # es) = r # answered es"
| "answered (_ # es) = answered es"

fun dropped :: "task_effect list \<Rightarrow> responder list" where
  "dropped [] = []"
| "dropped (DropResponder r # es) = r # dropped es"
| "dropped (_ # es) = dropped es"

lemma settled_split: "settled es = mset (answered es) + mset (dropped es)"
  by (induction es rule: answered.induct) simp_all

text \<open>
  C2: no caller is forgotten and none is answered twice. After any sequence of polls, whatever the swarm, the events and
  the callbacks do, the responders of all commands served so far are exactly those answered, those dropped because a
  later command took their place in a table, and those still parked; a responder that was
  handed over once is answered at most once, and it is not parked once it has been answered.
\<close>

theorem task_responders_accounted:
  assumes "task_run ops P sw R s"
  shows "mset (answered (effects s)) + mset (dropped (effects s)) + parked s = R
    \<and> (\<forall>r. count R r = 1 \<longrightarrow> count (mset (answered (effects s))) r \<le> 1
          \<and> (r \<in> set (answered (effects s)) \<longrightarrow> r \<notin># parked s))"
proof -
  have total: "mset (answered (effects s)) + mset (dropped (effects s)) + parked s = R"
    using run_accounted [OF assms] by (simp add: account_def settled_split)
  have "count (mset (answered (effects s))) r \<le> 1 \<and> (r \<in> set (answered (effects s)) \<longrightarrow> r \<notin># parked s)"
    if "count R r = 1" for r
  proof -
    from that have one: "count (mset (answered (effects s))) r + count (mset (dropped (effects s))) r + count (parked s) r = 1"
      by (simp flip: total)
    have "count (parked s) r = 0" if "r \<in> set (answered (effects s))"
    proof -
      have "count (mset (answered (effects s))) r \<noteq> 0" using that by simp
      with one show ?thesis by linarith
    qed
    with one show ?thesis by (simp add: not_in_iff)
  qed
  with total show ?thesis by blast
qed

theorem task_responders_accounted_witness:
  "\<exists>s. task_run counter_ops (\<lambda>_. True) 0 {#1, 2, 4, 5#} s \<and> answered (effects s) = [2, 1, 5] \<and> parked s = {#4#}"
proof -
  from dial_poll obtain s where s: "task_poll counter_ops dial_env (task_new 0) = Some s"
    and e: "effects s = [Answer 2 (RBool True), Answer 1 (RConnection (Inr (ConnectionId 7))), Answer 5 (RPeerAddrs (Inr []))]"
    by (auto simp del: task_poll_def)
  have "sum_list (map responder_of (ready_commands dial_env)) = {#1, 2, 4, 5#}" by (simp add: dial_env_def)
  with task_run.poll [OF task_run.start [of counter_ops "\<lambda>_. True" 0] TrueI s]
  have run: "task_run counter_ops (\<lambda>_. True) 0 {#1, 2, 4, 5#} s" by simp
  from task_responders_accounted [OF run] e have "{#2, 1, 5#} + parked s = {#1, 2, 4, 5#}" by simp
  then have "parked s = {#1, 2, 4, 5#} - {#2, 1, 5#}" by (metis add_diff_cancel_left')
  with run e show ?thesis by (intro exI [of _ s]) simp
qed

text \<open>
  C11: polling never panics. If the relay behaviour in the swarm is in a reachable state and kademlia is either
  enabled throughout or produces no events, every poll of a task in any reachable state returns.
\<close>

theorem task_never_panics:
  assumes "task_run ops (\<lambda>env. b \<or> no_kad_events env) sw R s" "relay_reachable ops"
    and "\<And>sw. kad_enabled ops sw = b" "b \<or> no_kad_events env"
  shows "\<exists>s'. task_poll ops env s = Some s'"
  using assms by (rule run_never_panics)

theorem task_never_panics_witness: "\<exists>s'. task_poll counter_ops dial_env (task_new 0) = Some s'"
  by (rule task_never_panics [OF task_run.start counter_relay, where b = True]) simp_all

text \<open>A second request to disconnect a peer takes the place of the first, whose caller is dropped unanswered.\<close>

lemma second_disconnect_drops_first:
  assumes "sw_disconnect_peer_id ops p sw = (sw', True)" "map_of (pending_disconnection_by_peer_id s) p = Some first"
  shows "effects (process_swarm_command ops (Disconnect (TargetPeer p) second) sw s) = effects s @ [DropResponder first]"
  using assms by (simp add: Let_def overwritten_def emit_all_def with_swarm_def)

subsection \<open>Rendezvous\<close>

lemma closed_before_failing:
  assumes "task_wf s"
  shows "\<exists>t. on_closed closed p c ep 0 cause s = fail_pending_rendezvous p t \<and> task_wf t
    \<and> pending_rendezvous_register t = pending_rendezvous_register s \<and> pending_rendezvous_discover t = pending_rendezvous_discover s"
proof -
  let ?t = "notify (CsConnectionClosed p c ep 0 cause) (prune_listeners closed
      (answer_disconnection (map_of (pending_disconnection_by_connection_id s) c) (map_of (pending_disconnection_by_peer_id s) p)
        (case cause of Some e \<Rightarrow> Inl (ErrIo (IoErr OtherKind (Message e))) | None \<Rightarrow> Inr ())
        (s\<lparr>pending_disconnection_by_connection_id := AList.delete c (pending_disconnection_by_connection_id s),
           pending_disconnection_by_peer_id := AList.delete p (pending_disconnection_by_peer_id s)\<rparr>)))"
  have "receives {#} s ?t"
    by (rule receives_trans0(2) [OF receives_trans0(2) [OF receives_disconnection receives_prune] receives_notify])
  with assms have "task_wf ?t" by (simp add: receives_def)
  moreover have "on_closed closed p c ep 0 cause s = fail_pending_rendezvous p ?t"
    by (simp add: on_closed_def Let_def)
  moreover have "pending_rendezvous_register ?t = pending_rendezvous_register s"
    "pending_rendezvous_discover ?t = pending_rendezvous_discover s"
    by (simp_all add: notify_def prune_listeners_def answer_disconnection_def answer_def split: option.split)
  ultimately show ?thesis by blast
qed

text \<open>
  C13: registrations at a rendezvous node are served in order, one at a time. When the node answers, the answer goes to the
  caller at the head of the queue. The following registrations are tried one after the other: a part \<open>failed\<close> of the queue fails to
  start, and each of its callers gets, in order, the error of its own attempt; the next one starts and heads the remaining
  queue, or the queue was used up and is forgotten. No other queue is touched.
\<close>

theorem rendezvous_registration_fifo:
  assumes "map_of (pending_rendezvous_register s) key = Some ((ttl, resp) # queue)"
    and "finish_rendezvous_registration ops key result sw s = s'"
  shows "\<exists>failed rest errs sw1. queue = failed @ rest \<and> all_fail ops key sw failed errs sw1
     \<and> next_started ops key sw1 rest (swarm s')
     \<and> effects s' = effects s @ Answer resp (RUnit result) # map2 (\<lambda>x e. Answer (snd x) (RUnit (Inl e))) failed errs
     \<and> map_of (pending_rendezvous_register s') key = (if rest = [] then None else Some rest)
     \<and> (\<forall>k. k \<noteq> key \<longrightarrow> map_of (pending_rendezvous_register s') k = map_of (pending_rendezvous_register s) k)"
proof -
  let ?t = "answer resp (RUnit result) (s\<lparr>pending_rendezvous_register := AList.delete key (pending_rendezvous_register s)\<rparr>)"
  have t: "map_of (pending_rendezvous_register ?t) k = (if k = key then None else map_of (pending_rendezvous_register s) k)" for k
    by (simp add: answer_def)
  have s': "s' = restart_registration ops key queue sw ?t"
    using assms by (simp add: finish_rendezvous_registration_def)
  have "map_of (pending_rendezvous_register ?t) key = None" by (simp add: t)
  from restart_registration_fifo [OF this, of queue ops sw, folded s'] show ?thesis
    by (elim exE conjE) (intro exI conjI; (assumption | simp add: t))
qed

definition queue_example :: "nat task" where
  "queue_example = (task_new 0)\<lparr>pending_rendezvous_register :=
     [((PeerId 1, ''ns''), [(None, 1), (Some 0, 2), (Some 9, 3)]), ((PeerId 2, ''ns''), [(None, 4)])]\<rparr>"

definition queue_answered :: "nat task" where
  "queue_answered = queue_example\<lparr>swarm := Some 0, pending_rendezvous_register :=
     [((PeerId 2, ''ns''), [(None, 4)]), ((PeerId 1, ''ns''), [(Some 9, 3)])],
     effects := [Answer 1 (RUnit (Inr ())), Answer 2 (RUnit (Inl (ErrIo (IoErr OtherKind (Message ''ttl'')))))]\<rparr>"

lemma queue_example_finish:
  "finish_rendezvous_registration counter_ops (PeerId 1, ''ns'') (Inr ()) 0 queue_example = queue_answered"
  by (simp add: queue_example_def queue_answered_def finish_rendezvous_registration_def start_rendezvous_registration_def
      task_new_def answer_def emit_all_def with_swarm_def)

theorem rendezvous_registration_fifo_witness:
  "\<exists>failed rest errs sw1. [(Some 0, 2), (Some 9, 3)] = failed @ rest
     \<and> all_fail counter_ops (PeerId 1, ''ns'') 0 failed errs sw1
     \<and> next_started counter_ops (PeerId 1, ''ns'') sw1 rest (swarm queue_answered)
     \<and> effects queue_answered = effects queue_example @ Answer 1 (RUnit (Inr ()))
         # map2 (\<lambda>x e. Answer (snd x) (RUnit (Inl e))) failed errs
     \<and> map_of (pending_rendezvous_register queue_answered) (PeerId 1, ''ns'') = (if rest = [] then None else Some rest)"
proof -
  have "map_of (pending_rendezvous_register queue_example) (PeerId 1, ''ns'') = Some ((None, 1) # [(Some 0, 2), (Some 9, 3)])"
    by (simp add: queue_example_def)
  from rendezvous_registration_fifo [OF this queue_example_finish] show ?thesis by blast
qed

text \<open>
  C38: when the last connection to a rendezvous node closes, every registration and every discovery that waits for that
  node is answered with \<^verbatim>\<open>NotConnected\<close> and forgotten, and requests to other nodes stay as they are.
\<close>

theorem rendezvous_node_gone:
  assumes "task_run ops P sw R s" "on_closed closed p c ep 0 cause s = s'"
  shows "(\<forall>k. map_of (pending_rendezvous_register s') k =
        (if fst k = p then None else map_of (pending_rendezvous_register s) k))
    \<and> (\<forall>k. map_of (pending_rendezvous_discover s') k =
        (if fst k = p then None else map_of (pending_rendezvous_discover s) k))
    \<and> (\<forall>ns l ttl r. map_of (pending_rendezvous_register s) (p, ns) = Some l \<longrightarrow> (ttl, r) \<in> set l
          \<longrightarrow> Answer r (RUnit (Inl (ErrNotConnected p))) \<in> set (effects s'))
    \<and> (\<forall>ns l co ttl r. map_of (pending_rendezvous_discover s) (p, ns) = Some l \<longrightarrow> (co, ttl, r) \<in> set l
          \<longrightarrow> Answer r (RDiscover (Inl (ErrNotConnected p))) \<in> set (effects s'))"
proof -
  obtain t where t: "s' = fail_pending_rendezvous p t" "task_wf t"
    "pending_rendezvous_register t = pending_rendezvous_register s"
    "pending_rendezvous_discover t = pending_rendezvous_discover s"
    using closed_before_failing [OF conjunct1 [OF run_accounted [OF assms(1)]]] assms(2) by metis
  show ?thesis
    using fail_pending_tables [of p t] fail_pending_answers [OF t(2), of p] by (fastforce simp: t(1,3,4))
qed

definition register_env :: "nat poll_env" where
  "register_env = quiet_env\<lparr>ready_commands := [RendezvousCommand (Register ''ns'' (PeerId 1) None 6)]\<rparr>"

lemma register_poll: "map_option pending_rendezvous_register (task_poll counter_ops register_env (task_new 0)) =
    Some [((PeerId 1, ''ns''), [(None, 6)])]"
  by (simp add: register_env_def task_eval process_register_def start_rendezvous_registration_def or_default_def)

theorem rendezvous_node_gone_witness:
  "\<exists>s. map_of (pending_rendezvous_register s) (PeerId 1, ''ns'') = Some [(None, 6)]
     \<and> Answer 6 (RUnit (Inl (ErrNotConnected (PeerId 1)))) \<in> set (effects
         (on_closed (\<lambda>_. False) (PeerId 1) (ConnectionId 2) (DialerPoint []) 0 None (s :: nat task)))"
proof -
  from register_poll obtain s where s: "task_poll counter_ops register_env (task_new 0) = Some s"
    and reg: "pending_rendezvous_register s = [((PeerId 1, ''ns''), [(None, 6)])]" by auto
  have run: "task_run counter_ops (\<lambda>_. True) 0 ({#} + sum_list (map responder_of (ready_commands register_env))) s"
    by (rule task_run.poll [OF task_run.start TrueI s])
  have "map_of (pending_rendezvous_register s) (PeerId 1, ''ns'') = Some [(None, 6)]" by (simp add: reg)
  moreover from this have "Answer 6 (RUnit (Inl (ErrNotConnected (PeerId 1)))) \<in> set (effects
         (on_closed (\<lambda>_. False) (PeerId 1) (ConnectionId 2) (DialerPoint []) 0 None s))"
    using rendezvous_node_gone [OF run refl, of "\<lambda>_. False" "PeerId 1" "ConnectionId 2" "DialerPoint []" None] by fastforce
  ultimately show ?thesis by blast
qed

subsection \<open>Listeners\<close>

text \<open>
  C18: the addresses the task reports for a listener are those the swarm announced and did not withdraw since the listener
  last closed, in the order of the announcements, over every sequence of events; a request for them is
  answered with exactly this list, or with \<^verbatim>\<open>NotFound\<close> when there is none.
\<close>

theorem listener_addresses_tracked:
  assumes "task_run ops P sw0 R s" "process_events ops callback custom closed evs s = Some s'"
    and "fold (track lid) evs (or_default (listener_addresses s) lid) = addrs"
  shows "or_default (listener_addresses s') lid = addrs
    \<and> effects (process_swarm_command ops (GetListeningAddress lid resp) sw s') =
        effects s' @ [Answer resp (RAddrsResult (if addrs = [] then Inl (ErrNotFound ''listener'') else Inr addrs))]"
proof -
  have "or_default (listener_addresses s') lid = addrs" "no_empty_listener s'"
    using track_events [OF assms(2) run_no_empty_listener [OF assms(1)] conjunct1 [OF run_accounted [OF assms(1)]], of lid] assms(3)
    by simp_all
  then show ?thesis
    by (auto simp: no_empty_listener_def or_default_def split: option.splits)
qed

theorem listener_addresses_tracked_witness:
  "\<exists>s'. process_events counter_ops (\<lambda>_ n. n) (\<lambda>_ n. n) (\<lambda>_. False)
       [NewListenAddr (ListenerId 1) [P2pCircuit], NewListenAddr (ListenerId 1) [], ExpiredListenAddr (ListenerId 1) [P2pCircuit]]
       (task_new 0) = Some s'
     \<and> or_default (listener_addresses s') (ListenerId 1) = [[]]"
proof -
  obtain s' where s': "process_events counter_ops (\<lambda>_ n. n) (\<lambda>_ n. n) (\<lambda>_. False)
       [NewListenAddr (ListenerId 1) [P2pCircuit], NewListenAddr (ListenerId 1) [], ExpiredListenAddr (ListenerId 1) [P2pCircuit]]
       (task_new 0) = Some s'"
    using events_total by blast
  have "fold (track (ListenerId 1)) [NewListenAddr (ListenerId 1) [P2pCircuit], NewListenAddr (ListenerId 1) [],
      ExpiredListenAddr (ListenerId 1) [P2pCircuit]] (or_default (listener_addresses (task_new 0)) (ListenerId 1)) = [[]]"
    by (simp add: task_new_def or_default_def)
  from listener_addresses_tracked [OF task_run.start [of counter_ops "\<lambda>_. True" 0] s' this] s' show ?thesis by blast
qed

subsection \<open>Records\<close>

text \<open>
  A record that another peer stores is offered to every subscriber, first to those of all records, then to those of its
  key, in the order in which they subscribed, each with a confirmation channel that no other offer has; the task waits on
  exactly these channels.
\<close>

theorem dht_record_offered:
  assumes "kad_put_request source (Some r) s = Some s'"
    and "txs = dht_event_global_sender s @ or_default (dht_event_sender s) (rec_key r)"
    and "rxs = [next_channel s..<next_channel s + length txs]"
  shows "effects s' = effects s @ map2 (\<lambda>tx rx. SendDhtEvent tx (PutRecordEvent source (Some r) (Some rx))) txs rxs
    \<and> dht_put_record_global_receiver s' = dht_put_record_global_receiver s @ take (length (dht_event_global_sender s)) rxs
    \<and> or_default (dht_put_record_receiver s') (rec_key r) =
        or_default (dht_put_record_receiver s) (rec_key r) @ drop (length (dht_event_global_sender s)) rxs
    \<and> (\<forall>k. k \<noteq> rec_key r \<longrightarrow> or_default (dht_put_record_receiver s') k = or_default (dht_put_record_receiver s) k)"
  using put_request_offers [OF assms(1)] assms(2,3) by (simp add: add.assoc)

definition subscribed :: "nat task" where
  "subscribed = (task_new 0)\<lparr>dht_event_global_sender := [10, 11], dht_event_sender := [(''key'', [12])], next_channel := 20\<rparr>"

theorem dht_record_offered_witness:
  "\<exists>s'. kad_put_request (PeerId 1) (Some \<lparr>rec_key = ''key'', rec_value = []\<rparr>) subscribed = Some s'
     \<and> dht_put_record_global_receiver s' = [20, 21] \<and> or_default (dht_put_record_receiver s') ''key'' = [22]"
proof -
  obtain s' where s': "kad_put_request (PeerId 1) (Some \<lparr>rec_key = ''key'', rec_value = []\<rparr>) subscribed = Some s'"
    using kad_event_total [of "PutRecordRequest (PeerId 1) (Some \<lparr>rec_key = ''key'', rec_value = []\<rparr>)" subscribed] by auto
  from dht_record_offered [OF s' refl refl] s' show ?thesis
    by (simp add: subscribed_def task_new_def or_default_def numeral_eq_Suc)
qed

text \<open>
  C19: only what the application accepted is stored. Of the confirmations that arrived, a poll stores exactly the
  records of those offers it is waiting for that were accepted, with the value that was confirmed, those offered by
  key first; rejected offers store nothing, and no answered offer is waited for any longer.
\<close>

theorem dht_only_accepted_stored:
  assumes "confirm_puts ops ready s = Some s'" "swarm s = Some sw"
  shows "swarm s' = Some (fold (kad_store_put ops)
      (accepted (concat (map snd (dht_put_record_receiver s))) ready @ accepted (dht_put_record_global_receiver s) ready) sw)
    \<and> dht_put_record_global_receiver s' = filter (\<lambda>rx. rx \<notin> fst ` set ready) (dht_put_record_global_receiver s)
    \<and> (\<forall>k. or_default (dht_put_record_receiver s') k = filter (\<lambda>rx. rx \<notin> fst ` set ready) (or_default (dht_put_record_receiver s) k))"
  using confirm_puts_stores [OF assms] by blast

definition waiting :: "nat task" where
  "waiting = subscribed\<lparr>dht_put_record_global_receiver := [20, 21], dht_put_record_receiver := [(''key'', [22])]\<rparr>"

theorem dht_only_accepted_stored_witness:
  "\<exists>s'. confirm_puts counter_ops [(20, None), (22, Some \<lparr>rec_key = ''key'', rec_value = []\<rparr>)] waiting = Some s'
     \<and> swarm s' = Some 1 \<and> dht_put_record_global_receiver s' = [21]"
proof -
  have sw: "swarm waiting = Some 0" by (simp add: waiting_def subscribed_def task_new_def)
  obtain s' where s': "confirm_puts counter_ops [(20, None), (22, Some \<lparr>rec_key = ''key'', rec_value = []\<rparr>)] waiting = Some s'"
    using confirm_total(1) [of counter_ops waiting] sw by auto
  from dht_only_accepted_stored [OF s' sw] s' show ?thesis
    by (simp add: waiting_def accepted_def map_filter_simps)
qed

end
