(* ===== verification/Handle_Properties.thy ===== *)
theory Handle_Properties
  imports Handle_Api Task_Typing Task_Properties
begin

section \<open>Calls from end to end\<close>

text \<open>
  A call made through a handle, composed with a run of the task that serves it: what the caller gets back
  (\<open>call_outcome\<close>), that every method meets the condition on calls used there (\<open>handle_methods_typed\<close>), what the
  methods with checks send for which arguments (\<open>handle_arguments_checked\<close>), and that the form of a textual argument does not matter.
\<close>

definition typed_call :: "responder \<Rightarrow> ('a, 'e) call \<Rightarrow> bool" where
  "typed_call tx call \<longleftrightarrow> (case call of
     Sends cmd _ _ decode \<Rightarrow> (\<exists>k. expects cmd = Some (tx, k) \<and> (\<forall>reply. kind_of reply = k \<longrightarrow> decode reply \<noteq> None))
   | _ \<Rightarrow> True)"

lemma typed_call_simps [simp]:
  "typed_call tx (Rejected e)" "typed_call tx Panics"
  "typed_call tx (Sends cmd closed canceled decode) \<longleftrightarrow>
     (\<exists>k. expects cmd = Some (tx, k) \<and> (\<forall>reply. kind_of reply = k \<longrightarrow> decode reply \<noteq> None))"
  by (simp_all add: typed_call_def)

lemma kind_of_request: "kind_of (RRequest r) = (case r of RequestStream _ \<Rightarrow> KRequests | ResponseSentReply _ \<Rightarrow> KResponseSent
    | SubscriberReply _ \<Rightarrow> KSubscriber)"
  by (cases r) simp_all

text \<open>Which replies a method understands.\<close>

lemma reply_kinds [simp]:
  "(\<exists>r. unit_reply reply = Some r) \<longleftrightarrow> kind_of reply = KUnit"
  "(\<exists>r. connection_reply reply = Some r) \<longleftrightarrow> kind_of reply = KConnection"
  "(\<exists>r. bool_reply reply = Some r) \<longleftrightarrow> kind_of reply = KBool"
  "(\<exists>r. peers_reply reply = Some r) \<longleftrightarrow> kind_of reply = KPeers"
  "(\<exists>r. listener_reply reply = Some r) \<longleftrightarrow> kind_of reply = KListener"
  "(\<exists>r. addrs_result_reply reply = Some r) \<longleftrightarrow> kind_of reply = KAddrsResult"
  "(\<exists>r. addrs_reply reply = Some r) \<longleftrightarrow> kind_of reply = KAddrs"
  "(\<exists>r. receiver_reply reply = Some r) \<longleftrightarrow> kind_of reply = KReceiver"
  "(\<exists>r. receiver_result_reply reply = Some r) \<longleftrightarrow> kind_of reply = KReceiverResult"
  "(\<exists>r. peers_result_reply reply = Some r) \<longleftrightarrow> kind_of reply = KPeersResult"
  "(\<exists>r. peer_addrs_reply reply = Some r) \<longleftrightarrow> kind_of reply = KPeerAddrs"
  "(\<exists>r. mode_reply reply = Some r) \<longleftrightarrow> kind_of reply = KMode"
  "(\<exists>r. bool_result_reply reply = Some r) \<longleftrightarrow> kind_of reply = KBoolResult"
  "(\<exists>r. addr_option_reply reply = Some r) \<longleftrightarrow> kind_of reply = KAddrOption"
  "(\<exists>r. nat_status_reply reply = Some r) \<longleftrightarrow> kind_of reply = KNatStatus"
  "(\<exists>r. streams_reply reply = Some r) \<longleftrightarrow> kind_of reply = KStreams"
  "(\<exists>r. control_reply reply = Some r) \<longleftrightarrow> kind_of reply = KControl"
  "(\<exists>r. discover_reply reply = Some r) \<longleftrightarrow> kind_of reply = KDiscover"
  "(\<exists>r. requests_reply reply = Some r) \<longleftrightarrow> kind_of reply = KRequests"
  "(\<exists>r. response_sent_reply reply = Some r) \<longleftrightarrow> kind_of reply = KResponseSent"
  "(\<exists>r. subscriber_reply reply = Some r) \<longleftrightarrow> kind_of reply = KSubscriber"
  "(\<exists>r. relay_server_reply reply = Some r) \<longleftrightarrow> kind_of reply = KRelayServer"
  by (cases reply rule: kind_of.cases, simp_all)+

lemma typed_check:
  "(\<And>a. typed_call tx (f a)) \<Longrightarrow> typed_call tx (check r f)" "(\<And>a. typed_call tx (f a)) \<Longrightarrow> typed_call tx (check_panic r' f)"
  by (cases r; simp) (cases r'; simp; cases "the r'"; simp)

lemma typed_swarm_methods:
  "\<And>target. typed_call tx (swarm_dial target tx)"
  "\<And>target. typed_call tx (swarm_disconnect target tx)"
  "\<And>p. typed_call tx (swarm_is_connected p tx)"
  "typed_call tx (swarm_connected_peers tx)"
  "\<And>parse addr. typed_call tx (swarm_listen_on parse addr tx)"
  "\<And>lid. typed_call tx (swarm_get_listening_addresses lid tx)"
  "\<And>lid. typed_call tx (swarm_remove_listener lid tx)"
  "\<And>parse addr. typed_call tx (swarm_add_external_address parse addr tx)"
  "\<And>a. typed_call tx (swarm_remove_external_address a tx)"
  "typed_call tx (swarm_external_addresses tx)"
  "typed_call tx (swarm_listening_addresses tx)"
  "\<And>p a. typed_call tx (swarm_add_peer_address p a tx)"
  "typed_call tx (swarm_listener tx)"
  by (simp_all add: typed_check swarm_dial_def swarm_disconnect_def swarm_is_connected_def swarm_connected_peers_def swarm_listen_on_def swarm_get_listening_addresses_def swarm_remove_listener_def swarm_add_external_address_def swarm_remove_external_address_def swarm_external_addresses_def swarm_listening_addresses_def swarm_add_peer_address_def swarm_listener_def)

lemma typed_whitelist_methods:
  "\<And>p. typed_call tx (whitelist_add p tx)"
  "\<And>p. typed_call tx (whitelist_remove p tx)"
  "typed_call tx (whitelist_list tx)"
  by (simp_all add: typed_check whitelist_add_def whitelist_remove_def whitelist_list_def)

lemma typed_blacklist_methods:
  "\<And>p. typed_call tx (blacklist_add p tx)"
  "\<And>p. typed_call tx (blacklist_remove p tx)"
  "typed_call tx (blacklist_list tx)"
  by (simp_all add: typed_check blacklist_add_def blacklist_remove_def blacklist_list_def)

lemma typed_peer_methods:
  "\<And>p a. typed_call tx (peer_store_add_address p a tx)"
  "\<And>p a. typed_call tx (peer_store_remove_address p a tx)"
  "\<And>p. typed_call tx (peer_store_remove_peer p tx)"
  "\<And>p. typed_call tx (peer_store_list p tx)"
  "typed_call tx (peer_store_list_all tx)"
  by (simp_all add: typed_check peer_store_add_address_def peer_store_remove_address_def peer_store_remove_peer_def peer_store_list_def peer_store_list_all_def)

lemma typed_autonat_methods:
  "typed_call tx (autonat_public_address tx)"
  "typed_call tx (autonat_nat_status tx)"
  "\<And>p a. typed_call tx (autonat_add_server p a tx)"
  "\<And>p. typed_call tx (autonat_remove_server p tx)"
  "\<And>a. typed_call tx (autonat_probe a tx)"
  by (simp_all add: typed_check autonat_public_address_def autonat_nat_status_def autonat_add_server_def autonat_remove_server_def autonat_probe_def)

lemma typed_relay_methods:
  "\<And>p a. typed_call tx (relay_add_static_relay p a tx)"
  "\<And>p. typed_call tx (relay_remove_static_relay p tx)"
  "typed_call tx (relay_list_static_relays tx)"
  "\<And>p. typed_call tx (relay_get_static_relay p tx)"
  "typed_call tx (relay_enable_auto_relay tx)"
  "typed_call tx (relay_disable_auto_relay tx)"
  "typed_call tx (relay_disable_relays tx)"
  "\<And>closed canceled st. typed_call tx (relay_server_change_status closed canceled st tx)"
  by (simp_all add: typed_check relay_add_static_relay_def relay_remove_static_relay_def relay_list_static_relays_def relay_get_static_relay_def relay_enable_auto_relay_def relay_disable_auto_relay_def relay_disable_relays_def relay_server_change_status_def)

lemma typed_dht_methods:
  "\<And>p. typed_call tx (dht_find_peer p tx)"
  "\<And>key. typed_call tx (dht_provide key tx)"
  "\<And>key. typed_call tx (dht_stop_provide key tx)"
  "\<And>key. typed_call tx (dht_get_providers key tx)"
  "typed_call tx (dht_bootstrap tx)"
  "typed_call tx (dht_bootstrap_lazy tx)"
  "\<And>key. typed_call tx (dht_listener key tx)"
  "\<And>key. typed_call tx (dht_get key tx)"
  "\<And>key data quorum. typed_call tx (dht_put key data quorum tx)"
  "\<And>target key data quorum. typed_call tx (dht_put_to target key data quorum tx)"
  "\<And>key. typed_call tx (dht_remove_record key tx)"
  "\<And>m. typed_call tx (dht_set_mode m tx)"
  "typed_call tx (dht_mode tx)"
  "\<And>p a. typed_call tx (dht_add_address p a tx)"
  "\<And>p a. typed_call tx (dht_remove_address p a tx)"
  "\<And>p. typed_call tx (dht_remove_peer p tx)"
  by (simp_all add: typed_check dht_find_peer_def dht_provide_def dht_stop_provide_def dht_get_providers_def dht_bootstrap_def dht_bootstrap_lazy_def dht_listener_def dht_get_def dht_put_def dht_put_to_def dht_remove_record_def dht_set_mode_def dht_mode_def dht_add_address_def dht_remove_address_def dht_remove_peer_def)

lemma typed_rendezvous_methods:
  "\<And>new p ns ttl. typed_call tx (rendezvous_register new p ns ttl tx)"
  "\<And>new p ns. typed_call tx (rendezvous_unregister new p ns tx)"
  "\<And>new p ns ttl c. typed_call tx (rendezvous_discovery new p ns ttl c tx)"
  by (simp_all add: typed_check rendezvous_register_def rendezvous_unregister_def rendezvous_discovery_def Let_def required_namespace_def split: option.split prod.split)

lemma typed_gossipsub_methods:
  "\<And>h t. typed_call tx (gossipsub_subscribe h t tx)"
  "\<And>h t. typed_call tx (gossipsub_handle_listener h t tx)"
  "\<And>h t. typed_call tx (gossipsub_unsubscribe h t tx)"
  "\<And>h t. typed_call tx (gossipsub_peers h t tx)"
  "\<And>h t data. typed_call tx (gossipsub_publish h t data tx)"
  "\<And>p m acc. typed_call tx (gossipsub_report_message p m acc tx)"
  by (simp_all add: typed_check gossipsub_subscribe_def gossipsub_handle_listener_def gossipsub_unsubscribe_def gossipsub_peers_def gossipsub_publish_def gossipsub_report_message_def)

lemma typed_floodsub_methods:
  "\<And>new t. typed_call tx (floodsub_subscribe new t tx)"
  "\<And>p. typed_call tx (floodsub_add_node_to_partial_view p tx)"
  "\<And>p. typed_call tx (floodsub_remove_node_from_partial_view p tx)"
  "\<And>new t. typed_call tx (floodsub_handle_listener new t tx)"
  "\<And>new t. typed_call tx (floodsub_unsubscribe new t tx)"
  "\<And>new t data. typed_call tx (floodsub_handle_publish new t data tx)"
  "\<And>new t data. typed_call tx (floodsub_handle_publish_any new t data tx)"
  "\<And>new ts data. typed_call tx (floodsub_handle_publish_many new ts data tx)"
  "\<And>new ts data. typed_call tx (floodsub_handle_publish_many_any new ts data tx)"
  by (simp_all add: typed_check floodsub_subscribe_def floodsub_add_node_to_partial_view_def floodsub_remove_node_from_partial_view_def floodsub_handle_listener_def floodsub_unsubscribe_def floodsub_handle_publish_def floodsub_handle_publish_any_def floodsub_handle_publish_many_def floodsub_handle_publish_many_any_def)

lemma typed_request_methods:
  "\<And>valid protocol. typed_call tx (request_listen_for_requests valid protocol tx)"
  "\<And>valid peers request. typed_call tx (request_send_requests valid peers request tx)"
  "\<And>responses valid p request. typed_call tx (request_send_request responses valid p request tx)"
  "\<And>valid p rid response. typed_call tx (request_send_response valid p rid response tx)"
  by (simp_all add: typed_check request_listen_for_requests_def request_send_requests_def request_send_request_def request_send_response_def Let_def required_namespace_def split: option.split prod.split)

lemma typed_stream_methods:
  "\<And>protocol. typed_call tx (stream_new_stream protocol tx)"
  "typed_call tx (stream_control_handle tx)"
  "\<And>try_from open p protocol. typed_call tx (stream_open_stream try_from open p protocol tx)"
  by (simp_all add: typed_check stream_new_stream_def stream_control_handle_def stream_open_stream_def)
lemmas typed_methods = typed_swarm_methods typed_whitelist_methods typed_blacklist_methods typed_peer_methods typed_autonat_methods typed_relay_methods typed_dht_methods typed_rendezvous_methods typed_gossipsub_methods typed_floodsub_methods typed_request_methods typed_stream_methods

subsection \<open>The outcome of a call\<close>

lemma oneshot_state_append:
  "oneshot_state tx (es @ fs) = (case oneshot_state tx es of None \<Rightarrow> oneshot_state tx fs | Some x \<Rightarrow> Some x)"
  by (induction tx es rule: oneshot_state.induct) simp_all

lemma oneshot_state_None: "oneshot_state tx es = None \<longleftrightarrow> tx \<notin># settled es"
  by (induction tx es rule: oneshot_state.induct) simp_all

lemma oneshot_state_Some:
  "oneshot_state tx es = Some (Some reply) \<Longrightarrow> Answer tx reply \<in> set es"
  "oneshot_state tx es = Some None \<Longrightarrow> DropResponder tx \<in> set es"
  by (induction tx es rule: oneshot_state.induct) (auto split: if_splits)

lemma fits_answer: "fits \<kappa> s \<Longrightarrow> Answer tx reply \<in> set (effects s) \<Longrightarrow> kind_of reply = \<kappa> tx"
  by (auto simp: fits_def list_all_iff)

lemma call_states:
  assumes run: "task_run ops (\<lambda>env. \<forall>cmd \<in> set (ready_commands env). well_typed \<kappa> cmd) sw R s"
    and call: "call = Sends cmd closed canceled decode" "typed_call tx call" "well_typed \<kappa> cmd"
    and once: "count R tx = 1"
  shows "(tx \<in># parked s \<and> poll_call True alive tx (effects s) call = (if alive then Waits else Returns (Inl canceled)))
      \<or> (tx \<notin># parked s \<and> DropResponder tx \<in> set (effects s) \<and> poll_call True alive tx (effects s) call = Returns (Inl canceled))
      \<or> (tx \<notin># parked s \<and> (\<exists>reply r. Answer tx reply \<in> set (effects s) \<and> decode reply = Some r
           \<and> poll_call True alive tx (effects s) call = Returns r))"
    and "poll_call True True tx (effects s) call = Returns r \<Longrightarrow> task_poll ops env s = Some s' \<Longrightarrow>
      \<forall>cmd \<in> set (ready_commands env). well_typed \<kappa> cmd \<Longrightarrow> poll_call True alive' tx (effects s') call = Returns r"
proof -
  have "settled (effects s) + parked s = R" using run_accounted [OF run] by (simp add: account_def)
  then have one: "count (settled (effects s)) tx + count (parked s) tx = 1" using once by auto
  show "(tx \<in># parked s \<and> poll_call True alive tx (effects s) call = (if alive then Waits else Returns (Inl canceled)))
      \<or> (tx \<notin># parked s \<and> DropResponder tx \<in> set (effects s) \<and> poll_call True alive tx (effects s) call = Returns (Inl canceled))
      \<or> (tx \<notin># parked s \<and> (\<exists>reply r. Answer tx reply \<in> set (effects s) \<and> decode reply = Some r
           \<and> poll_call True alive tx (effects s) call = Returns r))"
  proof (cases "oneshot_state tx (effects s)")
    case None
    with one have "tx \<in># parked s" by (simp add: oneshot_state_None not_in_iff) (simp add: count_greater_zero_iff [symmetric])
    with None call(1) show ?thesis by simp
  next
    case (Some st)
    with one have gone: "tx \<notin># parked s"
      using oneshot_state_None [of tx "effects s"] by (simp add: not_in_iff count_greater_zero_iff [symmetric] del: count_greater_zero_iff)
    show ?thesis
    proof (cases st)
      case None
      with Some gone call(1) oneshot_state_Some(2) [of tx "effects s"] show ?thesis by simp
    next
      case (Some reply)
      note answer = oneshot_state_Some(1) [OF \<open>oneshot_state tx (effects s) = Some st\<close> [unfolded Some]]
      from fits_answer [OF run_fits [OF run] answer] call obtain r where "decode reply = Some r"
        by (auto simp: well_typed_def)
      with answer gone call(1) Some \<open>oneshot_state tx (effects s) = Some st\<close> show ?thesis by auto
    qed
  qed
  assume r: "poll_call True True tx (effects s) call = Returns r" and poll: "task_poll ops env s = Some s'"
    "\<forall>cmd \<in> set (ready_commands env). well_typed \<kappa> cmd"
  from serves_poll [OF poll] obtain es where "effects s' = effects s @ es" by (auto simp: serves_def)
  with r call(1) show "poll_call True alive' tx (effects s') call = Returns r"
    by (auto simp: oneshot_state_append split: option.splits)
qed

text \<open>
  C15: a call made through a handle, on a task that serves it together with any other commands, is in exactly one of three states: it waits and its responder is parked
  in the task (once the task is gone such a call fails with the error for a closed channel); its responder was
  dropped and it fails with that error; or the task has answered and the call returns what the method makes of this answer. It never receives a reply of
  the wrong type. Once it has returned, no later poll of the task changes the result.
\<close>

theorem call_outcome:
  assumes "task_run ops (\<lambda>env. \<forall>cmd \<in> set (ready_commands env). well_typed \<kappa> cmd) sw R s"
    and "call = Sends cmd closed canceled decode" "typed_call tx call" "well_typed \<kappa> cmd" "count R tx = 1"
  shows "((tx \<in># parked s \<and> poll_call True alive tx (effects s) call = (if alive then Waits else Returns (Inl canceled)))
      \<or> (tx \<notin># parked s \<and> DropResponder tx \<in> set (effects s) \<and> poll_call True alive tx (effects s) call = Returns (Inl canceled))
      \<or> (tx \<notin># parked s \<and> (\<exists>reply r. Answer tx reply \<in> set (effects s) \<and> decode reply = Some r
           \<and> poll_call True alive tx (effects s) call = Returns r)))
    \<and> (\<forall>r env s'. poll_call True True tx (effects s) call = Returns r \<longrightarrow> task_poll ops env s = Some s' \<longrightarrow>
          (\<forall>cmd \<in> set (ready_commands env). well_typed \<kappa> cmd) \<longrightarrow> poll_call True alive tx (effects s') call = Returns r)"
  using call_states [OF assms] by blast

definition dial_types :: "responder \<Rightarrow> reply_kind" where
  "dial_types r = (if r = 1 then KConnection else if r = 2 then KBool else if r = 4 then KListener else KPeerAddrs)"

theorem call_outcome_witness:
  "\<exists>s. task_run counter_ops (\<lambda>env. \<forall>cmd \<in> set (ready_commands env). well_typed dial_types cmd) 0 {#1, 2, 4, 5#} s
     \<and> poll_call True True 1 (effects s) (swarm_dial (DialOpts (ConnectionId 7) 0) 1) = Returns (Inr (ConnectionId 7))
     \<and> 1 \<notin># parked s"
proof -
  from dial_poll obtain s where s: "task_poll counter_ops dial_env (task_new 0) = Some s"
    and e: "effects s = [Answer 2 (RBool True), Answer 1 (RConnection (Inr (ConnectionId 7))), Answer 5 (RPeerAddrs (Inr []))]"
    by (auto simp del: task_poll_def)
  have "sum_list (map responder_of (ready_commands dial_env)) = {#1, 2, 4, 5#}" by (simp add: dial_env_def)
  moreover have "\<forall>cmd \<in> set (ready_commands dial_env). well_typed dial_types cmd"
    by (simp add: dial_env_def well_typed_def dial_types_def)
  ultimately have run: "task_run counter_ops (\<lambda>env. \<forall>cmd \<in> set (ready_commands env). well_typed dial_types cmd) 0 {#1, 2, 4, 5#} s"
    using task_run.poll [OF task_run.start [of counter_ops "\<lambda>env. \<forall>cmd \<in> set (ready_commands env). well_typed dial_types cmd" 0] _ s]
    by simp
  from call_outcome [OF run, of "swarm_dial (DialOpts (ConnectionId 7) 0) 1" _ _ _ _ 1 True] e
  have "poll_call True True 1 (effects s) (swarm_dial (DialOpts (ConnectionId 7) 0) 1) = Returns (Inr (ConnectionId 7)) \<and> 1 \<notin># parked s"
    by (auto simp: swarm_dial_def well_typed_def dial_types_def)
  with run show ?thesis by blast
qed

subsection \<open>Methods\<close>

text \<open>
  The condition of \<open>call_outcome\<close> on a call holds for every method of every handle: it sends a command that carries its own oneshot, and
  turns every reply of the type that oneshot has into a result. In the code the compiler checks this; here all
  replies share one type.
\<close>

theorem handle_methods_typed:
  "(\<forall>target. typed_call tx (swarm_dial target tx)) \<and> (\<forall>target. typed_call tx (swarm_disconnect target tx))
    \<and> (\<forall>p. typed_call tx (swarm_is_connected p tx)) \<and> typed_call tx (swarm_connected_peers tx)
    \<and> (\<forall>parse addr. typed_call tx (swarm_listen_on parse addr tx))
    \<and> (\<forall>lid. typed_call tx (swarm_get_listening_addresses lid tx)) \<and> (\<forall>lid. typed_call tx (swarm_remove_listener lid tx))
    \<and> (\<forall>parse addr. typed_call tx (swarm_add_external_address parse addr tx))
    \<and> (\<forall>a. typed_call tx (swarm_remove_external_address a tx)) \<and> typed_call tx (swarm_external_addresses tx)
    \<and> typed_call tx (swarm_listening_addresses tx) \<and> (\<forall>p a. typed_call tx (swarm_add_peer_address p a tx))
    \<and> typed_call tx (swarm_listener tx) \<and> (\<forall>p. typed_call tx (whitelist_add p tx))
    \<and> (\<forall>p. typed_call tx (whitelist_remove p tx)) \<and> typed_call tx (whitelist_list tx)
    \<and> (\<forall>p. typed_call tx (blacklist_add p tx)) \<and> (\<forall>p. typed_call tx (blacklist_remove p tx))
    \<and> typed_call tx (blacklist_list tx) \<and> (\<forall>p a. typed_call tx (peer_store_add_address p a tx))
    \<and> (\<forall>p a. typed_call tx (peer_store_remove_address p a tx)) \<and> (\<forall>p. typed_call tx (peer_store_remove_peer p tx))
    \<and> (\<forall>p. typed_call tx (peer_store_list p tx)) \<and> typed_call tx (peer_store_list_all tx)
    \<and> typed_call tx (autonat_public_address tx) \<and> typed_call tx (autonat_nat_status tx)
    \<and> (\<forall>p a. typed_call tx (autonat_add_server p a tx)) \<and> (\<forall>p. typed_call tx (autonat_remove_server p tx))
    \<and> (\<forall>a. typed_call tx (autonat_probe a tx)) \<and> (\<forall>p a. typed_call tx (relay_add_static_relay p a tx))
    \<and> (\<forall>p. typed_call tx (relay_remove_static_relay p tx)) \<and> typed_call tx (relay_list_static_relays tx)
    \<and> (\<forall>p. typed_call tx (relay_get_static_relay p tx)) \<and> typed_call tx (relay_enable_auto_relay tx)
    \<and> typed_call tx (relay_disable_auto_relay tx) \<and> typed_call tx (relay_disable_relays tx)
    \<and> (\<forall>closed canceled st. typed_call tx (relay_server_change_status closed canceled st tx))
    \<and> (\<forall>p. typed_call tx (dht_find_peer p tx)) \<and> (\<forall>key. typed_call tx (dht_provide key tx))
    \<and> (\<forall>key. typed_call tx (dht_stop_provide key tx)) \<and> (\<forall>key. typed_call tx (dht_get_providers key tx))
    \<and> typed_call tx (dht_bootstrap tx) \<and> typed_call tx (dht_bootstrap_lazy tx) \<and> (\<forall>key. typed_call tx (dht_listener key tx))
    \<and> (\<forall>key. typed_call tx (dht_get key tx)) \<and> (\<forall>key data quorum. typed_call tx (dht_put key data quorum tx))
    \<and> (\<forall>target key data quorum. typed_call tx (dht_put_to target key data quorum tx))
    \<and> (\<forall>key. typed_call tx (dht_remove_record key tx)) \<and> (\<forall>m. typed_call tx (dht_set_mode m tx))
    \<and> typed_call tx (dht_mode tx) \<and> (\<forall>p a. typed_call tx (dht_add_address p a tx))
    \<and> (\<forall>p a. typed_call tx (dht_remove_address p a tx)) \<and> (\<forall>p. typed_call tx (dht_remove_peer p tx))
    \<and> (\<forall>new p ns ttl. typed_call tx (rendezvous_register new p ns ttl tx))
    \<and> (\<forall>new p ns. typed_call tx (rendezvous_unregister new p ns tx))
    \<and> (\<forall>new p ns ttl c. typed_call tx (rendezvous_discovery new p ns ttl c tx))
    \<and> (\<forall>h t. typed_call tx (gossipsub_subscribe h t tx)) \<and> (\<forall>h t. typed_call tx (gossipsub_handle_listener h t tx))
    \<and> (\<forall>h t. typed_call tx (gossipsub_unsubscribe h t tx)) \<and> (\<forall>h t. typed_call tx (gossipsub_peers h t tx))
    \<and> (\<forall>h t data. typed_call tx (gossipsub_publish h t data tx))
    \<and> (\<forall>p m acc. typed_call tx (gossipsub_report_message p m acc tx))
    \<and> (\<forall>new t. typed_call tx (floodsub_subscribe new t tx)) \<and> (\<forall>p. typed_call tx (floodsub_add_node_to_partial_view p tx))
    \<and> (\<forall>p. typed_call tx (floodsub_remove_node_from_partial_view p tx))
    \<and> (\<forall>new t. typed_call tx (floodsub_handle_listener new t tx)) \<and> (\<forall>new t. typed_call tx (floodsub_unsubscribe new t tx))
    \<and> (\<forall>new t data. typed_call tx (floodsub_handle_publish new t data tx))
    \<and> (\<forall>new t data. typed_call tx (floodsub_handle_publish_any new t data tx))
    \<and> (\<forall>new ts data. typed_call tx (floodsub_handle_publish_many new ts data tx))
    \<and> (\<forall>new ts data. typed_call tx (floodsub_handle_publish_many_any new ts data tx))
    \<and> (\<forall>valid protocol. typed_call tx (request_listen_for_requests valid protocol tx))
    \<and> (\<forall>valid peers request. typed_call tx (request_send_requests valid peers request tx))
    \<and> (\<forall>responses valid p request. typed_call tx (request_send_request responses valid p request tx))
    \<and> (\<forall>valid p rid response. typed_call tx (request_send_response valid p rid response tx))
    \<and> (\<forall>protocol. typed_call tx (stream_new_stream protocol tx)) \<and> typed_call tx (stream_control_handle tx)
    \<and> (\<forall>try_from open p protocol. typed_call tx (stream_open_stream try_from open p protocol tx))"
  by (simp only: typed_methods simp_thms)

subsection \<open>Arguments\<close>

lemma index_set_simps: "distinct (index_set xs)" "set (index_set xs) = set xs" "index_set xs = [] \<longleftrightarrow> xs = []"
  by (simp_all add: index_set_def)

text \<open>The order of the first occurrences.\<close>

lemma index_set_append: "index_set (xs @ [x]) = (if x \<in> set xs then index_set xs else index_set xs @ [x])"
  by (simp add: index_set_def)

lemma submit_check [simp]:
  "submit (check r f) = Some cmd \<longleftrightarrow> (\<exists>a. r = Inr a \<and> submit (f a) = Some cmd)"
  "submit (check_panic r' f) = Some cmd \<longleftrightarrow> (\<exists>a. r' = Some (Inr a) \<and> submit (f a) = Some cmd)"
  by (cases r; simp) (cases r'; simp; cases "the r'"; simp)

text \<open>
  What the methods that check their arguments send. A request or a response is sent when its conversion succeeds and the message is not
  empty (the conversion takes an invalid owned protocol name for the default protocol, see \<open>invalid_protocol_ignored\<close>); a
  request to several peers names at least one and goes to each once; a registration has a namespace that libp2p accepts, and an address that
  is given as text must parse.
\<close>

theorem handle_arguments_checked:
  "(submit (request_send_requests valid peers request tx) = Some cmd \<longleftrightarrow>
      (\<exists>protocol bs. into_request valid request = Some (Inr (protocol, bs)) \<and> bs \<noteq> [] \<and> peers \<noteq> []
         \<and> cmd = RequestResponseCommand (SendRequests protocol (index_set peers) bs tx)))
   \<and> distinct (index_set peers) \<and> set (index_set peers) = set peers
   \<and> (submit (request_send_request responses valid p request tx) = Some cmd \<longleftrightarrow>
      (\<exists>protocol bs. into_request valid request = Some (Inr (protocol, bs)) \<and> bs \<noteq> []
         \<and> cmd = RequestResponseCommand (SendRequest protocol p bs tx)))
   \<and> (submit (request_send_response valid p rid request tx) = Some cmd \<longleftrightarrow>
      (\<exists>protocol bs. into_request valid request = Some (Inr (protocol, bs)) \<and> bs \<noteq> []
         \<and> cmd = RequestResponseCommand (SendResponse protocol p rid bs tx)))
   \<and> (submit (rendezvous_register new p ns ttl tx) = Some cmd \<longleftrightarrow>
      (\<exists>n. into_namespace new ns = Inr (Some n) \<and> cmd = RendezvousCommand (Register n p ttl tx)))
   \<and> (submit (rendezvous_unregister new p ns tx) = Some cmd \<longleftrightarrow>
      (\<exists>n. into_namespace new ns = Inr (Some n) \<and> cmd = RendezvousCommand (Unregister n p tx)))
   \<and> (submit (swarm_listen_on parse addr tx) = Some cmd \<longleftrightarrow>
      (\<exists>a. to_multiaddr parse addr = Inr a \<and> cmd = SwarmCommand (ListenOn a tx)))"
  unfolding request_send_requests_def request_send_request_def request_send_response_def rendezvous_register_def
    rendezvous_unregister_def required_namespace_def swarm_listen_on_def
  by (auto simp: index_set_simps split: option.splits if_splits prod.splits)

text \<open>
  The form in which text is given does not matter. Bytes that encode a text name the same topic, namespace, stream protocol
  and record key as the text; bytes that encode none name what their repaired text names, which is always well formed and which
  repairing again does not change. The segments of a topic path can be read back from the topic.
\<close>

theorem text_arguments_agree:
  assumes "valid_utf8 (as_bytes t)" and "ss \<noteq> []" "\<forall>s \<in> set ss. CHR ''/'' \<notin> set s"
  shows "gossipsub_into_topic h (TopicBytes (as_bytes t)) = gossipsub_into_topic h (TopicText t)
    \<and> floodsub_into_topic new (TopicBytes (as_bytes t)) = floodsub_into_topic new (TopicText t)
    \<and> into_namespace n (NsBytes (as_bytes t)) = into_namespace n (NsText t)
    \<and> into_protocol p (SpBytes (as_bytes t)) = into_protocol p (SpOwned t)
    \<and> to_record_key (KeyBytes (as_bytes t)) = to_record_key (KeyText t)
    \<and> gossipsub_into_topic h (TopicBytes bs) = gossipsub_into_topic h (TopicText (from_utf8_lossy bs))
    \<and> valid_utf8 (as_bytes (from_utf8_lossy bs))
    \<and> from_utf8_lossy (as_bytes (from_utf8_lossy bs)) = from_utf8_lossy bs
    \<and> split_slash (gossipsub_into_topic id (TopicPath ss)) = ss"
  using assms by (simp add: same_topic from_utf8_lossy_wf from_utf8_lossy_valid split_join)

theorem text_arguments_agree_witness:
  "gossipsub_into_topic id (TopicBytes [0x68, 0x69]) = ''hi''
     \<and> from_utf8_lossy (as_bytes (from_utf8_lossy [0x68, 0xFF])) = from_utf8_lossy [0x68, 0xFF]
     \<and> split_slash (gossipsub_into_topic id (TopicPath [''a'', ''b''])) = [''a'', ''b'']"
proof -
  have bytes: "as_bytes ''hi'' = [0x68, 0x69]" by (simp add: as_bytes_def)
  have "valid_utf8 (as_bytes ''hi'')" unfolding bytes
    by (simp add: valid_utf8.simps next_char_def char_width_def)
  from text_arguments_agree [OF this, of "[''a'', ''b'']" id id Inr Inr "[0x68, 0xFF]", unfolded bytes] show ?thesis by simp
qed

text \<open>
  An owned protocol name that is invalid is not an error: the request goes out on the default protocol instead. The same name given as a
  static text panics.
\<close>

lemma invalid_protocol_ignored:
  assumes "\<not> valid name" "bs \<noteq> []"
  shows "submit (request_send_request responses valid p (RequestOn (ProtocolOwned name) (DataBytes bs)) tx) =
      Some (RequestResponseCommand (SendRequest None p bs tx))"
    and "request_send_request responses valid p (RequestOn (ProtocolStatic name) (DataBytes bs)) tx = Panics"
  using assms by (simp_all add: request_send_request_def)

end
