(* ===== verification/Dns_Websys.thy ===== *)
theory Dns_Websys
  imports Multiaddr_Ext Connexa_Error
begin

section \<open>Names resolved over HTTPS (\<^verbatim>\<open>src/src/builder/dns_websys/\<close>)\<close>

text \<open>
  In a browser a node resolves the DNS components of an address by queries over HTTPS before it dials the
  address. The browser, the JSON and URL libraries, parsing and comparison of multiaddresses, and the inner transport are the record \<open>web\<close>. What they answer may depend
  on everything that was fetched and dialled before, so these fields take the trace so far, and every fetch and
  every dial extends the trace. Text is a list of Unicode code points.
\<close>

type_synonym chars = "nat list"

subsection \<open>The resolver (\<^verbatim>\<open>resolver.rs\<close>)\<close>

datatype dns_resolution = Auto | Always | Never

record doh_config =
  endpoint :: string
  dns_resolution :: dns_resolution
  doh_timeout :: nat

definition CLOUDFLARE :: string where "CLOUDFLARE = ''https://cloudflare-dns.com/dns-query''"
definition GOOGLE :: string where "GOOGLE = ''https://dns.google/resolve''"

text \<open>Times are in milliseconds.\<close>

definition DEFAULT_TIMEOUT :: nat where "DEFAULT_TIMEOUT = 10000"

definition doh_config_new :: "string \<Rightarrow> doh_config" where
  "doh_config_new e = \<lparr>endpoint = e, dns_resolution = Auto, doh_timeout = DEFAULT_TIMEOUT\<rparr>"

definition cloudflare :: doh_config where "cloudflare = doh_config_new CLOUDFLARE"
definition google :: doh_config where "google = doh_config_new GOOGLE"

definition set_dns_resolution :: "dns_resolution \<Rightarrow> doh_config \<Rightarrow> doh_config" where
  "set_dns_resolution policy c = c\<lparr>dns_resolution := policy\<rparr>"

definition set_doh_timeout :: "nat \<Rightarrow> doh_config \<Rightarrow> doh_config" where
  "set_doh_timeout t c = c\<lparr>doh_timeout := t\<rparr>"

datatype resolve_error = Fetch string | Http u16 | Status u32 | Parse string | UrlError string

record doh_answer =
  answer_kind :: u16
  answer_data :: chars

record doh_response =
  doh_status :: u32
  doh_answers :: "doh_answer list"

text \<open>
  What a fetch yields: an error, something other than a response, or a response whose body may fail to arrive
  or not be text.
\<close>

datatype fetched = FetchError string | NotResponse | FetchResponse bool u16 "(chars option, string) result"

datatype 'u dns_op = Fetched 'u u32 | Dialled multiaddr

type_synonym 'u trace = "'u dns_op list"

text \<open>What the inner transport does with an address: a dialing future and its result, or a refusal.\<close>

datatype ('o, 'e) dial_outcome = Accepted "('o, 'e) result" | RefusedAddr multiaddr | RefusedOther 'e

record ('u, 'o, 'e) web =
  url_parse :: "string \<Rightarrow> ('u, string) result"
  append_pair :: "string \<Rightarrow> string \<Rightarrow> 'u \<Rightarrow> 'u"
  new_request :: "'u \<Rightarrow> (unit, string) result"
  set_accept :: "'u \<Rightarrow> (unit, string) result"
  web_context :: bool
  fetch_with_request :: "'u trace \<Rightarrow> 'u \<Rightarrow> fetched"
  parse_doh :: "chars \<Rightarrow> (doh_response, string) result"
  parse_ipv4 :: "chars \<Rightarrow> ipv4_addr option"
  parse_ipv6 :: "chars \<Rightarrow> ipv6_addr option"
  parse_multiaddr :: "chars \<Rightarrow> (multiaddr, string) result"
  ends_with :: "multiaddr \<Rightarrow> multiaddr \<Rightarrow> bool"
  inner_dial :: "'u trace \<Rightarrow> multiaddr \<Rightarrow> ('o, 'e) dial_outcome"

definition TYPE_A :: u16 where "TYPE_A = 1"
definition TYPE_AAAA :: u16 where "TYPE_AAAA = 28"
definition TYPE_TXT :: u16 where "TYPE_TXT = 16"

fun decimal :: "nat \<Rightarrow> string" where
  "decimal n = (if n < 10 then [char_of (48 + n)] else decimal (n div 10) @ [char_of (48 + n mod 10)])"

declare decimal.simps [simp del]

definition build_query_url :: "('u, 'o, 'e) web \<Rightarrow> string \<Rightarrow> string \<Rightarrow> u16 \<Rightarrow> ('u, resolve_error) result" where
  "build_query_url web e name qtype =
     try_res (map_sum UrlError id (url_parse web e)) (\<lambda>url.
     Inr (append_pair web ''type'' (decimal (unat qtype)) (append_pair web ''name'' name url)))"

text \<open>The timeout is brought into the range of the browser's timer.\<close>

definition doh_get ::
  "('u, 'o, 'e) web \<Rightarrow> 'u \<Rightarrow> nat \<Rightarrow> 'u trace \<Rightarrow> 'u trace \<times> (chars, resolve_error) result" where
  "doh_get web url timeout tr =
     (let timeout_ms = word_of_nat (min (max timeout 1) (2 ^ 32 - 1)) in
      case new_request web url of
        Inl e \<Rightarrow> (tr, Inl (Fetch e))
      | Inr _ \<Rightarrow> (case set_accept web url of
        Inl e \<Rightarrow> (tr, Inl (Fetch e))
      | Inr _ \<Rightarrow>
        if \<not> web_context web then (tr, Inl (Fetch ''no browser global scope available''))
        else (tr @ [Fetched url timeout_ms], case fetch_with_request web tr url of
            FetchError e \<Rightarrow> Inl (Fetch e)
          | NotResponse \<Rightarrow> Inl (Fetch ''fetch did not return a Response'')
          | FetchResponse ok status body \<Rightarrow>
              if \<not> ok then Inl (Http status)
              else (case body of
                  Inl e \<Rightarrow> Inl (Fetch e)
                | Inr None \<Rightarrow> Inl (Fetch ''response body was not a string'')
                | Inr (Some t) \<Rightarrow> Inr t))))"

definition query ::
  "('u, 'o, 'e) web \<Rightarrow> doh_config \<Rightarrow> string \<Rightarrow> u16 \<Rightarrow> 'u trace \<Rightarrow> 'u trace \<times> (chars list, resolve_error) result" where
  "query web cfg name qtype tr =
     (case build_query_url web (endpoint cfg) name qtype of
        Inl e \<Rightarrow> (tr, Inl e)
      | Inr url \<Rightarrow> (case doh_get web url (doh_timeout cfg) tr of
          (tr, r) \<Rightarrow> (tr, try_res r (\<lambda>body.
             try_res (map_sum Parse id (parse_doh web body)) (\<lambda>response.
             if doh_status response \<noteq> 0 then Inl (Status (doh_status response))
             else Inr (map answer_data (filter (\<lambda>a. answer_kind a = qtype) (doh_answers response))))))))"

text \<open>Quoted character-strings are joined; escapes are a decimal code of up to three digits or a literal character.\<close>

definition is_digit :: "nat \<Rightarrow> bool" where "is_digit c \<longleftrightarrow> 48 \<le> c \<and> c \<le> 57"

fun escape_digits :: "nat \<Rightarrow> nat \<Rightarrow> chars \<Rightarrow> nat \<times> chars" where
  "escape_digits (Suc n) code (p # cs) =
     (if is_digit p then escape_digits n (code * 10 + (p - 48)) cs else (code, p # cs))"
| "escape_digits n code cs = (code, cs)"

definition char_from_u32 :: "nat \<Rightarrow> nat option" where
  "char_from_u32 n = (if n < 0xD800 \<or> 0xE000 \<le> n \<and> n \<le> 0x10FFFF then Some n else None)"

lemma escape_digits_length: "escape_digits n code cs = (code', cs') \<Longrightarrow> length cs' \<le> length cs"
  by (induction n code cs rule: escape_digits.induct) (auto split: if_splits dest: le_SucI)

function unquote_loop :: "bool \<Rightarrow> chars \<Rightarrow> chars" where
  "unquote_loop quoted [] = []"
| "unquote_loop False (c # cs) = unquote_loop (c = 34) cs"
| "unquote_loop True (c # cs) =
     (if c = 34 then unquote_loop False cs
      else if c = 92 then (case cs of
          [] \<Rightarrow> []
        | d # ds \<Rightarrow>
            if is_digit d then (case escape_digits 2 (d - 48) ds of
                (code, rest) \<Rightarrow> (case char_from_u32 code of None \<Rightarrow> [] | Some ch \<Rightarrow> [ch]) @ unquote_loop True rest)
            else d # unquote_loop True ds)
      else c # unquote_loop True cs)"
  by pat_completeness auto
termination
  by (relation "measure (\<lambda>(_, cs). length cs)") (auto dest!: escape_digits_length [OF sym])

definition unquote_txt :: "chars \<Rightarrow> chars" where
  "unquote_txt s = (if 34 \<notin> set s then s else unquote_loop False s)"

definition map_ok :: "('a \<Rightarrow> 'b) \<Rightarrow> 't \<times> ('a, 'e) result \<Rightarrow> 't \<times> ('b, 'e) result" where
  "map_ok f = (\<lambda>(tr, r). (tr, map_sum id f r))"

definition ipv4_lookup where
  "ipv4_lookup web cfg name tr = map_ok (List.map_filter (parse_ipv4 web)) (query web cfg name TYPE_A tr)"

definition ipv6_lookup where
  "ipv6_lookup web cfg name tr = map_ok (List.map_filter (parse_ipv6 web)) (query web cfg name TYPE_AAAA tr)"

definition txt_lookup where
  "txt_lookup web cfg name tr = map_ok (map unquote_txt) (query web cfg name TYPE_TXT tr)"

subsection \<open>Resolving one component (\<^verbatim>\<open>mod.rs\<close>)\<close>

definition DNSADDR_PREFIX :: string where "DNSADDR_PREFIX = ''_dnsaddr.''"
definition MAX_DIAL_ATTEMPTS :: nat where "MAX_DIAL_ATTEMPTS = 16"
definition MAX_DNS_LOOKUPS :: nat where "MAX_DNS_LOOKUPS = 32"
definition MAX_TXT_RECORDS :: nat where "MAX_TXT_RECORDS = 16"

datatype 'e dns_error = TransportError 'e | ResolveError resolve_error | MultiaddrNotSupported multiaddr
  | TooManyLookups | DialErrors "'e dns_error list"

datatype resolved = One protocol | Many "protocol list" | Addrs "multiaddr list"

definition should_resolve_dns :: "multiaddr \<Rightarrow> dns_resolution \<Rightarrow> bool" where
  "should_resolve_dns addr policy = (case policy of
     Always \<Rightarrow> True | Never \<Rightarrow> False | Auto \<Rightarrow> list_ex (\<lambda>p. p = WebRTCDirect) addr)"

definition is_resolvable :: "protocol \<Rightarrow> bool \<Rightarrow> bool" where
  "is_resolvable proto resolve_dns = (case proto of
     Dnsaddr _ \<Rightarrow> True
   | Dns _ \<Rightarrow> resolve_dns | Dns4 _ \<Rightarrow> resolve_dns | Dns6 _ \<Rightarrow> resolve_dns
   | _ \<Rightarrow> False)"

definition no_records :: resolve_error where
  "no_records = Fetch ''no matching records found''"

definition collect_resolved :: "protocol list \<Rightarrow> (resolved, 'e dns_error) result" where
  "collect_resolved ps = (case ps of
     [] \<Rightarrow> Inl (ResolveError no_records) | [p] \<Rightarrow> Inr (One p) | _ \<Rightarrow> Inr (Many ps))"

definition chars_of :: "string \<Rightarrow> chars" where
  "chars_of s = map of_char s"

definition parse_dnsaddr_txt :: "('u, 'o, 'e) web \<Rightarrow> chars \<Rightarrow> (multiaddr, io_err) result" where
  "parse_dnsaddr_txt web txt =
     (let prefix = chars_of ''dnsaddr='' in
      if take (length prefix) txt = prefix
      then map_sum (\<lambda>e. IoErr InvalidDataKind (Message e)) id (parse_multiaddr web (drop (length prefix) txt))
      else Inl (IoErr InvalidDataKind (Message ''Missing `dnsaddr=` prefix.'')))"

definition ok_of :: "('a, 'e) result \<Rightarrow> 'a option" where
  "ok_of r = (case r of Inl _ \<Rightarrow> None | Inr a \<Rightarrow> Some a)"

definition ok_list :: "('a list, 'e) result \<Rightarrow> 'a list" where
  "ok_list r = (case r of Inl _ \<Rightarrow> [] | Inr xs \<Rightarrow> xs)"

definition resolve_component ::
  "('u, 'o, 'e) web \<Rightarrow> doh_config \<Rightarrow> protocol \<Rightarrow> 'u trace \<Rightarrow> 'u trace \<times> (resolved, 'e dns_error) result" where
  "resolve_component web cfg proto tr = (case proto of
     Dns name \<Rightarrow> (case ipv4_lookup web cfg name tr of (tr, v4) \<Rightarrow>
       (case ipv6_lookup web cfg name tr of (tr, v6) \<Rightarrow>
         (tr, case (v4, v6) of
            (Inl e, Inl _) \<Rightarrow> Inl (ResolveError e)
          | _ \<Rightarrow> collect_resolved (map Ip4 (ok_list v4) @ map Ip6 (ok_list v6)))))
   | Dns4 name \<Rightarrow> (case ipv4_lookup web cfg name tr of (tr, r) \<Rightarrow>
       (tr, try_res (map_sum ResolveError id r) (\<lambda>ips. collect_resolved (map Ip4 ips))))
   | Dns6 name \<Rightarrow> (case ipv6_lookup web cfg name tr of (tr, r) \<Rightarrow>
       (tr, try_res (map_sum ResolveError id r) (\<lambda>ips. collect_resolved (map Ip6 ips))))
   | Dnsaddr name \<Rightarrow> (case txt_lookup web cfg (DNSADDR_PREFIX @ name) tr of (tr, r) \<Rightarrow>
       (tr, try_res (map_sum ResolveError id r) (\<lambda>txts.
          Inr (Addrs (List.map_filter (\<lambda>t. ok_of (parse_dnsaddr_txt web t)) txts)))))
   | _ \<Rightarrow> (tr, Inr (One proto)))"

subsection \<open>Dialing (\<^verbatim>\<open>Transport::do_dial\<close>)\<close>

text \<open>The first component to resolve, with its index.\<close>

fun find_resolvable :: "bool \<Rightarrow> nat \<Rightarrow> multiaddr \<Rightarrow> (nat \<times> protocol) option" where
  "find_resolvable rd i [] = None"
| "find_resolvable rd i (p # ps) = (if is_resolvable p rd then Some (i, p) else find_resolvable rd (Suc i) ps)"

text \<open>The addresses that replace one whose component \<open>i\<close> was resolved, in the order they are pushed.\<close>

definition expand :: "('u, 'o, 'e) web \<Rightarrow> multiaddr \<Rightarrow> nat \<Rightarrow> resolved \<Rightarrow> multiaddr list" where
  "expand web addr i r = (case r of
     One ip \<Rightarrow> [addr[i := ip]]
   | Many ips \<Rightarrow> map (\<lambda>ip. addr[i := ip]) ips
   | Addrs addrs \<Rightarrow> map (\<lambda>a. take i addr @ a) (take MAX_TXT_RECORDS (filter (\<lambda>a. ends_with web a (drop (Suc i) addr)) addrs)))"

definition dial_failed :: "'e dns_error list \<Rightarrow> ('o, 'e dns_error) result" where
  "dial_failed errors = Inl (if errors \<noteq> [] then DialErrors errors else ResolveError no_records)"

text \<open>
  The vector of unresolved addresses is a list with its last element first. The counter of lookups grows by one from zero, so that
  comparing it with the limit by equality or by order is the same.
\<close>

function dial_loop ::
  "('u, 'o, 'e) web \<Rightarrow> doh_config \<Rightarrow> nat \<Rightarrow> nat \<Rightarrow> 'e dns_error list \<Rightarrow> multiaddr list \<Rightarrow> 'u trace \<Rightarrow>
   'u trace \<times> ('o, 'e dns_error) result" where
  "dial_loop web cfg dns_lookups dial_attempts errors [] tr = (tr, dial_failed errors)"
| "dial_loop web cfg dns_lookups dial_attempts errors (addr # unresolved) tr =
     (case find_resolvable (should_resolve_dns addr (dns_resolution cfg)) 0 addr of
        Some (i, name) \<Rightarrow>
          if MAX_DNS_LOOKUPS \<le> dns_lookups
          then dial_loop web cfg dns_lookups dial_attempts (errors @ [TooManyLookups]) unresolved tr
          else (case resolve_component web cfg name tr of
              (tr, Inl e) \<Rightarrow> dial_loop web cfg (Suc dns_lookups) dial_attempts (errors @ [e]) unresolved tr
            | (tr, Inr r) \<Rightarrow> dial_loop web cfg (Suc dns_lookups) dial_attempts errors (rev (expand web addr i r) @ unresolved) tr)
      | None \<Rightarrow>
          (let attempt = (\<lambda>dial_attempts err.
               if unresolved = [] \<or> dial_attempts = MAX_DIAL_ATTEMPTS then (tr @ [Dialled addr], dial_failed (errors @ [err]))
               else dial_loop web cfg dns_lookups dial_attempts (errors @ [err]) unresolved (tr @ [Dialled addr]))
           in (case inner_dial web tr addr of
                 Accepted (Inr out) \<Rightarrow> (tr @ [Dialled addr], Inr out)
               | Accepted (Inl e) \<Rightarrow> attempt (Suc dial_attempts) (TransportError e)
               | RefusedAddr a \<Rightarrow> attempt dial_attempts (MultiaddrNotSupported a)
               | RefusedOther e \<Rightarrow> attempt dial_attempts (TransportError e))))"
  by pat_completeness auto
termination
  by (relation "measures [\<lambda>(_, _, n, _, _, _, _). MAX_DNS_LOOKUPS - n, \<lambda>(_, _, _, _, _, stack, _). length stack]") auto

definition do_dial ::
  "('u, 'o, 'e) web \<Rightarrow> doh_config \<Rightarrow> multiaddr \<Rightarrow> 'u trace \<Rightarrow> 'u trace \<times> ('o, 'e dns_error) result" where
  "do_dial web cfg addr tr = dial_loop web cfg 0 0 [] [addr] tr"

end
