(* ===== verification/Transport_Build.thy ===== *)
theory Transport_Build
  imports Dns_Websys
begin

section \<open>The transport of a node (\<^verbatim>\<open>src/src/builder/transport.rs\<close>)\<close>

text \<open>
  A node's transport is put together from the transports of libp2p by its configuration. Here the result is the
  tree of that composition: the leaves are libp2p's transports, the inner nodes are choices and
  upgrades. What libp2p and the certificate libraries do with keys and certificates is the record \<open>transport_lib\<close>; a
  configuration of a library is an opaque \<open>'c\<close>. The model has every transport feature of the native target enabled;
  \<open>build_transport_web\<close> is the function of the web target.
\<close>

type_synonym psk = bytes

datatype dns_resolver = Google | Cloudflare | Quad9 | LocalResolver | NoResolver
datatype dns_servers = GoogleServers | CloudflareServers | Quad9Servers
datatype upgrade_version = Standard | Lazy
datatype wire_version = V1 | V1Lazy

fun wire_version_of :: "upgrade_version \<Rightarrow> wire_version" where
  "wire_version_of Standard = V1"
| "wire_version_of Lazy = V1Lazy"

record 'c transport_config =
  enable_tcp :: bool
  tcp_config_callback :: "'c \<Rightarrow> 'c"
  tc_timeout :: nat
  dns_resolver :: "dns_resolver option"
  tc_version :: upgrade_version
  enable_quic :: bool
  quic_config_callback :: "'c \<Rightarrow> 'c"
  enable_websocket :: bool
  enable_dns :: bool
  enable_memory_transport :: bool
  enable_webtransport :: bool
  websocket_pem :: "(string list \<times> string) option"
  enable_secure_websocket :: bool
  enable_webrtc :: bool
  webrtc_pem :: "string option"
  enable_pnet :: bool
  pnet_psk :: "psk option"
  dns_config_fn :: "doh_config \<Rightarrow> doh_config"

definition transport_config_default :: "'c transport_config" where
  "transport_config_default = \<lparr>enable_tcp = False, tcp_config_callback = (\<lambda>c. c), tc_timeout = 10, dns_resolver = None,
     tc_version = Lazy, enable_quic = False, quic_config_callback = (\<lambda>c. c), enable_websocket = False, enable_dns = False,
     enable_memory_transport = False, enable_webtransport = False, websocket_pem = None, enable_secure_websocket = False,
     enable_webrtc = False, webrtc_pem = None, enable_pnet = False, pnet_psk = None, dns_config_fn = (\<lambda>c. c)\<rparr>"

text \<open>A security upgrade offers the protocols of its first part before those of its second.\<close>

datatype ('a, 'b) select_upgrade = SelectUpgrade 'a 'b

definition select_protocol_info :: "('a \<Rightarrow> 'i list) \<Rightarrow> ('b \<Rightarrow> 'j list) \<Rightarrow> ('a, 'b) select_upgrade \<Rightarrow> ('i + 'j) list" where
  "select_protocol_info info_a info_b u = (case u of SelectUpgrade a b \<Rightarrow> map Inl (info_a a) @ map Inr (info_b b))"

fun upgrade_selected ::
  "('a \<Rightarrow> 's \<Rightarrow> 'i \<Rightarrow> (peer_id \<times> 'x, 'e) result) \<Rightarrow> ('b \<Rightarrow> 's \<Rightarrow> 'j \<Rightarrow> (peer_id \<times> 'y, 'f) result) \<Rightarrow>
   ('a, 'b) select_upgrade \<Rightarrow> 's \<Rightarrow> 'i + 'j \<Rightarrow> (peer_id \<times> ('x + 'y), 'e + 'f) result" where
  "upgrade_selected up_a up_b (SelectUpgrade a b) socket (Inl info) =
     map_sum Inl (\<lambda>(p, out). (p, Inl out)) (up_a a socket info)"
| "upgrade_selected up_a up_b (SelectUpgrade a b) socket (Inr info) =
     map_sum Inr (\<lambda>(p, out). (p, Inr out)) (up_b b socket info)"

type_synonym security = "(nat, nat) select_upgrade"

text \<open>What the libraries provide, as results with the text of the error.\<close>

record ('kp, 'c) transport_lib =
  noise_config :: "'kp \<Rightarrow> (nat, string) result"
  tls_config :: "'kp \<Rightarrow> (nat, string) result"
  tcp_default :: 'c
  quic_config :: "'kp \<Rightarrow> 'c"
  key_from_pem :: "string \<Rightarrow> (bytes, string) result"
  parse_pem :: "string \<Rightarrow> (bytes, string) result"
  self_signed :: "(bytes \<times> bytes, string) result"
  ws_tls_config :: "bytes \<Rightarrow> bytes list \<Rightarrow> (nat, string) result"
  webrtc_from_pem :: "string \<Rightarrow> (nat, string) result"
  webrtc_generate :: "(nat, string) result"
  udp_and_tcp :: "dns_servers \<Rightarrow> nat"
  read_system_conf :: "nat option"
  resolver_default :: nat

datatype 'c transport =
    MemoryTransport | DummyTransport | RelayTransport
  | TcpTransport 'c
  | WebsocketTransport 'c "nat option"
  | WebTransport | WebsysWebsocket | WebsysWebRtc
  | WebRtcTransport nat
  | QuicTransport 'c
  | OrTransport "'c transport" "'c transport"
  | Pnet psk "'c transport"
  | Secured wire_version "security + nat" nat "'c transport"
  | DnsTransport nat "'c transport"
  | WebDnsTransport doh_config "'c transport"

definition resolver_config :: "('kp, 'c) transport_lib \<Rightarrow> dns_resolver \<Rightarrow> nat" where
  "resolver_config lib r = (case r of
     Google \<Rightarrow> udp_and_tcp lib GoogleServers
   | Cloudflare \<Rightarrow> udp_and_tcp lib CloudflareServers
   | Quad9 \<Rightarrow> udp_and_tcp lib Quad9Servers
   | LocalResolver \<Rightarrow> (case read_system_conf lib of None \<Rightarrow> resolver_default lib | Some c \<Rightarrow> c)
   | NoResolver \<Rightarrow> resolver_default lib)"

definition other_error :: "string \<Rightarrow> connexa_error" where
  "other_error e = ErrIo (IoErr OtherKind (Message e))"

abbreviation or_other :: "('a, string) result \<Rightarrow> 'a connexa_result" where
  "or_other r \<equiv> map_sum other_error id r"

fun parse_certs :: "('kp, 'c) transport_lib \<Rightarrow> string list \<Rightarrow> bytes list connexa_result" where
  "parse_certs lib [] = Inr []"
| "parse_certs lib (c # cs) =
     try_res (map_sum (\<lambda>e. ErrIo (IoErr InvalidDataKind (Message e))) id (parse_pem lib c)) (\<lambda>cert.
     try_res (parse_certs lib cs) (\<lambda>certs. Inr (cert # certs)))"

definition websocket_tls ::
  "('kp, 'c) transport_lib \<Rightarrow> (string list \<times> string) option \<Rightarrow> nat connexa_result" where
  "websocket_tls lib pem =
     try_res (case pem of
         Some (certs, kp) \<Rightarrow>
           try_res (or_other (key_from_pem lib kp)) (\<lambda>key.
           try_res (parse_certs lib certs) (\<lambda>certs. Inr (certs, key)))
       | None \<Rightarrow> try_res (or_other (self_signed lib)) (\<lambda>(cert, key). Inr ([cert], key)))
     (\<lambda>(certs, key). or_other (ws_tls_config lib key certs))"

definition add_websocket ::
  "('kp, 'c) transport_lib \<Rightarrow> 'c transport_config \<Rightarrow> 'c \<Rightarrow> 'c transport \<Rightarrow> 'c transport connexa_result" where
  "add_websocket lib cfg tcp_config t =
     (if \<not> enable_websocket cfg then Inr t
      else if enable_secure_websocket cfg
      then try_res (websocket_tls lib (websocket_pem cfg)) (\<lambda>tls. Inr (OrTransport (WebsocketTransport tcp_config (Some tls)) t))
      else Inr (OrTransport (WebsocketTransport tcp_config None) t))"

definition generate_webrtc_transport :: "('kp, 'c) transport_lib \<Rightarrow> string option \<Rightarrow> nat connexa_result" where
  "generate_webrtc_transport lib pem = (case pem of
     Some pem \<Rightarrow> or_other (webrtc_from_pem lib pem)
   | None \<Rightarrow> or_other (webrtc_generate lib))"

definition base_transport :: "bool \<Rightarrow> 'c transport_config \<Rightarrow> 'c transport" where
  "base_transport relay cfg =
     (let t = (if enable_memory_transport cfg then MemoryTransport else DummyTransport)
      in if relay then OrTransport RelayTransport t else t)"

definition add_pnet :: "'c transport_config \<Rightarrow> 'c transport \<Rightarrow> 'c transport" where
  "add_pnet cfg t = (case (enable_pnet cfg, pnet_psk cfg) of (True, Some psk) \<Rightarrow> Pnet psk t | _ \<Rightarrow> t)"

definition secured_transport ::
  "('kp, 'c) transport_lib \<Rightarrow> 'kp \<Rightarrow> bool \<Rightarrow> 'c transport_config \<Rightarrow> 'c transport connexa_result" where
  "secured_transport lib kp relay cfg =
     try_res (or_other (noise_config lib kp)) (\<lambda>noise.
     try_res (or_other (tls_config lib kp)) (\<lambda>tls.
     let tcp_config = tcp_config_callback cfg (tcp_default lib);
         t = base_transport relay cfg;
         t = (if enable_tcp cfg then OrTransport (TcpTransport tcp_config) t else t)
     in try_res (add_websocket lib cfg tcp_config t) (\<lambda>t.
        Inr (Secured (wire_version_of (tc_version cfg)) (Inl (SelectUpgrade noise tls)) (tc_timeout cfg) (add_pnet cfg t)))))"

text \<open>WebRTC and QUIC secure themselves; DNS names are resolved for all.\<close>

definition add_direct_transports ::
  "('kp, 'c) transport_lib \<Rightarrow> 'kp \<Rightarrow> 'c transport_config \<Rightarrow> 'c transport \<Rightarrow> 'c transport connexa_result" where
  "add_direct_transports lib kp cfg t =
     try_res (if enable_webrtc cfg
         then try_res (generate_webrtc_transport lib (webrtc_pem cfg)) (\<lambda>cert. Inr (OrTransport (WebRtcTransport cert) t))
         else Inr t) (\<lambda>t.
     let t = (if enable_quic cfg then OrTransport (QuicTransport (quic_config_callback cfg (quic_config lib kp))) t else t);
         t = (if enable_dns cfg
              then DnsTransport (resolver_config lib (case dns_resolver cfg of None \<Rightarrow> Cloudflare | Some r \<Rightarrow> r)) t else t)
     in Inr t)"

definition build_transport ::
  "('kp, 'c) transport_lib \<Rightarrow> 'kp \<Rightarrow> bool \<Rightarrow> 'c transport_config \<Rightarrow> 'c transport connexa_result" where
  "build_transport lib kp relay cfg =
     (if enable_pnet cfg \<and> enable_quic cfg
      then Inl (ErrInvalidConfig ''pnet cannot be combined with QUIC because QUIC does not support the pnet handshake'')
      else if enable_pnet cfg \<and> enable_webrtc cfg
      then Inl (ErrInvalidConfig ''pnet cannot be combined with native WebRTC because native WebRTC does not support the pnet handshake'')
      else try_res (secured_transport lib kp relay cfg) (add_direct_transports lib kp cfg))"

definition build_transport_web ::
  "('kp, 'c) transport_lib \<Rightarrow> 'kp \<Rightarrow> bool \<Rightarrow> 'c transport_config \<Rightarrow> 'c transport connexa_result" where
  "build_transport_web lib kp relay cfg =
     (let t = base_transport relay cfg in
      try_res (or_other (noise_config lib kp)) (\<lambda>noise.
      let t = (if enable_websocket cfg \<or> enable_secure_websocket cfg then OrTransport WebsysWebsocket t else t);
          t = Secured (wire_version_of (tc_version cfg)) (Inr noise) (tc_timeout cfg) t;
          t = (if enable_webtransport cfg then OrTransport WebTransport t else t);
          t = (if enable_webrtc cfg then OrTransport WebsysWebRtc t else t);
          t = (if enable_dns cfg then
                 (let resolver = (case dns_resolver cfg of None \<Rightarrow> Cloudflare | Some r \<Rightarrow> r);
                      c = (case resolver of Cloudflare \<Rightarrow> cloudflare | _ \<Rightarrow> google)
                  in WebDnsTransport (dns_config_fn cfg c) t)
               else t)
      in Inr t))"

text \<open>A custom transport: what the closure returns, boxed.\<close>

definition build_other_transport :: "('kp \<Rightarrow> ('t, string) result) \<Rightarrow> 'kp \<Rightarrow> ('t, io_err) result" where
  "build_other_transport other kp = map_sum (\<lambda>e. IoErr OtherKind (Message e)) id (other kp)"

subsection \<open>What every path through a transport goes through\<close>

text \<open>
  The transports a connection can take, each with the upgrades around it from the inside out. The dummy transport
  carries no connection.
\<close>

datatype 'c layer = PnetLayer psk | SecurityLayer "security + nat" | DnsLayer

fun paths :: "'c transport \<Rightarrow> ('c transport \<times> 'c layer list) list" where
  "paths DummyTransport = []"
| "paths (OrTransport t u) = paths t @ paths u"
| "paths (Pnet psk t) = map (\<lambda>(l, ls). (l, ls @ [PnetLayer psk])) (paths t)"
| "paths (Secured v s n t) = map (\<lambda>(l, ls). (l, ls @ [SecurityLayer s])) (paths t)"
| "paths (DnsTransport r t) = map (\<lambda>(l, ls). (l, ls @ [DnsLayer])) (paths t)"
| "paths (WebDnsTransport c t) = map (\<lambda>(l, ls). (l, ls @ [DnsLayer])) (paths t)"
| "paths leaf = [(leaf, [])]"

lemma map_sum_Inr_iff: "map_sum f g r = Inr y \<longleftrightarrow> (\<exists>x. r = Inr x \<and> y = g x)"
  by (cases r) auto

lemma base_paths: "(l, ls) \<in> set (paths (base_transport relay cfg)) \<Longrightarrow> ls = []"
  by (auto simp: base_transport_def Let_def split: if_splits)

lemma websocket_paths:
  "add_websocket lib cfg tcp t = Inr t' \<Longrightarrow> (l, ls) \<in> set (paths t') \<Longrightarrow> (l, ls) \<in> set (paths t) \<or> ls = []"
  by (auto simp: add_websocket_def try_res_Inr_iff split: if_splits)

lemma secured_paths:
  assumes "secured_transport lib kp relay cfg = Inr t" "(l, ls) \<in> set (paths t)"
  shows "\<exists>s. ls = (if enable_pnet cfg then map PnetLayer (case pnet_psk cfg of None \<Rightarrow> [] | Some psk \<Rightarrow> [psk]) else []) @ [SecurityLayer s]"
proof -
  from assms(1) obtain tcp t0 v s n where
    t: "t = Secured v s n (add_pnet cfg t0)" and
    t0: "add_websocket lib cfg tcp (if enable_tcp cfg then OrTransport (TcpTransport tcp) (base_transport relay cfg)
      else base_transport relay cfg) = Inr t0"
    by (auto simp: secured_transport_def try_res_Inr_iff Let_def)
  have leaf: "ls' = []" if "(l', ls') \<in> set (paths t0)" for l' ls'
    using websocket_paths [OF t0 that] by (auto split: if_splits dest: base_paths)
  from assms(2) t leaf show ?thesis
    by (auto simp: add_pnet_def split: option.splits bool.splits)
qed

end
