(* ===== verification/Node_Builder.thy ===== *)
theory Node_Builder
  imports Transport_Build Autorelay Keychain Request_Slots
begin

section \<open>Building a node (\<^verbatim>\<open>src/src/builder.rs\<close>, \<^verbatim>\<open>src/src/behaviour.rs\<close>)\<close>

text \<open>
  A builder collects an identity, a keychain, the protocols to enable and their configurations, the transports and
  the application's callbacks; \<^verbatim>\<open>build\<close> turns it into a node. Configurations of libp2p's protocols are an opaque \<open>'c\<close>, the
  peer store is an \<open>'s\<close>, and what the application brings (behaviours, transports, callbacks, context) is an opaque \<open>'b\<close>. What the libraries and the operating system do is
  the record \<open>node_lib\<close>. A panic is None.
\<close>

datatype 'kp identity_source = Explicit 'kp | FromKeychain label bool
datatype file_desc_limit = MaxLimit | CustomLimit u64
datatype 'kp authenticity = Signed 'kp | OtherAuthenticity nat

record ('kp, 'c, 's) node_config =
  nc_kademlia :: "string \<times> ('c \<Rightarrow> 'c)"
  nc_gossipsub :: "'kp \<Rightarrow> 'c \<Rightarrow> 'c \<times> 'kp authenticity"
  nc_floodsub :: "'c \<Rightarrow> 'c"
  nc_ping :: "'c \<Rightarrow> 'c"
  nc_autonat_v1 :: "'c \<Rightarrow> 'c"
  nc_autonat_v2_client :: "'c \<Rightarrow> 'c"
  nc_relay_server :: "'c \<Rightarrow> 'c"
  nc_autorelay :: "config \<Rightarrow> config"
  nc_identify :: "string \<times> ('c \<Rightarrow> 'c)"
  nc_request_response :: "rr_config list"
  nc_allow_list :: "peer_id list"
  nc_deny_list :: "peer_id list"
  nc_connection_limits :: "'c \<Rightarrow> 'c"
  nc_peer_store :: "'s option"

definition node_config_default :: "('kp, 'c, 's) node_config" where
  "node_config_default = \<lparr>nc_kademlia = (''/ipfs/kad/1.0.0'', \<lambda>c. c), nc_gossipsub = (\<lambda>kp c. (c, Signed kp)),
     nc_floodsub = (\<lambda>c. c), nc_ping = (\<lambda>c. c), nc_autonat_v1 = (\<lambda>c. c), nc_autonat_v2_client = (\<lambda>c. c),
     nc_relay_server = (\<lambda>c. c), nc_autorelay = (\<lambda>c. c), nc_identify = (''/ipfs/id'', \<lambda>c. c), nc_request_response = [],
     nc_allow_list = [], nc_deny_list = [], nc_connection_limits = (\<lambda>c. c), nc_peer_store = None\<rparr>"

record protocols =
  pr_gossipsub :: bool
  pr_floodsub :: bool
  pr_kad :: bool
  pr_relay_client :: bool
  pr_relay_server :: bool
  pr_autorelay :: bool
  pr_dcutr :: bool
  pr_mdns :: bool
  pr_identify :: bool
  pr_autonat_v1 :: bool
  pr_autonat_v2_client :: bool
  pr_autonat_v2_server :: bool
  pr_rendezvous_client :: bool
  pr_rendezvous_server :: bool
  pr_upnp :: bool
  pr_ping :: bool
  pr_streams :: bool
  pr_request_response :: bool
  pr_connection_limits :: bool
  pr_allow_list :: bool
  pr_deny_list :: bool
  pr_peer_store :: bool

definition protocols_default :: protocols where
  "protocols_default = \<lparr>pr_gossipsub = False, pr_floodsub = False, pr_kad = False, pr_relay_client = False, pr_relay_server = False, pr_autorelay = False, pr_dcutr = False, pr_mdns = False, pr_identify = False, pr_autonat_v1 = False, pr_autonat_v2_client = False, pr_autonat_v2_server = False, pr_rendezvous_client = False, pr_rendezvous_server = False, pr_upnp = False, pr_ping = False, pr_streams = False, pr_request_response = False, pr_connection_limits = False, pr_allow_list = False, pr_deny_list = False, pr_peer_store = False\<rparr>"

record ('kp, 'c, 's, 'b, 'be) builder =
  b_identity :: "'kp identity_source"
  b_keychain :: "'be keychain"
  b_context :: 'b
  b_custom_behaviour :: "('kp \<Rightarrow> ('b, io_err) result) option"
  b_file_descriptor_limits :: "file_desc_limit option"
  b_custom_task_callback :: 'b
  b_custom_event_callback :: 'b
  b_swarm_event_callback :: 'b
  b_preload_callback :: 'b
  b_custom_pollable_callback :: 'b
  b_config :: "('kp, 'c, 's) node_config"
  b_swarm_config :: "'c \<Rightarrow> 'c"
  b_transport :: "'c transport_config"
  b_custom_transport :: "('kp \<Rightarrow> ('b, string) result) option"
  b_webrtc_cert :: "('kp \<Rightarrow> (string, io_err) result) option"
  b_websocket_cert :: "('kp \<Rightarrow> (string list \<times> string, io_err) result) option"
  b_protocols :: protocols

text \<open>\<open>unset\<close> is the callback that does nothing and the context's default value.\<close>

definition from_identity :: "'b \<Rightarrow> 'kp identity_source \<Rightarrow> 'be keychain \<Rightarrow> ('kp, 'c, 's, 'b, 'be) builder" where
  "from_identity unset idn kc = \<lparr>b_identity = idn, b_keychain = kc, b_context = unset, b_custom_behaviour = None,
     b_file_descriptor_limits = None, b_custom_task_callback = unset, b_custom_event_callback = unset,
     b_swarm_event_callback = unset, b_preload_callback = unset, b_custom_pollable_callback = unset,
     b_config = node_config_default, b_swarm_config = (\<lambda>c. c), b_transport = transport_config_default,
     b_custom_transport = None, b_webrtc_cert = None, b_websocket_cert = None, b_protocols = protocols_default\<rparr>"

subsection \<open>Identities\<close>

text \<open>Forms of a keypair; decoding is done by libp2p, and a source may fail to be read.\<close>

datatype 'kp keypair_arg =
    KeypairValue 'kp | KeypairSeed u8 | KeypairBytes bytes | KeypairReader "(bytes, io_err) result" | KeypairBase64 string
  | KeypairOption "'kp keypair_arg option"

record 'kp keypair_lib =
  ed25519_from_bytes :: "bytes \<Rightarrow> ('kp, string) result"
  base64_decode :: "string \<Rightarrow> (bytes, string) result"
  keypair_from_protobuf :: "bytes \<Rightarrow> ('kp, string) result"
  generate_ed25519 :: 'kp

abbreviation io_other :: "('a, string) result \<Rightarrow> ('a, io_err) result" where
  "io_other r \<equiv> map_sum (\<lambda>e. IoErr OtherKind (Message e)) id r"

text \<open>The one-byte seed is decoded with \<^verbatim>\<open>expect\<close>.\<close>

fun into_keypair :: "'kp keypair_lib \<Rightarrow> 'kp keypair_arg \<Rightarrow> ('kp, io_err) result option" where
  "into_keypair lib (KeypairValue kp) = Some (Inr kp)"
| "into_keypair lib (KeypairSeed seed) = (case ed25519_from_bytes lib (seed # replicate 31 0) of Inl _ \<Rightarrow> None | Inr kp \<Rightarrow> Some (Inr kp))"
| "into_keypair lib (KeypairBytes bs) = Some (io_other (ed25519_from_bytes lib bs))"
| "into_keypair lib (KeypairReader r) = (case r of
     Inl e \<Rightarrow> Some (Inl e)
   | Inr [] \<Rightarrow> Some (Inl (IoErr InvalidDataKind (Message ''empty keypair'')))
   | Inr bs \<Rightarrow> Some (io_other (ed25519_from_bytes lib bs)))"
| "into_keypair lib (KeypairBase64 text) =
     Some (try_res (io_other (base64_decode lib text)) (\<lambda>bs. io_other (keypair_from_protobuf lib bs)))"
| "into_keypair lib (KeypairOption (Some source)) = into_keypair lib source"
| "into_keypair lib (KeypairOption None) = Some (Inr (generate_ed25519 lib))"

definition new_identity :: "'b \<Rightarrow> (bytes \<Rightarrow> aead) \<Rightarrow> 'be \<Rightarrow> ('kp, 'c, 's, 'b, 'be) builder" where
  "new_identity unset aead be = from_identity unset (FromKeychain ''identity'' True) (disabled_keychain aead be)"

definition with_identity_and_keychain ::
  "'b \<Rightarrow> 'kp keypair_lib \<Rightarrow> 'kp keypair_arg \<Rightarrow> 'be keychain \<Rightarrow> ('kp, 'c, 's, 'b, 'be) builder connexa_result option" where
  "with_identity_and_keychain unset lib kp kc =
     map_option (map_sum ErrIo (\<lambda>kp. from_identity unset (Explicit kp) kc)) (into_keypair lib kp)"

definition with_existing_identity ::
  "'b \<Rightarrow> 'kp keypair_lib \<Rightarrow> 'kp keypair_arg \<Rightarrow> (bytes \<Rightarrow> aead) \<Rightarrow> 'be \<Rightarrow> ('kp, 'c, 's, 'b, 'be) builder connexa_result option" where
  "with_existing_identity unset lib kp aead be =
     map_option (map_sum ErrIo (\<lambda>kp. from_identity unset (Explicit kp) (disabled_keychain aead be))) (into_keypair lib kp)"

definition with_keychain_identity :: "'b \<Rightarrow> 'be keychain \<Rightarrow> label \<Rightarrow> ('kp, 'c, 's, 'b, 'be) builder" where
  "with_keychain_identity unset kc l = from_identity unset (FromKeychain l True) kc"

definition with_existing_keychain_identity :: "'b \<Rightarrow> 'be keychain \<Rightarrow> label \<Rightarrow> ('kp, 'c, 's, 'b, 'be) builder" where
  "with_existing_keychain_identity unset kc l = from_identity unset (FromKeychain l False) kc"

subsection \<open>Options\<close>

definition enable_protocol :: "(protocols \<Rightarrow> protocols) \<Rightarrow> ('kp, 'c, 's, 'b, 'be) builder \<Rightarrow> ('kp, 'c, 's, 'b, 'be) builder" where
  "enable_protocol f b = b\<lparr>b_protocols := f (b_protocols b)\<rparr>"

definition configure :: "(('kp, 'c, 's) node_config \<Rightarrow> ('kp, 'c, 's) node_config) \<Rightarrow> ('kp, 'c, 's, 'b, 'be) builder \<Rightarrow> ('kp, 'c, 's, 'b, 'be) builder" where
  "configure f b = b\<lparr>b_config := f (b_config b)\<rparr>"

definition set_transport :: "('c transport_config \<Rightarrow> 'c transport_config) \<Rightarrow> ('kp, 'c, 's, 'b, 'be) builder \<Rightarrow> ('kp, 'c, 's, 'b, 'be) builder" where
  "set_transport f b = b\<lparr>b_transport := f (b_transport b)\<rparr>"

definition set_swarm_config :: "('c \<Rightarrow> 'c) \<Rightarrow> ('kp, 'c, 's, 'b, 'be) builder \<Rightarrow> ('kp, 'c, 's, 'b, 'be) builder" where
  "set_swarm_config f b = b\<lparr>b_swarm_config := f\<rparr>"

definition set_file_descriptor_limit :: "file_desc_limit \<Rightarrow> ('kp, 'c, 's, 'b, 'be) builder \<Rightarrow> ('kp, 'c, 's, 'b, 'be) builder" where
  "set_file_descriptor_limit limit b = b\<lparr>b_file_descriptor_limits := Some limit\<rparr>"

definition set_custom_task_callback :: "'b \<Rightarrow> ('kp, 'c, 's, 'b, 'be) builder \<Rightarrow> ('kp, 'c, 's, 'b, 'be) builder" where
  "set_custom_task_callback f b = b\<lparr>b_custom_task_callback := f\<rparr>"

definition set_custom_event_callback :: "'b \<Rightarrow> ('kp, 'c, 's, 'b, 'be) builder \<Rightarrow> ('kp, 'c, 's, 'b, 'be) builder" where
  "set_custom_event_callback f b = b\<lparr>b_custom_event_callback := f\<rparr>"

definition set_pollable_callback :: "'b \<Rightarrow> ('kp, 'c, 's, 'b, 'be) builder \<Rightarrow> ('kp, 'c, 's, 'b, 'be) builder" where
  "set_pollable_callback f b = b\<lparr>b_custom_pollable_callback := f\<rparr>"

definition set_swarm_event_callback :: "'b \<Rightarrow> ('kp, 'c, 's, 'b, 'be) builder \<Rightarrow> ('kp, 'c, 's, 'b, 'be) builder" where
  "set_swarm_event_callback f b = b\<lparr>b_swarm_event_callback := f\<rparr>"

definition set_preload :: "'b \<Rightarrow> ('kp, 'c, 's, 'b, 'be) builder \<Rightarrow> ('kp, 'c, 's, 'b, 'be) builder" where
  "set_preload f b = b\<lparr>b_preload_callback := f\<rparr>"

definition set_context :: "'b \<Rightarrow> ('kp, 'c, 's, 'b, 'be) builder \<Rightarrow> ('kp, 'c, 's, 'b, 'be) builder" where
  "set_context f b = b\<lparr>b_context := f\<rparr>"

definition set_keychain :: "'be keychain \<Rightarrow> ('kp, 'c, 's, 'b, 'be) builder \<Rightarrow> ('kp, 'c, 's, 'b, 'be) builder" where
  "set_keychain kc b = b\<lparr>b_keychain := kc\<rparr>"

definition with_kademlia_with_config :: "string \<Rightarrow> ('c \<Rightarrow> 'c) \<Rightarrow> ('kp, 'c, 's, 'b, 'be) builder \<Rightarrow> ('kp, 'c, 's, 'b, 'be) builder" where
  "with_kademlia_with_config protocol f b = configure (\<lambda>c. c\<lparr>nc_kademlia := (protocol, f)\<rparr>) (enable_protocol (\<lambda>p. p\<lparr>pr_kad := True\<rparr>) b)"

definition with_kademlia :: "('kp, 'c, 's, 'b, 'be) builder \<Rightarrow> ('kp, 'c, 's, 'b, 'be) builder" where
  "with_kademlia b = with_kademlia_with_config ''/ipfs/kad/1.0.0'' (\<lambda>c. c) b"

definition with_peer_store_with_store :: "'s \<Rightarrow> ('kp, 'c, 's, 'b, 'be) builder \<Rightarrow> ('kp, 'c, 's, 'b, 'be) builder" where
  "with_peer_store_with_store store b = configure (\<lambda>c. c\<lparr>nc_peer_store := Some store\<rparr>) (enable_protocol (\<lambda>p. p\<lparr>pr_peer_store := True\<rparr>) b)"

definition with_peer_store :: "'s \<Rightarrow> ('kp, 'c, 's, 'b, 'be) builder \<Rightarrow> ('kp, 'c, 's, 'b, 'be) builder" where
  "with_peer_store store_default b = with_peer_store_with_store store_default b"

definition with_mdns :: "('kp, 'c, 's, 'b, 'be) builder \<Rightarrow> ('kp, 'c, 's, 'b, 'be) builder" where
  "with_mdns b = enable_protocol (\<lambda>p. p\<lparr>pr_mdns := True\<rparr>) b"

definition with_relay :: "('kp, 'c, 's, 'b, 'be) builder \<Rightarrow> ('kp, 'c, 's, 'b, 'be) builder" where
  "with_relay b = enable_protocol (\<lambda>p. p\<lparr>pr_relay_client := True\<rparr>) b"

definition with_dcutr :: "('kp, 'c, 's, 'b, 'be) builder \<Rightarrow> ('kp, 'c, 's, 'b, 'be) builder" where
  "with_dcutr b = enable_protocol (\<lambda>p. p\<lparr>pr_dcutr := True\<rparr>) b"

definition with_upnp :: "('kp, 'c, 's, 'b, 'be) builder \<Rightarrow> ('kp, 'c, 's, 'b, 'be) builder" where
  "with_upnp b = enable_protocol (\<lambda>p. p\<lparr>pr_upnp := True\<rparr>) b"

definition with_rendezvous_server :: "('kp, 'c, 's, 'b, 'be) builder \<Rightarrow> ('kp, 'c, 's, 'b, 'be) builder" where
  "with_rendezvous_server b = enable_protocol (\<lambda>p. p\<lparr>pr_rendezvous_server := True\<rparr>) b"

definition with_rendezvous_client :: "('kp, 'c, 's, 'b, 'be) builder \<Rightarrow> ('kp, 'c, 's, 'b, 'be) builder" where
  "with_rendezvous_client b = enable_protocol (\<lambda>p. p\<lparr>pr_rendezvous_client := True\<rparr>) b"

definition with_streams :: "('kp, 'c, 's, 'b, 'be) builder \<Rightarrow> ('kp, 'c, 's, 'b, 'be) builder" where
  "with_streams b = enable_protocol (\<lambda>p. p\<lparr>pr_streams := True\<rparr>) b"

definition with_autonat_v2_server :: "('kp, 'c, 's, 'b, 'be) builder \<Rightarrow> ('kp, 'c, 's, 'b, 'be) builder" where
  "with_autonat_v2_server b = enable_protocol (\<lambda>p. p\<lparr>pr_autonat_v2_server := True\<rparr>) b"

definition with_autorelay_with_config :: "(config \<Rightarrow> config) \<Rightarrow> ('kp, 'c, 's, 'b, 'be) builder \<Rightarrow> ('kp, 'c, 's, 'b, 'be) builder" where
  "with_autorelay_with_config f b = configure (\<lambda>c. c\<lparr>nc_autorelay := f\<rparr>) (enable_protocol (\<lambda>p. p\<lparr>pr_autorelay := True\<rparr>) b)"

definition with_autorelay :: "('kp, 'c, 's, 'b, 'be) builder \<Rightarrow> ('kp, 'c, 's, 'b, 'be) builder" where
  "with_autorelay b = with_autorelay_with_config (\<lambda>c. c) b"

definition with_relay_server_with_config :: "('c \<Rightarrow> 'c) \<Rightarrow> ('kp, 'c, 's, 'b, 'be) builder \<Rightarrow> ('kp, 'c, 's, 'b, 'be) builder" where
  "with_relay_server_with_config f b = configure (\<lambda>c. c\<lparr>nc_relay_server := f\<rparr>) (enable_protocol (\<lambda>p. p\<lparr>pr_relay_server := True\<rparr>) b)"

definition with_relay_server :: "('kp, 'c, 's, 'b, 'be) builder \<Rightarrow> ('kp, 'c, 's, 'b, 'be) builder" where
  "with_relay_server b = with_relay_server_with_config (\<lambda>c. c) b"

definition with_identify_with_config :: "string \<Rightarrow> ('c \<Rightarrow> 'c) \<Rightarrow> ('kp, 'c, 's, 'b, 'be) builder \<Rightarrow> ('kp, 'c, 's, 'b, 'be) builder" where
  "with_identify_with_config protocol f b = configure (\<lambda>c. c\<lparr>nc_identify := (protocol, f)\<rparr>) (enable_protocol (\<lambda>p. p\<lparr>pr_identify := True\<rparr>) b)"

definition with_identify :: "('kp, 'c, 's, 'b, 'be) builder \<Rightarrow> ('kp, 'c, 's, 'b, 'be) builder" where
  "with_identify b = with_identify_with_config ''/ipfs/id'' (\<lambda>c. c) b"

definition with_gossipsub_with_config :: "('kp \<Rightarrow> 'c \<Rightarrow> 'c \<times> 'kp authenticity) \<Rightarrow> ('kp, 'c, 's, 'b, 'be) builder \<Rightarrow> ('kp, 'c, 's, 'b, 'be) builder" where
  "with_gossipsub_with_config f b = configure (\<lambda>c. c\<lparr>nc_gossipsub := f\<rparr>) (enable_protocol (\<lambda>p. p\<lparr>pr_gossipsub := True\<rparr>) b)"

definition with_gossipsub :: "('kp, 'c, 's, 'b, 'be) builder \<Rightarrow> ('kp, 'c, 's, 'b, 'be) builder" where
  "with_gossipsub b = with_gossipsub_with_config (\<lambda>kp c. (c, Signed kp)) b"

definition with_floodsub_with_config :: "('c \<Rightarrow> 'c) \<Rightarrow> ('kp, 'c, 's, 'b, 'be) builder \<Rightarrow> ('kp, 'c, 's, 'b, 'be) builder" where
  "with_floodsub_with_config f b = configure (\<lambda>c. c\<lparr>nc_floodsub := f\<rparr>) (enable_protocol (\<lambda>p. p\<lparr>pr_floodsub := True\<rparr>) b)"

definition with_floodsub :: "('kp, 'c, 's, 'b, 'be) builder \<Rightarrow> ('kp, 'c, 's, 'b, 'be) builder" where
  "with_floodsub b = with_floodsub_with_config (\<lambda>c. c) b"

definition with_request_responses :: "rr_config list \<Rightarrow> ('kp, 'c, 's, 'b, 'be) builder \<Rightarrow> ('kp, 'c, 's, 'b, 'be) builder" where
  "with_request_responses configs b = configure (\<lambda>c. c\<lparr>nc_request_response := with_request_response configs\<rparr>) (enable_protocol (\<lambda>p. p\<lparr>pr_request_response := True\<rparr>) b)"

definition with_autonat_v1_with_config :: "('c \<Rightarrow> 'c) \<Rightarrow> ('kp, 'c, 's, 'b, 'be) builder \<Rightarrow> ('kp, 'c, 's, 'b, 'be) builder" where
  "with_autonat_v1_with_config f b = configure (\<lambda>c. c\<lparr>nc_autonat_v1 := f\<rparr>) (enable_protocol (\<lambda>p. p\<lparr>pr_autonat_v1 := True\<rparr>) b)"

definition with_autonat_v1 :: "('kp, 'c, 's, 'b, 'be) builder \<Rightarrow> ('kp, 'c, 's, 'b, 'be) builder" where
  "with_autonat_v1 b = with_autonat_v1_with_config (\<lambda>c. c) b"

definition with_autonat_v2_client_with_config :: "('c \<Rightarrow> 'c) \<Rightarrow> ('kp, 'c, 's, 'b, 'be) builder \<Rightarrow> ('kp, 'c, 's, 'b, 'be) builder" where
  "with_autonat_v2_client_with_config f b = configure (\<lambda>c. c\<lparr>nc_autonat_v2_client := f\<rparr>) (enable_protocol (\<lambda>p. p\<lparr>pr_autonat_v2_client := True\<rparr>) b)"

definition with_autonat_v2_client :: "('kp, 'c, 's, 'b, 'be) builder \<Rightarrow> ('kp, 'c, 's, 'b, 'be) builder" where
  "with_autonat_v2_client b = with_autonat_v2_client_with_config (\<lambda>c. c) b"

definition with_ping_with_config :: "('c \<Rightarrow> 'c) \<Rightarrow> ('kp, 'c, 's, 'b, 'be) builder \<Rightarrow> ('kp, 'c, 's, 'b, 'be) builder" where
  "with_ping_with_config f b = configure (\<lambda>c. c\<lparr>nc_ping := f\<rparr>) (enable_protocol (\<lambda>p. p\<lparr>pr_ping := True\<rparr>) b)"

definition with_ping :: "('kp, 'c, 's, 'b, 'be) builder \<Rightarrow> ('kp, 'c, 's, 'b, 'be) builder" where
  "with_ping b = with_ping_with_config (\<lambda>c. c) b"

definition with_whitelist_with_list :: "peer_id list \<Rightarrow> ('kp, 'c, 's, 'b, 'be) builder \<Rightarrow> ('kp, 'c, 's, 'b, 'be) builder" where
  "with_whitelist_with_list f b = configure (\<lambda>c. c\<lparr>nc_allow_list := f\<rparr>) (enable_protocol (\<lambda>p. p\<lparr>pr_allow_list := True\<rparr>) b)"

definition with_whitelist :: "('kp, 'c, 's, 'b, 'be) builder \<Rightarrow> ('kp, 'c, 's, 'b, 'be) builder" where
  "with_whitelist b = with_whitelist_with_list [] b"

definition with_blacklist_with_list :: "peer_id list \<Rightarrow> ('kp, 'c, 's, 'b, 'be) builder \<Rightarrow> ('kp, 'c, 's, 'b, 'be) builder" where
  "with_blacklist_with_list f b = configure (\<lambda>c. c\<lparr>nc_deny_list := f\<rparr>) (enable_protocol (\<lambda>p. p\<lparr>pr_deny_list := True\<rparr>) b)"

definition with_blacklist :: "('kp, 'c, 's, 'b, 'be) builder \<Rightarrow> ('kp, 'c, 's, 'b, 'be) builder" where
  "with_blacklist b = with_blacklist_with_list [] b"

definition with_connection_limits_with_config :: "('c \<Rightarrow> 'c) \<Rightarrow> ('kp, 'c, 's, 'b, 'be) builder \<Rightarrow> ('kp, 'c, 's, 'b, 'be) builder" where
  "with_connection_limits_with_config f b = configure (\<lambda>c. c\<lparr>nc_connection_limits := f\<rparr>) (enable_protocol (\<lambda>p. p\<lparr>pr_connection_limits := True\<rparr>) b)"

definition with_connection_limits :: "('kp, 'c, 's, 'b, 'be) builder \<Rightarrow> ('kp, 'c, 's, 'b, 'be) builder" where
  "with_connection_limits b = with_connection_limits_with_config (\<lambda>c. c) b"

definition with_custom_behaviour :: "('kp \<Rightarrow> ('b, io_err) result) \<Rightarrow> ('kp, 'c, 's, 'b, 'be) builder \<Rightarrow> ('kp, 'c, 's, 'b, 'be) builder" where
  "with_custom_behaviour f b = b\<lparr>b_custom_behaviour := Some f\<rparr>"

definition with_custom_behaviour_with_context :: "'x \<Rightarrow> ('kp \<Rightarrow> 'x \<Rightarrow> ('b, io_err) result) \<Rightarrow> ('kp, 'c, 's, 'b, 'be) builder \<Rightarrow> ('kp, 'c, 's, 'b, 'be) builder" where
  "with_custom_behaviour_with_context x f b = b\<lparr>b_custom_behaviour := Some (\<lambda>kp. f kp x)\<rparr>"

definition enable_quic_with_config :: "('c \<Rightarrow> 'c) \<Rightarrow> ('kp, 'c, 's, 'b, 'be) builder \<Rightarrow> ('kp, 'c, 's, 'b, 'be) builder" where
  "enable_quic_with_config f b = set_transport (\<lambda>t. t\<lparr>quic_config_callback := f, enable_quic := True\<rparr>) b"

text \<open>\<open>keep_alive\<close> and \<open>max_idle\<close> set the fields of QUIC's configuration, \<open>nodelay\<close> the one of TCP's; both times are in milliseconds.\<close>

definition enable_quic_default :: "(nat \<Rightarrow> 'c \<Rightarrow> 'c) \<Rightarrow> (nat \<Rightarrow> 'c \<Rightarrow> 'c) \<Rightarrow> ('kp, 'c, 's, 'b, 'be) builder \<Rightarrow> ('kp, 'c, 's, 'b, 'be) builder" where
  "enable_quic_default keep_alive max_idle b = enable_quic_with_config (\<lambda>c. max_idle 300 (keep_alive 100 c)) b"

definition enable_tcp_with_config :: "('c \<Rightarrow> 'c) \<Rightarrow> ('kp, 'c, 's, 'b, 'be) builder \<Rightarrow> ('kp, 'c, 's, 'b, 'be) builder" where
  "enable_tcp_with_config f b = set_transport (\<lambda>t. t\<lparr>tcp_config_callback := f, enable_tcp := True\<rparr>) b"

definition enable_tcp_default :: "(bool \<Rightarrow> 'c \<Rightarrow> 'c) \<Rightarrow> ('kp, 'c, 's, 'b, 'be) builder \<Rightarrow> ('kp, 'c, 's, 'b, 'be) builder" where
  "enable_tcp_default nodelay b = enable_tcp_with_config (nodelay True) b"

definition enable_private_network :: "psk \<Rightarrow> ('kp, 'c, 's, 'b, 'be) builder \<Rightarrow> ('kp, 'c, 's, 'b, 'be) builder" where
  "enable_private_network key b = set_transport (\<lambda>t. t\<lparr>enable_pnet := True, pnet_psk := Some key\<rparr>) b"

definition enable_websockets :: "('kp, 'c, 's, 'b, 'be) builder \<Rightarrow> ('kp, 'c, 's, 'b, 'be) builder" where
  "enable_websockets b = set_transport (\<lambda>t. t\<lparr>enable_websocket := True\<rparr>) b"

definition enable_secure_websockets :: "('kp, 'c, 's, 'b, 'be) builder \<Rightarrow> ('kp, 'c, 's, 'b, 'be) builder" where
  "enable_secure_websockets b = set_transport (\<lambda>t. t\<lparr>enable_secure_websocket := True, enable_websocket := True\<rparr>) b"

definition enable_secure_websocket_with_pem :: "string \<Rightarrow> string list \<Rightarrow> ('kp, 'c, 's, 'b, 'be) builder \<Rightarrow> ('kp, 'c, 's, 'b, 'be) builder" where
  "enable_secure_websocket_with_pem keypair certs b = set_transport (\<lambda>t. t\<lparr>enable_secure_websocket := True, enable_websocket := True, websocket_pem := Some (certs, keypair)\<rparr>) b"

definition enable_secure_websocket_with_config :: "('kp \<Rightarrow> (string list \<times> string, io_err) result) \<Rightarrow> ('kp, 'c, 's, 'b, 'be) builder \<Rightarrow> ('kp, 'c, 's, 'b, 'be) builder" where
  "enable_secure_websocket_with_config f b = (enable_secure_websockets b)\<lparr>b_websocket_cert := Some f\<rparr>"

definition enable_dns_with_resolver :: "dns_resolver \<Rightarrow> ('kp, 'c, 's, 'b, 'be) builder \<Rightarrow> ('kp, 'c, 's, 'b, 'be) builder" where
  "enable_dns_with_resolver resolver b = set_transport (\<lambda>t. t\<lparr>dns_resolver := Some resolver, enable_dns := True\<rparr>) b"

definition enable_dns_default :: "('kp, 'c, 's, 'b, 'be) builder \<Rightarrow> ('kp, 'c, 's, 'b, 'be) builder" where
  "enable_dns_default b = enable_dns_with_resolver Cloudflare b"

definition enable_dns_with_resolver_and_config :: "dns_resolver \<Rightarrow> (doh_config \<Rightarrow> doh_config) \<Rightarrow> ('kp, 'c, 's, 'b, 'be) builder \<Rightarrow> ('kp, 'c, 's, 'b, 'be) builder" where
  "enable_dns_with_resolver_and_config resolver f b = set_transport (\<lambda>t. t\<lparr>dns_resolver := Some resolver, dns_config_fn := f, enable_dns := True\<rparr>) b"

definition enable_web_rtc :: "('kp, 'c, 's, 'b, 'be) builder \<Rightarrow> ('kp, 'c, 's, 'b, 'be) builder" where
  "enable_web_rtc b = set_transport (\<lambda>t. t\<lparr>enable_webrtc := True\<rparr>) b"

definition enable_webrtc_with_config :: "('kp \<Rightarrow> (string, io_err) result) \<Rightarrow> ('kp, 'c, 's, 'b, 'be) builder \<Rightarrow> ('kp, 'c, 's, 'b, 'be) builder" where
  "enable_webrtc_with_config f b = (enable_web_rtc b)\<lparr>b_webrtc_cert := Some f\<rparr>"

definition enable_webrtc_with_pem :: "string \<Rightarrow> ('kp, 'c, 's, 'b, 'be) builder \<Rightarrow> ('kp, 'c, 's, 'b, 'be) builder" where
  "enable_webrtc_with_pem pem b = enable_webrtc_with_config (\<lambda>_. Inr pem) b"

definition enable_web_transport :: "('kp, 'c, 's, 'b, 'be) builder \<Rightarrow> ('kp, 'c, 's, 'b, 'be) builder" where
  "enable_web_transport b = set_transport (\<lambda>t. t\<lparr>enable_webtransport := True\<rparr>) b"

definition enable_memory_transports :: "('kp, 'c, 's, 'b, 'be) builder \<Rightarrow> ('kp, 'c, 's, 'b, 'be) builder" where
  "enable_memory_transports b = set_transport (\<lambda>t. t\<lparr>enable_memory_transport := True\<rparr>) b"

definition with_custom_transport :: "('kp \<Rightarrow> ('b, string) result) \<Rightarrow> ('kp, 'c, 's, 'b, 'be) builder \<Rightarrow> ('kp, 'c, 's, 'b, 'be) builder" where
  "with_custom_transport f b = b\<lparr>b_custom_transport := Some f\<rparr>"

subsection \<open>The behaviours of a node (\<^verbatim>\<open>Behaviour::new\<close>)\<close>

text \<open>
  Every protocol is present or absent. A list of peers stands for libp2p's allow or deny list after these peers were inserted in turn.
\<close>

record ('kp, 'c, 's, 'b, 'rr) behaviours =
  nb_allow_list :: "peer_id list option"
  nb_deny_list :: "peer_id list option"
  nb_connection_limits :: "'c option"
  nb_peer_store :: "'s option"
  nb_relay :: "'c option"
  nb_relay_client :: bool
  nb_autorelay :: "autorelay option"
  nb_upnp :: bool
  nb_dcutr :: bool
  nb_rendezvous_client :: bool
  nb_rendezvous_server :: bool
  nb_mdns :: bool
  nb_kademlia :: "'c option"
  nb_identify :: "'c option"
  nb_gossipsub :: "('kp authenticity \<times> 'c) option"
  nb_floodsub :: "'c option"
  nb_ping :: "'c option"
  nb_stream :: bool
  nb_autonat_v1 :: "'c option"
  nb_autonat_v2_client :: "'c option"
  nb_autonat_v2_server :: bool
  nb_requests :: "'rr rr_state rr_slots"
  nb_custom :: "'b option"

record ('kp, 'c, 'rr, 'o) node_lib =
  lib_transport :: "('kp, 'c) transport_lib"
  lib_peer_id :: "'kp \<Rightarrow> peer_id"
  lib_generate :: 'kp
  lib_mdns :: "peer_id \<Rightarrow> (unit, io_err) result"
  lib_valid_protocol :: "string \<Rightarrow> bool"
  lib_kad_config :: "string \<Rightarrow> 'c"
  lib_identify_config :: "string \<Rightarrow> 'kp \<Rightarrow> 'c"
  lib_floodsub_config :: "peer_id \<Rightarrow> 'c"
  lib_default :: 'c
  lib_gossipsub_build :: "'c \<Rightarrow> ('c, string) result"
  lib_gossipsub_new :: "'kp authenticity \<Rightarrow> 'c \<Rightarrow> (unit, string) result"
  lib_relay_env :: autorelay_env
  lib_rr_ops :: "('rr, 'o) rr_ops"
  lib_rlimit :: "bool \<Rightarrow> (u64 \<times> u64, io_err) result"
  lib_set_rlimit :: "u64 \<Rightarrow> u64 \<Rightarrow> (unit, io_err) result"

definition toggled :: "bool \<Rightarrow> 'a \<Rightarrow> 'a option" where
  "toggled c a = (if c then Some a else None)"

definition kademlia_new ::
  "('kp, 'c, 'rr, 'o) node_lib \<Rightarrow> bool \<Rightarrow> ('kp, 'c, 's) node_config \<Rightarrow> 'c option connexa_result" where
  "kademlia_new lib enabled cfg =
     (if \<not> enabled then Inr None
      else case nc_kademlia cfg of (protocol, f) \<Rightarrow>
        if lib_valid_protocol lib protocol then Inr (Some (f (lib_kad_config lib protocol)))
        else Inl (other_error ''invalid protocol''))"

definition gossipsub_new ::
  "('kp, 'c, 'rr, 'o) node_lib \<Rightarrow> 'kp \<Rightarrow> bool \<Rightarrow> ('kp, 'c, 's) node_config \<Rightarrow> ('kp authenticity \<times> 'c) option connexa_result" where
  "gossipsub_new lib kp enabled cfg =
     (if \<not> enabled then Inr None
      else case nc_gossipsub cfg kp (lib_default lib) of (c, auth) \<Rightarrow>
        try_res (or_other (lib_gossipsub_build lib c)) (\<lambda>c.
        try_res (or_other (lib_gossipsub_new lib auth c)) (\<lambda>_. Inr (Some (auth, c)))))"

text \<open>
  The result is None for a panic: the relay behaviour and the request-response behaviours may panic, and so does an enabled peer
  store without a store.
\<close>

definition behaviour_new ::
  "('kp, 'c, 'rr, 'o) node_lib \<Rightarrow> 'kp \<Rightarrow> 'b option \<Rightarrow> ('kp, 'c, 's) node_config \<Rightarrow> protocols \<Rightarrow>
   (('kp, 'c, 's, 'b, 'rr) behaviours \<times> bool) connexa_result option" where
  "behaviour_new lib kp custom cfg p =
     (if pr_allow_list p \<and> pr_deny_list p
      then Some (Inl (ErrInvalidConfig ''blocklist and whitelist cannot be enabled at the same time''))
      else case (if pr_mdns p then map_sum ErrIo id (lib_mdns lib (lib_peer_id lib kp)) else Inr ()) of
        Inl e \<Rightarrow> Some (Inl e)
      | Inr _ \<Rightarrow> (case kademlia_new lib (pr_kad p) cfg of
        Inl e \<Rightarrow> Some (Inl e)
      | Inr kad \<Rightarrow> (case gossipsub_new lib kp (pr_gossipsub p) cfg of
        Inl e \<Rightarrow> Some (Inl e)
      | Inr gossipsub \<Rightarrow>
        do { relay \<leftarrow> (if pr_autorelay p
               then map_option Some (new_with_config (lib_relay_env lib) (nc_autorelay cfg config_default)) else Some None);
             store \<leftarrow> (if pr_peer_store p then map_option Some (nc_peer_store cfg) else Some None);
             requests \<leftarrow> register_all (pr_request_response p) (lib_valid_protocol lib) (rr_new (lib_rr_ops lib) (lib_valid_protocol lib)) (nc_request_response cfg);
             Some (case requests of
               Inl e \<Rightarrow> Inl (ErrIo e)
             | Inr slots \<Rightarrow> Inr (\<lparr>nb_allow_list = toggled (pr_allow_list p) (nc_allow_list cfg),
                 nb_deny_list = toggled (pr_deny_list p) (nc_deny_list cfg),
                 nb_connection_limits = toggled (pr_connection_limits p) (nc_connection_limits cfg (lib_default lib)),
                 nb_peer_store = store, nb_relay = toggled (pr_relay_server p) (nc_relay_server cfg (lib_default lib)),
                 nb_relay_client = pr_relay_client p, nb_autorelay = relay, nb_upnp = pr_upnp p, nb_dcutr = pr_dcutr p,
                 nb_rendezvous_client = pr_rendezvous_client p, nb_rendezvous_server = pr_rendezvous_server p,
                 nb_mdns = pr_mdns p, nb_kademlia = kad,
                 nb_identify = toggled (pr_identify p) (snd (nc_identify cfg) (lib_identify_config lib (fst (nc_identify cfg)) kp)),
                 nb_gossipsub = gossipsub,
                 nb_floodsub = toggled (pr_floodsub p) (nc_floodsub cfg (lib_floodsub_config lib (lib_peer_id lib kp))),
                 nb_ping = toggled (pr_ping p) (nc_ping cfg (lib_default lib)), nb_stream = pr_streams p,
                 nb_autonat_v1 = toggled (pr_autonat_v1 p) (nc_autonat_v1 cfg (lib_default lib)),
                 nb_autonat_v2_client = toggled (pr_autonat_v2_client p) (nc_autonat_v2_client cfg (lib_default lib)),
                 nb_autonat_v2_server = pr_autonat_v2_server p, nb_requests = slots, nb_custom = custom\<rparr>,
               pr_relay_client p)) })))"

subsection \<open>Build\<close>

record ('kp, 'c, 's, 'b, 'rr) node =
  n_keypair :: 'kp
  n_peer_id :: peer_id
  n_behaviours :: "('kp, 'c, 's, 'b, 'rr) behaviours"
  n_transport :: "'c transport + 'b"
  n_swarm_config :: 'c
  n_file_limit :: "u64 option"
  n_context :: 'b
  n_preload :: 'b
  n_task_callback :: 'b
  n_event_callback :: 'b
  n_swarm_event_callback :: 'b
  n_pollable_callback :: 'b

text \<open>The node's task starts with the context and the callbacks of the builder, after \<open>n_preload\<close> has run on the swarm.\<close>

text \<open>The identity: given, or from the keychain, which may create and store it.\<close>

definition resolve_identity ::
  "'be backend_ops \<Rightarrow> ('kp, 'pk) identity \<Rightarrow> ('kp, 'be) kc_env \<Rightarrow> 'kp \<Rightarrow> 'kp identity_source \<Rightarrow> 'be keychain \<Rightarrow>
   'be keychain \<times> 'kp connexa_result" where
  "resolve_identity ops idn env fresh source kc = (case source of
     Explicit kp \<Rightarrow> (kc, Inr kp)
   | FromKeychain l create \<Rightarrow>
       (if disabled kc then (kc, if create then Inr fresh else Inl ErrKeychainNotProvided)
        else case (if create then kc_get_or_create ops idn env l kc else kc_get ops idn env l kc) of
          (kc, r) \<Rightarrow> (kc, map_sum ErrKeystore id r)))"

text \<open>The soft limit on open files, never above the hard one; the limit is read before and after (True) it is set.\<close>

definition set_file_limit :: "('kp, 'c, 'rr, 'o) node_lib \<Rightarrow> file_desc_limit option \<Rightarrow> u64 option connexa_result" where
  "set_file_limit lib limit = (case limit of
     None \<Rightarrow> Inr None
   | Some limit \<Rightarrow>
       try_res (map_sum ErrIo id (lib_rlimit lib False)) (\<lambda>(_, hard).
       let target = min hard (case limit of MaxLimit \<Rightarrow> hard | CustomLimit n \<Rightarrow> n) in
       try_res (map_sum ErrIo id (lib_set_rlimit lib target hard)) (\<lambda>_.
       try_res (map_sum ErrIo id (lib_rlimit lib True)) (\<lambda>_. Inr (Some target)))))"

text \<open>
  The part of \<^verbatim>\<open>build\<close> that follows once the identity is known: first what the application's closures return for the keypair and the
  limit on open files, then the behaviours and the transport.
\<close>

definition prepare_build ::
  "('kp, 'c, 'rr, 'o) node_lib \<Rightarrow> ('kp, 'c, 's, 'b, 'be) builder \<Rightarrow> 'kp \<Rightarrow>
   ('b option \<times> 'c transport_config \<times> 'b option \<times> u64 option) connexa_result" where
  "prepare_build lib b kp =
     try_res (case b_custom_behaviour b of None \<Rightarrow> Inr None | Some f \<Rightarrow> map_sum ErrIo Some (f kp)) (\<lambda>custom.
     try_res (case b_webrtc_cert b of None \<Rightarrow> Inr (b_transport b)
       | Some cert \<Rightarrow> map_sum ErrIo (\<lambda>pem. (b_transport b)\<lparr>webrtc_pem := Some pem\<rparr>) (cert kp)) (\<lambda>cfg.
     try_res (case b_websocket_cert b of None \<Rightarrow> Inr cfg
       | Some cert \<Rightarrow> map_sum ErrIo (\<lambda>pem. cfg\<lparr>websocket_pem := Some pem\<rparr>) (cert kp)) (\<lambda>cfg.
     try_res (case b_custom_transport b of None \<Rightarrow> Inr None
       | Some f \<Rightarrow> map_sum ErrIo Some (build_other_transport f kp)) (\<lambda>custom_transport.
     try_res (set_file_limit lib (b_file_descriptor_limits b)) (\<lambda>file_limit.
     Inr (custom, cfg, custom_transport, file_limit))))))"

definition finish_build ::
  "('kp, 'c, 'rr, 'o) node_lib \<Rightarrow> ('kp, 'c, 's, 'b, 'be) builder \<Rightarrow> 'kp \<Rightarrow> ('kp, 'c, 's, 'b, 'rr) node connexa_result option" where
  "finish_build lib b kp = (case prepare_build lib b kp of
     Inl e \<Rightarrow> Some (Inl e)
   | Inr (custom, cfg, custom_transport, file_limit) \<Rightarrow>
       map_option (\<lambda>r. try_res r (\<lambda>(behaviours, relay).
         try_res (case custom_transport of Some t \<Rightarrow> Inr (Inr t)
           | None \<Rightarrow> map_sum id Inl (build_transport (lib_transport lib) kp relay cfg)) (\<lambda>transport.
         Inr \<lparr>n_keypair = kp, n_peer_id = lib_peer_id lib kp, n_behaviours = behaviours, n_transport = transport,
              n_swarm_config = b_swarm_config b (lib_default lib), n_file_limit = file_limit,
              n_context = b_context b, n_preload = b_preload_callback b, n_task_callback = b_custom_task_callback b,
              n_event_callback = b_custom_event_callback b, n_swarm_event_callback = b_swarm_event_callback b,
              n_pollable_callback = b_custom_pollable_callback b\<rparr>)))
         (behaviour_new lib kp custom (b_config b) (b_protocols b)))"

definition build ::
  "'be backend_ops \<Rightarrow> ('kp, 'pk) identity \<Rightarrow> ('kp, 'be) kc_env \<Rightarrow> ('kp, 'c, 'rr, 'o) node_lib \<Rightarrow>
   ('kp, 'c, 's, 'b, 'be) builder \<Rightarrow> 'be keychain \<times> ('kp, 'c, 's, 'b, 'rr) node connexa_result option" where
  "build ops idn env lib b =
     (if enable_pnet (b_transport b) \<and> b_custom_transport b \<noteq> None
      then (b_keychain b, Some (Inl (ErrInvalidConfig
        ''pnet cannot be combined with a custom transport because custom transports replace the built-in pnet handshake'')))
      else case resolve_identity ops idn env (lib_generate lib) (b_identity b) (b_keychain b) of
        (kc, Inl e) \<Rightarrow> (kc, Some (Inl e))
      | (kc, Inr kp) \<Rightarrow> (kc, finish_build lib b kp))"

end
