(* ===== verification/Node_Builder_Properties.thy ===== *)
theory Node_Builder_Properties
  imports Node_Builder Keychain_Examples Autorelay_Properties
begin

section \<open>What a built node guarantees\<close>

text \<open>
  A builder an application can hold is one of the constructors' results followed by options in any order. Over
  these builders: the flags and their data agree, so that \<^verbatim>\<open>build\<close> never panics; the transports of the node are the enabled ones in a
  fixed order of preference, every connection is secured, and a private network has no way around its key; an identity from the
  keychain is the same in every later build.
\<close>

inductive configured :: "('kp, 'c, 's, 'b, 'be) builder \<Rightarrow> bool" where
  created: "configured (from_identity unset idn kc)"
| set_swarm_config_option: "configured b \<Longrightarrow> configured (set_swarm_config f b)"
| set_file_descriptor_limit_option: "configured b \<Longrightarrow> configured (set_file_descriptor_limit limit b)"
| set_custom_task_callback_option: "configured b \<Longrightarrow> configured (set_custom_task_callback f b)"
| set_custom_event_callback_option: "configured b \<Longrightarrow> configured (set_custom_event_callback f b)"
| set_pollable_callback_option: "configured b \<Longrightarrow> configured (set_pollable_callback f b)"
| set_swarm_event_callback_option: "configured b \<Longrightarrow> configured (set_swarm_event_callback f b)"
| set_preload_option: "configured b \<Longrightarrow> configured (set_preload f b)"
| set_context_option: "configured b \<Longrightarrow> configured (set_context f b)"
| set_keychain_option: "configured b \<Longrightarrow> configured (set_keychain kc b)"
| with_kademlia_with_config_option: "configured b \<Longrightarrow> configured (with_kademlia_with_config protocol f b)"
| with_kademlia_option: "configured b \<Longrightarrow> configured (with_kademlia b)"
| with_peer_store_with_store_option: "configured b \<Longrightarrow> configured (with_peer_store_with_store store b)"
| with_peer_store_option: "configured b \<Longrightarrow> configured (with_peer_store store_default b)"
| with_mdns_option: "configured b \<Longrightarrow> configured (with_mdns b)"
| with_relay_option: "configured b \<Longrightarrow> configured (with_relay b)"
| with_dcutr_option: "configured b \<Longrightarrow> configured (with_dcutr b)"
| with_upnp_option: "configured b \<Longrightarrow> configured (with_upnp b)"
| with_rendezvous_server_option: "configured b \<Longrightarrow> configured (with_rendezvous_server b)"
| with_rendezvous_client_option: "configured b \<Longrightarrow> configured (with_rendezvous_client b)"
| with_streams_option: "configured b \<Longrightarrow> configured (with_streams b)"
| with_autonat_v2_server_option: "configured b \<Longrightarrow> configured (with_autonat_v2_server b)"
| with_autorelay_with_config_option: "configured b \<Longrightarrow> configured (with_autorelay_with_config f b)"
| with_autorelay_option: "configured b \<Longrightarrow> configured (with_autorelay b)"
| with_relay_server_with_config_option: "configured b \<Longrightarrow> configured (with_relay_server_with_config f b)"
| with_relay_server_option: "configured b \<Longrightarrow> configured (with_relay_server b)"
| with_identify_with_config_option: "configured b \<Longrightarrow> configured (with_identify_with_config protocol f b)"
| with_identify_option: "configured b \<Longrightarrow> configured (with_identify b)"
| with_gossipsub_with_config_option: "configured b \<Longrightarrow> configured (with_gossipsub_with_config f b)"
| with_gossipsub_option: "configured b \<Longrightarrow> configured (with_gossipsub b)"
| with_floodsub_with_config_option: "configured b \<Longrightarrow> configured (with_floodsub_with_config f b)"
| with_floodsub_option: "configured b \<Longrightarrow> configured (with_floodsub b)"
| with_request_responses_option: "configured b \<Longrightarrow> configured (with_request_responses configs b)"
| with_autonat_v1_with_config_option: "configured b \<Longrightarrow> configured (with_autonat_v1_with_config f b)"
| with_autonat_v1_option: "configured b \<Longrightarrow> configured (with_autonat_v1 b)"
| with_autonat_v2_client_with_config_option: "configured b \<Longrightarrow> configured (with_autonat_v2_client_with_config f b)"
| with_autonat_v2_client_option: "configured b \<Longrightarrow> configured (with_autonat_v2_client b)"
| with_ping_with_config_option: "configured b \<Longrightarrow> configured (with_ping_with_config f b)"
| with_ping_option: "configured b \<Longrightarrow> configured (with_ping b)"
| with_whitelist_with_list_option: "configured b \<Longrightarrow> configured (with_whitelist_with_list f b)"
| with_whitelist_option: "configured b \<Longrightarrow> configured (with_whitelist b)"
| with_blacklist_with_list_option: "configured b \<Longrightarrow> configured (with_blacklist_with_list f b)"
| with_blacklist_option: "configured b \<Longrightarrow> configured (with_blacklist b)"
| with_connection_limits_with_config_option: "configured b \<Longrightarrow> configured (with_connection_limits_with_config f b)"
| with_connection_limits_option: "configured b \<Longrightarrow> configured (with_connection_limits b)"
| with_custom_behaviour_option: "configured b \<Longrightarrow> configured (with_custom_behaviour f b)"
| with_custom_behaviour_with_context_option: "configured b \<Longrightarrow> configured (with_custom_behaviour_with_context (x :: 'b) f b)"
| enable_quic_with_config_option: "configured b \<Longrightarrow> configured (enable_quic_with_config f b)"
| enable_quic_default_option: "configured b \<Longrightarrow> configured (enable_quic_default keep_alive max_idle b)"
| enable_tcp_with_config_option: "configured b \<Longrightarrow> configured (enable_tcp_with_config f b)"
| enable_tcp_default_option: "configured b \<Longrightarrow> configured (enable_tcp_default nodelay b)"
| enable_private_network_option: "configured b \<Longrightarrow> configured (enable_private_network key b)"
| enable_websockets_option: "configured b \<Longrightarrow> configured (enable_websockets b)"
| enable_secure_websockets_option: "configured b \<Longrightarrow> configured (enable_secure_websockets b)"
| enable_secure_websocket_with_pem_option: "configured b \<Longrightarrow> configured (enable_secure_websocket_with_pem keypair certs b)"
| enable_secure_websocket_with_config_option: "configured b \<Longrightarrow> configured (enable_secure_websocket_with_config f b)"
| enable_dns_with_resolver_option: "configured b \<Longrightarrow> configured (enable_dns_with_resolver resolver b)"
| enable_dns_default_option: "configured b \<Longrightarrow> configured (enable_dns_default b)"
| enable_dns_with_resolver_and_config_option: "configured b \<Longrightarrow> configured (enable_dns_with_resolver_and_config resolver f b)"
| enable_web_rtc_option: "configured b \<Longrightarrow> configured (enable_web_rtc b)"
| enable_webrtc_with_config_option: "configured b \<Longrightarrow> configured (enable_webrtc_with_config f b)"
| enable_webrtc_with_pem_option: "configured b \<Longrightarrow> configured (enable_webrtc_with_pem pem b)"
| enable_web_transport_option: "configured b \<Longrightarrow> configured (enable_web_transport b)"
| enable_memory_transports_option: "configured b \<Longrightarrow> configured (enable_memory_transports b)"
| with_custom_transport_option: "configured b \<Longrightarrow> configured (with_custom_transport f b)"

text \<open>What the options keep: data goes with its flag.\<close>

definition builder_inv :: "('kp, 'c, 's, 'b, 'be) builder \<Rightarrow> bool" where
  "builder_inv b \<longleftrightarrow> (pr_peer_store (b_protocols b) \<longrightarrow> nc_peer_store (b_config b) \<noteq> None)
     \<and> (enable_pnet (b_transport b) \<longrightarrow> pnet_psk (b_transport b) \<noteq> None)
     \<and> (enable_secure_websocket (b_transport b) \<longrightarrow> enable_websocket (b_transport b))
     \<and> (b_websocket_cert b \<noteq> None \<longrightarrow> enable_secure_websocket (b_transport b))
     \<and> (b_webrtc_cert b \<noteq> None \<longrightarrow> enable_webrtc (b_transport b))
     \<and> (pr_request_response (b_protocols b) \<longrightarrow> nc_request_response (b_config b) \<noteq> [])
     \<and> length (nc_request_response (b_config b)) \<le> 10"

lemmas option_defs = enable_protocol_def configure_def set_transport_def set_swarm_config_def set_file_descriptor_limit_def set_custom_task_callback_def
  set_custom_event_callback_def set_pollable_callback_def set_swarm_event_callback_def set_preload_def
  set_context_def set_keychain_def with_kademlia_with_config_def with_kademlia_def
  with_peer_store_with_store_def with_peer_store_def with_mdns_def with_relay_def with_dcutr_def with_upnp_def
  with_rendezvous_server_def with_rendezvous_client_def with_streams_def with_autonat_v2_server_def
  with_autorelay_with_config_def with_autorelay_def with_relay_server_with_config_def with_relay_server_def
  with_identify_with_config_def with_identify_def with_gossipsub_with_config_def with_gossipsub_def
  with_floodsub_with_config_def with_floodsub_def with_request_responses_def with_autonat_v1_with_config_def
  with_autonat_v1_def with_autonat_v2_client_with_config_def with_autonat_v2_client_def
  with_ping_with_config_def with_ping_def with_whitelist_with_list_def with_whitelist_def
  with_blacklist_with_list_def with_blacklist_def with_connection_limits_with_config_def
  with_connection_limits_def with_custom_behaviour_def with_custom_behaviour_with_context_def
  enable_quic_with_config_def enable_quic_default_def enable_tcp_with_config_def enable_tcp_default_def
  enable_private_network_def enable_websockets_def enable_secure_websockets_def
  enable_secure_websocket_with_pem_def enable_secure_websocket_with_config_def enable_dns_with_resolver_def
  enable_dns_default_def enable_dns_with_resolver_and_config_def enable_web_rtc_def
  enable_webrtc_with_config_def enable_webrtc_with_pem_def enable_web_transport_def
  enable_memory_transports_def with_custom_transport_def

lemma request_list: "with_request_response cs \<noteq> []" "length (with_request_response cs) \<le> 10"
  by (auto simp: with_request_response_def Let_def)

lemma configured_inv: "configured b \<Longrightarrow> builder_inv b"
proof (induction rule: configured.induct)
  case (created unset idn kc)
  show ?case by (simp add: builder_inv_def from_identity_def node_config_default_def transport_config_default_def protocols_default_def)
qed (simp_all add: builder_inv_def option_defs request_list)

subsection \<open>No panic\<close>

lemma register_no_panic: "register_all en valid (rr_new ops valid) cs \<noteq> None"
proof -
  have "register_protocols en valid (rr_new ops valid) i cs ex sl \<noteq> None" for i ex sl
    by (induction cs arbitrary: i ex sl) (auto simp: rr_new_def Let_def)
  from this [of 0 "[]" "\<lambda>_. None"] show ?thesis by (auto simp: register_all_def split: option.split sum.split)
qed

lemma relay_new_total: "\<exists>s. new_with_config env cfg = Some s"
  using new_with_config_good by blast

lemma behaviour_new_total:
  assumes "pr_peer_store p \<longrightarrow> nc_peer_store cfg \<noteq> None"
  shows "behaviour_new lib kp custom cfg p \<noteq> None"
proof -
  let ?relay = "new_with_config (lib_relay_env lib) (nc_autorelay cfg config_default)"
  let ?rr = "register_all (pr_request_response p) (lib_valid_protocol lib) (rr_new (lib_rr_ops lib) (lib_valid_protocol lib))
    (nc_request_response cfg)"
  obtain s where s: "?relay = Some s" using relay_new_total by blast
  obtain r where r: "?rr = Some r" using register_no_panic by blast
  show ?thesis using assms by (auto simp: behaviour_new_def s r split: sum.split)
qed

lemma build_total:
  assumes "configured b"
  shows "\<exists>kc r. build ops idn env lib b = (kc, Some r)"
proof -
  have inv: "pr_peer_store (b_protocols b) \<longrightarrow> nc_peer_store (b_config b) \<noteq> None"
    using configured_inv [OF assms] by (simp add: builder_inv_def)
  have total: "\<exists>r. finish_build lib b kp = Some r" for kp
    using behaviour_new_total [OF inv, of lib kp] by (auto simp: finish_build_def split: sum.split)
  show ?thesis
    using total by (auto simp: build_def split: prod.split sum.split)
qed

text \<open>
  C26: building a node never panics. Whatever constructor and options an application used, in whatever order, and
  whatever the keychain's backend, libp2p and the operating system answer, \<^verbatim>\<open>build\<close> returns a node or an error: the store that an enabled peer
  store unwraps is there, the relay behaviour is made without overflow and a request-response behaviour only for a valid name.
\<close>

theorem build_never_panics: "configured b \<Longrightarrow> \<exists>kc r. build ops idn env lib b = (kc, Some r)"
  by (rule build_total)

subsection \<open>Transports\<close>

datatype path_kind = MemoryKind | RelayKind | TcpKind | WsKind | WssKind | WebRtcKind | QuicKind | WebKind

fun transport_kind :: "'c transport \<Rightarrow> path_kind" where
  "transport_kind MemoryTransport = MemoryKind"
| "transport_kind RelayTransport = RelayKind"
| "transport_kind (TcpTransport _) = TcpKind"
| "transport_kind (WebsocketTransport _ None) = WsKind"
| "transport_kind (WebsocketTransport _ (Some _)) = WssKind"
| "transport_kind (WebRtcTransport _) = WebRtcKind"
| "transport_kind (QuicTransport _) = QuicKind"
| "transport_kind _ = WebKind"

definition kinds :: "'c transport \<Rightarrow> path_kind list" where
  "kinds t = map (\<lambda>(l, _). transport_kind l) (paths t)"

lemma kinds_simps [simp]:
  "kinds DummyTransport = []" "kinds MemoryTransport = [MemoryKind]" "kinds RelayTransport = [RelayKind]"
  "kinds (TcpTransport c) = [TcpKind]" "kinds (WebsocketTransport c None) = [WsKind]"
  "kinds (WebsocketTransport c (Some tls)) = [WssKind]" "kinds (WebRtcTransport n) = [WebRtcKind]" "kinds (QuicTransport c) = [QuicKind]"
  "kinds (OrTransport t u) = kinds t @ kinds u" "kinds (Pnet k t) = kinds t" "kinds (Secured v s n t) = kinds t"
  "kinds (DnsTransport r t) = kinds t"
  by (simp_all add: kinds_def case_prod_beta)

text \<open>The enabled transports, the one that is asked first at the head.\<close>

definition preference :: "bool \<Rightarrow> 'c transport_config \<Rightarrow> path_kind list" where
  "preference relay cfg =
     (if enable_quic cfg then [QuicKind] else []) @ (if enable_webrtc cfg then [WebRtcKind] else [])
     @ (if enable_websocket cfg then [if enable_secure_websocket cfg then WssKind else WsKind] else [])
     @ (if enable_tcp cfg then [TcpKind] else []) @ (if relay then [RelayKind] else [])
     @ (if enable_memory_transport cfg then [MemoryKind] else [])"

lemma preference_pem [simp]:
  "preference relay (cfg\<lparr>webrtc_pem := wp, websocket_pem := sp\<rparr>) = preference relay cfg"
  by (simp add: preference_def cong: if_cong)

lemma kinds_secured:
  assumes "secured_transport lib kp relay cfg = Inr t"
  shows "kinds t = (if enable_websocket cfg then [if enable_secure_websocket cfg then WssKind else WsKind] else [])
     @ (if enable_tcp cfg then [TcpKind] else []) @ (if relay then [RelayKind] else [])
     @ (if enable_memory_transport cfg then [MemoryKind] else [])"
  using assms
  by (auto simp: secured_transport_def try_res_Inr_iff Let_def add_websocket_def add_pnet_def base_transport_def
      split: if_splits option.splits bool.splits)

lemma build_transport_cases:
  assumes "build_transport lib kp relay cfg = Inr t"
  obtains t0 t1 t2 cert where "secured_transport lib kp relay cfg = Inr t0"
    "t1 = (if enable_webrtc cfg then OrTransport (WebRtcTransport cert) t0 else t0)"
    "t2 = (if enable_quic cfg then OrTransport (QuicTransport (quic_config_callback cfg (quic_config lib kp))) t1 else t1)"
    "t = (if enable_dns cfg then DnsTransport (resolver_config lib (case dns_resolver cfg of None \<Rightarrow> Cloudflare | Some r \<Rightarrow> r)) t2
      else t2)" "enable_pnet cfg \<Longrightarrow> \<not> enable_quic cfg \<and> \<not> enable_webrtc cfg"
  using assms by (auto simp: build_transport_def add_direct_transports_def try_res_Inr_iff Let_def split: if_splits)

lemma kinds_build: "build_transport lib kp relay cfg = Inr t \<Longrightarrow> kinds t = preference relay cfg"
  by (erule build_transport_cases) (auto simp: preference_def kinds_secured)

text \<open>The layers around a transport: QUIC and WebRTC are encrypted by themselves.\<close>

definition path_secured :: "psk option \<Rightarrow> 'c transport \<times> 'c layer list \<Rightarrow> bool" where
  "path_secured key = (\<lambda>(l, ls). \<exists>dns. set dns \<subseteq> {DnsLayer} \<and>
     (ls = dns \<and> key = None \<and> transport_kind l \<in> {QuicKind, WebRtcKind}
      \<or> (\<exists>s. ls = (case key of None \<Rightarrow> [] | Some k \<Rightarrow> [PnetLayer k]) @ SecurityLayer s # dns)))"

definition network_key :: "'c transport_config \<Rightarrow> psk option" where
  "network_key cfg = (if enable_pnet cfg then pnet_psk cfg else None)"

lemma network_key_pem [simp]: "network_key (cfg\<lparr>webrtc_pem := wp, websocket_pem := sp\<rparr>) = network_key cfg"
  by (simp add: network_key_def cong: if_cong)

lemma path_securedI:
  "ls = (case key of None \<Rightarrow> [] | Some k \<Rightarrow> [PnetLayer k]) @ [SecurityLayer s] \<Longrightarrow> path_secured key (l, ls)"
  by (auto simp: path_secured_def intro!: exI [where x = "[]"])

lemma path_secured_dns: "path_secured key (l, ls) \<Longrightarrow> path_secured key (l, ls @ [DnsLayer])"
proof -
  assume "path_secured key (l, ls)"
  then obtain dns where dns: "set dns \<subseteq> {DnsLayer}"
    and ls: "ls = dns \<and> key = None \<and> transport_kind l \<in> {QuicKind, WebRtcKind}
      \<or> (\<exists>s. ls = (case key of None \<Rightarrow> [] | Some k \<Rightarrow> [PnetLayer k]) @ SecurityLayer s # dns)"
    unfolding path_secured_def by auto
  show ?thesis unfolding path_secured_def prod.case
    by (rule exI [where x = "dns @ [DnsLayer]"]) (use dns ls in auto)
qed

lemma paths_build:
  fixes cfg :: "'c transport_config"
  assumes "build_transport lib kp relay cfg = Inr t" "enable_pnet cfg \<longrightarrow> pnet_psk cfg \<noteq> None"
  shows "list_all (path_secured (network_key cfg)) (paths t)"
proof (rule build_transport_cases [OF assms(1)])
  fix t0 t1 t2 :: "'c transport" and cert
  let ?sec = "path_secured (network_key cfg)"
  assume t0: "secured_transport lib kp relay cfg = Inr t0"
    and t1: "t1 = (if enable_webrtc cfg then OrTransport (WebRtcTransport cert) t0 else t0)"
    and t2: "t2 = (if enable_quic cfg then OrTransport (QuicTransport (quic_config_callback cfg (quic_config lib kp))) t1 else t1)"
    and t: "t = (if enable_dns cfg
      then DnsTransport (resolver_config lib (case dns_resolver cfg of None \<Rightarrow> Cloudflare | Some r \<Rightarrow> r)) t2 else t2)"
    and excl: "enable_pnet cfg \<Longrightarrow> \<not> enable_quic cfg \<and> \<not> enable_webrtc cfg"
  have "?sec (l, ls)" if "(l, ls) \<in> set (paths t0)" for l ls
    using secured_paths [OF t0 that] assms(2) by (auto simp: network_key_def intro!: path_securedI)
  then have "list_all ?sec (paths t0)" by (auto simp: list_all_iff)
  then have "list_all ?sec (paths t2)"
    using excl by (auto simp: t1 t2 network_key_def path_secured_def)
  then show ?thesis by (auto simp: t list_all_iff intro: path_secured_dns)
qed

lemma prepare_transport:
  assumes "prepare_build lib b kp = Inr (custom, cfg, ct, fl)"
  shows "cfg = (b_transport b)\<lparr>webrtc_pem := webrtc_pem cfg, websocket_pem := websocket_pem cfg\<rparr>"
    and "ct = None \<longleftrightarrow> b_custom_transport b = None"
  using assms by (auto simp: prepare_build_def try_res_Inr_iff map_sum_Inr_iff split: option.splits)

lemma behaviour_new_relay: "behaviour_new lib kp custom cfg p = Some (Inr (bs, relay)) \<Longrightarrow> relay = pr_relay_client p"
  by (auto simp: behaviour_new_def split: if_splits sum.splits option.splits bind_splits)

lemma behaviour_new_lists:
  "behaviour_new lib kp custom cfg p = Some (Inr r) \<Longrightarrow> \<not> (pr_allow_list p \<and> pr_deny_list p)"
  by (auto simp: behaviour_new_def)

lemma finish_build_node:
  assumes "finish_build lib b kp = Some (Inr n)"
  obtains custom cfg ct fl where "prepare_build lib b kp = Inr (custom, cfg, ct, fl)" "n_keypair n = kp"
    "behaviour_new lib kp custom (b_config b) (b_protocols b) = Some (Inr (n_behaviours n, pr_relay_client (b_protocols b)))"
    "(case ct of Some t \<Rightarrow> Inr (Inr t)
       | None \<Rightarrow> map_sum id Inl (build_transport (lib_transport lib) kp (pr_relay_client (b_protocols b)) cfg)) = Inr (n_transport n)"
proof -
  from assms obtain custom cfg ct fl bs relay where p: "prepare_build lib b kp = Inr (custom, cfg, ct, fl)"
    and bs: "behaviour_new lib kp custom (b_config b) (b_protocols b) = Some (Inr (bs, relay))"
    and n: "n_keypair n = kp" "n_behaviours n = bs"
    and t: "(case ct of Some t \<Rightarrow> Inr (Inr t)
       | None \<Rightarrow> map_sum id Inl (build_transport (lib_transport lib) kp relay cfg)) = Inr (n_transport n)"
    by (auto simp: finish_build_def try_res_Inr_iff split: sum.splits cong: option.case_cong)
  note relay = behaviour_new_relay [OF bs]
  show thesis by (rule that [OF p n(1) bs [unfolded relay, folded n(2)] t [unfolded relay]])
qed

lemma build_node:
  assumes "snd (build ops idn env lib b) = Some (Inr n)" "b_custom_transport b = None"
  obtains t wp sp where "n_transport n = Inl t"
    "build_transport (lib_transport lib) (n_keypair n) (pr_relay_client (b_protocols b))
       ((b_transport b)\<lparr>webrtc_pem := wp, websocket_pem := sp\<rparr>) = Inr t"
proof -
  obtain kp where run: "finish_build lib b kp = Some (Inr n)"
    using assms(1) by (auto simp: build_def split: if_splits prod.splits sum.splits)
  obtain custom cfg ct fl where p: "prepare_build lib b kp = Inr (custom, cfg, ct, fl)" and kp: "n_keypair n = kp"
    and t: "(case ct of Some t \<Rightarrow> Inr (Inr t)
       | None \<Rightarrow> map_sum id Inl (build_transport (lib_transport lib) kp (pr_relay_client (b_protocols b)) cfg)) = Inr (n_transport n)"
    using finish_build_node [OF run] by metis
  have ct: "ct = None" using prepare_transport(2) [OF p] assms(2) by simp
  with t obtain t' where t': "n_transport n = Inl t'"
    "build_transport (lib_transport lib) kp (pr_relay_client (b_protocols b)) cfg = Inr t'"
    by (auto simp: map_sum_Inr_iff)
  show thesis
    by (rule that [where wp = "webrtc_pem cfg" and sp = "websocket_pem cfg"]) (use t' prepare_transport(1) [OF p] kp in simp_all)
qed

text \<open>
  C21: the transports of a node. A node built without a custom transport offers exactly the enabled transports,
  in the order QUIC, WebRTC, websocket (secure when so configured), TCP, relay, memory, and every connection is encrypted: by the security
  upgrade or by QUIC and WebRTC themselves.
  On a private network, every connection passes the network's key before the security upgrade, and QUIC and WebRTC are not offered.
\<close>

theorem node_transports:
  assumes "configured b" "b_custom_transport b = None" "snd (build ops idn env lib b) = Some (Inr n)"
  shows "\<exists>t. n_transport n = Inl t \<and> kinds t = preference (pr_relay_client (b_protocols b)) (b_transport b)
    \<and> list_all (path_secured (network_key (b_transport b))) (paths t)"
proof -
  obtain t wp sp where n: "n_transport n = Inl t"
    and t: "build_transport (lib_transport lib) (n_keypair n) (pr_relay_client (b_protocols b))
       ((b_transport b)\<lparr>webrtc_pem := wp, websocket_pem := sp\<rparr>) = Inr t"
    using build_node [OF assms(3,2)] .
  have "enable_pnet (b_transport b) \<longrightarrow> pnet_psk (b_transport b) \<noteq> None"
    using configured_inv [OF assms(1)] by (simp add: builder_inv_def)
  with kinds_build [OF t] paths_build [OF t] n show ?thesis by simp
qed

text \<open>
  Contradictory options are refused. An allow list together with a deny list, and a private network together with
  QUIC, WebRTC or a custom transport, make every build return an error; for the custom transport that is decided before the
  keychain is asked for an identity.
\<close>

theorem conflicting_options_rejected:
  assumes "configured b"
    and "pr_allow_list (b_protocols b) \<and> pr_deny_list (b_protocols b)
      \<or> enable_pnet (b_transport b) \<and> (b_custom_transport b \<noteq> None \<or> enable_quic (b_transport b) \<or> enable_webrtc (b_transport b))"
  shows "\<exists>kc e. build ops idn env lib b = (kc, Some (Inl e))
     \<and> (enable_pnet (b_transport b) \<and> b_custom_transport b \<noteq> None \<longrightarrow> kc = b_keychain b)"
proof -
  obtain kc r where run: "build ops idn env lib b = (kc, Some r)" using build_total [OF assms(1)] by blast
  show ?thesis
  proof (cases r)
    case (Inl e)
    with run show ?thesis by (auto simp: build_def split: if_splits)
  next
    case (Inr n)
    then have n: "snd (build ops idn env lib b) = Some (Inr n)" using run by simp
    then obtain kp where fin: "finish_build lib b kp = Some (Inr n)" and ct: "enable_pnet (b_transport b) \<longrightarrow> b_custom_transport b = None"
      by (auto simp: build_def split: if_splits prod.splits sum.splits)
    have "\<not> (pr_allow_list (b_protocols b) \<and> pr_deny_list (b_protocols b))"
      by (rule finish_build_node [OF fin]) (blast dest: behaviour_new_lists)
    with assms(2) ct have p: "enable_pnet (b_transport b)" "b_custom_transport b = None"
      "enable_quic (b_transport b) \<or> enable_webrtc (b_transport b)" by auto
    show ?thesis by (rule build_node [OF n p(2)]) (use p(1,3) in \<open>auto simp: build_transport_def split: if_splits\<close>)
  qed
qed

subsection \<open>Identity\<close>

lemma reachable_get_or_create:
  assumes reach: "kc_reachable idn kc" and law: "identity_law idn" and slot: "cipher_slot kc = Some c"
    and env: "mem_env env" and stop: "task_stop env = None"
    and run: "kc_get_or_create memory_backend idn env l kc = (kc', Inr kp)"
  shows "kc_reachable idn kc' \<and> cipher_slot kc' = Some c \<and> disabled kc' = disabled kc \<and> \<not> disabled kc
    \<and> validate_label l = Inr () \<and> (\<exists>x. opened idn kc' l = Some x \<and> opened_keypair x = kp
      \<and> (case opened idn kc l of Some y \<Rightarrow> x = y | None \<Rightarrow> md_expires_at (opened_metadata x) = None))"
proof -
  note h = reachable_holds [OF reach law slot]
  note post = hoareD [OF mem.get_or_create_triple [OF law h(2) env [unfolded mem_env_ok] h(3)] h(1) run]
  have "kc_reachable idn kc'" using reach env run by (blast intro: kc_reachable.step kc_step.get_or_create)
  with post stop show ?thesis
    by (auto simp: opened_def slot resolve_def mem.written_def mem.holds_def Let_def get_spec_def
        split: if_splits sum.splits option.splits)
qed

text \<open>An identity the keychain holds is what a build resolves to, whether or not it may create one.\<close>

lemma resolve_known:
  assumes reach: "kc_reachable idn kc" and law: "identity_law idn" and slot: "cipher_slot kc = Some c"
    and env: "mem_env env" and known: "opened idn kc l = Some x" and on: "\<not> disabled kc" "validate_label l = Inr ()"
  shows "snd (resolve_identity memory_backend idn env fresh (FromKeychain l create) kc) =
    (if is_expired (sys_time env) (opened_metadata x) then Inl (ErrKeystore (Expired l)) else Inr (opened_keypair x))"
proof -
  note h = reachable_holds [OF reach law slot]
  obtain kc1 r1 where g: "kc_get_or_create memory_backend idn env l kc = (kc1, r1)" by (metis surj_pair)
  obtain kc2 r2 where s: "kc_get memory_backend idn env l kc = (kc2, r2)" by (metis surj_pair)
  have "r1 = get_spec (opened idn kc) (sys_time env) l"
    using hoareD [OF mem.get_or_create_triple [OF law h(2) env [unfolded mem_env_ok] h(3)] h(1) g] known on
    by (auto simp: opened_holds [OF h(1)])
  moreover have "r2 = get_spec (opened idn kc) (sys_time env) l"
    using reachable_get [OF reach law slot, of env l] s on by simp
  ultimately show ?thesis using known on by (auto simp: resolve_identity_def g s get_spec_def)
qed

text \<open>
  C23: a node keeps its identity. When a node was built with the identity stored under a label of its keychain, created or found
  there, every later build with that keychain and label resolves to the same keypair, unless the key
  had an expiry that has passed since; an identity that the first build created has none. So a node that is built again is the same peer.
\<close>

theorem identity_survives_rebuild:
  assumes reach: "kc_reachable idn (b_keychain b)" and law: "identity_law idn" and slot: "cipher_slot (b_keychain b) = Some c"
    and env: "mem_env env" "task_stop env = None" and on: "\<not> disabled (b_keychain b)"
    and b: "b_identity b = FromKeychain l True"
    and first: "build memory_backend idn env lib b = (kc', Some (Inr n))"
    and b': "b_identity b' = FromKeychain l create" "b_keychain b' = kc'" and env': "mem_env env'"
  shows "snd (resolve_identity memory_backend idn env' fresh (b_identity b') (b_keychain b')) =
      (if \<exists>x t. opened idn (b_keychain b) l = Some x \<and> md_expires_at (opened_metadata x) = Some t \<and> t \<le> sys_time env'
       then Inl (ErrKeystore (Expired l)) else Inr (n_keypair n))
    \<and> (\<forall>n'. snd (build memory_backend idn env' lib' b') = Some (Inr n') \<longrightarrow> n_keypair n' = n_keypair n)"
proof -
  obtain kp where g: "kc_get_or_create memory_backend idn env l (b_keychain b) = (kc', Inr kp)" and fin: "finish_build lib b kp = Some (Inr n)"
    using first b on by (auto simp: build_def resolve_identity_def map_sum_Inr_iff split: if_splits prod.splits sum.splits)
  have kp: "n_keypair n = kp" using finish_build_node [OF fin] by metis
  note after = reachable_get_or_create [OF reach law slot env g]
  then obtain x where x: "opened idn kc' l = Some x" "opened_keypair x = kp"
    "case opened idn (b_keychain b) l of Some y \<Rightarrow> x = y | None \<Rightarrow> md_expires_at (opened_metadata x) = None" by blast
  have res: "snd (resolve_identity memory_backend idn env' fresh (FromKeychain l create) kc') =
    (if is_expired (sys_time env') (opened_metadata x) then Inl (ErrKeystore (Expired l)) else Inr kp)" for fresh
    using resolve_known [OF _ law _ env' x(1)] after on x(2) by metis
  have exp: "is_expired (sys_time env') (opened_metadata x) \<longleftrightarrow>
    (\<exists>x t. opened idn (b_keychain b) l = Some x \<and> md_expires_at (opened_metadata x) = Some t \<and> t \<le> sys_time env')"
    using x(3) by (auto simp: is_expired_def split: option.splits)
  have "n_keypair n' = kp" if run: "snd (build memory_backend idn env' lib' b') = Some (Inr n')" for n'
  proof -
    obtain kp' where "snd (resolve_identity memory_backend idn env' (lib_generate lib') (b_identity b') (b_keychain b')) = Inr kp'"
      and fin': "finish_build lib' b' kp' = Some (Inr n')"
      using run by (auto simp: build_def split: if_splits prod.splits sum.splits)
    with res b' have "kp' = kp" by (auto split: if_splits)
    with finish_build_node [OF fin'] show ?thesis by metis
  qed
  with res b' kp exp show ?thesis by simp
qed

subsection \<open>Instances\<close>

definition example_transport_lib :: "(u8, nat) transport_lib" where
  "example_transport_lib = \<lparr>noise_config = (\<lambda>kp. Inr (unat kp)), tls_config = (\<lambda>kp. Inr (unat kp)), tcp_default = 0,
     quic_config = (\<lambda>_. 0), key_from_pem = (\<lambda>_. Inr []), parse_pem = (\<lambda>_. Inr []), self_signed = Inr ([], []),
     ws_tls_config = (\<lambda>_ _. Inr 0), webrtc_from_pem = (\<lambda>_. Inr 0), webrtc_generate = Inr 0, udp_and_tcp = (\<lambda>_. 0),
     read_system_conf = None, resolver_default = 0\<rparr>"

definition example_node_lib :: "(u8, nat, nat \<times> unit inner_event list, unit) node_lib" where
  "example_node_lib = \<lparr>lib_transport = example_transport_lib, lib_peer_id = (\<lambda>kp. PeerId (unat kp)), lib_generate = 9,
     lib_mdns = (\<lambda>_. Inr ()), lib_valid_protocol = (\<lambda>_. True), lib_kad_config = (\<lambda>_. 0), lib_identify_config = (\<lambda>_ _. 0),
     lib_floodsub_config = (\<lambda>_. 0), lib_default = 0, lib_gossipsub_build = Inr, lib_gossipsub_new = (\<lambda>_ _. Inr ()),
     lib_relay_env = example_env, lib_rr_ops = example_ops, lib_rlimit = (\<lambda>_. Inr (1024, 4096)), lib_set_rlimit = (\<lambda>_ _. Inr ())\<rparr>"

definition example_private :: "(u8, nat, nat, nat, memory_keystore) builder" where
  "example_private = enable_dns_default (enable_private_network [1, 2, 3] (enable_tcp_default (\<lambda>_ c. c)
     (with_relay (with_keychain_identity 0 example_empty ''id''))))"

lemma example_configured: "configured example_private" "configured (with_peer_store 0 example_private)"
  "configured (enable_quic_default (\<lambda>_ c. c) (\<lambda>_ c. c) example_private)"
  by (simp_all add: example_private_def with_keychain_identity_def configured.intros)

lemmas builder_eval = build_def resolve_identity_def finish_build_def prepare_build_def set_file_limit_def behaviour_new_def
  kademlia_new_def gossipsub_new_def register_all_def toggled_def build_transport_def add_direct_transports_def secured_transport_def add_websocket_def
  add_pnet_def base_transport_def resolver_config_def example_transport_lib_def example_node_lib_def example_private_def option_defs
  with_keychain_identity_def from_identity_def node_config_default_def transport_config_default_def protocols_default_def Let_def try_res_def

lemma example_resolve:
  "\<exists>kc. resolve_identity memory_backend example_identity (example_kc_env 5 None) fresh (FromKeychain ''id'' True) example_empty = (kc, Inr 42)"
  by (simp add: resolve_identity_def kc_get_or_create_def keychain_eval try_res_def Let_def)

lemma example_build:
  "\<exists>kc n. build memory_backend example_identity (example_kc_env 5 None) example_node_lib example_private = (kc, Some (Inr n))
     \<and> n_keypair n = 42"
proof -
  obtain kc where r: "resolve_identity memory_backend example_identity (example_kc_env 5 None) 9 (FromKeychain ''id'' True) example_empty
    = (kc, Inr 42)" using example_resolve by blast
  have "\<exists>n. finish_build example_node_lib example_private 42 = Some (Inr n) \<and> n_keypair n = 42"
    by (simp add: builder_eval)
  moreover have "enable_pnet (b_transport example_private) \<and> b_custom_transport example_private \<noteq> None \<longleftrightarrow> False"
    "b_identity example_private = FromKeychain ''id'' True" "b_keychain example_private = example_empty" "lib_generate example_node_lib = 9"
    by (simp_all add: builder_eval)
  ultimately show ?thesis by (auto simp: build_def r)
qed

theorem build_never_panics_witness:
  "\<exists>kc r. build memory_backend example_identity (example_kc_env 5 None) example_node_lib (with_peer_store 0 example_private) = (kc, Some r)"
  by (rule build_never_panics [OF example_configured(2)])

theorem node_transports_witness:
  "\<exists>n t. snd (build memory_backend example_identity (example_kc_env 5 None) example_node_lib example_private) = Some (Inr n)
     \<and> n_transport n = Inl t \<and> kinds t = [TcpKind, RelayKind] \<and> list_all (path_secured (Some [1, 2, 3])) (paths t)"
proof -
  obtain n where n: "snd (build memory_backend example_identity (example_kc_env 5 None) example_node_lib example_private) = Some (Inr n)"
    using example_build by auto
  moreover have "b_custom_transport example_private = None" "network_key (b_transport example_private) = Some [1, 2, 3]"
    "preference (pr_relay_client (b_protocols example_private)) (b_transport example_private) = [TcpKind, RelayKind]"
    by (simp_all add: builder_eval network_key_def preference_def)
  ultimately show ?thesis using node_transports [OF example_configured(1) _ n] by auto
qed

theorem conflicting_options_rejected_witness:
  "\<exists>kc e. build memory_backend example_identity (example_kc_env 5 None) example_node_lib
     (enable_quic_default (\<lambda>_ c. c) (\<lambda>_ c. c) example_private) = (kc, Some (Inl e))"
proof -
  let ?b = "enable_quic_default (\<lambda>_ c. c) (\<lambda>_ c. c) example_private"
  have "enable_pnet (b_transport ?b) \<and> enable_quic (b_transport ?b)" by (simp add: builder_eval)
  then show ?thesis using conflicting_options_rejected [OF example_configured(3)] by blast
qed

theorem identity_survives_rebuild_witness:
  "\<exists>kc n. build memory_backend example_identity (example_kc_env 5 None) example_node_lib example_private = (kc, Some (Inr n))
     \<and> snd (resolve_identity memory_backend example_identity (example_kc_env 900 None) 9 (FromKeychain ''id'' False) kc) = Inr 42"
proof -
  obtain kc n where run: "build memory_backend example_identity (example_kc_env 5 None) example_node_lib example_private = (kc, Some (Inr n))"
    and kp: "n_keypair n = 42" using example_build by blast
  let ?b = "with_existing_keychain_identity 0 kc ''id'' :: (u8, nat, nat, nat, memory_keystore) builder"
  have b: "b_identity example_private = FromKeychain ''id'' True" "b_keychain example_private = example_empty"
    by (simp_all add: builder_eval)
  have b': "b_identity ?b = FromKeychain ''id'' False" "b_keychain ?b = kc"
    by (simp_all add: with_existing_keychain_identity_def from_identity_def)
  have e: "cipher_slot example_empty = Some plaintext_cipher" "\<not> disabled example_empty" "opened example_identity example_empty ''id'' = None"
    by (simp_all add: example_empty_def opened_def vault_def)
  have stop: "task_stop (example_kc_env 5 None) = None" by (simp add: example_kc_env_def)
  have "snd (resolve_identity memory_backend example_identity (example_kc_env 900 None) 9 (b_identity ?b) (b_keychain ?b)) = Inr (n_keypair n)"
    using identity_survives_rebuild [of example_identity example_private plaintext_cipher "example_kc_env 5 None" "''id''"
        example_node_lib kc n ?b False "example_kc_env 900 None" 9 example_node_lib]
      example_kc_reachable(1) example_identity_law example_mem_env stop run b b' e by simp
  with run kp b' show ?thesis by auto
qed

end
