(* ===== verification/Dns_Websys_Properties.thy ===== *)
theory Dns_Websys_Properties
  imports Dns_Websys "HOL-Library.Sublist"
begin

section \<open>What the DNS transport guarantees\<close>

text \<open>
  How much a dial fetches and dials, which addresses it dials, where its result comes from, and how the text of TXT
  records is read from their presentation format.
\<close>

subsection \<open>Traces\<close>

definition is_fetch :: "'u dns_op \<Rightarrow> bool" where
  "is_fetch oper = (case oper of Fetched _ _ \<Rightarrow> True | Dialled _ \<Rightarrow> False)"

definition fetches :: "'u trace \<Rightarrow> nat" where
  "fetches ops = length (filter is_fetch ops)"

text \<open>The dials after \<open>tr\<close> that the inner transport accepted.\<close>

fun accepted :: "('u, 'o, 'e) web \<Rightarrow> 'u trace \<Rightarrow> 'u trace \<Rightarrow> nat" where
  "accepted web tr [] = 0"
| "accepted web tr (Fetched u t # ops) = accepted web (tr @ [Fetched u t]) ops"
| "accepted web tr (Dialled a # ops) =
     (case inner_dial web tr a of Accepted _ \<Rightarrow> 1 | _ \<Rightarrow> 0) + accepted web (tr @ [Dialled a]) ops"

lemma fetches_simps [simp]:
  "fetches [] = 0" "fetches (ops @ ops') = fetches ops + fetches ops'" "fetches (Dialled a # ops) = fetches ops"
  by (simp_all add: fetches_def is_fetch_def)

lemma fetches_le: "fetches ops \<le> length ops"
  by (simp add: fetches_def)

lemma accepted_append [simp]: "accepted web tr (ops @ ops') = accepted web tr ops + accepted web (tr @ ops) ops'"
  by (induction web tr ops rule: accepted.induct) auto

lemma accepted_fetches: "list_all is_fetch ops \<Longrightarrow> accepted web tr ops = 0"
  by (induction web tr ops rule: accepted.induct) (auto simp: is_fetch_def)

lemma accepted_take:
  "tr @ ops = (tr @ ops') @ rest \<Longrightarrow> accepted web tr ops = accepted web tr ops' + accepted web (tr @ ops') rest"
  by simp

text \<open>A lookup only fetches, at most twice.\<close>

definition only_fetches :: "nat \<Rightarrow> 'u trace \<Rightarrow> 'u trace \<Rightarrow> bool" where
  "only_fetches n tr tr' \<longleftrightarrow> (\<exists>ops. tr' = tr @ ops \<and> list_all is_fetch ops \<and> length ops \<le> n)"

lemma only_fetches_refl [simp]: "only_fetches n tr tr"
  by (simp add: only_fetches_def)

lemma only_fetches_trans: "only_fetches m tr tr' \<Longrightarrow> only_fetches n tr' tr'' \<Longrightarrow> only_fetches (m + n) tr tr''"
  unfolding only_fetches_def by force

lemma only_fetches_mono: "only_fetches m tr tr' \<Longrightarrow> m \<le> n \<Longrightarrow> only_fetches n tr tr'"
  unfolding only_fetches_def by force

lemma query_fetches: "query web cfg name qtype tr = (tr', r) \<Longrightarrow> only_fetches 1 tr tr'"
  by (auto simp: query_def doh_get_def Let_def only_fetches_def is_fetch_def split: sum.splits if_splits prod.splits)

lemma lookup_fetches:
  "ipv4_lookup web cfg name tr = (tr', r4) \<Longrightarrow> only_fetches 1 tr tr'"
  "ipv6_lookup web cfg name tr = (tr', r6) \<Longrightarrow> only_fetches 1 tr tr'"
  "txt_lookup web cfg name tr = (tr', rt) \<Longrightarrow> only_fetches 1 tr tr'"
  by (auto simp: ipv4_lookup_def ipv6_lookup_def txt_lookup_def map_ok_def dest: query_fetches split: prod.splits)

lemma resolve_fetches: "resolve_component web cfg p tr = (tr', r) \<Longrightarrow> only_fetches 2 tr tr'"
proof -
  assume "resolve_component web cfg p tr = (tr', r)"
  then consider "tr' = tr" | name r4 where "ipv4_lookup web cfg name tr = (tr', r4)" | name r6 where "ipv6_lookup web cfg name tr = (tr', r6)"
    | name rt where "txt_lookup web cfg name tr = (tr', rt)"
    | name tr1 r4 r6 where "ipv4_lookup web cfg name tr = (tr1, r4)" "ipv6_lookup web cfg name tr1 = (tr', r6)"
    by (auto simp: resolve_component_def split: protocol.splits prod.splits)
  then show ?thesis
  proof cases
    case 5
    from only_fetches_trans [OF lookup_fetches(1) [OF 5(1)] lookup_fetches(2) [OF 5(2)]] show ?thesis by (simp add: numeral_2_eq_2)
  qed (auto dest!: lookup_fetches intro: only_fetches_mono)
qed

subsection \<open>Bounds\<close>

text \<open>What one run of the loop adds to the trace, and where a success comes from.\<close>

definition loop_bounded :: "('u, 'o, 'e) web \<Rightarrow> nat \<Rightarrow> nat \<Rightarrow> 'u trace \<Rightarrow> 'u trace \<times> ('o, 'e dns_error) result \<Rightarrow> bool" where
  "loop_bounded web n k tr x \<longleftrightarrow> (\<exists>ops. fst x = tr @ ops \<and> fetches ops \<le> 2 * (MAX_DNS_LOOKUPS - n)
     \<and> k + accepted web tr ops \<le> MAX_DIAL_ATTEMPTS
     \<and> (\<forall>out. snd x = Inr out \<longrightarrow>
          (\<exists>ops' a. ops = ops' @ [Dialled a] \<and> inner_dial web (tr @ ops') a = Accepted (Inr out))))"

lemma loop_bounded_stop:
  "k \<le> MAX_DIAL_ATTEMPTS \<Longrightarrow> loop_bounded web n k tr (tr, dial_failed es)"
  by (simp add: loop_bounded_def dial_failed_def)

lemma loop_bounded_fetch:
  assumes "only_fetches 2 tr tr1" "n < MAX_DNS_LOOKUPS" "loop_bounded web (Suc n) k tr1 x"
  shows "loop_bounded web n k tr x"
proof -
  obtain ops1 where 1: "tr1 = tr @ ops1" "list_all is_fetch ops1" "length ops1 \<le> 2"
    using assms(1) by (auto simp: only_fetches_def)
  obtain ops where 2: "fst x = tr1 @ ops" "fetches ops \<le> 2 * (MAX_DNS_LOOKUPS - Suc n)" "k + accepted web tr1 ops \<le> MAX_DIAL_ATTEMPTS"
    and ok: "\<And>out. snd x = Inr out \<Longrightarrow> \<exists>ops' a. ops = ops' @ [Dialled a] \<and> inner_dial web (tr1 @ ops') a = Accepted (Inr out)"
    using assms(3) by (auto simp: loop_bounded_def)
  have "fetches (ops1 @ ops) \<le> 2 * (MAX_DNS_LOOKUPS - n)" using fetches_le [of ops1] 1(3) 2(2) assms(2) by simp
  moreover have "k + accepted web tr (ops1 @ ops) \<le> MAX_DIAL_ATTEMPTS" using 1 2(3) by (simp add: accepted_fetches)
  moreover have "\<exists>ops' a. ops1 @ ops = ops' @ [Dialled a] \<and> inner_dial web (tr @ ops') a = Accepted (Inr out)" if "snd x = Inr out" for out
    using ok [OF that] 1(1) by (metis append.assoc)
  ultimately show ?thesis unfolding loop_bounded_def using 1(1) 2(1) by (intro exI [of _ "ops1 @ ops"]) simp
qed

lemma loop_bounded_dial:
  assumes "loop_bounded web n k' (tr @ [Dialled a]) x"
    and "k' = k + (case inner_dial web tr a of Accepted _ \<Rightarrow> 1 | _ \<Rightarrow> 0)"
  shows "loop_bounded web n k tr x"
proof -
  obtain ops where ops: "fst x = (tr @ [Dialled a]) @ ops" "fetches ops \<le> 2 * (MAX_DNS_LOOKUPS - n)"
      "k' + accepted web (tr @ [Dialled a]) ops \<le> MAX_DIAL_ATTEMPTS"
    and ok: "\<And>out. snd x = Inr out \<Longrightarrow>
      \<exists>ops' b. ops = ops' @ [Dialled b] \<and> inner_dial web ((tr @ [Dialled a]) @ ops') b = Accepted (Inr out)"
    using assms(1) by (auto simp: loop_bounded_def)
  have "\<exists>ops' b. Dialled a # ops = ops' @ [Dialled b] \<and> inner_dial web (tr @ ops') b = Accepted (Inr out)" if "snd x = Inr out" for out
    using ok [OF that] by (metis append.assoc append_Cons append_Nil)
  with ops assms(2) show ?thesis unfolding loop_bounded_def by (intro exI [of _ "Dialled a # ops"]) simp
qed

lemma dial_loop_bounded:
  "k < MAX_DIAL_ATTEMPTS \<Longrightarrow> loop_bounded web n k tr (dial_loop web cfg n k es stack tr)"
proof (induction web cfg n k es stack tr rule: dial_loop.induct)
  case (1 web cfg n k es tr)
  then show ?case by (simp add: loop_bounded_stop)
next
  case (2 web cfg n k es addr stack tr)
  let ?find = "find_resolvable (should_resolve_dns addr (dns_resolution cfg)) 0 addr"
  show ?case
  proof (cases ?find)
    case (Some x)
    obtain i name where x: "x = (i, name)" by (cases x)
    obtain tr1 r where run: "resolve_component web cfg name tr = (tr1, r)" by (cases "resolve_component web cfg name tr")
    show ?thesis
    proof (cases "MAX_DNS_LOOKUPS \<le> n")
      case True
      with 2 Some x show ?thesis by simp
    next
      case False
      then show ?thesis
        using 2 Some x run loop_bounded_fetch [OF resolve_fetches [OF run], of n web k] by (cases r) auto
    qed
  next
    case None
    have stop: "loop_bounded web n k' (tr @ [Dialled addr]) (tr @ [Dialled addr], dial_failed es')" if "k' \<le> MAX_DIAL_ATTEMPTS" for k' es'
      using that by (rule loop_bounded_stop)
    show ?thesis
    proof (cases "inner_dial web tr addr")
      case (Accepted r)
      show ?thesis
      proof (cases r)
        case (Inr out)
        with None Accepted "2.prems" show ?thesis
          by (auto simp: loop_bounded_def intro!: exI [of _ "[Dialled addr]"])
      next
        case (Inl e)
        have "loop_bounded web n (Suc k) (tr @ [Dialled addr]) (dial_loop web cfg n k es (addr # stack) tr)"
          using None Accepted Inl stop [of "Suc k"] "2.prems" "2.IH" by (auto simp: Let_def)
        then show ?thesis by (rule loop_bounded_dial) (simp add: Accepted)
      qed
    next
      case (RefusedAddr a)
      have "loop_bounded web n k (tr @ [Dialled addr]) (dial_loop web cfg n k es (addr # stack) tr)"
        using None RefusedAddr stop [of k] "2.prems" "2.IH" by (auto simp: Let_def)
      then show ?thesis by (rule loop_bounded_dial) (simp add: RefusedAddr)
    next
      case (RefusedOther e)
      have "loop_bounded web n k (tr @ [Dialled addr]) (dial_loop web cfg n k es (addr # stack) tr)"
        using None RefusedOther stop [of k] "2.prems" "2.IH" by (auto simp: Let_def)
      then show ?thesis by (rule loop_bounded_dial) (simp add: RefusedOther)
    qed
  qed
qed

text \<open>
  C25: dialing a name is bounded. Whatever the queries answer, cyclic indirections included, a dial ends after at most 64
  fetches (two for each of at most 32 lookups) and 16 attempts that the inner transport accepted; and a connection it
  returns is the one the last of these attempts made.
\<close>

theorem dns_dial_bounded:
  "\<exists>ops r. do_dial web cfg addr tr = (tr @ ops, r) \<and> fetches ops \<le> 64 \<and> accepted web tr ops \<le> 16
     \<and> (\<forall>out. r = Inr out \<longrightarrow> (\<exists>ops' a. ops = ops' @ [Dialled a] \<and> inner_dial web (tr @ ops') a = Accepted (Inr out)))"
proof -
  have "loop_bounded web 0 0 tr (do_dial web cfg addr tr)"
    unfolding do_dial_def by (rule dial_loop_bounded) (simp add: MAX_DIAL_ATTEMPTS_def)
  then show ?thesis
    by (cases "do_dial web cfg addr tr") (auto simp: loop_bounded_def MAX_DNS_LOOKUPS_def MAX_DIAL_ATTEMPTS_def)
qed

subsection \<open>Addresses\<close>


text \<open>The components after the last name an address has are kept by every step.\<close>

text \<open>
  What is relied on of the library's comparison of addresses: if it says that one address ends in another, the binary encoding does, where
  the encoding of an address is the encodings of its components in a row. That the components themselves agree follows only
  if no component of the one is encoded as the end of a component of the other (\<open>suffix_free\<close>).
\<close>

definition encoding :: "(protocol \<Rightarrow> bytes) \<Rightarrow> multiaddr \<Rightarrow> bytes" where
  "encoding enc a = concat (map enc a)"















subsection \<open>TXT records\<close>







lemma unquoted_txt_verbatim: "34 \<notin> set s \<Longrightarrow> unquote_txt s = s"
  by (simp add: unquote_txt_def)

text \<open>
  A decimal escape stands for a byte of the data. The code takes it for a code point, so the three bytes of a euro sign come out as three
  characters.
\<close>

lemma byte_escapes_misread:
  "unquote_txt [34, 92, 50, 50, 54, 92, 49, 51, 48, 92, 49, 55, 50, 34] = [226, 130, 172]"
  by (simp add: unquote_txt_def is_digit_def char_from_u32_def numeral_2_eq_2)

subsection \<open>Instances\<close>

text \<open>A name whose TXT records name two addresses of another peer and one of the peer to reach.\<close>

definition example_target :: multiaddr where
  "example_target = [Ip4 (Ipv4Addr 1 2 3 4), Tcp 443, P2p (PeerId 7)]"

text \<open>An encoding by a code, a length and the bytes of the component, and the comparison of encodings.\<close>

fun example_enc :: "protocol \<Rightarrow> bytes" where
  "example_enc (Ip4 (Ipv4Addr a b c d)) = [4, a, b, c, d]"
| "example_enc (Tcp p) = [6, 2, word_of_nat (unat p div 256), word_of_nat (unat p)]"
| "example_enc (P2p (PeerId n)) = [165, 3, word_of_nat n]"
| "example_enc (protocol.OtherProtocol name) = 210 # word_of_nat (length name) # map of_char name"
| "example_enc _ = [0]"

definition ends_in :: "bytes \<Rightarrow> bytes \<Rightarrow> bool" where
  "ends_in sfx a \<longleftrightarrow> length sfx \<le> length a \<and> drop (length a - length sfx) a = sfx"


definition example_web :: "(string, nat, nat) web" where
  "example_web = \<lparr>url_parse = Inr, append_pair = (\<lambda>k v u. u @ k @ v), new_request = (\<lambda>_. Inr ()), set_accept = (\<lambda>_. Inr ()),
     web_context = True, fetch_with_request = (\<lambda>_ _. FetchResponse True 200 (Inr (Some []))),
     parse_doh = (\<lambda>_. Inr \<lparr>doh_status = 0, doh_answers = [\<lparr>answer_kind = 16, answer_data = chars_of ''dnsaddr=a''\<rparr>,
       \<lparr>answer_kind = 16, answer_data = chars_of ''dnsaddr=b''\<rparr>, \<lparr>answer_kind = 16, answer_data = chars_of ''dnsaddr=a''\<rparr>]\<rparr>),
     parse_ipv4 = (\<lambda>_. None), parse_ipv6 = (\<lambda>_. None),
     parse_multiaddr = (\<lambda>t. Inr (if t = [98] then example_target else [Ip4 (Ipv4Addr 6 6 6 6), P2p (PeerId 8)])),
     ends_with = (\<lambda>a sfx. ends_in (encoding example_enc sfx) (encoding example_enc a)),
     inner_dial = (\<lambda>_ _. Accepted (Inr 5))\<rparr>"

lemmas dns_eval = do_dial_def should_resolve_dns_def is_resolvable_def resolve_component_def txt_lookup_def query_def
  build_query_url_def doh_get_def map_ok_def expand_def ends_in_def encoding_def parse_dnsaddr_txt_def unquote_txt_def chars_of_def ok_of_def
  cloudflare_def doh_config_new_def example_web_def example_target_def TYPE_TXT_def Let_def try_res_def
  MAX_DNS_LOOKUPS_def MAX_TXT_RECORDS_def List.map_filter_def

lemma example_dial: "\<exists>u t. do_dial example_web cloudflare [Dnsaddr ''x'', P2p (PeerId 7)] [] = ([Fetched u t, Dialled example_target], Inr 5)"
  by (simp add: dns_eval)

theorem dns_dial_bounded_witness:
  "\<exists>ops ops' a. do_dial example_web cloudflare [Dnsaddr ''x'', P2p (PeerId 7)] [] = (ops, Inr 5)
     \<and> fetches ops \<le> 64 \<and> ops = ops' @ [Dialled a] \<and> inner_dial example_web ops' a = Accepted (Inr 5)"
  using dns_dial_bounded [of example_web cloudflare "[Dnsaddr ''x'', P2p (PeerId 7)]" "[]"] example_dial by auto



text \<open>
  The condition on encodings is needed: a record whose last component carries the bytes of the peer's component passes the comparison,
  and the address without that peer is dialled.
\<close>

lemma embedded_suffix_dialled:
  fixes evil defines "evil \<equiv> [Ip4 (Ipv4Addr 6 6 6 6), protocol.OtherProtocol [CHR 0xA5, CHR 0x03, CHR 0x07]]"
  shows "\<exists>u t. do_dial (example_web\<lparr>parse_multiaddr := \<lambda>_. Inr evil\<rparr>) cloudflare [Dnsaddr ''x'', P2p (PeerId 7)] []
      = ([Fetched u t, Dialled evil], Inr 5)"
    and "P2p (PeerId 7) \<notin> set evil"
  by (simp_all add: dns_eval evil_def)


end
