(* ===== verification/Db_Keystores.thy ===== *)
theory Db_Keystores
  imports Keychain_Atomic
begin

section \<open>Keystores over databases (\<^verbatim>\<open>src/src/keystore/store/\<close>)\<close>

text \<open>
  The keystores over redb, SQLite and IndexedDB. A database is a table from keys to encoded entries, or has no
  table yet. Every call into the database library takes its outcome from a list: it succeeds, it fails, or, for a call that may make changes
  permanent, it fails after they took effect or reports an aborted transaction; when the list is empty, calls succeed. A write
  transaction works on a copy of the table. A transaction of redb or SQLite is dropped when a step fails, which rolls it
  back; one of IndexedDB belongs to the browser, which may still commit what was queued. That a commit takes effect as a whole or not
  at all is the databases' promise and built into the model. The encoding is a parameter.
\<close>

datatype db_outcome = DbOk | DbErr string | DbErrApplied string | DbAborted

record ('k, 'v) db =
  db_opened :: bool
  db_table :: "('k, 'v) alist option"
  db_outcomes :: "db_outcome list"

type_synonym ('k, 'v, 'a) db_op = "('k, 'v) db \<Rightarrow> ('k, 'v) db \<times> 'a ks_result"

record 'v entry_codec =
  to_value :: "encrypted_entry \<Rightarrow> ('v, string) result"
  from_value :: "'v \<Rightarrow> (encrypted_entry, string) result"
  show_error :: "ks_error \<Rightarrow> string"

definition db_return :: "'a \<Rightarrow> ('k, 'v, 'a) db_op" where
  "db_return a w = (w, Inr a)"

definition db_error :: "string \<Rightarrow> ('k, 'v, 'a) db_op" where
  "db_error e w = (w, Inl (Backend e))"

definition db_bind :: "('k, 'v, 'a) db_op \<Rightarrow> ('a \<Rightarrow> ('k, 'v, 'b) db_op) \<Rightarrow> ('k, 'v, 'b) db_op" where
  "db_bind m f w = (case m w of (w, Inl e) \<Rightarrow> (w, Inl e) | (w, Inr a) \<Rightarrow> f a w)"

definition db_lift :: "('a, string) result \<Rightarrow> ('k, 'v, 'a) db_op" where
  "db_lift r = (case r of Inl e \<Rightarrow> db_error e | Inr a \<Rightarrow> db_return a)"

definition next_outcome :: "('k, 'v) db \<Rightarrow> ('k, 'v) db \<times> db_outcome" where
  "next_outcome w = (case db_outcomes w of [] \<Rightarrow> (w, DbOk) | x # xs \<Rightarrow> (w\<lparr>db_outcomes := xs\<rparr>, x))"

definition db_call :: "('k, 'v, unit) db_op" where
  "db_call w = (case next_outcome w of (w, x) \<Rightarrow>
     (w, case x of DbErr e \<Rightarrow> Inl (Backend e) | DbErrApplied e \<Rightarrow> Inl (Backend e) | _ \<Rightarrow> Inr ()))"

text \<open>Making a table permanent; the result tells whether it was not aborted.\<close>

definition db_commit :: "('k, 'v) alist \<Rightarrow> ('k, 'v, bool) db_op" where
  "db_commit t w = (case next_outcome w of (w, x) \<Rightarrow> (case x of
     DbOk \<Rightarrow> (w\<lparr>db_table := Some t\<rparr>, Inr True)
   | DbErr e \<Rightarrow> (w, Inl (Backend e))
   | DbErrApplied e \<Rightarrow> (w\<lparr>db_table := Some t\<rparr>, Inl (Backend e))
   | DbAborted \<Rightarrow> (w, Inr False)))"

text \<open>For redb and SQLite an aborted commit is an error.\<close>

definition db_commit_tx :: "('k, 'v) alist \<Rightarrow> ('k, 'v, unit) db_op" where
  "db_commit_tx t = db_bind (db_commit t) (\<lambda>ok. if ok then db_return () else db_error ''transaction aborted'')"

definition rows :: "('k, 'v) db \<Rightarrow> ('k, 'v) alist" where
  "rows w = (case db_table w of None \<Rightarrow> [] | Some t \<Rightarrow> t)"

definition db_rows :: "('k, 'v, ('k, 'v) alist) db_op" where
  "db_rows w = (w, Inr (rows w))"

definition set_opened :: "('k, 'v, unit) db_op" where
  "set_opened w = (w\<lparr>db_opened := True\<rparr>, Inr ())"

definition db_once :: "('k, 'v, unit) db_op \<Rightarrow> ('k, 'v, unit) db_op" where
  "db_once open_it w = (if db_opened w then (w, Inr ()) else db_bind open_it (\<lambda>_. set_opened) w)"

text \<open>Encoding a batch into a working copy, one call per entry.\<close>

fun insert_entries ::
  "'v entry_codec \<Rightarrow> (label \<Rightarrow> 'k) \<Rightarrow> encrypted_entry list \<Rightarrow> ('k, 'v) alist \<Rightarrow> ('k, 'v, ('k, 'v) alist) db_op" where
  "insert_entries c key [] t = db_return t"
| "insert_entries c key (e # es) t =
     db_bind (db_lift (to_value c e)) (\<lambda>v.
     db_bind db_call (\<lambda>_. insert_entries c key es (AList.update (key (md_label (metadata e))) v t)))"

definition label_mismatch :: string where
  "label_mismatch = ''key entry label does not match its database key''"

text \<open>Decoding the rows of a listing; \<open>step\<close> is the call that fetches the next row, \<open>label_of\<close> reads a key.\<close>

fun decode_rows ::
  "'v entry_codec \<Rightarrow> ('k, 'v, unit) db_op \<Rightarrow> ('k \<Rightarrow> (label, string) result) \<Rightarrow> ('k, 'v) alist \<Rightarrow> ('k, 'v, key_metadata list) db_op" where
  "decode_rows c step label_of [] = db_return []"
| "decode_rows c step label_of ((k, v) # t) =
     db_bind step (\<lambda>_.
     db_bind (db_lift (label_of k)) (\<lambda>l.
     db_bind (db_lift (from_value c v)) (\<lambda>e.
     if md_label (metadata e) \<noteq> l then db_error label_mismatch
     else db_bind (decode_rows c step label_of t) (\<lambda>ms. db_return (metadata e # ms)))))"

definition decode_found :: "'v entry_codec \<Rightarrow> 'v option \<Rightarrow> ('k, 'v, encrypted_entry option) db_op" where
  "decode_found c found = (case found of
     None \<Rightarrow> db_return None
   | Some v \<Rightarrow> db_bind (db_lift (from_value c v)) (\<lambda>e. db_return (Some e)))"

text \<open>
  A failed batch of redb is aborted, and a failed abort is reported with the error. Either way the transaction
  is gone and nothing of it is visible.
\<close>

definition abort_on_error :: "'v entry_codec \<Rightarrow> ('k, 'v, 'a) db_op \<Rightarrow> ('k, 'v, 'a) db_op" where
  "abort_on_error c m w = (case m w of
     (w, Inr a) \<Rightarrow> (w, Inr a)
   | (w, Inl e) \<Rightarrow> (case db_call w of
       (w, Inr _) \<Rightarrow> (w, Inl e)
     | (w, Inl abort) \<Rightarrow> (w, Inl (Backend (show_error c e @ ''. Abort also failed with '' @ (case abort of Backend a \<Rightarrow> a | _ \<Rightarrow> []))))))"

subsection \<open>redb\<close>

text \<open>The calls in turn: the blocking task, the transaction, the table, the operation, the commit.\<close>

definition redb_db :: "(label, 'v, unit) db_op" where
  "redb_db = db_once (db_bind db_call (\<lambda>_. db_call))"

definition redb_put :: "'v entry_codec \<Rightarrow> encrypted_entry \<Rightarrow> (label, 'v, unit) db_op" where
  "redb_put c e =
     db_bind redb_db (\<lambda>_.
     db_bind (db_lift (to_value c e)) (\<lambda>v.
     db_bind db_call (\<lambda>_.
     db_bind db_call (\<lambda>_.
     db_bind db_call (\<lambda>_.
     db_bind db_rows (\<lambda>t.
     db_bind db_call (\<lambda>_.
     db_commit_tx (AList.update (md_label (metadata e)) v t))))))))"

definition redb_put_many :: "'v entry_codec \<Rightarrow> encrypted_entry list \<Rightarrow> (label, 'v, unit) db_op" where
  "redb_put_many c es =
     db_bind redb_db (\<lambda>_.
     db_bind db_call (\<lambda>_.
     db_bind db_call (\<lambda>_.
     db_bind (abort_on_error c (db_bind db_call (\<lambda>_. db_bind db_rows (insert_entries c id es)))) db_commit_tx)))"

definition redb_get :: "'v entry_codec \<Rightarrow> label \<Rightarrow> (label, 'v, encrypted_entry option) db_op" where
  "redb_get c l =
     db_bind redb_db (\<lambda>_.
     db_bind db_call (\<lambda>_.
     db_bind db_call (\<lambda>_.
     db_bind db_call (\<lambda>_ w.
       if db_table w = None then (w, Inr None)
       else db_bind db_call (\<lambda>_. db_bind db_rows (\<lambda>t. decode_found c (map_of t l))) w))))"

definition redb_list :: "'v entry_codec \<Rightarrow> (label, 'v, key_metadata list) db_op" where
  "redb_list c =
     db_bind redb_db (\<lambda>_.
     db_bind db_call (\<lambda>_.
     db_bind db_call (\<lambda>_.
     db_bind db_call (\<lambda>_ w.
       if db_table w = None then (w, Inr [])
       else db_bind db_call (\<lambda>_. db_bind db_rows (decode_rows c db_call Inr)) w))))"

definition redb_remove :: "label \<Rightarrow> (label, 'v, bool) db_op" where
  "redb_remove l =
     db_bind redb_db (\<lambda>_.
     db_bind db_call (\<lambda>_.
     db_bind db_call (\<lambda>_.
     db_bind db_call (\<lambda>_.
     db_bind db_rows (\<lambda>t.
     db_bind db_call (\<lambda>_.
     db_bind (db_commit_tx (AList.delete l t)) (\<lambda>_. db_return (map_of t l \<noteq> None))))))))"

definition redb_backend :: "'v entry_codec \<Rightarrow> (label, 'v) db backend_ops" where
  "redb_backend c = \<lparr>be_put = redb_put c, be_put_many = redb_put_many c, be_get = redb_get c, be_list = redb_list c,
     be_remove = redb_remove\<rparr>"

subsection \<open>SQLite\<close>

text \<open>A statement outside a transaction is permanent at once. Opening creates the table if it is missing.\<close>

definition sqlite_pool :: "(label, 'v, unit) db_op" where
  "sqlite_pool = db_once (db_bind db_call (\<lambda>_. db_bind db_rows db_commit_tx))"

definition sqlite_put :: "'v entry_codec \<Rightarrow> encrypted_entry \<Rightarrow> (label, 'v, unit) db_op" where
  "sqlite_put c e =
     db_bind sqlite_pool (\<lambda>_.
     db_bind (db_lift (to_value c e)) (\<lambda>v.
     db_bind db_rows (\<lambda>t. db_commit_tx (AList.update (md_label (metadata e)) v t))))"

definition sqlite_put_many :: "'v entry_codec \<Rightarrow> encrypted_entry list \<Rightarrow> (label, 'v, unit) db_op" where
  "sqlite_put_many c es =
     db_bind sqlite_pool (\<lambda>_.
     db_bind db_call (\<lambda>_.
     db_bind (db_bind db_rows (insert_entries c id es)) db_commit_tx))"

definition sqlite_get :: "'v entry_codec \<Rightarrow> label \<Rightarrow> (label, 'v, encrypted_entry option) db_op" where
  "sqlite_get c l =
     db_bind sqlite_pool (\<lambda>_. db_bind db_call (\<lambda>_. db_bind db_rows (\<lambda>t. decode_found c (map_of t l))))"

definition sqlite_list :: "'v entry_codec \<Rightarrow> (label, 'v, key_metadata list) db_op" where
  "sqlite_list c =
     db_bind sqlite_pool (\<lambda>_. db_bind db_call (\<lambda>_. db_bind db_rows (decode_rows c (db_return ()) Inr)))"

definition sqlite_remove :: "label \<Rightarrow> (label, 'v, bool) db_op" where
  "sqlite_remove l =
     db_bind sqlite_pool (\<lambda>_.
     db_bind db_rows (\<lambda>t.
     db_bind (db_commit_tx (AList.delete l t)) (\<lambda>_. db_return (map_of t l \<noteq> None))))"

definition sqlite_backend :: "'v entry_codec \<Rightarrow> (label, 'v) db backend_ops" where
  "sqlite_backend c = \<lparr>be_put = sqlite_put c, be_put_many = sqlite_put_many c, be_get = sqlite_get c, be_list = sqlite_list c,
     be_remove = sqlite_remove\<rparr>"

subsection \<open>IndexedDB\<close>

text \<open>Keys are JavaScript values. A new database gets its object store while it is opened.\<close>

datatype js_key = JsString label | JsOther

definition as_string :: "js_key \<Rightarrow> (label, string) result" where
  "as_string k = (case k of JsString l \<Rightarrow> Inr l | JsOther \<Rightarrow> Inl ''key entry has a non-string database key'')"

definition create_store :: "(js_key, 'v, unit) db_op" where
  "create_store w = (if db_table w = None
     then (case next_outcome w of (w, x) \<Rightarrow> (if x = DbOk then w\<lparr>db_table := Some []\<rparr> else w, Inr ()))
     else (w, Inr ()))"

definition idb_db :: "(js_key, 'v, unit) db_op" where
  "idb_db = db_once (db_bind db_call (\<lambda>_. db_bind db_call (\<lambda>_. db_bind create_store (\<lambda>_. db_call))))"

definition object_store :: "(js_key, 'v, unit) db_op" where
  "object_store w = (if db_table w = None then (w, Inl (Backend ''no such object store'')) else db_call w)"

fun prepare_values :: "'v entry_codec \<Rightarrow> encrypted_entry list \<Rightarrow> (js_key, 'v, (js_key, 'v) alist) db_op" where
  "prepare_values c [] = db_return []"
| "prepare_values c (e # es) =
     db_bind (db_lift (to_value c e)) (\<lambda>v.
     db_bind (prepare_values c es) (\<lambda>prepared. db_return ((JsString (md_label (metadata e)), v) # prepared)))"

definition db_fail :: "ks_error \<Rightarrow> ('k, 'v, 'a) db_op" where
  "db_fail e w = (w, Inl e)"

definition db_try :: "('k, 'v, unit) db_op \<Rightarrow> ('k, 'v, ks_error option) db_op" where
  "db_try m w = (case m w of (w, Inl e) \<Rightarrow> (w, Inr (Some e)) | (w, Inr _) \<Rightarrow> (w, Inr None))"

text \<open>
  A call on a transaction with queued writes, where \<open>t\<close> is the table with those writes: when it fails, the browser may
  nevertheless commit them.
\<close>

definition db_call_queued :: "('k, 'v) alist \<Rightarrow> ('k, 'v, unit) db_op" where
  "db_call_queued t w = (case next_outcome w of (w, x) \<Rightarrow> (case x of
     DbErr e \<Rightarrow> (w, Inl (Backend e))
   | DbErrApplied e \<Rightarrow> (w\<lparr>db_table := (if db_table w = None then None else Some t)\<rparr>, Inl (Backend e))
   | _ \<Rightarrow> (w, Inr ())))"

text \<open>The closure \<open>queued\<close>: the table with the writes queued until then, and the error that stopped it.\<close>

fun queue_writes :: "(js_key, 'v) alist \<Rightarrow> (js_key, 'v) alist \<Rightarrow> (js_key, 'v, (js_key, 'v) alist \<times> ks_error option) db_op" where
  "queue_writes [] t = db_return (t, None)"
| "queue_writes ((k, v) # prepared) t = db_bind (db_try db_call) (\<lambda>failed. case failed of
     Some e \<Rightarrow> db_return (t, Some e)
   | None \<Rightarrow> queue_writes prepared (AList.update k v t))"

definition queue_batch :: "(js_key, 'v) alist \<Rightarrow> (js_key, 'v, (js_key, 'v) alist \<times> ks_error option) db_op" where
  "queue_batch prepared = db_bind (db_try object_store) (\<lambda>failed. db_bind db_rows (\<lambda>t. case failed of
     Some e \<Rightarrow> db_return (t, Some e)
   | None \<Rightarrow> queue_writes prepared t))"

definition idb_abort :: "'v entry_codec \<Rightarrow> (js_key, 'v) alist \<Rightarrow> ks_error \<Rightarrow> (js_key, 'v, unit) db_op" where
  "idb_abort c t e = db_bind (db_try (db_call_queued t)) (\<lambda>abort. case abort of
     None \<Rightarrow> db_fail e
   | Some abort \<Rightarrow> db_error (show_error c e @ ''. Abort also failed with '' @ (case abort of Backend a \<Rightarrow> a | _ \<Rightarrow> [])))"

definition idb_commit :: "(js_key, 'v) alist \<Rightarrow> (js_key, 'v, bool) db_op" where
  "idb_commit t = db_bind (db_call_queued t) (\<lambda>_. db_commit t)"

definition idb_put_many :: "'v entry_codec \<Rightarrow> encrypted_entry list \<Rightarrow> (js_key, 'v, unit) db_op" where
  "idb_put_many c es =
     db_bind (prepare_values c es) (\<lambda>prepared.
     db_bind idb_db (\<lambda>_.
     db_bind db_call (\<lambda>_.
     db_bind (queue_batch prepared) (\<lambda>(t, queued). case queued of
       Some e \<Rightarrow> idb_abort c t e
     | None \<Rightarrow> db_bind (idb_commit t) (\<lambda>committed.
         if \<not> committed then db_error ''IndexedDB batch transaction aborted'' else db_return ())))))"

definition idb_put :: "'v entry_codec \<Rightarrow> encrypted_entry \<Rightarrow> (js_key, 'v, unit) db_op" where
  "idb_put c e = idb_put_many c [e]"

definition idb_get :: "'v entry_codec \<Rightarrow> label \<Rightarrow> (js_key, 'v, encrypted_entry option) db_op" where
  "idb_get c l =
     db_bind idb_db (\<lambda>_.
     db_bind db_call (\<lambda>_.
     db_bind object_store (\<lambda>_.
     db_bind db_call (\<lambda>_.
     db_bind db_call (\<lambda>_.
     db_bind db_rows (\<lambda>t. decode_found c (map_of t (JsString l))))))))"

definition idb_list :: "'v entry_codec \<Rightarrow> (js_key, 'v, key_metadata list) db_op" where
  "idb_list c =
     db_bind idb_db (\<lambda>_.
     db_bind db_call (\<lambda>_.
     db_bind object_store (\<lambda>_.
     db_bind db_call (\<lambda>_.
     db_bind db_call (\<lambda>_.
     db_bind db_call (\<lambda>_.
     db_bind db_call (\<lambda>_.
     db_bind db_rows (\<lambda>t.
     let keys = map fst t; values = map snd t in
     if length keys \<noteq> length values then db_error ''key entry count does not match its key count''
     else decode_rows c (db_return ()) as_string (zip keys values)))))))))"

text \<open>Removing ignores whether the transaction was committed.\<close>

definition idb_remove :: "label \<Rightarrow> (js_key, 'v, bool) db_op" where
  "idb_remove l =
     db_bind idb_db (\<lambda>_.
     db_bind db_call (\<lambda>_.
     db_bind object_store (\<lambda>_.
     db_bind db_call (\<lambda>_.
     db_bind db_call (\<lambda>_.
     db_bind db_rows (\<lambda>t.
     db_bind db_call (\<lambda>_.
     db_bind (db_call_queued (AList.delete (JsString l) t)) (\<lambda>_.
     db_bind (idb_commit (AList.delete (JsString l) t)) (\<lambda>_. db_return (map_of t (JsString l) \<noteq> None))))))))))"

definition idb_backend :: "'v entry_codec \<Rightarrow> (js_key, 'v) db backend_ops" where
  "idb_backend c = \<lparr>be_put = idb_put c, be_put_many = idb_put_many c, be_get = idb_get c, be_list = idb_list c,
     be_remove = idb_remove\<rparr>"

end
