(* ===== verification/Db_Keystore_Properties.thy ===== *)
theory Db_Keystore_Properties
  imports Db_Keystores Fs_Backend
begin

section \<open>The database keystores as backends of the keychain\<close>

text \<open>
  The keystores over redb and SQLite satisfy the contract of a keychain backend for every sequence of outcomes of the
  database calls, and their batches are all or nothing. The one over IndexedDB satisfies the contract as long as no transaction is
  aborted behind the program's back; if that happens to a removal, the removal reports success. Its batches are all or nothing only as
  long as no failing call takes effect: when queueing fails and the abort fails too, the writes queued so far may be committed.
\<close>

definition codec_law :: "'v entry_codec \<Rightarrow> bool" where
  "codec_law c \<longleftrightarrow> (\<forall>e v. to_value c e = Inr v \<longrightarrow> from_value c v = Inr e)"

definition backend_error :: "ks_error \<Rightarrow> bool" where
  "backend_error e \<longleftrightarrow> (\<exists>t. e = Backend t)"

definition decoded_table :: "'v entry_codec \<Rightarrow> (label \<Rightarrow> 'k) \<Rightarrow> ('k, 'v) alist \<Rightarrow> label \<rightharpoonup> encrypted_entry" where
  "decoded_table c key t l = (case map_of t (key l) of None \<Rightarrow> None
     | Some v \<Rightarrow> (case from_value c v of Inl _ \<Rightarrow> None | Inr e \<Rightarrow> Some e))"

definition table_ok :: "'v entry_codec \<Rightarrow> (label \<Rightarrow> 'k) \<Rightarrow> ('k, 'v) alist \<Rightarrow> bool" where
  "table_ok c key t \<longleftrightarrow> wf_alist t \<and>
     (\<forall>(k, v) \<in> set t. \<exists>e. from_value c v = Inr e \<and> k = key (md_label (metadata e)))"

subsection \<open>Rules\<close>

text \<open>
  A database operation from a table: what holds of its result and the table afterwards, and on every error. The
  outcomes still to come are among \<open>A\<close> and only get fewer.
\<close>

definition db_spec ::
  "db_outcome set \<Rightarrow> ('k, 'v) alist \<Rightarrow> ('k, 'v, 'a) db_op \<Rightarrow> ('a \<Rightarrow> ('k, 'v) alist \<Rightarrow> bool) \<Rightarrow> (('k, 'v) alist \<Rightarrow> bool) \<Rightarrow> bool" where
  "db_spec A t m Q E \<longleftrightarrow> (\<forall>w w' r. rows w = t \<longrightarrow> set (db_outcomes w) \<subseteq> A \<longrightarrow> m w = (w', r) \<longrightarrow> set (db_outcomes w') \<subseteq> set (db_outcomes w)
     \<and> (case r of Inr a \<Rightarrow> Q a (rows w') | Inl e \<Rightarrow> backend_error e \<and> E (rows w')))"

lemma db_specI:
  assumes "\<And>w w' r. rows w = t \<Longrightarrow> set (db_outcomes w) \<subseteq> A \<Longrightarrow> m w = (w', r) \<Longrightarrow> set (db_outcomes w') \<subseteq> set (db_outcomes w)
     \<and> (case r of Inr a \<Rightarrow> Q a (rows w') | Inl e \<Rightarrow> backend_error e \<and> E (rows w'))"
  shows "db_spec A t m Q E"
  using assms by (simp add: db_spec_def)

lemma spec_return: "Q a t \<Longrightarrow> db_spec A t (db_return a) Q E"
  by (simp add: db_spec_def db_return_def)

lemma spec_error: "E t \<Longrightarrow> db_spec A t (db_error e) Q E"
  by (simp add: db_spec_def db_error_def backend_error_def)

lemma spec_lift: "(\<And>a. r = Inr a \<Longrightarrow> Q a t) \<Longrightarrow> E t \<Longrightarrow> db_spec A t (db_lift r) Q E"
  by (cases r) (auto simp: db_lift_def intro: spec_return spec_error)

lemma spec_bind:
  assumes "db_spec A t m Q E" "\<And>a t'. Q a t' \<Longrightarrow> db_spec A t' (f a) R E"
  shows "db_spec A t (db_bind m f) R E"
proof (rule db_specI)
  fix w w' r assume w: "rows w = t" "set (db_outcomes w) \<subseteq> A" and run: "db_bind m f w = (w', r)"
  obtain w1 r1 where m: "m w = (w1, r1)" by (cases "m w")
  show "set (db_outcomes w') \<subseteq> set (db_outcomes w)
     \<and> (case r of Inr a \<Rightarrow> R a (rows w') | Inl e \<Rightarrow> backend_error e \<and> E (rows w'))"
  proof (cases r1)
    case (Inl e)
    then show ?thesis using assms(1) w m run by (auto simp: db_spec_def db_bind_def)
  next
    case (Inr a)
    then have "Q a (rows w1)" "set (db_outcomes w1) \<subseteq> set (db_outcomes w)" "f a w1 = (w', r)"
      using assms(1) w m run by (auto simp: db_spec_def db_bind_def)
    moreover from this w(2) have "set (db_outcomes w1) \<subseteq> A" by blast
    ultimately show ?thesis using assms(2) [of a "rows w1"] unfolding db_spec_def by blast
  qed
qed

lemma spec_weaken: "db_spec A t m Q E \<Longrightarrow> (\<And>a s. Q a s \<Longrightarrow> R a s) \<Longrightarrow> db_spec A t m R E"
proof (rule db_specI)
  fix w w' r assume m: "db_spec A t m Q E" and weak: "\<And>a s. Q a s \<Longrightarrow> R a s"
    and w: "rows w = t" "set (db_outcomes w) \<subseteq> A" and run: "m w = (w', r)"
  have "set (db_outcomes w') \<subseteq> set (db_outcomes w)
    \<and> (case r of Inr a \<Rightarrow> Q a (rows w') | Inl e \<Rightarrow> backend_error e \<and> E (rows w'))"
    using m w run unfolding db_spec_def by blast
  then show "set (db_outcomes w') \<subseteq> set (db_outcomes w)
    \<and> (case r of Inr a \<Rightarrow> R a (rows w') | Inl e \<Rightarrow> backend_error e \<and> E (rows w'))"
    using weak by (cases r) simp_all
qed

lemma rows_update [simp]:
  "rows (w\<lparr>db_outcomes := xs\<rparr>) = rows w" "rows (w\<lparr>db_opened := b\<rparr>) = rows w" "rows (w\<lparr>db_table := Some t\<rparr>) = t"
  by (simp_all add: rows_def)

lemma next_outcome_keeps:
  "next_outcome w = (w', x) \<Longrightarrow> rows w' = rows w \<and> set (db_outcomes w') \<subseteq> set (db_outcomes w) \<and> db_table w' = db_table w"
  by (auto simp: next_outcome_def rows_def split: list.splits)

lemma next_outcome_in: "next_outcome w = (w', x) \<Longrightarrow> x = DbOk \<or> x \<in> set (db_outcomes w)"
  by (auto simp: next_outcome_def split: list.splits)

lemma spec_call: "E t \<Longrightarrow> (Q () t) \<Longrightarrow> db_spec A t db_call Q E"
  by (auto simp: db_spec_def db_call_def backend_error_def dest!: next_outcome_keeps split: prod.splits db_outcome.splits)

lemma spec_rows: "Q t t \<Longrightarrow> db_spec A t db_rows Q E"
  by (simp add: db_spec_def db_rows_def)

lemma spec_opened: "Q () t \<Longrightarrow> db_spec A t set_opened Q E"
  by (simp add: db_spec_def set_opened_def)

lemma spec_commit:
  assumes "E t" "E t'" "Q True t'" "DbAborted \<in> A \<Longrightarrow> Q False t"
  shows "db_spec A t (db_commit t') Q E"
proof (rule db_specI)
  fix w w' r assume w: "rows w = t" "set (db_outcomes w) \<subseteq> A" and run: "db_commit t' w = (w', r)"
  obtain w1 x where n: "next_outcome w = (w1, x)" by (cases "next_outcome w")
  show "set (db_outcomes w') \<subseteq> set (db_outcomes w)
    \<and> (case r of Inr a \<Rightarrow> Q a (rows w') | Inl e \<Rightarrow> backend_error e \<and> E (rows w'))"
    using next_outcome_keeps [OF n] next_outcome_in [OF n] assms w run
    by (cases x) (auto simp: db_commit_def n backend_error_def)
qed

lemma spec_commit_tx: "E t \<Longrightarrow> E t' \<Longrightarrow> Q () t' \<Longrightarrow> db_spec A t (db_commit_tx t') Q E"
  unfolding db_commit_tx_def
  by (rule spec_bind [where Q = "\<lambda>ok s. if ok then s = t' else s = t", OF spec_commit])
    (auto intro: spec_return spec_error)

lemma spec_if:
  "(b \<Longrightarrow> db_spec A t m Q E) \<Longrightarrow> (\<not> b \<Longrightarrow> db_spec A t n Q E) \<Longrightarrow> db_spec A t (if b then m else n) Q E"
  by simp

lemma spec_once: "db_spec A t m (\<lambda>_ s. s = t) E \<Longrightarrow> Q () t \<Longrightarrow> db_spec A t (db_once m) Q E"
proof -
  assume m: "db_spec A t m (\<lambda>_ s. s = t) E" and q: "Q () t"
  have "db_spec A t (db_bind m (\<lambda>_. set_opened)) Q E"
    by (rule spec_bind [OF m]) (simp add: spec_opened q)
  with q show ?thesis by (auto simp: db_spec_def db_once_def)
qed

lemma call_keeps: "db_call w = (w', r) \<Longrightarrow> rows w' = rows w \<and> set (db_outcomes w') \<subseteq> set (db_outcomes w)"
  by (auto simp: db_call_def dest: next_outcome_keeps split: prod.splits)

lemma spec_abort:
  assumes m: "db_spec A t m Q (\<lambda>s. s = t)" and e: "E t"
  shows "db_spec A t (abort_on_error c m) Q E"
proof (rule db_specI)
  fix w w' r assume w: "rows w = t" "set (db_outcomes w) \<subseteq> A" and run: "abort_on_error c m w = (w', r)"
  obtain w1 r1 where m1: "m w = (w1, r1)" by (cases "m w")
  obtain w2 r2 where c2: "db_call w1 = (w2, r2)" by (cases "db_call w1")
  have 1: "set (db_outcomes w1) \<subseteq> set (db_outcomes w)"
    "case r1 of Inr a \<Rightarrow> Q a (rows w1) | Inl e \<Rightarrow> backend_error e \<and> rows w1 = t"
    using m w m1 unfolding db_spec_def by blast+
  show "set (db_outcomes w') \<subseteq> set (db_outcomes w)
    \<and> (case r of Inr a \<Rightarrow> Q a (rows w') | Inl e \<Rightarrow> backend_error e \<and> E (rows w'))"
    using 1 call_keeps [OF c2] run m1 c2 e
    by (cases r1; cases r2) (auto simp: abort_on_error_def backend_error_def)
qed

lemma spec_fail: "backend_error e \<Longrightarrow> E t \<Longrightarrow> db_spec A t (db_fail e) Q E"
  by (simp add: db_spec_def db_fail_def)

lemma spec_try: "db_spec A t m (\<lambda>_. Q None) (\<lambda>s. \<forall>e. backend_error e \<longrightarrow> Q (Some e) s) \<Longrightarrow> db_spec A t (db_try m) Q E"
  unfolding db_spec_def db_try_def by (fastforce split: prod.splits sum.splits)

lemma spec_call_queued:
  assumes "E t" "(\<exists>x. DbErrApplied x \<in> A) \<Longrightarrow> E t'" "Q () t"
  shows "db_spec A t (db_call_queued t') Q E"
proof (rule db_specI)
  fix w w' r assume w: "rows w = t" "set (db_outcomes w) \<subseteq> A" and run: "db_call_queued t' w = (w', r)"
  obtain w1 x where n: "next_outcome w = (w1, x)" by (cases "next_outcome w")
  have none: "rows (w1\<lparr>db_table := None\<rparr>) = t" if "db_table w1 = None"
    using next_outcome_keeps [OF n] that w(1) by (simp add: rows_def)
  have applied: "E t'" if "x = DbErrApplied e" for e
    using assms(2) next_outcome_in [OF n] w(2) that by blast
  show "set (db_outcomes w') \<subseteq> set (db_outcomes w)
    \<and> (case r of Inr a \<Rightarrow> Q a (rows w') | Inl e \<Rightarrow> backend_error e \<and> E (rows w'))"
    using next_outcome_keeps [OF n] assms(1,3) w run none applied
    by (cases x) (auto simp: db_call_queued_def n backend_error_def split: if_splits)
qed

lemma spec_table:
  "(t = [] \<Longrightarrow> Q a t) \<Longrightarrow> db_spec A t n Q E \<Longrightarrow> db_spec A t (\<lambda>w. if db_table w = None then (w, Inr a) else n w) Q E"
  by (auto simp: db_spec_def rows_def)

lemma spec_object_store: "E t \<Longrightarrow> Q () t \<Longrightarrow> db_spec A t object_store Q E"
  using spec_call [of E t Q A] by (auto simp: db_spec_def object_store_def backend_error_def)

lemma spec_create_store: "Q () t \<Longrightarrow> db_spec A t create_store Q E"
  by (auto simp: db_spec_def create_store_def dest!: next_outcome_keeps split: prod.splits) (auto simp: rows_def)

lemma spec_decode_found:
  assumes "\<And>v. found = Some v \<Longrightarrow> \<exists>e. from_value c v = Inr e \<and> Q (Some e) t" "found = None \<Longrightarrow> Q None t" "E t"
  shows "db_spec A t (decode_found c found) Q E"
proof (cases found)
  case None
  then show ?thesis using assms(2) by (simp add: decode_found_def spec_return)
next
  case (Some v)
  with assms(1) obtain e where e: "from_value c v = Inr e" "Q (Some e) t" by blast
  then have eq: "decode_found c found = (\<lambda>w. (w, Inr (Some e)))"
    by (simp add: Some decode_found_def fun_eq_iff db_bind_def db_lift_def db_return_def)
  from e(2) show ?thesis unfolding eq by (simp add: db_spec_def)
qed

subsection \<open>Tables\<close>

lemma table_ok_update:
  assumes "table_ok c key t" "from_value c v = Inr e"
  shows "table_ok c key (AList.update (key (md_label (metadata e))) v t)"
  using assms by (auto simp: table_ok_def set_update_wf)

lemma table_ok_delete: "table_ok c key t \<Longrightarrow> table_ok c key (AList.delete k t)"
  unfolding table_ok_def by (intro conjI) (simp, auto simp: AList.delete_eq)

lemma table_ok_lookup:
  assumes "table_ok c key t" "inj key" "map_of t (key l) = Some v"
  obtains e where "from_value c v = Inr e" "md_label (metadata e) = l"
  using assms by (fastforce simp: table_ok_def dest: map_of_SomeD injD)

lemma decoded_update:
  "inj key \<Longrightarrow> from_value c v = Inr e \<Longrightarrow>
     decoded_table c key (AList.update (key (md_label (metadata e))) v t) = (decoded_table c key t)(md_label (metadata e) \<mapsto> e)"
  by (auto simp: decoded_table_def fun_eq_iff inj_eq)

lemma decoded_delete: "inj key \<Longrightarrow> decoded_table c key (AList.delete (key l) t) = (decoded_table c key t)(l := None)"
  by (auto simp: decoded_table_def fun_eq_iff inj_eq delete_conv')

lemma decoded_present: "table_ok c key t \<Longrightarrow> inj key \<Longrightarrow> (map_of t (key l) \<noteq> None) = (decoded_table c key t l \<noteq> None)"
  by (auto simp: decoded_table_def split: option.split elim: table_ok_lookup)

text \<open>What a batch makes of a table.\<close>

definition batched :: "'v entry_codec \<Rightarrow> (label \<Rightarrow> 'k) \<Rightarrow> encrypted_entry list \<Rightarrow> ('k, 'v) alist \<Rightarrow> ('k, 'v) alist \<Rightarrow> bool" where
  "batched c key es t t' \<longleftrightarrow> table_ok c key t' \<and> decoded_table c key t' = stored es (decoded_table c key t)"

lemma batched_Cons:
  assumes "table_ok c key t" "inj key" "from_value c v = Inr e" "batched c key es (AList.update (key (md_label (metadata e))) v t) t'"
  shows "batched c key (e # es) t t'"
  using assms by (simp add: batched_def decoded_update stored_Cons)

lemma batched_Nil [simp]: "table_ok c key t \<Longrightarrow> batched c key [] t t"
  by (simp add: batched_def stored_def)

lemma spec_insert_entries:
  assumes "codec_law c" "inj key" "E t" "table_ok c key t1"
  shows "db_spec A t (insert_entries c key es t1) (\<lambda>t' s. s = t \<and> batched c key es t1 t') E"
  using assms(4)
proof (induction es arbitrary: t1)
  case Nil
  then show ?case by (simp add: batched_def stored_def spec_return)
next
  case (Cons e es)
  show ?case unfolding insert_entries.simps
  proof (rule spec_bind [where Q = "\<lambda>v s. s = t \<and> to_value c e = Inr v", OF spec_lift])
    fix v s assume s: "s = t \<and> to_value c e = Inr v"
    then have v: "from_value c v = Inr e" using assms(1) by (auto simp: codec_law_def)
    let ?t = "AList.update (key (md_label (metadata e))) v t1"
    have "db_spec A t (insert_entries c key es ?t) (\<lambda>t' s. s = t \<and> batched c key (e # es) t1 t') E"
      by (rule spec_weaken [OF Cons.IH [OF table_ok_update [OF Cons.prems v]]])
        (simp add: batched_Cons [OF Cons.prems assms(2) v])
    then show "db_spec A s (db_bind db_call (\<lambda>_. insert_entries c key es ?t)) (\<lambda>t' s. s = t \<and> batched c key (e # es) t1 t') E"
      using s assms(3) by (intro spec_bind [where Q = "\<lambda>_ s. s = t", OF spec_call]) simp_all
  qed (use assms(3) in simp_all)
qed

definition listing_of :: "'v entry_codec \<Rightarrow> ('k, 'v) alist \<Rightarrow> key_metadata list" where
  "listing_of c t = map (\<lambda>(_, v). metadata (projr (from_value c v))) t"

lemma listing_of_simps [simp]:
  "listing_of c [] = []" "listing_of c ((k, v) # t) = metadata (projr (from_value c v)) # listing_of c t"
  by (simp_all add: listing_of_def)

lemma spec_decode_rows:
  assumes "\<And>Q. Q () t \<Longrightarrow> db_spec A t step Q E" "E t" "\<And>l. label_of (key l) = Inr l" "table_ok c key t1"
  shows "db_spec A t (decode_rows c step label_of t1) (\<lambda>ms s. s = t \<and> ms = listing_of c t1) E"
  using assms(4)
proof (induction t1)
  case Nil
  then show ?case by (simp add: spec_return)
next
  case (Cons x t1)
  obtain k v where x: "x = (k, v)" by (cases x)
  obtain e where e: "from_value c v = Inr e" "k = key (md_label (metadata e))" and ok: "table_ok c key t1"
    using Cons.prems by (auto simp: x table_ok_def)
  have "db_spec A t (db_bind step (\<lambda>_. db_bind (decode_rows c step label_of t1) (\<lambda>ms. db_return (metadata e # ms))))
      (\<lambda>ms s. s = t \<and> ms = listing_of c (x # t1)) E"
    by (rule spec_bind [where Q = "\<lambda>_ s. s = t", OF assms(1)], simp,
        rule spec_bind [where Q = "\<lambda>ms s. s = t \<and> ms = listing_of c t1"])
      (use Cons.IH [OF ok] in \<open>auto simp: x e(1) intro!: spec_return\<close>)
  moreover have "decode_rows c step label_of (x # t1) =
      db_bind step (\<lambda>_. db_bind (decode_rows c step label_of t1) (\<lambda>ms. db_return (metadata e # ms)))"
    using assms(3) e by (simp add: x db_lift_def db_return_def db_bind_def fun_eq_iff cong: sum.case_cong)
  ultimately show ?case by simp
qed

lemma listing_ok:
  assumes "table_ok c key t" "inj key"
  shows "distinct (map md_label (listing_of c t)) \<and> set (listing_of c t) = metadata ` ran (decoded_table c key t)"
proof -
  have e: "\<exists>e. from_value c v = Inr e \<and> k = key (md_label (metadata e))" if "(k, v) \<in> set t" for k v
    using assms(1) that by (auto simp: table_ok_def)
  have "map key (map md_label (listing_of c t)) = map fst t"
    using e by (fastforce simp: listing_of_def)
  then have "distinct (map md_label (listing_of c t))"
    using assms(1) by (metis distinct_map table_ok_def)
  moreover have "set (listing_of c t) = metadata ` ran (decoded_table c key t)"
  proof (intro equalityI subsetI)
    fix m assume "m \<in> set (listing_of c t)"
    then obtain k v where kv: "(k, v) \<in> set t" "m = metadata (projr (from_value c v))" by (auto simp: listing_of_def)
    with e obtain e' where e': "from_value c v = Inr e'" "k = key (md_label (metadata e'))" by blast
    have "map_of t k = Some v" using kv(1) assms(1) by (simp add: table_ok_def map_of_wf_iff)
    then have "decoded_table c key t (md_label (metadata e')) = Some e'" by (simp add: decoded_table_def e')
    with kv e' show "m \<in> metadata ` ran (decoded_table c key t)" by (auto simp: ran_def)
  next
    fix m assume "m \<in> metadata ` ran (decoded_table c key t)"
    then obtain l e' where le: "m = metadata e'" "decoded_table c key t l = Some e'" by (auto simp: ran_def)
    then obtain v where "map_of t (key l) = Some v" "from_value c v = Inr e'"
      by (cases "map_of t (key l)") (auto simp: decoded_table_def split: sum.splits)
    with le(1) have "m = metadata e'" "map_of t (key l) = Some v" "from_value c v = Inr e'" by simp_all
    then show "m \<in> set (listing_of c t)" by (force simp: listing_of_def dest: map_of_SomeD)
  qed
  ultimately show ?thesis ..
qed

subsection \<open>The operations\<close>

text \<open>One rule per step of an operation, so that \<open>intro\<close> walks through it.\<close>

named_theorems db_steps

lemma step_call [db_steps]: "E t \<Longrightarrow> db_spec A t (f ()) R E \<Longrightarrow> db_spec A t (db_bind db_call f) R E"
  by (rule spec_bind [where Q = "\<lambda>_ s. s = t", OF spec_call]) auto

lemma step_rows [db_steps]: "db_spec A t (f t) R E \<Longrightarrow> db_spec A t (db_bind db_rows f) R E"
  by (rule spec_bind [where Q = "\<lambda>a s. s = t \<and> a = t", OF spec_rows]) auto

lemma step_lift [db_steps]:
  "E t \<Longrightarrow> (\<And>a. r = Inr a \<Longrightarrow> db_spec A t (f a) R E) \<Longrightarrow> db_spec A t (db_bind (db_lift r) f) R E"
  by (rule spec_bind [where Q = "\<lambda>a s. s = t \<and> r = Inr a", OF spec_lift]) auto

lemma step_object_store [db_steps]: "E t \<Longrightarrow> db_spec A t (f ()) R E \<Longrightarrow> db_spec A t (db_bind object_store f) R E"
  by (rule spec_bind [where Q = "\<lambda>_ s. s = t", OF spec_object_store]) auto

lemma step_redb [db_steps]: "E t \<Longrightarrow> db_spec A t (f ()) R E \<Longrightarrow> db_spec A t (db_bind redb_db f) R E"
  unfolding redb_db_def by (rule spec_bind [where Q = "\<lambda>_ s. s = t", OF spec_once]) (auto intro!: step_call spec_call)

lemma step_sqlite [db_steps]: "E t \<Longrightarrow> db_spec A t (f ()) R E \<Longrightarrow> db_spec A t (db_bind sqlite_pool f) R E"
  unfolding sqlite_pool_def
  by (rule spec_bind [where Q = "\<lambda>_ s. s = t", OF spec_once]) (auto intro!: step_call step_rows spec_commit_tx)

lemma step_idb [db_steps]: "E t \<Longrightarrow> db_spec A t (f ()) R E \<Longrightarrow> db_spec A t (db_bind idb_db f) R E"
proof -
  assume e: "E t" and f: "db_spec A t (f ()) R E"
  have "db_spec A t (db_bind create_store (\<lambda>_. db_call)) (\<lambda>_ s. s = t) E"
    by (rule spec_bind [where Q = "\<lambda>_ s. s = t", OF spec_create_store]) (auto simp: e intro!: spec_call)
  then have "db_spec A t idb_db (\<lambda>_ s. s = t) E"
    unfolding idb_db_def by (intro spec_once db_steps) (simp_all add: e)
  then show ?thesis by (rule spec_bind) (simp add: f)
qed

lemma step_commit [db_steps]: "E t \<Longrightarrow> E t' \<Longrightarrow> db_spec A t' (f ()) R E \<Longrightarrow> db_spec A t (db_bind (db_commit_tx t') f) R E"
  by (rule spec_bind [where Q = "\<lambda>_ s. s = t'", OF spec_commit_tx]) auto

lemma spec_found:
  "table_ok c key t \<Longrightarrow> inj key \<Longrightarrow> E t \<Longrightarrow>
     db_spec A t (decode_found c (map_of t (key l))) (\<lambda>r s. s = t \<and> r = decoded_table c key t l) E"
  by (rule spec_decode_found) (auto simp: decoded_table_def elim!: table_ok_lookup)

lemma batched_single:
  "table_ok c key t \<Longrightarrow> inj key \<Longrightarrow> codec_law c \<Longrightarrow> to_value c e = Inr v \<Longrightarrow>
     batched c key [e] t (AList.update (key (md_label (metadata e))) v t)"
  by (rule batched_Cons [where v = v]) (auto simp: codec_law_def batched_def stored_def table_ok_update)

text \<open>
  What the five operations have to do to form a backend, where \<open>part es\<close> are the batches that a failing batch \<open>es\<close>
  may have stored. If they are only the empty and the whole batch, the backend's batches are atomic.
\<close>

definition whole :: "'a list \<Rightarrow> 'a list set" where
  "whole es = {[], es}"

definition prefixes :: "'a list \<Rightarrow> 'a list set" where
  "prefixes es = (\<lambda>n. take n es) ` UNIV"

lemma whole_prefixes: "whole es \<subseteq> prefixes es"
proof -
  have "take 0 es \<in> prefixes es" "take (length es) es \<in> prefixes es" unfolding prefixes_def by (rule rangeI)+
  then show ?thesis by (simp add: whole_def)
qed

lemma prefixes_subset: "es' \<in> prefixes es \<Longrightarrow> set es' \<subseteq> set es"
  by (auto simp: prefixes_def dest: in_set_takeD)

lemma prefixes_single: "es' \<in> prefixes [e] \<Longrightarrow> es' = [] \<or> es' = [e]"
  by (auto simp: prefixes_def take_Cons split: nat.splits)

lemma batched_whole:
  "table_ok c key t \<Longrightarrow> \<exists>es'\<in>whole es. batched c key es' t t"
  "batched c key es t s \<Longrightarrow> \<exists>es'\<in>whole es. batched c key es' t s"
  by (auto simp: whole_def)

definition db_ops_ok ::
  "db_outcome set \<Rightarrow> (encrypted_entry list \<Rightarrow> encrypted_entry list set) \<Rightarrow> 'v entry_codec \<Rightarrow> (label \<Rightarrow> 'k) \<Rightarrow> ('k, 'v) db backend_ops
     \<Rightarrow> bool" where
  "db_ops_ok A part c key ops \<longleftrightarrow> inj key \<and> (\<forall>t. table_ok c key t \<longrightarrow>
       (\<forall>l. db_spec A t (be_get ops l) (\<lambda>r s. s = t \<and> r = decoded_table c key t l) (\<lambda>s. s = t))
     \<and> db_spec A t (be_list ops) (\<lambda>ms s. s = t \<and> ms = listing_of c t) (\<lambda>s. s = t)
     \<and> (\<forall>e. db_spec A t (be_put ops e) (\<lambda>_. batched c key [e] t) (\<lambda>s. \<exists>es'\<in>part [e]. batched c key es' t s))
     \<and> (\<forall>es. db_spec A t (be_put_many ops es) (\<lambda>_. batched c key es t) (\<lambda>s. \<exists>es'\<in>part es. batched c key es' t s))
     \<and> (\<forall>l. db_spec A t (be_remove ops l) (\<lambda>x s. s = AList.delete (key l) t \<and> x = (map_of t (key l) \<noteq> None))
          (\<lambda>s. s = t \<or> s = AList.delete (key l) t)))"

definition db_contents :: "'v entry_codec \<Rightarrow> (label \<Rightarrow> 'k) \<Rightarrow> ('k, 'v) db \<Rightarrow> label \<rightharpoonup> encrypted_entry" where
  "db_contents c key w = decoded_table c key (rows w)"

definition db_inv :: "db_outcome set \<Rightarrow> 'v entry_codec \<Rightarrow> (label \<Rightarrow> 'k) \<Rightarrow> ('k, 'v) db \<Rightarrow> bool" where
  "db_inv A c key w \<longleftrightarrow> table_ok c key (rows w) \<and> set (db_outcomes w) \<subseteq> A"

lemma db_inv_run:
  assumes "db_inv A c key w" "db_spec A (rows w) m Q E" "m w = (w', r)"
  shows "set (db_outcomes w') \<subseteq> A" "case r of Inr a \<Rightarrow> Q a (rows w') | Inl e \<Rightarrow> backend_error e \<and> E (rows w')"
  using assms unfolding db_spec_def db_inv_def by (blast dest: subset_trans)+

lemma db_keystore_backend:
  assumes ok: "db_ops_ok A part c key ops" and part: "\<And>es. part es \<subseteq> prefixes es"
  shows "keystore_backend ops (db_contents c key) (db_inv A c key) backend_error"
proof -
  have inj: "inj key" using ok by (simp add: db_ops_ok_def)
  note run = db_inv_run
  have I: "db_inv A c key w \<Longrightarrow> table_ok c key (rows w)" for w by (simp add: db_inv_def)
  show ?thesis
  proof (unfold_locales, goal_cases)
    case (1 w l w' r)
    then have "db_spec A (rows w) (be_get ops l) (\<lambda>r s. s = rows w \<and> r = decoded_table c key (rows w) l) (\<lambda>s. s = rows w)"
      using ok I by (simp add: db_ops_ok_def)
    from run [OF 1(1) this 1(2)] 1(1) show ?case by (cases r) (auto simp: db_inv_def db_contents_def)
  next
    case (2 w w' r)
    then have "db_spec A (rows w) (be_list ops) (\<lambda>ms s. s = rows w \<and> ms = listing_of c (rows w)) (\<lambda>s. s = rows w)"
      using ok I by (simp add: db_ops_ok_def)
    from run [OF 2(1) this 2(2)] listing_ok [OF I [OF 2(1)] inj] 2(1) show ?case
      by (cases r) (auto simp: db_inv_def db_contents_def)
  next
    case (3 w e w' r)
    then have "db_spec A (rows w) (be_put ops e) (\<lambda>_. batched c key [e] (rows w)) (\<lambda>s. \<exists>es'\<in>part [e]. batched c key es' (rows w) s)"
      using ok I by (simp add: db_ops_ok_def)
    from run [OF 3(1) this 3(2)] 3(1) part [of "[e]"] show ?case
      by (cases r) (auto simp: db_inv_def db_contents_def batched_def stored_def [of "[]"] dest!: prefixes_single subsetD)
  next
    case (4 w es w' r)
    then have "db_spec A (rows w) (be_put_many ops es) (\<lambda>_. batched c key es (rows w)) (\<lambda>s. \<exists>es'\<in>part es. batched c key es' (rows w) s)"
      using ok I by (simp add: db_ops_ok_def)
    from run [OF 4(1) this 4(2)] 4(1) part [of es] show ?case
      by (cases r) (auto simp: db_inv_def db_contents_def batched_def, metis stored_cases prefixes_subset subsetD)
  next
    case (5 w l w' r)
    then have "db_spec A (rows w) (be_remove ops l) (\<lambda>x s. s = AList.delete (key l) (rows w) \<and> x = (map_of (rows w) (key l) \<noteq> None))
        (\<lambda>s. s = rows w \<or> s = AList.delete (key l) (rows w))"
      using ok I by (simp add: db_ops_ok_def)
    from run [OF 5(1) this 5(2)] 5(1) decoded_present [OF I [OF 5(1)] inj, of l] show ?case
      by (cases r) (auto simp: db_inv_def db_contents_def decoded_delete [OF inj] intro: table_ok_delete)
  next
    case (6 w l e)
    then show ?case
      by (auto simp: db_contents_def decoded_table_def split: option.splits sum.splits elim!: table_ok_lookup [OF I [OF 6(1)] inj])
  qed
qed

lemma db_atomic_backend:
  assumes ok: "db_ops_ok A whole c key ops"
  shows "atomic_backend ops (db_contents c key) (db_inv A c key) backend_error"
proof (rule atomic_backend.intro [OF db_keystore_backend [OF ok whole_prefixes]], unfold_locales)
  fix w es w' err assume w: "db_inv A c key w" and run: "be_put_many ops es w = (w', Inl err)"
  from w have "db_spec A (rows w) (be_put_many ops es) (\<lambda>_. batched c key es (rows w))
      (\<lambda>s. \<exists>es'\<in>whole es. batched c key es' (rows w) s)"
    using ok by (simp add: db_ops_ok_def db_inv_def)
  from db_inv_run(2) [OF w this run]
  show "db_contents c key w' = db_contents c key w \<or> db_contents c key w' = stored es (db_contents c key w)"
    by (auto simp: db_contents_def batched_def whole_def stored_def)
qed

subsection \<open>The three databases\<close>

lemma redb_ops_ok:
  assumes law: "codec_law c"
  shows "db_ops_ok A whole c id (redb_backend c)"
  unfolding db_ops_ok_def
proof (intro conjI allI impI)
  fix t assume ok: "table_ok c id t"
  show "db_spec A t (be_get (redb_backend c) l) (\<lambda>r s. s = t \<and> r = decoded_table c id t l) (\<lambda>s. s = t)" for l
    using spec_found [OF ok, of "\<lambda>s. s = t" A l]
    by (auto simp: redb_backend_def redb_get_def decoded_table_def intro!: db_steps spec_table)
  show "db_spec A t (be_list (redb_backend c)) (\<lambda>ms s. s = t \<and> ms = listing_of c t) (\<lambda>s. s = t)"
    by (auto simp: redb_backend_def redb_list_def intro!: db_steps spec_table spec_decode_rows [where key = id] spec_call ok)
  show "db_spec A t (be_put (redb_backend c) e) (\<lambda>_. batched c id [e] t) (\<lambda>s. \<exists>es'\<in>whole [e]. batched c id es' t s)" for e
    using batched_single [OF ok _ law, of e]
    by (auto simp: redb_backend_def redb_put_def batched_whole ok intro!: db_steps spec_commit_tx)
  show "db_spec A t (be_put_many (redb_backend c) es) (\<lambda>_. batched c id es t) (\<lambda>s. \<exists>es'\<in>whole es. batched c id es' t s)" for es
    unfolding redb_backend_def redb_put_many_def backend_ops.simps
    by (intro db_steps spec_bind [where Q = "\<lambda>t' s. s = t \<and> batched c id es t t'", OF spec_abort] spec_insert_entries law ok)
      (auto simp: batched_whole ok intro!: spec_commit_tx)
  show "db_spec A t (be_remove (redb_backend c) l) (\<lambda>x s. s = AList.delete (id l) t \<and> x = (map_of t (id l) \<noteq> None))
      (\<lambda>s. s = t \<or> s = AList.delete (id l) t)" for l
    by (auto simp: redb_backend_def redb_remove_def intro!: db_steps spec_return)
qed simp

lemma sqlite_ops_ok:
  assumes law: "codec_law c"
  shows "db_ops_ok A whole c id (sqlite_backend c)"
  unfolding db_ops_ok_def
proof (intro conjI allI impI)
  fix t assume ok: "table_ok c id t"
  show "db_spec A t (be_get (sqlite_backend c) l) (\<lambda>r s. s = t \<and> r = decoded_table c id t l) (\<lambda>s. s = t)" for l
    using spec_found [OF ok, of "\<lambda>s. s = t" A l]
    by (auto simp: sqlite_backend_def sqlite_get_def intro!: db_steps)
  show "db_spec A t (be_list (sqlite_backend c)) (\<lambda>ms s. s = t \<and> ms = listing_of c t) (\<lambda>s. s = t)"
    by (auto simp: sqlite_backend_def sqlite_list_def intro!: db_steps spec_decode_rows [where key = id] spec_return ok)
  show "db_spec A t (be_put (sqlite_backend c) e) (\<lambda>_. batched c id [e] t) (\<lambda>s. \<exists>es'\<in>whole [e]. batched c id es' t s)" for e
    using batched_single [OF ok _ law, of e]
    by (auto simp: sqlite_backend_def sqlite_put_def batched_whole ok intro!: db_steps spec_commit_tx)
  show "db_spec A t (be_put_many (sqlite_backend c) es) (\<lambda>_. batched c id es t) (\<lambda>s. \<exists>es'\<in>whole es. batched c id es' t s)" for es
    unfolding sqlite_backend_def sqlite_put_many_def backend_ops.simps
    by (intro db_steps spec_bind [where Q = "\<lambda>t' s. s = t \<and> batched c id es t t'"] spec_insert_entries law ok)
      (auto simp: batched_whole ok intro!: spec_commit_tx)
  show "db_spec A t (be_remove (sqlite_backend c) l) (\<lambda>x s. s = AList.delete (id l) t \<and> x = (map_of t (id l) \<noteq> None))
      (\<lambda>s. s = t \<or> s = AList.delete (id l) t)" for l
    by (auto simp: sqlite_backend_def sqlite_remove_def intro!: db_steps spec_return)
qed simp

lemma inj_JsString: "inj JsString"
  by (simp add: inj_def)

text \<open>
  What a failing batch over IndexedDB may have stored: a part of the batch only if a failing call may take effect.
\<close>

definition idb_part :: "db_outcome set \<Rightarrow> encrypted_entry list \<Rightarrow> encrypted_entry list set" where
  "idb_part A es = (if \<exists>x. DbErrApplied x \<in> A then prefixes es else whole es)"

lemma idb_part_prefixes: "idb_part A es \<subseteq> prefixes es"
  using whole_prefixes [of es] by (simp add: idb_part_def)

lemma idb_part_whole: "[] \<in> idb_part A es" "es \<in> idb_part A es"
  using whole_prefixes [of es] by (auto simp: idb_part_def whole_def)

lemma spec_queue_writes:
  "db_spec A t (queue_writes ps t1) (\<lambda>(t', failed) s. s = t \<and> (\<exists>n. t' = fold (\<lambda>(k, v). AList.update k v) (take n ps) t1)
     \<and> (case failed of None \<Rightarrow> t' = fold (\<lambda>(k, v). AList.update k v) ps t1 | Some e \<Rightarrow> backend_error e)) E"
proof (induction ps t1 rule: queue_writes.induct)
  case (1 t1)
  then show ?case by (simp add: spec_return)
next
  case (2 k v ps t1)
  have "db_spec A t (queue_writes ps (AList.update k v t1)) (\<lambda>(t', failed) s. s = t
      \<and> (\<exists>n. t' = fold (\<lambda>(k, v). AList.update k v) (take n ((k, v) # ps)) t1)
      \<and> (case failed of None \<Rightarrow> t' = fold (\<lambda>(k, v). AList.update k v) ((k, v) # ps) t1 | Some e \<Rightarrow> backend_error e)) E"
    by (rule spec_weaken [OF 2]) (auto cong: option.case_cong intro: exI [of _ "Suc _"] split: option.splits)
  moreover have "\<exists>n. t1 = fold (\<lambda>(k, v). AList.update k v) (take n ((k, v) # ps)) t1" by (rule exI [of _ 0]) simp
  ultimately show ?case unfolding queue_writes.simps
    by (intro spec_bind [where Q = "\<lambda>failed s. s = t \<and> (\<forall>e. failed = Some e \<longrightarrow> backend_error e)"] spec_try spec_call)
      (auto intro!: spec_return split: option.splits)
qed

lemma spec_queue_batch:
  "db_spec A t (queue_batch ps) (\<lambda>(t', failed) s. s = t \<and> (\<exists>n. t' = fold (\<lambda>(k, v). AList.update k v) (take n ps) t)
     \<and> (case failed of None \<Rightarrow> t' = fold (\<lambda>(k, v). AList.update k v) ps t | Some e \<Rightarrow> backend_error e)) E"
proof -
  have "\<exists>n. t = fold (\<lambda>(k, v). AList.update k v) (take n ps) t" by (rule exI [of _ 0]) simp
  then show ?thesis unfolding queue_batch_def
    by (intro spec_bind [where Q = "\<lambda>failed s. s = t \<and> (\<forall>e. failed = Some e \<longrightarrow> backend_error e)"] spec_try spec_object_store)
      (auto intro!: spec_return db_steps spec_queue_writes split: option.splits)
qed

lemma spec_prepare_values:
  assumes "codec_law c" "E t"
  shows "db_spec A t (prepare_values c es) (\<lambda>ps s. s = t \<and> length ps = length es \<and> (\<forall>t1 n. table_ok c JsString t1 \<longrightarrow>
     batched c JsString (take n es) t1 (fold (\<lambda>(k, v). AList.update k v) (take n ps) t1))) E"
proof (induction es)
  case Nil
  then show ?case by (auto intro!: spec_return)
next
  case (Cons e es)
  show ?case unfolding prepare_values.simps
  proof (rule step_lift, rule assms(2), rule spec_bind [OF Cons.IH], rule spec_return, elim conjE, intro conjI allI impI)
    fix v ps s t1 n assume v: "to_value c e = Inr v" and ok: "table_ok c JsString t1"
      and ps: "\<forall>t1 n. table_ok c JsString t1 \<longrightarrow>
        batched c JsString (take n es) t1 (fold (\<lambda>(k, v). AList.update k v) (take n ps) t1)"
    have "from_value c v = Inr e" using v assms(1) by (simp add: codec_law_def)
    with ps ok show "batched c JsString (take n (e # es)) t1
        (fold (\<lambda>(k, v). AList.update k v) (take n ((JsString (md_label (metadata e)), v) # ps)) t1)"
      by (cases n) (auto intro!: batched_Cons [where v = v] table_ok_update inj_JsString)
  qed simp_all
qed

lemma spec_idb_commit:
  "E t \<Longrightarrow> E t' \<Longrightarrow> Q True t' \<Longrightarrow> (DbAborted \<in> A \<Longrightarrow> Q False t) \<Longrightarrow> db_spec A t (idb_commit t') Q E"
  unfolding idb_commit_def
  by (rule spec_bind [where Q = "\<lambda>_ s. s = t", OF spec_call_queued]) (auto intro!: spec_commit)

lemma spec_idb_abort:
  assumes "backend_error e" "E t" "(\<exists>x. DbErrApplied x \<in> A) \<Longrightarrow> E t'"
  shows "db_spec A t (idb_abort c t' e) Q E"
  unfolding idb_abort_def
  by (rule spec_bind [where Q = "\<lambda>_. E", OF spec_try [OF spec_call_queued]])
    (use assms in \<open>auto intro: spec_fail spec_error split: option.split\<close>)

lemma idb_put_many_ok:
  assumes law: "codec_law c" and ok: "table_ok c JsString t"
  shows "db_spec A t (idb_put_many c es) (\<lambda>_. batched c JsString es t) (\<lambda>s. \<exists>es'\<in>idb_part A es. batched c JsString es' t s)"
    (is "db_spec A t _ ?Q ?E")
  unfolding idb_put_many_def
proof (rule spec_bind [OF spec_prepare_values [OF law]])
  have E: "?E t" using ok by (blast intro: idb_part_whole batched_Nil)
  then show "?E t" .
  fix ps s assume ps: "s = t \<and> length ps = length es \<and> (\<forall>t1 n. table_ok c JsString t1 \<longrightarrow>
     batched c JsString (take n es) t1 (fold (\<lambda>(k, v). AList.update k v) (take n ps) t1))"
  let ?upd = "fold (\<lambda>(k, v). AList.update k v)"
  have part: "batched c JsString (take n es) t (?upd (take n ps) t)" for n using ps ok by blast
  from part [of "length es"] ps have b: "batched c JsString es t (?upd ps t)" by simp
  have commit: "db_spec A t (db_bind (idb_commit (?upd ps t)) (\<lambda>ok. if \<not> ok then db_error e else db_return ())) ?Q ?E" for e
    by (rule spec_bind [where Q = "\<lambda>ok s. if ok then s = ?upd ps t else s = t", OF spec_idb_commit])
      (use b E idb_part_whole(2) in \<open>auto intro!: spec_return spec_error\<close>)
  have abort: "db_spec A t (idb_abort c (?upd (take n ps) t) e) ?Q ?E" if "backend_error e" for n e
    by (rule spec_idb_abort [where E = ?E, OF that E]) (use part [of n] in \<open>auto simp: idb_part_def prefixes_def\<close>)
  have batch: "db_spec A t (db_bind (queue_batch ps) (\<lambda>(t, queued). case queued of Some e \<Rightarrow> idb_abort c t e
      | None \<Rightarrow> db_bind (idb_commit t) (\<lambda>ok. if \<not> ok then db_error m else db_return ()))) ?Q ?E" for m
    by (rule spec_bind [OF spec_queue_batch]) (auto intro: commit abort split: option.splits)
  show "db_spec A s (db_bind idb_db (\<lambda>_. db_bind db_call (\<lambda>_. db_bind (queue_batch ps) (\<lambda>(t, queued). case queued of
      Some e \<Rightarrow> idb_abort c t e
    | None \<Rightarrow> db_bind (idb_commit t) (\<lambda>committed.
        if \<not> committed then db_error ''IndexedDB batch transaction aborted'' else db_return ()))))) ?Q ?E"
    using ps by (auto intro!: step_idb step_call batch E)
qed

lemma idb_ops_ok:
  assumes law: "codec_law c" and A: "DbAborted \<notin> A"
  shows "db_ops_ok A (idb_part A) c JsString (idb_backend c)"
  unfolding db_ops_ok_def
proof (intro conjI allI impI)
  fix t assume ok: "table_ok c JsString t"
  show "db_spec A t (be_get (idb_backend c) l) (\<lambda>r s. s = t \<and> r = decoded_table c JsString t l) (\<lambda>s. s = t)" for l
    using spec_found [OF ok inj_JsString, of "\<lambda>s. s = t" A l]
    by (auto simp: idb_backend_def idb_get_def intro!: db_steps)
  show "db_spec A t (be_list (idb_backend c)) (\<lambda>ms s. s = t \<and> ms = listing_of c t) (\<lambda>s. s = t)"
    by (auto simp: idb_backend_def idb_list_def Let_def zip_map_fst_snd as_string_def
        intro!: db_steps spec_decode_rows [where key = JsString] spec_return ok)
  show "db_spec A t (be_put (idb_backend c) e) (\<lambda>_. batched c JsString [e] t)
      (\<lambda>s. \<exists>es'\<in>idb_part A [e]. batched c JsString es' t s)" for e
    using idb_put_many_ok [OF law ok] by (simp add: idb_backend_def idb_put_def)
  show "db_spec A t (be_put_many (idb_backend c) es) (\<lambda>_. batched c JsString es t)
      (\<lambda>s. \<exists>es'\<in>idb_part A es. batched c JsString es' t s)" for es
    using idb_put_many_ok [OF law ok] by (simp add: idb_backend_def)
  show "db_spec A t (be_remove (idb_backend c) l)
      (\<lambda>x s. s = AList.delete (JsString l) t \<and> x = (map_of t (JsString l) \<noteq> None))
      (\<lambda>s. s = t \<or> s = AList.delete (JsString l) t)" for l
    using A unfolding idb_backend_def idb_remove_def backend_ops.simps
    by (intro db_steps spec_bind [where Q = "\<lambda>_ s. s = t", OF spec_call_queued]
        spec_bind [where Q = "\<lambda>_ s. s = AList.delete (JsString l) t", OF spec_idb_commit]) (auto intro!: db_steps
        spec_bind [where Q = "\<lambda>_ s. s = AList.delete (JsString l) t", OF spec_idb_commit] spec_return)
qed (simp add: inj_JsString)

subsection \<open>Properties\<close>

text \<open>
  C24: the database keystores implement the keystore contract, given that a commit of the database takes effect as a
  whole or not at all. Over redb and SQLite, for every sequence of failing calls: what was put is what is read and listed, a call that fails
  with a backend error has done nothing or all of its work, and a batch is all or nothing even when the commit fails. Over
  IndexedDB the contract holds while the browser aborts no transaction behind the program's back, whichever calls fail: there a failing batch may have
  stored a part of its entries, each of them whole. If in addition no failing call takes effect, its batches are all or nothing too. So
  what is proved of the keychain over such a backend holds over these.
\<close>

theorem database_keystores_contract:
  assumes "codec_law c"
  shows "atomic_backend (redb_backend c) (db_contents c id) (db_inv UNIV c id) backend_error
    \<and> atomic_backend (sqlite_backend c) (db_contents c id) (db_inv UNIV c id) backend_error
    \<and> keystore_backend (idb_backend c) (db_contents c JsString) (db_inv (- {DbAborted}) c JsString) backend_error
    \<and> atomic_backend (idb_backend c) (db_contents c JsString) (db_inv (- {DbAborted} - range DbErrApplied) c JsString) backend_error"
proof (intro conjI)
  have "db_ops_ok (- {DbAborted} - range DbErrApplied) whole c JsString (idb_backend c)"
    using idb_ops_ok [OF assms, of "- {DbAborted} - range DbErrApplied"] by (simp add: idb_part_def [abs_def])
  then show "atomic_backend (idb_backend c) (db_contents c JsString) (db_inv (- {DbAborted} - range DbErrApplied) c JsString)
      backend_error"
    by (rule db_atomic_backend)
qed (rule db_atomic_backend [OF redb_ops_ok [OF assms]] db_atomic_backend [OF sqlite_ops_ok [OF assms]]
      db_keystore_backend [OF idb_ops_ok [OF assms] idb_part_prefixes]; simp)+

definition example_codec :: "encrypted_entry entry_codec" where
  "example_codec = \<lparr>to_value = Inr, from_value = Inr, show_error = (\<lambda>_. [])\<rparr>"

lemma example_codec_law: "codec_law example_codec"
  by (simp add: codec_law_def example_codec_def)

definition example_db :: "db_outcome list \<Rightarrow> (label, encrypted_entry) db" where
  "example_db xs = \<lparr>db_opened = True, db_table = None, db_outcomes = xs\<rparr>"

theorem database_keystores_contract_witness:
  "atomic_backend (redb_backend example_codec) (db_contents example_codec id) (db_inv UNIV example_codec id) backend_error
     \<and> db_inv UNIV example_codec id (example_db [DbOk, DbErr ''disk full''])"
  using database_keystores_contract [OF example_codec_law]
  by (simp add: db_inv_def table_ok_def rows_def example_db_def)

text \<open>
  A removal over IndexedDB reports success although its transaction was aborted and the key is still stored: unlike
  a batch, it does not look at the outcome of the commit.
\<close>

lemma idb_remove_unnoticed_abort:
  "\<exists>w'. idb_remove l \<lparr>db_opened = True, db_table = Some [(JsString l, e)], db_outcomes = [DbOk, DbOk, DbOk, DbOk, DbOk, DbOk, DbOk, DbAborted]\<rparr>
     = (w', Inr True) \<and> rows w' = [(JsString l, e)]"
  by (simp add: idb_remove_def idb_db_def db_once_def db_bind_def db_call_def db_call_queued_def object_store_def db_rows_def
      idb_commit_def db_commit_def db_return_def next_outcome_def rows_def)

text \<open>
  A batch over IndexedDB whose second write cannot be queued and whose abort then fails may leave its first entry stored: the transaction
  is left to the browser.
\<close>

lemma idb_failed_abort_partial:
  assumes "key_a \<noteq> key_b" "to_value c e = Inr v" "to_value c f = Inr u" "md_label (metadata e) = key_a" "md_label (metadata f) = key_b"
  shows "\<exists>w' err. idb_put_many c [e, f]
       \<lparr>db_opened = True, db_table = Some [], db_outcomes = [DbOk, DbOk, DbOk, DbErr ''quota'', DbErrApplied ''inactive'']\<rparr> = (w', Inl err)
     \<and> rows w' = [(JsString key_a, v)]"
  using assms
  by (simp add: idb_put_many_def idb_db_def db_once_def db_bind_def db_lift_def db_return_def db_call_def db_call_queued_def db_try_def
      queue_batch_def idb_abort_def object_store_def db_rows_def db_error_def next_outcome_def rows_def)

end
