(* ===== verification/Spec2Isabelle.thy ===== *)
theory Spec2Isabelle
  imports Autorelay_Properties Autorelay_Handler Fs_Examples Request_Slots Peer_Store_Properties Handle_Properties
    Node_Builder_Properties Dns_Websys_Properties Db_Keystore_Properties
begin

text \<open>
  Verification of connexa, a Rust library that runs a libp2p node in a background task and offers its services through
  handles. File names below are under \<^verbatim>\<open>src/src\<close>.

  \<^bold>\<open>The program.\<close> An application configures a node with the builder (\<^verbatim>\<open>builder.rs\<close>), which takes the node's key from a
  keychain (\<^verbatim>\<open>keystore.rs\<close>), puts together the transports (\<^verbatim>\<open>builder/transport.rs\<close>) and the behaviours (\<^verbatim>\<open>behaviour.rs\<close>), and starts the
  task (\<^verbatim>\<open>task.rs\<close>). Handles (\<^verbatim>\<open>handle.rs\<close>, \<^verbatim>\<open>handle/*.rs\<close>) turn method calls into commands (\<^verbatim>\<open>types.rs\<close>), each with a oneshot channel for its
  answer. The task owns the swarm: it serves commands, follows the events of the swarm and of libp2p's protocols
  (\<^verbatim>\<open>task/*.rs\<close>), parks the channels of commands that wait for an event, and feeds the subscribers. Three behaviours are connexa's own: relay
  reservations (\<^verbatim>\<open>behaviour/autorelay.rs\<close>), request-response (\<^verbatim>\<open>behaviour/request_response.rs\<close>) and the peer store (\<^verbatim>\<open>behaviour/peer_store.rs\<close>). The
  keychain encrypts keys with a cipher (\<^verbatim>\<open>keystore/cipher/*.rs\<close>) and keeps them in one of five stores (\<^verbatim>\<open>keystore/store/*.rs\<close>).

  \<^bold>\<open>How code becomes definitions.\<close> Structures are records, enumerations are datatypes, integers whose width matters are words.
  A method that changes its object is a function from the old state to the new one; a call that may fail returns
  a sum whose left side is the error; a panic is None. Everything outside this repository (libp2p, the AEAD and database
  libraries, the operating system, the browser, the application's callbacks) is a record of functions that the definitions take as an argument; where
  a property relies on its documented behaviour, that is a hypothesis of the property, and an example shows it can hold. Hash maps are association
  lists whose order is one iteration order; no property depends on which. Channels are numbers, and what is sent over
  them is a list of effects in the order in which it is sent.

  \<^bold>\<open>Theories.\<close>

  \<^item> \<open>Connexa_Prelude\<close>: results, saturating arithmetic, durations, the containers and the collections of rewrite
    rules. \<open>Edge_Log\<close>: the contract of a value whose changes are notified. \<open>Pending_Tables\<close>: multisets of the handles waiting in
    tables. \<open>Connexa_Error\<close>: \<^verbatim>\<open>error.rs\<close> and \<^verbatim>\<open>error/*.rs\<close>. \<open>Utf8_Lossy\<close>: the conversion of bytes to text.
  \<^item> \<open>Multiaddr_Ext\<close> (\<^verbatim>\<open>multiaddr_ext.rs\<close>): the classification of addresses, and that its bit tests describe the reserved
    address blocks.
  \<^item> \<open>Autorelay\<close> (\<^verbatim>\<open>behaviour/autorelay.rs\<close>): every operation of the relay behaviour. \<open>Autorelay_Invariants\<close> shows that every operation
    keeps the invariant, \<open>Autorelay_Target\<close> what a selection round selects, \<open>Autorelay_Run\<close> that polling ends and what
    holds over runs, \<open>Autorelay_Properties\<close> the bound on reservations, the backoff, the absence of panics and the alternation of
    availability events. \<open>Autorelay_Handler\<close> (\<^verbatim>\<open>behaviour/autorelay/handler.rs\<close>): the handler of one connection.
  \<^item> \<open>Keystore_Metadata\<close>, \<open>Keystore_Cipher\<close>, \<open>Keychain\<close> (\<^verbatim>\<open>keystore.rs\<close>, \<^verbatim>\<open>keystore/cipher/*.rs\<close>, \<^verbatim>\<open>keystore/store/memory.rs\<close>): metadata and the byte
    string that binds it to a ciphertext, the framing of the ciphers, the operations of the keychain. \<open>Keychain_Laws\<close> states the
    contract of a store as the locale \<open>keystore_backend\<close> and proves the operations against it once; \<open>Keychain_Writes\<close> goes on with
    removal and migration, \<open>Keychain_Atomic\<close> extends the contract by atomic batches (\<open>atomic_backend\<close>), \<open>Keychain_Properties\<close> interprets it by the
    in-memory store, \<open>Keychain_Examples\<close> has a concrete keychain.
  \<^item> \<open>Fs_Model\<close> (\<^verbatim>\<open>keystore/store/fs.rs\<close>): the filesystem store over a disk on which every call may fail or be the last one before a crash.
    \<open>Fs_Crash\<close> is a program logic with a postcondition for crashes, \<open>Fs_Batch\<close> and \<open>Fs_Store\<close> specify batches, recovery and the
    operations with it, \<open>Fs_Backend\<close> shows that the store satisfies the two contracts, \<open>Fs_Properties\<close> that batches are atomic, that
    recovery can be interrupted and restarted, and that a migration loses no key; \<open>Fs_Examples\<close> has a concrete disk.
  \<^item> \<open>Db_Keystores\<close> (\<^verbatim>\<open>keystore/store/redb.rs\<close>, \<^verbatim>\<open>sqlite.rs\<close>, \<^verbatim>\<open>indexeddb.rs\<close>): the stores over a database each of whose calls may fail;
    \<open>Db_Keystore_Properties\<close> shows that those over redb and SQLite satisfy the same two contracts, and the one over IndexedDB the first while
    the browser aborts no transaction, and the second if also no failing call takes effect (\<open>idb_failed_abort_partial\<close> shows what may happen otherwise).
  \<^item> \<open>Request_Codec\<close> (\<^verbatim>\<open>behaviour/request_response/codec.rs\<close>), \<open>Request_Response\<close> (\<^verbatim>\<open>behaviour/request_response.rs\<close>, \<^verbatim>\<open>behaviour/rr_man.rs\<close>) and
    \<open>Request_Slots\<close> (the request-response part of \<^verbatim>\<open>behaviour.rs\<close>, \<^verbatim>\<open>task/request_response.rs\<close>): reading and writing within limits, the tables of waiting
    requests, the slots of protocols. \<open>Request_Response_Properties\<close> shows that every caller is answered exactly once and with the
    answer to its request.
  \<^item> \<open>Peer_Store\<close> (\<^verbatim>\<open>behaviour/peer_store.rs\<close>, \<^verbatim>\<open>behaviour/peer_store/*\<close>): the two stores with the locale \<open>address_store\<close> of what the behaviour
    relies on; \<open>Peer_Store_Properties\<close> shows which addresses are kept and which expire.
  \<^item> \<open>Task_Model\<close> (\<^verbatim>\<open>task.rs\<close>, \<^verbatim>\<open>types.rs\<close>), \<open>Task_Kad\<close>, \<open>Task_Rendezvous\<close>, \<open>Task_Pubsub\<close>, \<open>Task_Services\<close>, \<open>Task_Swarm\<close> (\<^verbatim>\<open>task/*.rs\<close>): the task, its
    commands and events, and its poll. \<open>Task_Accounting\<close> shows for every handler that no responder is lost or answered
    twice, \<open>Task_Typing\<close> that every answer has the type its caller expects, \<open>Task_Run\<close> lifts both to runs, \<open>Task_Listeners\<close> and \<open>Task_Dht\<close> treat listeners,
    rendezvous queues and offered records. \<open>Task_Properties\<close> holds the properties.
  \<^item> \<open>Handle_Convert\<close> and \<open>Handle_Api\<close> (\<^verbatim>\<open>handle.rs\<close>, \<^verbatim>\<open>handle/*.rs\<close>): the argument forms and every method of every handle. \<open>Handle_Properties\<close> composes
    a call with a run of the task that serves it.
  \<^item> \<open>Transport_Build\<close> (\<^verbatim>\<open>builder/transport.rs\<close>) and \<open>Node_Builder\<close> (\<^verbatim>\<open>builder.rs\<close>, \<^verbatim>\<open>Behaviour::new\<close> of \<^verbatim>\<open>behaviour.rs\<close>): the composition of transports and the
    build of a node. \<open>Node_Builder_Properties\<close>: building never panics, the node has the transports that were enabled, all of them encrypted, and its
    identity is found again by a second build over the in-memory store.
  \<^item> \<open>Dns_Websys\<close> (\<^verbatim>\<open>builder/dns_websys/mod.rs\<close>, \<^verbatim>\<open>resolver.rs\<close>): DNS over HTTPS in a browser. \<open>Dns_Websys_Properties\<close>: a dial
    ends within fixed numbers of fetches and attempts and is not led to another peer. How the library compares the ends of addresses is a parameter; the
    second needs that no other component of a record looks like the peer when encoded, and \<open>embedded_suffix_dialled\<close> shows why.

  \<^bold>\<open>Interfaces.\<close> The keychain is verified against the locales \<open>keystore_backend\<close> and \<open>atomic_backend\<close>; the in-memory store interprets them, and the filesystem and
  database stores satisfy them, as said above, for every encoding of entries that can be read back. The
  notifications of the relay behaviour and of its connection handler interpret \<open>edge_log\<close>; the two address stores interpret \<open>address_store\<close>; the
  dial loop carries every property that \<open>dns_invariant\<close> allows, in particular that the rest of the address is kept.

  \<^bold>\<open>Loops and bounds.\<close> Nearly every loop is structural recursion or has a termination proof. The loop of the relay behaviour's poll takes the clock
  readings it makes as a list; it is proved to need at most two per cooldown entry and one more, as a
  timer may fire between a reading and the poll of the timer. The loop of the
  request-response behaviour and the one of the task end when the libraries below have nothing left to report: the first is a partial function whose
  value is None if it does not end, proved to end when the library runs out of events; the second consumes the list of what is ready in this poll. The dial loop ends because at most
  32 lookups add addresses to its stack and every other step takes one off; at most 16 accepted attempts are made. Failure counters, backoff exponents and durations saturate as
  the code has them; the read limit of the codec is a 64-bit word that wraps.

  \<^bold>\<open>Deviations of the code from its intent.\<close> Each is a lemma next to the model: \<open>send_response_keeps_empty_entry\<close>, \<open>codec_limit_wraps\<close>,
  \<open>announced_address_still_expires\<close>, \<open>second_disconnect_drops_first\<close>, \<open>invalid_protocol_ignored\<close>, \<open>idb_remove_unnoticed_abort\<close>,
  \<open>huge_cooldown_panics\<close>, \<open>byte_escapes_misread\<close>.

  \<^bold>\<open>Not modelled.\<close>

  \<^item> Code without logic of its own: \<^verbatim>\<open>builder/executor.rs\<close> (spawns a future), \<^verbatim>\<open>behaviour/dummy.rs\<close> (does nothing), \<^verbatim>\<open>lib.rs\<close> and the module lists,
    \<^verbatim>\<open>builder/dns_websys/web_context.rs\<close> (access to the browser), and \<^verbatim>\<open>task/ping.rs\<close>, \<^verbatim>\<open>mdns.rs\<close>, \<^verbatim>\<open>upnp.rs\<close>, \<^verbatim>\<open>dcutr.rs\<close>, which only write to the log.
    Logging is left out everywhere.
  \<^item> Callbacks that only forward to a library: the connection callbacks of the request-response behaviour, and listening and polling of the DNS transport.
  \<^item> Time: a call reads the clock once, the poll of the relay behaviour once per round. The range of \<^verbatim>\<open>Instant\<close> is modelled in the relay behaviour, whose
    cooldowns are configurable; the keychain checks its own sums, and the timers of the peer store are a minute ahead.
  \<^item> Concurrency inside the keychain: an operation holds the lock on the cipher from start to end, so operations are
    atomic; that a task is stopped in the middle of a write is modelled.
  \<^item> The filesystem: symbolic links, permissions, the Windows variants. Every call on the modelled disk is durable at once: synchronising a file or
    directory may fail or be interrupted but has no effect of its own, so the loss or reordering of data that was not synchronised before a power failure is
    outside the model, and the properties do not show that the calls that synchronise suffice. The stores of peers answer at once, as the two of the repository do.
  \<^item> Memory and its ownership: argument forms that differ only in ownership are one form, and channels have no capacity. Parsing of
    IP addresses, multiaddresses, URLs and JSON is a parameter.
  \<^item> Builds: all features of the native target are enabled, with the web target's transport beside it. The queue
    \<open>gossipsub_can_propagate\<close> of the task is left out because no code fills it.
\<close>

end
